(* ===== verification/Prelude.thy ===== *)
theory Prelude
  imports Main "HOL-Library.Sublist"
begin

text \<open>
  Shared vocabulary of the development: the collections of rewrite rules the component
  theories fill, results of fallible Go functions as values of a sum type, instants and
  durations, and the generic list lemmas that more than one component uses.
\<close>

section \<open>Collections\<close>

named_theorems scope_simps \<open>characterisations of the scope operations\<close>
named_theorems store_defs \<open>unfolding rules of the persistence operations\<close>
named_theorems redis_defs \<open>unfolding rules of the Redis-side operations\<close>

section \<open>Results of fallible functions\<close>

text \<open>
  A Go function returning \<open>(T, error)\<close> is modelled by a value of type \<open>'e + 'a\<close>:
  \<open>Inl e\<close> for a non-nil error, \<open>Inr x\<close> for a result with a nil error.
\<close>

definition bindE :: "'e + 'a \<Rightarrow> ('a \<Rightarrow> 'e + 'b) \<Rightarrow> 'e + 'b" where
  "bindE r k = (case r of Inl e \<Rightarrow> Inl e | Inr x \<Rightarrow> k x)"

lemma bindE_simps [simp]:
  "bindE (Inl e) k = Inl e"
  "bindE (Inr x) k = k x"
  by (simp_all add: bindE_def)

lemma bindE_eq_Inr_iff: "bindE r k = Inr y \<longleftrightarrow> (\<exists>x. r = Inr x \<and> k x = Inr y)"
  by (cases r) auto

lemma bindE_eq_Inl_iff:
  "bindE r k = Inl e \<longleftrightarrow> r = Inl e \<or> (\<exists>x. r = Inr x \<and> k x = Inl e)"
  by (cases r) auto

definition is_ok :: "'e + 'a \<Rightarrow> bool" where
  "is_ok r = (case r of Inl _ \<Rightarrow> False | Inr _ \<Rightarrow> True)"

lemma is_ok_simps [simp]: "is_ok (Inr x)" "\<not> is_ok (Inl e)"
  by (simp_all add: is_ok_def)

lemma is_ok_iff: "is_ok r \<longleftrightarrow> (\<exists>x. r = Inr x)"
  by (cases r) auto

section \<open>Instants and durations\<close>

text \<open>
  \<open>time.Time\<close> is an instant and \<open>time.Duration\<close> a signed count, both in nanoseconds. The
  source only compares instants, adds configured durations to them and subtracts two of them
  to compare the difference with a bound, so neither is wrapped at 64 bits here.
\<close>

type_synonym instant = int
type_synonym duration = int

definition Millisecond :: duration where "Millisecond = 1000000"
definition Second :: duration where "Second = 1000 * Millisecond"
definition Minute :: duration where "Minute = 60 * Second"
definition Hour :: duration where "Hour = 60 * Minute"

lemmas duration_defs = Millisecond_def Second_def Minute_def Hour_def

text \<open>The zero \<open>time.Time\<close> is the first instant of year 1.\<close>

definition zeroTime :: instant where "zeroTime = - 62135596800 * Second"

definition IsZero :: "instant \<Rightarrow> bool" where "IsZero t \<longleftrightarrow> t = zeroTime"

section \<open>Generic list lemmas\<close>

lemma filter_idem_subset:
  "(\<And>x. x \<in> set xs \<Longrightarrow> P x \<Longrightarrow> Q x) \<Longrightarrow> filter Q (filter P xs) = filter P xs"
  by (induction xs) auto

lemma filter_eq_on_set:
  assumes "distinct zs" "set xs \<subseteq> set zs" "set ys \<subseteq> set zs"
  shows "filter (\<lambda>z. z \<in> set xs) zs = filter (\<lambda>z. z \<in> set ys) zs \<longleftrightarrow> set xs = set ys"
proof
  assume "filter (\<lambda>z. z \<in> set xs) zs = filter (\<lambda>z. z \<in> set ys) zs"
  then have "set (filter (\<lambda>z. z \<in> set xs) zs) = set (filter (\<lambda>z. z \<in> set ys) zs)" by simp
  with assms show "set xs = set ys" by auto
qed simp

lemma distinct_map_update:
  "(\<And>x. x \<in> set xs \<Longrightarrow> f (g x) = f x) \<Longrightarrow> map f (map g xs) = map f xs"
  by (induction xs) auto

lemma find_map_key:
  assumes "\<And>x. x \<in> set xs \<Longrightarrow> P (g x) = P x"
  shows "List.find P (map g xs) = map_option g (List.find P xs)"
  using assms by (induction xs) auto

lemma find_Some_iff_distinct:
  assumes "distinct (map key xs)"
  shows "List.find (\<lambda>x. key x = k) xs = Some y \<longleftrightarrow> y \<in> set xs \<and> key y = k"
  using assms by (induction xs) (auto simp: image_iff)

lemma find_SomeD: "List.find P xs = Some y \<Longrightarrow> y \<in> set xs \<and> P y"
  by (induction xs) (auto split: if_splits)

lemma find_None_iff': "List.find P xs = None \<longleftrightarrow> (\<forall>x\<in>set xs. \<not> P x)"
  by (induction xs) auto

lemma distinct_map_inj: "distinct (map f xs) \<Longrightarrow> x \<in> set xs \<Longrightarrow> y \<in> set xs \<Longrightarrow> f x = f y \<Longrightarrow> x = y"
  by (auto simp: distinct_map dest: inj_onD)

lemma sorted_map_last: "sorted (map f xs) \<Longrightarrow> x \<in> set xs \<Longrightarrow> f x \<le> f (last xs)"
  by (induction xs) auto

lemma sorted_map_hd: "sorted (map f xs) \<Longrightarrow> x \<in> set xs \<Longrightarrow> f (hd xs) \<le> f x"
  by (cases xs) auto

lemma concat_map_eq_Nil: "(\<And>x. f x \<noteq> []) \<Longrightarrow> concat (map f xs) = [] \<longleftrightarrow> xs = []"
  by (cases xs) auto

end
