(* ===== verification/GoStrings.thy ===== *)
theory GoStrings
  imports Prelude
begin

text \<open>
  Go strings are byte sequences; here a \<open>string\<close> (a list of 8-bit \<open>char\<close>s) is the list of a
  Go string's bytes. This theory holds the part of the language and of the packages
  \<open>strings\<close>, \<open>unicode\<close> and \<open>unicode/utf8\<close> that the modelled sources use: the UTF-8 decoding
  behind \<open>for _, r := range s\<close>, \<open>WriteRune\<close>, \<open>TrimSpace\<close>, prefix, suffix and substring tests,
  splitting, joining and replacing.
\<close>

section \<open>Bytes and runes\<close>

type_synonym rune = nat

definition RuneError :: rune where "RuneError = 0xFFFD"
definition MaxASCII :: rune where "MaxASCII = 0x7F"

definition byte :: "char \<Rightarrow> nat" where "byte c = of_char c"
definition unbyte :: "nat \<Rightarrow> char" where "unbyte n = char_of n"

lemma byte_less [simp]: "byte c < 256"
  by (simp add: byte_def nat_of_char_less_256)

lemma byte_unbyte [simp]: "n < 256 \<Longrightarrow> byte (unbyte n) = n"
  by (simp add: byte_def unbyte_def)

lemma unbyte_byte [simp]: "unbyte (byte c) = c"
  by (simp add: byte_def unbyte_def)

lemma byte_inject [simp]: "byte c = byte d \<longleftrightarrow> c = d"
  by (metis unbyte_byte)

definition cont_in :: "nat \<Rightarrow> nat \<Rightarrow> char \<Rightarrow> bool" where
  "cont_in lo hi c \<longleftrightarrow> lo \<le> byte c \<and> byte c \<le> hi"

text \<open>
  \<open>utf8.DecodeRuneInString\<close>: the first rune and its width; an ill-formed sequence gives
  \<open>RuneError\<close> with width 1. The bounds on the second byte rule out overlong forms,
  surrogates and values above \<open>10FFFF\<close>.
\<close>

fun decode_rune :: "string \<Rightarrow> rune \<times> nat" where
  "decode_rune [] = (RuneError, 0)"
| "decode_rune (c0 # cs) =
    (let b0 = byte c0 in
     if b0 < 0x80 then (b0, 1)
     else if b0 < 0xC2 then (RuneError, 1)
     else if b0 < 0xE0 then
       (case cs of
          c1 # _ \<Rightarrow> if cont_in 0x80 0xBF c1
                    then ((b0 - 0xC0) * 64 + (byte c1 - 0x80), 2) else (RuneError, 1)
        | _ \<Rightarrow> (RuneError, 1))
     else if b0 < 0xF0 then
       (case cs of
          c1 # c2 # _ \<Rightarrow>
            if cont_in (if b0 = 0xE0 then 0xA0 else 0x80) (if b0 = 0xED then 0x9F else 0xBF) c1
               \<and> cont_in 0x80 0xBF c2
            then ((b0 - 0xE0) * 4096 + (byte c1 - 0x80) * 64 + (byte c2 - 0x80), 3)
            else (RuneError, 1)
        | _ \<Rightarrow> (RuneError, 1))
     else if b0 < 0xF5 then
       (case cs of
          c1 # c2 # c3 # _ \<Rightarrow>
            if cont_in (if b0 = 0xF0 then 0x90 else 0x80) (if b0 = 0xF4 then 0x8F else 0xBF) c1
               \<and> cont_in 0x80 0xBF c2 \<and> cont_in 0x80 0xBF c3
            then ((b0 - 0xF0) * 262144 + (byte c1 - 0x80) * 4096
                  + (byte c2 - 0x80) * 64 + (byte c3 - 0x80), 4)
            else (RuneError, 1)
        | _ \<Rightarrow> (RuneError, 1))
     else (RuneError, 1))"

lemma decode_rune_width_pos: "s \<noteq> [] \<Longrightarrow> 0 < snd (decode_rune s)"
  by (cases s) (auto simp: Let_def split: list.splits)

lemma decode_rune_width_le: "snd (decode_rune s) \<le> length s"
  by (cases s) (auto simp: Let_def split: list.splits)

text \<open>The runes a \<open>range\<close> loop over the string visits.\<close>

function runes :: "string \<Rightarrow> rune list" where
  "runes s = (if s = [] then [] else fst (decode_rune s) # runes (drop (snd (decode_rune s)) s))"
  by pat_completeness auto
termination
  by (relation "measure length")
    (use decode_rune_width_pos in \<open>auto simp: diff_less\<close>)

declare runes.simps [simp del]

lemma runes_Nil [simp]: "runes [] = []"
  by (simp add: runes.simps)

lemma runes_step:
  "s \<noteq> [] \<Longrightarrow> runes s = fst (decode_rune s) # runes (drop (snd (decode_rune s)) s)"
  by (subst runes.simps) simp

lemma runes_eq_Nil_iff [simp]: "runes s = [] \<longleftrightarrow> s = []"
  by (cases "s = []") (simp_all add: runes_step)

text \<open>\<open>utf8.RuneCountInString\<close>.\<close>

definition RuneCountInString :: "string \<Rightarrow> nat" where
  "RuneCountInString s = length (runes s)"

lemma decode_rune_ascii [simp]: "byte c < 0x80 \<Longrightarrow> decode_rune (c # cs) = (byte c, 1)"
  by simp

lemma runes_ascii_Cons: "byte c < 0x80 \<Longrightarrow> runes (c # cs) = byte c # runes cs"
  by (simp add: runes_step)

lemma runes_ascii: "(\<forall>c\<in>set s. byte c < 0x80) \<Longrightarrow> runes s = map byte s"
  by (induction s) (simp_all add: runes_ascii_Cons del: decode_rune.simps)

text \<open>An ASCII byte is never part of a longer sequence, so it is one of the runes.\<close>

lemma decode_rune_high:
  assumes "0x80 \<le> byte c" shows "0x80 \<le> fst (decode_rune (c # cs))"
proof -
  have e: "0x80 \<le> RuneError" by (simp add: RuneError_def)
  have two: "128 \<le> (b - 0xC0) * 64 + x" if "0xC2 \<le> b" for b x :: nat
    using mult_le_mono1[of 2 "b - 0xC0" 64] that by linarith
  have lin: "128 \<le> d * 4096 + e * 64 + x" "128 \<le> d * 262144 + e * 4096 + z + x" if "1 \<le> d \<or> 16 \<le> e \<and> 2 \<le> e"
    for d e z x :: nat using that by linarith+
  have three: "128 \<le> (b - 0xE0) * 4096 + (y - 0x80) * 64 + x" if "0xE0 \<le> b" "b = 0xE0 \<longrightarrow> 0xA0 \<le> y" for b y x :: nat
    by (rule lin(1)) (use that in arith)
  have four: "128 \<le> (b - 0xF0) * 262144 + (y - 0x80) * 4096 + z + x" if "0xF0 \<le> b" "b = 0xF0 \<longrightarrow> 0x90 \<le> y" for b y z x :: nat
    by (rule lin(2)) (use that in arith)
  have ite: "128 \<le> fst (if C then x else y)" if "C \<Longrightarrow> 128 \<le> fst x" "\<not> C \<Longrightarrow> 128 \<le> fst y"
    for C and x y :: "nat \<times> nat" using that by simp
  consider "cs = []" | c1 where "cs = [c1]" | c1 c2 where "cs = [c1, c2]" | c1 c2 c3 r where "cs = c1 # c2 # c3 # r"
    by (metis list.exhaust)
  then show ?thesis
  proof cases
    case 1
    then show ?thesis using assms e by (simp add: Let_def)
  next
    case (2 c1)
    show ?thesis unfolding 2 decode_rune.simps list.case Let_def
      by (intro ite; unfold fst_conv cont_in_def) (use assms e in \<open>auto intro!: two split: if_splits\<close>)
  next
    case (3 c1 c2)
    show ?thesis unfolding 3 decode_rune.simps list.case Let_def
      by (intro ite; unfold fst_conv cont_in_def) (use assms e in \<open>auto intro!: two three split: if_splits\<close>)
  next
    case (4 c1 c2 c3 r)
    show ?thesis unfolding 4 decode_rune.simps list.case Let_def
      by (intro ite; unfold fst_conv cont_in_def) (use assms e in \<open>auto intro!: two three four split: if_splits\<close>)
  qed
qed

lemma runes_all_ascii:
  "(\<forall>r\<in>set (runes s). r < 0x80) \<longleftrightarrow> (\<forall>c\<in>set s. byte c < 0x80)"
proof (induction s)
  case (Cons c cs)
  show ?case
  proof (cases "byte c < 0x80")
    case True
    then show ?thesis using Cons by (simp add: runes_ascii_Cons)
  next
    case False
    then show ?thesis using decode_rune_high[of c cs] by (simp add: runes_step del: decode_rune.simps)
  qed
qed simp
lemma cont_in_high:
  "cont_in 0x80 h x \<Longrightarrow> 0x80 \<le> byte x" "cont_in 0x90 h x \<Longrightarrow> 0x80 \<le> byte x"
  "cont_in 0xA0 h x \<Longrightarrow> 0x80 \<le> byte x"
  by (auto simp: cont_in_def)

lemma decode_rune_multibyte:
  assumes "snd (decode_rune s) \<noteq> 1" "c \<in> set (take (snd (decode_rune s)) s)"
  shows "0x80 \<le> byte c"
proof (cases s)
  case (Cons c0 cs)
  define b0 where "b0 = byte c0"
  have b0: "0x80 \<le> b0"
    using assms(1) Cons decode_rune_ascii[of c0 cs] unfolding b0_def by (metis not_less snd_conv)
  consider (two) c1 r where "cs = c1 # r" "snd (decode_rune s) = 2" "0x80 \<le> byte c1"
    | (three) c1 c2 r where "cs = c1 # c2 # r" "snd (decode_rune s) = 3" "0x80 \<le> byte c1" "0x80 \<le> byte c2"
    | (four) c1 c2 c3 r where "cs = c1 # c2 # c3 # r" "snd (decode_rune s) = 4" "0x80 \<le> byte c1"
        "0x80 \<le> byte c2" "0x80 \<le> byte c3"
  proof -
    have "\<not> b0 < 0x80" using b0 by simp
    consider "b0 < 0xC2" | "\<not> b0 < 0xC2" "b0 < 0xE0" | "\<not> b0 < 0xE0" "b0 < 0xF0" | "\<not> b0 < 0xF0" "b0 < 0xF5"
      | "\<not> b0 < 0xF5" by linarith
    then show thesis
    proof cases
      case 2
      then show ?thesis using assms(1) Cons b0 that(1)
        by (auto simp: Let_def simp flip: b0_def dest: cont_in_high split: list.splits if_split_asm)
    next
      case 3
      then show ?thesis using assms(1) Cons b0 that(2)
        by (auto simp: Let_def simp flip: b0_def split: list.splits if_split_asm
            dest!: cont_in_high)
    next
      case 4
      then show ?thesis using assms(1) Cons b0 that(3)
        by (auto simp: Let_def simp flip: b0_def split: list.splits if_split_asm
            dest!: cont_in_high)
    qed (use assms(1) Cons b0 in \<open>simp_all add: Let_def flip: b0_def\<close>)
  qed
  then show ?thesis using assms(2) Cons b0
    by cases (auto simp add: b0_def take_Cons' numeral_eq_Suc simp del: decode_rune.simps)
qed (use assms in simp)

lemma ascii_in_runes: "c \<in> set s \<Longrightarrow> byte c < 0x80 \<Longrightarrow> byte c \<in> set (runes s)"
proof (induction s rule: runes.induct)
  case (1 s)
  let ?w = "snd (decode_rune s)"
  have ne: "s \<noteq> []" using "1.prems" by auto
  have "c \<in> set (take ?w s) \<or> c \<in> set (drop ?w s)"
    using "1.prems"(1) by (metis Un_iff append_take_drop_id set_append)
  then show ?case
  proof
    assume "c \<in> set (drop ?w s)"
    then show ?thesis using 1 ne by (simp add: runes_step)
  next
    assume c: "c \<in> set (take ?w s)"
    then have "?w = 1" using decode_rune_multibyte[of s c] "1.prems"(2) by fastforce
    then have "c = hd s" using c ne by (cases s) (auto simp del: decode_rune.simps)
    then show ?thesis using ne "1.prems"(2) by (cases s) (simp_all add: runes_step del: decode_rune.simps)
  qed
qed

lemma length_runes_le: "length (runes s) \<le> length s"
proof (induction s rule: runes.induct)
  case (1 s)
  show ?case
  proof (cases "s = []")
    case False
    then have "length (runes (drop (snd (decode_rune s)) s)) \<le> length s - snd (decode_rune s)"
      using 1 by fastforce
    with False decode_rune_width_pos[OF False] decode_rune_width_le[of s] show ?thesis
      by (simp add: runes_step)
  qed simp
qed

text \<open>\<open>strings.Builder.WriteRune\<close> / \<open>utf8.AppendRune\<close>: surrogates and out-of-range values are
  written as \<open>RuneError\<close>.\<close>

definition valid_rune :: "rune \<Rightarrow> bool" where
  "valid_rune r \<longleftrightarrow> r < 0xD800 \<or> (0xE000 \<le> r \<and> r \<le> 0x10FFFF)"

definition encode_valid_rune :: "rune \<Rightarrow> string" where
  "encode_valid_rune r =
    (if r < 0x80 then [unbyte r]
     else if r < 0x800 then [unbyte (0xC0 + r div 64), unbyte (0x80 + r mod 64)]
     else if r < 0x10000 then
       [unbyte (0xE0 + r div 4096), unbyte (0x80 + r div 64 mod 64), unbyte (0x80 + r mod 64)]
     else
       [unbyte (0xF0 + r div 262144), unbyte (0x80 + r div 4096 mod 64),
        unbyte (0x80 + r div 64 mod 64), unbyte (0x80 + r mod 64)])"

definition encode_rune :: "rune \<Rightarrow> string" where
  "encode_rune r = encode_valid_rune (if valid_rune r then r else RuneError)"

text \<open>\<open>utf8.ValidString\<close>: no position of the string decodes to the width-1 error value.\<close>

definition ill_formed_at :: "string \<Rightarrow> bool" where
  "ill_formed_at s \<longleftrightarrow> s \<noteq> [] \<and> decode_rune s = (RuneError, 1)"

function ValidString :: "string \<Rightarrow> bool" where
  "ValidString s =
    (if s = [] then True
     else \<not> ill_formed_at s \<and> ValidString (drop (snd (decode_rune s)) s))"
  by pat_completeness auto
termination
  by (relation "measure length")
    (use decode_rune_width_pos in \<open>auto simp: diff_less\<close>)

declare ValidString.simps [simp del]

lemma ValidString_Nil [simp]: "ValidString []"
  by (simp add: ValidString.simps)

lemma ValidString_step:
  "s \<noteq> [] \<Longrightarrow> ValidString s \<longleftrightarrow>
     \<not> ill_formed_at s \<and> ValidString (drop (snd (decode_rune s)) s)"
  by (subst ValidString.simps) simp

lemma ValidString_ascii: "(\<forall>c\<in>set s. byte c < 0x80) \<Longrightarrow> ValidString s"
  by (induction s) (auto simp: ValidString_step ill_formed_at_def RuneError_def
    simp del: decode_rune.simps)

section \<open>UTF-8 round trips\<close>

lemma valid_rune_RuneError [simp]: "valid_rune RuneError"
  by (simp add: valid_rune_def RuneError_def)

lemma digit64: "d < 64 \<Longrightarrow> (x * 64 + d) mod 64 = d" "d < 64 \<Longrightarrow> (x * 64 + d) div 64 = x"
  for d :: nat
  by simp_all

lemma base64_digits:
  fixes r :: nat
  obtains a b c d where "r = ((a * 64 + b) * 64 + c) * 64 + d" "b < 64" "c < 64" "d < 64"
    "r div 64 = (a * 64 + b) * 64 + c" "r div 4096 = a * 64 + b" "r div 262144 = a"
    "r mod 64 = d" "r div 64 mod 64 = c" "r div 4096 mod 64 = b"
proof -
  have e: "r div 4096 = r div 64 div 64" "r div 262144 = r div 64 div 64 div 64"
    by (simp_all flip: div_mult2_eq)
  show thesis
    by (rule that[of "r div 64 div 64 div 64" "r div 64 div 64 mod 64" "r div 64 mod 64" "r mod 64"];
      simp only: e div_mult_mod_eq pos_mod_bound mod_less_divisor zero_less_numeral)
qed

lemma decode_encode_valid_rune:
  assumes "valid_rune r"
  shows "decode_rune (encode_valid_rune r @ s) = (r, length (encode_valid_rune r))"
proof -
  obtain a b c d where r: "r = ((a * 64 + b) * 64 + c) * 64 + d" "b < 64" "c < 64" "d < 64"
    and q: "r div 64 = (a * 64 + b) * 64 + c" "r div 4096 = a * 64 + b" "r div 262144 = a"
    and m: "r mod 64 = d" "r div 64 mod 64 = c" "r div 4096 mod 64 = b"
    by (rule base64_digits)
  consider (1) "r < 0x80" | (2) "0x80 \<le> r" "r < 0x800" | (3) "0x800 \<le> r" "r < 0x10000"
    | (4) "0x10000 \<le> r" by linarith
  then show ?thesis
  proof cases
    case 1
    then show ?thesis by (simp add: encode_valid_rune_def)
  next
    case 2
    then have ab: "a = 0" "b = 0" using r by auto
    then have "c < 0x20" "2 \<le> c" using 2 r by simp_all
    moreover have "encode_valid_rune r = [unbyte (0xC0 + c), unbyte (0x80 + d)]"
      unfolding encode_valid_rune_def m unfolding q using 2 ab by simp
    ultimately show ?thesis using r ab by (simp add: cont_in_def Let_def)
  next
    case 3
    then have "a = 0" using r by auto
    then have "b < 0x10" "b = 0 \<longrightarrow> 0x20 \<le> c" using 3 r by auto
    moreover have "b = 0xD \<longrightarrow> c < 0x20" using assms r \<open>a = 0\<close> unfolding valid_rune_def by auto
    moreover have "encode_valid_rune r = [unbyte (0xE0 + b), unbyte (0x80 + c), unbyte (0x80 + d)]"
      unfolding encode_valid_rune_def m unfolding q using 3 \<open>a = 0\<close> r by simp
    ultimately show ?thesis using r \<open>a = 0\<close> by (auto simp: cont_in_def Let_def)
  next
    case 4
    then have "r \<le> 0x10FFFF" using assms by (simp add: valid_rune_def)
    then have "a < 5" using r by auto
    moreover have "a = 0 \<longrightarrow> 0x10 \<le> b" using 4 r by auto
    moreover have "a = 4 \<longrightarrow> b < 0x10" using \<open>r \<le> 0x10FFFF\<close> r by auto
    moreover have "encode_valid_rune r =
      [unbyte (0xF0 + a), unbyte (0x80 + b), unbyte (0x80 + c), unbyte (0x80 + d)]"
      unfolding encode_valid_rune_def m unfolding q using 4 by simp
    ultimately show ?thesis using r by (auto simp: cont_in_def Let_def)
  qed
qed

lemma decode_encode_rune:
  "valid_rune r \<Longrightarrow> decode_rune (encode_rune r @ s) = (r, length (encode_rune r))"
  by (simp add: encode_rune_def decode_encode_valid_rune)

text \<open>A continuation byte is \<open>0x80\<close> plus a base-64 digit.\<close>

lemma cont_byteE:
  assumes "cont_in lo hi c" "0x80 \<le> lo" "hi \<le> 0xBF"
  obtains x where "byte c = 0x80 + x" "x < 64" "lo \<le> 0x80 + x" "0x80 + x \<le> hi" "c = unbyte (0x80 + x)"
proof -
  define x where "x = byte c - 0x80"
  have b: "lo \<le> byte c" "byte c \<le> hi" using assms(1) by (simp_all add: cont_in_def)
  then have x: "byte c = 0x80 + x" using assms by (simp add: x_def)
  have "c = unbyte (0x80 + x)" by (metis x unbyte_byte)
  with x b assms show thesis by (intro that[of x]) auto
qed

lemma cont_byte_digit: "cont_in 0x80 0xBF c \<Longrightarrow> \<exists>x<64. c = unbyte (0x80 + x)"
  by (erule cont_byteE) (simp, simp, blast)

lemma digits64_div_mod:
  fixes a :: nat
  assumes "x < 64" "y < 64" "z < 64"
  shows "(a * 4096 + x * 64 + y) div 4096 = a" "(a * 4096 + x * 64 + y) div 64 mod 64 = x"
    "(a * 4096 + x * 64 + y) mod 64 = y"
    "(a * 262144 + x * 4096 + y * 64 + z) div 262144 = a"
    "(a * 262144 + x * 4096 + y * 64 + z) div 4096 mod 64 = x"
    "(a * 262144 + x * 4096 + y * 64 + z) div 64 mod 64 = y"
    "(a * 262144 + x * 4096 + y * 64 + z) mod 64 = z"
proof -
  have e: "r div 4096 = r div 64 div 64" "r div 262144 = r div 64 div 64 div 64" for r :: nat
    by (simp_all flip: div_mult2_eq)
  have n: "a * 4096 + x * 64 + y = (a * 64 + x) * 64 + y"
    "a * 262144 + x * 4096 + y * 64 + z = ((a * 64 + x) * 64 + y) * 64 + z" by simp_all
  show "(a * 4096 + x * 64 + y) div 4096 = a" "(a * 4096 + x * 64 + y) div 64 mod 64 = x"
    "(a * 4096 + x * 64 + y) mod 64 = y"
    "(a * 262144 + x * 4096 + y * 64 + z) div 262144 = a"
    "(a * 262144 + x * 4096 + y * 64 + z) div 4096 mod 64 = x"
    "(a * 262144 + x * 4096 + y * 64 + z) div 64 mod 64 = y"
    "(a * 262144 + x * 4096 + y * 64 + z) mod 64 = z"
    by (simp_all only: n e digit64 assms)
qed

text \<open>A well-formed position decodes to a valid rune whose encoding is the bytes read.\<close>

lemma encode_decode_rune:
  assumes "s \<noteq> []" "\<not> ill_formed_at s"
  shows "valid_rune (fst (decode_rune s)) \<and>
    encode_valid_rune (fst (decode_rune s)) = take (snd (decode_rune s)) s"
proof -
  obtain c0 cs where s: "s = c0 # cs" using assms(1) by (cases s) auto
  define b0 where "b0 = byte c0"
  have nb: "decode_rune s \<noteq> (RuneError, 1)" using assms by (simp add: ill_formed_at_def)
  have c0: "c0 = unbyte b0" by (simp add: b0_def)
  consider (1) "b0 < 0x80" | (2) "0xC2 \<le> b0" "b0 < 0xE0" | (3) "0xE0 \<le> b0" "b0 < 0xF0"
    | (4) "0xF0 \<le> b0" "b0 < 0xF5"
    using nb by (auto simp: s b0_def Let_def split: if_splits)
  then show ?thesis
  proof cases
    case 1
    then show ?thesis by (simp add: s b0_def valid_rune_def encode_valid_rune_def)
  next
    case 2
    then obtain c1 cs1 where cs: "cs = c1 # cs1" and c1: "cont_in 0x80 0xBF c1"
      using nb by (auto simp: s b0_def Let_def split: list.splits if_splits)
    obtain x where x: "x < 64" "c1 = unbyte (0x80 + x)" using cont_byte_digit[OF c1] by blast
    obtain a where a: "b0 = 0xC0 + a" "2 \<le> a" "a < 0x20"
      using 2 le_Suc_ex[of "0xC0" b0] by auto
    have d: "decode_rune s = (a * 64 + x, 2)"
      using a x by (simp add: s cs c0 cont_in_def)
    show ?thesis unfolding d using a x
      by (simp add: s cs c0 valid_rune_def encode_valid_rune_def digit64)
  next
    case 3
    then obtain c1 c2 cs2 where cs: "cs = c1 # c2 # cs2"
      and c1: "cont_in (if b0 = 0xE0 then 0xA0 else 0x80) (if b0 = 0xED then 0x9F else 0xBF) c1"
      and c2: "cont_in 0x80 0xBF c2"
      using nb by (auto simp: s b0_def Let_def split: list.splits if_splits)
    obtain x where x: "x < 64" "c1 = unbyte (0x80 + x)"
      and "(if b0 = 0xE0 then 0xA0 else 0x80) \<le> 0x80 + x" "0x80 + x \<le> (if b0 = 0xED then 0x9F else 0xBF)"
      by (rule cont_byteE[OF c1]) simp_all
    then have x': "b0 = 0xE0 \<longrightarrow> 0x20 \<le> x" "b0 = 0xED \<longrightarrow> x < 0x20" by (auto split: if_splits)
    obtain y where y: "y < 64" "c2 = unbyte (0x80 + y)" using cont_byte_digit[OF c2] by blast
    obtain a where a: "b0 = 0xE0 + a" "a < 0x10" using 3 le_Suc_ex[of "0xE0" b0] by auto
    have d: "decode_rune s = (a * 4096 + x * 64 + y, 3)"
      using a x x' y by (auto simp: s cs c0 cont_in_def)
    have "0x800 \<le> a * 4096 + x * 64 + y" "a * 4096 + x * 64 + y < 0x10000"
      using a x x' y by auto
    moreover have "a * 4096 + x * 64 + y < 0xD800 \<or> 0xE000 \<le> a * 4096 + x * 64 + y"
      using a x x' y by (cases "a = 13"; cases "a < 13") auto
    ultimately show ?thesis unfolding d using a x y
      by (simp add: s cs c0 valid_rune_def encode_valid_rune_def digits64_div_mod)
  next
    case 4
    then obtain c1 c2 c3 cs3 where cs: "cs = c1 # c2 # c3 # cs3"
      and c1: "cont_in (if b0 = 0xF0 then 0x90 else 0x80) (if b0 = 0xF4 then 0x8F else 0xBF) c1"
      and c2: "cont_in 0x80 0xBF c2" and c3: "cont_in 0x80 0xBF c3"
      using nb by (auto simp: s b0_def Let_def split: list.splits if_splits)
    obtain x where x: "x < 64" "c1 = unbyte (0x80 + x)"
      and "(if b0 = 0xF0 then 0x90 else 0x80) \<le> 0x80 + x" "0x80 + x \<le> (if b0 = 0xF4 then 0x8F else 0xBF)"
      by (rule cont_byteE[OF c1]) simp_all
    then have x': "b0 = 0xF0 \<longrightarrow> 0x10 \<le> x" "b0 = 0xF4 \<longrightarrow> x < 0x10" by (auto split: if_splits)
    obtain y where y: "y < 64" "c2 = unbyte (0x80 + y)" using cont_byte_digit[OF c2] by blast
    obtain z where z: "z < 64" "c3 = unbyte (0x80 + z)" using cont_byte_digit[OF c3] by blast
    obtain a where a: "b0 = 0xF0 + a" "a < 5" using 4 le_Suc_ex[of "0xF0" b0] by auto
    have d: "decode_rune s = (a * 262144 + x * 4096 + y * 64 + z, 4)"
      using a x x' y z by (auto simp: s cs c0 cont_in_def)
    have "0x10000 \<le> a * 262144 + x * 4096 + y * 64 + z" "a * 262144 + x * 4096 + y * 64 + z \<le> 0x10FFFF"
      using a x x' y z by auto
    then show ?thesis unfolding d using a x y z
      by (simp add: s cs c0 valid_rune_def encode_valid_rune_def digits64_div_mod)
  qed
qed

lemma encode_runes:
  "ValidString s \<Longrightarrow> concat (map encode_rune (runes s)) = s"
proof (induction s rule: runes.induct)
  case (1 s)
  show ?case
  proof (cases "s = []")
    case False
    let ?n = "snd (decode_rune s)"
    have "\<not> ill_formed_at s" and v: "ValidString (drop ?n s)"
      using False 1(2) by (simp_all add: ValidString_step)
    then have "encode_rune (fst (decode_rune s)) = take ?n s"
      using encode_decode_rune[OF False] by (simp add: encode_rune_def)
    moreover have "concat (map encode_rune (runes (drop ?n s))) = drop ?n s"
      using 1(1)[OF False v] .
    ultimately show ?thesis using False by (simp add: runes_step)
  qed simp
qed

section \<open>Package strings\<close>

text \<open>\<open>strings.HasPrefix\<close>, \<open>strings.HasSuffix\<close>, \<open>strings.Contains\<close>, \<open>strings.ContainsAny\<close> with an
  ASCII set, \<open>strings.Count\<close> and \<open>strings.IndexByte\<close> of a single byte.\<close>

definition HasPrefix :: "string \<Rightarrow> string \<Rightarrow> bool" where
  "HasPrefix s p \<longleftrightarrow> take (length p) s = p"

definition HasSuffix :: "string \<Rightarrow> string \<Rightarrow> bool" where
  "HasSuffix s p \<longleftrightarrow> length p \<le> length s \<and> drop (length s - length p) s = p"

fun Contains :: "string \<Rightarrow> string \<Rightarrow> bool" where
  "Contains [] p \<longleftrightarrow> p = []"
| "Contains (c # s) p \<longleftrightarrow> HasPrefix (c # s) p \<or> Contains s p"

definition ContainsAny :: "string \<Rightarrow> string \<Rightarrow> bool" where
  "ContainsAny s chars \<longleftrightarrow> list_ex (\<lambda>c. c \<in> set chars) s"

definition CountByte :: "string \<Rightarrow> char \<Rightarrow> nat" where
  "CountByte s c = length (filter (\<lambda>d. d = c) s)"

fun IndexByte :: "string \<Rightarrow> char \<Rightarrow> nat option" where
  "IndexByte [] c = None"
| "IndexByte (d # s) c = (if d = c then Some 0 else map_option Suc (IndexByte s c))"

lemma HasPrefix_iff_prefix: "HasPrefix s p \<longleftrightarrow> prefix p s"
  by (metis HasPrefix_def append_take_drop_id prefix_def append_eq_conv_conj)

lemma HasSuffix_iff_suffix: "HasSuffix s p \<longleftrightarrow> suffix p s"
  unfolding HasSuffix_def suffix_def
  by (metis append_eq_conv_conj append_take_drop_id diff_le_self le_add2 length_append
      length_drop diff_diff_cancel add_diff_cancel_right')

lemma HasSuffix_append [simp]: "HasSuffix (s @ p) p"
  by (simp add: HasSuffix_def)

lemma IndexByte_SomeD:
  "IndexByte s c = Some i \<Longrightarrow> i < length s \<and> s ! i = c \<and> c \<notin> set (take i s)"
  by (induction s arbitrary: i) (auto split: if_splits)

lemma IndexByte_None_iff: "IndexByte s c = None \<longleftrightarrow> c \<notin> set s"
  by (induction s) auto

lemma IndexByte_append: "c \<notin> set s \<Longrightarrow> IndexByte (s @ c # t) c = Some (length s)"
  by (induction s) auto

text \<open>\<open>strings.Join\<close>, \<open>strings.Split\<close> on a one-byte separator, \<open>strings.Cut\<close> at a byte,
  \<open>strings.ReplaceAll\<close> of a byte.\<close>

fun Join :: "string list \<Rightarrow> string \<Rightarrow> string" where
  "Join [] sep = []"
| "Join [x] sep = x"
| "Join (x # y # ys) sep = x @ sep @ Join (y # ys) sep"

fun SplitByte :: "string \<Rightarrow> char \<Rightarrow> string list" where
  "SplitByte [] c = [[]]"
| "SplitByte (d # s) c =
    (if d = c then [] # SplitByte s c
     else (case SplitByte s c of [] \<Rightarrow> [[d]] | p # ps \<Rightarrow> (d # p) # ps))"

definition CutByte :: "string \<Rightarrow> char \<Rightarrow> string \<times> string \<times> bool" where
  "CutByte s c = (case IndexByte s c of
     None \<Rightarrow> (s, [], False)
   | Some i \<Rightarrow> (take i s, drop (Suc i) s, True))"

definition ReplaceByte :: "char \<Rightarrow> string \<Rightarrow> string \<Rightarrow> string" where
  "ReplaceByte c t s = concat (map (\<lambda>d. if d = c then t else [d]) s)"

lemma SplitByte_not_Nil [simp]: "SplitByte s c \<noteq> []"
  by (cases s) (auto split: list.splits)

lemma SplitByte_no_sep: "c \<notin> set s \<Longrightarrow> SplitByte s c = [s]"
  by (induction s) auto

lemma SplitByte_append: "c \<notin> set s \<Longrightarrow> SplitByte (s @ c # t) c = s # SplitByte t c"
  by (induction s) auto

lemma SplitByte_parts: "p \<in> set (SplitByte s c) \<Longrightarrow> c \<notin> set p"
  by (induction s arbitrary: p) (auto split: if_splits list.splits)

lemma SplitByte_Join:
  assumes "xs \<noteq> []" "\<forall>x\<in>set xs. c \<notin> set x"
  shows "SplitByte (Join xs [c]) c = xs"
  using assms by (induction xs "[c]" rule: Join.induct) (auto simp: SplitByte_no_sep SplitByte_append)

lemma Join_SplitByte: "Join (SplitByte s c) [c] = s"
proof (induction s)
  case (Cons d s)
  then show ?case by (cases "SplitByte s c" rule: Join.cases[of "(_, [c])", simplified])
      (auto split: list.splits)
qed simp

lemma set_Join: "set (Join xs sep) \<subseteq> \<Union> (set ` set xs) \<union> set sep"
  by (induction xs sep rule: Join.induct) auto

text \<open>A label of a dotted name is empty exactly at a leading, trailing or doubled separator.\<close>

lemma SplitByte_hd_empty: "hd (SplitByte s c) = [] \<longleftrightarrow> s = [] \<or> hd s = c"
  by (cases s) (auto split: list.splits)

lemma SplitByte_tl_empty:
  "[] \<in> set (tl (SplitByte s c)) \<longleftrightarrow> s \<noteq> [] \<and> last s = c \<or> Contains s [c, c]"
proof (induction s)
  case (Cons d s)
  obtain p ps where p: "SplitByte s c = p # ps" by (meson SplitByte_not_Nil neq_Nil_conv)
  have "p = [] \<longleftrightarrow> s = [] \<or> hd s = c" using SplitByte_hd_empty[of s c] p by simp
  then show ?case using Cons p by (cases s) (auto simp: HasPrefix_def)
qed (simp add: HasPrefix_def)

lemma SplitByte_empty_label:
  "[] \<in> set (SplitByte s c) \<longleftrightarrow> s = [] \<or> hd s = c \<or> last s = c \<or> Contains s [c, c]"
proof -
  have "[] \<in> set (SplitByte s c) \<longleftrightarrow> hd (SplitByte s c) = [] \<or> [] \<in> set (tl (SplitByte s c))"
    by (cases "SplitByte s c") auto
  then show ?thesis using SplitByte_hd_empty[of s c] SplitByte_tl_empty[of s c] by blast
qed

lemma length_SplitByte: "length (SplitByte s c) = Suc (CountByte s c)"
  by (induction s) (auto simp: CountByte_def split: list.splits)

lemma Contains_byte: "Contains s [c] \<longleftrightarrow> c \<in> set s"
  by (induction s) (auto simp: HasPrefix_def)

lemma CutByte_append: "c \<notin> set s \<Longrightarrow> CutByte (s @ c # t) c = (s, t, True)"
  by (simp add: CutByte_def IndexByte_append)

section \<open>Decimal rendering\<close>

text \<open>The verb \<open>%d\<close> and \<open>strconv.FormatInt\<close> in base 10.\<close>

fun decimal_nat :: "nat \<Rightarrow> string" where
  "decimal_nat n =
    (if n < 10 then [unbyte (0x30 + n)] else decimal_nat (n div 10) @ [unbyte (0x30 + n mod 10)])"

declare decimal_nat.simps [simp del]

definition decimal :: "int \<Rightarrow> string" where
  "decimal i = (if i < 0 then CHR ''-'' # decimal_nat (nat (- i)) else decimal_nat (nat i))"

lemma decimal_nat_digits: "\<forall>c\<in>set (decimal_nat n). 0x30 \<le> byte c \<and> byte c \<le> 0x39"
proof (induction n rule: decimal_nat.induct)
  case (1 n)
  have d: "m < 10 \<Longrightarrow> byte (unbyte (0x30 + m)) = 0x30 + m" for m by simp
  show ?case
  proof (cases "n < 10")
    case True
    then show ?thesis using d[of n] by (simp add: decimal_nat.simps[of n])
  next
    case False
    then show ?thesis using 1 d[of "n mod 10"] by (simp add: decimal_nat.simps[of n])
  qed
qed

lemma decimal_nat_not_Nil [simp]: "decimal_nat n \<noteq> []"
  by (subst decimal_nat.simps) simp

fun decimal_value :: "string \<Rightarrow> nat" where
  "decimal_value s = foldl (\<lambda>n c. 10 * n + (byte c - 0x30)) 0 s"

lemma decimal_value_decimal_nat: "decimal_value (decimal_nat n) = n"
proof (induction n rule: decimal_nat.induct)
  case (1 n)
  have d: "m < 10 \<Longrightarrow> byte (unbyte (0x30 + m)) = 0x30 + m" for m by simp
  show ?case
  proof (cases "n < 10")
    case True
    then show ?thesis using d[of n] by (simp add: decimal_nat.simps[of n])
  next
    case False
    then show ?thesis using 1 d[of "n mod 10"] by (simp add: decimal_nat.simps[of n])
  qed
qed

lemma decimal_nat_inject [simp]: "decimal_nat m = decimal_nat n \<longleftrightarrow> m = n"
  by (metis decimal_value_decimal_nat)

lemma decimal_inject [simp]: "decimal i = decimal j \<longleftrightarrow> i = j"
proof -
  have "CHR ''-'' \<notin> set (decimal_nat n)" for n
    using decimal_nat_digits[of n] by (fastforce simp: byte_def)
  then have "CHR ''-'' # decimal_nat m \<noteq> decimal_nat n" for m n by (metis list.set_intros(1))
  then show ?thesis by (auto simp: decimal_def dest: sym)
qed

section \<open>Repairing and cutting UTF-8\<close>

lemma ValidString_encode:
  "valid_rune r \<Longrightarrow> ValidString (encode_valid_rune r @ t) \<longleftrightarrow> ValidString t"
proof -
  assume v: "valid_rune r"
  note d = decode_encode_valid_rune[OF v, of t]
  have "\<not> ill_formed_at (encode_valid_rune r @ t)"
    using d by (auto simp: ill_formed_at_def RuneError_def encode_valid_rune_def split: if_splits)
  moreover have "encode_valid_rune r \<noteq> []" by (simp add: encode_valid_rune_def)
  ultimately show ?thesis using ValidString_step[of "encode_valid_rune r @ t"] d by simp
qed

lemma ValidString_take_rune:
  "s \<noteq> [] \<Longrightarrow> \<not> ill_formed_at s \<Longrightarrow> ValidString (take (snd (decode_rune s)) s @ t) \<longleftrightarrow> ValidString t"
  using encode_decode_rune[of s] ValidString_encode by metis

text \<open>\<open>strings.ToValidUTF8\<close>: each run of invalid bytes becomes one replacement.\<close>

function to_valid :: "string \<Rightarrow> bool \<Rightarrow> string \<Rightarrow> string" where
  "to_valid repl in_run s =
    (if s = [] then []
     else if ill_formed_at s then (if in_run then [] else repl) @ to_valid repl True (drop 1 s)
     else take (snd (decode_rune s)) s @ to_valid repl False (drop (snd (decode_rune s)) s))"
  by pat_completeness auto
termination
  by (relation "measure (\<lambda>(_, _, s). length s)")
    (use decode_rune_width_pos in \<open>auto simp: diff_less\<close>)

declare to_valid.simps [simp del]

definition ToValidUTF8 :: "string \<Rightarrow> string \<Rightarrow> string" where
  "ToValidUTF8 s repl = to_valid repl False s"

lemma ValidString_to_valid:
  assumes "valid_rune r"
  shows "ValidString (to_valid (encode_valid_rune r) b s)"
proof (induction "encode_valid_rune r" b s rule: to_valid.induct)
  case (1 b s)
  then show ?case
    by (subst to_valid.simps) (auto simp: ValidString_encode[OF assms] ValidString_take_rune)
qed

lemma to_valid_id: "ValidString s \<Longrightarrow> to_valid repl b s = s"
proof (induction repl b s rule: to_valid.induct)
  case (1 repl b s)
  then show ?case
    by (cases "s = []") (auto simp: to_valid.simps[of repl b] ValidString_step)
qed

text \<open>A well-formed string has a rune boundary among any four consecutive offsets.\<close>

lemma decode_rune_width_le4: "snd (decode_rune s) \<le> 4"
  by (cases s) (auto simp: Let_def split: list.splits)

lemma ValidString_boundary:
  assumes "ValidString s" "n \<le> length s"
  shows "\<exists>k\<le>3. k \<le> n \<and> ValidString (take (n - k) s)"
  using assms
proof (induction s arbitrary: n rule: ValidString.induct)
  case (1 s)
  show ?case
  proof (cases "s = [] \<or> n < snd (decode_rune s)")
    case True
    then show ?thesis using decode_rune_width_le4[of s] "1.prems" by (intro exI[of _ n]) auto
  next
    case False
    let ?w = "snd (decode_rune s)"
    from False have s: "s \<noteq> []" "?w \<le> n" by auto
    have v: "\<not> ill_formed_at s" "ValidString (drop ?w s)" using "1.prems"(1) s(1) ValidString_step by auto
    then obtain k where k: "k \<le> 3" "k \<le> n - ?w" "ValidString (take (n - ?w - k) (drop ?w s))"
      using "1.IH"[OF s(1) v(2), of "n - ?w"] "1.prems"(2) by (metis diff_le_mono length_drop)
    have "take (n - k) s = take ?w s @ take (n - ?w - k) (drop ?w s)"
      using k(2) s(2) by (simp flip: take_add)
    then show ?thesis using k ValidString_take_rune[OF s(1) v(1)] by auto
  qed
qed

section \<open>White space\<close>

text \<open>
  The code points of \<open>unicode.IsSpace\<close> and their UTF-8 encodings. \<open>strings.TrimSpace\<close> removes
  encodings of white space from both ends; each encoding is a complete rune at either end, so
  removing them as prefixes and as suffixes is what the rune-wise loops of the library do.
\<close>

definition space_runes :: "rune list" where
  "space_runes = [0x09, 0x0A, 0x0B, 0x0C, 0x0D, 0x20, 0x85, 0xA0, 0x1680,
     0x2000, 0x2001, 0x2002, 0x2003, 0x2004, 0x2005, 0x2006, 0x2007, 0x2008, 0x2009, 0x200A,
     0x2028, 0x2029, 0x202F, 0x205F, 0x3000]"

definition IsSpace :: "rune \<Rightarrow> bool" where
  "IsSpace r \<longleftrightarrow> r \<in> set space_runes"

definition space_encodings :: "string list" where
  "space_encodings = map encode_rune space_runes"

definition strip_prefix :: "string list \<Rightarrow> string \<Rightarrow> string option" where
  "strip_prefix es s = map_option (\<lambda>e. drop (length e) s) (List.find (HasPrefix s) es)"

lemma strip_prefix_shorter:
  assumes "strip_prefix es s = Some t" "[] \<notin> set es"
  shows "length t < length s"
proof -
  obtain e where e: "List.find (HasPrefix s) es = Some e" "t = drop (length e) s"
    using assms(1) by (auto simp: strip_prefix_def)
  then have "e \<in> set es" "HasPrefix s e" by (auto dest: find_SomeD)
  then have "e \<noteq> []" "prefix e s" using assms(2) by (auto simp: HasPrefix_iff_prefix)
  then show ?thesis using e by (cases s) (auto dest: prefix_length_le)
qed

function trim_with :: "string list \<Rightarrow> string \<Rightarrow> string" where
  "trim_with es s =
    (if [] \<in> set es then s
     else (case strip_prefix es s of None \<Rightarrow> s | Some t \<Rightarrow> trim_with es t))"
  by pat_completeness auto
termination
  by (relation "measure (\<lambda>(es, s). length s)") (auto dest: strip_prefix_shorter)

declare trim_with.simps [simp del]

definition TrimSpace :: "string \<Rightarrow> string" where
  "TrimSpace s = rev (trim_with (map rev space_encodings) (rev (trim_with space_encodings s)))"

text \<open>\<open>strings.Fields\<close>: the maximal runs of bytes that are not part of a space.\<close>

function fields_with :: "string list \<Rightarrow> string \<Rightarrow> string \<Rightarrow> string list" where
  "fields_with es cur s =
    (let completed = (if cur = [] then [] else [cur]) in
     if s = [] then completed
     else (case strip_prefix es s of
         Some t \<Rightarrow> if length t < length s then completed @ fields_with es [] t else completed
       | None \<Rightarrow> fields_with es (cur @ [hd s]) (tl s)))"
  by pat_completeness auto
termination
  by (relation "measure (\<lambda>(_, _, s). length s)") auto

declare fields_with.simps [simp del]

definition Fields :: "string \<Rightarrow> string list" where
  "Fields s = fields_with space_encodings [] s"

definition no_prefix :: "string list \<Rightarrow> string \<Rightarrow> bool" where
  "no_prefix es s \<longleftrightarrow> (\<forall>e\<in>set es. \<not> prefix e s)"

lemma strip_prefix_None_iff: "strip_prefix es s = None \<longleftrightarrow> no_prefix es s"
  by (simp add: strip_prefix_def no_prefix_def HasPrefix_iff_prefix find_None_iff')

lemma trim_with_fix: "no_prefix es s \<Longrightarrow> trim_with es s = s"
  by (subst trim_with.simps) (simp flip: strip_prefix_None_iff)

lemma strip_prefix_suffix: "strip_prefix es s = Some t \<Longrightarrow> suffix t s"
  by (auto simp: strip_prefix_def suffix_drop)

lemma trim_with_suffix: "suffix (trim_with es s) s"
proof (induction es s rule: trim_with.induct)
  case (1 es s)
  then show ?case
    by (subst trim_with.simps)
      (auto split: option.splits dest: strip_prefix_suffix intro: suffix_order.trans)
qed

lemma trim_with_no_prefix: "[] \<notin> set es \<Longrightarrow> no_prefix es (trim_with es s)"
proof (induction es s rule: trim_with.induct)
  case (1 es s)
  then show ?case
    by (cases "strip_prefix es s"; subst trim_with.simps) (auto simp flip: strip_prefix_None_iff)
qed

lemma no_prefix_prefix: "no_prefix es s \<Longrightarrow> prefix t s \<Longrightarrow> no_prefix es t"
  by (auto simp: no_prefix_def intro: prefix_order.trans)

lemma encode_rune_not_Nil [simp]: "encode_rune r \<noteq> []"
  by (simp add: encode_rune_def encode_valid_rune_def)

lemma space_encodings_not_Nil [simp]:
  "[] \<notin> set space_encodings" "[] \<notin> set (map rev space_encodings)"
  using encode_rune_not_Nil by (auto simp: space_encodings_def) (metis encode_rune_not_Nil)+

definition trimmed :: "string \<Rightarrow> bool" where
  "trimmed s \<longleftrightarrow> no_prefix space_encodings s \<and> no_prefix (map rev space_encodings) (rev s)"

lemma TrimSpace_trimmed: "trimmed (TrimSpace s)"
proof -
  let ?l = "trim_with space_encodings s"
  let ?r = "trim_with (map rev space_encodings) (rev ?l)"
  have "prefix (rev ?r) ?l"
    using trim_with_suffix[of _ "rev ?l"] by (simp add: suffix_to_prefix)
  then have "no_prefix space_encodings (rev ?r)"
    by (rule no_prefix_prefix[OF trim_with_no_prefix[OF space_encodings_not_Nil(1)]])
  then show ?thesis
    by (simp add: trimmed_def TrimSpace_def trim_with_no_prefix[OF space_encodings_not_Nil(2)])
qed

lemma TrimSpace_fix: "trimmed s \<Longrightarrow> TrimSpace s = s"
  by (simp add: trimmed_def TrimSpace_def trim_with_fix)

lemma TrimSpace_eq_iff: "TrimSpace s = s \<longleftrightarrow> trimmed s"
  by (metis TrimSpace_fix TrimSpace_trimmed)

lemma TrimSpace_idem [simp]: "TrimSpace (TrimSpace s) = TrimSpace s"
  by (simp add: TrimSpace_fix TrimSpace_trimmed)

lemma sublist_TrimSpace: "sublist (TrimSpace s) s"
proof -
  let ?l = "trim_with space_encodings s"
  have "suffix ?l s" by (rule trim_with_suffix)
  moreover have "prefix (TrimSpace s) ?l"
    using trim_with_suffix[of _ "rev ?l"] by (simp add: TrimSpace_def suffix_to_prefix)
  ultimately show ?thesis
    by (meson prefix_imp_sublist suffix_imp_sublist sublist_order.order.trans)
qed

lemma set_TrimSpace_subset: "set (TrimSpace s) \<subseteq> set s"
  using set_mono_sublist sublist_TrimSpace by blast

lemma TrimSpace_Nil [simp]: "TrimSpace [] = []"
  using set_TrimSpace_subset[of "[]"] by simp

text \<open>Printable ASCII text is left alone by \<open>TrimSpace\<close>.\<close>

definition graphic_ascii :: "char \<Rightarrow> bool" where
  "graphic_ascii c \<longleftrightarrow> 0x20 < byte c \<and> byte c < 0x7F"

lemma space_encodings_not_graphic:
  assumes "e \<in> set space_encodings"
  shows "\<exists>c\<in>set e. \<not> graphic_ascii c" "\<not> graphic_ascii (hd e)" "\<not> graphic_ascii (last e)"
  using assms
  by (auto simp: space_encodings_def space_runes_def encode_rune_def valid_rune_def
      encode_valid_rune_def graphic_ascii_def)

lemma trimmed_graphic: "(\<forall>c\<in>set s. graphic_ascii c) \<Longrightarrow> trimmed s"
  using space_encodings_not_graphic(1)
  by (force simp: trimmed_def no_prefix_def dest: set_mono_prefix)

text \<open>\<open>strings.ToLower\<close>: ASCII letters are folded here, the mapping of the other code points
  (\<open>unicode.ToLower\<close>) is the parameter \<open>lower_ext\<close>.\<close>

definition lower_byte :: "char \<Rightarrow> char" where
  "lower_byte c = (if 0x41 \<le> byte c \<and> byte c \<le> 0x5A then unbyte (byte c + 0x20) else c)"

definition ToLower :: "(rune \<Rightarrow> rune) \<Rightarrow> string \<Rightarrow> string" where
  "ToLower lower_ext s =
    (if list_all (\<lambda>c. byte c < 0x80) s then map lower_byte s
     else concat (map (\<lambda>r. if r < 0x80 then [lower_byte (unbyte r)] else encode_rune (lower_ext r))
       (runes s)))"

lemma lower_byte_idem [simp]: "lower_byte (lower_byte c) = lower_byte c"
  by (auto simp: lower_byte_def)

lemma lower_byte_ascii: "byte c < 0x80 \<Longrightarrow> byte (lower_byte c) < 0x80"
  by (auto simp: lower_byte_def)

lemma ToLower_ascii_idem:
  "list_all (\<lambda>c. byte c < 0x80) s \<Longrightarrow> ToLower f (ToLower f s) = ToLower f s"
  by (auto simp: ToLower_def list_all_iff lower_byte_ascii)

end
