(* ===== verification/Scope.thy ===== *)
theory Scope
  imports GoStrings
begin

text \<open>
  The scope algebra of \<open>internal/scope/scope.go\<close>: validation and canonical ordering of scope
  sets, the space-delimited wire form, comparison and containment, and the families of scopes
  that map to OIDC claims, to the console and to self-service.
\<close>

section \<open>Scope names\<close>

definition OpenID :: string where "OpenID = ''openid''"
definition ProfileScope :: string where "ProfileScope = ''profile''"
definition EmailScope :: string where "EmailScope = ''email''"
definition AdminRead :: string where "AdminRead = ''admin:read''"
definition AdminWrite :: string where "AdminWrite = ''admin:write''"
definition UserRead :: string where "UserRead = ''user:read''"
definition UserWrite :: string where "UserWrite = ''user:write''"

lemmas scope_names =
  OpenID_def ProfileScope_def EmailScope_def AdminRead_def AdminWrite_def UserRead_def UserWrite_def

definition oidcScopes :: "string list" where "oidcScopes = [OpenID, ProfileScope, EmailScope]"
definition adminScopes :: "string list" where "adminScopes = [AdminRead, AdminWrite]"
definition userScopes :: "string list" where "userScopes = [UserRead, UserWrite]"

definition InternalSessionScopes :: "string list" where "InternalSessionScopes = oidcScopes"

definition canonicalOrder :: "string list" where
  "canonicalOrder = [OpenID, ProfileScope, EmailScope, AdminRead, AdminWrite, UserRead, UserWrite]"

datatype scope_error = ErrInvalidScope

section \<open>Operations\<close>

definition isSupported :: "string \<Rightarrow> bool" where
  "isSupported v \<longleftrightarrow> v \<in> set oidcScopes \<or> v \<in> set adminScopes \<or> v \<in> set userScopes"

text \<open>The validation loop of \<open>Normalize\<close>; the map \<open>requested\<close> is the set of names seen so far.\<close>

fun normalizeLoop :: "string list \<Rightarrow> string set \<Rightarrow> scope_error + string set" where
  "normalizeLoop [] requested = Inr requested"
| "normalizeLoop (item # rest) requested =
    (if item = [] \<or> TrimSpace item \<noteq> item
        \<or> ContainsAny item [CHR '' '', CHR 0x09, CHR 0x0D, CHR 0x0A] then Inl ErrInvalidScope
     else if \<not> isSupported item then Inl ErrInvalidScope
     else if item \<in> requested then Inl ErrInvalidScope
     else normalizeLoop rest (insert item requested))"

definition Normalize :: "string list \<Rightarrow> scope_error + string list" where
  "Normalize scopes =
    (if scopes = [] then Inl ErrInvalidScope
     else (case normalizeLoop scopes {} of
       Inl e \<Rightarrow> Inl e
     | Inr requested \<Rightarrow>
         if OpenID \<notin> requested then Inl ErrInvalidScope
         else Inr (filter (\<lambda>item. item \<in> requested) canonicalOrder)))"

definition Claim :: "string list \<Rightarrow> scope_error + string" where
  "Claim scopes =
    (case Normalize scopes of Inl e \<Rightarrow> Inl e | Inr normalized \<Rightarrow> Inr (Join normalized '' ''))"

definition ParseClaim :: "string \<Rightarrow> scope_error + string list" where
  "ParseClaim v =
    (if v = [] \<or> TrimSpace v \<noteq> v \<or> ContainsAny v [CHR 0x09, CHR 0x0D, CHR 0x0A]
     then Inl ErrInvalidScope
     else (let parts = SplitByte v (CHR '' '') in
       if list_ex (\<lambda>part. part = []) parts then Inl ErrInvalidScope else Normalize parts))"

definition EqualScopes :: "string list \<Rightarrow> string list \<Rightarrow> scope_error + bool" where
  "EqualScopes left right =
    (case Normalize left of
       Inl e \<Rightarrow> Inl e
     | Inr l \<Rightarrow> (case Normalize right of
         Inl e \<Rightarrow> Inl e
       | Inr r \<Rightarrow>
           if length l \<noteq> length r then Inr False
           else Inr (list_all (\<lambda>i. l ! i = r ! i) [0..<length l])))"

definition ContainsAll :: "string list \<Rightarrow> string list \<Rightarrow> scope_error + bool" where
  "ContainsAll granted requested =
    (case Normalize granted of
       Inl e \<Rightarrow> Inl e
     | Inr g \<Rightarrow> (case Normalize requested of
         Inl e \<Rightarrow> Inl e
       | Inr r \<Rightarrow> Inr (list_all (\<lambda>item. item \<in> set g) r)))"

definition IsAdmin :: "string \<Rightarrow> bool" where
  "IsAdmin v \<longleftrightarrow> v \<in> set adminScopes"

definition ContainsAdmin :: "string list \<Rightarrow> bool" where
  "ContainsAdmin scopes \<longleftrightarrow> list_ex IsAdmin scopes"

definition IsUser :: "string \<Rightarrow> bool" where
  "IsUser v \<longleftrightarrow> v \<in> set userScopes"

definition ContainsUser :: "string list \<Rightarrow> bool" where
  "ContainsUser scopes \<longleftrightarrow> list_ex IsUser scopes"

definition ClaimScopes :: "string list \<Rightarrow> string list" where
  "ClaimScopes granted = filter (\<lambda>item. item \<in> set oidcScopes) granted"

section \<open>Facts about the names\<close>

lemma supported_eq: "isSupported v \<longleftrightarrow> v \<in> set canonicalOrder"
  by (auto simp: isSupported_def oidcScopes_def adminScopes_def userScopes_def canonicalOrder_def)

lemma distinct_canonicalOrder [simp]: "distinct canonicalOrder"
  by (simp add: canonicalOrder_def scope_names)

lemma OpenID_canonical [simp]: "OpenID \<in> set canonicalOrder"
  by (simp add: canonicalOrder_def)

text \<open>Every supported name is printable ASCII, so the white-space tests of the loop never
  reject a supported name.\<close>

lemma supported_graphic:
  assumes "v \<in> set canonicalOrder"
  shows "v \<noteq> []" "\<forall>c\<in>set v. graphic_ascii c"
  using assms by (auto simp: canonicalOrder_def scope_names graphic_ascii_def byte_def)

lemma graphic_not_space: "graphic_ascii c \<Longrightarrow> c \<notin> {CHR '' '', CHR 0x09, CHR 0x0D, CHR 0x0A}"
  by (auto simp: graphic_ascii_def byte_def)

lemma supported_clean:
  assumes "v \<in> set canonicalOrder"
  shows "TrimSpace v = v" "\<not> ContainsAny v [CHR '' '', CHR 0x09, CHR 0x0D, CHR 0x0A]"
    "CHR '' '' \<notin> set v"
  using supported_graphic(2)[OF assms] graphic_not_space
  by (auto simp: TrimSpace_fix trimmed_graphic ContainsAny_def list_ex_iff)

section \<open>Characterisations\<close>

definition well_formed :: "string list \<Rightarrow> bool" where
  "well_formed xs \<longleftrightarrow> distinct xs \<and> set xs \<subseteq> set canonicalOrder \<and> OpenID \<in> set xs"

definition canonical :: "string list \<Rightarrow> string list" where
  "canonical xs = filter (\<lambda>item. item \<in> set xs) canonicalOrder"

lemma normalizeLoop_Inr_iff:
  "normalizeLoop xs R = Inr S \<longleftrightarrow>
     distinct xs \<and> set xs \<subseteq> set canonicalOrder \<and> set xs \<inter> R = {} \<and> S = R \<union> set xs"
  by (induction xs arbitrary: R)
    (auto simp: supported_eq supported_clean supported_graphic(1))

lemma normalizeLoop_Inl:
  "\<not> (distinct xs \<and> set xs \<subseteq> set canonicalOrder \<and> set xs \<inter> R = {}) \<Longrightarrow>
    normalizeLoop xs R = Inl ErrInvalidScope"
proof (cases "normalizeLoop xs R")
  case (Inl e)
  then show ?thesis by (cases e) simp
qed (simp add: normalizeLoop_Inr_iff)

lemma Normalize_eq [scope_simps]:
  "Normalize xs = (if well_formed xs then Inr (canonical xs) else Inl ErrInvalidScope)"
proof (cases "distinct xs \<and> set xs \<subseteq> set canonicalOrder")
  case True
  then have "normalizeLoop xs {} = Inr (set xs)" by (simp add: normalizeLoop_Inr_iff)
  with True show ?thesis
    by (auto simp: Normalize_def well_formed_def canonical_def)
next
  case False
  then have "normalizeLoop xs {} = Inl ErrInvalidScope" by (intro normalizeLoop_Inl) auto
  with False show ?thesis by (auto simp: Normalize_def well_formed_def)
qed

lemma well_formed_canonical: "well_formed xs \<Longrightarrow> well_formed (canonical xs)"
  by (auto simp: well_formed_def canonical_def)

lemma set_canonical: "well_formed xs \<Longrightarrow> set (canonical xs) = set xs"
  by (auto simp: well_formed_def canonical_def)

lemma canonical_idem [simp]: "canonical (canonical xs) = canonical xs"
  unfolding canonical_def by (rule filter_cong) auto

lemma canonical_eq_iff:
  "well_formed xs \<Longrightarrow> well_formed ys \<Longrightarrow> canonical xs = canonical ys \<longleftrightarrow> set xs = set ys"
  unfolding canonical_def well_formed_def
  by (intro filter_eq_on_set) auto

lemma nth_all_eq_iff:
  assumes "length l = length r"
  shows "list_all (\<lambda>i. l ! i = r ! i) [0..<length l] \<longleftrightarrow> l = r"
proof -
  have "l = r \<longleftrightarrow> (\<forall>i<length l. l ! i = r ! i)"
    unfolding list_eq_iff_nth_eq by (simp add: assms)
  then show ?thesis by (simp add: list_all_iff Ball_def)
qed

lemma EqualScopes_eq [scope_simps]:
  "EqualScopes xs ys =
    (if well_formed xs \<and> well_formed ys then Inr (set xs = set ys) else Inl ErrInvalidScope)"
proof (cases "well_formed xs \<and> well_formed ys")
  case True
  then have "EqualScopes xs ys = Inr (canonical xs = canonical ys)"
    using nth_all_eq_iff[of "canonical xs" "canonical ys"]
    by (cases "length (canonical xs) = length (canonical ys)")
      (auto simp: EqualScopes_def Normalize_eq)
  with True show ?thesis by (simp add: canonical_eq_iff)
qed (auto simp: EqualScopes_def Normalize_eq)

lemma ContainsAll_eq [scope_simps]:
  "ContainsAll xs ys =
    (if well_formed xs \<and> well_formed ys then Inr (set ys \<subseteq> set xs) else Inl ErrInvalidScope)"
  by (auto simp: ContainsAll_def Normalize_eq list_all_iff set_canonical)

lemma Claim_eq [scope_simps]:
  "Claim xs = (if well_formed xs then Inr (Join (canonical xs) '' '') else Inl ErrInvalidScope)"
  by (simp add: Claim_def Normalize_eq)

text \<open>The wire form of a well-formed set contains only printable bytes and single spaces
  between names, so the strict checks of \<open>ParseClaim\<close> accept it.\<close>

lemma set_Join_space:
  "\<forall>x\<in>set xs. \<forall>c\<in>set x. graphic_ascii c \<Longrightarrow> c \<in> set (Join xs '' '') \<Longrightarrow> graphic_ascii c \<or> c = CHR '' ''"
  using set_Join[of xs "'' ''"] by auto

lemma hd_last_Join:
  assumes "xs \<noteq> []" "\<forall>x\<in>set xs. x \<noteq> []"
  shows "Join xs sep \<noteq> []" "hd (Join xs sep) = hd (hd xs)" "last (Join xs sep) = last (last xs)"
  using assms by (induction xs sep rule: Join.induct) auto

lemma trimmed_ends:
  assumes "s \<noteq> []" "graphic_ascii (hd s)" "graphic_ascii (last s)"
  shows "trimmed s"
proof -
  have "\<not> prefix e s" if "e \<in> set space_encodings" for e
    using that assms space_encodings_not_graphic(2)[OF that]
    by (metis hd_append2 prefix_def space_encodings_not_Nil(1))
  moreover have "\<not> prefix (rev e) (rev s)" if "e \<in> set space_encodings" for e
    using that assms space_encodings_not_graphic(3)[OF that]
    by (metis last_append suffix_def suffix_to_prefix space_encodings_not_Nil(1))
  ultimately show ?thesis by (simp add: trimmed_def no_prefix_def)
qed

lemma ParseClaim_Join:
  assumes "well_formed xs"
  shows "ParseClaim (Join xs '' '') = Inr (canonical xs)"
proof -
  have g: "\<forall>x\<in>set xs. x \<noteq> [] \<and> (\<forall>c\<in>set x. graphic_ascii c) \<and> CHR '' '' \<notin> set x"
    using assms supported_graphic supported_clean(3) unfolding well_formed_def by blast
  have ne: "xs \<noteq> []" using assms by (auto simp: well_formed_def)
  have j: "Join xs '' '' \<noteq> []" "hd (Join xs '' '') = hd (hd xs)" "last (Join xs '' '') = last (last xs)"
    using hd_last_Join[OF ne] g by auto
  have "hd xs \<in> set xs" "last xs \<in> set xs" using ne by simp_all
  then have "graphic_ascii (hd (hd xs))" "graphic_ascii (last (last xs))"
    using g hd_in_set[of "hd xs"] last_in_set[of "last xs"] by blast+
  then have "TrimSpace (Join xs '' '') = Join xs '' ''"
    using j by (intro TrimSpace_fix trimmed_ends) simp_all
  moreover have "\<not> ContainsAny (Join xs '' '') [CHR 0x09, CHR 0x0D, CHR 0x0A]"
    using set_Join_space[of xs] g graphic_not_space by (auto simp: ContainsAny_def list_ex_iff)
  moreover have "SplitByte (Join xs '' '') (CHR '' '') = xs"
    using SplitByte_Join[OF ne] g by auto
  ultimately show ?thesis
    using j(1) g assms by (auto simp: ParseClaim_def list_ex_iff Normalize_eq)
qed

section \<open>Properties\<close>

text \<open>C22: on well-formed scope lists (supported names, no duplicates, \<open>openid\<close> present) comparison and
  containment are equality and inclusion of sets; any other list is refused.\<close>

theorem scopes_refine_sets:
  "(EqualScopes xs ys, ContainsAll xs ys) =
    (if well_formed xs \<and> well_formed ys then (Inr (set xs = set ys), Inr (set ys \<subseteq> set xs))
     else (Inl ErrInvalidScope, Inl ErrInvalidScope))"
  by (simp add: EqualScopes_eq ContainsAll_eq)

text \<open>The claim a token carries parses back to the canonical form of the scopes it was made from,
  and parsing never accepts anything but a well-formed list.\<close>

theorem Claim_roundtrip:
  assumes "Claim xs = Inr c"
  shows "ParseClaim c = Normalize xs \<and> Normalize xs = Inr (canonical xs) \<and> set (canonical xs) = set xs"
proof -
  have w: "well_formed xs" "c = Join (canonical xs) '' ''" using assms by (auto simp: Claim_eq split: if_splits)
  then show ?thesis using ParseClaim_Join[OF well_formed_canonical[OF w(1)]] by (simp add: Normalize_eq set_canonical)
qed

theorem Claim_roundtrip_witness:
  "Claim [''email'', ''openid''] = Inr ''openid email'' \<and> ParseClaim ''openid email'' = Inr [''openid'', ''email'']"
proof -
  have w: "well_formed [''email'', ''openid'']" by (simp add: well_formed_def canonicalOrder_def scope_names)
  have c: "canonical [''email'', ''openid''] = [''openid'', ''email'']"
    by (simp add: canonical_def canonicalOrder_def scope_names)
  have "Claim [''email'', ''openid''] = Inr ''openid email''" using w by (simp add: Claim_eq c)
  with Claim_roundtrip[OF this] show ?thesis using c by simp
qed

end
