(* ===== verification/Model.thy ===== *)
theory Model
  imports Scope
begin

text \<open>
  The persistence entities of \<open>internal/model\<close>: enumerated string types with their validity
  tests, the rows of the tables the token and consent components use, and the codec between a
  Go string slice and the PostgreSQL \<open>text[]\<close> literal (\<open>StringArray\<close>). Go's \<open>int64\<close> keys are
  \<open>int\<close>: they are only compared. Pointers are \<open>option\<close> vals.
\<close>

section \<open>Enumerated string types\<close>

type_synonym UserRole = string

definition UserRoleFreshman :: UserRole where "UserRoleFreshman = ''freshman''"
definition UserRoleMember :: UserRole where "UserRoleMember = ''member''"
definition UserRoleManager :: UserRole where "UserRoleManager = ''manager''"
definition UserRoleLecturer :: UserRole where "UserRoleLecturer = ''lecturer''"
definition UserRoleAdmin :: UserRole where "UserRoleAdmin = ''admin''"

lemmas role_defs = UserRoleFreshman_def UserRoleMember_def UserRoleManager_def
  UserRoleLecturer_def UserRoleAdmin_def

type_synonym Department = string

definition DepartmentKeys :: "Department list" where
  "DepartmentKeys = [''software'', ''media'', ''electronics'', ''office'', ''liaison'',
     ''publicity'', ''competition'']"

definition DepartmentValid :: "Department \<Rightarrow> bool" where
  "DepartmentValid d \<longleftrightarrow> d \<in> set DepartmentKeys"

type_synonym UserState = string

definition UserStateDeleted :: UserState where "UserStateDeleted = ''is_deleted''"
definition UserStateOnSAST :: UserState where "UserStateOnSAST = ''on_sast''"
definition UserStateRetiredSAST :: UserState where "UserStateRetiredSAST = ''retired_sast''"
definition UserStateNJUPTer :: UserState where "UserStateNJUPTer = ''njupter''"

lemmas state_defs = UserStateDeleted_def UserStateOnSAST_def UserStateRetiredSAST_def
  UserStateNJUPTer_def

type_synonym LoginMethod = string

definition LoginMethodGitHub :: LoginMethod where "LoginMethodGitHub = ''github''"
definition LoginMethodLark :: LoginMethod where "LoginMethodLark = ''lark''"
definition LoginMethodOtherMail :: LoginMethod where "LoginMethodOtherMail = ''other_mail''"

lemmas method_defs = LoginMethodGitHub_def LoginMethodLark_def LoginMethodOtherMail_def

type_synonym EmailType = string

definition EmailTypeSAST :: EmailType where "EmailTypeSAST = ''sast_email''"
definition EmailTypeNJUpt :: EmailType where "EmailTypeNJUpt = ''njupt_email''"

type_synonym AlumniRequestStatus = string

definition AlumniRequestStatusPending :: AlumniRequestStatus where
  "AlumniRequestStatusPending = ''pending''"
definition AlumniRequestStatusApproved :: AlumniRequestStatus where
  "AlumniRequestStatusApproved = ''approved''"
definition AlumniRequestStatusRejected :: AlumniRequestStatus where
  "AlumniRequestStatusRejected = ''rejected''"

definition AlumniRequestStatusValid :: "AlumniRequestStatus \<Rightarrow> bool" where
  "AlumniRequestStatusValid s \<longleftrightarrow>
     s \<in> {AlumniRequestStatusPending, AlumniRequestStatusApproved, AlumniRequestStatusRejected}"

type_synonym AlumniRequestIntent = string

definition AlumniRequestIntentProvision :: AlumniRequestIntent where "AlumniRequestIntentProvision = ''provision''"
definition AlumniRequestIntentRecover :: AlumniRequestIntent where "AlumniRequestIntentRecover = ''recover''"

definition AlumniRequestIntentValid :: "AlumniRequestIntent \<Rightarrow> bool" where
  "AlumniRequestIntentValid i \<longleftrightarrow> i \<in> {AlumniRequestIntentProvision, AlumniRequestIntentRecover}"

section \<open>Rows\<close>

text \<open>The columns of \<open>User\<close> that the modelled components read or write.\<close>

record user =
  us_ID :: int
  us_Role :: UserRole
  us_Name :: string
  us_PhoneNumber :: string
  us_QQNumber :: string
  us_PasswordHash :: string
  us_StudentID :: string
  us_State :: UserState
  us_StateManual :: bool
  us_EmailType :: EmailType
  us_LoginEmail :: string
  us_College :: string
  us_Major :: string
  us_TokenVersion :: int
  us_DeletedAt :: "instant option"

record profile =
  pf_UserID :: int
  pf_Nickname :: "string option"
  pf_Department :: "Department option"
  pf_Intro :: "string option"
  pf_Email :: "string option"
  pf_Avatar :: "string option"
  pf_BlogURL :: "string option"
  pf_GitHubURL :: "string option"

record identity =
  id_ID :: int
  id_UserID :: int
  id_Provider :: LoginMethod
  id_ProviderID :: string
  id_IdentityData :: "string option"
  id_AccessToken :: "string option"
  id_RefreshToken :: "string option"
  id_TokenExpiresAt :: "instant option"

record alumni_request =
  al_ID :: int
  al_Name :: string
  al_StudentID :: string
  al_LoginEmail :: string
  al_PersonalEmail :: string
  al_PhoneNumber :: string
  al_QQNumber :: string
  al_College :: string
  al_Major :: string
  al_JoinYear :: string
  al_DepartmentNote :: string
  al_Note :: string
  al_Intent :: AlumniRequestIntent
  al_Status :: AlumniRequestStatus
  al_RejectReason :: string
  al_CreatedUserID :: "int option"
  al_ReviewedBy :: "int option"
  al_ReviewedAt :: "instant option"
  al_NotifiedAt :: "instant option"
  al_SilentlyRejected :: bool
  al_NotifyAttempts :: int
  al_SubmitterIP :: string
  al_CreatedAt :: instant

record oauth_client =
  cl_ID :: int
  cl_ClientID :: string
  cl_ClientSecretHash :: "string option"
  cl_ClientName :: string
  cl_ClientType :: string
  cl_RedirectURIs :: "string list"
  cl_GrantTypes :: "string list"
  cl_Scopes :: "string list"
  cl_IsActive :: "bool option"
  cl_UpdatedAt :: instant

record authorization =
  az_ID :: int
  az_Code :: string
  az_ClientID :: int
  az_UserID :: int
  az_RedirectURI :: "string option"
  az_Scopes :: "string list"
  az_CodeChallenge :: string
  az_CodeChallengeMethod :: string
  az_Nonce :: "string option"
  az_IsUsed :: bool
  az_FamilyID :: "string option"
  az_ExpiresAt :: instant
  az_CreatedAt :: instant

record oauth_grant =
  gr_UserID :: int
  gr_ClientID :: int
  gr_Scopes :: "string list"
  gr_GrantedAt :: instant

record access_token =
  at_ID :: int
  at_TokenID :: string
  at_ClientID :: int
  at_UserID :: int
  at_FamilyID :: "string option"
  at_Scopes :: "string list"
  at_RevokedAt :: "instant option"
  at_ExpiresAt :: instant
  at_CreatedAt :: instant

record refresh_token =
  rt_ID :: int
  rt_TokenHash :: string
  rt_FamilyID :: string
  rt_Sequence :: int
  rt_ClientID :: int
  rt_UserID :: int
  rt_Scopes :: "string list"
  rt_RevokedAt :: "instant option"
  rt_RevokedReason :: "string option"
  rt_ExpiresAt :: instant
  rt_CreatedAt :: instant

record blacklist_entry =
  be_TokenID :: string
  be_ExpiresAt :: instant

record outbox_row =
  ob_ID :: int
  ob_TokenID :: string
  ob_ExpiresAt :: instant
  ob_NextDeliveryAt :: instant
  ob_AttemptCount :: int
  ob_LastAttemptAt :: "instant option"
  ob_LastError :: "string option"
  ob_ClaimToken :: "string option"
  ob_ClaimedUntil :: "instant option"

text \<open>The values of an audit detail, as the JSON column stores them.\<close>

datatype json =
    JString string
  | JStrings "string list"
  | JInt int
  | JBool bool

record audit_log =
  au_UserID :: "int option"
  au_Action :: string
  au_Resource :: string
  au_ResourceID :: "string option"
  au_Detail :: "(string \<times> json) list option"
  au_ClientIP :: "string option"
  au_UserAgent :: "string option"
  au_Success :: bool
  au_ErrCode :: "int option"
  au_ActorClientID :: "string option"
  au_CreatedAt :: instant

section \<open>The PostgreSQL array codec\<close>

datatype array_error =
    ElementContainsNUL
  | InvalidArrayLiteral
  | NullElement
  | ExpectedComma
  | MissingElement
  | DanglingEscape
  | UnterminatedQuoted
  | EmptyUnquoted

abbreviation bslash :: char where "bslash \<equiv> CHR 0x5C"
abbreviation dquote :: char where "dquote \<equiv> CHR 0x22"

text \<open>\<open>Value\<close>: the inner loop ranges over the runes of one element.\<close>

definition escapeRune :: "rune \<Rightarrow> string" where
  "escapeRune r = (if r = 0x5C \<or> r = 0x22 then [bslash] else []) @ encode_rune r"

definition quoteElement :: "string \<Rightarrow> string" where
  "quoteElement e = [dquote] @ concat (map escapeRune (runes e)) @ [dquote]"

definition StringArrayValue :: "string list option \<Rightarrow> array_error + string option" where
  "StringArrayValue a =
    (case a of
       None \<Rightarrow> Inr None
     | Some xs \<Rightarrow>
         if list_ex (\<lambda>e. 0 \<in> set (runes e)) xs then Inl ElementContainsNUL
         else Inr (Some (''{'' @ Join (map quoteElement xs) '','' @ ''}'')))"

text \<open>
  \<open>parseStringArrayElement\<close>. The offset into the literal is represented by the bytes from the
  offset up to the closing brace.
\<close>

fun parseQuoted :: "string \<Rightarrow> string \<Rightarrow> array_error + (string \<times> string)" where
  "parseQuoted [] acc = Inl UnterminatedQuoted"
| "parseQuoted (c # cs) acc =
    (if c = bslash then
       (case cs of [] \<Rightarrow> Inl DanglingEscape | d # ds \<Rightarrow> parseQuoted ds (acc @ [d]))
     else if c = dquote then Inr (acc, cs)
     else parseQuoted cs (acc @ [c]))"

fun parseUnquoted :: "string \<Rightarrow> string \<Rightarrow> array_error + (string \<times> string)" where
  "parseUnquoted [] acc = Inr (acc, [])"
| "parseUnquoted (c # cs) acc =
    (if c = CHR '','' then Inr (acc, c # cs)
     else if c = bslash then
       (case cs of [] \<Rightarrow> Inl DanglingEscape | d # ds \<Rightarrow> parseUnquoted ds (acc @ [d]))
     else parseUnquoted cs (acc @ [c]))"

definition parseStringArrayElement :: "string \<Rightarrow> array_error + (string \<times> string \<times> bool)" where
  "parseStringArrayElement body =
    (if body \<noteq> [] \<and> hd body = dquote then
       (case parseQuoted (tl body) [] of Inl e \<Rightarrow> Inl e | Inr (v, rest) \<Rightarrow> Inr (v, rest, True))
     else
       (case parseUnquoted body [] of
          Inl e \<Rightarrow> Inl e
        | Inr (v, rest) \<Rightarrow>
            if length rest = length body then Inl EmptyUnquoted else Inr (v, rest, False)))"

lemma parseQuoted_length: "parseQuoted s acc = Inr (v, rest) \<Longrightarrow> length rest < length s"
  by (induction s acc rule: parseQuoted.induct) (auto split: if_splits list.splits)

lemma parseUnquoted_length: "parseUnquoted s acc = Inr (v, rest) \<Longrightarrow> length rest \<le> length s"
  by (induction s acc rule: parseUnquoted.induct) (fastforce split: if_splits list.splits)+

lemma parseStringArrayElement_length:
  "parseStringArrayElement s = Inr (v, rest, q) \<Longrightarrow> length rest < length s"
  using parseQuoted_length[of "tl s" "[]"] parseUnquoted_length[of s "[]"]
  by (cases s) (fastforce simp: parseStringArrayElement_def simp del: parseUnquoted.simps
      split: sum.splits if_splits)+

text \<open>The element loop of \<open>parseStringArray\<close>, from the current offset.\<close>

function parseElements :: "string \<Rightarrow> string list \<Rightarrow> array_error + string list" where
  "parseElements body vals =
    (case parseStringArrayElement body of
       Inl e \<Rightarrow> Inl e
     | Inr (v, rest, quoted) \<Rightarrow>
         if \<not> quoted \<and> v = ''NULL'' then Inl NullElement
         else (case rest of
           [] \<Rightarrow> Inr (vals @ [v])
         | c # rest' \<Rightarrow>
             if c \<noteq> CHR '','' then Inl ExpectedComma
             else if rest' = [] then Inl MissingElement
             else parseElements rest' (vals @ [v])))"
  by pat_completeness auto
termination
  by (relation "measure (\<lambda>(body, vals). length body)")
    (auto dest: parseStringArrayElement_length)

declare parseElements.simps [simp del]

definition parseStringArray :: "string \<Rightarrow> array_error + string list" where
  "parseStringArray literal =
    (if length literal < 2 \<or> hd literal \<noteq> CHR ''{'' \<or> last literal \<noteq> CHR ''}''
     then Inl InvalidArrayLiteral
     else if literal = ''{}'' then Inr []
     else parseElements (butlast (tl literal)) [])"

definition StringArrayScan :: "string option \<Rightarrow> array_error + string list option" where
  "StringArrayScan v =
    (case v of
       None \<Rightarrow> Inr None
     | Some literal \<Rightarrow>
         (case parseStringArray literal of Inl e \<Rightarrow> Inl e | Inr xs \<Rightarrow> Inr (Some xs)))"

subsection \<open>Round trip\<close>

text \<open>A multi-byte encoding consists of bytes above the ASCII range, so neither the escape
  character nor the quote occurs inside one.\<close>

lemma encode_rune_high:
  "\<not> r < 0x80 \<Longrightarrow> c \<in> set (encode_rune r) \<Longrightarrow> 0x80 \<le> byte c"
  by (auto simp: encode_rune_def encode_valid_rune_def valid_rune_def RuneError_def split: if_splits)

lemma encode_rune_low: "r < 0x80 \<Longrightarrow> encode_rune r = [unbyte r]"
  by (simp add: encode_rune_def encode_valid_rune_def valid_rune_def)

definition plain_bytes :: "string \<Rightarrow> bool" where
  "plain_bytes s \<longleftrightarrow> bslash \<notin> set s \<and> dquote \<notin> set s"

lemma parseQuoted_plain:
  "plain_bytes s \<Longrightarrow> parseQuoted (s @ t) acc = parseQuoted t (acc @ s)"
  by (induction s arbitrary: acc) (auto simp: plain_bytes_def)

lemma byte_special: "byte bslash = 0x5C" "byte dquote = 0x22"
  by (simp_all add: byte_def)

lemma unbyte_special: "unbyte 0x5C = bslash" "unbyte 0x22 = dquote"
  by (metis byte_special unbyte_byte)+

lemma parseQuoted_escapeRune:
  "parseQuoted (escapeRune r @ t) acc = parseQuoted t (acc @ encode_rune r)"
proof (cases "r = 0x5C \<or> r = 0x22")
  case True
  then show ?thesis by (auto simp: escapeRune_def encode_rune_low unbyte_special)
next
  case False
  have "plain_bytes (encode_rune r)"
  proof (cases "r < 0x80")
    case True
    then have "byte (unbyte r) = r" by simp
    then have "unbyte r \<noteq> bslash" "unbyte r \<noteq> dquote" using False byte_special by auto
    with True show ?thesis by (auto simp: plain_bytes_def encode_rune_low)
  next
    case high: False
    show ?thesis
      using encode_rune_high[OF high, of bslash] encode_rune_high[OF high, of dquote]
      by (auto simp: plain_bytes_def byte_special)
  qed
  with False show ?thesis by (simp add: escapeRune_def parseQuoted_plain)
qed

lemma parseQuoted_runes:
  "parseQuoted (concat (map escapeRune rs) @ dquote # t) acc
     = Inr (acc @ concat (map encode_rune rs), t)"
  by (induction rs arbitrary: acc) (simp_all add: parseQuoted_escapeRune)

lemma parseStringArrayElement_quote:
  "ValidString e \<Longrightarrow> parseStringArrayElement (quoteElement e @ t) = Inr (e, t, True)"
  by (simp add: parseStringArrayElement_def quoteElement_def parseQuoted_runes encode_runes)

lemma parseElements_Join:
  assumes "xs \<noteq> []" "\<forall>x\<in>set xs. ValidString x"
  shows "parseElements (Join (map quoteElement xs) '','') vals = Inr (vals @ xs)"
  using assms
proof (induction xs arbitrary: vals rule: induct_list012)
  case (2 x)
  then show ?case
    using parseStringArrayElement_quote[of x "[]"] by (subst parseElements.simps) simp
next
  case (3 x y zs)
  have ne: "Join (map quoteElement (y # zs)) '','' \<noteq> []"
    by (cases zs) (simp_all add: quoteElement_def)
  have "parseElements (Join (map quoteElement (x # y # zs)) '','') vals
      = parseElements (Join (map quoteElement (y # zs)) '','') (vals @ [x])"
    using 3 ne parseStringArrayElement_quote[of x "'','' @ Join (map quoteElement (y # zs)) '',''"]
    by (subst parseElements.simps) simp
  then show ?case using 3 by simp
qed simp

text \<open>A slice of valid UTF-8 strings that the driver accepts for writing is read back unchanged,
  whatever quotes, backslashes, commas, braces or spaces it contains.\<close>

theorem StringArray_roundtrip:
  assumes "\<forall>x\<in>set xs. ValidString x" "StringArrayValue (Some xs) = Inr v"
  shows "StringArrayScan v = Inr (Some xs)"
proof -
  let ?b = "Join (map quoteElement xs) '',''"
  have v: "v = Some (CHR ''{'' # ?b @ ''}'')" using assms(2) by (auto simp: StringArrayValue_def split: if_splits)
  show ?thesis
  proof (cases "xs = []")
    case True
    then show ?thesis by (simp add: v StringArrayScan_def parseStringArray_def)
  next
    case False
    then have "?b \<noteq> []" by (cases xs; cases "tl xs") (auto simp: quoteElement_def neq_Nil_conv)
    then show ?thesis using parseElements_Join[OF False assms(1), of "[]"]
      by (simp add: v StringArrayScan_def parseStringArray_def butlast_append)
  qed
qed

theorem StringArray_roundtrip_witness:
  "\<exists>v. StringArrayValue (Some [''a,b'', ''{'']) = Inr v \<and> StringArrayScan v = Inr (Some [''a,b'', ''{''])"
proof -
  have r: "runes ''a,b'' = [0x61, 0x2C, 0x62]" "runes ''{'' = [0x7B]" by (simp_all add: runes_ascii byte_def)
  have "ValidString ''a,b''" "ValidString ''{''" by (simp_all add: ValidString_ascii byte_def)
  moreover obtain v where "StringArrayValue (Some [''a,b'', ''{'']) = Inr v"
    by (simp add: StringArrayValue_def r)
  ultimately show ?thesis using StringArray_roundtrip[of "[''a,b'', ''{'']" v] by simp
qed

end
