(* ===== verification/Database.thy ===== *)
theory Database
  imports Model
begin

text \<open>
  The tables as the repositories see them, and the shape of a transaction. A table is the list
  of its rows in insertion order; a statement of the source is the list operation its SQL text
  denotes (\<open>SELECT ... WHERE\<close> a filter, \<open>UPDATE ... WHERE\<close> a map over the selected rows,
  \<open>DELETE\<close> the complementary filter, \<open>INSERT\<close> an append guarded by the unique, foreign-key and
  check constraints of \<open>src/migrations\<close>). Every statement may also fail for reasons outside the
  program; the predicate \<open>fault\<close> says which labelled statements do, so each error return of the
  source is a branch here. The transactions that touch one token family, one consent or one
  account are serialised by the row and advisory locks they take first, so an operation is a
  function from the state it finds under its locks to the state it commits.
\<close>

datatype repo_error =
    ErrNotFound
  | ErrInvalidArgument
  | ErrStateConflict
  | ErrTokenFamilyRevoked
  | SessionRevokedError string
  | ErrUserStateChanged
  | ErrClientInactive
  | ErrClientScopeChanged
  | ErrTokenReplay
  | ErrTokenReplayWithinGrace
  | ErrTokenExpired
  | ErrTokenFamilyExpired
  | ErrLastAdmin
  | ErrSelfRoleChange
  | ErrAdminTarget
  | ErrAdminGrant
  | ErrLimitExceeded
  | ErrLastLoginMethod
  | ErrRehashSkipped
  | ErrStudentIDExists
  | ErrIdentityLimitExceeded
  | ErrAccountClosed
  | ErrLoginEmailMismatch
  | ErrRecoverTargetMissing
  | ErrAuthorizationReplayed
  | ErrAuthorizationExpired
  | OwnerMismatch
  | ScopeInvalid
  | UniqueViolation string
  | DbError string

record database =
  db_users :: "user list"
  db_profiles :: "profile list"
  db_identities :: "identity list"
  db_clients :: "oauth_client list"
  db_authorizations :: "authorization list"
  db_grants :: "oauth_grant list"
  db_access :: "access_token list"
  db_refresh :: "refresh_token list"
  db_outbox :: "outbox_row list"
  db_audit :: "audit_log list"
  db_alumni :: "alumni_request list"
  db_seq :: int

type_synonym fault = "string \<Rightarrow> bool"
type_synonym 'a tx = "database \<Rightarrow> repo_error + ('a \<times> database)"

definition no_fault :: fault where "no_fault = (\<lambda>_. False)"

definition stmt :: "fault \<Rightarrow> string \<Rightarrow> (repo_error + 'a) \<Rightarrow> repo_error + 'a" where
  "stmt flt label k = (if flt label then Inl (DbError label) else k)"

definition transaction :: "fault \<Rightarrow> 'a tx \<Rightarrow> database \<Rightarrow> (repo_error + 'a) \<times> database" where
  "transaction flt body db =
    (case body db of
       Inl e \<Rightarrow> (Inl e, db)
     | Inr (x, db') \<Rightarrow>
         if flt ''commit'' then (Inl (DbError ''commit''), db) else (Inr x, db'))"

lemma stmt_no_fault [simp]: "stmt no_fault l k = k"
  by (simp add: stmt_def no_fault_def)

lemma stmt_Inr_iff: "stmt flt l k = Inr x \<longleftrightarrow> \<not> flt l \<and> k = Inr x"
  by (simp add: stmt_def)

lemma no_fault_apply [simp]: "no_fault l \<longleftrightarrow> False"
  by (simp add: no_fault_def)

lemma transaction_no_fault:
  "transaction no_fault body db =
     (case body db of Inl e \<Rightarrow> (Inl e, db) | Inr (x, db') \<Rightarrow> (Inr x, db'))"
  by (simp add: transaction_def split: sum.splits prod.splits)

lemma transaction_Inl:
  "transaction flt body db = (Inl e, db') \<Longrightarrow> db' = db"
  by (auto simp: transaction_def split: sum.splits prod.splits if_splits)

lemma transaction_Inr_iff:
  "transaction flt body db = (Inr x, db') \<longleftrightarrow> body db = Inr (x, db') \<and> \<not> flt ''commit''"
  by (auto simp: transaction_def split: sum.splits prod.splits if_splits)

text \<open>Either a transaction commits what its body computed or nothing changed.\<close>

lemma transaction_cases:
  obtains (commit) x db' where "body db = Inr (x, db')" "transaction flt body db = (Inr x, db')"
  | (rollback) e where "transaction flt body db = (Inl e, db)"
  by (cases "body db"; cases "flt ''commit''") (auto simp: transaction_def split: prod.splits)

section \<open>Statements\<close>

definition update_where :: "('r \<Rightarrow> bool) \<Rightarrow> ('r \<Rightarrow> 'r) \<Rightarrow> 'r list \<Rightarrow> 'r list" where
  "update_where P f rows = map (\<lambda>r. if P r then f r else r) rows"

definition delete_where :: "('r \<Rightarrow> bool) \<Rightarrow> 'r list \<Rightarrow> 'r list" where
  "delete_where P rows = filter (\<lambda>r. \<not> P r) rows"

definition rows_affected :: "('r \<Rightarrow> bool) \<Rightarrow> 'r list \<Rightarrow> nat" where
  "rows_affected P rows = length (filter P rows)"

lemma set_update_where:
  "set (update_where P f rows) = {r \<in> set rows. \<not> P r} \<union> f ` {r \<in> set rows. P r}"
  by (auto simp: update_where_def)

lemma in_update_whereE:
  assumes "r \<in> set (update_where P f rows)"
  obtains r0 where "r0 \<in> set rows" "r = (if P r0 then f r0 else r0)"
  using assms by (auto simp: update_where_def)

lemma map_update_where:
  "(\<And>r. key (f r) = key r) \<Longrightarrow> map key (update_where P f rows) = map key rows"
  by (simp add: update_where_def)

lemma set_delete_where [simp]: "set (delete_where P rows) = {r \<in> set rows. \<not> P r}"
  by (auto simp: delete_where_def)

definition user_exists :: "database \<Rightarrow> int \<Rightarrow> bool" where
  "user_exists db u \<longleftrightarrow> list_ex (\<lambda>r. us_ID r = u) (db_users db)"

definition client_exists :: "database \<Rightarrow> int \<Rightarrow> bool" where
  "client_exists db c \<longleftrightarrow> list_ex (\<lambda>r. cl_ID r = c) (db_clients db)"

definition find_user :: "database \<Rightarrow> int \<Rightarrow> user option" where
  "find_user db u = List.find (\<lambda>r. us_ID r = u) (db_users db)"

definition find_client :: "database \<Rightarrow> int \<Rightarrow> oauth_client option" where
  "find_client db c = List.find (\<lambda>r. cl_ID r = c) (db_clients db)"

text \<open>\<open>INSERT INTO oauth_access_tokens\<close>: \<open>token_id\<close> is unique, the owner and the client exist.\<close>

definition insert_access :: "fault \<Rightarrow> string \<Rightarrow> access_token \<Rightarrow> access_token tx" where
  "insert_access flt label a db =
    stmt flt label
     (if list_ex (\<lambda>r. at_TokenID r = at_TokenID a) (db_access db)
         \<or> \<not> client_exists db (at_ClientID a) \<or> \<not> user_exists db (at_UserID a)
      then Inl (DbError label)
      else (let a' = a\<lparr>at_ID := db_seq db + 1\<rparr> in
        Inr (a', db\<lparr>db_access := db_access db @ [a'], db_seq := db_seq db + 1\<rparr>)))"

text \<open>\<open>INSERT INTO oauth_refresh_tokens\<close>: \<open>token_hash\<close> and \<open>(family_id, sequence)\<close> are unique, the
  owner and the client exist, the token expires after its creation.\<close>

definition insert_refresh :: "fault \<Rightarrow> string \<Rightarrow> refresh_token \<Rightarrow> refresh_token tx" where
  "insert_refresh flt label r db =
    stmt flt label
     (if list_ex (\<lambda>x. rt_TokenHash x = rt_TokenHash r
              \<or> rt_FamilyID x = rt_FamilyID r \<and> rt_Sequence x = rt_Sequence r) (db_refresh db)
         \<or> \<not> client_exists db (rt_ClientID r) \<or> \<not> user_exists db (rt_UserID r)
         \<or> rt_ExpiresAt r \<le> rt_CreatedAt r
      then Inl (DbError label)
      else (let r' = r\<lparr>rt_ID := db_seq db + 1\<rparr> in
        Inr (r', db\<lparr>db_refresh := db_refresh db @ [r'], db_seq := db_seq db + 1\<rparr>)))"

definition insert_audit :: "fault \<Rightarrow> string \<Rightarrow> audit_log option \<Rightarrow> unit tx" where
  "insert_audit flt label audit db =
    (case audit of
       None \<Rightarrow> Inr ((), db)
     | Some row \<Rightarrow> stmt flt label (Inr ((), db\<lparr>db_audit := db_audit db @ [row]\<rparr>)))"

lemma insert_access_InrD:
  assumes "insert_access flt l a db = Inr (a', db')"
  shows "a' = a\<lparr>at_ID := db_seq db + 1\<rparr>"
    "db' = db\<lparr>db_access := db_access db @ [a'], db_seq := db_seq db + 1\<rparr>"
    "at_TokenID a \<notin> at_TokenID ` set (db_access db)"
  using assms
  by (auto simp: insert_access_def stmt_Inr_iff Let_def list_ex_iff split: if_splits)

lemma insert_refresh_InrD:
  assumes "insert_refresh flt l r db = Inr (r', db')"
  shows "r' = r\<lparr>rt_ID := db_seq db + 1\<rparr>"
    "db' = db\<lparr>db_refresh := db_refresh db @ [r'], db_seq := db_seq db + 1\<rparr>"
    "rt_TokenHash r \<notin> rt_TokenHash ` set (db_refresh db)"
    "\<forall>x\<in>set (db_refresh db). rt_FamilyID x = rt_FamilyID r \<longrightarrow> rt_Sequence x \<noteq> rt_Sequence r"
    "rt_CreatedAt r < rt_ExpiresAt r"
  using assms
  by (auto simp: insert_refresh_def stmt_Inr_iff Let_def list_ex_iff split: if_splits)

lemma insert_audit_InrD:
  assumes "insert_audit flt l au db = Inr (u, db')"
  shows "\<exists>rows. db' = db\<lparr>db_audit := db_audit db @ rows\<rparr>"
  using assms
  by (auto simp: insert_audit_def stmt_Inr_iff split: option.splits intro: exI[of _ "[]"])

end
