(* ===== verification/Token_Store.thy ===== *)
theory Token_Store
  imports Database
begin

text \<open>
  \<open>internal/repository/token.go\<close> with the parts of \<open>user.go\<close>, \<open>oauth_client.go\<close> and
  \<open>device_eviction.go\<close> that write token tables: creation of token pairs, rotation of refresh
  tokens with replay detection, and every revocation path with its outbox rows. The clock
  readings of the source (\<open>time.Now()\<close>) are arguments named \<open>now\<close>.
\<close>

definition refreshGracePeriod :: duration where
  "refreshGracePeriod = 30 * Second"

definition IsWithinRefreshGrace :: "instant \<Rightarrow> instant \<Rightarrow> bool" where
  "IsWithinRefreshGrace revokedAt at \<longleftrightarrow> at - revokedAt \<le> refreshGracePeriod"

definition RevokeReasonPasswordChanged :: string where
  "RevokeReasonPasswordChanged = ''password_changed''"

section \<open>Validation\<close>

definition validateTokenPair :: "access_token option \<Rightarrow> refresh_token option \<Rightarrow> repo_error option" where
  "validateTokenPair access refresh =
    (case (access, refresh) of
       (Some a, Some r) \<Rightarrow>
         if at_FamilyID a \<noteq> Some (rt_FamilyID r) then Some ErrInvalidArgument
         else if at_ClientID a \<noteq> rt_ClientID r then Some ErrInvalidArgument
         else if at_UserID a \<noteq> rt_UserID r then Some ErrInvalidArgument
         else (case EqualScopes (at_Scopes a) (rt_Scopes r) of
           Inl _ \<Rightarrow> Some ErrInvalidArgument
         | Inr scopesMatch \<Rightarrow> if \<not> scopesMatch then Some ErrInvalidArgument else None)
     | _ \<Rightarrow> Some ErrInvalidArgument)"

definition validateRefreshRotation ::
    "refresh_token \<Rightarrow> access_token \<Rightarrow> refresh_token \<Rightarrow> repo_error option" where
  "validateRefreshRotation current newAccess newRefresh =
    (if at_FamilyID newAccess \<noteq> Some (rt_FamilyID current)
        \<or> rt_FamilyID newRefresh \<noteq> rt_FamilyID current then Some ErrInvalidArgument
     else if at_ClientID newAccess \<noteq> rt_ClientID current
        \<or> rt_ClientID newRefresh \<noteq> rt_ClientID current then Some ErrInvalidArgument
     else if at_UserID newAccess \<noteq> rt_UserID current
        \<or> rt_UserID newRefresh \<noteq> rt_UserID current then Some ErrInvalidArgument
     else if rt_Sequence newRefresh \<noteq> rt_Sequence current + 1 then Some ErrInvalidArgument
     else (case EqualScopes (at_Scopes newAccess) (rt_Scopes current) of
       Inl _ \<Rightarrow> Some ErrInvalidArgument
     | Inr accessScopesMatch \<Rightarrow>
         (case EqualScopes (rt_Scopes newRefresh) (rt_Scopes current) of
            Inl _ \<Rightarrow> Some ErrInvalidArgument
          | Inr refreshScopesMatch \<Rightarrow>
              if \<not> accessScopesMatch \<or> \<not> refreshScopesMatch then Some ErrInvalidArgument
              else None)))"

definition tokenFamilyHasRevokedAccess :: "database \<Rightarrow> string \<Rightarrow> bool" where
  "tokenFamilyHasRevokedAccess db familyID \<longleftrightarrow>
     list_ex (\<lambda>a. at_FamilyID a = Some familyID \<and> at_RevokedAt a \<noteq> None) (db_access db)"

text \<open>\<open>SELECT ... WHERE family_id = ? ORDER BY sequence ASC\<close>.\<close>

definition family_by_sequence :: "database \<Rightarrow> string \<Rightarrow> refresh_token list" where
  "family_by_sequence db familyID =
     sort_key rt_Sequence (filter (\<lambda>r. rt_FamilyID r = familyID) (db_refresh db))"

definition validateTokenFamilyAppend :: "fault \<Rightarrow> database \<Rightarrow> refresh_token \<Rightarrow> repo_error option" where
  "validateTokenFamilyAppend flt db refresh =
    (if rt_Sequence refresh = 0 then None
     else if flt ''read refresh token family'' then Some (DbError ''read refresh token family'')
     else (let existing = family_by_sequence db (rt_FamilyID refresh) in
       if existing = [] then Some ErrInvalidArgument
       else (let latest = last existing in
         if list_ex (\<lambda>token. rt_RevokedAt token = None) existing then Some ErrInvalidArgument
         else (case EqualScopes (rt_Scopes refresh) (rt_Scopes latest) of
           Inl _ \<Rightarrow> Some ErrInvalidArgument
         | Inr scopesMatch \<Rightarrow>
             if rt_ClientID refresh \<noteq> rt_ClientID latest
                \<or> rt_UserID refresh \<noteq> rt_UserID latest \<or> \<not> scopesMatch
             then Some ErrInvalidArgument
             else if rt_Sequence refresh \<noteq> rt_Sequence latest + 1 then Some ErrInvalidArgument
             else None))))"

section \<open>Creation\<close>

definition createTokenPairInTransaction ::
    "fault \<Rightarrow> access_token option \<Rightarrow> refresh_token option \<Rightarrow> (access_token \<times> refresh_token) tx" where
  "createTokenPairInTransaction flt access refresh db =
    (case validateTokenPair access refresh of
       Some e \<Rightarrow> Inl e
     | None \<Rightarrow> (case (access, refresh) of
         (Some a, Some r) \<Rightarrow>
           stmt flt ''lock token family''
            (bindE (if rt_Sequence r \<noteq> 0
                    then stmt flt ''check token family revocation''
                           (Inr (tokenFamilyHasRevokedAccess db (rt_FamilyID r)))
                    else Inr False)
              (\<lambda>familyRevoked.
                if familyRevoked then Inl ErrTokenFamilyRevoked
                else (case validateTokenFamilyAppend flt db r of
                  Some e \<Rightarrow> Inl e
                | None \<Rightarrow>
                    bindE (insert_access flt ''create access token'' a db) (\<lambda>(a', db1).
                    bindE (insert_refresh flt ''create refresh token'' r db1) (\<lambda>(r', db2).
                      Inr ((a', r'), db2))))))
       | _ \<Rightarrow> Inl ErrInvalidArgument))"

definition CreatePair ::
    "fault \<Rightarrow> access_token option \<Rightarrow> refresh_token option \<Rightarrow> database
      \<Rightarrow> (repo_error + access_token \<times> refresh_token) \<times> database" where
  "CreatePair flt access refresh db =
     transaction flt (createTokenPairInTransaction flt access refresh) db"

definition CreatePairWithAudit ::
    "fault \<Rightarrow> access_token option \<Rightarrow> refresh_token option \<Rightarrow> audit_log option \<Rightarrow> database
      \<Rightarrow> (repo_error + access_token \<times> refresh_token) \<times> database" where
  "CreatePairWithAudit flt access refresh audit db =
     transaction flt (\<lambda>db.
       bindE (createTokenPairInTransaction flt access refresh db) (\<lambda>(pair, db1).
       bindE (insert_audit flt ''create login audit'' audit db1) (\<lambda>(_, db2).
         Inr (pair, db2)))) db"

definition createLockedPairBody ::
    "fault \<Rightarrow> instant \<Rightarrow> int \<Rightarrow> int \<Rightarrow> int \<Rightarrow> int \<Rightarrow> access_token \<Rightarrow> refresh_token
      \<Rightarrow> audit_log option \<Rightarrow> (access_token \<times> refresh_token) tx" where
  "createLockedPairBody flt now userID clientID expectedTokenVersion authorizationID a r audit db =
    stmt flt ''lock user for pair creation''
     (case find_user db userID of
        None \<Rightarrow> Inl ErrNotFound
      | Some locked \<Rightarrow>
          if us_TokenVersion locked \<noteq> expectedTokenVersion then Inl ErrUserStateChanged
          else stmt flt ''lock client for pair creation''
           (case find_client db clientID of
              None \<Rightarrow> Inl ErrNotFound
            | Some client \<Rightarrow>
                if cl_IsActive client \<noteq> Some True then Inl ErrClientInactive
                else (case ContainsAll (cl_Scopes client) (at_Scopes a) of
                  Inl _ \<Rightarrow> Inl ScopeInvalid
                | Inr isContained \<Rightarrow>
                    if \<not> isContained then Inl ErrClientScopeChanged
                    else stmt flt ''lock consumed authorization''
                     (case List.find (\<lambda>z. az_ID z = authorizationID \<and> az_UserID z = userID
                               \<and> az_ClientID z = clientID \<and> az_IsUsed z
                               \<and> az_FamilyID z = Some (rt_FamilyID r)) (db_authorizations db) of
                        None \<Rightarrow> Inl ErrNotFound
                      | Some authz \<Rightarrow>
                          if \<not> now < az_ExpiresAt authz then Inl ErrNotFound
                          else
                            bindE (createTokenPairInTransaction flt (Some a) (Some r) db)
                             (\<lambda>(pair, db1).
                            bindE (insert_audit flt ''create pair audit'' audit db1) (\<lambda>(_, db2).
                              Inr (pair, db2)))))))"

definition CreatePairWithUserAndClientLock ::
    "fault \<Rightarrow> instant \<Rightarrow> int \<Rightarrow> int \<Rightarrow> int \<Rightarrow> int \<Rightarrow> access_token option \<Rightarrow> refresh_token option
      \<Rightarrow> audit_log option \<Rightarrow> database \<Rightarrow> (repo_error + access_token \<times> refresh_token) \<times> database" where
  "CreatePairWithUserAndClientLock flt now userID clientID expectedTokenVersion authorizationID
      access refresh audit db =
    (case validateTokenPair access refresh of
       Some e \<Rightarrow> (Inl e, db)
     | None \<Rightarrow> (case (access, refresh) of
         (Some a, Some r) \<Rightarrow>
           transaction flt
             (createLockedPairBody flt now userID clientID expectedTokenVersion authorizationID
               a r audit) db
       | _ \<Rightarrow> (Inl ErrInvalidArgument, db)))"

section \<open>Revocation\<close>

text \<open>\<open>INSERT ... ON CONFLICT (token_id) DO UPDATE\<close> of one outbox row.\<close>

definition upsert_outbox :: "instant \<Rightarrow> blacklist_entry \<Rightarrow> database \<Rightarrow> database" where
  "upsert_outbox revokedAt e db =
    (if list_ex (\<lambda>x. ob_TokenID x = be_TokenID e) (db_outbox db)
     then db\<lparr>db_outbox := update_where (\<lambda>x. ob_TokenID x = be_TokenID e)
            (\<lambda>x. x\<lparr>ob_ExpiresAt := be_ExpiresAt e, ob_NextDeliveryAt := revokedAt\<rparr>) (db_outbox db)\<rparr>
     else db\<lparr>db_outbox := db_outbox db @
              [\<lparr>ob_ID = db_seq db + 1, ob_TokenID = be_TokenID e, ob_ExpiresAt = be_ExpiresAt e,
                ob_NextDeliveryAt = revokedAt, ob_AttemptCount = 0, ob_LastAttemptAt = None,
                ob_LastError = None, ob_ClaimToken = None, ob_ClaimedUntil = None\<rparr>],
             db_seq := db_seq db + 1\<rparr>)"

definition enqueueBlacklistInTransaction :: "fault \<Rightarrow> blacklist_entry list \<Rightarrow> instant \<Rightarrow> unit tx" where
  "enqueueBlacklistInTransaction flt entries revokedAt db =
    (if entries = [] then Inr ((), db)
     else stmt flt ''enqueue access token blacklist''
            (Inr ((), fold (upsert_outbox revokedAt) entries db)))"

text \<open>The rows a revocation selects: the still live ones are reported, the unrevoked ones cut.\<close>

definition live_entries :: "(access_token \<Rightarrow> bool) \<Rightarrow> instant \<Rightarrow> database \<Rightarrow> blacklist_entry list" where
  "live_entries P revokedAt db =
    map (\<lambda>a. \<lparr>be_TokenID = at_TokenID a, be_ExpiresAt = at_ExpiresAt a\<rparr>)
      (filter (\<lambda>a. P a \<and> revokedAt < at_ExpiresAt a \<and> at_RevokedAt a = None) (db_access db))"

definition revoke_access :: "(access_token \<Rightarrow> bool) \<Rightarrow> instant \<Rightarrow> database \<Rightarrow> database" where
  "revoke_access P revokedAt db =
    db\<lparr>db_access := update_where (\<lambda>a. P a \<and> at_RevokedAt a = None)
         (\<lambda>a. a\<lparr>at_RevokedAt := Some revokedAt\<rparr>) (db_access db)\<rparr>"

definition revoke_refresh ::
    "(refresh_token \<Rightarrow> bool) \<Rightarrow> instant \<Rightarrow> string option \<Rightarrow> database \<Rightarrow> database" where
  "revoke_refresh P revokedAt reason db =
    db\<lparr>db_refresh := update_where (\<lambda>r. P r \<and> rt_RevokedAt r = None)
         (\<lambda>r. r\<lparr>rt_RevokedAt := Some revokedAt,
                rt_RevokedReason := (case reason of None \<Rightarrow> rt_RevokedReason r | Some s \<Rightarrow> Some s)\<rparr>)
         (db_refresh db)\<rparr>"

definition revokeFamilyInTransaction :: "fault \<Rightarrow> string \<Rightarrow> instant \<Rightarrow> blacklist_entry list tx" where
  "revokeFamilyInTransaction flt familyID revokedAt db =
    stmt flt ''select live access token family''
     (let entries = live_entries (\<lambda>a. at_FamilyID a = Some familyID) revokedAt db in
      stmt flt ''revoke access token family''
       (let db1 = revoke_access (\<lambda>a. at_FamilyID a = Some familyID) revokedAt db in
        stmt flt ''revoke refresh token family''
         (let db2 = revoke_refresh (\<lambda>r. rt_FamilyID r = familyID) revokedAt None db1 in
          bindE (enqueueBlacklistInTransaction flt entries revokedAt db2) (\<lambda>(_, db3).
            Inr (entries, db3)))))"

definition RevokeFamily ::
    "fault \<Rightarrow> string \<Rightarrow> instant \<Rightarrow> database \<Rightarrow> (repo_error + blacklist_entry list) \<times> database" where
  "RevokeFamily flt familyID revokedAt db =
    transaction flt (\<lambda>db. stmt flt ''lock token family''
      (revokeFamilyInTransaction flt familyID revokedAt db)) db"

definition revokeAllByClientInTransaction ::
    "fault \<Rightarrow> int \<Rightarrow> instant \<Rightarrow> (blacklist_entry list \<times> nat) tx" where
  "revokeAllByClientInTransaction flt clientPK revokedAt db =
    stmt flt ''lock live token families by client''
     (stmt flt ''select live access tokens by client''
      (let entries = live_entries (\<lambda>a. at_ClientID a = clientPK) revokedAt db in
       stmt flt ''revoke access tokens by client''
        (let db1 = revoke_access (\<lambda>a. at_ClientID a = clientPK) revokedAt db in
         stmt flt ''revoke refresh tokens by client''
          (let affected = rows_affected (\<lambda>r. rt_ClientID r = clientPK \<and> rt_RevokedAt r = None)
                            (db_refresh db1);
               db2 = revoke_refresh (\<lambda>r. rt_ClientID r = clientPK) revokedAt None db1 in
           bindE (enqueueBlacklistInTransaction flt entries revokedAt db2) (\<lambda>(_, db3).
             Inr ((entries, affected), db3))))))"

definition burn_codes :: "int \<Rightarrow> instant \<Rightarrow> database \<Rightarrow> database" where
  "burn_codes userID revokedAt db =
    db\<lparr>db_authorizations := update_where
         (\<lambda>z. az_UserID z = userID \<and> \<not> az_IsUsed z \<and> revokedAt < az_ExpiresAt z)
         (\<lambda>z. z\<lparr>az_IsUsed := True\<rparr>) (db_authorizations db)\<rparr>"

definition revokeAllByUserInTransaction ::
    "fault \<Rightarrow> int \<Rightarrow> instant \<Rightarrow> string \<Rightarrow> blacklist_entry list tx" where
  "revokeAllByUserInTransaction flt userID revokedAt revokedReason db =
    stmt flt ''burn authorization codes by user''
     (let db0 = burn_codes userID revokedAt db in
      stmt flt ''lock live token families by user''
       (stmt flt ''select live access tokens by user''
        (let entries = live_entries (\<lambda>a. at_UserID a = userID) revokedAt db0 in
         stmt flt ''revoke access tokens by user''
          (let db1 = revoke_access (\<lambda>a. at_UserID a = userID) revokedAt db0 in
           stmt flt ''revoke refresh tokens by user''
            (let db2 = revoke_refresh (\<lambda>r. rt_UserID r = userID) revokedAt (Some revokedReason) db1 in
             bindE (enqueueBlacklistInTransaction flt entries revokedAt db2) (\<lambda>(_, db3).
               Inr (entries, db3)))))))"

definition RevokeAllByUser ::
    "fault \<Rightarrow> int \<Rightarrow> instant \<Rightarrow> database \<Rightarrow> (repo_error + blacklist_entry list) \<times> database" where
  "RevokeAllByUser flt userID revokedAt db =
    transaction flt
      (revokeAllByUserInTransaction flt userID revokedAt RevokeReasonPasswordChanged) db"

definition deleteAuthorizationsInTransaction :: "fault \<Rightarrow> int \<Rightarrow> int \<Rightarrow> unit tx" where
  "deleteAuthorizationsInTransaction flt userID clientID db =
    stmt flt ''delete grants''
     (let db1 = db\<lparr>db_grants := delete_where
            (\<lambda>g. gr_UserID g = userID \<and> gr_ClientID g = clientID) (db_grants db)\<rparr> in
      stmt flt ''delete authorizations''
       (Inr ((), db1\<lparr>db_authorizations := delete_where
            (\<lambda>z. az_UserID z = userID \<and> az_ClientID z = clientID) (db_authorizations db1)\<rparr>)))"

definition RevokeUserClientTokens ::
    "fault \<Rightarrow> int \<Rightarrow> int \<Rightarrow> instant \<Rightarrow> database \<Rightarrow> (repo_error + blacklist_entry list) \<times> database" where
  "RevokeUserClientTokens flt userID clientID revokedAt db =
    transaction flt (\<lambda>db.
      stmt flt ''lock authorization client''
       (if \<not> client_exists db clientID then Inr ([], db)
        else bindE (deleteAuthorizationsInTransaction flt userID clientID db) (\<lambda>(_, db0).
          stmt flt ''lock live token families by user and client''
           (stmt flt ''select live access tokens''
            (let entries = live_entries
                   (\<lambda>a. at_UserID a = userID \<and> at_ClientID a = clientID) revokedAt db0 in
             stmt flt ''revoke access tokens''
              (let db1 = revoke_access
                     (\<lambda>a. at_UserID a = userID \<and> at_ClientID a = clientID) revokedAt db0 in
               stmt flt ''revoke refresh tokens''
                (let db2 = revoke_refresh
                       (\<lambda>r. rt_UserID r = userID \<and> rt_ClientID r = clientID) revokedAt None db1 in
                 bindE (enqueueBlacklistInTransaction flt entries revokedAt db2) (\<lambda>(_, db3).
                   Inr (entries, db3))))))))) db"

section \<open>Rotation\<close>

datatype rotate_outcome =
    RotateReplay
  | RotateFamilyExpired
  | Rotated instant access_token refresh_token

definition findRefreshTokenForUpdate :: "fault \<Rightarrow> database \<Rightarrow> string \<Rightarrow> repo_error + refresh_token" where
  "findRefreshTokenForUpdate flt db tokenHash =
    stmt flt ''lock refresh token''
     (case List.find (\<lambda>r. rt_TokenHash r = tokenHash) (db_refresh db) of
        None \<Rightarrow> Inl ErrNotFound
      | Some r \<Rightarrow> Inr r)"

text \<open>The two clamps of the capability lifetime: the refresh expiry when it is after the cap,
  the access expiry when it is not before it.\<close>

definition clampRefresh :: "duration \<Rightarrow> instant \<Rightarrow> refresh_token \<Rightarrow> refresh_token" where
  "clampRefresh maxLifetime origin r =
    (if 0 < maxLifetime \<and> origin + maxLifetime < rt_ExpiresAt r
     then r\<lparr>rt_ExpiresAt := origin + maxLifetime\<rparr> else r)"

definition clampAccess :: "duration \<Rightarrow> instant \<Rightarrow> access_token \<Rightarrow> access_token" where
  "clampAccess maxLifetime origin a =
    (if 0 < maxLifetime \<and> \<not> at_ExpiresAt a < origin + maxLifetime
     then a\<lparr>at_ExpiresAt := origin + maxLifetime\<rparr> else a)"

text \<open>The writes of a rotation that passed its checks.\<close>

definition rotateWrites ::
    "fault \<Rightarrow> instant \<Rightarrow> refresh_token \<Rightarrow> instant \<Rightarrow> access_token \<Rightarrow> refresh_token
      \<Rightarrow> audit_log option \<Rightarrow> rotate_outcome tx" where
  "rotateWrites flt now current origin newAccess newRefresh audit db =
    stmt flt ''revoke current refresh token''
     (let P = (\<lambda>r. rt_ID r = rt_ID current \<and> rt_RevokedAt r = None);
          db1 = db\<lparr>db_refresh := update_where P (\<lambda>r. r\<lparr>rt_RevokedAt := Some now\<rparr>) (db_refresh db)\<rparr> in
      if rows_affected P (db_refresh db) \<noteq> 1 then Inl ErrTokenReplay
      else
        bindE (insert_access flt ''create rotated access token'' newAccess db1) (\<lambda>(a', db2).
        bindE (insert_refresh flt ''create rotated refresh token'' newRefresh db2) (\<lambda>(r', db3).
        bindE (insert_audit flt ''create refresh audit'' audit db3) (\<lambda>(_, db4).
          Inr (Rotated origin a' r', db4)))))"

definition rotateBody ::
    "fault \<Rightarrow> instant \<Rightarrow> string \<Rightarrow> string \<Rightarrow> access_token \<Rightarrow> refresh_token \<Rightarrow> audit_log option
      \<Rightarrow> duration \<Rightarrow> rotate_outcome tx" where
  "rotateBody flt now familyID currentHash newAccess newRefresh audit maxLifetime db =
    stmt flt ''lock token family''
     (bindE (findRefreshTokenForUpdate flt db currentHash) (\<lambda>current.
      if rt_FamilyID current \<noteq> familyID then Inl ErrInvalidArgument
      else case rt_RevokedAt current of
        Some revokedAt \<Rightarrow>
          (case rt_RevokedReason current of
             Some reason \<Rightarrow> Inl (SessionRevokedError reason)
           | None \<Rightarrow>
               if \<not> IsWithinRefreshGrace revokedAt now then
                 bindE (revokeFamilyInTransaction flt familyID now db) (\<lambda>(_, db').
                   Inr (RotateReplay, db'))
               else Inl ErrTokenReplayWithinGrace)
      | None \<Rightarrow>
          (case validateRefreshRotation current newAccess newRefresh of
             Some e \<Rightarrow> Inl e
           | None \<Rightarrow>
               if \<not> now < rt_ExpiresAt current then Inl ErrTokenExpired
               else stmt flt ''check token family revocation''
                (if tokenFamilyHasRevokedAccess db familyID then
                   bindE (revokeFamilyInTransaction flt familyID now db) (\<lambda>(_, db').
                     Inr (RotateReplay, db'))
                 else stmt flt ''find token family origin''
                  (case family_by_sequence db familyID of
                     [] \<Rightarrow> Inl (DbError ''find token family origin'')
                   | originRow # _ \<Rightarrow>
                       (let origin = rt_CreatedAt originRow in
                        if 0 < maxLifetime \<and> \<not> now < origin + maxLifetime then
                          bindE (revokeFamilyInTransaction flt familyID now db) (\<lambda>(_, db').
                            Inr (RotateFamilyExpired, db'))
                        else rotateWrites flt now current origin
                               (clampAccess maxLifetime origin newAccess)
                               (clampRefresh maxLifetime origin newRefresh) audit db))))))"

definition rotateRefreshToken ::
    "fault \<Rightarrow> instant \<Rightarrow> string \<Rightarrow> string \<Rightarrow> access_token option \<Rightarrow> refresh_token option
      \<Rightarrow> audit_log option \<Rightarrow> duration \<Rightarrow> database
      \<Rightarrow> (repo_error + instant \<times> access_token \<times> refresh_token) \<times> database" where
  "rotateRefreshToken flt now familyID currentHash newAccess newRefresh audit maxLifetime db =
    (if TrimSpace familyID = [] then (Inl ErrInvalidArgument, db)
     else if currentHash = [] then (Inl ErrInvalidArgument, db)
     else case validateTokenPair newAccess newRefresh of
       Some e \<Rightarrow> (Inl e, db)
     | None \<Rightarrow> (case (newAccess, newRefresh) of
         (Some a, Some r) \<Rightarrow>
           (case transaction flt
                   (rotateBody flt now familyID currentHash a r audit maxLifetime) db of
              (Inl e, db') \<Rightarrow> (Inl e, db')
            | (Inr RotateReplay, db') \<Rightarrow> (Inl ErrTokenReplay, db')
            | (Inr RotateFamilyExpired, db') \<Rightarrow> (Inl ErrTokenFamilyExpired, db')
            | (Inr (Rotated origin a' r'), db') \<Rightarrow> (Inr (origin, a', r'), db'))
       | _ \<Rightarrow> (Inl ErrInvalidArgument, db)))"

definition RotateRefreshToken where
  "RotateRefreshToken flt now familyID currentHash newAccess newRefresh db =
     rotateRefreshToken flt now familyID currentHash newAccess newRefresh None 0 db"

definition RotateRefreshTokenWithAudit where
  "RotateRefreshTokenWithAudit flt now familyID currentHash newAccess newRefresh audit db =
     rotateRefreshToken flt now familyID currentHash newAccess newRefresh audit 0 db"

definition RotateRefreshTokenWithAuditCapped where
  "RotateRefreshTokenWithAuditCapped flt now familyID currentHash newAccess newRefresh audit
      maxLifetime db =
     rotateRefreshToken flt now familyID currentHash newAccess newRefresh audit maxLifetime db"

section \<open>Reads\<close>

definition FindRefreshToken :: "fault \<Rightarrow> database \<Rightarrow> string \<Rightarrow> repo_error + refresh_token" where
  "FindRefreshToken flt db tokenHash =
    stmt flt ''find refresh token''
     (case List.find (\<lambda>r. rt_TokenHash r = tokenHash) (db_refresh db) of
        None \<Rightarrow> Inl ErrNotFound
      | Some r \<Rightarrow> Inr r)"

definition FamilyOriginCreatedAt :: "fault \<Rightarrow> database \<Rightarrow> string \<Rightarrow> repo_error + instant" where
  "FamilyOriginCreatedAt flt db familyID =
    stmt flt ''find token family origin''
     (case family_by_sequence db familyID of
        [] \<Rightarrow> Inl ErrNotFound
      | origin # _ \<Rightarrow> Inr (rt_CreatedAt origin))"

record access_auth_state =
  as_TokenID :: string
  as_UserID :: int
  as_UserState :: UserState
  as_UserRole :: UserRole
  as_TokenVersion :: int
  as_RevokedAt :: "instant option"
  as_ExpiresAt :: instant

definition FindAccessAuthStateByJTI :: "fault \<Rightarrow> database \<Rightarrow> string \<Rightarrow> repo_error + access_auth_state" where
  "FindAccessAuthStateByJTI flt db jti =
    (if TrimSpace jti = [] then Inl ErrInvalidArgument
     else stmt flt ''find access auth state by JTI''
       (case List.find (\<lambda>a. at_TokenID a = jti \<and> find_user db (at_UserID a) \<noteq> None) (db_access db) of
          None \<Rightarrow> Inl ErrNotFound
        | Some a \<Rightarrow> (case find_user db (at_UserID a) of
            None \<Rightarrow> Inl ErrNotFound
          | Some u \<Rightarrow> Inr \<lparr>as_TokenID = at_TokenID a, as_UserID = at_UserID a,
              as_UserState = us_State u, as_UserRole = us_Role u,
              as_TokenVersion = us_TokenVersion u, as_RevokedAt = at_RevokedAt a,
              as_ExpiresAt = at_ExpiresAt a\<rparr>)))"

definition FindAccessTokenByJTI :: "fault \<Rightarrow> database \<Rightarrow> string \<Rightarrow> repo_error + access_token" where
  "FindAccessTokenByJTI flt db jti =
    stmt flt ''find access token by JTI''
     (case List.find (\<lambda>a. at_TokenID a = jti) (db_access db) of
        None \<Rightarrow> Inl ErrNotFound
      | Some a \<Rightarrow> Inr a)"

end
