(* ===== verification/Token_Invariant.thy ===== *)
theory Token_Invariant
  imports Token_Store
begin

text \<open>
  The invariant of the token tables and its preservation. A token family is the chain of
  refresh tokens that share a \<open>family_id\<close>: sequence numbers are unique in it, every token but the
  last of a chain is revoked, and all tokens of a family, the access tokens included, belong to
  one user and one client and carry one set of scopes. The invariant speaks about pairs of rows
  only, so that every deletion (retention, client removal, account purge) keeps it.
\<close>

section \<open>The invariant\<close>

text \<open>What two tokens of one family agree on, and what their order implies.\<close>

definition kin :: "refresh_token \<Rightarrow> refresh_token \<Rightarrow> bool" where
  "kin r s \<longleftrightarrow> (rt_FamilyID r = rt_FamilyID s \<longrightarrow>
     rt_ClientID r = rt_ClientID s \<and> rt_UserID r = rt_UserID s
     \<and> set (rt_Scopes r) = set (rt_Scopes s)
     \<and> (rt_Sequence r = rt_Sequence s \<longrightarrow> r = s)
     \<and> (rt_Sequence r < rt_Sequence s \<longrightarrow> rt_RevokedAt r \<noteq> None))"

definition chain_inv :: "refresh_token set \<Rightarrow> bool" where
  "chain_inv R \<longleftrightarrow>
    (\<forall>r\<in>R. 0 \<le> rt_Sequence r \<and> well_formed (rt_Scopes r)) \<and> (\<forall>r\<in>R. \<forall>s\<in>R. kin r s)"

lemma chain_invD:
  assumes "chain_inv R" "r \<in> R"
  shows "0 \<le> rt_Sequence r" "well_formed (rt_Scopes r)" "s \<in> R \<Longrightarrow> kin r s"
  using assms by (auto simp: chain_inv_def)

lemma chain_inv_subset: "chain_inv R \<Longrightarrow> S \<subseteq> R \<Longrightarrow> chain_inv S"
  by (auto simp: chain_inv_def)

text \<open>An access token and a refresh token of one family have one owner.\<close>

definition same_owner :: "access_token \<Rightarrow> refresh_token \<Rightarrow> bool" where
  "same_owner a r \<longleftrightarrow> (at_FamilyID a = Some (rt_FamilyID r) \<longrightarrow>
     at_ClientID a = rt_ClientID r \<and> at_UserID a = rt_UserID r
     \<and> set (at_Scopes a) = set (rt_Scopes r))"

definition access_inv :: "access_token set \<Rightarrow> refresh_token set \<Rightarrow> bool" where
  "access_inv A R \<longleftrightarrow> (\<forall>a\<in>A. \<forall>r\<in>R. same_owner a r)"

definition keys_inv :: "database \<Rightarrow> bool" where
  "keys_inv db \<longleftrightarrow>
    distinct (map rt_ID (db_refresh db)) \<and> (\<forall>r\<in>set (db_refresh db). rt_ID r \<le> db_seq db) \<and>
    distinct (map rt_TokenHash (db_refresh db)) \<and> distinct (map at_TokenID (db_access db))"

definition token_inv :: "database \<Rightarrow> bool" where
  "token_inv db \<longleftrightarrow> keys_inv db \<and> chain_inv (set (db_refresh db))
     \<and> access_inv (set (db_access db)) (set (db_refresh db))"

text \<open>The two tables and the key counter are all the invariant reads.\<close>

lemma token_inv_cong:
  assumes "db_refresh db' = db_refresh db" "db_access db' = db_access db" "db_seq db \<le> db_seq db'"
  shows "token_inv db \<Longrightarrow> token_inv db'"
  using assms by (fastforce simp: token_inv_def keys_inv_def)

section \<open>Consequences\<close>

lemma live_refresh_is_last:
  assumes "chain_inv R" "r \<in> R" "s \<in> R" "rt_FamilyID r = rt_FamilyID s" "rt_RevokedAt r = None"
  shows "rt_Sequence s \<le> rt_Sequence r"
  using chain_invD(3)[OF assms(1,2,3)] assms(4,5) by (auto simp: kin_def)

lemma single_live_refresh:
  assumes "chain_inv R" "r \<in> R" "s \<in> R" "rt_FamilyID r = rt_FamilyID s"
    "rt_RevokedAt r = None" "rt_RevokedAt s = None"
  shows "r = s"
proof -
  have "rt_Sequence r = rt_Sequence s"
    using live_refresh_is_last[of R r s] live_refresh_is_last[of R s r] assms by simp
  then show ?thesis using chain_invD(3)[OF assms(1,2,3)] assms(4) by (simp add: kin_def)
qed

section \<open>Revocation updates\<close>

text \<open>A revocation changes only \<open>revoked_at\<close> and \<open>revoked_reason\<close>, and never unsets the former.\<close>

definition cuts :: "(refresh_token \<Rightarrow> refresh_token) \<Rightarrow> bool" where
  "cuts g \<longleftrightarrow> (\<forall>r. rt_ID (g r) = rt_ID r \<and> rt_TokenHash (g r) = rt_TokenHash r
     \<and> rt_FamilyID (g r) = rt_FamilyID r \<and> rt_Sequence (g r) = rt_Sequence r
     \<and> rt_ClientID (g r) = rt_ClientID r \<and> rt_UserID (g r) = rt_UserID r
     \<and> rt_Scopes (g r) = rt_Scopes r \<and> rt_ExpiresAt (g r) = rt_ExpiresAt r
     \<and> rt_CreatedAt (g r) = rt_CreatedAt r
     \<and> (rt_RevokedAt r \<noteq> None \<longrightarrow> rt_RevokedAt (g r) = rt_RevokedAt r))"

lemma cutsD:
  assumes "cuts g"
  shows "rt_ID (g r) = rt_ID r" "rt_TokenHash (g r) = rt_TokenHash r"
    "rt_FamilyID (g r) = rt_FamilyID r" "rt_Sequence (g r) = rt_Sequence r"
    "rt_ClientID (g r) = rt_ClientID r" "rt_UserID (g r) = rt_UserID r"
    "rt_Scopes (g r) = rt_Scopes r" "rt_ExpiresAt (g r) = rt_ExpiresAt r"
    "rt_CreatedAt (g r) = rt_CreatedAt r"
    "rt_RevokedAt r \<noteq> None \<Longrightarrow> rt_RevokedAt (g r) = rt_RevokedAt r"
  using assms by (auto simp: cuts_def)

lemma kin_cut: "cuts g \<Longrightarrow> kin r s \<Longrightarrow> kin (g r) (g s)"
  by (auto simp: kin_def cutsD)

lemma chain_inv_cut:
  assumes "cuts g" "chain_inv R"
  shows "chain_inv (g ` R)"
  using assms(2) unfolding chain_inv_def
  by (simp add: cutsD[OF assms(1)] kin_cut[OF assms(1)])

lemma access_inv_cut:
  "cuts g \<Longrightarrow> access_inv A R \<Longrightarrow> access_inv A (g ` R)"
  unfolding access_inv_def same_owner_def by (auto simp: cutsD)

lemma keys_inv_cut:
  assumes "cuts g" "keys_inv db"
  shows "keys_inv (db\<lparr>db_refresh := map g (db_refresh db)\<rparr>)"
  using assms by (auto simp: keys_inv_def cutsD comp_def)

lemma token_inv_cut:
  "cuts g \<Longrightarrow> token_inv db \<Longrightarrow> token_inv (db\<lparr>db_refresh := map g (db_refresh db)\<rparr>)"
  unfolding token_inv_def
  by (simp add: keys_inv_cut chain_inv_cut access_inv_cut)

lemma token_inv_revoke_refresh:
  assumes "token_inv db"
  shows "token_inv (revoke_refresh P t reason db)"
  unfolding revoke_refresh_def update_where_def
  by (rule token_inv_cut[OF _ assms]) (simp add: cuts_def)

lemma same_owner_revoked [simp]: "same_owner (a\<lparr>at_RevokedAt := t\<rparr>) r \<longleftrightarrow> same_owner a r"
  by (simp add: same_owner_def)

lemma token_inv_revoke_access:
  assumes "token_inv db"
  shows "token_inv (revoke_access P t db)"
  using assms
  by (auto simp: token_inv_def revoke_access_def keys_inv_def access_inv_def map_update_where
      set_update_where)

lemma upsert_outbox_frame [simp]:
  "db_refresh (upsert_outbox t e db) = db_refresh db"
  "db_access (upsert_outbox t e db) = db_access db"
  "db_users (upsert_outbox t e db) = db_users db"
  "db_clients (upsert_outbox t e db) = db_clients db"
  "db_authorizations (upsert_outbox t e db) = db_authorizations db"
  "db_grants (upsert_outbox t e db) = db_grants db"
  by (simp_all add: upsert_outbox_def)

lemma upsert_outbox_seq: "db_seq db \<le> db_seq (upsert_outbox t e db)"
  by (simp add: upsert_outbox_def)

lemma fold_upsert_outbox_frame [simp]:
  "db_refresh (fold (upsert_outbox t) es db) = db_refresh db"
  "db_access (fold (upsert_outbox t) es db) = db_access db"
  "db_users (fold (upsert_outbox t) es db) = db_users db"
  "db_clients (fold (upsert_outbox t) es db) = db_clients db"
  "db_authorizations (fold (upsert_outbox t) es db) = db_authorizations db"
  "db_grants (fold (upsert_outbox t) es db) = db_grants db"
  by (induction es arbitrary: db) simp_all

lemma fold_upsert_outbox_seq: "db_seq db \<le> db_seq (fold (upsert_outbox t) es db)"
  by (induction es arbitrary: db) (auto intro: order_trans[OF upsert_outbox_seq])

lemma enqueueBlacklist_InrD:
  "enqueueBlacklistInTransaction flt es t db = Inr (u, db') \<Longrightarrow> db' = fold (upsert_outbox t) es db"
  by (auto simp: enqueueBlacklistInTransaction_def stmt_Inr_iff split: if_splits)

lemma enqueueBlacklist_no_fault [simp]:
  "enqueueBlacklistInTransaction no_fault es t db = Inr ((), fold (upsert_outbox t) es db)"
  by (simp add: enqueueBlacklistInTransaction_def)

lemma token_inv_fold_upsert: "token_inv db \<Longrightarrow> token_inv (fold (upsert_outbox t) es db)"
  by (erule token_inv_cong[rotated 3]) (simp_all add: fold_upsert_outbox_seq)

section \<open>Appending to a chain\<close>

lemma chain_inv_insert:
  assumes "chain_inv R" "0 \<le> rt_Sequence r" "well_formed (rt_Scopes r)"
    and fam: "\<forall>x\<in>R. rt_FamilyID x = rt_FamilyID r \<longrightarrow>
      rt_ClientID x = rt_ClientID r \<and> rt_UserID x = rt_UserID r
      \<and> set (rt_Scopes x) = set (rt_Scopes r) \<and> rt_Sequence x < rt_Sequence r
      \<and> rt_RevokedAt x \<noteq> None"
  shows "chain_inv (insert r R)"
proof -
  have "kin r x \<and> kin x r" if "x \<in> R" for x
    using fam that unfolding kin_def by fastforce
  moreover have "kin r r" by (simp add: kin_def)
  ultimately show ?thesis using assms(1,2,3) unfolding chain_inv_def by simp
qed

lemma access_inv_insert:
  assumes "access_inv A R" "at_FamilyID a = Some (rt_FamilyID r)" "same_owner a r"
    and "\<forall>x\<in>R. rt_FamilyID x = rt_FamilyID r \<longrightarrow>
      rt_ClientID x = rt_ClientID r \<and> rt_UserID x = rt_UserID r \<and> set (rt_Scopes x) = set (rt_Scopes r)"
    and "\<forall>x\<in>A. same_owner x r"
  shows "access_inv (insert a A) (insert r R)"
  using assms unfolding access_inv_def same_owner_def by auto

section \<open>Operations: what a commit writes\<close>

lemma validateTokenPair_None_iff:
  "validateTokenPair (Some a) (Some r) = None \<longleftrightarrow>
     at_FamilyID a = Some (rt_FamilyID r) \<and> at_ClientID a = rt_ClientID r
     \<and> at_UserID a = rt_UserID r \<and> well_formed (at_Scopes a) \<and> well_formed (rt_Scopes r)
     \<and> set (at_Scopes a) = set (rt_Scopes r)"
  by (auto simp: validateTokenPair_def EqualScopes_eq)

lemma validateTokenPair_NoneE:
  assumes "validateTokenPair access refresh = None"
  obtains a r where "access = Some a" "refresh = Some r" "validateTokenPair (Some a) (Some r) = None"
  using assms by (cases access; cases refresh) (auto simp: validateTokenPair_def)

lemma set_family_by_sequence:
  "set (family_by_sequence db f) = {r \<in> set (db_refresh db). rt_FamilyID r = f}"
  by (auto simp: family_by_sequence_def)

lemma family_by_sequence_last:
  "x \<in> set (db_refresh db) \<Longrightarrow> rt_FamilyID x = f \<Longrightarrow>
     rt_Sequence x \<le> rt_Sequence (last (family_by_sequence db f))"
  by (rule sorted_map_last) (auto simp: family_by_sequence_def)

lemma family_by_sequence_hd:
  "x \<in> set (db_refresh db) \<Longrightarrow> rt_FamilyID x = f \<Longrightarrow>
     rt_Sequence (hd (family_by_sequence db f)) \<le> rt_Sequence x"
  by (rule sorted_map_hd) (auto simp: family_by_sequence_def)

text \<open>The append check accepts a new family, or the successor of a fully revoked chain of the
  same owner.\<close>

lemma validateTokenFamilyAppend_NoneD:
  assumes "validateTokenFamilyAppend flt db r = None" "rt_Sequence r \<noteq> 0"
  shows "\<exists>l\<in>set (db_refresh db). rt_FamilyID l = rt_FamilyID r \<and> rt_Sequence l = rt_Sequence r - 1
      \<and> rt_ClientID l = rt_ClientID r \<and> rt_UserID l = rt_UserID r
      \<and> set (rt_Scopes l) = set (rt_Scopes r)"
    "\<forall>x\<in>set (db_refresh db). rt_FamilyID x = rt_FamilyID r \<longrightarrow>
      rt_RevokedAt x \<noteq> None \<and> rt_Sequence x < rt_Sequence r"
proof -
  let ?E = "family_by_sequence db (rt_FamilyID r)"
  have E: "?E \<noteq> []" "\<forall>x\<in>set ?E. rt_RevokedAt x \<noteq> None" "rt_Sequence r = rt_Sequence (last ?E) + 1"
    "rt_ClientID (last ?E) = rt_ClientID r" "rt_UserID (last ?E) = rt_UserID r"
    "set (rt_Scopes (last ?E)) = set (rt_Scopes r)"
    using assms
    by (auto simp: validateTokenFamilyAppend_def Let_def list_ex_iff EqualScopes_eq split: if_splits)
  have "last ?E \<in> set ?E" using E(1) by simp
  then show "\<exists>l\<in>set (db_refresh db). rt_FamilyID l = rt_FamilyID r \<and> rt_Sequence l = rt_Sequence r - 1
      \<and> rt_ClientID l = rt_ClientID r \<and> rt_UserID l = rt_UserID r
      \<and> set (rt_Scopes l) = set (rt_Scopes r)"
    using E unfolding set_family_by_sequence by fastforce
  show "\<forall>x\<in>set (db_refresh db). rt_FamilyID x = rt_FamilyID r \<longrightarrow>
      rt_RevokedAt x \<noteq> None \<and> rt_Sequence x < rt_Sequence r"
    using E(2,3) family_by_sequence_last[of _ db "rt_FamilyID r"]
    unfolding set_family_by_sequence by fastforce
qed

definition append_pair :: "access_token \<Rightarrow> refresh_token \<Rightarrow> database \<Rightarrow> database" where
  "append_pair a r db = db\<lparr>db_access := db_access db @ [a\<lparr>at_ID := db_seq db + 1\<rparr>],
     db_refresh := db_refresh db @ [r\<lparr>rt_ID := db_seq db + 2\<rparr>], db_seq := db_seq db + 2\<rparr>"

lemma insert_pair_InrD:
  assumes "insert_access flt l1 a db = Inr (a', db1)" "insert_refresh flt l2 r db1 = Inr (r', db2)"
  shows "a' = a\<lparr>at_ID := db_seq db + 1\<rparr>" "r' = r\<lparr>rt_ID := db_seq db + 2\<rparr>" "db2 = append_pair a r db"
    "at_TokenID a \<notin> at_TokenID ` set (db_access db)"
    "rt_TokenHash r \<notin> rt_TokenHash ` set (db_refresh db)"
    "\<forall>x\<in>set (db_refresh db). rt_FamilyID x = rt_FamilyID r \<longrightarrow> rt_Sequence x \<noteq> rt_Sequence r"
    "rt_CreatedAt r < rt_ExpiresAt r"
  using insert_access_InrD[OF assms(1)] insert_refresh_InrD[OF assms(2)]
  by (auto simp: append_pair_def)

text \<open>Appending a pair to a chain whose members are all revoked keeps the invariant.\<close>

lemma token_inv_append_pair:
  assumes inv: "token_inv db" and pair: "validateTokenPair (Some a) (Some r) = None"
    and seq: "0 \<le> rt_Sequence r"
    and fresh: "at_TokenID a \<notin> at_TokenID ` set (db_access db)"
      "rt_TokenHash r \<notin> rt_TokenHash ` set (db_refresh db)"
    and fam: "\<forall>x\<in>set (db_refresh db). rt_FamilyID x = rt_FamilyID r \<longrightarrow>
      rt_ClientID x = rt_ClientID r \<and> rt_UserID x = rt_UserID r
      \<and> set (rt_Scopes x) = set (rt_Scopes r) \<and> rt_Sequence x < rt_Sequence r
      \<and> rt_RevokedAt x \<noteq> None"
    and acc: "\<forall>x\<in>set (db_access db). same_owner x r"
  shows "token_inv (append_pair a r db)"
proof -
  let ?r = "r\<lparr>rt_ID := db_seq db + 2\<rparr>" and ?a = "a\<lparr>at_ID := db_seq db + 1\<rparr>"
  have ar: "at_FamilyID a = Some (rt_FamilyID r)" "at_ClientID a = rt_ClientID r"
    "at_UserID a = rt_UserID r" "well_formed (rt_Scopes r)" "set (at_Scopes a) = set (rt_Scopes r)"
    using pair by (simp_all add: validateTokenPair_None_iff)
  have "chain_inv (insert ?r (set (db_refresh db)))"
    using inv seq ar fam by (intro chain_inv_insert) (simp_all add: token_inv_def)
  moreover have "access_inv (insert ?a (set (db_access db))) (insert ?r (set (db_refresh db)))"
    using inv ar fam acc by (intro access_inv_insert) (auto simp: token_inv_def same_owner_def)
  moreover have "keys_inv (append_pair a r db)"
    using inv fresh by (fastforce simp: token_inv_def keys_inv_def append_pair_def)
  ultimately show ?thesis by (simp add: token_inv_def append_pair_def)
qed

lemma createTokenPair_InrD:
  assumes "createTokenPairInTransaction flt access refresh db = Inr ((a', r'), db')"
  obtains a r where "access = Some a" "refresh = Some r"
    "validateTokenPair (Some a) (Some r) = None" "validateTokenFamilyAppend flt db r = None"
    "rt_Sequence r \<noteq> 0 \<Longrightarrow> \<not> tokenFamilyHasRevokedAccess db (rt_FamilyID r)"
    "a' = a\<lparr>at_ID := db_seq db + 1\<rparr>" "r' = r\<lparr>rt_ID := db_seq db + 2\<rparr>" "db' = append_pair a r db"
    "at_TokenID a \<notin> at_TokenID ` set (db_access db)"
    "rt_TokenHash r \<notin> rt_TokenHash ` set (db_refresh db)"
    "\<forall>x\<in>set (db_refresh db). rt_FamilyID x = rt_FamilyID r \<longrightarrow> rt_Sequence x \<noteq> rt_Sequence r"
proof -
  have v: "validateTokenPair access refresh = None"
    using assms by (auto simp: createTokenPairInTransaction_def split: option.splits)
  then obtain a r where ar: "access = Some a" "refresh = Some r"
    and p: "validateTokenPair (Some a) (Some r) = None" by (rule validateTokenPair_NoneE)
  from assms v obtain db1 where i: "insert_access flt ''create access token'' a db = Inr (a', db1)"
      "insert_refresh flt ''create refresh token'' r db1 = Inr (r', db')"
    and c: "validateTokenFamilyAppend flt db r = None"
      "rt_Sequence r \<noteq> 0 \<longrightarrow> \<not> tokenFamilyHasRevokedAccess db (rt_FamilyID r)"
    by (auto simp: createTokenPairInTransaction_def ar stmt_Inr_iff bindE_eq_Inr_iff
        split: option.splits if_splits)
  show thesis
    using that[OF ar p c(1)] c(2) insert_pair_InrD[OF i] by simp
qed

text \<open>
  A pair with sequence 0 opens a family. Its identifier is either new, or the origin row of the
  family is still there and the unique key on \<open>(family_id, sequence)\<close> refuses the insert.
\<close>

definition origin_kept :: "database \<Rightarrow> string \<Rightarrow> bool" where
  "origin_kept db f \<longleftrightarrow>
    (\<forall>x\<in>set (db_refresh db). rt_FamilyID x \<noteq> f) \<and> (\<forall>x\<in>set (db_access db). at_FamilyID x \<noteq> Some f)
    \<or> (\<exists>x\<in>set (db_refresh db). rt_FamilyID x = f \<and> rt_Sequence x = 0)"

lemma token_inv_createTokenPair:
  assumes inv: "token_inv db"
    and fresh_fam: "\<And>r. refresh = Some r \<Longrightarrow> rt_Sequence r = 0 \<Longrightarrow> origin_kept db (rt_FamilyID r)"
    and ok: "createTokenPairInTransaction flt access refresh db = Inr ((a', r'), db')"
  shows "token_inv db'"
  using ok
proof (rule createTokenPair_InrD)
  fix a r
  assume r: "refresh = Some r" and pair: "validateTokenPair (Some a) (Some r) = None"
    and app: "validateTokenFamilyAppend flt db r = None"
    and db': "db' = append_pair a r db"
    and fresh: "at_TokenID a \<notin> at_TokenID ` set (db_access db)"
      "rt_TokenHash r \<notin> rt_TokenHash ` set (db_refresh db)"
    and seqs: "\<forall>x\<in>set (db_refresh db). rt_FamilyID x = rt_FamilyID r \<longrightarrow> rt_Sequence x \<noteq> rt_Sequence r"
  have chain: "chain_inv (set (db_refresh db))" using inv by (simp add: token_inv_def)
  show "token_inv db'"
  proof (cases "rt_Sequence r = 0")
    case True
    then have "\<forall>x\<in>set (db_refresh db). rt_FamilyID x \<noteq> rt_FamilyID r"
      "\<forall>x\<in>set (db_access db). at_FamilyID x \<noteq> Some (rt_FamilyID r)"
      using fresh_fam[OF r True] seqs by (auto simp: origin_kept_def)
    then show ?thesis unfolding db'
      using True by (intro token_inv_append_pair[OF inv pair _ fresh]) (simp_all add: same_owner_def)
  next
    case False
    note app = validateTokenFamilyAppend_NoneD[OF app False]
    obtain l where l: "l \<in> set (db_refresh db)" "rt_FamilyID l = rt_FamilyID r"
      "rt_Sequence l = rt_Sequence r - 1" "rt_ClientID l = rt_ClientID r"
      "rt_UserID l = rt_UserID r" "set (rt_Scopes l) = set (rt_Scopes r)"
      using app(1) by blast
    have "0 \<le> rt_Sequence r" using chain_invD(1)[OF chain l(1)] l(3) by simp
    moreover have "rt_ClientID x = rt_ClientID r \<and> rt_UserID x = rt_UserID r
        \<and> set (rt_Scopes x) = set (rt_Scopes r)"
      if "x \<in> set (db_refresh db)" "rt_FamilyID x = rt_FamilyID r" for x
      using chain_invD(3)[OF chain l(1) that(1)] that(2) l by (simp add: kin_def)
    moreover have "same_owner x r" if "x \<in> set (db_access db)" for x
      using inv that l by (auto simp: token_inv_def access_inv_def same_owner_def)
    ultimately show ?thesis unfolding db'
      using app(2) by (intro token_inv_append_pair[OF inv pair _ fresh]) auto
  qed
qed

section \<open>Cutting a set of tokens\<close>

text \<open>What every revocation commits: the selected access and refresh tokens are revoked and the
  still live access tokens have outbox rows.\<close>

definition cut_tokens ::
    "(access_token \<Rightarrow> bool) \<Rightarrow> (refresh_token \<Rightarrow> bool) \<Rightarrow> instant \<Rightarrow> string option \<Rightarrow> database \<Rightarrow> database" where
  "cut_tokens PA PR t reason db =
     fold (upsert_outbox t) (live_entries PA t db)
       (revoke_refresh PR t reason (revoke_access PA t db))"

lemma token_inv_cut_tokens: "token_inv db \<Longrightarrow> token_inv (cut_tokens PA PR t reason db)"
  by (simp add: cut_tokens_def token_inv_fold_upsert token_inv_revoke_refresh token_inv_revoke_access)

lemma db_refresh_cut_tokens:
  "db_refresh (cut_tokens PA PR t reason db) = db_refresh (revoke_refresh PR t reason db)"
  by (simp add: cut_tokens_def revoke_refresh_def revoke_access_def)

lemma db_access_cut_tokens:
  "db_access (cut_tokens PA PR t reason db) = db_access (revoke_access PA t db)"
  by (simp add: cut_tokens_def revoke_refresh_def revoke_access_def)

lemma cut_tokens_frame [simp]:
  "db_users (cut_tokens PA PR t reason db) = db_users db"
  "db_clients (cut_tokens PA PR t reason db) = db_clients db"
  "db_authorizations (cut_tokens PA PR t reason db) = db_authorizations db"
  "db_grants (cut_tokens PA PR t reason db) = db_grants db"
  by (simp_all add: cut_tokens_def revoke_refresh_def revoke_access_def)

lemma cut_refresh_dead:
  assumes "r \<in> set (db_refresh (cut_tokens PA PR t reason db))"
    and "\<And>x. rt_FamilyID x = rt_FamilyID r \<Longrightarrow> rt_UserID x = rt_UserID r \<Longrightarrow>
      rt_ClientID x = rt_ClientID r \<Longrightarrow> PR x"
  shows "rt_RevokedAt r \<noteq> None"
  using assms(1) unfolding db_refresh_cut_tokens revoke_refresh_def
  by (auto elim!: in_update_whereE split: if_splits intro: assms(2))

lemma cut_access_dead:
  assumes "a \<in> set (db_access (cut_tokens PA PR t reason db))"
    and "\<And>x. at_FamilyID x = at_FamilyID a \<Longrightarrow> at_UserID x = at_UserID a \<Longrightarrow>
      at_ClientID x = at_ClientID a \<Longrightarrow> PA x"
  shows "at_RevokedAt a \<noteq> None"
  using assms(1) unfolding db_access_cut_tokens revoke_access_def
  by (auto elim!: in_update_whereE split: if_splits intro: assms(2))

lemma revoke_access_refresh [simp]: "db_refresh (revoke_access P t db) = db_refresh db"
  by (simp add: revoke_access_def)

subsection \<open>Durable delivery\<close>

definition pending_delivery :: "database \<Rightarrow> string \<Rightarrow> instant \<Rightarrow> bool" where
  "pending_delivery db jti expires \<longleftrightarrow>
     (\<exists>x\<in>set (db_outbox db). ob_TokenID x = jti \<and> ob_ExpiresAt x = expires)"

lemma upsert_outbox_pending: "pending_delivery (upsert_outbox t e db) (be_TokenID e) (be_ExpiresAt e)"
proof (cases "list_ex (\<lambda>x. ob_TokenID x = be_TokenID e) (db_outbox db)")
  case True
  then obtain x where "x \<in> set (db_outbox db)" "ob_TokenID x = be_TokenID e"
    by (auto simp: list_ex_iff)
  with True show ?thesis
    by (auto simp: pending_delivery_def upsert_outbox_def set_update_where intro!: bexI[of _ "x\<lparr>ob_ExpiresAt := be_ExpiresAt e, ob_NextDeliveryAt := t\<rparr>"])
qed (simp add: pending_delivery_def upsert_outbox_def)

lemma upsert_outbox_keeps:
  assumes "pending_delivery db jti x" "be_TokenID e = jti \<Longrightarrow> be_ExpiresAt e = x"
  shows "pending_delivery (upsert_outbox t e db) jti x"
proof (cases "be_TokenID e = jti")
  case True
  then show ?thesis using upsert_outbox_pending[of t e db] assms(2) by simp
next
  case False
  obtain y where "y \<in> set (db_outbox db)" "ob_TokenID y = jti" "ob_ExpiresAt y = x"
    using assms(1) by (auto simp: pending_delivery_def)
  with False show ?thesis
    by (auto simp: pending_delivery_def upsert_outbox_def set_update_where intro!: bexI[of _ y])
qed

lemma fold_upsert_pending:
  assumes "e \<in> set es" "\<forall>x\<in>set es. \<forall>y\<in>set es. be_TokenID x = be_TokenID y \<longrightarrow> be_ExpiresAt x = be_ExpiresAt y"
  shows "pending_delivery (fold (upsert_outbox t) es db) (be_TokenID e) (be_ExpiresAt e)"
proof -
  have keep: "pending_delivery (fold (upsert_outbox t) xs db0) (be_TokenID e) (be_ExpiresAt e)"
    if "set xs \<subseteq> set es" "pending_delivery db0 (be_TokenID e) (be_ExpiresAt e)" for xs db0
    using that
  proof (induction xs arbitrary: db0)
    case (Cons x xs)
    then have "x \<in> set es" by simp
    then have "be_TokenID x = be_TokenID e \<Longrightarrow> be_ExpiresAt x = be_ExpiresAt e"
      using assms by blast
    then have "pending_delivery (upsert_outbox t x db0) (be_TokenID e) (be_ExpiresAt e)"
      by (rule upsert_outbox_keeps[OF Cons.prems(2)])
    moreover have "set xs \<subseteq> set es" using Cons.prems(1) by simp
    ultimately show ?case using Cons.IH by simp
  qed simp
  obtain xs ys where "es = xs @ e # ys" using assms(1) by (meson split_list)
  then show ?thesis
    using keep[OF _ upsert_outbox_pending, of ys] by (simp add: subset_insertI2)
qed

lemma live_entries_consistent:
  assumes "distinct (map at_TokenID (db_access db))"
    "x \<in> set (live_entries P t db)" "y \<in> set (live_entries P t db)" "be_TokenID x = be_TokenID y"
  shows "be_ExpiresAt x = be_ExpiresAt y"
proof -
  obtain a b where "a \<in> set (db_access db)" "b \<in> set (db_access db)"
    "be_TokenID x = at_TokenID a" "be_ExpiresAt x = at_ExpiresAt a"
    "be_TokenID y = at_TokenID b" "be_ExpiresAt y = at_ExpiresAt b"
    using assms(2,3) by (auto simp: live_entries_def)
  with assms(1,4) show ?thesis by (metis distinct_map_inj)
qed

text \<open>Every token a cut kills while it is still live has a pending outbox row.\<close>

lemma cut_tokens_delivers:
  assumes "token_inv db" "a \<in> set (db_access db)" "PA a" "at_RevokedAt a = None" "t < at_ExpiresAt a"
  shows "pending_delivery (cut_tokens PA PR t reason db) (at_TokenID a) (at_ExpiresAt a)"
proof -
  let ?e = "\<lparr>be_TokenID = at_TokenID a, be_ExpiresAt = at_ExpiresAt a\<rparr>"
  have "?e \<in> set (live_entries PA t db)" using assms by (auto simp: live_entries_def)
  moreover have "\<forall>x\<in>set (live_entries PA t db). \<forall>y\<in>set (live_entries PA t db).
      be_TokenID x = be_TokenID y \<longrightarrow> be_ExpiresAt x = be_ExpiresAt y"
    using live_entries_consistent assms(1) unfolding token_inv_def keys_inv_def by blast
  ultimately have "pending_delivery (cut_tokens PA PR t reason db) (be_TokenID ?e) (be_ExpiresAt ?e)"
    unfolding cut_tokens_def by (rule fold_upsert_pending)
  then show ?thesis by simp
qed

section \<open>The revocation operations\<close>

lemma revokeFamily_InrD:
  assumes "revokeFamilyInTransaction flt f t db = Inr (es, db')"
  shows "es = live_entries (\<lambda>a. at_FamilyID a = Some f) t db"
    "db' = cut_tokens (\<lambda>a. at_FamilyID a = Some f) (\<lambda>r. rt_FamilyID r = f) t None db"
  using assms
  by (auto simp: revokeFamilyInTransaction_def stmt_Inr_iff bindE_eq_Inr_iff Let_def cut_tokens_def
      dest!: enqueueBlacklist_InrD)

lemma revokeAllByClient_InrD:
  assumes "revokeAllByClientInTransaction flt c t db = Inr ((es, n), db')"
  shows "es = live_entries (\<lambda>a. at_ClientID a = c) t db"
    "n = rows_affected (\<lambda>r. rt_ClientID r = c \<and> rt_RevokedAt r = None) (db_refresh db)"
    "db' = cut_tokens (\<lambda>a. at_ClientID a = c) (\<lambda>r. rt_ClientID r = c) t None db"
  using assms
  by (auto simp: revokeAllByClientInTransaction_def stmt_Inr_iff bindE_eq_Inr_iff Let_def
      cut_tokens_def dest!: enqueueBlacklist_InrD)

lemma revokeAllByUser_InrD:
  assumes "revokeAllByUserInTransaction flt u t reason db = Inr (es, db')"
  shows "es = live_entries (\<lambda>a. at_UserID a = u) t (burn_codes u t db)"
    "db' = cut_tokens (\<lambda>a. at_UserID a = u) (\<lambda>r. rt_UserID r = u) t (Some reason) (burn_codes u t db)"
  using assms
  by (auto simp: revokeAllByUserInTransaction_def stmt_Inr_iff bindE_eq_Inr_iff Let_def cut_tokens_def
      dest!: enqueueBlacklist_InrD)

lemma burn_codes_frame [simp]:
  "db_refresh (burn_codes u t db) = db_refresh db" "db_access (burn_codes u t db) = db_access db"
  "db_seq (burn_codes u t db) = db_seq db" "db_users (burn_codes u t db) = db_users db"
  "db_clients (burn_codes u t db) = db_clients db" "db_grants (burn_codes u t db) = db_grants db"
  by (simp_all add: burn_codes_def)

lemma deleteAuthorizations_InrD:
  assumes "deleteAuthorizationsInTransaction flt u c db = Inr (x, db')"
  shows "db' = db\<lparr>db_grants := delete_where (\<lambda>g. gr_UserID g = u \<and> gr_ClientID g = c) (db_grants db),
      db_authorizations := delete_where (\<lambda>z. az_UserID z = u \<and> az_ClientID z = c) (db_authorizations db)\<rparr>"
  using assms by (auto simp: deleteAuthorizationsInTransaction_def stmt_Inr_iff Let_def)

section \<open>Rotation\<close>

lemma validateRefreshRotation_None_iff:
  "validateRefreshRotation c a r = None \<longleftrightarrow>
     at_FamilyID a = Some (rt_FamilyID c) \<and> rt_FamilyID r = rt_FamilyID c
     \<and> at_ClientID a = rt_ClientID c \<and> rt_ClientID r = rt_ClientID c
     \<and> at_UserID a = rt_UserID c \<and> rt_UserID r = rt_UserID c
     \<and> rt_Sequence r = rt_Sequence c + 1
     \<and> well_formed (at_Scopes a) \<and> well_formed (rt_Scopes r) \<and> well_formed (rt_Scopes c)
     \<and> set (at_Scopes a) = set (rt_Scopes c) \<and> set (rt_Scopes r) = set (rt_Scopes c)"
  by (auto simp: validateRefreshRotation_def EqualScopes_eq)

definition cut_current :: "instant \<Rightarrow> refresh_token \<Rightarrow> database \<Rightarrow> database" where
  "cut_current now c db = db\<lparr>db_refresh :=
     update_where (\<lambda>r. rt_ID r = rt_ID c \<and> rt_RevokedAt r = None)
       (\<lambda>r. r\<lparr>rt_RevokedAt := Some now\<rparr>) (db_refresh db)\<rparr>"

lemma cut_current_frame [simp]:
  "db_access (cut_current now c db) = db_access db" "db_seq (cut_current now c db) = db_seq db"
  "db_outbox (cut_current now c db) = db_outbox db"
  by (simp_all add: cut_current_def)

lemma token_inv_cut_current: "token_inv db \<Longrightarrow> token_inv (cut_current now c db)"
  unfolding cut_current_def update_where_def by (rule token_inv_cut) (simp_all add: cuts_def)

lemma hashes_cut_current:
  "rt_TokenHash ` set (db_refresh (cut_current now c db)) = rt_TokenHash ` set (db_refresh db)"
proof -
  have "map rt_TokenHash (db_refresh (cut_current now c db)) = map rt_TokenHash (db_refresh db)"
    by (simp add: cut_current_def map_update_where)
  then show ?thesis by (metis list.set_map)
qed

lemma rotateWrites_InrD:
  assumes "rotateWrites flt now c origin a r audit db = Inr (out, db')"
  shows "\<exists>rows. db' = (append_pair a r (cut_current now c db))\<lparr>db_audit := rows\<rparr>"
    "out = Rotated origin (a\<lparr>at_ID := db_seq db + 1\<rparr>) (r\<lparr>rt_ID := db_seq db + 2\<rparr>)"
    "at_TokenID a \<notin> at_TokenID ` set (db_access db)"
    "rt_TokenHash r \<notin> rt_TokenHash ` set (db_refresh db)"
    "rt_CreatedAt r < rt_ExpiresAt r"
proof -
  obtain a' db2 r' db3 u where i: "insert_access flt ''create rotated access token'' a (cut_current now c db) = Inr (a', db2)"
      "insert_refresh flt ''create rotated refresh token'' r db2 = Inr (r', db3)"
      "insert_audit flt ''create refresh audit'' audit db3 = Inr (u, db')"
    and out: "out = Rotated origin a' r'"
    using assms
    by (auto simp: rotateWrites_def stmt_Inr_iff Let_def bindE_eq_Inr_iff cut_current_def split: if_splits)
  note p = insert_pair_InrD[OF i(1,2)]
  show "\<exists>rows. db' = (append_pair a r (cut_current now c db))\<lparr>db_audit := rows\<rparr>"
    using insert_audit_InrD[OF i(3)] p(3) by auto
  show "out = Rotated origin (a\<lparr>at_ID := db_seq db + 1\<rparr>) (r\<lparr>rt_ID := db_seq db + 2\<rparr>)"
    using out p(1,2) by simp
  show "at_TokenID a \<notin> at_TokenID ` set (db_access db)"
    "rt_TokenHash r \<notin> rt_TokenHash ` set (db_refresh db)" "rt_CreatedAt r < rt_ExpiresAt r"
    using p(4,5,7) by (simp_all add: hashes_cut_current)
qed

text \<open>The clamps change expiry instants only.\<close>

lemma clampAccess_fields [simp]:
  "at_TokenID (clampAccess m o1 a) = at_TokenID a" "at_FamilyID (clampAccess m o1 a) = at_FamilyID a"
  "at_ClientID (clampAccess m o1 a) = at_ClientID a" "at_UserID (clampAccess m o1 a) = at_UserID a"
  "at_Scopes (clampAccess m o1 a) = at_Scopes a" "at_RevokedAt (clampAccess m o1 a) = at_RevokedAt a"
  by (simp_all add: clampAccess_def)

lemma clampRefresh_fields [simp]:
  "rt_TokenHash (clampRefresh m o1 r) = rt_TokenHash r" "rt_FamilyID (clampRefresh m o1 r) = rt_FamilyID r"
  "rt_ClientID (clampRefresh m o1 r) = rt_ClientID r" "rt_UserID (clampRefresh m o1 r) = rt_UserID r"
  "rt_Scopes (clampRefresh m o1 r) = rt_Scopes r" "rt_Sequence (clampRefresh m o1 r) = rt_Sequence r"
  "rt_RevokedAt (clampRefresh m o1 r) = rt_RevokedAt r" "rt_CreatedAt (clampRefresh m o1 r) = rt_CreatedAt r"
  by (simp_all add: clampRefresh_def)

lemma clamp_bounds:
  "0 < m \<Longrightarrow> rt_ExpiresAt (clampRefresh m o1 r) \<le> o1 + m"
  "0 < m \<Longrightarrow> at_ExpiresAt (clampAccess m o1 a) \<le> o1 + m"
  "rt_ExpiresAt (clampRefresh m o1 r) \<le> rt_ExpiresAt r"
  "at_ExpiresAt (clampAccess m o1 a) \<le> at_ExpiresAt a"
  by (auto simp: clampRefresh_def clampAccess_def)

text \<open>Cutting the current token leaves no live token in its family.\<close>

lemma cut_current_family:
  assumes inv: "token_inv db" and c: "c \<in> set (db_refresh db)" "rt_RevokedAt c = None"
    and x: "x \<in> set (db_refresh (cut_current now c db))" "rt_FamilyID x = rt_FamilyID c"
  shows "rt_RevokedAt x \<noteq> None \<and> rt_Sequence x \<le> rt_Sequence c \<and> rt_ClientID x = rt_ClientID c
    \<and> rt_UserID x = rt_UserID c \<and> set (rt_Scopes x) = set (rt_Scopes c)"
proof -
  let ?P = "\<lambda>r. rt_ID r = rt_ID c \<and> rt_RevokedAt r = None"
  have chain: "chain_inv (set (db_refresh db))" using inv by (simp add: token_inv_def)
  obtain x0 where x0: "x0 \<in> set (db_refresh db)" "x = (if ?P x0 then x0\<lparr>rt_RevokedAt := Some now\<rparr> else x0)"
    using x(1) unfolding cut_current_def by (auto elim!: in_update_whereE)
  then have fam: "rt_FamilyID x0 = rt_FamilyID c" using x(2) by (auto split: if_splits)
  have "rt_RevokedAt x \<noteq> None"
  proof (cases "rt_RevokedAt x0 = None")
    case True
    then have "x0 = c" using single_live_refresh[OF chain x0(1) c(1) fam _ c(2)] by simp
    then show ?thesis using x0(2) c(2) by simp
  next
    case False
    then show ?thesis using x0(2) by simp
  qed
  moreover have "rt_Sequence x0 \<le> rt_Sequence c"
    using live_refresh_is_last[OF chain c(1) x0(1)] fam c(2) by simp
  moreover have "kin c x0" using chain_invD(3)[OF chain c(1) x0(1)] .
  ultimately show ?thesis using x0(2) fam by (simp add: kin_def)
qed

lemma token_inv_rotateWrites:
  assumes inv: "token_inv db" and c: "c \<in> set (db_refresh db)" "rt_RevokedAt c = None"
    and v: "validateTokenPair (Some a) (Some r) = None" "validateRefreshRotation c a r = None"
    and ok: "rotateWrites flt now c origin a r audit db = Inr (out, db')"
  shows "token_inv db'"
proof -
  note w = rotateWrites_InrD[OF ok] and f = cut_current_family[OF inv c, of _ now]
  note r = v(2)[unfolded validateRefreshRotation_None_iff]
  have inv1: "token_inv (cut_current now c db)" by (rule token_inv_cut_current[OF inv])
  have "same_owner x r" if "x \<in> set (db_access (cut_current now c db))" for x
    using inv that c r by (auto simp: token_inv_def access_inv_def same_owner_def)
  moreover have "0 \<le> rt_Sequence c"
    using chain_invD(1)[OF _ c(1)] inv by (simp add: token_inv_def)
  ultimately have "token_inv (append_pair a r (cut_current now c db))"
    using r w(3,4) hashes_cut_current f by (intro token_inv_append_pair[OF inv1 v(1)]) fastforce+
  then show ?thesis using w(1) by (auto intro: token_inv_cong)
qed

end
