(* ===== verification/Token_Rotation.thy ===== *)
theory Token_Rotation
  imports Token_Invariant
begin

text \<open>
  What \<open>rotateRefreshToken\<close> commits, branch by branch: a committed transaction either cut the
  whole family (replay, or an exhausted capability lifetime) or replaced the presented token by
  its successor. Every committed database satisfies the invariant of the token tables.
\<close>

definition cut_family :: "string \<Rightarrow> instant \<Rightarrow> database \<Rightarrow> database" where
  "cut_family f t db =
     cut_tokens (\<lambda>a. at_FamilyID a = Some f) (\<lambda>r. rt_FamilyID r = f) t None db"

lemma cut_family_dead:
  "r \<in> set (db_refresh (cut_family f t db)) \<Longrightarrow> rt_FamilyID r = f \<Longrightarrow> rt_RevokedAt r \<noteq> None"
  "a \<in> set (db_access (cut_family f t db)) \<Longrightarrow> at_FamilyID a = Some f \<Longrightarrow> at_RevokedAt a \<noteq> None"
  unfolding cut_family_def by (auto dest: cut_refresh_dead cut_access_dead)

lemma token_inv_cut_family: "token_inv db \<Longrightarrow> token_inv (cut_family f t db)"
  by (simp add: cut_family_def token_inv_cut_tokens)

lemma revokeFamily_cut:
  "revokeFamilyInTransaction flt f t db = Inr (es, db') \<Longrightarrow> db' = cut_family f t db"
  by (simp add: revokeFamily_InrD cut_family_def)

lemma findRefreshTokenForUpdate_InrD:
  assumes "findRefreshTokenForUpdate flt db h = Inr c"
  shows "c \<in> set (db_refresh db)" "rt_TokenHash c = h"
  using assms by (auto simp: findRefreshTokenForUpdate_def stmt_Inr_iff dest: find_SomeD split: option.splits)

lemma rotateBody_InrE:
  assumes "rotateBody flt now f h a r audit m db = Inr (out, db')"
  obtains (cut) "out = RotateReplay \<or> out = RotateFamilyExpired" "db' = cut_family f now db"
  | (rotated) c origin where "c \<in> set (db_refresh db)" "rt_TokenHash c = h" "rt_FamilyID c = f"
      "rt_RevokedAt c = None" "now < rt_ExpiresAt c" "validateRefreshRotation c a r = None"
      "\<not> tokenFamilyHasRevokedAccess db f"
      "origin = rt_CreatedAt (hd (family_by_sequence db f))" "0 < m \<longrightarrow> now < origin + m"
      "rotateWrites flt now c origin (clampAccess m origin a) (clampRefresh m origin r) audit db
         = Inr (out, db')"
proof -
  obtain c where c: "findRefreshTokenForUpdate flt db h = Inr c" and f: "rt_FamilyID c = f"
    using assms by (auto simp: rotateBody_def stmt_Inr_iff bindE_eq_Inr_iff split: if_splits)
  note c' = findRefreshTokenForUpdate_InrD[OF c]
  show thesis
  proof (cases "rt_RevokedAt c")
    case (Some t)
    then show ?thesis using assms c f that(1)
      by (auto simp: rotateBody_def stmt_Inr_iff bindE_eq_Inr_iff dest!: revokeFamily_cut
          split: if_splits option.splits)
  next
    case None
    with assms c f have step: "validateRefreshRotation c a r = None" "now < rt_ExpiresAt c"
      by (auto simp: rotateBody_def stmt_Inr_iff split: if_splits option.splits)
    show ?thesis
    proof (cases "tokenFamilyHasRevokedAccess db f")
      case True
      then show ?thesis using assms c f None step that(1)
        by (auto simp: rotateBody_def stmt_Inr_iff bindE_eq_Inr_iff dest!: revokeFamily_cut)
    next
      case False
      then obtain o1 os where fam: "family_by_sequence db f = o1 # os"
        using assms c f None step by (auto simp: rotateBody_def stmt_Inr_iff split: list.splits)
      show ?thesis
      proof (cases "0 < m \<and> \<not> now < rt_CreatedAt o1 + m")
        case True
        then show ?thesis using assms c f None step False fam that(1)
          by (auto simp: rotateBody_def stmt_Inr_iff bindE_eq_Inr_iff Let_def dest!: revokeFamily_cut)
      next
        case live: False
        have "rotateWrites flt now c (rt_CreatedAt o1) (clampAccess m (rt_CreatedAt o1) a)
            (clampRefresh m (rt_CreatedAt o1) r) audit db = Inr (out, db')"
          using assms c f None step False fam live
          by (auto simp: rotateBody_def stmt_Inr_iff Let_def split: if_splits)
        then show ?thesis
          using that(2)[of c "rt_CreatedAt o1"] c' f None step False fam live by simp
      qed
    qed
  qed
qed

lemma validateTokenPair_clamped:
  "validateTokenPair (Some (clampAccess m o1 a)) (Some (clampRefresh m o1 r)) = None \<longleftrightarrow>
     validateTokenPair (Some a) (Some r) = None"
  by (simp add: validateTokenPair_None_iff)

lemma validateRefreshRotation_clamped:
  "validateRefreshRotation c (clampAccess m o1 a) (clampRefresh m o1 r) = None \<longleftrightarrow>
     validateRefreshRotation c a r = None"
  by (simp add: validateRefreshRotation_None_iff)

lemma token_inv_rotateBody:
  assumes inv: "token_inv db" and v: "validateTokenPair (Some a) (Some r) = None"
    and ok: "rotateBody flt now f h a r audit m db = Inr (out, db')"
  shows "token_inv db'"
  using ok
proof (cases rule: rotateBody_InrE)
  case cut
  then show ?thesis using inv by (simp add: token_inv_cut_family)
next
  case (rotated c origin)
  then show ?thesis
    using token_inv_rotateWrites[OF inv rotated(1,4) _ _ rotated(10)] v
    by (simp add: validateTokenPair_clamped validateRefreshRotation_clamped)
qed

text \<open>The wrapper around the transaction: the two early argument checks, then the mapping of
  the committed outcome to a result.\<close>

lemma rotateRefreshToken_cases:
  obtains (error) e where "rotateRefreshToken flt now f h newA newR audit m db = (Inl e, db)"
  | (commit) a r out db' where "newA = Some a" "newR = Some r"
      "TrimSpace f \<noteq> []" "h \<noteq> []" "validateTokenPair (Some a) (Some r) = None"
      "rotateBody flt now f h a r audit m db = Inr (out, db')"
      "rotateRefreshToken flt now f h newA newR audit m db =
         ((case out of RotateReplay \<Rightarrow> Inl ErrTokenReplay
           | RotateFamilyExpired \<Rightarrow> Inl ErrTokenFamilyExpired
           | Rotated origin a' r' \<Rightarrow> Inr (origin, a', r')), db')"
proof (cases "TrimSpace f = [] \<or> h = [] \<or> validateTokenPair newA newR \<noteq> None")
  case True
  then have "\<exists>e. rotateRefreshToken flt now f h newA newR audit m db = (Inl e, db)"
    by (auto simp: rotateRefreshToken_def)
  then show ?thesis using that(1) by blast
next
  case False
  then obtain a r where ar: "newA = Some a" "newR = Some r" "validateTokenPair (Some a) (Some r) = None"
    by (auto elim: validateTokenPair_NoneE)
  show ?thesis
  proof (cases rule: transaction_cases[of "rotateBody flt now f h a r audit m" db flt])
    case (commit out db')
    then show ?thesis using that(2)[of a r out db'] ar False
      by (auto simp: rotateRefreshToken_def split: rotate_outcome.splits)
  next
    case (rollback e)
    then show ?thesis using that(1) ar False by (auto simp: rotateRefreshToken_def)
  qed
qed

lemma token_inv_rotateRefreshToken:
  "token_inv db \<Longrightarrow> token_inv (snd (rotateRefreshToken flt now f h newA newR audit m db))"
  by (cases rule: rotateRefreshToken_cases[of flt now f h newA newR audit m db])
    (auto intro: token_inv_rotateBody)

lemma rotateRefreshToken_InrE:
  assumes "rotateRefreshToken flt now f h newA newR audit m db = (Inr (origin, a', r'), db')"
  obtains a r c where "newA = Some a" "newR = Some r" "validateTokenPair (Some a) (Some r) = None"
    "c \<in> set (db_refresh db)" "rt_TokenHash c = h" "rt_FamilyID c = f" "rt_RevokedAt c = None"
    "now < rt_ExpiresAt c" "validateRefreshRotation c a r = None"
    "\<not> tokenFamilyHasRevokedAccess db f"
    "origin = rt_CreatedAt (hd (family_by_sequence db f))" "0 < m \<longrightarrow> now < origin + m"
    "rotateWrites flt now c origin (clampAccess m origin a) (clampRefresh m origin r) audit db
       = Inr (Rotated origin a' r', db')"
proof (cases rule: rotateRefreshToken_cases[of flt now f h newA newR audit m db])
  case (error e)
  then show ?thesis using assms by simp
next
  case (commit a r out db1)
  then have out: "out = Rotated origin a' r'" "db1 = db'"
    using assms by (auto split: rotate_outcome.splits)
  show ?thesis
    using commit(6)
  proof (cases rule: rotateBody_InrE)
    case cut
    then show ?thesis using out by simp
  next
    case (rotated c o1)
    note w = rotateWrites_InrD(2)[OF rotated(10)]
    show ?thesis using that[OF commit(1,2,5) rotated(1-7)] rotated(8-10) out w by simp
  qed
qed

end
