(* ===== verification/Consent_Store.thy ===== *)
theory Consent_Store
  imports Token_Rotation
begin

text \<open>
  \<open>internal/repository/oauth_authorization.go\<close>: authorization codes and the standing consents
  (grants) they rest on. A code is written together with its grant, consumed at most once, and
  deleted together with the grant when the user revokes it.
\<close>

section \<open>Operations\<close>

definition validateNewAuthorization :: "authorization option \<Rightarrow> repo_error option" where
  "validateNewAuthorization authz =
    (case authz of
       None \<Rightarrow> Some ErrInvalidArgument
     | Some z \<Rightarrow>
         if TrimSpace (az_Code z) = [] \<or> az_ClientID z \<le> 0 \<or> az_UserID z \<le> 0
         then Some ErrInvalidArgument else None)"

definition lockAuthorizationClient :: "fault \<Rightarrow> int \<Rightarrow> unit tx" where
  "lockAuthorizationClient flt clientID db =
    stmt flt ''lock authorization client''
     (if client_exists db clientID then Inr ((), db) else Inl ErrNotFound)"

text \<open>\<open>INSERT INTO oauth_authorizations\<close>: \<open>code\<close> is unique, the owner and the client exist, the code
  expires after its creation and the challenge method is \<open>S256\<close>. A zero creation time is
  replaced by the clock (GORM's \<open>autoCreateTime\<close>).\<close>

definition insert_authorization :: "fault \<Rightarrow> instant \<Rightarrow> authorization \<Rightarrow> authorization tx" where
  "insert_authorization flt now z db =
    stmt flt ''create authorization''
     (let z' = z\<lparr>az_ID := db_seq db + 1,
                 az_CreatedAt := (if IsZero (az_CreatedAt z) then now else az_CreatedAt z)\<rparr> in
      if list_ex (\<lambda>x. az_Code x = az_Code z) (db_authorizations db)
         \<or> \<not> client_exists db (az_ClientID z) \<or> \<not> user_exists db (az_UserID z)
         \<or> az_ExpiresAt z' \<le> az_CreatedAt z' \<or> az_CodeChallengeMethod z \<noteq> ''S256''
      then Inl (DbError ''create authorization'')
      else Inr (z', db\<lparr>db_authorizations := db_authorizations db @ [z'],
                       db_seq := db_seq db + 1\<rparr>))"

abbreviation grant_of :: "int \<Rightarrow> int \<Rightarrow> oauth_grant \<Rightarrow> bool" where
  "grant_of u c g \<equiv> gr_UserID g = u \<and> gr_ClientID g = c"

text \<open>\<open>INSERT INTO oauth_grants ... ON CONFLICT (user_id, client_id) DO UPDATE SET scopes, granted_at\<close>.\<close>

definition upsert_grant :: "oauth_grant \<Rightarrow> database \<Rightarrow> database" where
  "upsert_grant g db =
    (if list_ex (grant_of (gr_UserID g) (gr_ClientID g)) (db_grants db)
     then db\<lparr>db_grants := update_where (grant_of (gr_UserID g) (gr_ClientID g))
            (\<lambda>x. x\<lparr>gr_Scopes := gr_Scopes g, gr_GrantedAt := gr_GrantedAt g\<rparr>) (db_grants db)\<rparr>
     else db\<lparr>db_grants := db_grants db @ [g]\<rparr>)"

definition createWithGrantBody :: "fault \<Rightarrow> instant \<Rightarrow> authorization \<Rightarrow> authorization tx" where
  "createWithGrantBody flt now z db =
    bindE (lockAuthorizationClient flt (az_ClientID z) db) (\<lambda>(_, db0).
    bindE (insert_authorization flt now z db0) (\<lambda>(z', db1).
      stmt flt ''upsert grant''
       (Inr (z', upsert_grant \<lparr>gr_UserID = az_UserID z', gr_ClientID = az_ClientID z',
               gr_Scopes = az_Scopes z', gr_GrantedAt = az_CreatedAt z'\<rparr> db1))))"

definition CreateWithGrant ::
    "fault \<Rightarrow> instant \<Rightarrow> authorization option \<Rightarrow> database \<Rightarrow> (repo_error + authorization) \<times> database" where
  "CreateWithGrant flt now authz db =
    (case validateNewAuthorization authz of
       Some e \<Rightarrow> (Inl e, db)
     | None \<Rightarrow> (case authz of
         None \<Rightarrow> (Inl ErrInvalidArgument, db)
       | Some z \<Rightarrow> transaction flt (createWithGrantBody flt now z) db))"

text \<open>\<open>scopes @> ?\<close> holds when every requested scope is an element of the stored array.\<close>

definition covering_grant :: "authorization \<Rightarrow> oauth_grant \<Rightarrow> bool" where
  "covering_grant z g \<longleftrightarrow>
     grant_of (az_UserID z) (az_ClientID z) g \<and> list_all (\<lambda>s. s \<in> set (gr_Scopes g)) (az_Scopes z)"

definition createWithExistingGrantBody :: "fault \<Rightarrow> instant \<Rightarrow> authorization \<Rightarrow> authorization tx" where
  "createWithExistingGrantBody flt now z db =
    bindE (lockAuthorizationClient flt (az_ClientID z) db) (\<lambda>(_, db0).
      stmt flt ''update grant''
       (let db1 = db0\<lparr>db_grants := update_where (covering_grant z)
              (\<lambda>g. g\<lparr>gr_Scopes := az_Scopes z, gr_GrantedAt := az_CreatedAt z\<rparr>) (db_grants db0)\<rparr> in
        if rows_affected (covering_grant z) (db_grants db0) = 0 then Inl ErrNotFound
        else insert_authorization flt now z db1))"

definition CreateWithExistingGrant ::
    "fault \<Rightarrow> instant \<Rightarrow> authorization option \<Rightarrow> database \<Rightarrow> (repo_error + authorization) \<times> database" where
  "CreateWithExistingGrant flt now authz db =
    (case validateNewAuthorization authz of
       Some e \<Rightarrow> (Inl e, db)
     | None \<Rightarrow> (case authz of
         None \<Rightarrow> (Inl ErrInvalidArgument, db)
       | Some z \<Rightarrow> transaction flt (createWithExistingGrantBody flt now z) db))"

text \<open>The outcome flags the closure of \<open>Consume\<close> sets, with the locked row and the version read.\<close>

datatype consume_outcome =
    Replayed authorization
  | Expired authorization
  | Consumed authorization int

definition consumeBody :: "fault \<Rightarrow> string \<Rightarrow> instant \<Rightarrow> int \<Rightarrow> consume_outcome tx" where
  "consumeBody flt code now clientID db =
    stmt flt ''lock authorization''
     (case List.find (\<lambda>z. az_Code z = code \<and> az_ClientID z = clientID) (db_authorizations db) of
        None \<Rightarrow> Inl ErrNotFound
      | Some z \<Rightarrow>
          if az_IsUsed z then
            stmt flt ''expire replayed authorization''
             (let expires = min (az_ExpiresAt z) now in
              if expires \<le> az_CreatedAt z then Inl (DbError ''expire replayed authorization'')
              else Inr (Replayed z, db\<lparr>db_authorizations := update_where (\<lambda>x. az_ID x = az_ID z)
                     (\<lambda>x. x\<lparr>az_ExpiresAt := min (az_ExpiresAt x) now\<rparr>) (db_authorizations db)\<rparr>))
          else if \<not> now < az_ExpiresAt z then Inr (Expired z, db)
          else stmt flt ''mark authorization used''
           (let P = (\<lambda>x. az_ID x = az_ID z \<and> \<not> az_IsUsed x);
                db1 = db\<lparr>db_authorizations := update_where P (\<lambda>x. x\<lparr>az_IsUsed := True\<rparr>)
                        (db_authorizations db)\<rparr> in
            if rows_affected P (db_authorizations db) \<noteq> 1 then Inr (Replayed z, db1)
            else stmt flt ''read user token version''
             (Inr (Consumed (z\<lparr>az_IsUsed := True\<rparr>)
                    (case find_user db1 (az_UserID z) of None \<Rightarrow> 0 | Some u \<Rightarrow> us_TokenVersion u),
                   db1))))"

text \<open>The result triple of the source: the record, the version, the error.\<close>

definition Consume ::
    "fault \<Rightarrow> string \<Rightarrow> instant \<Rightarrow> int \<Rightarrow> database
      \<Rightarrow> (authorization option \<times> int \<times> repo_error option) \<times> database" where
  "Consume flt code now clientID db =
    (if TrimSpace code = [] \<or> IsZero now \<or> clientID \<le> 0
     then ((None, 0, Some ErrInvalidArgument), db)
     else case transaction flt (consumeBody flt code now clientID) db of
       (Inl e, db') \<Rightarrow> ((None, 0, Some e), db')
     | (Inr (Replayed z), db') \<Rightarrow> ((Some z, 0, Some ErrAuthorizationReplayed), db')
     | (Inr (Expired z), db') \<Rightarrow> ((Some z, 0, Some ErrAuthorizationExpired), db')
     | (Inr (Consumed z v), db') \<Rightarrow> ((Some z, v, None), db'))"

definition FindGrantScopes :: "fault \<Rightarrow> database \<Rightarrow> int \<Rightarrow> int \<Rightarrow> repo_error + (string list \<times> bool)" where
  "FindGrantScopes flt db userID clientID =
    (if userID \<le> 0 \<or> clientID \<le> 0 then Inl ErrInvalidArgument
     else stmt flt ''find grant scopes''
      (case List.find (grant_of userID clientID) (db_grants db) of
         None \<Rightarrow> Inr ([], False)
       | Some g \<Rightarrow> Inr (gr_Scopes g, True)))"

record grant_view =
  gv_ClientID :: int
  gv_ClientKey :: string
  gv_ClientName :: string
  gv_ClientType :: string
  gv_RedirectURIs :: "string list"
  gv_IsActive :: "bool option"
  gv_Scopes :: "string list"
  gv_LastAuthorizedAt :: instant

definition ListGrantsByUser :: "fault \<Rightarrow> database \<Rightarrow> int \<Rightarrow> repo_error + grant_view list" where
  "ListGrantsByUser flt db userID =
    stmt flt ''list oauth grants''
     (Inr (sort_key gv_ClientID
       (concat (map (\<lambda>g. map (\<lambda>c. \<lparr>gv_ClientID = gr_ClientID g, gv_ClientKey = cl_ClientID c,
                gv_ClientName = cl_ClientName c, gv_ClientType = cl_ClientType c,
                gv_RedirectURIs = cl_RedirectURIs c, gv_IsActive = cl_IsActive c,
                gv_Scopes = gr_Scopes g, gv_LastAuthorizedAt = gr_GrantedAt g\<rparr>)
              (filter (\<lambda>c. cl_ID c = gr_ClientID g) (db_clients db)))
         (filter (\<lambda>g. gr_UserID g = userID) (db_grants db))))))"

section \<open>The invariant\<close>

text \<open>Keys are unique, and no code exists without the grant it rests on.\<close>

definition az_pair :: "authorization \<Rightarrow> int \<times> int" where
  "az_pair z = (az_UserID z, az_ClientID z)"

definition gr_pair :: "oauth_grant \<Rightarrow> int \<times> int" where
  "gr_pair g = (gr_UserID g, gr_ClientID g)"

lemma pair_update [simp]:
  "az_pair (z\<lparr>az_ID := i\<rparr>) = az_pair z" "az_pair (z\<lparr>az_IsUsed := u\<rparr>) = az_pair z"
  "az_pair (z\<lparr>az_ExpiresAt := t\<rparr>) = az_pair z" "az_pair (z\<lparr>az_CreatedAt := t\<rparr>) = az_pair z"
  "gr_pair (g\<lparr>gr_Scopes := ss\<rparr>) = gr_pair g" "gr_pair (g\<lparr>gr_GrantedAt := t\<rparr>) = gr_pair g"
  by (simp_all add: az_pair_def gr_pair_def)

lemma grant_of_iff: "grant_of u c g \<longleftrightarrow> gr_pair g = (u, c)"
  by (auto simp: gr_pair_def)

definition consent_inv :: "database \<Rightarrow> bool" where
  "consent_inv db \<longleftrightarrow>
    distinct (map az_ID (db_authorizations db)) \<and>
    (\<forall>i\<in>set (map az_ID (db_authorizations db)). i \<le> db_seq db) \<and>
    distinct (map az_Code (db_authorizations db)) \<and>
    distinct (map gr_pair (db_grants db)) \<and>
    set (map az_pair (db_authorizations db)) \<subseteq> set (map gr_pair (db_grants db))"

lemma consent_inv_cong:
  assumes "map az_ID (db_authorizations db') = map az_ID (db_authorizations db)"
    "map az_Code (db_authorizations db') = map az_Code (db_authorizations db)"
    "map az_pair (db_authorizations db') = map az_pair (db_authorizations db)"
    "map gr_pair (db_grants db') = map gr_pair (db_grants db)"
    "db_seq db \<le> db_seq db'"
  shows "consent_inv db \<Longrightarrow> consent_inv db'"
  unfolding consent_inv_def assms(1-4) using assms(5) by fastforce

lemma insert_authorization_InrD:
  assumes "insert_authorization flt now z db = Inr (z', db')"
  shows "z' = z\<lparr>az_ID := db_seq db + 1,
      az_CreatedAt := (if IsZero (az_CreatedAt z) then now else az_CreatedAt z)\<rparr>"
    "db' = db\<lparr>db_authorizations := db_authorizations db @ [z'], db_seq := db_seq db + 1\<rparr>"
    "az_Code z \<notin> az_Code ` set (db_authorizations db)"
    "az_CreatedAt z' < az_ExpiresAt z'" "az_CodeChallengeMethod z = ''S256''"
    "client_exists db (az_ClientID z)" "user_exists db (az_UserID z)"
  using assms
  by (auto simp: insert_authorization_def stmt_Inr_iff Let_def list_ex_iff split: if_splits)

lemma lockAuthorizationClient_InrD:
  "lockAuthorizationClient flt c db = Inr (u, db') \<Longrightarrow> db' = db \<and> client_exists db c"
  by (auto simp: lockAuthorizationClient_def stmt_Inr_iff split: if_splits)

lemma upsert_grant_frame [simp]:
  "db_authorizations (upsert_grant g db) = db_authorizations db"
  "db_refresh (upsert_grant g db) = db_refresh db" "db_access (upsert_grant g db) = db_access db"
  "db_seq (upsert_grant g db) = db_seq db" "db_users (upsert_grant g db) = db_users db"
  "db_clients (upsert_grant g db) = db_clients db" "db_outbox (upsert_grant g db) = db_outbox db"
  "db_profiles (upsert_grant g db) = db_profiles db" "db_identities (upsert_grant g db) = db_identities db"
  "db_alumni (upsert_grant g db) = db_alumni db"
  by (simp_all add: upsert_grant_def)

text \<open>After an upsert the pair has exactly the new scopes; the other pairs keep theirs.\<close>

lemma upsert_grant_keys:
  "set (map gr_pair (db_grants (upsert_grant g db))) =
     insert (gr_pair g) (set (map gr_pair (db_grants db)))"
proof (cases "list_ex (grant_of (gr_UserID g) (gr_ClientID g)) (db_grants db)")
  case True
  then obtain x where "x \<in> set (db_grants db)" "gr_pair x = gr_pair g"
    by (auto simp: list_ex_iff gr_pair_def)
  then have "gr_pair g \<in> set (map gr_pair (db_grants db))" by (metis image_eqI list.set_map)
  moreover have "map gr_pair (db_grants (upsert_grant g db)) = map gr_pair (db_grants db)"
    using True by (simp add: upsert_grant_def map_update_where)
  ultimately show ?thesis by (metis insert_absorb)
qed (simp add: upsert_grant_def)

lemma upsert_grant_distinct:
  "distinct (map gr_pair (db_grants db)) \<Longrightarrow>
   distinct (map gr_pair (db_grants (upsert_grant g db)))"
  by (auto simp: upsert_grant_def map_update_where list_ex_iff gr_pair_def)

lemma upsert_grant_scopes:
  "x \<in> set (db_grants (upsert_grant g db)) \<Longrightarrow> grant_of (gr_UserID g) (gr_ClientID g) x \<Longrightarrow>
     gr_Scopes x = gr_Scopes g"
  by (auto simp: upsert_grant_def set_update_where list_ex_iff split: if_splits)

lemma createWithGrantBody_InrD:
  assumes "createWithGrantBody flt now z db = Inr (z', db')"
  obtains db1 where "insert_authorization flt now z db = Inr (z', db1)"
    "db' = upsert_grant \<lparr>gr_UserID = az_UserID z', gr_ClientID = az_ClientID z',
               gr_Scopes = az_Scopes z', gr_GrantedAt = az_CreatedAt z'\<rparr> db1"
  using assms
  by (auto simp: createWithGrantBody_def bindE_eq_Inr_iff stmt_Inr_iff
      dest!: lockAuthorizationClient_InrD)

lemma createWithExistingGrantBody_InrD:
  assumes "createWithExistingGrantBody flt now z db = Inr (z', db')"
  shows "\<exists>g\<in>set (db_grants db). covering_grant z g"
    "insert_authorization flt now z (db\<lparr>db_grants := update_where (covering_grant z)
       (\<lambda>g. g\<lparr>gr_Scopes := az_Scopes z, gr_GrantedAt := az_CreatedAt z\<rparr>) (db_grants db)\<rparr>)
       = Inr (z', db')"
  using assms
  by (auto simp: createWithExistingGrantBody_def bindE_eq_Inr_iff stmt_Inr_iff Let_def rows_affected_def
      filter_empty_conv dest!: lockAuthorizationClient_InrD split: if_splits)

text \<open>A new code keeps the invariant when its pair has a grant row.\<close>

lemma consent_inv_append:
  assumes "consent_inv db" "az_ID z = db_seq db + 1" "az_Code z \<notin> set (map az_Code (db_authorizations db))"
    "az_pair z \<in> set (map gr_pair (db_grants db))"
  shows "consent_inv (db\<lparr>db_authorizations := db_authorizations db @ [z], db_seq := db_seq db + 1\<rparr>)"
  using assms by (fastforce simp: consent_inv_def)

lemma consent_inv_upsert_grant: "consent_inv db \<Longrightarrow> consent_inv (upsert_grant g db)"
  unfolding consent_inv_def upsert_grant_keys by (auto intro: upsert_grant_distinct)

lemma consent_inv_createWithGrant:
  assumes inv: "consent_inv db" and ok: "createWithGrantBody flt now z db = Inr (z', db')"
  shows "consent_inv db'"
  using ok
proof (rule createWithGrantBody_InrD)
  fix db1
  let ?g = "\<lparr>gr_UserID = az_UserID z', gr_ClientID = az_ClientID z',
    gr_Scopes = az_Scopes z', gr_GrantedAt = az_CreatedAt z'\<rparr>"
  assume ins: "insert_authorization flt now z db = Inr (z', db1)" and db': "db' = upsert_grant ?g db1"
  note i = insert_authorization_InrD[OF ins]
  have eq: "db' = (upsert_grant ?g db)\<lparr>db_authorizations := db_authorizations (upsert_grant ?g db) @ [z'],
      db_seq := db_seq (upsert_grant ?g db) + 1\<rparr>"
    unfolding db' using i(2) by (simp add: upsert_grant_def)
  have g: "az_pair z' = gr_pair ?g" by (simp add: az_pair_def gr_pair_def)
  have "az_pair z' \<in> set (map gr_pair (db_grants (upsert_grant ?g db)))"
    unfolding upsert_grant_keys g by simp
  then show ?thesis unfolding eq
    by (rule consent_inv_append[OF consent_inv_upsert_grant[OF inv], rotated 2]) (use i in simp_all)
qed

lemma consent_inv_createWithExistingGrant:
  assumes inv: "consent_inv db" and ok: "createWithExistingGrantBody flt now z db = Inr (z', db')"
  shows "consent_inv db'"
proof -
  note b = createWithExistingGrantBody_InrD[OF ok]
  let ?db = "db\<lparr>db_grants := update_where (covering_grant z)
       (\<lambda>g. g\<lparr>gr_Scopes := az_Scopes z, gr_GrantedAt := az_CreatedAt z\<rparr>) (db_grants db)\<rparr>"
  note i = insert_authorization_InrD[OF b(2)]
  have m: "map gr_pair (db_grants ?db) = map gr_pair (db_grants db)"
    by (simp add: map_update_where)
  have inv1: "consent_inv ?db" by (rule consent_inv_cong[OF _ _ _ m _ inv]) simp_all
  have "az_pair z \<in> set (map gr_pair (db_grants ?db))"
    unfolding m using b(1) by (force simp: covering_grant_def az_pair_def gr_pair_def)
  then have "az_pair z' \<in> set (map gr_pair (db_grants ?db))" using i(1) by simp
  then show ?thesis unfolding i(2) by (rule consent_inv_append[OF inv1, rotated 2]) (use i in simp_all)
qed

text \<open>What a consume commits.\<close>

lemma consumeBody_InrE:
  assumes "consumeBody flt code now c db = Inr (out, db')"
  obtains (replayed) z where "out = Replayed z" "z \<in> set (db_authorizations db)" "az_Code z = code"
      "az_ClientID z = c" "az_IsUsed z"
      "db' = db\<lparr>db_authorizations := update_where (\<lambda>x. az_ID x = az_ID z)
         (\<lambda>x. x\<lparr>az_ExpiresAt := min (az_ExpiresAt x) now\<rparr>) (db_authorizations db)\<rparr>"
  | (expired) z where "out = Expired z" "z \<in> set (db_authorizations db)" "az_Code z = code"
      "az_ClientID z = c" "\<not> az_IsUsed z" "az_ExpiresAt z \<le> now" "db' = db"
  | (raced) z where "out = Replayed z" "z \<in> set (db_authorizations db)" "az_Code z = code" "\<not> az_IsUsed z"
      "az_ClientID z = c"
      "rows_affected (\<lambda>x. az_ID x = az_ID z \<and> \<not> az_IsUsed x) (db_authorizations db) \<noteq> 1"
      "db' = db\<lparr>db_authorizations := update_where (\<lambda>x. az_ID x = az_ID z \<and> \<not> az_IsUsed x)
         (\<lambda>x. x\<lparr>az_IsUsed := True\<rparr>) (db_authorizations db)\<rparr>"
  | (consumed) z where "out = Consumed (z\<lparr>az_IsUsed := True\<rparr>)
        (case find_user db (az_UserID z) of None \<Rightarrow> 0 | Some u \<Rightarrow> us_TokenVersion u)"
      "z \<in> set (db_authorizations db)" "az_Code z = code" "az_ClientID z = c"
      "\<not> az_IsUsed z" "now < az_ExpiresAt z"
      "db' = db\<lparr>db_authorizations := update_where (\<lambda>x. az_ID x = az_ID z \<and> \<not> az_IsUsed x)
         (\<lambda>x. x\<lparr>az_IsUsed := True\<rparr>) (db_authorizations db)\<rparr>"
proof -
  obtain z where f: "List.find (\<lambda>z. az_Code z = code \<and> az_ClientID z = c) (db_authorizations db) = Some z"
    using assms by (auto simp: consumeBody_def stmt_Inr_iff split: option.splits)
  then have z: "z \<in> set (db_authorizations db)" "az_Code z = code" "az_ClientID z = c"
    by (auto dest: find_SomeD)
  have fu: "find_user (db\<lparr>db_authorizations := X\<rparr>) u = find_user db u" for X u
    by (simp add: find_user_def)
  consider "az_IsUsed z" | "\<not> az_IsUsed z" "az_ExpiresAt z \<le> now" | "\<not> az_IsUsed z" "now < az_ExpiresAt z"
    by linarith
  then show thesis
  proof cases
    case 1
    with assms f have "out = Replayed z" "db' = db\<lparr>db_authorizations := update_where (\<lambda>x. az_ID x = az_ID z)
         (\<lambda>x. x\<lparr>az_ExpiresAt := min (az_ExpiresAt x) now\<rparr>) (db_authorizations db)\<rparr>"
      by (simp_all add: consumeBody_def stmt_Inr_iff Let_def split: if_splits)
    then show ?thesis using that(1) z 1 by blast
  next
    case 2
    with assms f have "out = Expired z" "db' = db" by (simp_all add: consumeBody_def stmt_Inr_iff)
    then show ?thesis using that(2) z 2 by blast
  next
    case 3
    let ?P = "\<lambda>x. az_ID x = az_ID z \<and> \<not> az_IsUsed x"
    let ?v = "case find_user db (az_UserID z) of None \<Rightarrow> 0 | Some u \<Rightarrow> us_TokenVersion u"
    have "db' = db\<lparr>db_authorizations := update_where ?P (\<lambda>x. x\<lparr>az_IsUsed := True\<rparr>) (db_authorizations db)\<rparr>"
      "out = (if rows_affected ?P (db_authorizations db) \<noteq> 1 then Replayed z
         else Consumed (z\<lparr>az_IsUsed := True\<rparr>) ?v)"
      using assms f 3 by (simp_all add: consumeBody_def stmt_Inr_iff Let_def fu split: if_splits)
    then show ?thesis using that(3,4) z 3 by (cases "rows_affected ?P (db_authorizations db) = 1") simp_all
  qed
qed

lemma consent_inv_consumeBody:
  assumes inv: "consent_inv db" and ok: "consumeBody flt code now c db = Inr (out, db')"
  shows "consent_inv db'"
  using ok
  by (cases rule: consumeBody_InrE)
    (auto intro!: consent_inv_cong[OF _ _ _ _ _ inv] simp: inv map_update_where)

end
