(* ===== verification/Client_Store.thy ===== *)
theory Client_Store
  imports Consent_Store
begin

text \<open>
  The writers of other repositories that revoke tokens in the same transaction as their own
  change: client update and removal (\<open>oauth_client.go\<close>), password replacement (\<open>user.go\<close>) and
  the resolution of a device eviction (\<open>device_eviction.go\<close>), with the client lookups.
\<close>

section \<open>Client lookups\<close>

definition FindActiveByClientID :: "fault \<Rightarrow> database \<Rightarrow> string \<Rightarrow> repo_error + oauth_client" where
  "FindActiveByClientID flt db clientID =
    (if clientID = [] then Inl ErrInvalidArgument
     else stmt flt ''find active OAuth client by client ID''
      (case List.find (\<lambda>c. cl_ClientID c = clientID \<and> cl_IsActive c = Some True) (db_clients db) of
         None \<Rightarrow> Inl ErrNotFound
       | Some c \<Rightarrow> Inr c))"

text \<open>The process-local cache of the built-in client is a map from the public client ID to the
  row first loaded; it is never invalidated.\<close>

definition FindActiveInternalClient ::
    "fault \<Rightarrow> database \<Rightarrow> string \<Rightarrow> (string \<rightharpoonup> oauth_client)
      \<Rightarrow> (repo_error + oauth_client) \<times> (string \<rightharpoonup> oauth_client)" where
  "FindActiveInternalClient flt db clientID cache =
    (case cache clientID of
       Some c \<Rightarrow> (Inr c, cache)
     | None \<Rightarrow> (case FindActiveByClientID flt db clientID of
         Inl e \<Rightarrow> (Inl e, cache)
       | Inr c \<Rightarrow> (Inr c, cache(clientID \<mapsto> c))))"

definition FindByID :: "fault \<Rightarrow> database \<Rightarrow> int \<Rightarrow> repo_error + oauth_client" where
  "FindByID flt db i =
    (if i \<le> 0 then Inl ErrInvalidArgument
     else stmt flt ''find OAuth client by ID''
      (case find_client db i of None \<Rightarrow> Inl ErrNotFound | Some c \<Rightarrow> Inr c))"

definition ListClients :: "fault \<Rightarrow> database \<Rightarrow> repo_error + oauth_client list" where
  "ListClients flt db = stmt flt ''list OAuth clients'' (Inr (sort_key cl_ID (db_clients db)))"

definition CountClients :: "fault \<Rightarrow> database \<Rightarrow> repo_error + (nat \<times> nat)" where
  "CountClients flt db = stmt flt ''count oauth clients''
     (Inr (length (db_clients db), length (filter (\<lambda>c. cl_IsActive c = Some True) (db_clients db))))"

section \<open>Client writers\<close>

text \<open>The check constraints of \<open>oauth_clients\<close>.\<close>

definition client_row_ok :: "oauth_client \<Rightarrow> bool" where
  "client_row_ok c \<longleftrightarrow> cl_RedirectURIs c \<noteq> [] \<and> cl_GrantTypes c \<noteq> []"

definition CreateClient ::
    "fault \<Rightarrow> oauth_client option \<Rightarrow> database \<Rightarrow> (repo_error + oauth_client) \<times> database" where
  "CreateClient flt client db =
    (case client of
       None \<Rightarrow> (Inl ErrInvalidArgument, db)
     | Some c \<Rightarrow>
         if flt ''create OAuth client'' \<or> \<not> client_row_ok c
            \<or> list_ex (\<lambda>x. cl_ClientID x = cl_ClientID c) (db_clients db)
         then (Inl (DbError ''create OAuth client''), db)
         else (let c' = c\<lparr>cl_ID := db_seq db + 1,
                         cl_IsActive := (case cl_IsActive c of None \<Rightarrow> Some True | b \<Rightarrow> b)\<rparr> in
           (Inr c', db\<lparr>db_clients := db_clients db @ [c'], db_seq := db_seq db + 1\<rparr>)))"

text \<open>The column map of \<open>UpdateAndRevoke\<close>: an absent key leaves its column alone.\<close>

record client_fields =
  cf_ClientName :: "string option"
  cf_RedirectURIs :: "string list option"
  cf_IsActive :: "bool option"
  cf_GrantTypes :: "string list option"
  cf_Scopes :: "string list option"

definition no_fields :: "client_fields \<Rightarrow> bool" where
  "no_fields f \<longleftrightarrow> cf_ClientName f = None \<and> cf_RedirectURIs f = None \<and> cf_IsActive f = None
     \<and> cf_GrantTypes f = None \<and> cf_Scopes f = None"

definition set_or :: "'a option \<Rightarrow> 'a \<Rightarrow> 'a" where
  "set_or v old = (case v of None \<Rightarrow> old | Some x \<Rightarrow> x)"

text \<open>The update trigger sets \<open>updated_at\<close> to the transaction's clock.\<close>

definition apply_fields :: "instant \<Rightarrow> client_fields \<Rightarrow> oauth_client \<Rightarrow> oauth_client" where
  "apply_fields dbnow f c = c\<lparr>
     cl_ClientName := set_or (cf_ClientName f) (cl_ClientName c),
     cl_RedirectURIs := set_or (cf_RedirectURIs f) (cl_RedirectURIs c),
     cl_IsActive := (case cf_IsActive f of None \<Rightarrow> cl_IsActive c | Some b \<Rightarrow> Some b),
     cl_GrantTypes := set_or (cf_GrantTypes f) (cl_GrantTypes c),
     cl_Scopes := set_or (cf_Scopes f) (cl_Scopes c),
     cl_UpdatedAt := dbnow\<rparr>"

definition updateAndRevokeBody ::
    "fault \<Rightarrow> instant \<Rightarrow> int \<Rightarrow> client_fields \<Rightarrow> bool \<Rightarrow> instant \<Rightarrow> instant
      \<Rightarrow> (blacklist_entry list \<times> nat) tx" where
  "updateAndRevokeBody flt dbnow i f revokeTokens revokedAt expectedUpdatedAt db =
    stmt flt ''lock OAuth client''
     (case find_client db i of
        None \<Rightarrow> Inl ErrNotFound
      | Some locked \<Rightarrow>
          if cl_UpdatedAt locked \<noteq> expectedUpdatedAt then Inl ErrStateConflict
          else stmt flt ''update OAuth client''
           (if \<not> client_row_ok (apply_fields dbnow f locked) then Inl (DbError ''update OAuth client'')
            else (let db1 = db\<lparr>db_clients := update_where (\<lambda>c. cl_ID c = i) (apply_fields dbnow f)
                         (db_clients db)\<rparr> in
              if \<not> revokeTokens then Inr (([], 0), db1)
              else revokeAllByClientInTransaction flt i revokedAt db1)))"

definition UpdateAndRevoke ::
    "fault \<Rightarrow> instant \<Rightarrow> int \<Rightarrow> client_fields \<Rightarrow> bool \<Rightarrow> instant \<Rightarrow> instant \<Rightarrow> database
      \<Rightarrow> (repo_error + blacklist_entry list \<times> nat) \<times> database" where
  "UpdateAndRevoke flt dbnow i f revokeTokens revokedAt expectedUpdatedAt db =
    (if i \<le> 0 then (Inl ErrInvalidArgument, db)
     else if no_fields f then (Inl ErrInvalidArgument, db)
     else if IsZero expectedUpdatedAt then (Inl ErrInvalidArgument, db)
     else transaction flt
       (updateAndRevokeBody flt dbnow i f revokeTokens revokedAt expectedUpdatedAt) db)"

text \<open>Deleting the client row cascades to its tokens; its grants and codes are already gone.\<close>

definition delete_client_cascade :: "int \<Rightarrow> database \<Rightarrow> database" where
  "delete_client_cascade i db = db\<lparr>
     db_clients := delete_where (\<lambda>c. cl_ID c = i) (db_clients db),
     db_authorizations := delete_where (\<lambda>z. az_ClientID z = i) (db_authorizations db),
     db_grants := delete_where (\<lambda>g. gr_ClientID g = i) (db_grants db),
     db_access := delete_where (\<lambda>a. at_ClientID a = i) (db_access db),
     db_refresh := delete_where (\<lambda>r. rt_ClientID r = i) (db_refresh db)\<rparr>"

definition deleteAndRevokeBody :: "fault \<Rightarrow> int \<Rightarrow> instant \<Rightarrow> (blacklist_entry list \<times> nat) tx" where
  "deleteAndRevokeBody flt i revokedAt db =
    stmt flt ''lock OAuth client''
     (if \<not> client_exists db i then Inl ErrNotFound
      else stmt flt ''delete client grants''
       (let db1 = db\<lparr>db_grants := delete_where (\<lambda>g. gr_ClientID g = i) (db_grants db)\<rparr> in
        stmt flt ''delete client authorizations''
         (let db2 = db1\<lparr>db_authorizations :=
                delete_where (\<lambda>z. az_ClientID z = i) (db_authorizations db1)\<rparr> in
          bindE (revokeAllByClientInTransaction flt i revokedAt db2) (\<lambda>(res, db3).
            stmt flt ''delete OAuth client''
             (if rows_affected (\<lambda>c. cl_ID c = i) (db_clients db3) = 0 then Inl ErrNotFound
              else Inr (res, delete_client_cascade i db3))))))"

definition DeleteAndRevoke ::
    "fault \<Rightarrow> int \<Rightarrow> instant \<Rightarrow> database \<Rightarrow> (repo_error + blacklist_entry list \<times> nat) \<times> database" where
  "DeleteAndRevoke flt i revokedAt db =
    (if i \<le> 0 then (Inl ErrInvalidArgument, db)
     else transaction flt (deleteAndRevokeBody flt i revokedAt) db)"

section \<open>Passwords\<close>

definition updatePasswordBody ::
    "fault \<Rightarrow> int \<Rightarrow> string \<Rightarrow> instant \<Rightarrow> string \<Rightarrow> blacklist_entry list tx" where
  "updatePasswordBody flt userID passwordHash revokedAt revokedReason db =
    stmt flt ''update password and token version''
     (let P = (\<lambda>u. us_ID u = userID) in
      if rows_affected P (db_users db) = 0 then Inl ErrNotFound
      else revokeAllByUserInTransaction flt userID revokedAt revokedReason
        (db\<lparr>db_users := update_where P
           (\<lambda>u. u\<lparr>us_PasswordHash := passwordHash, us_TokenVersion := us_TokenVersion u + 1\<rparr>)
           (db_users db)\<rparr>))"

definition UpdatePasswordAndRevokeSessions ::
    "fault \<Rightarrow> int \<Rightarrow> string \<Rightarrow> instant \<Rightarrow> string \<Rightarrow> database
      \<Rightarrow> (repo_error + blacklist_entry list) \<times> database" where
  "UpdatePasswordAndRevokeSessions flt userID passwordHash revokedAt revokedReason db =
     transaction flt (updatePasswordBody flt userID passwordHash revokedAt revokedReason) db"

definition UpdatePasswordHash ::
    "fault \<Rightarrow> int \<Rightarrow> string \<Rightarrow> string \<Rightarrow> database \<Rightarrow> repo_error option \<times> database" where
  "UpdatePasswordHash flt userID currentHash passwordHash db =
    (if TrimSpace passwordHash = [] then (Some ErrInvalidArgument, db)
     else if flt ''update password hash'' then (Some (DbError ''update password hash''), db)
     else (let P = (\<lambda>u. us_ID u = userID \<and> us_PasswordHash u = currentHash) in
       if rows_affected P (db_users db) = 0 then (Some ErrRehashSkipped, db)
       else (None, db\<lparr>db_users := update_where P (\<lambda>u. u\<lparr>us_PasswordHash := passwordHash\<rparr>)
                       (db_users db)\<rparr>)))"

section \<open>Device evictions\<close>

definition resolveEvictionBody ::
    "fault \<Rightarrow> int \<Rightarrow> string \<Rightarrow> string \<Rightarrow> string \<Rightarrow> instant \<Rightarrow> instant \<Rightarrow> bool tx" where
  "resolveEvictionBody flt userID tokenHash sourceFamily evicted sourceExpiry now db =
    stmt flt ''lock token family''
     (stmt flt ''find eviction source''
      (if \<not> list_ex (\<lambda>r. rt_TokenHash r = tokenHash \<and> rt_UserID r = userID
                \<and> rt_FamilyID r = sourceFamily) (db_refresh db)
       then Inr (\<not> now < sourceExpiry, db)
       else stmt flt ''count foreign tokens''
        (if list_ex (\<lambda>r. rt_FamilyID r = evicted \<and> rt_UserID r \<noteq> userID) (db_refresh db)
            \<or> list_ex (\<lambda>a. at_FamilyID a = Some evicted \<and> at_UserID a \<noteq> userID) (db_access db)
         then Inl OwnerMismatch
         else bindE (revokeFamilyInTransaction flt evicted now db) (\<lambda>(_, db').
           Inr (True, db')))))"

text \<open>The closure assigns \<open>resolved\<close> before the commit, so a failed commit still returns it,
  with the error.\<close>

definition ResolveDeviceEviction ::
    "fault \<Rightarrow> int \<Rightarrow> string \<Rightarrow> string \<Rightarrow> string \<Rightarrow> instant \<Rightarrow> instant \<Rightarrow> database
      \<Rightarrow> (bool \<times> repo_error option) \<times> database" where
  "ResolveDeviceEviction flt userID tokenHash sourceFamily evicted sourceExpiry now db =
    (if userID \<le> 0 \<or> tokenHash = [] \<or> sourceFamily = [] \<or> evicted = []
     then ((False, Some ErrInvalidArgument), db)
     else (let body = resolveEvictionBody flt userID tokenHash sourceFamily evicted sourceExpiry now in
       case transaction flt body db of
         (Inr resolved, db') \<Rightarrow> ((resolved, None), db')
       | (Inl e, db') \<Rightarrow>
           ((case body db of Inr (resolved, _) \<Rightarrow> resolved | Inl _ \<Rightarrow> False, Some e), db')))"

section \<open>Invariants\<close>

text \<open>Deleting rows keeps both invariants, when codes go with their grants.\<close>

lemma token_inv_delete:
  assumes "token_inv db"
  shows "token_inv (db\<lparr>db_access := delete_where P (db_access db), db_refresh := delete_where Q (db_refresh db)\<rparr>)"
  using assms
  by (auto simp: token_inv_def keys_inv_def access_inv_def delete_where_def distinct_map_filter
      intro: chain_inv_subset)

lemma consent_inv_delete:
  assumes "consent_inv db"
    and "\<And>z g. z \<in> set (db_authorizations db) \<Longrightarrow> g \<in> set (db_grants db) \<Longrightarrow> gr_pair g = az_pair z \<Longrightarrow> Q g \<Longrightarrow> P z"
  shows "consent_inv (db\<lparr>db_authorizations := delete_where P (db_authorizations db),
      db_grants := delete_where Q (db_grants db)\<rparr>)"
proof -
  have "az_pair z \<in> gr_pair ` {g \<in> set (db_grants db). \<not> Q g}"
    if z: "z \<in> set (db_authorizations db)" "\<not> P z" for z
  proof -
    have "az_pair z \<in> gr_pair ` set (db_grants db)" using assms(1) z by (auto simp: consent_inv_def)
    then obtain g where "g \<in> set (db_grants db)" "gr_pair g = az_pair z" by (metis imageE)
    with assms(2) z show ?thesis by (metis (mono_tags, lifting) image_eqI mem_Collect_eq)
  qed
  then show ?thesis using assms(1)
    by (auto simp: consent_inv_def delete_where_def distinct_map_filter)
qed

end
