(* ===== verification/Calendar.thy ===== *)
theory Calendar
  imports Prelude
begin

text \<open>
  The civil calendar of Go's \<open>time\<close> package as far as the program reads it: year and month of an
  instant in a fixed zone (proleptic Gregorian, days counted from 1 January of year 0).
\<close>

definition isLeap :: "int \<Rightarrow> bool" where
  "isLeap y \<longleftrightarrow> y mod 4 = 0 \<and> (y mod 100 \<noteq> 0 \<or> y mod 400 = 0)"

definition days_before_year :: "int \<Rightarrow> int" where
  "days_before_year y = 365 * y + (y + 3) div 4 - (y + 99) div 100 + (y + 399) div 400"

text \<open>A first estimate from the length of 400 years, corrected by one where it is off.\<close>

definition year_of_day :: "int \<Rightarrow> int" where
  "year_of_day n =
    (let y = (400 * n) div 146097 in
     if n < days_before_year y then y - 1
     else if days_before_year (y + 1) \<le> n then y + 1 else y)"

definition month_lengths :: "int \<Rightarrow> int list" where
  "month_lengths y = [31, if isLeap y then 29 else 28, 31, 30, 31, 30, 31, 31, 30, 31, 30, 31]"

fun month_from :: "int \<Rightarrow> int \<Rightarrow> int list \<Rightarrow> int" where
  "month_from m d [] = m"
| "month_from m d (l # ls) = (if d < l then m else month_from (m + 1) (d - l) ls)"

definition month_of_day :: "int \<Rightarrow> int" where
  "month_of_day n =
    (let y = year_of_day n in month_from 1 (n - days_before_year y) (month_lengths y))"

definition Day :: duration where "Day = 24 * Hour"

text \<open>The Unix epoch is day 719528.\<close>

definition local_day :: "duration \<Rightarrow> instant \<Rightarrow> int" where
  "local_day offset now = (now + offset) div Day + 719528"

section \<open>Correctness of the conversion\<close>

lemma le_div_iff:
  fixes n x k :: int
  assumes "0 < k"
  shows "n \<le> x div k \<longleftrightarrow> n * k \<le> x"
proof
  assume "n \<le> x div k"
  then have "n * k \<le> x div k * k" using assms by (intro mult_right_mono) auto
  also have "\<dots> \<le> x" using assms by (simp add: minus_mod_eq_div_mult [symmetric])
  finally show "n * k \<le> x" .
next
  assume "n * k \<le> x"
  then show "n \<le> x div k" using zdiv_mono1[of "n * k" x k] assms by simp
qed

lemma div_bounds:
  fixes x k :: int
  assumes "0 < k"
  shows "k * (x div k) \<le> x" "x < k * (x div k) + k"
proof -
  have "k * (x div k) = x - x mod k" by (rule minus_mod_eq_mult_div [symmetric])
  then show "k * (x div k) \<le> x" "x < k * (x div k) + k"
    using pos_mod_sign[OF assms, of x] pos_mod_bound[OF assms, of x] by simp_all
qed

lemma div_step:
  fixes y k l :: int
  assumes "0 < k" and l: "l = k - 1"
  shows "(y + k) div k = (y + l) div k + (if y mod k = 0 then 1 else 0)"
proof -
  define q m where "q = y div k" and "m = y mod k"
  have y: "y = q * k + m" "0 \<le> m" "m < k" using assms by (simp_all add: q_def m_def)
  have a: "(y + k) div k = q + 1" unfolding q_def using assms by (intro div_add_self2) simp
  have b: "(y + l) div k = q + (m + (k - 1)) div k"
    unfolding l using assms y(1) by (simp add: add.assoc)
  show ?thesis
  proof (cases "m = 0")
    case True
    then show ?thesis using a b assms by (simp add: m_def)
  next
    case False
    then have "(m - 1) div k = 0" using y by (intro div_pos_pos_trivial) auto
    then have "(m + (k - 1)) div k = 1"
      using assms div_add_self2[of k "m - 1"] by (simp add: algebra_simps)
    then show ?thesis using a b False by (simp add: m_def)
  qed
qed

lemma leap_sum:
  fixes y a b c :: int
  assumes "a' = a + (if A then 1 else 0)" "b' = b + (if B then 1 else 0)"
    "c' = c + (if C then 1 else 0)" "B \<Longrightarrow> A" "C \<Longrightarrow> B"
  shows "365 * (y + 1) + a' - b' + c' = 365 * y + a - b + c + (if A \<and> (\<not> B \<or> C) then 366 else 365)"
  using assms by (cases A; cases B; cases C) simp_all

lemma days_before_year_step:
  "days_before_year (y + 1) = days_before_year y + (if isLeap y then 366 else 365)"
proof -
  have s: "y + 1 + 3 = y + 4" "y + 1 + 99 = y + 100" "y + 1 + 399 = y + 400" by simp_all
  have "y mod 100 = 0 \<Longrightarrow> y mod 4 = 0" "y mod 400 = 0 \<Longrightarrow> y mod 100 = 0"
    using mod_mod_cancel[of 4 100 y] mod_mod_cancel[of 100 400 y] by auto
  then show ?thesis unfolding days_before_year_def isLeap_def s
    by (intro leap_sum) (rule div_step; simp)+
qed

lemma days_before_year_estimate:
  "400 * days_before_year y - 146097 * y < 800" "- 400 < 400 * days_before_year y - 146097 * y"
proof -
  define a b c where "a = (y + 3) div 4" and "b = (y + 99) div 100" and "c = (y + 399) div 400"
  have "4 * a \<le> y + 3" "y + 3 < 4 * a + 4" "100 * b \<le> y + 99" "y + 99 < 100 * b + 100"
    "400 * c \<le> y + 399" "y + 399 < 400 * c + 400"
    unfolding a_def b_def c_def by (rule div_bounds; simp)+
  then show "400 * days_before_year y - 146097 * y < 800" "- 400 < 400 * days_before_year y - 146097 * y"
    by (simp_all add: days_before_year_def flip: a_def b_def c_def)
qed

lemma days_before_year_mono: "x \<le> y \<Longrightarrow> days_before_year x \<le> days_before_year y"
proof (induction rule: int_ge_induct)
  case (step i)
  then show ?case using days_before_year_step[of i] by (simp split: if_splits)
qed simp

lemma year_of_day_bounds:
  "days_before_year (year_of_day n) \<le> n \<and> n < days_before_year (year_of_day n + 1)"
proof -
  define y where "y = (400 * n) div 146097"
  have y: "146097 * y \<le> 400 * n" "400 * n < 146097 * y + 146097"
    unfolding y_def by (rule div_bounds; simp)+
  have "days_before_year (y - 1) \<le> n"
    using y days_before_year_estimate[of "y - 1"] by (simp add: algebra_simps)
  moreover have "n < days_before_year (y + 2)"
    using y days_before_year_estimate[of "y + 2"] by (simp add: algebra_simps)
  ultimately show ?thesis
    by (auto simp: year_of_day_def Let_def add.commute[of 2 y] simp flip: y_def)
qed

text \<open>Days before 1 September within a year.\<close>

lemma month_from_september:
  assumes "0 \<le> d"
  shows "9 \<le> month_from 1 d (month_lengths y) \<longleftrightarrow> (if isLeap y then 244 else 243) \<le> d"
  using assms by (cases "isLeap y") (auto simp: month_lengths_def)

definition september_first :: "int \<Rightarrow> int" where
  "september_first y = days_before_year y + (if isLeap y then 244 else 243)"

lemma month_of_day_september:
  "9 \<le> month_of_day n \<longleftrightarrow> september_first (year_of_day n) \<le> n"
proof -
  have "0 \<le> n - days_before_year (year_of_day n)" using year_of_day_bounds[of n] by simp
  then show ?thesis
    using month_from_september[of "n - days_before_year (year_of_day n)" "year_of_day n"]
    by (auto simp: month_of_day_def Let_def september_first_def)
qed

lemma september_first_strict: "x < y \<Longrightarrow> september_first x < september_first y"
proof -
  assume "x < y"
  then have "days_before_year (x + 1) \<le> days_before_year y" by (intro days_before_year_mono) simp
  then show ?thesis using days_before_year_step[of x] by (auto simp: september_first_def)
qed

text \<open>The year that began at the last 1 September.\<close>

lemma school_year_bounds:
  fixes n :: int
  defines "s \<equiv> (if 9 \<le> month_of_day n then year_of_day n else year_of_day n - 1)"
  shows "september_first s \<le> n" "n < september_first (s + 1)"
proof -
  let ?y = "year_of_day n"
  have b: "days_before_year ?y \<le> n" "n < days_before_year (?y + 1)" using year_of_day_bounds[of n] by simp_all
  have prev: "september_first (?y - 1) \<le> days_before_year ?y"
    using days_before_year_step[of "?y - 1"] by (auto simp: september_first_def)
  have "days_before_year (?y + 1) \<le> september_first (?y + 1)" by (simp add: september_first_def)
  then show "september_first s \<le> n" "n < september_first (s + 1)"
    using b prev month_of_day_september[of n] by (auto simp: s_def)
qed

lemma school_year_ge_iff:
  "y \<le> (if 9 \<le> month_of_day n then year_of_day n else year_of_day n - 1) \<longleftrightarrow> september_first y \<le> n"
  (is "y \<le> ?s \<longleftrightarrow> _")
proof
  have s: "september_first ?s \<le> n" "n < september_first (?s + 1)" by (rule school_year_bounds)+
  show "september_first y \<le> n" if "y \<le> ?s"
    using s that september_first_strict[of y ?s] by (cases "y = ?s") auto
  show "y \<le> ?s" if "september_first y \<le> n"
  proof (rule ccontr)
    assume "\<not> y \<le> ?s"
    then have "september_first (?s + 1) \<le> september_first y"
      using september_first_strict[of "?s + 1" y] by (cases "y = ?s + 1") auto
    then show False using s that by simp
  qed
qed

end
