(* ===== verification/Validate.thy ===== *)
theory Validate
  imports Model Calendar
begin

text \<open>
  \<open>internal/validate\<close>: the input rules shared by the services. Addresses (format, login domain,
  delivery mailbox), the name rule, the field checks with their widths, the completeness report
  of a profile and the derivation of \<open>user.state\<close>. The parts of the Unicode tables the rules
  consult beyond ASCII are parameters: \<open>lower_ext\<close> (case mapping), \<open>digit_ext\<close> (category Nd)
  and \<open>EqualFold\<close>.
\<close>

section \<open>Addresses (email.go)\<close>

definition invisible_runes :: "rune list" where
  "invisible_runes = [0x200B, 0x200C, 0x200D, 0xFEFF]"

definition njuptEmailDomain :: string where "njuptEmailDomain = ''@njupt.edu.cn''"

definition loginEmailDomains :: "string list" where
  "loginEmailDomains = [njuptEmailDomain, ''@sast.fun'']"

definition HasControlCharacter :: "string \<Rightarrow> bool" where
  "HasControlCharacter s \<longleftrightarrow>
     list_ex (\<lambda>r. r < 0x20 \<or> r = 0x7F \<or> (0x80 \<le> r \<and> r \<le> 0x9F)) (runes s)"

definition EmailFormat :: "string \<Rightarrow> bool" where
  "EmailFormat email \<longleftrightarrow>
    email \<noteq> [] \<and> CountByte email CHR ''@'' = 1 \<and>
    (case IndexByte email CHR ''@'' of
       None \<Rightarrow> False
     | Some at \<Rightarrow>
         at \<noteq> 0 \<and> at \<noteq> length email - 1 \<and>
         \<not> ContainsAny email (map unbyte [0x2C, 0x3B, 0x3A, 0x3C, 0x3E, 0x28, 0x29, 0x5B, 0x5D, 0x5C, 0x22]) \<and>
         \<not> list_ex (\<lambda>r. r \<in> set invisible_runes \<or> IsSpace r) (runes email) \<and>
         \<not> HasControlCharacter email \<and>
         (let domain = drop (Suc at) email in
          Contains domain ''.'' \<and> \<not> HasPrefix domain ''.'' \<and> \<not> HasSuffix domain ''.'' \<and>
          \<not> Contains domain ''..''))"

definition IsLoginEmailDomain :: "string \<Rightarrow> bool" where
  "IsLoginEmailDomain email \<longleftrightarrow> list_ex (HasSuffix email) loginEmailDomains"

definition IsNjuptEmailDomain :: "string \<Rightarrow> bool" where
  "IsNjuptEmailDomain email \<longleftrightarrow> HasSuffix email njuptEmailDomain"

definition njupt_local :: "string \<Rightarrow> string" where
  "njupt_local email = take (length email - length njuptEmailDomain) email"

definition UnmatchedNjuptPrefix :: "(rune \<Rightarrow> rune) \<Rightarrow> string \<Rightarrow> string \<Rightarrow> string \<times> bool" where
  "UnmatchedNjuptPrefix lower_ext email studentID =
    (if \<not> IsNjuptEmailDomain email then ([], False)
     else if njupt_local email = ToLower lower_ext (TrimSpace studentID) then ([], False)
     else (njupt_local email, True))"

definition asciiDigits :: "string \<Rightarrow> bool" where
  "asciiDigits s \<longleftrightarrow> s \<noteq> [] \<and> list_all (\<lambda>c. 0x30 \<le> byte c \<and> byte c \<le> 0x39) s"

definition IsNjuptEmailLocalAllowed :: "string \<Rightarrow> bool" where
  "IsNjuptEmailLocalAllowed email \<longleftrightarrow>
    (if \<not> HasSuffix email njuptEmailDomain then True
     else (let local = njupt_local email in
       if length local = 8 then asciiDigits local
       else if length local = 9 then
         0x61 \<le> byte (local ! 0) \<and> byte (local ! 0) \<le> 0x7A \<and> asciiDigits (drop 1 local)
       else False))"

definition StripSubaddress :: "(rune \<Rightarrow> rune) \<Rightarrow> string \<Rightarrow> string" where
  "StripSubaddress lower_ext email =
    (case IndexByte email CHR ''@'' of
       None \<Rightarrow> email
     | Some at \<Rightarrow>
         (let local = take at email;
              local' = (case IndexByte local CHR ''+'' of None \<Rightarrow> local | Some p \<Rightarrow> take p local) in
          ToLower lower_ext local' @ drop at email))"

section \<open>Names (name.go)\<close>

definition nameRanges :: "(rune \<times> rune) list" where
  "nameRanges = [(0x3400, 0x4DBF), (0x4E00, 0x9FFF), (0xF900, 0xFAFF), (0x20000, 0x2A6DF),
     (0x2A700, 0x2B73F), (0x2B740, 0x2B81F), (0x2B820, 0x2CEAF), (0x2CEB0, 0x2EBEF),
     (0x2EBF0, 0x2EE5F), (0x2F800, 0x2FA1F), (0x30000, 0x3134F), (0x31350, 0x323AF),
     (0x00B7, 0x00B7), (0x2027, 0x2027), (0x0387, 0x0387), (0x30FB, 0x30FB), (0xFF65, 0xFF65)]"

definition inNameRanges :: "rune \<Rightarrow> bool" where
  "inNameRanges r \<longleftrightarrow> list_ex (\<lambda>(lo, hi). lo \<le> r \<and> r \<le> hi) nameRanges"

definition IsInvalidName :: "string \<Rightarrow> bool" where
  "IsInvalidName s \<longleftrightarrow>
     TrimSpace s = [] \<or> list_ex (\<lambda>r. \<not> inNameRanges r) (runes (TrimSpace s))"

section \<open>Fields (limits.go, fields.go, completeness.go)\<close>

definition MaxNameLength :: nat where "MaxNameLength = 255"
definition MaxPhoneNumberLength :: nat where "MaxPhoneNumberLength = 20"
definition MaxQQNumberLength :: nat where "MaxQQNumberLength = 20"
definition MaxMajorLength :: nat where "MaxMajorLength = 50"

definition WithinLength :: "string \<Rightarrow> nat \<Rightarrow> bool" where
  "WithinLength s limit \<longleftrightarrow> RuneCountInString s \<le> limit"

datatype reason = ReasonRequired | ReasonTooLong | ReasonInvalid

record field_error =
  fe_Field :: string
  fe_Reason :: reason

definition validateTrimmed :: "string \<Rightarrow> string \<Rightarrow> nat \<Rightarrow> field_error + string" where
  "validateTrimmed field v limit =
    (if \<not> WithinLength v limit then Inl \<lparr>fe_Field = field, fe_Reason = ReasonTooLong\<rparr>
     else if HasControlCharacter v then Inl \<lparr>fe_Field = field, fe_Reason = ReasonInvalid\<rparr>
     else Inr v)"

definition RequiredField :: "string \<Rightarrow> string \<Rightarrow> nat \<Rightarrow> field_error + string" where
  "RequiredField field raw limit =
    (let v = TrimSpace raw in
     if v = [] then Inl \<lparr>fe_Field = field, fe_Reason = ReasonRequired\<rparr>
     else validateTrimmed field v limit)"

definition OptionalField :: "string \<Rightarrow> string \<Rightarrow> nat \<Rightarrow> field_error + string" where
  "OptionalField field raw limit =
    (let v = TrimSpace raw in if v = [] then Inr [] else validateTrimmed field v limit)"

definition IsBlank :: "string \<Rightarrow> bool" where
  "IsBlank s \<longleftrightarrow> TrimSpace s = []"

definition fieldUnusable :: "string \<Rightarrow> nat \<Rightarrow> bool" where
  "fieldUnusable s limit \<longleftrightarrow>
     (let trimmed = TrimSpace s in
      trimmed = [] \<or> \<not> WithinLength trimmed limit \<or> HasControlCharacter trimmed)"

definition IncompleteProfileFields ::
    "(string \<Rightarrow> string \<Rightarrow> bool) \<Rightarrow> string \<Rightarrow> string \<Rightarrow> string \<Rightarrow> string \<Rightarrow> string \<Rightarrow> string list" where
  "IncompleteProfileFields EqualFold name phoneNumber qqNumber major studentID =
    (if fieldUnusable name MaxNameLength \<or> IsInvalidName name
        \<or> EqualFold (TrimSpace name) (TrimSpace studentID) then [''name''] else []) @
    (if fieldUnusable phoneNumber MaxPhoneNumberLength then [''phone_number''] else []) @
    (if fieldUnusable qqNumber MaxQQNumberLength then [''qq_number''] else []) @
    (if fieldUnusable major MaxMajorLength then [''major''] else [])"

section \<open>Account state (state.go)\<close>

definition IsDigit :: "(rune \<Rightarrow> bool) \<Rightarrow> rune \<Rightarrow> bool" where
  "IsDigit digit_ext r \<longleftrightarrow> (if r < 0x80 then 0x30 \<le> r \<and> r \<le> 0x39 else digit_ext r)"

text \<open>The loop of \<open>EnrollmentYear\<close>: the first run of digits, re-encoded.\<close>

definition leading_digits :: "(rune \<Rightarrow> bool) \<Rightarrow> string \<Rightarrow> string" where
  "leading_digits digit_ext s =
     concat (map encode_rune
       (takeWhile (IsDigit digit_ext) (dropWhile (\<lambda>r. \<not> IsDigit digit_ext r) (runes s))))"

text \<open>\<open>strconv.Atoi\<close>, for texts short enough not to overflow.\<close>

fun digits_value :: "nat \<Rightarrow> string \<Rightarrow> nat option" where
  "digits_value n [] = Some n"
| "digits_value n (c # cs) =
    (if 0x30 \<le> byte c \<and> byte c \<le> 0x39 then digits_value (10 * n + (byte c - 0x30)) cs else None)"

definition Atoi :: "string \<Rightarrow> int option" where
  "Atoi s =
    (let (neg, ds) = (case s of c # cs \<Rightarrow> if c = CHR ''-'' then (True, cs) else if c = CHR ''+'' then (False, cs) else (False, s)
                      | [] \<Rightarrow> (False, [])) in
     if ds = [] then None
     else map_option (\<lambda>n. if neg then - int n else int n) (digits_value 0 ds))"

definition EnrollmentYear :: "(rune \<Rightarrow> bool) \<Rightarrow> string \<Rightarrow> int option" where
  "EnrollmentYear digit_ext studentID =
    (let digits = leading_digits digit_ext studentID in
     if length digits < 2 then None
     else map_option (\<lambda>n. 2000 + n) (Atoi (take 2 digits)))"

definition shanghaiFixedZone :: duration where "shanghaiFixedZone = 8 * Hour"

definition AcademicYear :: "instant \<Rightarrow> int" where
  "AcademicYear now =
    (let d = local_day shanghaiFixedZone now in
     if 9 \<le> month_of_day d then year_of_day d else year_of_day d - 1)"

definition retirementThresholdYears :: int where "retirementThresholdYears = 4"

definition DeriveState :: "(rune \<Rightarrow> bool) \<Rightarrow> UserRole \<Rightarrow> string \<Rightarrow> instant \<Rightarrow> UserState option" where
  "DeriveState digit_ext role studentID now =
    (case EnrollmentYear digit_ext studentID of
       None \<Rightarrow> None
     | Some enrollmentYear \<Rightarrow>
         if AcademicYear now - enrollmentYear \<ge> retirementThresholdYears then Some UserStateRetiredSAST
         else if role = UserRoleLecturer \<or> role = UserRoleAdmin then Some UserStateOnSAST
         else Some UserStateNJUPTer)"

section \<open>Field checks\<close>

lemma validateTrimmed_Inr_iff:
  "validateTrimmed f v l = Inr w \<longleftrightarrow> w = v \<and> WithinLength v l \<and> \<not> HasControlCharacter v"
  by (auto simp: validateTrimmed_def)

text \<open>An accepted field is the trimmed input, non-empty, within the width counted in runes,
  free of control characters, and is accepted again unchanged.\<close>

theorem RequiredField_accepts:
  "RequiredField field raw limit = Inr v \<longleftrightarrow>
     v = TrimSpace raw \<and> v \<noteq> [] \<and> RuneCountInString v \<le> limit \<and> \<not> HasControlCharacter v
     \<and> RequiredField field v limit = Inr v"
  by (auto simp: RequiredField_def Let_def validateTrimmed_Inr_iff WithinLength_def TrimSpace_idem)

text \<open>The completeness report flags exactly the fields the input layer would refuse; the name
  is flagged too when it breaks the name rule or repeats the student ID.\<close>

theorem IncompleteProfileFields_iff:
  "set (IncompleteProfileFields EqualFold name phone qq major sid) =
     {f. f = ''name'' \<and> \<not> (is_ok (RequiredField f name MaxNameLength) \<and> \<not> IsInvalidName name
            \<and> \<not> EqualFold (TrimSpace name) (TrimSpace sid))} \<union>
     {f. f = ''phone_number'' \<and> \<not> is_ok (RequiredField f phone MaxPhoneNumberLength)} \<union>
     {f. f = ''qq_number'' \<and> \<not> is_ok (RequiredField f qq MaxQQNumberLength)} \<union>
     {f. f = ''major'' \<and> \<not> is_ok (RequiredField f major MaxMajorLength)}"
proof -
  have u: "fieldUnusable s l \<longleftrightarrow> \<not> is_ok (RequiredField f s l)" for f s l
    by (auto simp: fieldUnusable_def RequiredField_def validateTrimmed_def Let_def)
  show ?thesis unfolding IncompleteProfileFields_def
    using u[of name MaxNameLength "''name''"] u[of phone MaxPhoneNumberLength "''phone_number''"]
      u[of qq MaxQQNumberLength "''qq_number''"] u[of major MaxMajorLength "''major''"]
    by auto
qed

section \<open>Addresses\<close>

lemma EmailFormat_ascii_bytes:
  assumes "EmailFormat e" "c \<in> set e"
  shows "0x20 < byte c" "byte c \<noteq> 0x7F"
proof -
  have "list_all (\<lambda>r. \<not> IsSpace r) (runes e)" "\<not> HasControlCharacter e"
    using assms(1) by (auto simp: EmailFormat_def list_ex_iff list_all_iff split: option.splits)
  then have r: "byte c < 0x80 \<Longrightarrow> \<not> IsSpace (byte c) \<and> \<not> byte c < 0x20 \<and> byte c \<noteq> 0x7F"
    using ascii_in_runes[OF assms(2)] by (auto simp: list_all_iff HasControlCharacter_def list_ex_iff)
  then show "byte c \<noteq> 0x7F" by auto
  have "\<not> IsSpace 0x20 \<Longrightarrow> False" by (simp add: IsSpace_def space_runes_def)
  with r show "0x20 < byte c" by (cases "byte c = 0x20"; cases "byte c < 0x80") auto
qed

lemma CountByte_split:
  assumes "CountByte e c = 1" "IndexByte e c = Some i"
  shows "e = take i e @ c # drop (Suc i) e" "c \<notin> set (take i e)" "c \<notin> set (drop (Suc i) e)"
proof -
  have i: "i < length e" "e ! i = c" "c \<notin> set (take i e)" using IndexByte_SomeD[OF assms(2)] by simp_all
  then show e: "e = take i e @ c # drop (Suc i) e" by (metis id_take_nth_drop)
  show "c \<notin> set (take i e)" by (rule i(3))
  have "CountByte e c = CountByte (take i e) c + (1 + CountByte (drop (Suc i) e) c)"
    by (subst e) (simp add: CountByte_def)
  then show "c \<notin> set (drop (Suc i) e)" using assms(1) by (auto simp: CountByte_def filter_empty_conv)
qed

lemma HasPrefix_singleton: "s \<noteq> [] \<Longrightarrow> HasPrefix s [c] \<longleftrightarrow> hd s = c"
  by (cases s) (auto simp: HasPrefix_def)

lemma HasSuffix_singleton: "s \<noteq> [] \<Longrightarrow> HasSuffix s [c] \<longleftrightarrow> last s = c"
  unfolding HasSuffix_iff_suffix suffix_def by (metis append_butlast_last_id last_snoc)

text \<open>An accepted address is \<open>local@domain\<close> with one \<open>@\<close>, a non-empty local part and at least two
  non-empty domain labels, and none of its bytes is a control character, white space, an address
  separator, a bracket or a quote, so it cannot break out of a mail header or a Redis key.\<close>

theorem EmailFormat_sound:
  assumes "EmailFormat e"
  shows "\<exists>loc dmn. e = loc @ CHR ''@'' # dmn \<and> loc \<noteq> [] \<and> CHR ''@'' \<notin> set loc \<union> set dmn
    \<and> 2 \<le> length (SplitByte dmn CHR ''.'') \<and> (\<forall>l\<in>set (SplitByte dmn CHR ''.''). l \<noteq> [])
    \<and> (\<forall>c\<in>set e. 0x20 < byte c \<and> byte c \<noteq> 0x7F \<and> byte c \<notin> {0x2C, 0x3B, 0x3A, 0x3C, 0x3E, 0x28, 0x29, 0x5B, 0x5D, 0x5C, 0x22})"
proof -
  obtain i where i: "IndexByte e CHR ''@'' = Some i" and one: "CountByte e CHR ''@'' = 1" "i \<noteq> 0"
    and any: "\<not> ContainsAny e (map unbyte [0x2C, 0x3B, 0x3A, 0x3C, 0x3E, 0x28, 0x29, 0x5B, 0x5D, 0x5C, 0x22])"
    and d: "Contains (drop (Suc i) e) ''.''" "\<not> HasPrefix (drop (Suc i) e) ''.''"
      "\<not> HasSuffix (drop (Suc i) e) ''.''" "\<not> Contains (drop (Suc i) e) ''..''"
    using assms by (auto simp: EmailFormat_def Let_def split: option.splits)
  let ?d = "drop (Suc i) e"
  note sp = CountByte_split[OF one(1) i]
  have dot: "CHR ''.'' \<in> set ?d" using d(1) by (simp add: Contains_byte)
  then have "?d \<noteq> []" by auto
  then have "hd ?d \<noteq> CHR ''.''" "last ?d \<noteq> CHR ''.''"
    using d(2,3) HasPrefix_singleton[of ?d] HasSuffix_singleton[of ?d] by metis+
  then have lab: "[] \<notin> set (SplitByte ?d CHR ''.'')"
    using SplitByte_empty_label[of ?d "CHR ''.''"] \<open>?d \<noteq> []\<close> d(4) by simp
  have "CountByte ?d CHR ''.'' \<noteq> 0" using dot by (auto simp: CountByte_def filter_empty_conv)
  then have len: "2 \<le> length (SplitByte ?d CHR ''.'')" by (simp add: length_SplitByte)
  have "byte c \<notin> {0x2C, 0x3B, 0x3A, 0x3C, 0x3E, 0x28, 0x29, 0x5B, 0x5D, 0x5C, 0x22}" if "c \<in> set e" for c
  proof
    assume "byte c \<in> {0x2C, 0x3B, 0x3A, 0x3C, 0x3E, 0x28, 0x29, 0x5B, 0x5D, 0x5C, 0x22}"
    then have "unbyte (byte c) \<in> set (map unbyte [0x2C, 0x3B, 0x3A, 0x3C, 0x3E, 0x28, 0x29, 0x5B, 0x5D, 0x5C, 0x22])"
      unfolding list.set_map by (intro imageI) auto
    then show False using any that by (auto simp: ContainsAny_def list_ex_iff)
  qed
  then have "\<forall>c\<in>set e. 0x20 < byte c \<and> byte c \<noteq> 0x7F \<and> byte c \<notin> {0x2C, 0x3B, 0x3A, 0x3C, 0x3E, 0x28, 0x29, 0x5B, 0x5D, 0x5C, 0x22}"
    using EmailFormat_ascii_bytes[OF assms] by blast
  moreover have "take i e \<noteq> []" using one(2) sp(1) by (cases e) auto
  ultimately show ?thesis using sp len lab by blast
qed

theorem EmailFormat_sound_witness:
  "EmailFormat ''a@b.cn'' \<and> (\<exists>loc dmn. ''a@b.cn'' = loc @ CHR ''@'' # dmn \<and> 2 \<le> length (SplitByte dmn CHR ''.''))"
proof -
  have r: "runes ''a@b.cn'' = [0x61, 0x40, 0x62, 0x2E, 0x63, 0x6E]" by (simp add: runes_ascii byte_def)
  have e: "EmailFormat ''a@b.cn''"
    by (simp add: EmailFormat_def r CountByte_def ContainsAny_def invisible_runes_def IsSpace_def space_runes_def
        HasControlCharacter_def HasPrefix_def HasSuffix_def Let_def unbyte_def char_of_def bit_Suc_0_iff)
  show ?thesis using e EmailFormat_sound[OF e] by blast
qed

lemma lower_byte_fixed: "lower_byte c = CHR ''@'' \<Longrightarrow> c = CHR ''@''" "lower_byte c = CHR ''+'' \<Longrightarrow> c = CHR ''+''"
proof -
  have "byte (lower_byte c) \<in> {0x40, 0x2B} \<Longrightarrow> lower_byte c = c"
    by (auto simp: lower_byte_def split: if_splits)
  then show "lower_byte c = CHR ''@'' \<Longrightarrow> c = CHR ''@''" "lower_byte c = CHR ''+'' \<Longrightarrow> c = CHR ''+''"
    by (auto simp: byte_def)
qed

lemma StripSubaddress_split:
  assumes "CHR ''@'' \<notin> set loc"
  shows "StripSubaddress f (loc @ CHR ''@'' # dmn) =
    ToLower f (takeWhile (\<lambda>c. c \<noteq> CHR ''+'') loc) @ CHR ''@'' # dmn"
proof -
  have i: "IndexByte (loc @ CHR ''@'' # dmn) CHR ''@'' = Some (length loc)"
    using assms by (rule IndexByte_append)
  have "(case IndexByte loc CHR ''+'' of None \<Rightarrow> loc | Some p \<Rightarrow> take p loc) = takeWhile (\<lambda>c. c \<noteq> CHR ''+'') loc"
    by (induction loc) (auto split: option.splits)
  then show ?thesis using i by (simp add: StripSubaddress_def Let_def)
qed

text \<open>Every \<open>+tag\<close> alias of a mailbox gets the key of the mailbox itself, whatever the case of
  the local part, and taking the key again changes nothing (ASCII local parts).\<close>

theorem StripSubaddress_alias:
  assumes "\<forall>c\<in>set loc. byte c < 0x80 \<and> c \<noteq> CHR ''@'' \<and> c \<noteq> CHR ''+''" "CHR ''@'' \<notin> set tag"
  shows "(let key = map lower_byte loc @ CHR ''@'' # dmn in
    StripSubaddress f (loc @ CHR ''+'' # tag @ CHR ''@'' # dmn) = key
    \<and> StripSubaddress f (loc @ CHR ''@'' # dmn) = key \<and> StripSubaddress f key = key)"
proof -
  have at: "CHR ''@'' \<notin> set loc" "CHR ''@'' \<notin> set (loc @ CHR ''+'' # tag)"
    using assms by auto
  have low: "\<forall>c\<in>set loc. lower_byte c \<noteq> CHR ''@'' \<and> lower_byte c \<noteq> CHR ''+''"
    using assms(1) lower_byte_fixed by metis
  have tw: "takeWhile (\<lambda>c. c \<noteq> CHR ''+'') loc = loc"
    "takeWhile (\<lambda>c. c \<noteq> CHR ''+'') (loc @ CHR ''+'' # tag) = loc"
    "takeWhile (\<lambda>c. c \<noteq> CHR ''+'') (map lower_byte loc) = map lower_byte loc"
    using assms(1) low by (simp_all add: takeWhile_eq_all_conv)
  have asc: "list_all (\<lambda>c. byte c < 0x80) loc" using assms(1) by (simp add: list_all_iff)
  then have tl: "ToLower f loc = map lower_byte loc" by (simp add: ToLower_def)
  then have tl': "ToLower f (map lower_byte loc) = map lower_byte loc"
    using ToLower_ascii_idem[OF asc, of f] by simp
  have at': "CHR ''@'' \<notin> set (map lower_byte loc)" using low by auto
  show ?thesis
    using StripSubaddress_split[OF at(2), of f dmn] StripSubaddress_split[OF at(1), of f dmn]
      StripSubaddress_split[OF at', of f dmn] unfolding tw tl tl' by (simp add: Let_def)
qed


theorem StripSubaddress_alias_witness:
  "StripSubaddress (\<lambda>r. r) ''Ab+x@njupt.edu.cn'' = ''ab@njupt.edu.cn''"
proof -
  have "lower_byte CHR ''A'' = CHR ''a''" "lower_byte CHR ''b'' = CHR ''b''"
    by (simp_all add: lower_byte_def byte_def unbyte_def char_of_def bit_Suc_0_iff)
  then show ?thesis
    using StripSubaddress_alias[of "''Ab''" "''x''" "''njupt.edu.cn''" "\<lambda>r. r"] by (simp add: byte_def Let_def)
qed

section \<open>Names\<close>

lemma inNameRanges_bounds: "inNameRanges r \<Longrightarrow> 0xB7 \<le> r \<and> r \<noteq> RuneError \<and> \<not> IsSpace r"
  by (auto simp: inNameRanges_def nameRanges_def RuneError_def IsSpace_def space_runes_def)

lemma runes_without_error_valid:
  "RuneError \<notin> set (runes s) \<Longrightarrow> ValidString s"
proof (induction s rule: runes.induct)
  case (1 s)
  show ?case
  proof (cases "s = []")
    case False
    with 1 show ?thesis
      by (auto simp: runes_step ValidString_step ill_formed_at_def simp del: decode_rune.simps)
  qed simp
qed

text \<open>An accepted name is well-formed UTF-8 and holds only code points of the whitelist, so it
  carries no ASCII, no control character and no interior white space.\<close>

theorem valid_name_sound:
  assumes "\<not> IsInvalidName s"
  shows "ValidString (TrimSpace s) \<and> TrimSpace s \<noteq> [] \<and> \<not> HasControlCharacter (TrimSpace s)
    \<and> (\<forall>r\<in>set (runes (TrimSpace s)). inNameRanges r \<and> 0x80 \<le> r \<and> \<not> IsSpace r)"
proof -
  have "\<forall>r\<in>set (runes (TrimSpace s)). inNameRanges r" "TrimSpace s \<noteq> []"
    using assms by (auto simp: IsInvalidName_def list_ex_iff)
  then show ?thesis
    by (fastforce simp: HasControlCharacter_def list_ex_iff
        dest!: inNameRanges_bounds intro!: runes_without_error_valid)
qed

theorem valid_name_sound_witness:
  "let s = encode_rune 0x4E2D in \<not> IsInvalidName s \<and> ValidString (TrimSpace s)"
proof -
  have v: "encode_rune 0x4E2D = [unbyte 0xE4, unbyte 0xB8, unbyte 0xAD]"
    by (simp add: encode_rune_def encode_valid_rune_def valid_rune_def)
  have d: "decode_rune (encode_rune 0x4E2D) = (0x4E2D, 3)"
    using decode_encode_rune[of "0x4E2D" "[]"] by (simp add: valid_rune_def v del: decode_rune.simps)
  have r: "runes (encode_rune 0x4E2D) = [0x4E2D]"
    using d by (subst runes_step) (simp_all add: v del: decode_rune.simps)
  have t: "TrimSpace (encode_rune 0x4E2D) = encode_rune 0x4E2D"
    unfolding TrimSpace_eq_iff trimmed_def no_prefix_def v space_encodings_def space_runes_def
    by (simp add: encode_rune_def encode_valid_rune_def valid_rune_def flip: byte_inject)
  have n: "\<not> IsInvalidName (encode_rune 0x4E2D)"
    unfolding IsInvalidName_def t r by (simp add: inNameRanges_def nameRanges_def v)
  show ?thesis using n valid_name_sound[OF n] by (simp add: Let_def)
qed

section \<open>Account state\<close>

text \<open>The instant at which 1 September of a year begins in Beijing.\<close>

definition school_year_start :: "int \<Rightarrow> instant" where
  "school_year_start y = (september_first y - 719528) * Day - shanghaiFixedZone"

lemma local_day_ge_iff: "n \<le> local_day z now \<longleftrightarrow> (n - 719528) * Day - z \<le> now"
proof -
  have "0 < Day" by (simp add: Day_def duration_defs)
  then have "n - 719528 \<le> (now + z) div Day \<longleftrightarrow> (n - 719528) * Day \<le> now + z"
    by (rule le_div_iff)
  then show ?thesis by (auto simp: local_day_def)
qed

text \<open>The academic year changes exactly at midnight of 1 September, Beijing time.\<close>

lemma AcademicYear_ge_iff: "y \<le> AcademicYear now \<longleftrightarrow> school_year_start y \<le> now"
  unfolding AcademicYear_def Let_def school_year_ge_iff local_day_ge_iff school_year_start_def ..

text \<open>C23: an account is retired exactly from midnight (Beijing) of 1 September four years after
  the enrollment year its student ID encodes, whatever its role; before that its role decides.\<close>

theorem DeriveState_correct:
  assumes "EnrollmentYear ext sid = Some e"
  shows "DeriveState ext role sid now =
    Some (if school_year_start (e + 4) \<le> now then UserStateRetiredSAST
          else if role \<in> {UserRoleLecturer, UserRoleAdmin} then UserStateOnSAST
          else UserStateNJUPTer)"
proof -
  have "AcademicYear now - e \<ge> retirementThresholdYears \<longleftrightarrow> e + 4 \<le> AcademicYear now"
    by (auto simp: retirementThresholdYears_def)
  then show ?thesis using assms AcademicYear_ge_iff[of "e + 4" now] by (simp add: DeriveState_def)
qed

text \<open>A student who enrolled in 2022 retires at 2026-08-31 16:00 UTC.\<close>

theorem DeriveState_correct_witness:
  "school_year_start 2026 = 1788192000 * Second
   \<and> DeriveState (\<lambda>_. False) UserRoleAdmin ''B22040525'' (1788192000 * Second) = Some UserStateRetiredSAST
   \<and> DeriveState (\<lambda>_. False) UserRoleAdmin ''B22040525'' (1788192000 * Second - 1) = Some UserStateOnSAST"
proof -
  have e: "EnrollmentYear (\<lambda>_. False) ''B22040525'' = Some 2022"
    by (simp add: EnrollmentYear_def leading_digits_def runes_ascii byte_def IsDigit_def encode_rune_def
        encode_valid_rune_def valid_rune_def unbyte_def Atoi_def char_of_def bit_Suc_0_iff)
  have s: "school_year_start 2026 = 1788192000 * Second" by code_simp
  show ?thesis
    using DeriveState_correct[OF e, of UserRoleAdmin "1788192000 * Second"]
      DeriveState_correct[OF e, of UserRoleAdmin "1788192000 * Second - 1"] s by simp
qed

end
