(* ===== verification/Account_Store.thy ===== *)
theory Account_Store
  imports Client_Store Validate
begin

text \<open>
  \<open>internal/repository/user.go\<close>, \<open>identity.go\<close> and \<open>identity_assignment.go\<close>: creating accounts
  with their profiles, bindings and first session, the self-service edit, the lookups, and the
  third-party login bindings. PostgreSQL's \<open>lower\<close> depends on the collation of the database and
  is the parameter \<open>pg_lower\<close>; Go's case mapping beyond ASCII is \<open>lower_ext\<close>. The advisory lock
  on identity assignments serialises the writers of student numbers and login addresses.
\<close>

section \<open>Statements on the account tables\<close>

text \<open>\<open>btrim\<close> with its default set strips the ASCII space only.\<close>

definition btrim :: "string \<Rightarrow> string" where
  "btrim s = rev (dropWhile (\<lambda>c. c = CHR '' '') (rev (dropWhile (\<lambda>c. c = CHR '' '') s)))"

definition folded :: "(string \<Rightarrow> string) \<Rightarrow> string \<Rightarrow> string" where
  "folded pg_lower s = pg_lower (btrim s)"

text \<open>The trigger \<open>auto_set_email_type\<close>, fired by an insert and by an update of \<open>login_email\<close>.\<close>

definition email_type_of :: "(string \<Rightarrow> string) \<Rightarrow> string \<Rightarrow> EmailType option" where
  "email_type_of pg_lower email =
    (if HasSuffix (pg_lower email) ''@sast.fun'' then Some EmailTypeSAST
     else if HasSuffix (pg_lower email) ''@njupt.edu.cn'' then Some EmailTypeNJUpt
     else None)"

text \<open>The unique constraints of the user table against the rows of other accounts.\<close>

definition user_conflict :: "database \<Rightarrow> user \<Rightarrow> bool" where
  "user_conflict db u \<longleftrightarrow> list_ex (\<lambda>x. us_ID x \<noteq> us_ID u
     \<and> (us_StudentID x = us_StudentID u \<or> us_LoginEmail x = us_LoginEmail u)) (db_users db)"

text \<open>The trigger \<open>forbid_identity_as_login_email\<close>.\<close>

definition bound_as_mail :: "database \<Rightarrow> string \<Rightarrow> bool" where
  "bound_as_mail db email \<longleftrightarrow>
     list_ex (\<lambda>i. id_Provider i = LoginMethodOtherMail \<and> id_ProviderID i = email) (db_identities db)"

definition is_login_email :: "database \<Rightarrow> string \<Rightarrow> bool" where
  "is_login_email db email \<longleftrightarrow> list_ex (\<lambda>u. us_LoginEmail u = email) (db_users db)"

text \<open>The constraint PostgreSQL names: triggers fire before the unique indexes are checked in the order of
  their columns.\<close>

definition user_violation :: "database \<Rightarrow> user \<Rightarrow> repo_error" where
  "user_violation db u =
    (if bound_as_mail db (us_LoginEmail u) then UniqueViolation ''ck_user_login_email_not_identity''
     else if list_ex (\<lambda>x. us_ID x \<noteq> us_ID u \<and> us_StudentID x = us_StudentID u) (db_users db)
     then UniqueViolation ''user_student_id_key''
     else UniqueViolation ''user_login_email_key'')"

text \<open>Columns left at their zero value take the defaults of the table.\<close>

definition CollegeOther :: string where
  "CollegeOther = map unbyte [0xE5, 0x85, 0xB6, 0xE4, 0xBB, 0x96]"

definition or_default :: "string \<Rightarrow> string \<Rightarrow> string" where
  "or_default d s = (if s = [] then d else s)"

definition insert_user :: "fault \<Rightarrow> string \<Rightarrow> (string \<Rightarrow> string) \<Rightarrow> user \<Rightarrow> user tx" where
  "insert_user flt label pg_lower u db =
    stmt flt label
     (let u' = u\<lparr>us_ID := db_seq db + 1, us_Role := or_default UserRoleFreshman (us_Role u),
                us_State := or_default UserStateNJUPTer (us_State u),
                us_College := or_default CollegeOther (us_College u)\<rparr> in
      (case email_type_of pg_lower (us_LoginEmail u) of
         None \<Rightarrow> Inl (DbError label)
       | Some ty \<Rightarrow>
           if user_conflict db u' \<or> bound_as_mail db (us_LoginEmail u) then Inl (user_violation db u')
           else (let u'' = u'\<lparr>us_EmailType := ty\<rparr> in
             Inr (u'', db\<lparr>db_users := db_users db @ [u''], db_seq := db_seq db + 1\<rparr>))))"

definition insert_profile :: "fault \<Rightarrow> string \<Rightarrow> profile \<Rightarrow> unit tx" where
  "insert_profile flt label p db =
    stmt flt label
     (if list_ex (\<lambda>x. pf_UserID x = pf_UserID p) (db_profiles db) \<or> \<not> user_exists db (pf_UserID p)
      then Inl (DbError label)
      else Inr ((), db\<lparr>db_profiles := db_profiles db @ [p]\<rparr>))"

text \<open>\<open>INSERT INTO identities\<close>: the pair of provider and provider id is unique, an account has at
  most one GitHub and one Lark binding and two further addresses, and an address that is
  somebody's login email is refused.\<close>

definition identity_count :: "database \<Rightarrow> int \<Rightarrow> LoginMethod \<Rightarrow> int" where
  "identity_count db u p = int (length (filter (\<lambda>i. id_UserID i = u \<and> id_Provider i = p) (db_identities db)))"

definition identity_violation :: "string \<Rightarrow> database \<Rightarrow> identity \<Rightarrow> repo_error" where
  "identity_violation label db i =
    (if id_Provider i = LoginMethodOtherMail \<and> 2 \<le> identity_count db (id_UserID i) LoginMethodOtherMail then DbError label
     else if id_Provider i = LoginMethodOtherMail \<and> is_login_email db (id_ProviderID i)
     then UniqueViolation ''ck_identities_provider_id_not_login_email''
     else if list_ex (\<lambda>x. id_Provider x = id_Provider i \<and> id_ProviderID x = id_ProviderID i) (db_identities db)
     then UniqueViolation ''uq_identities_provider_provider_id''
     else if id_Provider i = LoginMethodGitHub \<and> 0 < identity_count db (id_UserID i) LoginMethodGitHub
     then UniqueViolation ''uq_identities_user_github''
     else if id_Provider i = LoginMethodLark \<and> 0 < identity_count db (id_UserID i) LoginMethodLark
     then UniqueViolation ''uq_identities_user_lark''
     else DbError label)"

definition insert_identity :: "fault \<Rightarrow> string \<Rightarrow> identity \<Rightarrow> identity tx" where
  "insert_identity flt label i db =
    stmt flt label
     (if \<not> user_exists db (id_UserID i)
         \<or> list_ex (\<lambda>x. id_Provider x = id_Provider i \<and> id_ProviderID x = id_ProviderID i) (db_identities db)
         \<or> id_Provider i \<in> {LoginMethodGitHub, LoginMethodLark}
             \<and> 0 < identity_count db (id_UserID i) (id_Provider i)
         \<or> id_Provider i = LoginMethodOtherMail
             \<and> (2 \<le> identity_count db (id_UserID i) LoginMethodOtherMail
                 \<or> is_login_email db (id_ProviderID i))
      then Inl (identity_violation label db i)
      else (let i' = i\<lparr>id_ID := db_seq db + 1\<rparr> in
        Inr (i', db\<lparr>db_identities := db_identities db @ [i'], db_seq := db_seq db + 1\<rparr>)))"

section \<open>Identity assignment (identity\_assignment.go)\<close>

definition lockIdentityAssignment :: "fault \<Rightarrow> (repo_error + 'a) \<Rightarrow> repo_error + 'a" where
  "lockIdentityAssignment flt k = stmt flt ''lock identity assignment'' k"

definition student_id_taken ::
    "(string \<Rightarrow> string) \<Rightarrow> database \<Rightarrow> int \<Rightarrow> string \<Rightarrow> bool" where
  "student_id_taken pg_lower db userID sid \<longleftrightarrow>
     list_ex (\<lambda>u. us_ID u \<noteq> userID \<and> (folded pg_lower (us_StudentID u) = sid
       \<or> folded pg_lower (us_LoginEmail u) = sid @ ''@njupt.edu.cn'')) (db_users db)"

definition mailbox_owner_taken ::
    "(string \<Rightarrow> string) \<Rightarrow> database \<Rightarrow> int \<Rightarrow> string \<Rightarrow> bool" where
  "mailbox_owner_taken pg_lower db userID local \<longleftrightarrow>
     list_ex (\<lambda>u. us_ID u \<noteq> userID \<and> folded pg_lower (us_StudentID u) = local) (db_users db)"

definition guardIdentityAssignment ::
    "fault \<Rightarrow> (rune \<Rightarrow> rune) \<Rightarrow> (string \<Rightarrow> string) \<Rightarrow> int \<Rightarrow> string option \<Rightarrow> string option
      \<Rightarrow> database \<Rightarrow> repo_error + unit" where
  "guardIdentityAssignment flt lower_ext pg_lower userID studentID loginEmail db =
    bindE
     (case studentID of
        None \<Rightarrow> Inr ()
      | Some s \<Rightarrow>
          (let sid = ToLower lower_ext (TrimSpace s) in
           if sid = [] then Inr ()
           else stmt flt ''count accounts by student id''
             (if student_id_taken pg_lower db userID sid then Inl ErrStudentIDExists else Inr ())))
     (\<lambda>_. case loginEmail of
        None \<Rightarrow> Inr ()
      | Some e \<Rightarrow>
          (let email = ToLower lower_ext (TrimSpace e);
               (local, lookup) = UnmatchedNjuptPrefix lower_ext email [] in
           if \<not> lookup then Inr ()
           else stmt flt ''count accounts by mailbox owner''
             (if mailbox_owner_taken pg_lower db userID local then Inl ErrStudentIDExists else Inr ())))"

definition guardNewUserAssignment ::
    "fault \<Rightarrow> (rune \<Rightarrow> rune) \<Rightarrow> (string \<Rightarrow> string) \<Rightarrow> user \<Rightarrow> database \<Rightarrow> repo_error + unit" where
  "guardNewUserAssignment flt lower_ext pg_lower u db =
     lockIdentityAssignment flt
       (guardIdentityAssignment flt lower_ext pg_lower 0 (Some (us_StudentID u)) (Some (us_LoginEmail u)) db)"

section \<open>Creating accounts (user.go)\<close>

definition createUserAndProfile ::
    "fault \<Rightarrow> (rune \<Rightarrow> rune) \<Rightarrow> (string \<Rightarrow> string) \<Rightarrow> string \<Rightarrow> string \<Rightarrow> user \<Rightarrow> profile \<Rightarrow> user tx" where
  "createUserAndProfile flt lower_ext pg_lower ulabel plabel u p db =
    bindE (guardNewUserAssignment flt lower_ext pg_lower u db) (\<lambda>_.
    bindE (insert_user flt ulabel pg_lower u db) (\<lambda>(u', db1).
    bindE (insert_profile flt plabel (p\<lparr>pf_UserID := us_ID u'\<rparr>) db1) (\<lambda>(_, db2).
      Inr (u', db2))))"

definition createIdentityFor :: "fault \<Rightarrow> string \<Rightarrow> user \<Rightarrow> identity option \<Rightarrow> unit tx" where
  "createIdentityFor flt label u identity db =
    (case identity of
       None \<Rightarrow> Inr ((), db)
     | Some i \<Rightarrow> bindE (insert_identity flt label (i\<lparr>id_UserID := us_ID u\<rparr>) db) (\<lambda>(_, db'). Inr ((), db')))"

definition CreateWithProfile ::
    "fault \<Rightarrow> (rune \<Rightarrow> rune) \<Rightarrow> (string \<Rightarrow> string) \<Rightarrow> user option \<Rightarrow> profile option \<Rightarrow> database
      \<Rightarrow> (repo_error + user) \<times> database" where
  "CreateWithProfile flt lower_ext pg_lower user profile db =
    (case (user, profile) of
       (Some u, Some p) \<Rightarrow>
         transaction flt (createUserAndProfile flt lower_ext pg_lower ''create user'' ''create profile'' u p) db
     | _ \<Rightarrow> (Inl ErrInvalidArgument, db))"

definition createAdminUserInTransaction ::
    "fault \<Rightarrow> (rune \<Rightarrow> rune) \<Rightarrow> (string \<Rightarrow> string) \<Rightarrow> user \<Rightarrow> profile \<Rightarrow> identity option \<Rightarrow> user tx" where
  "createAdminUserInTransaction flt lower_ext pg_lower u p identity db =
    bindE (createUserAndProfile flt lower_ext pg_lower ''create admin user'' ''create admin profile'' u p db)
      (\<lambda>(u', db1).
    bindE (createIdentityFor flt ''create admin user identity'' u' identity db1) (\<lambda>(_, db2).
      Inr (u', db2)))"

definition CreateAdminUser ::
    "fault \<Rightarrow> (rune \<Rightarrow> rune) \<Rightarrow> (string \<Rightarrow> string) \<Rightarrow> user option \<Rightarrow> profile option \<Rightarrow> identity option
      \<Rightarrow> database \<Rightarrow> (repo_error + user) \<times> database" where
  "CreateAdminUser flt lower_ext pg_lower user profile identity db =
    (case (user, profile) of
       (Some u, Some p) \<Rightarrow>
         transaction flt (createAdminUserInTransaction flt lower_ext pg_lower u p identity) db
     | _ \<Rightarrow> (Inl ErrInvalidArgument, db))"

text \<open>The token factory of a registration does local work only: it maps the stored account to the
  pair to persist, or fails.\<close>

type_synonym token_pair_factory = "user \<Rightarrow> repo_error + (access_token option \<times> refresh_token option)"

definition registrationBody ::
    "fault \<Rightarrow> (rune \<Rightarrow> rune) \<Rightarrow> (string \<Rightarrow> string) \<Rightarrow> user \<Rightarrow> profile \<Rightarrow> identity option
      \<Rightarrow> token_pair_factory \<Rightarrow> user tx" where
  "registrationBody flt lower_ext pg_lower u p identity pairFactory db =
    bindE (createUserAndProfile flt lower_ext pg_lower ''create user'' ''create profile'' u p db)
      (\<lambda>(u', db1).
    bindE (createIdentityFor flt ''create registration identity'' u' identity db1) (\<lambda>(_, db2).
    bindE (pairFactory u') (\<lambda>(access, refresh).
    bindE (createTokenPairInTransaction flt access refresh db2) (\<lambda>(_, db3).
      Inr (u', db3)))))"

definition CreateRegistrationWithIdentity ::
    "fault \<Rightarrow> (rune \<Rightarrow> rune) \<Rightarrow> (string \<Rightarrow> string) \<Rightarrow> user option \<Rightarrow> profile option \<Rightarrow> identity option
      \<Rightarrow> token_pair_factory option \<Rightarrow> database \<Rightarrow> (repo_error + user) \<times> database" where
  "CreateRegistrationWithIdentity flt lower_ext pg_lower user profile identity pairFactory db =
    (case (user, profile, pairFactory) of
       (Some u, Some p, Some mk) \<Rightarrow>
         transaction flt (registrationBody flt lower_ext pg_lower u p identity mk) db
     | _ \<Rightarrow> (Inl ErrInvalidArgument, db))"

definition CreateRegistration where
  "CreateRegistration flt lower_ext pg_lower user profile pairFactory db =
     CreateRegistrationWithIdentity flt lower_ext pg_lower user profile None pairFactory db"

section \<open>Lookups (user.go)\<close>

definition find_or_missing :: "fault \<Rightarrow> string \<Rightarrow> ('r \<Rightarrow> bool) \<Rightarrow> 'r list \<Rightarrow> repo_error + 'r" where
  "find_or_missing flt label P rows =
     stmt flt label (case List.find P rows of None \<Rightarrow> Inl ErrNotFound | Some r \<Rightarrow> Inr r)"

record user_aggregate =
  ua_User :: user
  ua_Profile :: "profile option"
  ua_Identities :: "identity list"

definition aggregate :: "database \<Rightarrow> user \<Rightarrow> user_aggregate" where
  "aggregate db u = \<lparr>ua_User = u,
     ua_Profile = List.find (\<lambda>p. pf_UserID p = us_ID u) (db_profiles db),
     ua_Identities = filter (\<lambda>i. id_UserID i = us_ID u) (db_identities db)\<rparr>"

definition FindUserByID :: "fault \<Rightarrow> database \<Rightarrow> int \<Rightarrow> repo_error + user_aggregate" where
  "FindUserByID flt db userID =
     bindE (find_or_missing flt ''find user by ID'' (\<lambda>u. us_ID u = userID) (db_users db)) (\<lambda>u.
       Inr (aggregate db u))"

definition FindByIDs :: "fault \<Rightarrow> database \<Rightarrow> int list \<Rightarrow> repo_error + user_aggregate list" where
  "FindByIDs flt db ids =
    (if ids = [] then Inl ErrInvalidArgument
     else stmt flt ''find users by IDs''
       (Inr (map (aggregate db) (filter (\<lambda>u. us_ID u \<in> set ids) (db_users db)))))"

text \<open>The projection of the profile response leaves the provider tokens out.\<close>

definition FindProfileByID :: "fault \<Rightarrow> database \<Rightarrow> int \<Rightarrow> repo_error + user_aggregate" where
  "FindProfileByID flt db userID =
     bindE (find_or_missing flt ''find user profile by ID'' (\<lambda>u. us_ID u = userID) (db_users db)) (\<lambda>u.
       let a = aggregate db u in
       Inr (a\<lparr>ua_Identities := map (\<lambda>i. i\<lparr>id_AccessToken := None, id_RefreshToken := None\<rparr>)
                (ua_Identities a)\<rparr>))"

definition FindAuthUserByID :: "fault \<Rightarrow> database \<Rightarrow> int \<Rightarrow> repo_error + user" where
  "FindAuthUserByID flt db userID =
     find_or_missing flt ''find user by ID'' (\<lambda>u. us_ID u = userID) (db_users db)"

definition FindAuthUserByLoginEmail :: "fault \<Rightarrow> database \<Rightarrow> string \<Rightarrow> repo_error + user" where
  "FindAuthUserByLoginEmail flt db email =
     find_or_missing flt ''find user by login email'' (\<lambda>u. us_LoginEmail u = email) (db_users db)"

definition FindAuthUserByLoginIdentifier :: "fault \<Rightarrow> database \<Rightarrow> string \<Rightarrow> repo_error + user" where
  "FindAuthUserByLoginIdentifier flt db identifier =
    stmt flt ''find user by login identifier''
     (case List.find (\<lambda>u. us_LoginEmail u = identifier) (db_users db) of
        Some u \<Rightarrow> Inr u
      | None \<Rightarrow> find_or_missing flt ''find user by bound address''
          (\<lambda>u. list_ex (\<lambda>i. id_UserID i = us_ID u \<and> id_Provider i = LoginMethodOtherMail
                 \<and> id_ProviderID i = identifier) (db_identities db)) (db_users db))"

definition ExistsByLoginEmail :: "fault \<Rightarrow> database \<Rightarrow> string \<Rightarrow> repo_error + bool" where
  "ExistsByLoginEmail flt db email =
     stmt flt ''count user by login email'' (Inr (is_login_email db email))"

definition ExistsByStudentID ::
    "fault \<Rightarrow> (string \<Rightarrow> string) \<Rightarrow> database \<Rightarrow> string \<Rightarrow> repo_error + bool" where
  "ExistsByStudentID flt pg_lower db studentID =
     stmt flt ''count user by student id''
      (Inr (list_ex (\<lambda>u. folded pg_lower (us_StudentID u) = folded pg_lower studentID) (db_users db)))"

definition ExistsByStudentIDExcluding ::
    "fault \<Rightarrow> (string \<Rightarrow> string) \<Rightarrow> database \<Rightarrow> string \<Rightarrow> int \<Rightarrow> repo_error + bool" where
  "ExistsByStudentIDExcluding flt pg_lower db studentID excludeUserID =
     stmt flt ''count user by student id excluding''
      (Inr (list_ex (\<lambda>u. folded pg_lower (us_StudentID u) = folded pg_lower studentID
              \<and> us_ID u \<noteq> excludeUserID) (db_users db)))"

definition ExistsAsEmailAnywhere :: "fault \<Rightarrow> database \<Rightarrow> string \<Rightarrow> repo_error + bool" where
  "ExistsAsEmailAnywhere flt db email =
     stmt flt ''check email anywhere'' (Inr (is_login_email db email \<or> bound_as_mail db email))"

definition FindLoginEmailByStudentID ::
    "fault \<Rightarrow> (string \<Rightarrow> string) \<Rightarrow> database \<Rightarrow> string \<Rightarrow> repo_error + (string \<times> bool)" where
  "FindLoginEmailByStudentID flt pg_lower db studentID =
     stmt flt ''find login email by student id''
      (case List.find (\<lambda>u. folded pg_lower (us_StudentID u) = folded pg_lower studentID) (db_users db) of
         None \<Rightarrow> Inr ([], False)
       | Some u \<Rightarrow> Inr (us_LoginEmail u, True))"

record user_auth_state =
  uas_ID :: int
  uas_State :: UserState
  uas_TokenVersion :: int

definition FindAuthStateByID :: "fault \<Rightarrow> database \<Rightarrow> int \<Rightarrow> repo_error + user_auth_state" where
  "FindAuthStateByID flt db userID =
     bindE (find_or_missing flt ''find user auth state by ID'' (\<lambda>u. us_ID u = userID) (db_users db)) (\<lambda>u.
       Inr \<lparr>uas_ID = us_ID u, uas_State = us_State u, uas_TokenVersion = us_TokenVersion u\<rparr>)"

record public_card =
  pc_ID :: int
  pc_Nickname :: "string option"
  pc_Department :: "Department option"
  pc_Intro :: "string option"
  pc_Avatar :: "string option"
  pc_BlogURL :: "string option"
  pc_GitHubURL :: "string option"

definition FindPublicCardByUserID :: "fault \<Rightarrow> database \<Rightarrow> int \<Rightarrow> repo_error + public_card" where
  "FindPublicCardByUserID flt db userID =
    (if userID \<le> 0 then Inl ErrNotFound
     else bindE (find_or_missing flt ''find public card by user ID''
         (\<lambda>u. us_ID u = userID \<and> us_State u \<noteq> UserStateDeleted) (db_users db)) (\<lambda>u.
       let p = List.find (\<lambda>p. pf_UserID p = us_ID u) (db_profiles db);
           field = (\<lambda>sel. case p of None \<Rightarrow> None | Some q \<Rightarrow> sel q) in
       Inr \<lparr>pc_ID = us_ID u, pc_Nickname = field pf_Nickname, pc_Department = field pf_Department,
            pc_Intro = field pf_Intro, pc_Avatar = field pf_Avatar, pc_BlogURL = field pf_BlogURL,
            pc_GitHubURL = field pf_GitHubURL\<rparr>))"

definition NamesByIDs :: "fault \<Rightarrow> database \<Rightarrow> int list \<Rightarrow> repo_error + (int \<rightharpoonup> string)" where
  "NamesByIDs flt db ids =
    (if ids = [] then Inr Map.empty
     else stmt flt ''load user names''
       (Inr (fold (\<lambda>u names. names(us_ID u \<mapsto> us_Name u))
          (filter (\<lambda>u. us_ID u \<in> set ids) (db_users db)) Map.empty)))"

section \<open>Self-service edits (user.go)\<close>

record profile_update =
  pu_Name :: "string option"
  pu_PhoneNumber :: "string option"
  pu_QQNumber :: "string option"
  pu_College :: "string option"
  pu_Major :: "string option"
  pu_Nickname :: "string option"
  pu_Department :: "Department option"
  pu_Intro :: "string option"
  pu_Email :: "string option"
  pu_Avatar :: "string option"
  pu_BlogURL :: "string option"
  pu_GitHubURL :: "string option"

text \<open>\<open>assign\<close> overwrites a column when a value is given; \<open>assignNullable\<close> maps the empty string
  to \<open>NULL\<close>.\<close>

definition assign :: "'a option \<Rightarrow> 'a \<Rightarrow> 'a" where
  "assign v old = (case v of None \<Rightarrow> old | Some x \<Rightarrow> x)"

definition assignNullable :: "string option \<Rightarrow> string option \<Rightarrow> string option" where
  "assignNullable v old = (case v of None \<Rightarrow> old | Some x \<Rightarrow> if x = [] then None else Some x)"

definition userColumns :: "profile_update \<Rightarrow> user \<Rightarrow> user" where
  "userColumns pu u =
     u\<lparr>us_Name := assign (pu_Name pu) (us_Name u),
       us_PhoneNumber := assign (pu_PhoneNumber pu) (us_PhoneNumber u),
       us_QQNumber := assign (pu_QQNumber pu) (us_QQNumber u),
       us_Major := assign (pu_Major pu) (us_Major u),
       us_College := assign (pu_College pu) (us_College u)\<rparr>"

definition profileColumns :: "profile_update \<Rightarrow> profile \<Rightarrow> profile" where
  "profileColumns pu p =
     p\<lparr>pf_Nickname := assignNullable (pu_Nickname pu) (pf_Nickname p),
       pf_Intro := assignNullable (pu_Intro pu) (pf_Intro p),
       pf_Email := assignNullable (pu_Email pu) (pf_Email p),
       pf_Avatar := assignNullable (pu_Avatar pu) (pf_Avatar p),
       pf_BlogURL := assignNullable (pu_BlogURL pu) (pf_BlogURL p),
       pf_GitHubURL := assignNullable (pu_GitHubURL pu) (pf_GitHubURL p),
       pf_Department := assignNullable (pu_Department pu) (pf_Department p)\<rparr>"

definition no_user_columns :: "profile_update \<Rightarrow> bool" where
  "no_user_columns pu \<longleftrightarrow> pu_Name pu = None \<and> pu_PhoneNumber pu = None \<and> pu_QQNumber pu = None
     \<and> pu_Major pu = None \<and> pu_College pu = None"

definition no_profile_columns :: "profile_update \<Rightarrow> bool" where
  "no_profile_columns pu \<longleftrightarrow> pu_Nickname pu = None \<and> pu_Intro pu = None \<and> pu_Email pu = None
     \<and> pu_Avatar pu = None \<and> pu_BlogURL pu = None \<and> pu_GitHubURL pu = None \<and> pu_Department pu = None"

definition Empty :: "profile_update \<Rightarrow> bool" where
  "Empty pu \<longleftrightarrow> no_user_columns pu \<and> no_profile_columns pu"

definition blank_profile :: "int \<Rightarrow> profile" where
  "blank_profile u = \<lparr>pf_UserID = u, pf_Nickname = None, pf_Department = None, pf_Intro = None,
     pf_Email = None, pf_Avatar = None, pf_BlogURL = None, pf_GitHubURL = None\<rparr>"

text \<open>\<open>UPDATE profile\<close>, and the insert with \<open>ON CONFLICT (user_id) DO UPDATE\<close> when no row was hit.\<close>

definition upsert_profile :: "fault \<Rightarrow> string \<Rightarrow> string \<Rightarrow> int \<Rightarrow> (profile \<Rightarrow> profile) \<Rightarrow> unit tx" where
  "upsert_profile flt ulabel clabel userID f db =
    stmt flt ulabel
     (let P = (\<lambda>p. pf_UserID p = userID) in
      if 0 < rows_affected P (db_profiles db)
      then Inr ((), db\<lparr>db_profiles := update_where P f (db_profiles db)\<rparr>)
      else stmt flt clabel
        (Inr ((), db\<lparr>db_profiles := db_profiles db @ [f (blank_profile userID)]\<rparr>)))"

definition live_account :: "int \<Rightarrow> user \<Rightarrow> bool" where
  "live_account userID u \<longleftrightarrow> us_ID u = userID \<and> us_State u \<noteq> UserStateDeleted"

definition updateProfileBody :: "fault \<Rightarrow> int \<Rightarrow> profile_update \<Rightarrow> unit tx" where
  "updateProfileBody flt userID pu db =
    bindE
     (if no_user_columns pu then Inr db
      else stmt flt ''update user profile fields''
        (if rows_affected (live_account userID) (db_users db) = 0 then Inl ErrNotFound
         else Inr (db\<lparr>db_users := update_where (live_account userID) (userColumns pu) (db_users db)\<rparr>)))
     (\<lambda>db1.
      if no_profile_columns pu then Inr ((), db1)
      else stmt flt ''load profile owner''
       (if \<not> list_ex (live_account userID) (db_users db1) then Inl ErrNotFound
        else upsert_profile flt ''update profile fields'' ''create profile for update''
          userID (profileColumns pu) db1))"

definition UpdateProfile ::
    "fault \<Rightarrow> int \<Rightarrow> profile_update \<Rightarrow> database \<Rightarrow> (repo_error + user_aggregate) \<times> database" where
  "UpdateProfile flt userID pu db =
    (if userID \<le> 0 \<or> Empty pu then (Inl ErrInvalidArgument, db)
     else (case transaction flt (updateProfileBody flt userID pu) db of
       (Inl e, db') \<Rightarrow> (Inl e, db')
     | (Inr _, db') \<Rightarrow> (FindUserByID flt db' userID, db')))"

section \<open>Login bindings (identity.go)\<close>

definition CountByUserAndProvider :: "fault \<Rightarrow> database \<Rightarrow> int \<Rightarrow> LoginMethod \<Rightarrow> repo_error + int" where
  "CountByUserAndProvider flt db userID provider =
     stmt flt ''count identities by user and provider'' (Inr (identity_count db userID provider))"

definition ListByUser :: "fault \<Rightarrow> database \<Rightarrow> int \<Rightarrow> repo_error + identity list" where
  "ListByUser flt db userID =
     stmt flt ''list identities by user''
       (Inr (sort_key id_ID (filter (\<lambda>i. id_UserID i = userID) (db_identities db))))"

definition FindByIDAndUser :: "fault \<Rightarrow> database \<Rightarrow> int \<Rightarrow> int \<Rightarrow> repo_error + identity" where
  "FindByIDAndUser flt db identityID userID =
     find_or_missing flt ''find identity by ID and user''
       (\<lambda>i. id_ID i = identityID \<and> id_UserID i = userID) (db_identities db)"

definition FindByProviderID :: "fault \<Rightarrow> database \<Rightarrow> LoginMethod \<Rightarrow> string \<Rightarrow> repo_error + identity" where
  "FindByProviderID flt db provider providerID =
     find_or_missing flt ''find identity by provider and provider_id''
       (\<lambda>i. id_Provider i = provider \<and> id_ProviderID i = providerID) (db_identities db)"

definition deleteIdentityByIDAndUser :: "fault \<Rightarrow> int \<Rightarrow> int \<Rightarrow> unit tx" where
  "deleteIdentityByIDAndUser flt identityID userID db =
    stmt flt ''delete identity by ID and user''
     (let P = (\<lambda>i. id_ID i = identityID \<and> id_UserID i = userID) in
      if rows_affected P (db_identities db) = 0 then Inl ErrNotFound
      else Inr ((), db\<lparr>db_identities := delete_where P (db_identities db)\<rparr>))"

definition DeleteByIDAndUser :: "fault \<Rightarrow> int \<Rightarrow> int \<Rightarrow> database \<Rightarrow> (repo_error + unit) \<times> database" where
  "DeleteByIDAndUser flt identityID userID db =
     transaction flt (deleteIdentityByIDAndUser flt identityID userID) db"

definition deleteGuardingBody :: "fault \<Rightarrow> int \<Rightarrow> int \<Rightarrow> unit tx" where
  "deleteGuardingBody flt identityID userID db =
    bindE (find_or_missing flt ''lock user for unbind'' (\<lambda>u. us_ID u = userID) (db_users db)) (\<lambda>u.
      if TrimSpace (us_LoginEmail u) \<noteq> [] then deleteIdentityByIDAndUser flt identityID userID db
      else stmt flt ''count remaining identities for unbind''
       (if \<not> list_ex (\<lambda>i. id_UserID i = userID \<and> id_ID i \<noteq> identityID) (db_identities db)
        then Inl ErrLastLoginMethod
        else deleteIdentityByIDAndUser flt identityID userID db))"

definition DeleteIdentityGuardingLoginMethod ::
    "fault \<Rightarrow> int \<Rightarrow> int \<Rightarrow> database \<Rightarrow> (repo_error + unit) \<times> database" where
  "DeleteIdentityGuardingLoginMethod flt identityID userID db =
     transaction flt (deleteGuardingBody flt identityID userID) db"

record identity_credential_update =
  icu_IdentityData :: "string option"
  icu_AccessToken :: "string option"
  icu_RefreshToken :: "string option"
  icu_TokenExpiresAt :: "instant option"

definition refresh_credentials :: "identity_credential_update \<Rightarrow> identity \<Rightarrow> identity" where
  "refresh_credentials up i =
     i\<lparr>id_AccessToken := (if icu_AccessToken up = None then id_AccessToken i else icu_AccessToken up),
       id_RefreshToken := (if icu_RefreshToken up = None then id_RefreshToken i else icu_RefreshToken up),
       id_TokenExpiresAt := (if icu_TokenExpiresAt up = None then id_TokenExpiresAt i else icu_TokenExpiresAt up),
       id_IdentityData := (if icu_IdentityData up = None then id_IdentityData i else icu_IdentityData up)\<rparr>"

definition UpdateProviderCredentials ::
    "fault \<Rightarrow> int \<Rightarrow> identity_credential_update \<Rightarrow> database \<Rightarrow> repo_error option \<times> database" where
  "UpdateProviderCredentials flt identityID up db =
    (if identityID \<le> 0 then (Some ErrInvalidArgument, db)
     else if icu_AccessToken up = None \<and> icu_RefreshToken up = None \<and> icu_TokenExpiresAt up = None
        \<and> icu_IdentityData up = None then (None, db)
     else if flt ''update identity provider credentials''
       then (Some (DbError ''update identity provider credentials''), db)
     else (let P = (\<lambda>i. id_ID i = identityID) in
       if rows_affected P (db_identities db) = 0 then (Some ErrNotFound, db)
       else (None, db\<lparr>db_identities := update_where P (refresh_credentials up) (db_identities db)\<rparr>)))"

definition createWithinLimitBody :: "fault \<Rightarrow> identity \<Rightarrow> int \<Rightarrow> identity tx" where
  "createWithinLimitBody flt i limit db =
    bindE (find_or_missing flt ''lock user for identity insert'' (\<lambda>u. us_ID u = id_UserID i) (db_users db))
      (\<lambda>_. stmt flt ''count identities under lock''
        (if limit \<le> identity_count db (id_UserID i) (id_Provider i) then Inl ErrLimitExceeded
         else insert_identity flt ''create identity'' i db))"

definition CreateWithinLimit ::
    "fault \<Rightarrow> identity option \<Rightarrow> int \<Rightarrow> database \<Rightarrow> (repo_error + identity) \<times> database" where
  "CreateWithinLimit flt identity limit db =
    (case identity of
       None \<Rightarrow> (Inl ErrInvalidArgument, db)
     | Some i \<Rightarrow> if limit \<le> 0 then (Inl ErrInvalidArgument, db)
         else transaction flt (createWithinLimitBody flt i limit) db)"

end
