(* ===== verification/Admin_Store.thy ===== *)
theory Admin_Store
  imports Account_Store
begin

text \<open>
  \<open>internal/repository/admin_user.go\<close>: the administrative edit, closing and reopening accounts
  with their guards (last administrator, manager boundary, self role change), the filtered list
  and the overview counts. Writers of the role and state columns take one advisory lock first,
  so the guard and the write of a transaction see the same rows. Letters and digits beyond
  ASCII (\<open>unicode.IsLetter\<close>, \<open>unicode.IsDigit\<close>) are the parameter \<open>letter_ext\<close>.
\<close>

definition maxOtherMailBindings :: int where "maxOtherMailBindings = 2"

definition RevokeReasonAdminRoleChange :: string where
  "RevokeReasonAdminRoleChange = ''admin_role_change''"

definition RevokeReasonAccountClosed :: string where
  "RevokeReasonAccountClosed = ''account_closed''"

section \<open>Guards\<close>

definition classifyMissingUser :: "fault \<Rightarrow> database \<Rightarrow> int \<Rightarrow> repo_error" where
  "classifyMissingUser flt db userID =
    (if flt ''classify missing user'' then DbError ''classify missing user''
     else if user_exists db userID then ErrStateConflict else ErrNotFound)"

definition classifyLiveUser :: "fault \<Rightarrow> database \<Rightarrow> int \<Rightarrow> repo_error" where
  "classifyLiveUser flt db userID =
    (if flt ''classify live user'' then DbError ''classify live user''
     else if user_exists db userID then ErrStateConflict else ErrNotFound)"

definition active_admin :: "user \<Rightarrow> bool" where
  "active_admin u \<longleftrightarrow> us_Role u = UserRoleAdmin \<and> us_State u \<noteq> UserStateDeleted"

definition ensureAnotherAdminRemains :: "fault \<Rightarrow> int \<Rightarrow> database \<Rightarrow> repo_error + unit" where
  "ensureAnotherAdminRemains flt userID db =
    stmt flt ''lock admin guard'' (stmt flt ''count remaining admins''
     (if list_ex (\<lambda>u. active_admin u \<and> us_ID u \<noteq> userID) (db_users db) then Inr ()
      else stmt flt ''check target admin state''
       (if list_ex (\<lambda>u. active_admin u \<and> us_ID u = userID) (db_users db) then Inl ErrLastAdmin
        else Inr ())))"

section \<open>The administrative edit\<close>

record admin_user_update =
  aup_CallerUserID :: int
  aup_Name :: "string option"
  aup_PhoneNumber :: "string option"
  aup_QQNumber :: "string option"
  aup_StudentID :: "string option"
  aup_Major :: "string option"
  aup_College :: "string option"
  aup_LoginEmail :: "string option"
  aup_Role :: "UserRole option"
  aup_State :: "UserState option"
  aup_StateAuto :: bool
  aup_EmailType :: "EmailType option"
  aup_PersonalEmail :: "string option"
  aup_Department :: "Department option"

definition departmentColumnValue :: "Department \<Rightarrow> Department option" where
  "departmentColumnValue d = (if d = [] then None else Some d)"

definition columns :: "admin_user_update \<Rightarrow> user \<Rightarrow> user" where
  "columns up u =
     u\<lparr>us_Name := assign (aup_Name up) (us_Name u),
       us_PhoneNumber := assign (aup_PhoneNumber up) (us_PhoneNumber u),
       us_QQNumber := assign (aup_QQNumber up) (us_QQNumber u),
       us_StudentID := assign (aup_StudentID up) (us_StudentID u),
       us_Major := assign (aup_Major up) (us_Major u),
       us_LoginEmail := assign (aup_LoginEmail up) (us_LoginEmail u),
       us_College := assign (aup_College up) (us_College u),
       us_Role := assign (aup_Role up) (us_Role u),
       us_State := assign (aup_State up) (us_State u),
       us_StateManual := (aup_State up \<noteq> None \<or> us_StateManual u),
       us_EmailType := assign (aup_EmailType up) (us_EmailType u)\<rparr>"

definition no_columns :: "admin_user_update \<Rightarrow> bool" where
  "no_columns up \<longleftrightarrow> aup_Name up = None \<and> aup_PhoneNumber up = None \<and> aup_QQNumber up = None
     \<and> aup_StudentID up = None \<and> aup_Major up = None \<and> aup_LoginEmail up = None
     \<and> aup_College up = None \<and> aup_Role up = None \<and> aup_State up = None \<and> aup_EmailType up = None"

definition role_changed :: "admin_user_update \<Rightarrow> user \<Rightarrow> bool" where
  "role_changed up stored \<longleftrightarrow> aup_Role up \<noteq> None \<and> aup_Role up \<noteq> Some (us_Role stored)"

text \<open>The self-role guard and the manager boundary, judged against the locked row.\<close>

definition checkAdminTarget :: "int \<Rightarrow> admin_user_update \<Rightarrow> UserRole \<Rightarrow> user \<Rightarrow> repo_error + unit" where
  "checkAdminTarget userID up callerRole stored =
    (if aup_CallerUserID up = userID \<and> role_changed up stored then Inl ErrSelfRoleChange
     else if callerRole \<noteq> UserRoleAdmin \<and> us_Role stored = UserRoleAdmin then Inl ErrAdminTarget
     else if callerRole \<noteq> UserRoleAdmin \<and> aup_Role up = Some UserRoleAdmin then Inl ErrAdminGrant
     else Inr ())"

text \<open>The columns of the \<open>UPDATE\<close>: \<open>state_auto\<close> replaces the state by the derived one and clears
  the pin, a role change bumps the token version.\<close>

definition adminAssignments ::
    "(rune \<Rightarrow> bool) \<Rightarrow> admin_user_update \<Rightarrow> user \<Rightarrow> instant \<Rightarrow> repo_error + (user \<Rightarrow> user)" where
  "adminAssignments digit_ext up stored revokedAt =
    (let bump = (\<lambda>u. if role_changed up stored then u\<lparr>us_TokenVersion := us_TokenVersion u + 1\<rparr> else u) in
     if \<not> aup_StateAuto up then Inr (\<lambda>u. bump (columns up u))
     else (case DeriveState digit_ext (us_Role stored) (us_StudentID stored) revokedAt of
       None \<Rightarrow> Inl ErrInvalidArgument
     | Some derived \<Rightarrow>
         Inr (\<lambda>u. bump ((columns up u)\<lparr>us_State := derived, us_StateManual := False\<rparr>))))"

text \<open>The \<open>UPDATE\<close> of the locked row with its triggers: an update that sets \<open>login_email\<close> recomputes
  the type of the address and checks it against the bound addresses.\<close>

definition retype :: "(string \<Rightarrow> string) \<Rightarrow> bool \<Rightarrow> user \<Rightarrow> user option" where
  "retype pg_lower setsEmail u =
    (if \<not> setsEmail then Some u
     else map_option (\<lambda>ty. u\<lparr>us_EmailType := ty\<rparr>) (email_type_of pg_lower (us_LoginEmail u)))"

definition update_user_row ::
    "fault \<Rightarrow> string \<Rightarrow> (string \<Rightarrow> string) \<Rightarrow> bool \<Rightarrow> user \<Rightarrow> (user \<Rightarrow> user) \<Rightarrow> unit tx" where
  "update_user_row flt label pg_lower setsEmail stored f db =
    stmt flt label
     (case retype pg_lower setsEmail (f stored) of
        None \<Rightarrow> Inl (DbError label)
      | Some u' \<Rightarrow>
          if user_conflict db u' \<or> setsEmail \<and> bound_as_mail db (us_LoginEmail u')
          then Inl (user_violation db u')
          else Inr ((), db\<lparr>db_users := update_where (live_account (us_ID stored)) (\<lambda>_. u') (db_users db)\<rparr>))"

definition bindPersonalEmail :: "fault \<Rightarrow> int \<Rightarrow> string option \<Rightarrow> unit tx" where
  "bindPersonalEmail flt userID email db =
    (case email of
       None \<Rightarrow> Inr ((), db)
     | Some e \<Rightarrow> stmt flt ''count bound other_mail identities''
        (if maxOtherMailBindings \<le> identity_count db userID LoginMethodOtherMail
         then Inl ErrIdentityLimitExceeded
         else bindE (insert_identity flt ''bind admin user personal email''
             \<lparr>id_ID = 0, id_UserID = userID, id_Provider = LoginMethodOtherMail, id_ProviderID = e,
              id_IdentityData = None, id_AccessToken = None, id_RefreshToken = None,
              id_TokenExpiresAt = None\<rparr> db) (\<lambda>(_, db'). Inr ((), db'))))"

definition writeDepartment :: "fault \<Rightarrow> int \<Rightarrow> Department option \<Rightarrow> unit tx" where
  "writeDepartment flt userID dep db =
    (case dep of
       None \<Rightarrow> Inr ((), db)
     | Some d \<Rightarrow> upsert_profile flt ''update admin user department'' ''create profile for department update''
         userID (\<lambda>p. p\<lparr>pf_Department := departmentColumnValue d\<rparr>) db)"

definition guardAssignment ::
    "fault \<Rightarrow> (rune \<Rightarrow> rune) \<Rightarrow> (string \<Rightarrow> string) \<Rightarrow> int \<Rightarrow> admin_user_update \<Rightarrow> database \<Rightarrow> repo_error + unit" where
  "guardAssignment flt lower_ext pg_lower userID up db =
    (if aup_StudentID up \<noteq> None \<or> aup_LoginEmail up \<noteq> None
     then lockIdentityAssignment flt
       (guardIdentityAssignment flt lower_ext pg_lower userID (aup_StudentID up) (aup_LoginEmail up) db)
     else Inr ())"

definition loadForUpdate :: "fault \<Rightarrow> int \<Rightarrow> database \<Rightarrow> repo_error + user" where
  "loadForUpdate flt userID db =
    stmt flt ''lock admin guard'' (stmt flt ''load user for update''
     (case List.find (live_account userID) (db_users db) of
        None \<Rightarrow> Inl (classifyMissingUser flt db userID)
      | Some stored \<Rightarrow> Inr stored))"

definition demotes_admin :: "admin_user_update \<Rightarrow> user \<Rightarrow> bool" where
  "demotes_admin up stored \<longleftrightarrow> aup_Role up \<noteq> None \<and> aup_Role up \<noteq> Some UserRoleAdmin
     \<and> us_Role stored = UserRoleAdmin"

definition updateAdminBody ::
    "fault \<Rightarrow> (rune \<Rightarrow> bool) \<Rightarrow> (rune \<Rightarrow> rune) \<Rightarrow> (string \<Rightarrow> string) \<Rightarrow> int \<Rightarrow> admin_user_update
      \<Rightarrow> UserRole \<Rightarrow> instant \<Rightarrow> (blacklist_entry list \<times> bool) tx" where
  "updateAdminBody flt digit_ext lower_ext pg_lower userID up callerRole revokedAt db =
    bindE (guardAssignment flt lower_ext pg_lower userID up db) (\<lambda>_.
    bindE (loadForUpdate flt userID db) (\<lambda>stored.
    bindE (checkAdminTarget userID up callerRole stored) (\<lambda>_.
    bindE (adminAssignments digit_ext up stored revokedAt) (\<lambda>f.
    bindE (if demotes_admin up stored then ensureAnotherAdminRemains flt userID db else Inr ()) (\<lambda>_.
    bindE (if no_columns up \<and> \<not> aup_StateAuto up then Inr ((), db)
           else update_user_row flt ''update admin user fields'' pg_lower (aup_LoginEmail up \<noteq> None)
                  stored f db) (\<lambda>(_, db1).
    bindE (bindPersonalEmail flt userID (aup_PersonalEmail up) db1) (\<lambda>(_, db2).
    bindE (writeDepartment flt userID (aup_Department up) db2) (\<lambda>(_, db3).
      if \<not> role_changed up stored then Inr (([], False), db3)
      else bindE (revokeAllByUserInTransaction flt userID revokedAt RevokeReasonAdminRoleChange db3)
        (\<lambda>(entries, db4). Inr ((entries, True), db4))))))))))"

definition invalidAdminUpdate :: "int \<Rightarrow> admin_user_update \<Rightarrow> bool" where
  "invalidAdminUpdate userID up \<longleftrightarrow>
     userID \<le> 0
     \<or> aup_EmailType up \<noteq> None \<and> aup_LoginEmail up = None
     \<or> aup_State up = Some UserStateDeleted
     \<or> aup_StateAuto up \<and> aup_State up \<noteq> None
     \<or> no_columns up \<and> aup_PersonalEmail up = None \<and> aup_Department up = None \<and> \<not> aup_StateAuto up"

definition UpdateAdminUser ::
    "fault \<Rightarrow> (rune \<Rightarrow> bool) \<Rightarrow> (rune \<Rightarrow> rune) \<Rightarrow> (string \<Rightarrow> string) \<Rightarrow> int \<Rightarrow> admin_user_update
      \<Rightarrow> UserRole \<Rightarrow> instant \<Rightarrow> database \<Rightarrow> (repo_error + (blacklist_entry list \<times> bool)) \<times> database" where
  "UpdateAdminUser flt digit_ext lower_ext pg_lower userID up callerRole revokedAt db =
    (if invalidAdminUpdate userID up then (Inl ErrInvalidArgument, db)
     else transaction flt
       (updateAdminBody flt digit_ext lower_ext pg_lower userID up callerRole revokedAt) db)"

section \<open>Closing and reopening\<close>

definition close_row :: "instant \<Rightarrow> user \<Rightarrow> user" where
  "close_row revokedAt u =
     u\<lparr>us_State := UserStateDeleted, us_TokenVersion := us_TokenVersion u + 1, us_DeletedAt := Some revokedAt\<rparr>"

definition softDeleteBody :: "fault \<Rightarrow> int \<Rightarrow> UserRole \<Rightarrow> instant \<Rightarrow> blacklist_entry list tx" where
  "softDeleteBody flt userID callerRole revokedAt db =
    bindE (ensureAnotherAdminRemains flt userID db) (\<lambda>_.
    bindE
     (if callerRole = UserRoleAdmin then Inr ()
      else stmt flt ''load user for close''
       (case List.find (live_account userID) (db_users db) of
          None \<Rightarrow> Inl (classifyMissingUser flt db userID)
        | Some stored \<Rightarrow> if us_Role stored = UserRoleAdmin then Inl ErrAdminTarget else Inr ()))
     (\<lambda>_. stmt flt ''soft delete user''
       (if rows_affected (live_account userID) (db_users db) = 0 then Inl (classifyMissingUser flt db userID)
        else revokeAllByUserInTransaction flt userID revokedAt RevokeReasonAccountClosed
          (db\<lparr>db_users := update_where (live_account userID) (close_row revokedAt) (db_users db)\<rparr>))))"

definition SoftDeleteAndRevokeSessions ::
    "fault \<Rightarrow> int \<Rightarrow> UserRole \<Rightarrow> instant \<Rightarrow> database \<Rightarrow> (repo_error + blacklist_entry list) \<times> database" where
  "SoftDeleteAndRevokeSessions flt userID callerRole revokedAt db =
    (if userID \<le> 0 then (Inl ErrInvalidArgument, db)
     else transaction flt (softDeleteBody flt userID callerRole revokedAt) db)"

definition closed_account :: "int \<Rightarrow> user \<Rightarrow> bool" where
  "closed_account userID u \<longleftrightarrow> us_ID u = userID \<and> us_State u = UserStateDeleted"

definition reopen_state :: "(rune \<Rightarrow> bool) \<Rightarrow> user \<Rightarrow> instant \<Rightarrow> UserState" where
  "reopen_state digit_ext stored now =
    (case DeriveState digit_ext (us_Role stored) (us_StudentID stored) now of
       None \<Rightarrow> UserStateNJUPTer | Some derived \<Rightarrow> derived)"

definition restoreBody :: "fault \<Rightarrow> (rune \<Rightarrow> bool) \<Rightarrow> int \<Rightarrow> UserRole \<Rightarrow> instant \<Rightarrow> unit tx" where
  "restoreBody flt digit_ext userID callerRole now db =
    stmt flt ''load user for restore''
     (case List.find (closed_account userID) (db_users db) of
        None \<Rightarrow> Inl (classifyLiveUser flt db userID)
      | Some stored \<Rightarrow>
          if callerRole \<noteq> UserRoleAdmin \<and> us_Role stored = UserRoleAdmin then Inl ErrAdminTarget
          else stmt flt ''restore user''
           (if rows_affected (closed_account userID) (db_users db) = 0 then Inl (classifyLiveUser flt db userID)
            else Inr ((), db\<lparr>db_users := update_where (closed_account userID)
                (\<lambda>u. u\<lparr>us_State := reopen_state digit_ext stored now, us_StateManual := False,
                       us_DeletedAt := None\<rparr>) (db_users db)\<rparr>)))"

definition RestoreUser ::
    "fault \<Rightarrow> (rune \<Rightarrow> bool) \<Rightarrow> int \<Rightarrow> UserRole \<Rightarrow> instant \<Rightarrow> database \<Rightarrow> (repo_error + unit) \<times> database" where
  "RestoreUser flt digit_ext userID callerRole now db =
    (if userID \<le> 0 then (Inl ErrInvalidArgument, db)
     else transaction flt (restoreBody flt digit_ext userID callerRole now) db)"

end
