(* ===== verification/Retention.thy ===== *)
theory Retention
  imports Client_Store Validate
begin

text \<open>
  \<open>internal/repository/retention.go\<close>: the sweeps of dead rows, the recalibration of
  \<open>user.state\<close> and the physical removal of closed accounts. An unordered \<open>LIMIT\<close> subquery may
  return any of the matching rows; its choice is the argument \<open>pick\<close>. The advisory lock that
  keeps two instances from sweeping at once is not part of the model.
\<close>

section \<open>Operations\<close>

definition deleteBatch ::
    "fault \<Rightarrow> (nat \<Rightarrow> int list \<Rightarrow> int list) \<Rightarrow> instant \<Rightarrow> int \<Rightarrow> string \<Rightarrow> ('r \<Rightarrow> int) \<Rightarrow> ('r \<Rightarrow> bool)
      \<Rightarrow> 'r list \<Rightarrow> repo_error + (nat \<times> 'r list)" where
  "deleteBatch flt pick cutoff batchSize operation key condition rows =
    (if IsZero cutoff \<or> batchSize \<le> 0 then Inl ErrInvalidArgument
     else stmt flt operation
      (let ids = pick (nat batchSize) (map key (filter condition rows));
           P = (\<lambda>r. key r \<in> set ids) in
       Inr (rows_affected P rows, delete_where P rows)))"

definition commit_rows ::
    "(repo_error + (nat \<times> 'r list)) \<Rightarrow> ('r list \<Rightarrow> database) \<Rightarrow> database \<Rightarrow> (repo_error + nat) \<times> database" where
  "commit_rows res put db =
    (case res of Inl e \<Rightarrow> (Inl e, db) | Inr (n, rows) \<Rightarrow> (Inr n, put rows))"

definition DeleteExpiredAuthorizations where
  "DeleteExpiredAuthorizations flt pick cutoff batchSize db =
     commit_rows (deleteBatch flt pick cutoff batchSize ''expired authorizations'' az_ID
         (\<lambda>z. az_ExpiresAt z < cutoff) (db_authorizations db))
       (\<lambda>rows. db\<lparr>db_authorizations := rows\<rparr>) db"

definition DeleteExpiredAccessTokens where
  "DeleteExpiredAccessTokens flt pick cutoff batchSize db =
     commit_rows (deleteBatch flt pick cutoff batchSize ''expired access tokens'' at_ID
         (\<lambda>a. at_ExpiresAt a < cutoff) (db_access db))
       (\<lambda>rows. db\<lparr>db_access := rows\<rparr>) db"

definition dead_refresh :: "instant \<Rightarrow> database \<Rightarrow> refresh_token \<Rightarrow> bool" where
  "dead_refresh cutoff db r \<longleftrightarrow> rt_ExpiresAt r < cutoff \<and>
     (rt_RevokedAt r \<noteq> None \<and> 0 < rt_Sequence r
      \<or> \<not> list_ex (\<lambda>live. rt_FamilyID live = rt_FamilyID r \<and> rt_RevokedAt live = None
              \<and> cutoff < rt_ExpiresAt live) (db_refresh db))"

definition DeleteRevokedRefreshTokens where
  "DeleteRevokedRefreshTokens flt pick cutoff batchSize db =
     commit_rows (deleteBatch flt pick cutoff batchSize ''dead refresh tokens'' rt_ID
         (dead_refresh cutoff db) (db_refresh db))
       (\<lambda>rows. db\<lparr>db_refresh := rows\<rparr>) db"

text \<open>The audit rows of the model carry no key; the chosen ids are positions.\<close>

definition DeleteExpiredAuditLogs where
  "DeleteExpiredAuditLogs flt pick cutoff batchSize db =
     commit_rows (deleteBatch flt pick cutoff batchSize ''expired audit logs'' (int \<circ> fst)
         (\<lambda>(_, a). au_CreatedAt a < cutoff) (enumerate 0 (db_audit db)))
       (\<lambda>rows. db\<lparr>db_audit := map snd rows\<rparr>) db"

definition DeleteExpiredAlumniRequests where
  "DeleteExpiredAlumniRequests flt pick cutoff batchSize db =
     commit_rows (deleteBatch flt pick cutoff batchSize ''reviewed alumni requests'' al_ID
         (\<lambda>a. al_Status a \<noteq> AlumniRequestStatusPending \<and> (\<exists>t. al_ReviewedAt a = Some t \<and> t < cutoff)) (db_alumni db))
       (\<lambda>rows. db\<lparr>db_alumni := rows\<rparr>) db"

subsection \<open>Derived state\<close>

definition recompute_rows :: "int \<Rightarrow> int \<Rightarrow> database \<Rightarrow> user list" where
  "recompute_rows cursor batchSize db =
     take (nat batchSize) (sort_key us_ID
       (filter (\<lambda>u. \<not> us_StateManual u \<and> us_State u \<noteq> UserStateDeleted \<and> cursor < us_ID u) (db_users db)))"

definition divergent :: "(rune \<Rightarrow> bool) \<Rightarrow> instant \<Rightarrow> user list \<Rightarrow> (int \<times> UserState) list" where
  "divergent digit_ext now rows =
     List.map_filter (\<lambda>u. case DeriveState digit_ext (us_Role u) (us_StudentID u) now of
         None \<Rightarrow> None
       | Some d \<Rightarrow> if d \<noteq> us_State u then Some (us_ID u, d) else None) rows"

function chunks :: "nat \<Rightarrow> 'a list \<Rightarrow> 'a list list" where
  "chunks n xs = (if n = 0 \<or> xs = [] then [] else take n xs # chunks n (drop n xs))"
  by pat_completeness auto
termination by (relation "measure (length \<circ> snd)") auto

declare chunks.simps [simp del]

definition unpinned :: "user \<Rightarrow> bool" where
  "unpinned u \<longleftrightarrow> \<not> us_StateManual u \<and> us_State u \<noteq> UserStateDeleted"

definition set_states :: "(int \<times> UserState) list \<Rightarrow> user list \<Rightarrow> user list" where
  "set_states vs users =
     update_where (\<lambda>u. map_of vs (us_ID u) \<noteq> None \<and> unpinned u)
       (\<lambda>u. u\<lparr>us_State := the (map_of vs (us_ID u))\<rparr>) users"

fun apply_chunks :: "fault \<Rightarrow> int \<Rightarrow> (int \<times> UserState) list list \<Rightarrow> database \<Rightarrow> repo_error option \<times> database" where
  "apply_chunks flt k [] db = (None, db)"
| "apply_chunks flt k (c # cs) db =
    (if flt (''recompute derived state '' @ decimal k)
     then (Some (DbError (''recompute derived state '' @ decimal k)), db)
     else apply_chunks flt (k + 1) cs (db\<lparr>db_users := set_states c (db_users db)\<rparr>))"

definition derivedStateChunkSize :: nat where "derivedStateChunkSize = 1000"

definition RecomputeDerivedState ::
    "fault \<Rightarrow> (rune \<Rightarrow> bool) \<Rightarrow> int \<Rightarrow> instant \<Rightarrow> int \<Rightarrow> database \<Rightarrow> (repo_error + int) \<times> database" where
  "RecomputeDerivedState flt digit_ext cursor now batchSize db =
    (if batchSize \<le> 0 then (Inl ErrInvalidArgument, db)
     else if flt ''recompute derived state'' then (Inl (DbError ''recompute derived state''), db)
     else (let rows = recompute_rows cursor batchSize db in
       if rows = [] then (Inr 0, db)
       else (let next = us_ID (last rows) in
         case apply_chunks flt 0 (chunks derivedStateChunkSize (divergent digit_ext now rows)) db of
           (Some e, db') \<Rightarrow> (Inl e, db')
         | (None, db') \<Rightarrow>
             if int (length rows) < batchSize then (Inr 0, db') else (Inr next, db'))))"

subsection \<open>Purge\<close>

definition purge_due :: "instant \<Rightarrow> user \<Rightarrow> bool" where
  "purge_due before u \<longleftrightarrow> us_State u = UserStateDeleted \<and> (\<exists>t. us_DeletedAt u = Some t \<and> t < before)"

text \<open>\<open>DELETE FROM "user"\<close> with its cascades; the audit log and the tickets keep their rows without the
  reference.\<close>

definition unlink :: "(int \<Rightarrow> bool) \<Rightarrow> int option \<Rightarrow> int option" where
  "unlink gone r = (case r of None \<Rightarrow> None | Some i \<Rightarrow> if gone i then None else r)"

definition unlink_ticket :: "(int \<Rightarrow> bool) \<Rightarrow> alumni_request \<Rightarrow> alumni_request" where
  "unlink_ticket gone a = a\<lparr>al_CreatedUserID := unlink gone (al_CreatedUserID a), al_ReviewedBy := unlink gone (al_ReviewedBy a)\<rparr>"

definition delete_users_cascade :: "(int \<Rightarrow> bool) \<Rightarrow> database \<Rightarrow> database" where
  "delete_users_cascade gone db = db\<lparr>
     db_users := delete_where (\<lambda>u. gone (us_ID u)) (db_users db),
     db_profiles := delete_where (\<lambda>p. gone (pf_UserID p)) (db_profiles db),
     db_identities := delete_where (\<lambda>i. gone (id_UserID i)) (db_identities db),
     db_authorizations := delete_where (\<lambda>z. gone (az_UserID z)) (db_authorizations db),
     db_grants := delete_where (\<lambda>g. gone (gr_UserID g)) (db_grants db),
     db_access := delete_where (\<lambda>a. gone (at_UserID a)) (db_access db),
     db_refresh := delete_where (\<lambda>r. gone (rt_UserID r)) (db_refresh db),
     db_audit := update_where (\<lambda>a. \<exists>i. au_UserID a = Some i \<and> gone i) (\<lambda>a. a\<lparr>au_UserID := None\<rparr>)
       (db_audit db),
     db_alumni := map (unlink_ticket gone) (db_alumni db)\<rparr>"

definition purge_audit :: "instant \<Rightarrow> int \<Rightarrow> audit_log" where
  "purge_audit now i = \<lparr>au_UserID = None, au_Action = ''user_purge'', au_Resource = ''user'',
     au_ResourceID = Some (decimal i), au_Detail = None, au_ClientIP = None, au_UserAgent = None,
     au_Success = True, au_ErrCode = None,
     au_ActorClientID = None, au_CreatedAt = now\<rparr>"

definition purgeBody :: "fault \<Rightarrow> (user \<Rightarrow> bool) \<Rightarrow> instant \<Rightarrow> instant \<Rightarrow> int \<Rightarrow> (int \<times> string option) list tx" where
  "purgeBody flt skip before now limit db =
    stmt flt ''select closed accounts for purge''
     (let users = take (nat limit) (sort_key us_ID
            (filter (\<lambda>u. purge_due before u \<and> \<not> skip u) (db_users db)));
          rows = map (\<lambda>u. (us_ID u, case List.find (\<lambda>p. pf_UserID p = us_ID u) (db_profiles db) of
                     None \<Rightarrow> None | Some p \<Rightarrow> pf_Avatar p)) users in
      if rows = [] then Inr ([], db)
      else stmt flt ''purge closed accounts''
       (let ids = map fst rows;
            P = (\<lambda>u. us_ID u \<in> set ids \<and> purge_due before u);
            gone = (\<lambda>i. list_ex (\<lambda>u. us_ID u = i \<and> P u) (db_users db)) in
        if rows_affected P (db_users db) = 0 then Inr ([], db)
        else stmt flt ''write user_purge audit row''
         (let db1 = delete_users_cascade gone db in
          Inr (rows, db1\<lparr>db_audit := db_audit db1 @ map (purge_audit now) ids\<rparr>))))"

definition PurgeDeletedUsers ::
    "fault \<Rightarrow> (user \<Rightarrow> bool) \<Rightarrow> instant \<Rightarrow> instant \<Rightarrow> int \<Rightarrow> database
      \<Rightarrow> (repo_error + (int \<times> string option) list) \<times> database" where
  "PurgeDeletedUsers flt skip before now limit db =
    (if limit \<le> 0 then (Inl ErrInvalidArgument, db)
     else transaction flt (purgeBody flt skip before now limit) db)"

section \<open>Sweeps\<close>

lemma commit_deleteBatch_cases:
  fixes put :: "'r list \<Rightarrow> database"
  obtains (error) e where "commit_rows (deleteBatch flt pick cutoff n label key cond rows) put db = (Inl e, db)"
  | (swept) ids where "ids = pick (nat n) (map key (filter cond rows))"
      "commit_rows (deleteBatch flt pick cutoff n label key cond rows) put db =
        (Inr (rows_affected (\<lambda>r. key r \<in> set ids) rows), put (delete_where (\<lambda>r. key r \<in> set ids) rows))"
  by (cases "IsZero cutoff \<or> n \<le> 0"; cases "flt label") (auto simp: commit_rows_def deleteBatch_def stmt_def Let_def)

text \<open>The planner returns matching rows, at most as many as asked for.\<close>

definition sound_pick :: "(nat \<Rightarrow> int list \<Rightarrow> int list) \<Rightarrow> bool" where
  "sound_pick pick \<longleftrightarrow> (\<forall>n xs. set (pick n xs) \<subseteq> set xs \<and> length (pick n xs) \<le> n)"

lemma sweep_keeps:
  assumes "sound_pick pick" "distinct (map key rows)" "r \<in> set rows" "\<not> cond r"
  shows "r \<in> set (delete_where (\<lambda>r. key r \<in> set (pick n (map key (filter cond rows)))) rows)"
proof -
  have "key r \<noteq> key x" if "x \<in> set rows" "cond x" for x
    using distinct_map_inj[OF assms(2,3) that(1)] that(2) assms(4) by blast
  then have "key r \<notin> set (map key (filter cond rows))" by auto
  moreover have "set (pick n (map key (filter cond rows))) \<subseteq> set (map key (filter cond rows))"
    using assms(1) unfolding sound_pick_def by blast
  ultimately show ?thesis using assms(3) by auto
qed

lemma hd_family_origin:
  assumes "token_inv db" "x \<in> set (db_refresh db)" "rt_FamilyID x = f" "rt_Sequence x = 0"
  shows "FamilyOriginCreatedAt no_fault db f = Inr (rt_CreatedAt x)"
proof -
  have chain: "chain_inv (set (db_refresh db))" using assms(1) by (simp add: token_inv_def)
  have x: "x \<in> set (family_by_sequence db f)" using assms by (simp add: set_family_by_sequence)
  then obtain h t where ht: "family_by_sequence db f = h # t" by (cases "family_by_sequence db f") auto
  then have h: "h \<in> set (db_refresh db)" "rt_FamilyID h = f"
    using set_family_by_sequence[of db f] by auto
  have "rt_Sequence h = 0"
    using family_by_sequence_hd[OF assms(2,3)] chain_invD(1)[OF chain h(1)] ht assms(4) by simp
  then have "h = x" using chain_invD(3)[OF chain h(1) assms(2)] h assms(3,4) by (simp add: kin_def)
  then show ?thesis using ht by (simp add: FamilyOriginCreatedAt_def)
qed

lemma DeleteRevokedRefreshTokens_cases:
  obtains (error) e where "DeleteRevokedRefreshTokens flt pick cutoff n db = (Inl e, db)"
  | (swept) k ids where "ids = pick (nat n) (map rt_ID (filter (dead_refresh cutoff db) (db_refresh db)))"
      "DeleteRevokedRefreshTokens flt pick cutoff n db =
         (Inr k, db\<lparr>db_refresh := delete_where (\<lambda>r. rt_ID r \<in> set ids) (db_refresh db)\<rparr>)"
  unfolding DeleteRevokedRefreshTokens_def
  by (rule commit_deleteBatch_cases[of flt pick cutoff n "''dead refresh tokens''" rt_ID
        "dead_refresh cutoff db" "db_refresh db" "\<lambda>rows. db\<lparr>db_refresh := rows\<rparr>" db]) auto

lemma token_inv_sweep_refresh:
  "token_inv db \<Longrightarrow> token_inv (db\<lparr>db_refresh := delete_where P (db_refresh db)\<rparr>)"
  using token_inv_delete[of db P "\<lambda>_. False"] by (simp add: delete_where_def)

text \<open>A retention sweep never removes a usable refresh token, nor the origin row of a family that
  still has one, so the family keeps the creation instant its capability lifetime is measured from.\<close>

theorem DeleteRevokedRefreshTokens_keeps_live:
  fixes flt :: fault and batch :: int
  assumes inv: "token_inv db" and pick: "sound_pick pick"
    and live: "r \<in> set (db_refresh db)" "rt_RevokedAt r = None" "cutoff < rt_ExpiresAt r"
    and origin: "g \<in> set (db_refresh db)" "rt_FamilyID g = rt_FamilyID r" "rt_Sequence g = 0"
  defines "db' \<equiv> snd (DeleteRevokedRefreshTokens flt pick cutoff batch db)"
  shows "r \<in> set (db_refresh db')
    \<and> FamilyOriginCreatedAt no_fault db' (rt_FamilyID r) = Inr (rt_CreatedAt g)
    \<and> FamilyOriginCreatedAt no_fault db (rt_FamilyID r) = Inr (rt_CreatedAt g)"
proof -
  have "\<not> dead_refresh cutoff db r" "\<not> dead_refresh cutoff db g"
    using live origin by (auto simp: dead_refresh_def list_ex_iff)
  moreover have ids: "distinct (map rt_ID (db_refresh db))"
    using inv by (simp add: token_inv_def keys_inv_def)
  ultimately have "token_inv db' \<and> r \<in> set (db_refresh db') \<and> g \<in> set (db_refresh db')"
  proof (cases rule: DeleteRevokedRefreshTokens_cases[of flt pick cutoff batch db])
    case (swept k ids')
    then show ?thesis
      using sweep_keeps[OF pick ids live(1), of "dead_refresh cutoff db"]
        sweep_keeps[OF pick ids origin(1), of "dead_refresh cutoff db"]
        \<open>\<not> dead_refresh cutoff db r\<close> \<open>\<not> dead_refresh cutoff db g\<close> inv
      by (simp add: token_inv_sweep_refresh db'_def)
  qed (use inv live origin in \<open>simp add: db'_def\<close>)
  then show ?thesis using hd_family_origin[of db'] hd_family_origin[OF inv] origin live by simp
qed

section \<open>Derived state\<close>

definition recalibrated :: "(rune \<Rightarrow> bool) \<Rightarrow> instant \<Rightarrow> user \<Rightarrow> user" where
  "recalibrated ext now u =
    (case DeriveState ext (us_Role u) (us_StudentID u) now of None \<Rightarrow> u | Some d \<Rightarrow> u\<lparr>us_State := d\<rparr>)"

lemma DeriveState_not_deleted: "DeriveState ext role sid now \<noteq> Some UserStateDeleted"
  by (auto simp: DeriveState_def state_defs split: option.splits)

lemma concat_chunks: "n \<noteq> 0 \<Longrightarrow> concat (chunks n xs) = xs"
  by (induction n xs rule: chunks.induct) (subst chunks.simps, auto)

lemma set_states_eq:
  "set_states vs users = map (\<lambda>u. case map_of vs (us_ID u) of
      Some d \<Rightarrow> if unpinned u then u\<lparr>us_State := d\<rparr> else u | None \<Rightarrow> u) users"
  by (auto simp: set_states_def update_where_def split: option.splits)

lemma set_states_append:
  assumes "distinct (map fst (xs @ ys))" "\<forall>d\<in>snd ` set (xs @ ys). d \<noteq> UserStateDeleted"
  shows "set_states ys (set_states xs users) = set_states (xs @ ys) users"
proof -
  have "map_of ys k = None" if "map_of xs k = Some d" for k d
    using assms(1) map_of_SomeD[OF that] by (force simp: map_of_eq_None_iff)
  then show ?thesis
    by (auto simp: set_states_eq map_add_def unpinned_def split: option.splits)
qed

lemma apply_chunks_no_fault:
  assumes "distinct (map fst (concat cs))" "\<forall>d\<in>snd ` set (concat cs). d \<noteq> UserStateDeleted"
  shows "apply_chunks no_fault k cs db = (None, db\<lparr>db_users := set_states (concat cs) (db_users db)\<rparr>)"
  using assms
proof (induction cs arbitrary: k db)
  case Nil
  then show ?case by (simp add: set_states_eq)
next
  case (Cons c cs)
  then have "set_states (concat cs) (set_states c (db_users db)) = set_states (c @ concat cs) (db_users db)"
    by (intro set_states_append) auto
  then show ?case using Cons by (simp add: no_fault_def)
qed

lemma in_divergentD:
  "(i, d) \<in> set (divergent ext now rows) \<Longrightarrow>
     \<exists>u\<in>set rows. i = us_ID u \<and> DeriveState ext (us_Role u) (us_StudentID u) now = Some d"
  by (auto simp: divergent_def List.map_filter_def split: option.splits if_splits)

lemma divergent_keys: "fst ` set (divergent ext now rows) \<subseteq> us_ID ` set rows"
  using in_divergentD by fastforce

lemma map_of_divergent:
  assumes "distinct (map us_ID rows)"
  shows "map_of (divergent ext now rows) i =
    (case List.find (\<lambda>u. us_ID u = i) rows of None \<Rightarrow> None
     | Some u \<Rightarrow> (case DeriveState ext (us_Role u) (us_StudentID u) now of None \<Rightarrow> None
         | Some d \<Rightarrow> if d \<noteq> us_State u then Some d else None))"
  using assms
proof (induction rows)
  case (Cons u rows)
  have "map_of (divergent ext now rows) (us_ID u) = None"
    using Cons.prems divergent_keys[of ext now rows] by (auto simp: map_of_eq_None_iff)
  with Cons show ?case
    by (auto simp: divergent_def map_filter_simps split: option.splits)
qed (simp add: divergent_def map_filter_simps)

lemma distinct_divergent:
  "distinct (map us_ID rows) \<Longrightarrow> distinct (map fst (divergent ext now rows))"
proof (induction rows)
  case (Cons u rows)
  with divergent_keys[of ext now rows] show ?case by (auto simp: divergent_def map_filter_simps split: option.splits)
qed (simp add: divergent_def map_filter_simps)

lemma set_recompute_rows:
  "u \<in> set (recompute_rows cursor n db) \<Longrightarrow> u \<in> set (db_users db) \<and> unpinned u \<and> cursor < us_ID u"
  by (auto simp: recompute_rows_def unpinned_def dest!: in_set_takeD)

lemma distinct_recompute_rows:
  assumes "distinct (map us_ID (db_users db))"
  shows "distinct (map us_ID (recompute_rows cursor n db))"
proof -
  have "distinct (map us_ID (sort_key us_ID (filter P (db_users db))))" for P
    using distinct_map_filter[OF assms, of P]
    by (metis distinct_map distinct_sort set_sort)
  then show ?thesis unfolding recompute_rows_def by (simp add: take_map[symmetric] distinct_take)
qed

text \<open>One batch of the state sweep sets every visited account to its derived state and changes
  nothing else; pinned and closed accounts are never touched, and the returned cursor is past
  every visited account, or 0 when the sweep is over.\<close>

lemma RecomputeDerivedState_batch:
  assumes ids: "distinct (map us_ID (db_users db))" and "0 < batchSize"
  shows "let rows = recompute_rows cursor batchSize db in
    RecomputeDerivedState no_fault ext cursor now batchSize db =
      (Inr (if int (length rows) < batchSize then 0 else us_ID (last rows)),
       db\<lparr>db_users := map (\<lambda>u. if u \<in> set rows then recalibrated ext now u else u) (db_users db)\<rparr>)
    \<and> (\<forall>u\<in>set rows. unpinned u \<and> cursor < us_ID u \<and> us_ID u \<le> us_ID (last rows))"
proof -
  let ?rows = "recompute_rows cursor batchSize db" and ?vs = "divergent ext now (recompute_rows cursor batchSize db)"
  have sound: "\<forall>d\<in>snd ` set ?vs. d \<noteq> UserStateDeleted"
    using DeriveState_not_deleted in_divergentD by fastforce
  have rows: "distinct (map us_ID ?rows)" using distinct_recompute_rows[OF ids] .
  have c: "apply_chunks no_fault 0 (chunks derivedStateChunkSize ?vs) db
      = (None, db\<lparr>db_users := set_states ?vs (db_users db)\<rparr>)"
    using apply_chunks_no_fault[of "chunks derivedStateChunkSize ?vs" 0 db] sound distinct_divergent[OF rows]
    by (simp add: concat_chunks derivedStateChunkSize_def)
  have "set_states ?vs (db_users db) = map (\<lambda>u. if u \<in> set ?rows then recalibrated ext now u else u) (db_users db)"
    unfolding set_states_eq
  proof (rule map_cong[OF refl])
    fix u assume u: "u \<in> set (db_users db)"
    show "(case map_of ?vs (us_ID u) of Some d \<Rightarrow> if unpinned u then u\<lparr>us_State := d\<rparr> else u | None \<Rightarrow> u)
        = (if u \<in> set ?rows then recalibrated ext now u else u)"
    proof (cases "u \<in> set ?rows")
      case True
      then have "List.find (\<lambda>x. us_ID x = us_ID u) ?rows = Some u"
        using find_Some_iff_distinct[OF rows] by blast
      then show ?thesis using True set_recompute_rows[OF True]
        by (auto simp: map_of_divergent[OF rows] recalibrated_def split: option.splits)
    next
      case False
      have "us_ID x \<noteq> us_ID u" if "x \<in> set ?rows" for x
        using distinct_map_inj[OF ids _ u, of x] set_recompute_rows[OF that] that False by blast
      then have "List.find (\<lambda>x. us_ID x = us_ID u) ?rows = None" by (simp add: find_None_iff)
      then show ?thesis using False by (simp add: map_of_divergent[OF rows])
    qed
  qed
  moreover have "us_ID u \<le> us_ID (last ?rows)" if "u \<in> set ?rows" for u
    using that by (intro sorted_map_last) (simp_all add: recompute_rows_def sorted_wrt_take flip: take_map)
  moreover have "?rows = [] \<Longrightarrow> map (\<lambda>u. if u \<in> set ?rows then recalibrated ext now u else u) (db_users db) = db_users db"
    by simp
  ultimately show ?thesis using assms(2) c set_recompute_rows[of _ cursor batchSize db]
    by (auto simp: RecomputeDerivedState_def Let_def no_fault_def)
qed

end
