(* ===== verification/Account_Invariant.thy ===== *)
theory Account_Invariant
  imports Admin_Store Retention
begin

text \<open>
  The invariant of the account tables and its preservation by the operations of
  \<open>Account_Store\<close> and \<open>Admin_Store\<close>: keys, student numbers and login addresses are unique, an
  account is closed exactly when its purge clock runs, every profile and binding has an owner,
  no address is both a login address and a bound address, and an account holds at most two
  bound addresses, one GitHub and one Lark binding. The second invariant is that an active
  administrator exists.
\<close>

section \<open>The invariants\<close>

definition row_ok :: "user \<Rightarrow> bool" where
  "row_ok u \<longleftrightarrow> us_EmailType u \<in> {EmailTypeSAST, EmailTypeNJUpt}
     \<and> (us_State u = UserStateDeleted \<longleftrightarrow> us_DeletedAt u \<noteq> None)"

definition users_inv :: "database \<Rightarrow> bool" where
  "users_inv db \<longleftrightarrow> distinct (map us_ID (db_users db)) \<and> distinct (map us_StudentID (db_users db))
     \<and> distinct (map us_LoginEmail (db_users db))
     \<and> (\<forall>u\<in>set (db_users db). us_ID u \<le> db_seq db \<and> row_ok u)"

definition profiles_inv :: "database \<Rightarrow> bool" where
  "profiles_inv db \<longleftrightarrow> distinct (map pf_UserID (db_profiles db))
     \<and> (\<forall>p\<in>set (db_profiles db). user_exists db (pf_UserID p))"

definition id_pair :: "identity \<Rightarrow> LoginMethod \<times> string" where
  "id_pair i = (id_Provider i, id_ProviderID i)"

definition identities_inv :: "database \<Rightarrow> bool" where
  "identities_inv db \<longleftrightarrow> distinct (map id_ID (db_identities db)) \<and> distinct (map id_pair (db_identities db))
     \<and> (\<forall>i\<in>set (db_identities db). id_ID i \<le> db_seq db \<and> user_exists db (id_UserID i))
     \<and> (\<forall>u. identity_count db u LoginMethodOtherMail \<le> 2 \<and> identity_count db u LoginMethodGitHub \<le> 1
          \<and> identity_count db u LoginMethodLark \<le> 1)"

definition addresses_inv :: "database \<Rightarrow> bool" where
  "addresses_inv db \<longleftrightarrow> (\<forall>u\<in>set (db_users db). \<not> bound_as_mail db (us_LoginEmail u))"

definition account_inv :: "database \<Rightarrow> bool" where
  "account_inv db \<longleftrightarrow> users_inv db \<and> profiles_inv db \<and> identities_inv db \<and> addresses_inv db"

definition has_admin :: "database \<Rightarrow> bool" where
  "has_admin db \<longleftrightarrow> list_ex active_admin (db_users db)"

lemmas account_inv_defs = account_inv_def users_inv_def profiles_inv_def identities_inv_def addresses_inv_def

text \<open>What an account operation may change, and what it must keep.\<close>

definition others_kept :: "database \<Rightarrow> database \<Rightarrow> bool" where
  "others_kept db db' \<longleftrightarrow> db_clients db' = db_clients db \<and> db_authorizations db' = db_authorizations db
     \<and> db_grants db' = db_grants db \<and> db_access db' = db_access db \<and> db_refresh db' = db_refresh db
     \<and> db_outbox db' = db_outbox db \<and> db_audit db' = db_audit db \<and> db_alumni db' = db_alumni db
     \<and> db_seq db \<le> db_seq db'"

definition account_effect :: "database \<Rightarrow> database \<Rightarrow> bool" where
  "account_effect db db' \<longleftrightarrow> others_kept db db'
     \<and> (account_inv db \<longrightarrow> account_inv db' \<and> (has_admin db \<longrightarrow> has_admin db'))"

lemma others_kept_refl [simp]: "others_kept db db"
  by (simp add: others_kept_def)

lemma others_kept_trans: "others_kept db db1 \<Longrightarrow> others_kept db1 db2 \<Longrightarrow> others_kept db db2"
  by (simp add: others_kept_def)

lemma account_effect_refl [simp]: "account_effect db db"
  by (simp add: account_effect_def)

lemma account_effect_trans [trans]:
  "account_effect db db1 \<Longrightarrow> account_effect db1 db2 \<Longrightarrow> account_effect db db2"
  using others_kept_trans by (auto simp: account_effect_def)

lemma account_inv_cong:
  assumes "db_users db' = db_users db" "db_profiles db' = db_profiles db"
    "db_identities db' = db_identities db" "db_seq db \<le> db_seq db'"
  shows "account_inv db \<Longrightarrow> account_inv db'" "has_admin db' = has_admin db"
  using assms
  by (fastforce simp: account_inv_defs user_exists_def identity_count_def bound_as_mail_def has_admin_def)+

section \<open>Rewriting user rows\<close>

lemma distinct_map_comp:
  assumes "\<And>x. x \<in> set xs \<Longrightarrow> f (g x) = f x"
  shows "distinct (map (f \<circ> g) xs) \<longleftrightarrow> distinct (map f xs)"
proof -
  have "map (f \<circ> g) xs = map f xs" using assms by simp
  then show ?thesis by (rule arg_cong)
qed

lemma list_ex_update_where:
  "(\<And>x. Q (f x) = Q x) \<Longrightarrow> list_ex Q (update_where P f xs) = list_ex Q xs"
  by (induction xs) (auto simp: update_where_def)

lemma distinct_map_replace:
  assumes "distinct (map k xs)" "distinct (map key xs)" "x \<in> set xs"
    "\<And>y. y \<in> set xs \<Longrightarrow> key y \<noteq> key x \<Longrightarrow> k y \<noteq> k x'"
  shows "distinct (map k (map (\<lambda>y. if key y = key x then x' else y) xs))"
  using assms
proof (induction xs)
  case (Cons y ys)
  show ?case
  proof (cases "key y = key x")
    case True
    then have tl: "map (\<lambda>y. if key y = key x then x' else y) ys = ys"
      using Cons.prems(2) by (intro map_idI) (auto simp: image_iff)
    have "k z \<noteq> k x'" if "z \<in> set ys" for z
      using Cons.prems(2) True that by (intro Cons.prems(4)) (auto simp: image_iff)
    then have "k x' \<notin> k ` set ys" by force
    then show ?thesis using True Cons.prems(1) tl by simp
  next
    case False
    then have x: "x \<in> set ys" using Cons.prems(3) by auto
    have IH: "distinct (map k (map (\<lambda>y. if key y = key x then x' else y) ys))"
      by (rule Cons.IH) (use Cons.prems x in auto)
    have "k y \<noteq> k x'" by (rule Cons.prems(4)) (use False in auto)
    then have "k y \<notin> k ` set (map (\<lambda>y. if key y = key x then x' else y) ys)"
      using Cons.prems(1) by (auto simp: image_iff split: if_splits)
    then show ?thesis using IH False by (auto simp: image_iff)
  qed
qed simp

lemma update_live_eq:
  assumes "distinct (map us_ID users)" "stored \<in> set users" "live_account i stored"
  shows "update_where (live_account i) (\<lambda>_. u') users
    = map (\<lambda>u. if us_ID u = us_ID stored then u' else u) users"
proof -
  have "live_account i u \<longleftrightarrow> us_ID u = us_ID stored" if "u \<in> set users" for u
    using assms distinct_map_inj[OF assms(1) that assms(2)] by (auto simp: live_account_def)
  then show ?thesis by (simp add: update_where_def cong: map_cong)
qed

lemma user_exists_map:
  "(\<And>u. u \<in> set (db_users db) \<Longrightarrow> us_ID (g u) = us_ID u) \<Longrightarrow>
     user_exists (db\<lparr>db_users := map g (db_users db)\<rparr>) i = user_exists db i"
  by (simp add: user_exists_def list_ex_iff)

lemma account_inv_map_users:
  assumes inv: "account_inv db"
    and keep: "\<And>u. u \<in> set (db_users db) \<Longrightarrow> us_ID (g u) = us_ID u \<and> row_ok (g u)"
    and keys: "distinct (map us_StudentID (map g (db_users db)))" "distinct (map us_LoginEmail (map g (db_users db)))"
    and mail: "\<And>u. u \<in> set (db_users db) \<Longrightarrow> \<not> bound_as_mail db (us_LoginEmail (g u))"
  shows "account_inv (db\<lparr>db_users := map g (db_users db)\<rparr>)"
proof -
  let ?db = "db\<lparr>db_users := map g (db_users db)\<rparr>"
  have "distinct (map (us_ID \<circ> g) (db_users db)) \<longleftrightarrow> distinct (map us_ID (db_users db))"
    using keep by (intro distinct_map_comp) blast
  then have "users_inv ?db" using inv keep keys by (auto simp: account_inv_def users_inv_def)
  moreover have "user_exists ?db i = user_exists db i" for i by (rule user_exists_map) (use keep in blast)
  moreover have "identity_count ?db u p = identity_count db u p" for u p by (simp add: identity_count_def)
  ultimately show ?thesis using inv mail
    by (auto simp: account_inv_def profiles_inv_def identities_inv_def addresses_inv_def bound_as_mail_def)
qed

text \<open>A row update that keeps every key column.\<close>

definition frame_row :: "user \<Rightarrow> user \<Rightarrow> bool" where
  "frame_row u u' \<longleftrightarrow> us_ID u' = us_ID u \<and> us_StudentID u' = us_StudentID u
     \<and> us_LoginEmail u' = us_LoginEmail u \<and> us_EmailType u' = us_EmailType u
     \<and> (us_State u' = UserStateDeleted \<longleftrightarrow> us_DeletedAt u' \<noteq> None)"

lemma account_inv_frame:
  assumes inv: "account_inv db"
    and g: "\<And>u. u \<in> set (db_users db) \<Longrightarrow> row_ok u \<Longrightarrow> frame_row u (g u)"
  shows "account_inv (db\<lparr>db_users := map g (db_users db)\<rparr>)"
proof (rule account_inv_map_users[OF inv])
  have ok: "row_ok u" if "u \<in> set (db_users db)" for u
    using inv that by (simp add: account_inv_def users_inv_def)
  show "us_ID (g u) = us_ID u \<and> row_ok (g u)" if "u \<in> set (db_users db)" for u
    using g[OF that ok[OF that]] ok[OF that] by (auto simp: frame_row_def row_ok_def)
  have "distinct (map (us_StudentID \<circ> g) (db_users db)) \<longleftrightarrow> distinct (map us_StudentID (db_users db))"
    "distinct (map (us_LoginEmail \<circ> g) (db_users db)) \<longleftrightarrow> distinct (map us_LoginEmail (db_users db))"
    using g ok by (intro distinct_map_comp; simp add: frame_row_def)+
  then show "distinct (map us_StudentID (map g (db_users db)))" "distinct (map us_LoginEmail (map g (db_users db)))"
    using inv by (simp_all add: account_inv_def users_inv_def)
  show "\<not> bound_as_mail db (us_LoginEmail (g u))" if "u \<in> set (db_users db)" for u
    using g[OF that ok[OF that]] inv that by (simp add: frame_row_def account_inv_def addresses_inv_def)
qed

lemma has_admin_map:
  assumes "has_admin db" "\<And>u. u \<in> set (db_users db) \<Longrightarrow> active_admin u \<Longrightarrow> active_admin (g u)"
  shows "has_admin (db\<lparr>db_users := map g (db_users db)\<rparr>)"
  using assms by (auto simp: has_admin_def list_ex_iff)

lemma update_users_effect:
  assumes "\<And>u. u \<in> set (db_users db) \<Longrightarrow> P u \<Longrightarrow> row_ok u \<Longrightarrow> frame_row u (f u)"
    and "\<And>u. u \<in> set (db_users db) \<Longrightarrow> P u \<Longrightarrow> active_admin u \<Longrightarrow> active_admin (f u)"
  shows "account_effect db (db\<lparr>db_users := update_where P f (db_users db)\<rparr>)"
proof -
  have "frame_row u (if P u then f u else u)" if "u \<in> set (db_users db)" "row_ok u" for u
    using assms(1)[OF that(1)] that(2) by (auto simp: frame_row_def row_ok_def)
  then show ?thesis unfolding account_effect_def update_where_def
    by (auto simp: others_kept_def intro!: account_inv_frame has_admin_map assms(2))
qed

section \<open>Writing the other tables\<close>

lemma update_identities_effect:
  assumes "\<And>i. id_ID (f i) = id_ID i \<and> id_UserID (f i) = id_UserID i \<and> id_pair (f i) = id_pair i"
  shows "account_effect db (db\<lparr>db_identities := update_where P f (db_identities db)\<rparr>)"
proof -
  let ?db = "db\<lparr>db_identities := update_where P f (db_identities db)\<rparr>"
  have keep: "id_Provider (f i) = id_Provider i" "id_ProviderID (f i) = id_ProviderID i" for i
    using assms[of i] by (simp_all add: id_pair_def)
  have "length (filter Q (update_where P f xs)) = length (filter Q xs)"
    if "\<And>i. Q (f i) = Q i" for Q xs using that by (induction xs) (auto simp: update_where_def)
  then have "identity_count ?db u p = identity_count db u p" for u p
    using assms keep by (simp add: identity_count_def)
  moreover have "bound_as_mail ?db e = bound_as_mail db e" for e
    using keep by (simp add: bound_as_mail_def list_ex_update_where)
  moreover have "has_admin ?db = has_admin db" "user_exists ?db u = user_exists db u" for u
    by (simp_all add: has_admin_def user_exists_def)
  ultimately show ?thesis using assms keep
    by (auto simp: account_effect_def others_kept_def account_inv_defs map_update_where set_update_where)
qed

lemma delete_identities_effect: "account_effect db (db\<lparr>db_identities := delete_where P (db_identities db)\<rparr>)"
proof -
  let ?db = "db\<lparr>db_identities := delete_where P (db_identities db)\<rparr>"
  have "length (filter Q (filter R xs)) \<le> length (filter Q xs)" for Q R and xs :: "identity list"
    by (induction xs) auto
  then have "identity_count ?db u p \<le> identity_count db u p" for u p
    by (simp add: identity_count_def delete_where_def)
  then have c: "identity_count db u p \<le> n \<Longrightarrow> identity_count ?db u p \<le> n" for u p n by (meson order_trans)
  have b: "bound_as_mail ?db e \<Longrightarrow> bound_as_mail db e" for e by (auto simp: bound_as_mail_def list_ex_iff)
  have "has_admin ?db = has_admin db" "user_exists ?db u = user_exists db u" for u
    by (simp_all add: has_admin_def user_exists_def)
  then show ?thesis using c b
    by (auto simp: account_effect_def others_kept_def account_inv_defs delete_where_def distinct_map_filter)
qed

lemma profiles_effect:
  assumes "account_inv db \<Longrightarrow> distinct (map pf_UserID ps) \<and> (\<forall>p\<in>set ps. user_exists db (pf_UserID p))"
  shows "account_effect db (db\<lparr>db_profiles := ps\<rparr>)"
  using assms
  by (auto simp: account_effect_def others_kept_def account_inv_def users_inv_def profiles_inv_def
      identities_inv_def addresses_inv_def user_exists_def identity_count_def bound_as_mail_def has_admin_def)

lemma upsert_profile_effect:
  assumes "upsert_profile flt l l' u f db = Inr (x, db')" "user_exists db u" "\<And>p. pf_UserID (f p) = pf_UserID p"
  shows "account_effect db db'"
proof -
  have "db' = db\<lparr>db_profiles := update_where (\<lambda>p. pf_UserID p = u) f (db_profiles db)\<rparr>
     \<or> (\<forall>p\<in>set (db_profiles db). pf_UserID p \<noteq> u) \<and> db' = db\<lparr>db_profiles := db_profiles db @ [f (blank_profile u)]\<rparr>"
    using assms(1)
    by (auto simp: upsert_profile_def Let_def stmt_Inr_iff rows_affected_def filter_empty_conv split: if_splits)
  then show ?thesis
  proof (elim disjE conjE)
    assume "db' = db\<lparr>db_profiles := update_where (\<lambda>p. pf_UserID p = u) f (db_profiles db)\<rparr>"
    then show ?thesis using assms(3)
      by (auto intro!: profiles_effect simp: account_inv_def profiles_inv_def map_update_where set_update_where)
  next
    assume "\<forall>p\<in>set (db_profiles db). pf_UserID p \<noteq> u" "db' = db\<lparr>db_profiles := db_profiles db @ [f (blank_profile u)]\<rparr>"
    then show ?thesis using assms(2,3)
      by (auto intro!: profiles_effect simp: account_inv_def profiles_inv_def blank_profile_def)
  qed
qed

lemma insert_profile_effect: "insert_profile flt l p db = Inr (x, db') \<Longrightarrow> account_effect db db'"
  by (force simp: insert_profile_def stmt_Inr_iff list_ex_iff account_inv_def profiles_inv_def
      split: if_splits intro!: profiles_effect)

lemma identity_count_append:
  "identity_count (db\<lparr>db_identities := db_identities db @ [i], db_seq := s\<rparr>) u p
     = identity_count db u p + (if id_UserID i = u \<and> id_Provider i = p then 1 else 0)"
  by (simp add: identity_count_def)

lemma insert_identity_effect:
  assumes "insert_identity flt l i db = Inr (i', db')"
  shows "account_effect db db'"
proof -
  have db': "db' = db\<lparr>db_identities := db_identities db @ [i'], db_seq := db_seq db + 1\<rparr>"
    and i': "i' = i\<lparr>id_ID := db_seq db + 1\<rparr>" and ex: "user_exists db (id_UserID i)"
    and new: "\<forall>x\<in>set (db_identities db). id_pair x \<noteq> id_pair i"
    and social: "id_Provider i \<in> {LoginMethodGitHub, LoginMethodLark} \<Longrightarrow> identity_count db (id_UserID i) (id_Provider i) \<le> 0"
    and mail: "id_Provider i = LoginMethodOtherMail \<Longrightarrow> identity_count db (id_UserID i) LoginMethodOtherMail < 2
        \<and> \<not> is_login_email db (id_ProviderID i)"
    using assms by (auto simp: insert_identity_def stmt_Inr_iff Let_def id_pair_def list_ex_iff split: if_splits)
  have c: "identity_count db' u p = identity_count db u p + (if id_UserID i = u \<and> id_Provider i = p then 1 else 0)" for u p
    by (simp add: db' i' identity_count_append)
  have "account_inv db'" if inv: "account_inv db"
  proof -
    have "identity_count db' u LoginMethodOtherMail \<le> 2 \<and> identity_count db' u LoginMethodGitHub \<le> 1
          \<and> identity_count db' u LoginMethodLark \<le> 1" for u
      using inv social mail unfolding c by (fastforce simp: account_inv_def identities_inv_def method_defs)
    moreover have "\<forall>x\<in>set (db_identities db'). id_ID x \<le> db_seq db' \<and> user_exists db' (id_UserID x)"
      using inv ex by (auto simp: db' i' account_inv_def identities_inv_def user_exists_def)
    moreover have "distinct (map id_ID (db_identities db'))" "distinct (map id_pair (db_identities db'))"
      using inv new by (force simp: db' i' account_inv_def identities_inv_def id_pair_def)+
    moreover have "addresses_inv db'"
      using inv mail unfolding account_inv_def addresses_inv_def
      by (auto simp: db' i' bound_as_mail_def list_ex_iff is_login_email_def)
    ultimately show ?thesis using inv
      by (auto simp: account_inv_def identities_inv_def users_inv_def profiles_inv_def db' user_exists_def)
  qed
  moreover have "has_admin db' = has_admin db" by (simp add: db' has_admin_def)
  ultimately show ?thesis by (simp add: account_effect_def others_kept_def db')
qed

section \<open>Creating accounts\<close>

text \<open>What the services hand to the repository as a new account.\<close>

definition fresh_account :: "user \<Rightarrow> bool" where
  "fresh_account u \<longleftrightarrow> us_State u \<noteq> UserStateDeleted \<and> us_DeletedAt u = None"

lemma or_default_not_deleted: "s \<noteq> UserStateDeleted \<Longrightarrow> or_default UserStateNJUPTer s \<noteq> UserStateDeleted"
  by (simp add: or_default_def state_defs)

lemma insert_user_InrD:
  assumes "insert_user flt l pg u db = Inr (u', db')"
  shows "db' = db\<lparr>db_users := db_users db @ [u'], db_seq := db_seq db + 1\<rparr>" "us_ID u' = db_seq db + 1"
    "\<not> user_conflict db u'" "\<not> bound_as_mail db (us_LoginEmail u')"
    "us_EmailType u' \<in> {EmailTypeSAST, EmailTypeNJUpt}"
    "us_State u' = or_default UserStateNJUPTer (us_State u)" "us_DeletedAt u' = us_DeletedAt u"
    "us_Role u' = or_default UserRoleFreshman (us_Role u)"
  using assms
  by (auto simp: insert_user_def stmt_Inr_iff Let_def user_conflict_def email_type_of_def
      split: option.splits if_splits)

lemma insert_user_effect:
  assumes i: "insert_user flt l pg u db = Inr (u', db')" and fresh: "fresh_account u"
  shows "account_effect db db'"
proof -
  note d = insert_user_InrD[OF i]
  have ok: "row_ok u'"
    using d(5-7) fresh or_default_not_deleted[of "us_State u"] by (simp add: row_ok_def fresh_account_def)
  have "account_inv db'" if inv: "account_inv db"
  proof -
    have new: "us_ID u' \<notin> us_ID ` set (db_users db)"
      using inv d(2) by (force simp: account_inv_def users_inv_def)
    then have "us_ID x \<noteq> us_ID u'" if "x \<in> set (db_users db)" for x using that by (metis image_eqI)
    then have "us_StudentID x \<noteq> us_StudentID u'" "us_LoginEmail x \<noteq> us_LoginEmail u'"
      if "x \<in> set (db_users db)" for x
      using d(3) that by (auto simp: user_conflict_def list_ex_iff)
    then have "us_StudentID u' \<notin> us_StudentID ` set (db_users db)" "us_LoginEmail u' \<notin> us_LoginEmail ` set (db_users db)"
      by (simp_all add: image_iff) metis+
    then have "users_inv db'" using inv ok new d(2) by (auto simp: account_inv_def users_inv_def d(1))
    moreover have "user_exists db i \<Longrightarrow> user_exists db' i" for i by (auto simp: user_exists_def d(1))
    moreover have "identity_count db' v p = identity_count db v p" for v p by (simp add: identity_count_def d(1))
    moreover have "bound_as_mail db' e = bound_as_mail db e" for e by (simp add: bound_as_mail_def d(1))
    ultimately show ?thesis using inv d(4)
      by (fastforce simp: account_inv_def profiles_inv_def identities_inv_def addresses_inv_def d(1))
  qed
  moreover have "has_admin db \<Longrightarrow> has_admin db'" by (auto simp: has_admin_def d(1))
  ultimately show ?thesis by (simp add: account_effect_def others_kept_def d(1))
qed

lemma createUserAndProfile_effect:
  assumes "createUserAndProfile flt lx pg ul pl u p db = Inr (u', db')" "fresh_account u"
  shows "account_effect db db'"
proof -
  obtain db1 x where "insert_user flt ul pg u db = Inr (u', db1)"
    "insert_profile flt pl (p\<lparr>pf_UserID := us_ID u'\<rparr>) db1 = Inr (x, db')"
    using assms(1) by (auto simp: createUserAndProfile_def bindE_eq_Inr_iff)
  then show ?thesis using insert_user_effect[OF _ assms(2)] insert_profile_effect account_effect_trans by metis
qed

lemma createIdentityFor_effect: "createIdentityFor flt l u i db = Inr (x, db') \<Longrightarrow> account_effect db db'"
  by (auto simp: createIdentityFor_def bindE_eq_Inr_iff split: option.splits dest: insert_identity_effect)

lemma createAdminUser_effect:
  assumes "createAdminUserInTransaction flt lx pg u p i db = Inr (u', db')" "fresh_account u"
  shows "account_effect db db'"
  using assms unfolding createAdminUserInTransaction_def
  by (auto simp: bindE_eq_Inr_iff dest!: createUserAndProfile_effect createIdentityFor_effect
      intro: account_effect_trans)

lemma account_effect_transaction:
  "(\<And>x db'. body db = Inr (x, db') \<Longrightarrow> account_effect db db') \<Longrightarrow> account_effect db (snd (transaction flt body db))"
  by (cases rule: transaction_cases[of body db flt]) auto

definition fresh_option :: "user option \<Rightarrow> bool" where
  "fresh_option user \<longleftrightarrow> (case user of None \<Rightarrow> True | Some u \<Rightarrow> fresh_account u)"

lemma CreateWithProfile_effect:
  "fresh_option user \<Longrightarrow> account_effect db (snd (CreateWithProfile flt lx pg user prof db))"
  by (auto simp: CreateWithProfile_def fresh_option_def split: option.splits
      intro!: account_effect_transaction createUserAndProfile_effect)

lemma CreateAdminUser_effect:
  "fresh_option user \<Longrightarrow> account_effect db (snd (CreateAdminUser flt lx pg user prof i db))"
  by (auto simp: CreateAdminUser_def fresh_option_def split: option.splits
      intro!: account_effect_transaction createAdminUser_effect)

text \<open>A registration writes the account first and then its first token pair.\<close>

lemma registrationBody_InrE:
  assumes "registrationBody flt lx pg u p i mk db = Inr (u', db')" "fresh_account u"
  obtains db2 access refresh pair where "account_effect db db2" "mk u' = Inr (access, refresh)"
    "createTokenPairInTransaction flt access refresh db2 = Inr (pair, db')"
proof -
  obtain db1 db2 access refresh pair x where
    "createUserAndProfile flt lx pg ''create user'' ''create profile'' u p db = Inr (u', db1)"
    "createIdentityFor flt ''create registration identity'' u' i db1 = Inr (x, db2)"
    "mk u' = Inr (access, refresh)" "createTokenPairInTransaction flt access refresh db2 = Inr (pair, db')"
    using assms(1) by (auto simp: registrationBody_def bindE_eq_Inr_iff)
  then show thesis
    by (intro that[OF account_effect_trans[OF createUserAndProfile_effect[OF _ assms(2)] createIdentityFor_effect]])
qed

section \<open>Self-service edits and bindings\<close>

lemma userColumns_frame: "row_ok u \<Longrightarrow> frame_row u (userColumns pu u)" "active_admin (userColumns pu u) = active_admin u"
  by (simp_all add: userColumns_def frame_row_def row_ok_def active_admin_def)

lemma updateProfileBody_effect:
  assumes "updateProfileBody flt u pu db = Inr (x, db')"
  shows "account_effect db db'"
proof -
  obtain db1 where
    1: "(if no_user_columns pu then Inr db
      else stmt flt ''update user profile fields''
        (if rows_affected (live_account u) (db_users db) = 0 then Inl ErrNotFound
         else Inr (db\<lparr>db_users := update_where (live_account u) (userColumns pu) (db_users db)\<rparr>))) = Inr db1"
    and 2: "(if no_profile_columns pu then Inr ((), db1)
      else stmt flt ''load profile owner''
       (if \<not> list_ex (live_account u) (db_users db1) then Inl ErrNotFound
        else upsert_profile flt ''update profile fields'' ''create profile for update''
          u (profileColumns pu) db1)) = Inr (x, db')"
    using assms unfolding updateProfileBody_def bindE_eq_Inr_iff by blast
  have "account_effect db (db\<lparr>db_users := update_where (live_account u) (userColumns pu) (db_users db)\<rparr>)"
    by (rule update_users_effect) (simp_all add: userColumns_frame)
  then have e1: "account_effect db db1" using 1 by (auto simp: stmt_Inr_iff split: if_splits)
  have "list_ex (live_account u) (db_users db1) \<Longrightarrow> user_exists db1 u"
    by (auto simp: user_exists_def live_account_def list_ex_iff)
  moreover have "pf_UserID (profileColumns pu p) = pf_UserID p" for p by (simp add: profileColumns_def)
  ultimately have "account_effect db1 db'"
    using 2 by (auto simp: stmt_Inr_iff split: if_splits intro: upsert_profile_effect)
  then show ?thesis using e1 account_effect_trans by blast
qed

lemma UpdateProfile_effect: "account_effect db (snd (UpdateProfile flt u pu db))"
  using account_effect_transaction[of "updateProfileBody flt u pu" db flt] updateProfileBody_effect
  by (auto simp: UpdateProfile_def split: prod.splits sum.splits)

lemma deleteIdentity_effect: "deleteIdentityByIDAndUser flt i u db = Inr (x, db') \<Longrightarrow> account_effect db db'"
  by (auto simp: deleteIdentityByIDAndUser_def Let_def stmt_Inr_iff split: if_splits
      intro: delete_identities_effect)

lemma DeleteByIDAndUser_effect: "account_effect db (snd (DeleteByIDAndUser flt i u db))"
  unfolding DeleteByIDAndUser_def by (rule account_effect_transaction) (rule deleteIdentity_effect)

lemma DeleteGuarding_effect: "account_effect db (snd (DeleteIdentityGuardingLoginMethod flt i u db))"
  unfolding DeleteIdentityGuardingLoginMethod_def
  by (rule account_effect_transaction)
    (auto simp: deleteGuardingBody_def bindE_eq_Inr_iff stmt_Inr_iff split: if_splits dest: deleteIdentity_effect)

lemma UpdateProviderCredentials_effect: "account_effect db (snd (UpdateProviderCredentials flt i up db))"
  by (auto simp: UpdateProviderCredentials_def Let_def refresh_credentials_def id_pair_def
      intro!: update_identities_effect)

lemma CreateWithinLimit_effect: "account_effect db (snd (CreateWithinLimit flt i n db))"
  by (auto simp: CreateWithinLimit_def createWithinLimitBody_def bindE_eq_Inr_iff stmt_Inr_iff
      split: option.splits if_splits intro!: account_effect_transaction dest: insert_identity_effect)

section \<open>Administrative writes\<close>

lemma columns_frame [simp]:
  "us_ID (columns up u) = us_ID u" "us_DeletedAt (columns up u) = us_DeletedAt u"
  "us_TokenVersion (columns up u) = us_TokenVersion u"
  by (simp_all add: columns_def)

lemma adminAssignments_InrD:
  assumes "adminAssignments dx up stored t = Inr f" "aup_State up \<noteq> Some UserStateDeleted"
    "us_State stored \<noteq> UserStateDeleted"
  shows "us_ID (f u) = us_ID u" "us_DeletedAt (f u) = us_DeletedAt u" "us_State (f stored) \<noteq> UserStateDeleted"
    "us_Role (f u) = assign (aup_Role up) (us_Role u)" "us_LoginEmail (f u) = assign (aup_LoginEmail up) (us_LoginEmail u)"
    "aup_EmailType up = None \<Longrightarrow> us_EmailType (f u) = us_EmailType u"
    "us_TokenVersion (f u) = us_TokenVersion u + (if role_changed up stored then 1 else 0)"
  using assms DeriveState_not_deleted
  by (auto simp: adminAssignments_def Let_def columns_def assign_def split: if_splits option.splits)

lemma update_user_row_InrE:
  assumes "update_user_row flt l pg sets stored f db = Inr (x, db')"
  obtains u' where "retype pg sets (f stored) = Some u'" "\<not> user_conflict db u'"
    "sets \<longrightarrow> \<not> bound_as_mail db (us_LoginEmail u')"
    "db' = db\<lparr>db_users := update_where (live_account (us_ID stored)) (\<lambda>_. u') (db_users db)\<rparr>"
  using assms by (auto simp: update_user_row_def stmt_Inr_iff split: option.splits if_splits)

lemma retype_SomeD:
  assumes "retype pg sets u = Some u'"
  shows "us_ID u' = us_ID u" "us_DeletedAt u' = us_DeletedAt u" "us_State u' = us_State u" "us_Role u' = us_Role u"
    "us_LoginEmail u' = us_LoginEmail u" "us_TokenVersion u' = us_TokenVersion u"
    "if sets then us_EmailType u' \<in> {EmailTypeSAST, EmailTypeNJUpt} else u' = u"
  using assms by (auto simp: retype_def email_type_of_def split: if_splits)

lemma replace_row_inv:
  assumes inv: "account_inv db" and s: "stored \<in> set (db_users db)" "us_State stored \<noteq> UserStateDeleted"
    and u': "us_ID u' = us_ID stored" "row_ok u'" "\<not> user_conflict db u'" "\<not> bound_as_mail db (us_LoginEmail u')"
  shows "account_inv (db\<lparr>db_users := update_where (live_account (us_ID stored)) (\<lambda>_. u') (db_users db)\<rparr>)"
proof -
  have d: "distinct (map us_ID (db_users db))" "distinct (map us_StudentID (db_users db))"
    "distinct (map us_LoginEmail (db_users db))"
    and ok: "u \<in> set (db_users db) \<Longrightarrow> row_ok u \<and> \<not> bound_as_mail db (us_LoginEmail u)" for u
    using inv by (simp_all add: account_inv_def users_inv_def addresses_inv_def)
  have eq: "update_where (live_account (us_ID stored)) (\<lambda>_. u') (db_users db)
      = map (\<lambda>u. if us_ID u = us_ID stored then u' else u) (db_users db)"
    by (rule update_live_eq[OF d(1) s(1)]) (use s(2) in \<open>simp add: live_account_def\<close>)
  have other: "us_StudentID y \<noteq> us_StudentID u'" "us_LoginEmail y \<noteq> us_LoginEmail u'"
    if "y \<in> set (db_users db)" "us_ID y \<noteq> us_ID stored" for y
    using u'(1,3) that by (auto simp: user_conflict_def list_ex_iff)
  show ?thesis unfolding eq
    by (rule account_inv_map_users[OF inv _ distinct_map_replace[OF d(2,1) s(1)] distinct_map_replace[OF d(3,1) s(1)]])
      (use u' ok other in auto)
qed

lemma replace_row_admin:
  assumes "has_admin db" "distinct (map us_ID (db_users db))" "stored \<in> set (db_users db)" "us_State stored \<noteq> UserStateDeleted"
    and "active_admin stored \<Longrightarrow> active_admin u' \<or> (\<exists>v\<in>set (db_users db). active_admin v \<and> us_ID v \<noteq> us_ID stored)"
  shows "has_admin (db\<lparr>db_users := update_where (live_account (us_ID stored)) (\<lambda>_. u') (db_users db)\<rparr>)"
proof -
  obtain w where w: "w \<in> set (db_users db)" "active_admin w" using assms(1) by (auto simp: has_admin_def list_ex_iff)
  have eq: "update_where (live_account (us_ID stored)) (\<lambda>_. u') (db_users db)
      = map (\<lambda>u. if us_ID u = us_ID stored then u' else u) (db_users db)"
    by (rule update_live_eq[OF assms(2,3)]) (use assms(4) in \<open>simp add: live_account_def\<close>)
  have "us_ID w = us_ID stored \<Longrightarrow> w = stored" using distinct_map_inj[OF assms(2) w(1) assms(3)] .
  then show ?thesis using w assms(3,5) unfolding eq has_admin_def
    by (cases "us_ID w = us_ID stored") (auto simp: list_ex_iff)
qed

lemma ensureAnotherAdmin_InrD:
  assumes "ensureAnotherAdminRemains flt i db = Inr x" "v \<in> set (db_users db)" "active_admin v" "us_ID v = i"
  shows "\<exists>w\<in>set (db_users db). active_admin w \<and> us_ID w \<noteq> i"
  using assms by (auto simp: ensureAnotherAdminRemains_def stmt_Inr_iff list_ex_iff split: if_splits)

text \<open>The pieces of a committed administrative edit.\<close>

lemma updateAdminBody_InrE:
  assumes "updateAdminBody flt dx lx pg i up caller t db = Inr (res, db')"
  obtains stored f db1 db2 db3 where
    "stored \<in> set (db_users db)" "live_account i stored" "checkAdminTarget i up caller stored = Inr ()"
    "adminAssignments dx up stored t = Inr f"
    "demotes_admin up stored \<Longrightarrow> ensureAnotherAdminRemains flt i db = Inr ()"
    "no_columns up \<and> \<not> aup_StateAuto up \<and> db1 = db
      \<or> update_user_row flt ''update admin user fields'' pg (aup_LoginEmail up \<noteq> None) stored f db = Inr ((), db1)"
    "bindPersonalEmail flt i (aup_PersonalEmail up) db1 = Inr ((), db2)"
    "writeDepartment flt i (aup_Department up) db2 = Inr ((), db3)"
    "if role_changed up stored
     then \<exists>es. res = (es, True) \<and> revokeAllByUserInTransaction flt i t RevokeReasonAdminRoleChange db3 = Inr (es, db')
     else res = ([], False) \<and> db' = db3"
proof -
  obtain stored where l: "loadForUpdate flt i db = Inr stored"
    using assms by (auto simp: updateAdminBody_def bindE_eq_Inr_iff)
  then have "stored \<in> set (db_users db)" "live_account i stored"
    using find_SomeD[of "live_account i" "db_users db" stored]
    by (auto simp: loadForUpdate_def stmt_Inr_iff split: option.splits)
  with assms l show thesis unfolding updateAdminBody_def
    by (auto simp: bindE_eq_Inr_iff split: if_splits intro!: that)
qed

lemma user_exists_replace:
  assumes "stored \<in> set (db_users db)" "us_ID u' = us_ID stored" "us_State stored \<noteq> UserStateDeleted"
  shows "user_exists (db\<lparr>db_users := update_where (live_account (us_ID stored)) (\<lambda>_. u') (db_users db)\<rparr>) (us_ID stored)"
  using assms by (force simp: user_exists_def list_ex_iff set_update_where live_account_def)

lemma insert_identity_users: "insert_identity flt l i db = Inr (x, db') \<Longrightarrow> db_users db' = db_users db"
  by (auto simp: insert_identity_def stmt_Inr_iff Let_def split: if_splits)

lemma bindPersonalEmail_effect:
  assumes "bindPersonalEmail flt i e db = Inr (x, db')"
  shows "account_effect db db'" "db_users db' = db_users db"
  using assms
  by (auto simp: bindPersonalEmail_def stmt_Inr_iff bindE_eq_Inr_iff split: option.splits if_splits
      dest: insert_identity_effect insert_identity_users)

lemma writeDepartment_effect:
  "writeDepartment flt i d db = Inr (x, db') \<Longrightarrow> user_exists db i \<Longrightarrow> account_effect db db'"
  by (auto simp: writeDepartment_def split: option.splits intro: upsert_profile_effect)

lemma admin_update_row_effect:
  assumes s: "stored \<in> set (db_users db)" "live_account i stored"
    and a: "adminAssignments dx up stored t = Inr f" and v: "\<not> invalidAdminUpdate i up"
    and e: "demotes_admin up stored \<Longrightarrow> ensureAnotherAdminRemains flt i db = Inr ()"
    and u: "update_user_row flt l pg (aup_LoginEmail up \<noteq> None) stored f db = Inr (x, db1)"
  shows "account_effect db db1 \<and> user_exists db1 i"
proof -
  have i: "us_ID stored = i" and live: "us_State stored \<noteq> UserStateDeleted"
    using s(2) by (simp_all add: live_account_def)
  have st: "aup_State up \<noteq> Some UserStateDeleted" using v by (simp add: invalidAdminUpdate_def)
  note f = adminAssignments_InrD[OF a st live]
  obtain u' where r: "retype pg (aup_LoginEmail up \<noteq> None) (f stored) = Some u'" "\<not> user_conflict db u'"
    "aup_LoginEmail up \<noteq> None \<longrightarrow> \<not> bound_as_mail db (us_LoginEmail u')"
    and db1: "db1 = db\<lparr>db_users := update_where (live_account (us_ID stored)) (\<lambda>_. u') (db_users db)\<rparr>"
    using u by (rule update_user_row_InrE)
  note ty = retype_SomeD[OF r(1)]
  have id: "us_ID u' = us_ID stored" using ty(1) f(1) by simp
  have "account_inv db1 \<and> (has_admin db \<longrightarrow> has_admin db1)" if inv: "account_inv db"
  proof -
    have ok: "row_ok stored" "\<not> bound_as_mail db (us_LoginEmail stored)" "distinct (map us_ID (db_users db))"
      using inv s(1) by (simp_all add: account_inv_def users_inv_def addresses_inv_def)
    have "us_EmailType u' \<in> {EmailTypeSAST, EmailTypeNJUpt}"
    proof (cases "aup_LoginEmail up")
      case None
      then have "aup_EmailType up = None" using v by (auto simp: invalidAdminUpdate_def)
      then show ?thesis using None ty(7) f(6)[of stored] ok(1) by (simp add: row_ok_def)
    qed (use ty(7) in simp)
    then have "row_ok u'" using ty(2,3) f(2)[of stored] f(3) ok(1) live by (simp add: row_ok_def)
    moreover have "\<not> bound_as_mail db (us_LoginEmail u')"
      using r(3) ok(2) ty(5) f(5)[of stored] by (cases "aup_LoginEmail up") (auto simp: assign_def)
    ultimately have "account_inv db1" unfolding db1 by (rule replace_row_inv[OF inv s(1) live id _ r(2)])
    moreover have "has_admin db1" if "has_admin db"
      unfolding db1
    proof (rule replace_row_admin[OF that ok(3) s(1) live])
      assume adm: "active_admin stored"
      show "active_admin u' \<or> (\<exists>v\<in>set (db_users db). active_admin v \<and> us_ID v \<noteq> us_ID stored)"
      proof (cases "demotes_admin up stored")
        case True
        then show ?thesis using ensureAnotherAdmin_InrD[OF e[OF True] s(1) adm i] i by blast
      next
        case False
        then have "us_Role (f stored) = UserRoleAdmin"
          using adm f(4)[of stored] by (auto simp: demotes_admin_def active_admin_def assign_def split: option.splits)
        then show ?thesis using ty(3,4) f(3) by (simp add: active_admin_def)
      qed
    qed
    ultimately show ?thesis by blast
  qed
  moreover have "user_exists db1 i" unfolding db1 i[symmetric] by (rule user_exists_replace[OF s(1) id live])
  ultimately show ?thesis by (simp add: account_effect_def others_kept_def db1)
qed

lemma updateAdminBody_effect:
  assumes b: "updateAdminBody flt dx lx pg i up caller t db = Inr (res, db')" and v: "\<not> invalidAdminUpdate i up"
  obtains db3 where "account_effect db db3"
    "db' = db3 \<or> (\<exists>es. revokeAllByUserInTransaction flt i t RevokeReasonAdminRoleChange db3 = Inr (es, db'))"
  using b
proof (rule updateAdminBody_InrE)
  fix stored f db1 db2 db3
  assume s: "stored \<in> set (db_users db)" "live_account i stored" and a: "adminAssignments dx up stored t = Inr f"
    and e: "demotes_admin up stored \<Longrightarrow> ensureAnotherAdminRemains flt i db = Inr ()"
    and u: "no_columns up \<and> \<not> aup_StateAuto up \<and> db1 = db
      \<or> update_user_row flt ''update admin user fields'' pg (aup_LoginEmail up \<noteq> None) stored f db = Inr ((), db1)"
    and p: "bindPersonalEmail flt i (aup_PersonalEmail up) db1 = Inr ((), db2)"
    and w: "writeDepartment flt i (aup_Department up) db2 = Inr ((), db3)"
    and r: "if role_changed up stored
     then \<exists>es. res = (es, True) \<and> revokeAllByUserInTransaction flt i t RevokeReasonAdminRoleChange db3 = Inr (es, db')
     else res = ([], False) \<and> db' = db3"
  have "user_exists db i" using s by (auto simp: user_exists_def live_account_def list_ex_iff)
  then have 1: "account_effect db db1" "user_exists db1 i"
    using u admin_update_row_effect[OF s a v e] by auto
  have 2: "account_effect db1 db2" "user_exists db2 i"
    using bindPersonalEmail_effect[OF p] 1(2) by (simp_all add: user_exists_def)
  have "account_effect db db3"
    using account_effect_trans[OF account_effect_trans[OF 1(1) 2(1)] writeDepartment_effect[OF w 2(2)]] .
  then show thesis using that r by (auto split: if_splits)
qed

text \<open>Closing an account keeps the invariant, and an administrator as long as another one remains.\<close>

lemma close_account_effect:
  assumes "ensureAnotherAdminRemains flt i db = Inr x"
  shows "account_effect db (db\<lparr>db_users := update_where (live_account i) (close_row t) (db_users db)\<rparr>)"
proof -
  let ?db = "db\<lparr>db_users := update_where (live_account i) (close_row t) (db_users db)\<rparr>"
  have "account_inv ?db" if inv: "account_inv db"
    unfolding update_where_def by (rule account_inv_frame[OF inv]) (auto simp: frame_row_def close_row_def row_ok_def)
  moreover have "has_admin ?db" if ha: "has_admin db"
  proof -
    obtain w where w: "w \<in> set (db_users db)" "active_admin w" using ha by (auto simp: has_admin_def list_ex_iff)
    then obtain z where z: "z \<in> set (db_users db)" "active_admin z" "us_ID z \<noteq> i"
      using ensureAnotherAdmin_InrD[OF assms w] by (cases "us_ID w = i") auto
    then have "z \<in> set (db_users ?db)" by (simp add: set_update_where live_account_def)
    then show ?thesis using z(2) by (auto simp: has_admin_def list_ex_iff)
  qed
  ultimately show ?thesis by (simp add: account_effect_def others_kept_def)
qed

lemma softDeleteBody_InrE:
  assumes "softDeleteBody flt i caller t db = Inr (es, db')"
  obtains "ensureAnotherAdminRemains flt i db = Inr ()"
    "caller = UserRoleAdmin \<or> (\<exists>stored. List.find (live_account i) (db_users db) = Some stored \<and> us_Role stored \<noteq> UserRoleAdmin)"
    "0 < rows_affected (live_account i) (db_users db)"
    "revokeAllByUserInTransaction flt i t RevokeReasonAccountClosed
       (db\<lparr>db_users := update_where (live_account i) (close_row t) (db_users db)\<rparr>) = Inr (es, db')"
  using assms by (auto simp: softDeleteBody_def bindE_eq_Inr_iff stmt_Inr_iff split: if_splits option.splits)

lemma RestoreUser_effect: "account_effect db (snd (RestoreUser flt dx i caller now db))"
proof -
  have "account_effect db db'" if b: "restoreBody flt dx i caller now db = Inr (x, db')" for x db'
  proof -
    obtain stored where db': "db' = db\<lparr>db_users := update_where (closed_account i)
        (\<lambda>u. u\<lparr>us_State := reopen_state dx stored now, us_StateManual := False, us_DeletedAt := None\<rparr>) (db_users db)\<rparr>"
      using b by (auto simp: restoreBody_def stmt_Inr_iff split: option.splits if_splits)
    have "reopen_state dx stored now \<noteq> UserStateDeleted"
      using DeriveState_not_deleted by (auto simp: reopen_state_def state_defs split: option.splits)
    then show ?thesis unfolding db'
      by (intro update_users_effect) (auto simp: frame_row_def active_admin_def closed_account_def)
  qed
  then show ?thesis by (auto simp: RestoreUser_def intro: account_effect_transaction)
qed

end
