(* ===== verification/Admin_List.thy ===== *)
theory Admin_List
  imports Admin_Store
begin

text \<open>
  The console reads of \<open>internal/repository/admin_user.go\<close>: the filtered, paged user list with its
  keyword search, and the overview counts. The search is written as a union of index-friendly
  branches that are cut to the page before they are joined; the main property is that this
  equals the plain reading of the filter. The generated columns \<open>name_initials\<close> and
  \<open>profile_needs_completion\<close> are SQL code and enter as the parameters \<open>initials\<close> and
  \<open>needs_completion\<close>; \<open>letter_ext\<close> says which code points beyond ASCII are letters or digits.
\<close>

section \<open>Pattern matching\<close>

text \<open>\<open>LIKE ... ESCAPE '\'\<close>: a percent sign matches any text, an underscore one character, and a
  backslash takes the next byte literally.\<close>

function like :: "string \<Rightarrow> string \<Rightarrow> bool" where
  "like [] t \<longleftrightarrow> t = []"
| "like (p # ps) t \<longleftrightarrow>
    (if p = bslash then
       (case ps of [] \<Rightarrow> False
        | q # qs \<Rightarrow> (case t of [] \<Rightarrow> False | c # cs \<Rightarrow> c = q \<and> like qs cs))
     else if p = CHR ''%'' then like ps t \<or> (case t of [] \<Rightarrow> False | c # cs \<Rightarrow> like (p # ps) cs)
     else if p = CHR ''_'' then t \<noteq> [] \<and> like ps (drop (snd (decode_rune t)) t)
     else (case t of [] \<Rightarrow> False | c # cs \<Rightarrow> c = p \<and> like ps cs))"
  by pat_completeness auto
termination by (relation "measure (\<lambda>(p, t). length p + length t)") auto

definition ilike :: "(string \<Rightarrow> string) \<Rightarrow> string \<Rightarrow> string \<Rightarrow> bool" where
  "ilike pg_lower pattern text \<longleftrightarrow> like (pg_lower pattern) (pg_lower text)"

definition escapeLikePattern :: "string \<Rightarrow> string" where
  "escapeLikePattern keyword =
     ReplaceByte CHR ''_'' [bslash, CHR ''_'']
       (ReplaceByte CHR ''%'' [bslash, CHR ''%'']
         (ReplaceByte bslash [bslash, bslash] keyword))"

fun has_run :: "(rune \<Rightarrow> bool) \<Rightarrow> nat \<Rightarrow> rune list \<Rightarrow> bool" where
  "has_run word run [] = False"
| "has_run word run (r # rs) =
    (if word r then (if run + 1 = 3 then True else has_run word (run + 1) rs) else has_run word 0 rs)"

definition letter_or_digit :: "(rune \<Rightarrow> bool) \<Rightarrow> rune \<Rightarrow> bool" where
  "letter_or_digit letter_ext r \<longleftrightarrow>
    (if r < 0x80 then 0x30 \<le> r \<and> r \<le> 0x39 \<or> 0x41 \<le> r \<and> r \<le> 0x5A \<or> 0x61 \<le> r \<and> r \<le> 0x7A
     else letter_ext r)"

definition hasSearchTrigram :: "(rune \<Rightarrow> bool) \<Rightarrow> string \<Rightarrow> bool" where
  "hasSearchTrigram letter_ext keyword = has_run (letter_or_digit letter_ext) 0 (runes keyword)"

section \<open>The user list\<close>

definition MaxPageSize :: int where "MaxPageSize = 100"
definition MaxInt :: int where "MaxInt = 2 ^ 63 - 1"

record admin_user_filter =
  auf_Role :: "UserRole option"
  auf_State :: "UserState option"
  auf_Department :: "Department option"
  auf_StudentID :: string
  auf_Keyword :: string
  auf_IncludePhoneColumn :: bool
  auf_NeedsCompletion :: "bool option"
  auf_Limit :: int
  auf_Offset :: int

record admin_user_row =
  aur_ID :: int
  aur_Name :: string
  aur_StudentID :: string
  aur_LoginEmail :: string
  aur_Role :: UserRole
  aur_State :: UserState
  aur_EmailType :: EmailType
  aur_PhoneNumber :: string
  aur_QQNumber :: string
  aur_College :: string
  aur_Major :: string
  aur_Department :: "Department option"
  aur_ProfileNeedsCompletion :: bool
  aur_StateManual :: bool
  aur_DeletedAt :: "instant option"

definition profile_of :: "database \<Rightarrow> user \<Rightarrow> profile option" where
  "profile_of db u = List.find (\<lambda>p. pf_UserID p = us_ID u) (db_profiles db)"

definition department_of :: "database \<Rightarrow> user \<Rightarrow> Department option" where
  "department_of db u = (case profile_of db u of None \<Rightarrow> None | Some p \<Rightarrow> pf_Department p)"

definition adminUserQuery :: "(user \<Rightarrow> bool) \<Rightarrow> admin_user_filter \<Rightarrow> database \<Rightarrow> user \<Rightarrow> bool" where
  "adminUserQuery needs_completion fl db u \<longleftrightarrow>
     (case auf_Role fl of None \<Rightarrow> True | Some r \<Rightarrow> us_Role u = r)
     \<and> (case auf_State fl of None \<Rightarrow> True | Some s \<Rightarrow> us_State u = s)
     \<and> (case auf_Department fl of None \<Rightarrow> True | Some d \<Rightarrow> department_of db u = Some d)
     \<and> (auf_StudentID fl = [] \<or> us_StudentID u = auf_StudentID fl)
     \<and> (case auf_NeedsCompletion fl of None \<Rightarrow> True | Some b \<Rightarrow> needs_completion u = b)"

definition userSearchColumns :: "(string \<Rightarrow> string) \<Rightarrow> user \<Rightarrow> string option list" where
  "userSearchColumns initials u =
     [Some (decimal (us_ID u)), Some (us_Name u), Some (us_StudentID u), Some (us_LoginEmail u),
      Some (us_QQNumber u), Some (initials (us_Name u))]"

definition profileSearchColumns :: "database \<Rightarrow> user \<Rightarrow> string option list" where
  "profileSearchColumns db u =
    (case profile_of db u of
       None \<Rightarrow> [None, None, None]
     | Some p \<Rightarrow> [pf_Nickname p, pf_BlogURL p, pf_GitHubURL p])"

definition search_predicate :: "(string \<Rightarrow> string) \<Rightarrow> string \<Rightarrow> string option list \<Rightarrow> bool" where
  "search_predicate pg_lower pattern cols \<longleftrightarrow>
     list_ex (\<lambda>c. case c of None \<Rightarrow> False | Some s \<Rightarrow> ilike pg_lower pattern s) cols"

definition search_pattern :: "admin_user_filter \<Rightarrow> string" where
  "search_pattern fl = ''%'' @ escapeLikePattern (auf_Keyword fl) @ ''%''"

text \<open>One branch: the filter, the keyword on some columns but not on those of earlier branches, and
  the cut to the page.\<close>

definition search_branch ::
    "(string \<Rightarrow> string) \<Rightarrow> (user \<Rightarrow> bool) \<Rightarrow> admin_user_filter \<Rightarrow> bool \<Rightarrow> database
      \<Rightarrow> (user \<Rightarrow> string option list) \<Rightarrow> (user \<Rightarrow> string option list) \<Rightarrow> int list" where
  "search_branch pg_lower needs_completion fl page db cols exclude =
    (let hits = filter (\<lambda>u. adminUserQuery needs_completion fl db u
           \<and> (auf_Keyword fl = [] \<or> search_predicate pg_lower (search_pattern fl) (cols u)
               \<and> \<not> search_predicate pg_lower (search_pattern fl) (exclude u))) (db_users db);
         ids = map us_ID hits in
     if page then take (nat (auf_Offset fl + auf_Limit fl)) (sort ids) else ids)"

definition adminUserMatches ::
    "(string \<Rightarrow> string) \<Rightarrow> (rune \<Rightarrow> bool) \<Rightarrow> (string \<Rightarrow> string) \<Rightarrow> (user \<Rightarrow> bool) \<Rightarrow> admin_user_filter
      \<Rightarrow> bool \<Rightarrow> database \<Rightarrow> int list" where
  "adminUserMatches pg_lower letter_ext initials needs_completion fl page db =
    (let branch = search_branch pg_lower needs_completion fl page db;
         users = userSearchColumns initials;
         profiles = profileSearchColumns db;
         phone = (\<lambda>u. [Some (us_PhoneNumber u)]) in
     if \<not> hasSearchTrigram letter_ext (auf_Keyword fl)
     then branch (\<lambda>u. users u @ profiles u @ (if auf_IncludePhoneColumn fl then phone u else [])) (\<lambda>_. [])
     else branch users (\<lambda>_. []) @ branch profiles users
        @ (if auf_IncludePhoneColumn fl then branch phone (\<lambda>u. users u @ profiles u) else []))"

definition admin_row :: "(user \<Rightarrow> bool) \<Rightarrow> database \<Rightarrow> user \<Rightarrow> admin_user_row" where
  "admin_row needs_completion db u =
    \<lparr>aur_ID = us_ID u, aur_Name = us_Name u, aur_StudentID = us_StudentID u, aur_LoginEmail = us_LoginEmail u,
     aur_Role = us_Role u, aur_State = us_State u, aur_EmailType = us_EmailType u,
     aur_PhoneNumber = us_PhoneNumber u, aur_QQNumber = us_QQNumber u, aur_College = us_College u,
     aur_Major = us_Major u, aur_Department = department_of db u,
     aur_ProfileNeedsCompletion = needs_completion u, aur_StateManual = us_StateManual u,
     aur_DeletedAt = us_DeletedAt u\<rparr>"

definition ListAdminUsers ::
    "fault \<Rightarrow> (string \<Rightarrow> string) \<Rightarrow> (rune \<Rightarrow> bool) \<Rightarrow> (string \<Rightarrow> string) \<Rightarrow> (user \<Rightarrow> bool)
      \<Rightarrow> admin_user_filter \<Rightarrow> database \<Rightarrow> repo_error + (admin_user_row list \<times> int)" where
  "ListAdminUsers flt pg_lower letter_ext initials needs_completion fl db =
    (if auf_Limit fl \<le> 0 then Inl ErrInvalidArgument
     else if MaxPageSize < auf_Limit fl then Inl ErrInvalidArgument
     else if auf_Offset fl < 0 \<or> MaxInt - auf_Limit fl < auf_Offset fl then Inl ErrInvalidArgument
     else stmt flt ''count admin users''
      (let total = int (length (adminUserMatches pg_lower letter_ext initials needs_completion fl False db)) in
       if total = 0 then Inr ([], 0)
       else stmt flt ''list admin users''
        (let ids = adminUserMatches pg_lower letter_ext initials needs_completion fl True db;
             rows = take (nat (auf_Limit fl)) (drop (nat (auf_Offset fl))
               (sort_key us_ID (filter (\<lambda>u. us_ID u \<in> set ids) (db_users db)))) in
         Inr (map (admin_row needs_completion db) rows, total))))"

section \<open>Overview counts\<close>

record user_stats =
  st_Total :: int
  st_ByRole :: "UserRole \<rightharpoonup> int"
  st_ByState :: "UserState \<rightharpoonup> int"
  st_ByDepartment :: "Department \<rightharpoonup> int"
  st_NoDepartment :: int
  st_IncompleteByRole :: "UserRole \<rightharpoonup> int"
  st_IncompleteByState :: "UserState \<rightharpoonup> int"

record census_row =
  ce_Role :: UserRole
  ce_State :: UserState
  ce_Count :: int
  ce_Incomplete :: int
  ce_StateIncomplete :: int

definition count_where :: "('a \<Rightarrow> bool) \<Rightarrow> 'a list \<Rightarrow> int" where
  "count_where P xs = int (length (filter P xs))"

text \<open>\<open>GROUP BY role, state\<close>: one row per pair that occurs, in an unspecified order.\<close>

definition census :: "(user \<Rightarrow> bool) \<Rightarrow> database \<Rightarrow> census_row list" where
  "census needs_completion db =
     map (\<lambda>(r, s). let group = filter (\<lambda>u. us_Role u = r \<and> us_State u = s) (db_users db) in
       \<lparr>ce_Role = r, ce_State = s, ce_Count = int (length group),
        ce_Incomplete = count_where (\<lambda>u. needs_completion u \<and> us_Role u \<notin> {UserRoleLecturer, UserRoleAdmin}) group,
        ce_StateIncomplete = count_where needs_completion group\<rparr>)
     (remdups (map (\<lambda>u. (us_Role u, us_State u)) (db_users db)))"

definition add_to :: "('k \<rightharpoonup> int) \<Rightarrow> 'k \<Rightarrow> int \<Rightarrow> 'k \<rightharpoonup> int" where
  "add_to m k n = m(k \<mapsto> (case m k of None \<Rightarrow> 0 | Some x \<Rightarrow> x) + n)"

definition stats_step :: "census_row \<Rightarrow> user_stats \<Rightarrow> user_stats" where
  "stats_step row st =
    (let st1 = st\<lparr>st_ByState := add_to (st_ByState st) (ce_State row) (ce_Count row)\<rparr> in
     if ce_State row = UserStateDeleted then st1
     else (let
       st2 = st1\<lparr>st_Total := st_Total st1 + ce_Count row,
                 st_ByRole := add_to (st_ByRole st1) (ce_Role row) (ce_Count row)\<rparr>;
       st3 = (if 0 < ce_Incomplete row
              then st2\<lparr>st_IncompleteByRole := add_to (st_IncompleteByRole st2) (ce_Role row) (ce_Incomplete row)\<rparr>
              else st2) in
       if ce_State row = UserStateNJUPTer
       then st3\<lparr>st_IncompleteByState := add_to (st_IncompleteByState st3) (ce_State row) (ce_StateIncomplete row)\<rparr>
       else st3))"

definition liveUser :: "user \<Rightarrow> bool" where
  "liveUser u \<longleftrightarrow> us_State u \<noteq> UserStateDeleted"

text \<open>A \<open>NULL\<close> department scans as the empty string.\<close>

definition department_groups :: "database \<Rightarrow> (string \<times> int) list" where
  "department_groups db =
    (let live = filter liveUser (db_users db) in
     map (\<lambda>d. (case d of None \<Rightarrow> [] | Some n \<Rightarrow> n, count_where (\<lambda>u. department_of db u = d) live))
       (remdups (map (department_of db) live)))"

definition department_step :: "string \<times> int \<Rightarrow> user_stats \<Rightarrow> user_stats" where
  "department_step row st =
    (if fst row = [] then st\<lparr>st_NoDepartment := snd row\<rparr>
     else st\<lparr>st_ByDepartment := (st_ByDepartment st)(fst row \<mapsto> snd row)\<rparr>)"

definition empty_stats :: user_stats where
  "empty_stats = \<lparr>st_Total = 0, st_ByRole = Map.empty, st_ByState = Map.empty, st_ByDepartment = Map.empty,
     st_NoDepartment = 0, st_IncompleteByRole = Map.empty, st_IncompleteByState = Map.empty\<rparr>"

definition Stats :: "fault \<Rightarrow> (user \<Rightarrow> bool) \<Rightarrow> database \<Rightarrow> repo_error + user_stats" where
  "Stats flt needs_completion db =
    stmt flt ''count users by role and state''
     (let st = fold stats_step (census needs_completion db) empty_stats in
      stmt flt ''count users by department''
       (Inr (fold department_step (department_groups db) st)))"

section \<open>The search finds what it is asked for\<close>

definition esc :: "char \<Rightarrow> string" where
  "esc c = (if c \<in> {bslash, CHR ''%'', CHR ''_''} then [bslash, c] else [c])"

lemma escapeLikePattern_eq: "escapeLikePattern k = concat (map esc k)"
  by (induction k) (auto simp: escapeLikePattern_def ReplaceByte_def esc_def)

lemma like_literal: "like (concat (map esc k) @ ps) t \<longleftrightarrow> (\<exists>t'. t = k @ t' \<and> like ps t')"
  by (induction k arbitrary: t) (auto simp: esc_def split: list.splits)

lemma like_any: "like (CHR ''%'' # ps) t \<longleftrightarrow> (\<exists>a b. t = a @ b \<and> like ps b)"
proof (induction t)
  case (Cons c t)
  have "like (CHR ''%'' # ps) (c # t) \<longleftrightarrow> like ps (c # t) \<or> like (CHR ''%'' # ps) t" by simp
  also have "\<dots> \<longleftrightarrow> (\<exists>a b. c # t = a @ b \<and> like ps b)" using Cons.IH by (auto simp: Cons_eq_append_conv)
  finally show ?case .
qed simp

lemma Contains_iff: "Contains s k \<longleftrightarrow> (\<exists>a b. s = a @ k @ b)"
proof (induction s)
  case (Cons c s)
  then show ?case by (auto simp: HasPrefix_iff_prefix prefix_def Cons_eq_append_conv)
qed auto

lemma like_contains: "like (''%'' @ escapeLikePattern k @ ''%'') t \<longleftrightarrow> Contains t k"
proof -
  have "like (''%'' @ escapeLikePattern k @ ''%'') t \<longleftrightarrow> (\<exists>a b c. t = a @ k @ b @ c \<and> like [] c)"
    unfolding escapeLikePattern_eq by (simp add: like_any like_literal del: like.simps) blast
  then show ?thesis by (auto simp: Contains_iff)
qed

text \<open>What PostgreSQL's \<open>lower\<close> is relied on for: it maps letters only, so the pattern
  characters around and inside a keyword are the same after folding.\<close>

definition lower_keeps_pattern :: "(string \<Rightarrow> string) \<Rightarrow> bool" where
  "lower_keeps_pattern pg_lower \<longleftrightarrow>
     (\<forall>k. pg_lower (''%'' @ escapeLikePattern k @ ''%'') = ''%'' @ escapeLikePattern (pg_lower k) @ ''%'')"

definition keyword_in :: "(string \<Rightarrow> string) \<Rightarrow> string \<Rightarrow> string option list \<Rightarrow> bool" where
  "keyword_in pg_lower k cols \<longleftrightarrow> list_ex (\<lambda>c. case c of None \<Rightarrow> False | Some s \<Rightarrow> Contains (pg_lower s) (pg_lower k)) cols"

lemma search_predicate_iff:
  assumes "lower_keeps_pattern pg_lower"
  shows "search_predicate pg_lower (search_pattern fl) cols = keyword_in pg_lower (auf_Keyword fl) cols"
proof -
  have "ilike pg_lower (search_pattern fl) t = Contains (pg_lower t) (pg_lower (auf_Keyword fl))" for t
    using assms unfolding ilike_def search_pattern_def lower_keeps_pattern_def by (metis like_contains)
  then show ?thesis by (simp add: search_predicate_def keyword_in_def cong: option.case_cong)
qed

section \<open>Pages of a union\<close>

lemma in_take_filter:
  assumes "x \<in> set (take n (filter R xs))" "P x" "\<And>y. P y \<Longrightarrow> R y"
  shows "x \<in> set (take n (filter P xs))"
  using assms(1)
proof (induction xs arbitrary: n)
  case (Cons a xs)
  show ?case
  proof (cases "R a")
    case True
    then obtain m where n: "n = Suc m" using Cons.prems by (cases n) auto
    have "set (take m (filter P xs)) \<subseteq> set (take (Suc m) (filter P xs))" by (simp add: set_take_subset_set_take)
    then show ?thesis using Cons n True assms(2) by (cases "P a") auto
  next
    case False
    then have "\<not> P a" using assms(3) by blast
    then show ?thesis using Cons False by simp
  qed
qed simp

lemma take_filter_cong:
  assumes "\<And>x. x \<in> set (take n (filter R xs)) \<Longrightarrow> R' x" "\<And>x. x \<in> set xs \<Longrightarrow> R' x \<Longrightarrow> R x"
  shows "take n (filter R' xs) = take n (filter R xs)"
  using assms
proof (induction xs arbitrary: n)
  case (Cons x xs)
  show ?case
  proof (cases "R x")
    case True
    then show ?thesis
    proof (cases n)
      case (Suc m)
      have "R' x" using Cons.prems(1)[of x] True Suc by simp
      moreover have "take m (filter R' xs) = take m (filter R xs)"
      proof (rule Cons.IH)
        show "R' y" if "y \<in> set (take m (filter R xs))" for y using Cons.prems(1)[of y] that True Suc by simp
        show "R y" if "y \<in> set xs" "R' y" for y using Cons.prems(2)[of y] that by simp
      qed
      ultimately show ?thesis using True Suc by simp
    qed simp
  next
    case False
    then have "\<not> R' x" using Cons.prems(2)[of x] by auto
    moreover have "take n (filter R' xs) = take n (filter R xs)"
    proof (rule Cons.IH)
      show "R' y" if "y \<in> set (take n (filter R xs))" for y using Cons.prems(1)[of y] that False by simp
      show "R y" if "y \<in> set xs" "R' y" for y using Cons.prems(2)[of y] that by simp
    qed
    ultimately show ?thesis using False by simp
  qed
qed simp

text \<open>Cutting every branch to its first \<open>n\<close> rows does not change the first \<open>n\<close> rows of the union.\<close>

lemma take_filter_union:
  assumes "\<forall>x\<in>set xs. Q x \<longleftrightarrow> (\<exists>P\<in>set Ps. P x)"
  shows "take n (filter (\<lambda>x. \<exists>P\<in>set Ps. x \<in> set (take n (filter P xs))) xs) = take n (filter Q xs)"
proof -
  let ?R = "\<lambda>x. \<exists>P\<in>set Ps. P x"
  have "take n (filter (\<lambda>x. \<exists>P\<in>set Ps. x \<in> set (take n (filter P xs))) xs) = take n (filter ?R xs)"
  proof (rule take_filter_cong)
    fix x assume x: "x \<in> set (take n (filter ?R xs))"
    have "?R x" using in_set_takeD[OF x] by simp
    then obtain P where "P \<in> set Ps" "P x" by blast
    then show "\<exists>P\<in>set Ps. x \<in> set (take n (filter P xs))" using in_take_filter[OF x, of P] by blast
  next
    fix x assume "\<exists>P\<in>set Ps. x \<in> set (take n (filter P xs))"
    then obtain P where P: "P \<in> set Ps" "x \<in> set (take n (filter P xs))" by blast
    have "P x" using in_set_takeD[OF P(2)] by simp
    then show "?R x" using P(1) by blast
  qed
  also have "filter ?R xs = filter Q xs" by (rule filter_cong) (use assms in auto)
  finally show ?thesis .
qed

lemma map_sort_key: "map f (sort_key f xs) = sort (map f xs)"
proof -
  have "map f (insort_key f x ys) = insort (f x) (map f ys)" for x ys by (induction ys) auto
  then show ?thesis by (induction xs) auto
qed

lemma length_filter_disj:
  "length (filter P xs) + length (filter (\<lambda>x. Q x \<and> \<not> P x) xs) = length (filter (\<lambda>x. P x \<or> Q x) xs)"
  by (induction xs) auto

definition branch_hit :: "(user \<Rightarrow> bool) \<Rightarrow> (string option list \<Rightarrow> bool) \<Rightarrow> admin_user_filter
    \<Rightarrow> (user \<Rightarrow> string option list) \<Rightarrow> (user \<Rightarrow> string option list) \<Rightarrow> user \<Rightarrow> bool" where
  "branch_hit q match fl cols exclude u \<longleftrightarrow>
     q u \<and> (auf_Keyword fl = [] \<or> match (cols u) \<and> \<not> match (exclude u))"

lemma search_branch_rows:
  fixes needs :: "user \<Rightarrow> bool" and fl :: admin_user_filter and cols exclude :: "user \<Rightarrow> string option list"
  assumes "lower_keeps_pattern pg_lower" "distinct (map us_ID (db_users db))"
  defines "hit \<equiv> branch_hit (adminUserQuery needs fl db) (keyword_in pg_lower (auf_Keyword fl)) fl cols exclude"
  shows "search_branch pg_lower needs fl False db cols exclude = map us_ID (filter hit (db_users db))"
    "u \<in> set (db_users db) \<Longrightarrow> us_ID u \<in> set (search_branch pg_lower needs fl True db cols exclude) \<longleftrightarrow>
       u \<in> set (take (nat (auf_Offset fl + auf_Limit fl)) (filter hit (sort_key us_ID (db_users db))))"
proof -
  let ?n = "nat (auf_Offset fl + auf_Limit fl)" and ?S = "sort_key us_ID (db_users db)"
  have hits: "filter (\<lambda>u. adminUserQuery needs fl db u
           \<and> (auf_Keyword fl = [] \<or> search_predicate pg_lower (search_pattern fl) (cols u)
               \<and> \<not> search_predicate pg_lower (search_pattern fl) (exclude u))) (db_users db) = filter hit (db_users db)"
    by (rule filter_cong) (simp_all add: search_predicate_iff[OF assms(1)] hit_def branch_hit_def)
  show "search_branch pg_lower needs fl False db cols exclude = map us_ID (filter hit (db_users db))"
    unfolding search_branch_def Let_def hits by simp
  have "map us_ID (filter hit ?S) = sort (map us_ID (filter hit (db_users db)))"
    by (simp add: filter_sort map_sort_key)
  then have b: "search_branch pg_lower needs fl True db cols exclude = map us_ID (take ?n (filter hit ?S))"
    unfolding search_branch_def Let_def hits by (simp flip: take_map)
  show "us_ID u \<in> set (search_branch pg_lower needs fl True db cols exclude) \<longleftrightarrow> u \<in> set (take ?n (filter hit ?S))"
    if "u \<in> set (db_users db)"
    unfolding b using distinct_map_inj[OF assms(2) that] by (fastforce dest: in_set_takeD)
qed

text \<open>The plain reading of a filter: the columns a keyword is looked up in.\<close>

definition searched_columns ::
    "(string \<Rightarrow> string) \<Rightarrow> admin_user_filter \<Rightarrow> database \<Rightarrow> user \<Rightarrow> string option list" where
  "searched_columns initials fl db u =
     userSearchColumns initials u @ profileSearchColumns db u
     @ (if auf_IncludePhoneColumn fl then [Some (us_PhoneNumber u)] else [])"

definition admin_match ::
    "(string \<Rightarrow> string) \<Rightarrow> (string \<Rightarrow> string) \<Rightarrow> (user \<Rightarrow> bool) \<Rightarrow> admin_user_filter \<Rightarrow> database \<Rightarrow> user \<Rightarrow> bool" where
  "admin_match pg_lower initials needs_completion fl db u \<longleftrightarrow>
     adminUserQuery needs_completion fl db u
     \<and> (auf_Keyword fl = [] \<or> keyword_in pg_lower (auf_Keyword fl) (searched_columns initials fl db u))"

lemma keyword_in_append [simp]:
  "keyword_in pg k (xs @ ys) \<longleftrightarrow> keyword_in pg k xs \<or> keyword_in pg k ys" "\<not> keyword_in pg k []"
  by (auto simp: keyword_in_def)

lemma hasSearchTrigram_nonempty: "hasSearchTrigram lx k \<Longrightarrow> k \<noteq> []"
  by (auto simp: hasSearchTrigram_def)

text \<open>The branches of a search, as column selections.\<close>

definition search_branches ::
    "(string \<Rightarrow> string) \<Rightarrow> (rune \<Rightarrow> bool) \<Rightarrow> admin_user_filter \<Rightarrow> database
      \<Rightarrow> ((user \<Rightarrow> string option list) \<times> (user \<Rightarrow> string option list)) list" where
  "search_branches initials letter_ext fl db =
    (if \<not> hasSearchTrigram letter_ext (auf_Keyword fl) then [(searched_columns initials fl db, \<lambda>_. [])]
     else [(userSearchColumns initials, \<lambda>_. []), (profileSearchColumns db, userSearchColumns initials)]
       @ (if auf_IncludePhoneColumn fl
          then [(\<lambda>u. [Some (us_PhoneNumber u)], \<lambda>u. userSearchColumns initials u @ profileSearchColumns db u)]
          else []))"

lemma adminUserMatches_branches:
  "adminUserMatches pg lx initials needs fl page db
     = concat (map (\<lambda>(c, e). search_branch pg needs fl page db c e) (search_branches initials lx fl db))"
proof (cases "hasSearchTrigram lx (auf_Keyword fl)")
  case True
  then show ?thesis by (simp add: adminUserMatches_def search_branches_def Let_def)
next
  case False
  have "(\<lambda>u. userSearchColumns initials u @ profileSearchColumns db u
      @ (if auf_IncludePhoneColumn fl then [Some (us_PhoneNumber u)] else [])) = searched_columns initials fl db"
    by (simp add: searched_columns_def fun_eq_iff)
  then show ?thesis using False by (simp add: adminUserMatches_def search_branches_def Let_def)
qed

abbreviation branch_hits where
  "branch_hits pg needs fl db b \<equiv>
     branch_hit (adminUserQuery needs fl db) (keyword_in pg (auf_Keyword fl)) fl (fst b) (snd b)"

lemma admin_match_branches:
  "admin_match pg initials needs fl db u \<longleftrightarrow> (\<exists>b\<in>set (search_branches initials lx fl db). branch_hits pg needs fl db b u)"
  using hasSearchTrigram_nonempty[of lx "auf_Keyword fl"]
  by (auto simp: admin_match_def search_branches_def branch_hit_def searched_columns_def)

lemma admin_match_count:
  "length (filter (admin_match pg initials needs fl db) us)
     = sum_list (map (\<lambda>b. length (filter (branch_hits pg needs fl db b) us)) (search_branches initials lx fl db))"
proof (cases "hasSearchTrigram lx (auf_Keyword fl)")
  case False
  have "admin_match pg initials needs fl db = branch_hits pg needs fl db (searched_columns initials fl db, \<lambda>_. [])"
    by (simp add: fun_eq_iff admin_match_def branch_hit_def)
  then show ?thesis using False by (simp add: search_branches_def)
next
  case True
  let ?q = "adminUserQuery needs fl db" and ?k = "keyword_in pg (auf_Keyword fl)"
  let ?b = "\<lambda>c e. length (filter (branch_hit ?q ?k fl c e) us)"
  define U P T where upt: "U = (\<lambda>u. ?q u \<and> ?k (userSearchColumns initials u))"
    "P = (\<lambda>u. ?q u \<and> ?k (profileSearchColumns db u))" "T = (\<lambda>u. ?q u \<and> ?k [Some (us_PhoneNumber u)])"
  have ne: "auf_Keyword fl \<noteq> []" using hasSearchTrigram_nonempty[OF True] .
  have b: "?b (userSearchColumns initials) (\<lambda>_. []) = length (filter U us)"
    "?b (profileSearchColumns db) (userSearchColumns initials) = length (filter (\<lambda>u. P u \<and> \<not> U u) us)"
    "?b (\<lambda>u. [Some (us_PhoneNumber u)]) (\<lambda>u. userSearchColumns initials u @ profileSearchColumns db u)
      = length (filter (\<lambda>u. T u \<and> \<not> (U u \<or> P u)) us)"
    using ne by (intro arg_cong[where f = length] filter_cong; auto simp: branch_hit_def upt)+
  have m: "filter (admin_match pg initials needs fl db) us
      = filter (\<lambda>u. (U u \<or> P u) \<or> auf_IncludePhoneColumn fl \<and> T u) us"
    using ne by (intro filter_cong) (auto simp: admin_match_def searched_columns_def upt split: if_splits)
  show ?thesis
    using length_filter_disj[of U us P] length_filter_disj[of "\<lambda>u. U u \<or> P u" us T]
    by (cases "auf_IncludePhoneColumn fl") (simp_all add: search_branches_def True b m)
qed

text \<open>C32: a page of the user list holds the rows, in the order of their ids, that the filter selects and
  that contain the keyword in one of the searched columns, case-insensitively and with pattern
  characters taken literally; the total counts all of them. Cutting the index branches of the
  search to the page loses and repeats nothing.\<close>

theorem admin_list_page:
  assumes lower: "lower_keeps_pattern pg" and ids: "distinct (map us_ID (db_users db))"
    and bounds: "0 < auf_Limit fl" "auf_Limit fl \<le> MaxPageSize" "0 \<le> auf_Offset fl" "auf_Offset fl \<le> MaxInt - auf_Limit fl"
  shows "ListAdminUsers no_fault pg lx initials needs fl db =
    (let hits = sort_key us_ID (filter (admin_match pg initials needs fl db) (db_users db)) in
     Inr (map (admin_row needs db) (take (nat (auf_Limit fl)) (drop (nat (auf_Offset fl)) hits)), int (length hits)))"
proof -
  let ?o = "nat (auf_Offset fl)" and ?l = "nat (auf_Limit fl)" and ?S = "sort_key us_ID (db_users db)"
  let ?bs = "search_branches initials lx fl db" and ?m = "admin_match pg initials needs fl db"
  let ?page = "adminUserMatches pg lx initials needs fl True db"
  have n: "nat (auf_Offset fl + auf_Limit fl) = ?o + ?l" using bounds by (simp add: nat_add_distrib)
  have total: "length (adminUserMatches pg lx initials needs fl False db) = length (filter ?m (db_users db))"
    unfolding adminUserMatches_branches admin_match_count[of pg initials needs fl db _ lx]
    by (simp add: length_concat comp_def split_beta search_branch_rows(1)[OF lower ids])
  let ?Ps = "map (\<lambda>b. branch_hits pg needs fl db b) ?bs"
  have "us_ID u \<in> set ?page \<longleftrightarrow> (\<exists>P\<in>set ?Ps. u \<in> set (take (?o + ?l) (filter P ?S)))" if "u \<in> set ?S" for u
    using that unfolding adminUserMatches_branches
    by (simp add: split_beta search_branch_rows(2)[OF lower ids] n)
  then have "filter (\<lambda>u. us_ID u \<in> set ?page) ?S
      = filter (\<lambda>u. \<exists>P\<in>set ?Ps. u \<in> set (take (?o + ?l) (filter P ?S))) ?S" by (intro filter_cong) auto
  moreover have "take (?o + ?l) (filter (\<lambda>u. \<exists>P\<in>set ?Ps. u \<in> set (take (?o + ?l) (filter P ?S))) ?S)
      = take (?o + ?l) (filter ?m ?S)"
    by (rule take_filter_union) (simp add: admin_match_branches[of pg initials needs fl db _ lx])
  ultimately have rows: "take ?l (drop ?o (sort_key us_ID (filter (\<lambda>u. us_ID u \<in> set ?page) (db_users db))))
      = take ?l (drop ?o (sort_key us_ID (filter ?m (db_users db))))"
    by (simp add: take_drop filter_sort add.commute flip: filter_sort)
  show ?thesis using bounds total rows
    by (auto simp: ListAdminUsers_def Let_def filter_empty_conv)
qed

section \<open>The totals\<close>

lemma sum_single:
  assumes "distinct ks" "k \<in> set ks"
  shows "sum_list (map (\<lambda>x. if x = k then g x else (0::int)) ks) = g k"
proof -
  have "sum_list (map (\<lambda>x. if x = k then g x else 0) ks) = (\<Sum>x\<in>set ks. if x = k then g x else 0)"
    using assms(1) by (simp add: sum_list_distinct_conv_sum_set)
  also have "\<dots> = g k" using assms(2) by (simp add: sum.delta)
  finally show ?thesis .
qed

lemma group_count:
  assumes "distinct ks" "f ` set xs \<subseteq> set ks"
  shows "sum_list (map (\<lambda>k. if c k then int (length (filter (\<lambda>x. f x = k) xs)) else 0) ks)
    = int (length (filter (\<lambda>x. c (f x)) xs))"
  using assms(2)
proof (induction xs)
  case (Cons x xs)
  let ?g = "\<lambda>k. if c k then (1::int) else 0"
  have "(\<lambda>k. if c k then int (length (filter (\<lambda>y. f y = k) (x # xs))) else 0)
      = (\<lambda>k. (if k = f x then ?g k else 0) + (if c k then int (length (filter (\<lambda>y. f y = k) xs)) else 0))"
    by (auto simp: fun_eq_iff)
  then show ?case using Cons sum_single[OF assms(1), of "f x" ?g] by (simp add: sum_list_addf)
next
  case Nil
  have "(\<lambda>k. if c k then int (length (filter (\<lambda>x. f x = k) [])) else 0) = (\<lambda>_. 0)" by (simp add: fun_eq_iff)
  then show ?case by (simp only: sum_list_0) simp
qed

lemma st_Total_step:
  "st_Total (stats_step row st) = st_Total st + (if ce_State row = UserStateDeleted then 0 else ce_Count row)"
  by (simp add: stats_step_def Let_def)

lemma st_Total_fold:
  "st_Total (fold stats_step rows st)
     = st_Total st + sum_list (map (\<lambda>r. if ce_State r = UserStateDeleted then 0 else ce_Count r) rows)"
  by (induction rows arbitrary: st) (simp_all add: st_Total_step)

lemma st_Total_department_fold: "st_Total (fold department_step rows st) = st_Total st"
  by (induction rows arbitrary: st) (simp_all add: department_step_def)

text \<open>The total of the overview is the number of accounts that are not closed.\<close>

lemma Stats_Total:
  assumes "Stats flt needs db = Inr st"
  shows "st_Total st = int (length (filter liveUser (db_users db)))"
proof -
  let ?key = "\<lambda>u. (us_Role u, us_State u)"
  have "st_Total st = sum_list (map (\<lambda>r. if ce_State r = UserStateDeleted then 0 else ce_Count r) (census needs db))"
    using assms by (auto simp: Stats_def stmt_Inr_iff Let_def st_Total_fold st_Total_department_fold empty_stats_def)
  also have "\<dots> = sum_list (map (\<lambda>k. if snd k \<noteq> UserStateDeleted then int (length (filter (\<lambda>u. ?key u = k) (db_users db))) else 0)
      (remdups (map ?key (db_users db))))"
    by (auto simp: census_def comp_def Let_def split_beta prod_eq_iff intro!: arg_cong[where f = sum_list] map_cong filter_cong arg_cong[where f = length])
  also have "\<dots> = int (length (filter liveUser (db_users db)))"
    by (subst group_count) (auto simp: liveUser_def[abs_def])
  finally show ?thesis .
qed

end
