(* ===== verification/Alumni_Store.thy ===== *)
theory Alumni_Store
  imports Account_Invariant Admin_List
begin

text \<open>
  \<open>internal/repository/alumni_request.go\<close>: the account-request tickets of alumni. A reviewer's verdict
  is written under the row lock of the ticket, together with the account it opens or the binding it
  restores. PostgreSQL's \<open>lower\<close> is the parameter \<open>pg_lower\<close>, as in the account store.
\<close>

section \<open>Operations\<close>

definition pendingStudentConstraint :: string where
  "pendingStudentConstraint = ''uq_alumni_requests_pending_student''"

text \<open>Columns left at their zero value take the defaults of the table.\<close>

definition ticket_row :: "int \<Rightarrow> instant \<Rightarrow> alumni_request \<Rightarrow> alumni_request" where
  "ticket_row i now a = a\<lparr>al_ID := i, al_College := or_default CollegeOther (al_College a),
     al_Intent := or_default AlumniRequestIntentProvision (al_Intent a),
     al_Status := or_default AlumniRequestStatusPending (al_Status a),
     al_CreatedAt := (if IsZero (al_CreatedAt a) then now else al_CreatedAt a)\<rparr>"

definition pending_student :: "(string \<Rightarrow> string) \<Rightarrow> database \<Rightarrow> string \<Rightarrow> bool" where
  "pending_student pg_lower db sid \<longleftrightarrow> list_ex (\<lambda>x. al_Status x = AlumniRequestStatusPending
     \<and> folded pg_lower (al_StudentID x) = folded pg_lower sid) (db_alumni db)"

definition CreateAlumniRequest ::
    "fault \<Rightarrow> (string \<Rightarrow> string) \<Rightarrow> instant \<Rightarrow> alumni_request option \<Rightarrow> database \<Rightarrow> (repo_error + alumni_request) \<times> database" where
  "CreateAlumniRequest flt pg_lower now request db =
    (case request of
       None \<Rightarrow> (Inl ErrInvalidArgument, db)
     | Some a \<Rightarrow>
         if flt ''create alumni request'' then (Inl (DbError ''create alumni request''), db)
         else (let a' = ticket_row (db_seq db + 1) now a in
           if \<not> AlumniRequestStatusValid (al_Status a') then (Inl (DbError ''create alumni request''), db)
           else if al_Status a' = AlumniRequestStatusPending \<and> pending_student pg_lower db (al_StudentID a)
           then (Inl (UniqueViolation pendingStudentConstraint), db)
           else (Inr a', db\<lparr>db_alumni := db_alumni db @ [a'], db_seq := db_seq db + 1\<rparr>)))"

definition find_ticket :: "database \<Rightarrow> int \<Rightarrow> alumni_request option" where
  "find_ticket db i = List.find (\<lambda>a. al_ID a = i) (db_alumni db)"

definition GetAlumniRequest :: "fault \<Rightarrow> database \<Rightarrow> int \<Rightarrow> repo_error + alumni_request" where
  "GetAlumniRequest flt db requestID =
    (if requestID \<le> 0 then Inl ErrInvalidArgument
     else stmt flt ''get alumni request''
       (case find_ticket db requestID of None \<Rightarrow> Inl ErrNotFound | Some a \<Rightarrow> Inr a))"

record alumni_request_filter =
  arf_Status :: "AlumniRequestStatus option"
  arf_Notified :: "bool option"
  arf_Keyword :: string
  arf_Limit :: int
  arf_Offset :: int

definition listQuery :: "(string \<Rightarrow> string) \<Rightarrow> alumni_request_filter \<Rightarrow> alumni_request \<Rightarrow> bool" where
  "listQuery pg_lower fl a \<longleftrightarrow>
     (case arf_Status fl of None \<Rightarrow> True | Some s \<Rightarrow> al_Status a = s)
     \<and> (case arf_Notified fl of None \<Rightarrow> True | Some b \<Rightarrow> b = (al_NotifiedAt a \<noteq> None))
     \<and> (let keyword = TrimSpace (arf_Keyword fl); pattern = ''%'' @ escapeLikePattern keyword @ ''%'' in
        keyword \<noteq> [] \<longrightarrow> list_ex (ilike pg_lower pattern) [al_Name a, al_StudentID a, al_LoginEmail a, al_PersonalEmail a])"

definition ListAlumniRequests ::
    "fault \<Rightarrow> (string \<Rightarrow> string) \<Rightarrow> alumni_request_filter \<Rightarrow> database \<Rightarrow> repo_error + (alumni_request list \<times> nat)" where
  "ListAlumniRequests flt pg_lower fl db =
    (if arf_Limit fl \<le> 0 then Inl ErrInvalidArgument
     else if MaxPageSize < arf_Limit fl then Inl ErrInvalidArgument
     else if arf_Offset fl < 0 then Inl ErrInvalidArgument
     else let hits = filter (listQuery pg_lower fl) (db_alumni db) in
       stmt flt ''count alumni requests''
        (if length hits = 0 then Inr ([], 0)
         else stmt flt ''list alumni requests''
          (Inr (take (nat (arf_Limit fl)) (drop (nat (arf_Offset fl)) (sort_key (\<lambda>a. - al_ID a) hits)), length hits))))"

definition EmailHasPendingTicket :: "fault \<Rightarrow> database \<Rightarrow> string \<Rightarrow> repo_error + bool" where
  "EmailHasPendingTicket flt db email =
    (if email = [] then Inr False
     else stmt flt ''check pending ticket email''
       (Inr (list_ex (\<lambda>a. al_Status a = AlumniRequestStatusPending
          \<and> (al_PersonalEmail a = email \<or> al_LoginEmail a = email)) (db_alumni db))))"

definition lockPendingRequest :: "fault \<Rightarrow> database \<Rightarrow> int \<Rightarrow> repo_error + alumni_request" where
  "lockPendingRequest flt db requestID =
     stmt flt ''lock alumni request''
      (case find_ticket db requestID of
         None \<Rightarrow> Inl ErrNotFound
       | Some a \<Rightarrow> if al_Status a \<noteq> AlumniRequestStatusPending then Inl ErrStateConflict else Inr a)"

definition update_ticket :: "int \<Rightarrow> (alumni_request \<Rightarrow> alumni_request) \<Rightarrow> database \<Rightarrow> database" where
  "update_ticket i f db = db\<lparr>db_alumni := update_where (\<lambda>a. al_ID a = i) f (db_alumni db)\<rparr>"

definition approve_row :: "int \<Rightarrow> int \<Rightarrow> instant \<Rightarrow> alumni_request \<Rightarrow> alumni_request" where
  "approve_row affected reviewer now a = a\<lparr>al_Status := AlumniRequestStatusApproved, al_CreatedUserID := Some affected,
     al_ReviewedBy := Some reviewer, al_ReviewedAt := Some now\<rparr>"

definition writeApprovalVerdict :: "fault \<Rightarrow> int \<Rightarrow> int \<Rightarrow> int \<Rightarrow> instant \<Rightarrow> unit tx" where
  "writeApprovalVerdict flt requestID affectedUserID reviewerID now db =
    stmt flt ''approve alumni request''
     (if \<not> user_exists db reviewerID then Inl (DbError ''approve alumni request'')
      else if rows_affected (\<lambda>a. al_ID a = requestID) (db_alumni db) \<noteq> 1 then Inl ErrNotFound
      else Inr ((), update_ticket requestID (approve_row affectedUserID reviewerID now) db))"

definition reread_ticket :: "fault \<Rightarrow> int \<Rightarrow> alumni_request tx" where
  "reread_ticket flt requestID db =
     stmt flt ''read alumni request''
      (case find_ticket db requestID of None \<Rightarrow> Inl ErrNotFound | Some a \<Rightarrow> Inr (a, db))"

text \<open>The callback builds the rows of the account from the locked ticket.\<close>

type_synonym alumni_provision = "alumni_request \<Rightarrow> repo_error + (user option \<times> profile option \<times> identity option)"

definition approveBody ::
    "fault \<Rightarrow> (rune \<Rightarrow> rune) \<Rightarrow> (string \<Rightarrow> string) \<Rightarrow> int \<Rightarrow> int \<Rightarrow> instant \<Rightarrow> alumni_provision \<Rightarrow> (alumni_request \<times> user) tx" where
  "approveBody flt lower_ext pg_lower requestID reviewerID now provision db =
    lockIdentityAssignment flt
     (bindE (lockPendingRequest flt db requestID) (\<lambda>request.
        if al_Intent request \<noteq> AlumniRequestIntentProvision then Inl ErrInvalidArgument
        else stmt flt ''check folded student id conflict''
         (if list_ex (\<lambda>u. folded pg_lower (us_StudentID u) = folded pg_lower (al_StudentID request)) (db_users db)
          then Inl ErrStudentIDExists
          else bindE (provision request) (\<lambda>(user, profile, identity).
            (case (user, profile) of
               (Some u, Some p) \<Rightarrow>
                 bindE (createAdminUserInTransaction flt lower_ext pg_lower u p identity db) (\<lambda>(u', db1).
                 bindE (writeApprovalVerdict flt requestID (us_ID u') reviewerID now db1) (\<lambda>(_, db2).
                 bindE (reread_ticket flt requestID db2) (\<lambda>(a, db3). Inr ((a, u'), db3))))
             | _ \<Rightarrow> Inl ErrInvalidArgument)))))"

definition ApproveAlumniRequest ::
    "fault \<Rightarrow> (rune \<Rightarrow> rune) \<Rightarrow> (string \<Rightarrow> string) \<Rightarrow> int \<Rightarrow> int \<Rightarrow> instant \<Rightarrow> alumni_provision option \<Rightarrow> database
      \<Rightarrow> (repo_error + alumni_request \<times> user) \<times> database" where
  "ApproveAlumniRequest flt lower_ext pg_lower requestID reviewerID now provision db =
    (if requestID \<le> 0 \<or> reviewerID \<le> 0 then (Inl ErrInvalidArgument, db)
     else (case provision of
       None \<Rightarrow> (Inl ErrInvalidArgument, db)
     | Some f \<Rightarrow> transaction flt (approveBody flt lower_ext pg_lower requestID reviewerID now f) db))"

definition recovery_identity :: "int \<Rightarrow> string \<Rightarrow> identity" where
  "recovery_identity userID address = \<lparr>id_ID = 0, id_UserID = userID, id_Provider = LoginMethodOtherMail,
     id_ProviderID = address, id_IdentityData = None, id_AccessToken = None, id_RefreshToken = None,
     id_TokenExpiresAt = None\<rparr>"

definition recoverBody :: "fault \<Rightarrow> (string \<Rightarrow> string) \<Rightarrow> int \<Rightarrow> int \<Rightarrow> instant \<Rightarrow> alumni_request tx" where
  "recoverBody flt pg_lower requestID reviewerID now db =
    lockIdentityAssignment flt
     (bindE (lockPendingRequest flt db requestID) (\<lambda>request.
        if al_Intent request \<noteq> AlumniRequestIntentRecover then Inl ErrInvalidArgument
        else let owners = filter (\<lambda>u. folded pg_lower (us_StudentID u) = folded pg_lower (al_StudentID request)) (db_users db) in
        stmt flt ''count recovery owners''
         (if 1 < length owners then Inl ErrStudentIDExists
          else stmt flt ''lock recovery target''
           (case owners of
              [] \<Rightarrow> Inl ErrRecoverTargetMissing
            | target # _ \<Rightarrow>
                if us_State target = UserStateDeleted then Inl ErrAccountClosed
                else if us_LoginEmail target \<noteq> al_LoginEmail request then Inl ErrLoginEmailMismatch
                else stmt flt ''count bound other_mail identities''
                 (if maxOtherMailBindings \<le> identity_count db (us_ID target) LoginMethodOtherMail
                  then Inl ErrIdentityLimitExceeded
                  else bindE (insert_identity flt ''bind recovery personal email''
                         (recovery_identity (us_ID target) (al_PersonalEmail request)) db) (\<lambda>(_, db1).
                       bindE (writeApprovalVerdict flt requestID (us_ID target) reviewerID now db1) (\<lambda>(_, db2).
                         reread_ticket flt requestID db2)))))))"

definition ApproveAlumniRequestRecover ::
    "fault \<Rightarrow> (string \<Rightarrow> string) \<Rightarrow> int \<Rightarrow> int \<Rightarrow> instant \<Rightarrow> database \<Rightarrow> (repo_error + alumni_request) \<times> database" where
  "ApproveAlumniRequestRecover flt pg_lower requestID reviewerID now db =
    (if requestID \<le> 0 \<or> reviewerID \<le> 0 then (Inl ErrInvalidArgument, db)
     else transaction flt (recoverBody flt pg_lower requestID reviewerID now) db)"

definition reject_row :: "int \<Rightarrow> string \<Rightarrow> bool \<Rightarrow> instant \<Rightarrow> alumni_request \<Rightarrow> alumni_request" where
  "reject_row reviewer reason silent now a =
    (let r = a\<lparr>al_Status := AlumniRequestStatusRejected, al_RejectReason := reason, al_ReviewedBy := Some reviewer,
           al_ReviewedAt := Some now\<rparr> in
     if silent then r\<lparr>al_NotifiedAt := Some now, al_SilentlyRejected := True\<rparr> else r)"

definition rejectBody :: "fault \<Rightarrow> int \<Rightarrow> int \<Rightarrow> string \<Rightarrow> bool \<Rightarrow> instant \<Rightarrow> alumni_request tx" where
  "rejectBody flt requestID reviewerID reason silent now db =
    bindE (lockPendingRequest flt db requestID) (\<lambda>_.
      stmt flt ''reject alumni request''
       (if \<not> user_exists db reviewerID then Inl (DbError ''reject alumni request'')
        else if rows_affected (\<lambda>a. al_ID a = requestID) (db_alumni db) \<noteq> 1 then Inl ErrNotFound
        else reread_ticket flt requestID (update_ticket requestID (reject_row reviewerID reason silent now) db)))"

definition RejectAlumniRequest ::
    "fault \<Rightarrow> int \<Rightarrow> int \<Rightarrow> string \<Rightarrow> bool \<Rightarrow> instant \<Rightarrow> database \<Rightarrow> (repo_error + alumni_request) \<times> database" where
  "RejectAlumniRequest flt requestID reviewerID reason silent now db =
    (if requestID \<le> 0 \<or> reviewerID \<le> 0 then (Inl ErrInvalidArgument, db)
     else transaction flt (rejectBody flt requestID reviewerID reason silent now) db)"

text \<open>Oldest review first, a missing review time last; rows reviewed at the same instant come in an
  unspecified order, here that of the table.\<close>

definition by_review_time :: "alumni_request list \<Rightarrow> alumni_request list" where
  "by_review_time rows =
     sort_key (\<lambda>a. the (al_ReviewedAt a)) (filter (\<lambda>a. al_ReviewedAt a \<noteq> None) rows)
       @ filter (\<lambda>a. al_ReviewedAt a = None) rows"

definition ListUnnotifiedReviewed :: "fault \<Rightarrow> int \<Rightarrow> int list \<Rightarrow> database \<Rightarrow> repo_error + alumni_request list" where
  "ListUnnotifiedReviewed flt limit excludeIDs db =
    (if limit \<le> 0 then Inl ErrInvalidArgument
     else stmt flt ''list unnotified reviewed alumni requests''
       (Inr (take (nat limit) (by_review_time
          (filter (\<lambda>a. al_Status a \<noteq> AlumniRequestStatusPending \<and> al_NotifiedAt a = None \<and> al_NotifyAttempts a = 0
             \<and> al_ID a \<notin> set excludeIDs) (db_alumni db))))))"

definition MarkNotifyAttempt :: "fault \<Rightarrow> int \<Rightarrow> database \<Rightarrow> (repo_error + unit) \<times> database" where
  "MarkNotifyAttempt flt requestID db =
    (if requestID \<le> 0 then (Inl ErrInvalidArgument, db)
     else if flt ''mark alumni request notify attempt'' then (Inl (DbError ''mark alumni request notify attempt''), db)
     else (Inr (), update_ticket requestID (\<lambda>a. a\<lparr>al_NotifyAttempts := al_NotifyAttempts a + 1\<rparr>) db))"

definition MarkNotified :: "fault \<Rightarrow> int \<Rightarrow> instant \<Rightarrow> database \<Rightarrow> (repo_error + unit) \<times> database" where
  "MarkNotified flt requestID now db =
    (if requestID \<le> 0 then (Inl ErrInvalidArgument, db)
     else if flt ''mark alumni request notified'' then (Inl (DbError ''mark alumni request notified''), db)
     else (Inr (), update_ticket requestID (\<lambda>a. a\<lparr>al_NotifiedAt := Some now\<rparr>) db))"

section \<open>What a ticket operation does\<close>

text \<open>It touches the ticket table only, and never the verdict of a reviewed ticket.\<close>

definition ticket_effect :: "database \<Rightarrow> database \<Rightarrow> bool" where
  "ticket_effect db db' \<longleftrightarrow> db' = db\<lparr>db_alumni := db_alumni db', db_seq := db_seq db'\<rparr> \<and> db_seq db \<le> db_seq db' \<and>
     (\<forall>a'\<in>set (db_alumni db'). db_seq db < al_ID a' \<or>
        (\<exists>a\<in>set (db_alumni db). al_ID a = al_ID a' \<and> (al_Status a \<noteq> AlumniRequestStatusPending \<longrightarrow> al_Status a' = al_Status a)))"

lemma ticket_effect_refl [simp]: "ticket_effect db db"
  by (auto simp: ticket_effect_def)

lemma ticket_effectI:
  assumes "\<And>a'. a' \<in> set rows \<Longrightarrow> \<exists>a\<in>set (db_alumni db). al_ID a = al_ID a' \<and>
      (al_Status a \<noteq> AlumniRequestStatusPending \<longrightarrow> al_Status a' = al_Status a)"
  shows "ticket_effect db (db\<lparr>db_alumni := rows\<rparr>)"
  using assms by (auto simp: ticket_effect_def)

lemma update_ticket_effect:
  assumes "\<And>a. a \<in> set (db_alumni db) \<Longrightarrow> al_ID a = i \<Longrightarrow>
      al_ID (f a) = al_ID a \<and> (al_Status a \<noteq> AlumniRequestStatusPending \<longrightarrow> al_Status (f a) = al_Status a)"
  shows "ticket_effect db (update_ticket i f db)"
  unfolding update_ticket_def using assms
  by (intro ticket_effectI) (fastforce elim!: in_update_whereE split: if_splits)

lemma find_ticket_SomeD: "find_ticket db i = Some a \<Longrightarrow> a \<in> set (db_alumni db) \<and> al_ID a = i"
  by (auto simp: find_ticket_def dest: find_SomeD)

lemma lockPending_InrD:
  "lockPendingRequest flt db i = Inr a \<Longrightarrow> a \<in> set (db_alumni db) \<and> al_ID a = i \<and> al_Status a = AlumniRequestStatusPending"
  by (auto simp: lockPendingRequest_def stmt_Inr_iff split: option.splits if_splits dest: find_ticket_SomeD)

text \<open>The verdict writer found exactly one row, so the locked ticket is the only one it changes.\<close>

lemma sole_ticket:
  assumes "rows_affected (\<lambda>a. al_ID a = i) (db_alumni db) = 1" "t \<in> set (db_alumni db)" "al_ID t = i"
    "x \<in> set (db_alumni db)" "al_ID x = i"
  shows "x = t"
proof -
  from assms(1) obtain y where y: "filter (\<lambda>a. al_ID a = i) (db_alumni db) = [y]"
    by (auto simp: rows_affected_def length_Suc_conv)
  have "t \<in> set (filter (\<lambda>a. al_ID a = i) (db_alumni db))" "x \<in> set (filter (\<lambda>a. al_ID a = i) (db_alumni db))"
    using assms by auto
  then show ?thesis unfolding y by simp
qed

lemma verdict_effect:
  assumes "rows_affected (\<lambda>a. al_ID a = i) (db_alumni db) = 1"
    "t \<in> set (db_alumni db)" "al_ID t = i" "al_Status t = AlumniRequestStatusPending" "\<And>a. al_ID (f a) = al_ID a"
  shows "ticket_effect db (update_ticket i f db)"
  using sole_ticket[OF assms(1-3)] assms(4,5) by (intro update_ticket_effect) auto

lemma reread_InrD: "reread_ticket flt i db = Inr (a, db') \<Longrightarrow> db' = db \<and> find_ticket db i = Some a"
  by (auto simp: reread_ticket_def stmt_Inr_iff split: option.splits)

lemma writeApproval_InrD:
  assumes "writeApprovalVerdict flt i u r now db = Inr (x, db')" "t \<in> set (db_alumni db)" "al_ID t = i"
    "al_Status t = AlumniRequestStatusPending"
  shows "ticket_effect db db'" "db' = update_ticket i (approve_row u r now) db" "user_exists db r"
  using assms verdict_effect[OF _ assms(2-4), of "approve_row u r now"]
  by (auto simp: writeApprovalVerdict_def stmt_Inr_iff approve_row_def split: if_splits)

lemma approveBody_InrE:
  assumes "approveBody flt lx pg i r now f db = Inr ((a, u'), db')"
  obtains request u p bind db1 where "request \<in> set (db_alumni db)" "al_ID request = i"
    "al_Status request = AlumniRequestStatusPending" "f request = Inr (Some u, Some p, bind)"
    "createAdminUserInTransaction flt lx pg u p bind db = Inr (u', db1)"
    "writeApprovalVerdict flt i (us_ID u') r now db1 = Inr ((), db')" "find_ticket db' i = Some a"
proof -
  from assms obtain request where lock: "lockPendingRequest flt db i = Inr request"
    by (auto simp: approveBody_def lockIdentityAssignment_def stmt_Inr_iff bindE_eq_Inr_iff)
  obtain user prof bind where f: "f request = Inr (user, prof, bind)"
    using assms lock by (auto simp: approveBody_def lockIdentityAssignment_def stmt_Inr_iff bindE_eq_Inr_iff split: if_splits)
  then obtain u p where "user = Some u" "prof = Some p"
    using assms lock
    by (cases user; cases prof) (auto simp: approveBody_def lockIdentityAssignment_def stmt_Inr_iff bindE_eq_Inr_iff split: if_splits)
  then show thesis
    using assms lock lockPending_InrD[OF lock] f
    by (auto simp: approveBody_def lockIdentityAssignment_def stmt_Inr_iff bindE_eq_Inr_iff
        split: if_splits dest!: reread_InrD intro!: that[of request])
qed

lemma recoverBody_InrE:
  assumes "recoverBody flt pg i r now db = Inr (a, db')"
  obtains request target x db1 where "request \<in> set (db_alumni db)" "al_ID request = i"
    "al_Status request = AlumniRequestStatusPending"
    "filter (\<lambda>u. folded pg (us_StudentID u) = folded pg (al_StudentID request)) (db_users db) = [target]"
    "us_State target \<noteq> UserStateDeleted" "us_LoginEmail target = al_LoginEmail request"
    "insert_identity flt ''bind recovery personal email'' (recovery_identity (us_ID target) (al_PersonalEmail request)) db = Inr (x, db1)"
    "writeApprovalVerdict flt i (us_ID target) r now db1 = Inr ((), db')" "find_ticket db' i = Some a"
proof -
  from assms obtain request where lock: "lockPendingRequest flt db i = Inr request"
    by (auto simp: recoverBody_def lockIdentityAssignment_def stmt_Inr_iff bindE_eq_Inr_iff)
  let ?owners = "filter (\<lambda>u. folded pg (us_StudentID u) = folded pg (al_StudentID request)) (db_users db)"
  obtain target rest where owners: "?owners = target # rest" "\<not> 1 < length ?owners"
    using assms lock by (auto simp: recoverBody_def lockIdentityAssignment_def stmt_Inr_iff Let_def split: if_splits list.splits)
  then have "?owners = [target]" by (cases rest) auto
  then show thesis
    using assms lock lockPending_InrD[OF lock]
    by (auto simp: recoverBody_def lockIdentityAssignment_def stmt_Inr_iff bindE_eq_Inr_iff
        split: if_splits dest!: reread_InrD intro!: that[of request])
qed

definition provision_fresh :: "alumni_provision option \<Rightarrow> bool" where
  "provision_fresh f \<longleftrightarrow> (\<forall>g a u p i. f = Some g \<longrightarrow> g a = Inr (Some u, p, i) \<longrightarrow> fresh_account u)"

lemma approve_effects:
  assumes "approveBody flt lx pg i r now f db = Inr (x, db')" "provision_fresh (Some f)"
  shows "\<exists>db1. account_effect db db1 \<and> ticket_effect db1 db'"
proof -
  obtain a u' where x: "x = (a, u')" by (cases x)
  from assms(1)[unfolded x] show ?thesis
  proof (rule approveBody_InrE)
    fix request u p bind db1
    assume t: "request \<in> set (db_alumni db)" "al_ID request = i" "al_Status request = AlumniRequestStatusPending"
      and f: "f request = Inr (Some u, Some p, bind)"
      and c: "createAdminUserInTransaction flt lx pg u p bind db = Inr (u', db1)"
      and v: "writeApprovalVerdict flt i (us_ID u') r now db1 = Inr ((), db')"
    have e: "account_effect db db1" using createAdminUser_effect[OF c] f assms(2) by (auto simp: provision_fresh_def)
    then have "db_alumni db1 = db_alumni db" by (simp add: account_effect_def others_kept_def)
    then show ?thesis using e writeApproval_InrD(1)[OF v] t by auto
  qed
qed

lemma recover_effects:
  assumes "recoverBody flt pg i r now db = Inr (a, db')"
  shows "\<exists>db1. account_effect db db1 \<and> ticket_effect db1 db'"
  using assms
proof (rule recoverBody_InrE)
  fix request target x db1
  assume t: "request \<in> set (db_alumni db)" "al_ID request = i" "al_Status request = AlumniRequestStatusPending"
    and c: "insert_identity flt ''bind recovery personal email'' (recovery_identity (us_ID target) (al_PersonalEmail request)) db = Inr (x, db1)"
    and v: "writeApprovalVerdict flt i (us_ID target) r now db1 = Inr ((), db')"
  have e: "account_effect db db1" by (rule insert_identity_effect[OF c])
  then have "db_alumni db1 = db_alumni db" by (simp add: account_effect_def others_kept_def)
  then show ?thesis using e writeApproval_InrD(1)[OF v] t by auto
qed

lemma ticket_writes:
  "ticket_effect db (snd (CreateAlumniRequest flt pg now request db))"
  "ticket_effect db (snd (MarkNotifyAttempt flt i db))"
  "ticket_effect db (snd (MarkNotified flt i now db))"
  "ticket_effect db (snd (RejectAlumniRequest flt i r reason silent now db))"
  "ticket_effect db (snd (DeleteExpiredAlumniRequests flt pick cutoff n db))"
proof -
  show "ticket_effect db (snd (CreateAlumniRequest flt pg now request db))"
    by (auto simp: CreateAlumniRequest_def ticket_row_def ticket_effect_def Let_def split: option.splits)
  show "ticket_effect db (snd (MarkNotifyAttempt flt i db))" "ticket_effect db (snd (MarkNotified flt i now db))"
    by (auto simp: MarkNotifyAttempt_def MarkNotified_def intro!: update_ticket_effect)
  have "ticket_effect db db'" if "rejectBody flt i r reason silent now db = Inr (a, db')" for a db'
    using that
    by (auto simp: rejectBody_def bindE_eq_Inr_iff stmt_Inr_iff reject_row_def Let_def split: if_splits
        dest!: reread_InrD lockPending_InrD intro!: verdict_effect)
  then show "ticket_effect db (snd (RejectAlumniRequest flt i r reason silent now db))"
    by (auto simp: RejectAlumniRequest_def intro: transaction_cases[of "rejectBody flt i r reason silent now" db flt])
  show "ticket_effect db (snd (DeleteExpiredAlumniRequests flt pick cutoff n db))"
    unfolding DeleteExpiredAlumniRequests_def
    by (cases rule: commit_deleteBatch_cases[of flt pick cutoff n "''reviewed alumni requests''" al_ID
          "\<lambda>a. al_Status a \<noteq> AlumniRequestStatusPending \<and> (\<exists>t. al_ReviewedAt a = Some t \<and> t < cutoff)" "db_alumni db"
          "\<lambda>rows. db\<lparr>db_alumni := rows\<rparr>" db])
      (auto intro!: ticket_effectI)
qed

end
