(* ===== verification/Outbox_Store.thy ===== *)
theory Outbox_Store
  imports Token_Invariant "HOL-Library.Product_Lexorder"
begin

text \<open>
  \<open>internal/repository/token_blacklist_outbox.go\<close>: the durable queue of revocation deliveries.
  A worker leases due rows under a fresh claim token, acknowledges (removes) or fails
  (reschedules) the rows it owns, and expired rows are swept. The rows that concurrent
  transactions hold locked, which \<open>SKIP LOCKED\<close> passes over, are the argument \<open>skip\<close>; the row
  choice of an unordered \<open>LIMIT\<close> is the argument \<open>pick\<close>.
\<close>

definition maxOutboxDeliveryErrorLength :: nat where "maxOutboxDeliveryErrorLength = 1024"

primrec cut_valid :: "string \<Rightarrow> nat \<Rightarrow> string" where
  "cut_valid v 0 = []"
| "cut_valid v (Suc n) = (if ValidString (take (Suc n) v) then take (Suc n) v else cut_valid v n)"

definition truncateOutboxDeliveryError :: "string \<Rightarrow> string" where
  "truncateOutboxDeliveryError s =
    (let v = ToValidUTF8 (TrimSpace s) (encode_rune RuneError) in
     if length v \<le> maxOutboxDeliveryErrorLength then v
     else cut_valid v maxOutboxDeliveryErrorLength)"

definition due :: "instant \<Rightarrow> (outbox_row \<Rightarrow> bool) \<Rightarrow> outbox_row \<Rightarrow> bool" where
  "due now skip x \<longleftrightarrow> now < ob_ExpiresAt x \<and> ob_NextDeliveryAt x \<le> now
     \<and> (ob_ClaimToken x = None \<or> (\<exists>t. ob_ClaimedUntil x = Some t \<and> t \<le> now)) \<and> \<not> skip x"

definition due_ids :: "instant \<Rightarrow> nat \<Rightarrow> (outbox_row \<Rightarrow> bool) \<Rightarrow> database \<Rightarrow> int list" where
  "due_ids now limit skip db =
     map ob_ID (take limit (sort_key (\<lambda>x. (ob_NextDeliveryAt x, ob_ExpiresAt x, ob_ID x))
       (filter (due now skip) (db_outbox db))))"

definition lease_row :: "string \<Rightarrow> instant \<Rightarrow> outbox_row \<Rightarrow> outbox_row" where
  "lease_row claimToken claimedUntil x =
     x\<lparr>ob_ClaimToken := Some claimToken, ob_ClaimedUntil := Some claimedUntil\<rparr>"

definition ClaimDue ::
    "fault \<Rightarrow> string \<Rightarrow> (outbox_row \<Rightarrow> bool) \<Rightarrow> instant \<Rightarrow> duration \<Rightarrow> int \<Rightarrow> database
      \<Rightarrow> (repo_error + outbox_row list) \<times> database" where
  "ClaimDue flt claimToken skip now lease limit db =
    (if lease \<le> 0 \<or> limit \<le> 0 \<or> IsZero now then (Inl ErrInvalidArgument, db)
     else if flt ''generate outbox claim'' then (Inl (DbError ''generate outbox claim''), db)
     else if flt ''claim token blacklist outbox'' then (Inl (DbError ''claim token blacklist outbox''), db)
     else (let ids = due_ids now (nat limit) skip db;
               P = (\<lambda>x. ob_ID x \<in> set ids);
               rows = update_where P (lease_row claimToken (now + lease)) (db_outbox db) in
       (Inr (filter P rows), db\<lparr>db_outbox := rows\<rparr>)))"

definition Ack :: "fault \<Rightarrow> int \<Rightarrow> string \<Rightarrow> database \<Rightarrow> (repo_error + bool) \<times> database" where
  "Ack flt i claimToken db =
    (if i \<le> 0 \<or> claimToken = [] then (Inl ErrInvalidArgument, db)
     else if flt ''ack token blacklist outbox'' then (Inl (DbError ''ack token blacklist outbox''), db)
     else (let P = (\<lambda>x. ob_ID x = i \<and> ob_ClaimToken x = Some claimToken) in
       (Inr (rows_affected P (db_outbox db) = 1), db\<lparr>db_outbox := delete_where P (db_outbox db)\<rparr>)))"

definition AckMany :: "fault \<Rightarrow> int list \<Rightarrow> string \<Rightarrow> database \<Rightarrow> (repo_error + nat) \<times> database" where
  "AckMany flt ids claimToken db =
    (if ids = [] \<or> claimToken = [] then (Inr 0, db)
     else if flt ''ack token blacklist outbox batch''
     then (Inl (DbError ''ack token blacklist outbox batch''), db)
     else (let P = (\<lambda>x. ob_ID x \<in> set ids \<and> ob_ClaimToken x = Some claimToken) in
       (Inr (rows_affected P (db_outbox db)), db\<lparr>db_outbox := delete_where P (db_outbox db)\<rparr>)))"

definition Fail ::
    "fault \<Rightarrow> int \<Rightarrow> string \<Rightarrow> instant \<Rightarrow> instant \<Rightarrow> string \<Rightarrow> database \<Rightarrow> (repo_error + bool) \<times> database" where
  "Fail flt i claimToken attemptedAt nextDeliveryAt deliveryError db =
    (if i \<le> 0 \<or> claimToken = [] \<or> IsZero attemptedAt \<or> \<not> attemptedAt < nextDeliveryAt
     then (Inl ErrInvalidArgument, db)
     else if flt ''fail token blacklist outbox'' then (Inl (DbError ''fail token blacklist outbox''), db)
     else (let P = (\<lambda>x. ob_ID x = i \<and> ob_ClaimToken x = Some claimToken) in
       (Inr (rows_affected P (db_outbox db) = 1),
        db\<lparr>db_outbox := update_where P
            (\<lambda>x. x\<lparr>ob_AttemptCount := ob_AttemptCount x + 1, ob_LastAttemptAt := Some attemptedAt,
                   ob_LastError := Some (truncateOutboxDeliveryError deliveryError),
                   ob_NextDeliveryAt := nextDeliveryAt, ob_ClaimToken := None,
                   ob_ClaimedUntil := None\<rparr>) (db_outbox db)\<rparr>)))"

definition CleanupExpired ::
    "fault \<Rightarrow> (nat \<Rightarrow> int list \<Rightarrow> int list) \<Rightarrow> instant \<Rightarrow> int \<Rightarrow> database \<Rightarrow> (repo_error + nat) \<times> database" where
  "CleanupExpired flt pick now batchSize db =
    (if IsZero now \<or> batchSize \<le> 0 then (Inl ErrInvalidArgument, db)
     else if flt ''cleanup token blacklist outbox'' then (Inl (DbError ''cleanup token blacklist outbox''), db)
     else (let ids = pick (nat batchSize) (map ob_ID (filter (\<lambda>x. ob_ExpiresAt x \<le> now) (db_outbox db)));
               P = (\<lambda>x. ob_ID x \<in> set ids) in
       (Inr (rows_affected P (db_outbox db)), db\<lparr>db_outbox := delete_where P (db_outbox db)\<rparr>)))"

definition CountDue :: "fault \<Rightarrow> instant \<Rightarrow> database \<Rightarrow> repo_error + nat" where
  "CountDue flt now db =
    (if IsZero now then Inl ErrInvalidArgument
     else stmt flt ''count token blacklist outbox''
       (Inr (length (filter (\<lambda>x. now < ob_ExpiresAt x) (db_outbox db)))))"

section \<open>The recorded error text\<close>

lemma cut_valid_prefix: "\<exists>k\<le>n. cut_valid v n = take k v \<and> ValidString (take k v)"
  by (induction n) (auto intro: le_SucI)

lemma cut_valid_ge: "k \<le> n \<Longrightarrow> ValidString (take k v) \<Longrightarrow> n \<le> length v \<Longrightarrow> k \<le> length (cut_valid v n)"
  by (induction n) (auto simp: le_Suc_eq)

text \<open>Whatever bytes a failed delivery reports, the recorded text is well-formed UTF-8 of at most
  1024 bytes, it is a prefix of the repaired report, and at most three bytes are lost to the cut.\<close>

theorem truncateOutboxDeliveryError_valid:
  "let v = ToValidUTF8 (TrimSpace s) (encode_rune RuneError); t = truncateOutboxDeliveryError s in
     ValidString t \<and> prefix t v \<and> length t \<le> 1024 \<and> min (length v) 1021 \<le> length t"
proof -
  let ?v = "ToValidUTF8 (TrimSpace s) (encode_rune RuneError)"
  have v: "ValidString ?v" by (simp add: ToValidUTF8_def encode_rune_def ValidString_to_valid)
  show ?thesis
  proof (cases "length ?v \<le> 1024")
    case True
    then show ?thesis using v
      by (simp add: truncateOutboxDeliveryError_def maxOutboxDeliveryErrorLength_def Let_def)
  next
    case False
    then have t: "truncateOutboxDeliveryError s = cut_valid ?v 1024"
      by (simp add: truncateOutboxDeliveryError_def maxOutboxDeliveryErrorLength_def Let_def)
    obtain k where "k \<le> 3" "ValidString (take (1024 - k) ?v)"
      using ValidString_boundary[OF v, of 1024] False by auto
    then have "1021 \<le> length (cut_valid ?v 1024)"
      using cut_valid_ge[of "1024 - k" 1024 ?v] False by simp
    moreover obtain j where "j \<le> 1024" "cut_valid ?v 1024 = take j ?v" "ValidString (take j ?v)"
      using cut_valid_prefix by blast
    ultimately show ?thesis unfolding Let_def t by (simp add: take_is_prefix)
  qed
qed

section \<open>Leases\<close>

definition outbox_inv :: "database \<Rightarrow> bool" where
  "outbox_inv db \<longleftrightarrow> distinct (map ob_ID (db_outbox db)) \<and> distinct (map ob_TokenID (db_outbox db))
     \<and> (\<forall>x\<in>set (db_outbox db). ob_ID x \<le> db_seq db \<and> (ob_ClaimToken x = None \<longleftrightarrow> ob_ClaimedUntil x = None))"

lemma due_ids_subset: "i \<in> set (due_ids now n skip db) \<Longrightarrow> \<exists>x\<in>set (db_outbox db). ob_ID x = i \<and> due now skip x"
  by (auto simp: due_ids_def dest!: in_set_takeD)

lemma due_ids_length: "length (due_ids now n skip db) \<le> n"
  by (simp add: due_ids_def)

lemma ClaimDue_InrD:
  assumes "ClaimDue flt tok skip now lease limit db = (Inr es, db')"
  shows "0 < lease" "0 < limit"
    "db' = db\<lparr>db_outbox := update_where (\<lambda>x. ob_ID x \<in> set (due_ids now (nat limit) skip db))
        (lease_row tok (now + lease)) (db_outbox db)\<rparr>"
    "es = filter (\<lambda>x. ob_ID x \<in> set (due_ids now (nat limit) skip db)) (db_outbox db')"
  using assms by (auto simp: ClaimDue_def Let_def split: if_splits)

text \<open>A leased row is not due for anybody until its lease ends.\<close>

definition leased :: "instant \<Rightarrow> outbox_row \<Rightarrow> bool" where
  "leased now x \<longleftrightarrow> ob_ClaimToken x \<noteq> None \<and> (\<exists>t. ob_ClaimedUntil x = Some t \<and> now < t)"

lemma leased_not_due: "leased now x \<Longrightarrow> \<not> due now skip x"
  by (auto simp: leased_def due_def)

lemma ClaimDue_leases:
  assumes "ClaimDue flt tok skip now lease limit db = (Inr es, db')" "x \<in> set es" "t < now + lease"
  shows "x \<in> set (db_outbox db') \<and> ob_ClaimToken x = Some tok \<and> leased t x"
  using ClaimDue_InrD[OF assms(1)] assms(2,3)
  by (auto simp: set_update_where leased_def lease_row_def)

text \<open>C21: two claims never hand out the same delivery while the first lease runs, and a claim hands out
  at most the requested number of rows, each due and unexpired before the claim.\<close>

theorem ClaimDue_exclusive:
  assumes inv: "outbox_inv db"
    and first: "ClaimDue flt tok skip now lease limit db = (Inr es, db1)"
    and second: "ClaimDue flt' tok' skip' now' lease' limit' db1 = (Inr es', db2)"
    and "now' < now + lease"
  shows "ob_ID ` set es \<inter> ob_ID ` set es' = {} \<and> length es \<le> nat limit
    \<and> (\<forall>x\<in>set es. \<exists>y\<in>set (db_outbox db). ob_ID y = ob_ID x \<and> ob_TokenID y = ob_TokenID x \<and> due now skip y)"
proof -
  note c1 = ClaimDue_InrD[OF first] and c2 = ClaimDue_InrD[OF second]
  have ids1: "map ob_ID (db_outbox db1) = map ob_ID (db_outbox db)"
    by (simp add: c1(3) map_update_where lease_row_def)
  have dist1: "distinct (map ob_ID (db_outbox db1))" using inv by (simp add: ids1 outbox_inv_def)
  have disj: "False" if "x \<in> set es" "y \<in> set es'" "ob_ID x = ob_ID y" for x y
  proof -
    have "ob_ID y \<in> set (due_ids now' (nat limit') skip' db1)" using that(2) c2(4) by auto
    then obtain z where z: "z \<in> set (db_outbox db1)" "ob_ID z = ob_ID y" "due now' skip' z"
      by (auto dest: due_ids_subset)
    have x: "x \<in> set (db_outbox db1)" "leased now' x"
      using ClaimDue_leases[OF first that(1) assms(4)] by simp_all
    have "z = x" using distinct_map_inj[OF dist1 z(1) x(1)] z(2) that(3) by simp
    then show False using leased_not_due[OF x(2)] z(3) by blast
  qed
  let ?I = "set (due_ids now (nat limit) skip db)"
  have "card (ob_ID ` set es) \<le> card ?I" using c1(4) by (intro card_mono) auto
  also have "\<dots> \<le> nat limit" using card_length due_ids_length le_trans by blast
  finally have "card (ob_ID ` set es) \<le> nat limit" .
  moreover have "distinct (map ob_ID es)" using dist1 c1(4) by (simp add: distinct_map_filter)
  then have "card (ob_ID ` set es) = length es" by (metis distinct_card length_map list.set_map)
  moreover have "\<exists>y\<in>set (db_outbox db). ob_ID y = ob_ID x \<and> ob_TokenID y = ob_TokenID x \<and> due now skip y"
    if "x \<in> set es" for x
  proof -
    have x: "x \<in> set (db_outbox db1)" "ob_ID x \<in> ?I" using that c1(4) by auto
    then obtain y0 where y0: "y0 \<in> set (db_outbox db)" "x = (if ob_ID y0 \<in> ?I then lease_row tok (now + lease) y0 else y0)"
      unfolding c1(3) by (auto elim!: in_update_whereE)
    then have k: "ob_ID y0 = ob_ID x" "ob_TokenID y0 = ob_TokenID x" by (auto simp: lease_row_def)
    obtain z where z: "z \<in> set (db_outbox db)" "ob_ID z = ob_ID x" "due now skip z"
      using due_ids_subset[OF x(2)] by blast
    have "z = y0" using distinct_map_inj[of ob_ID "db_outbox db" z y0] inv z y0(1) k by (simp add: outbox_inv_def)
    then show ?thesis using z k y0(1) by blast
  qed
  ultimately show ?thesis using disj by fastforce
qed

definition sample_row :: outbox_row where
  "sample_row = \<lparr>ob_ID = 1, ob_TokenID = ''j'', ob_ExpiresAt = 1000, ob_NextDeliveryAt = 5, ob_AttemptCount = 0,
     ob_LastAttemptAt = None, ob_LastError = None, ob_ClaimToken = None, ob_ClaimedUntil = None\<rparr>"

definition sample_queue :: database where
  "sample_queue = \<lparr>db_users = [], db_profiles = [], db_identities = [], db_clients = [],
     db_authorizations = [], db_grants = [], db_access = [], db_refresh = [], db_outbox = [sample_row],
     db_audit = [], db_alumni = [], db_seq = 1\<rparr>"

theorem ClaimDue_exclusive_witness:
  "\<exists>es db1 es' db2. ClaimDue no_fault ''t1'' (\<lambda>_. False) 10 60 5 sample_queue = (Inr es, db1)
     \<and> ClaimDue no_fault ''t2'' (\<lambda>_. False) 20 60 5 db1 = (Inr es', db2)
     \<and> length es = 1 \<and> ob_ID ` set es \<inter> ob_ID ` set es' = {}"
proof -
  have inv: "outbox_inv sample_queue" by (simp add: outbox_inv_def sample_queue_def sample_row_def)
  obtain es db1 where a: "ClaimDue no_fault ''t1'' (\<lambda>_. False) 10 60 5 sample_queue = (Inr es, db1)" "length es = 1"
    by (simp add: ClaimDue_def due_ids_def due_def update_where_def lease_row_def sample_queue_def sample_row_def
        IsZero_def zeroTime_def duration_defs Let_def)
  obtain es' db2 where b: "ClaimDue no_fault ''t2'' (\<lambda>_. False) 20 60 5 db1 = (Inr es', db2)"
    by (simp add: ClaimDue_def IsZero_def zeroTime_def duration_defs Let_def)
  show ?thesis using ClaimDue_exclusive[OF inv a(1) b] a b by auto
qed

end
