(* ===== verification/Audit_Store.thy ===== *)
theory Audit_Store
  imports Database
begin

text \<open>
  \<open>internal/repository/audit_log.go\<close>: the append of one audit row and the filtered page with its
  total. Rows of the model carry no key; a later position stands for a larger one.
\<close>

definition CreateAuditLog :: "fault \<Rightarrow> audit_log \<Rightarrow> database \<Rightarrow> (repo_error + unit) \<times> database" where
  "CreateAuditLog flt row db =
    (if flt ''create audit log'' then (Inl (DbError ''create audit log''), db)
     else (Inr (), db\<lparr>db_audit := db_audit db @ [row]\<rparr>))"

record audit_log_filter =
  alf_UserID :: "int option"
  alf_Action :: string
  alf_Resource :: string
  alf_Success :: "bool option"
  alf_ActorClientID :: string
  alf_StartTime :: "instant option"
  alf_EndTime :: "instant option"
  alf_Limit :: int
  alf_Offset :: int

text \<open>A predicate on a null column selects no row.\<close>

definition auditLogQuery :: "audit_log_filter \<Rightarrow> audit_log \<Rightarrow> bool" where
  "auditLogQuery fl a \<longleftrightarrow>
     (case alf_UserID fl of None \<Rightarrow> True | Some u \<Rightarrow> au_UserID a = Some u)
     \<and> (alf_Action fl \<noteq> [] \<longrightarrow> au_Action a = alf_Action fl)
     \<and> (alf_Resource fl \<noteq> [] \<longrightarrow> au_Resource a = alf_Resource fl)
     \<and> (case alf_Success fl of None \<Rightarrow> True | Some b \<Rightarrow> au_Success a = b)
     \<and> (alf_ActorClientID fl \<noteq> [] \<longrightarrow> au_ActorClientID a = Some (alf_ActorClientID fl))
     \<and> (case alf_StartTime fl of None \<Rightarrow> True | Some t \<Rightarrow> t \<le> au_CreatedAt a)
     \<and> (case alf_EndTime fl of None \<Rightarrow> True | Some t \<Rightarrow> au_CreatedAt a < t)"

definition ListAuditLogs ::
    "fault \<Rightarrow> int \<Rightarrow> audit_log_filter \<Rightarrow> database \<Rightarrow> repo_error + (audit_log list \<times> nat)" where
  "ListAuditLogs flt maxPageSize fl db =
    (if alf_Limit fl \<le> 0 then Inl ErrInvalidArgument
     else if maxPageSize < alf_Limit fl then Inl ErrInvalidArgument
     else if alf_Offset fl < 0 then Inl ErrInvalidArgument
     else let hits = filter (auditLogQuery fl) (db_audit db) in
       stmt flt ''count audit logs''
        (if length hits = 0 then Inr ([], 0)
         else stmt flt ''list audit logs''
          (Inr (take (nat (alf_Limit fl)) (drop (nat (alf_Offset fl))
                 (sort_key (\<lambda>a. - au_CreatedAt a) (rev hits))), length hits))))"

lemma CreateAuditLog_audit: "\<exists>rows. snd (CreateAuditLog flt row db) = db\<lparr>db_audit := rows\<rparr>"
  by (cases db) (auto simp: CreateAuditLog_def)

text \<open>Adjacent pages neither overlap nor skip an entry.\<close>

lemma ListAuditLogs_pages:
  assumes "0 \<le> o1" "0 < l" "2 * l \<le> m"
  shows "ListAuditLogs no_fault m (fl\<lparr>alf_Limit := 2 * l, alf_Offset := o1\<rparr>) db =
    bindE (ListAuditLogs no_fault m (fl\<lparr>alf_Limit := l, alf_Offset := o1\<rparr>) db) (\<lambda>(p, n).
    bindE (ListAuditLogs no_fault m (fl\<lparr>alf_Limit := l, alf_Offset := o1 + l\<rparr>) db) (\<lambda>(q, _). Inr (p @ q, n)))"
proof -
  have q: "auditLogQuery (fl\<lparr>alf_Limit := a, alf_Offset := b\<rparr>) = auditLogQuery fl" for a b
    by (rule ext) (simp add: auditLogQuery_def)
  have n: "nat (2 * l) = nat l + nat l" "nat (l + o1) = nat l + nat o1" using assms by linarith+
  have "\<not> m < l" "\<not> m < 2 * l" "\<not> l \<le> 0" "\<not> o1 < 0" "\<not> o1 + l < 0" using assms by linarith+
  then show ?thesis
    by (simp add: ListAuditLogs_def q Let_def n take_add add.commute[of o1 l] add.commute[of "nat o1"])
qed

end
