(* ===== verification/Store_Laws.thy ===== *)
theory Store_Laws
  imports Alumni_Store Outbox_Store Audit_Store
begin

text \<open>
  The contract between the revoking operations and an invariant of the tables: an invariant that
  survives the few table updates listed as assumptions survives every operation that revokes or
  deletes. It is interpreted for the invariants of the token, consent, outbox and account tables,
  for the existence of an active administrator and for the predicate that a given refresh token
  is dead.
\<close>

lemma transaction_preserves:
  assumes "I db" "\<And>x db'. body db = Inr (x, db') \<Longrightarrow> I db'"
  shows "I (snd (transaction flt body db))"
  by (cases rule: transaction_cases[of body db flt]) (use assms in auto)

lemma password_effect:
  "account_effect db (db\<lparr>db_users := update_where P
     (\<lambda>u. u\<lparr>us_PasswordHash := h, us_TokenVersion := us_TokenVersion u + 1\<rparr>) (db_users db)\<rparr>)"
  by (rule update_users_effect) (auto simp: frame_row_def row_ok_def active_admin_def)

lemma rehash_effect:
  "account_effect db (db\<lparr>db_users := update_where P (\<lambda>u. u\<lparr>us_PasswordHash := h\<rparr>) (db_users db)\<rparr>)"
  by (rule update_users_effect) (auto simp: frame_row_def row_ok_def active_admin_def)

lemma divergent_not_deleted: "\<forall>d\<in>snd ` set (divergent ext now rows). d \<noteq> UserStateDeleted"
  using DeriveState_not_deleted in_divergentD by fastforce

lemma set_states_effect:
  assumes "\<forall>d\<in>snd ` set vs. d \<noteq> UserStateDeleted"
  shows "account_effect db (db\<lparr>db_users := set_states vs (db_users db)\<rparr>)"
proof -
  have "the (map_of vs k) \<noteq> UserStateDeleted" if "map_of vs k \<noteq> None" for k
    using assms that by (force dest: map_of_SomeD)
  then show ?thesis unfolding set_states_def
    by (intro update_users_effect) (auto simp: frame_row_def row_ok_def active_admin_def unpinned_def)
qed

text \<open>The part of the contract the revocations of a family, a user or a grant need.\<close>

locale revocation_invariant =
  fixes I :: "database \<Rightarrow> bool"
  assumes cut: "I db \<Longrightarrow> I (cut_tokens PA PR t reason db)"
    and codes: "I db \<Longrightarrow> I (burn_codes u t db)"
    and forget: "I db \<Longrightarrow> I (db\<lparr>db_grants := delete_where (\<lambda>g. gr_UserID g = u \<and> gr_ClientID g = c) (db_grants db),
        db_authorizations := delete_where (\<lambda>z. az_UserID z = u \<and> az_ClientID z = c) (db_authorizations db)\<rparr>)"
    and write_audit: "I db \<Longrightarrow> I (db\<lparr>db_audit := au\<rparr>)"
begin

lemma RevokeFamily: "I db \<Longrightarrow> I (snd (RevokeFamily flt f t db))"
  unfolding RevokeFamily_def
  by (rule transaction_preserves) (auto simp: stmt_Inr_iff dest!: revokeFamily_InrD intro: cut)

lemma revokeAllByUser: "I db \<Longrightarrow> revokeAllByUserInTransaction flt u t reason db = Inr (es, db') \<Longrightarrow> I db'"
  by (auto dest!: revokeAllByUser_InrD intro!: cut codes)

lemma RevokeAllByUser: "I db \<Longrightarrow> I (snd (RevokeAllByUser flt u t db))"
  unfolding RevokeAllByUser_def by (rule transaction_preserves) (auto intro: revokeAllByUser)

lemma RevokeUserClientTokens: "I db \<Longrightarrow> I (snd (RevokeUserClientTokens flt u c t db))"
  unfolding RevokeUserClientTokens_def
  by (rule transaction_preserves)
    (auto simp: stmt_Inr_iff bindE_eq_Inr_iff Let_def split: if_splits dest!: deleteAuthorizations_InrD
      enqueueBlacklist_InrD intro!: cut[unfolded cut_tokens_def] forget)

lemma ResolveDeviceEviction: "I db \<Longrightarrow> I (snd (ResolveDeviceEviction flt u h f g e t db))"
proof -
  assume I: "I db"
  let ?body = "resolveEvictionBody flt u h f g e t"
  have "I db'" if "?body db = Inr (x, db')" for x db'
    using that I
    by (auto simp: resolveEvictionBody_def stmt_Inr_iff bindE_eq_Inr_iff split: if_splits
        dest!: revokeFamily_InrD intro: cut)
  then have "I (snd (transaction flt ?body db))" using I by (rule transaction_preserves[rotated])
  then show ?thesis using I
    by (auto simp: ResolveDeviceEviction_def Let_def split: prod.splits sum.splits)
qed

lemma DeleteExpiredAuditLogs: "I db \<Longrightarrow> I (snd (DeleteExpiredAuditLogs flt pick cutoff n db))"
  by (auto simp: DeleteExpiredAuditLogs_def commit_rows_def split: sum.splits intro: write_audit)

lemma CreateAuditLog: "I db \<Longrightarrow> I (snd (CreateAuditLog flt row db))"
  using CreateAuditLog_audit[of flt row db] by (auto intro: write_audit)

end

locale store_invariant = revocation_invariant +
  assumes forget_client: "I db \<Longrightarrow> I (db\<lparr>db_grants := delete_where (\<lambda>g. gr_ClientID g = c) (db_grants db),
        db_authorizations := delete_where (\<lambda>z. az_ClientID z = c) (db_authorizations db)\<rparr>)"
    and drop_client: "I db \<Longrightarrow> I (delete_client_cascade c db)"
    and drop_users: "I db \<Longrightarrow> (\<And>i. gone i \<Longrightarrow> \<exists>u\<in>set (db_users db). us_ID u = i \<and> us_State u = UserStateDeleted) \<Longrightarrow>
        I (delete_users_cascade gone db)"
    and account_write: "I db \<Longrightarrow> account_effect db db' \<Longrightarrow> I db'"
    and write_clients: "I db \<Longrightarrow> I (db\<lparr>db_clients := cs\<rparr>)"
    and ticket_write: "I db \<Longrightarrow> ticket_effect db db' \<Longrightarrow> I db'"
begin

lemma UpdatePassword: "I db \<Longrightarrow> I (snd (UpdatePasswordAndRevokeSessions flt u h t reason db))"
  unfolding UpdatePasswordAndRevokeSessions_def
  by (rule transaction_preserves)
    (auto simp: updatePasswordBody_def stmt_Inr_iff Let_def split: if_splits
      intro: revokeAllByUser account_write[OF _ password_effect])

lemma UpdatePasswordHash: "I db \<Longrightarrow> I (snd (UpdatePasswordHash flt u old new db))"
  by (auto simp: UpdatePasswordHash_def Let_def intro: account_write[OF _ rehash_effect])

lemma revokeAllByClient: "I db \<Longrightarrow> revokeAllByClientInTransaction flt c t db = Inr (res, db') \<Longrightarrow> I db'"
  by (cases res) (auto dest!: revokeAllByClient_InrD intro: cut)

lemma UpdateAndRevoke: "I db \<Longrightarrow> I (snd (UpdateAndRevoke flt dbnow i f rv t u db))"
proof -
  assume I: "I db"
  have "I db'" if "updateAndRevokeBody flt dbnow i f rv t u db = Inr (x, db')" for x db'
    using that I
    by (auto simp: updateAndRevokeBody_def stmt_Inr_iff Let_def split: if_splits option.splits
        intro: revokeAllByClient[OF write_clients] write_clients)
  then show ?thesis using I by (auto simp: UpdateAndRevoke_def intro: transaction_preserves)
qed

lemma DeleteAndRevoke: "I db \<Longrightarrow> I (snd (DeleteAndRevoke flt c t db))"
proof -
  assume I: "I db"
  have "I db'" if b: "deleteAndRevokeBody flt c t db = Inr (x, db')" for x db'
  proof -
    let ?db2 = "db\<lparr>db_grants := delete_where (\<lambda>g. gr_ClientID g = c) (db_grants db),
        db_authorizations := delete_where (\<lambda>z. az_ClientID z = c) (db_authorizations db)\<rparr>"
    obtain res db3 where "revokeAllByClientInTransaction flt c t ?db2 = Inr (res, db3)"
      "db' = delete_client_cascade c db3"
      using b by (auto simp: deleteAndRevokeBody_def stmt_Inr_iff Let_def bindE_eq_Inr_iff split: if_splits)
    then show ?thesis using revokeAllByClient[OF forget_client[OF I]] drop_client by blast
  qed
  then show ?thesis using I by (auto simp: DeleteAndRevoke_def intro: transaction_preserves)
qed

lemma PurgeDeletedUsers: "I db \<Longrightarrow> I (snd (PurgeDeletedUsers flt skip before now n db))"
proof -
  assume I: "I db"
  have "I db'" if "purgeBody flt skip before now n db = Inr (x, db')" for x db'
    using that I
    by (auto simp: purgeBody_def purge_due_def list_ex_iff stmt_Inr_iff Let_def split: if_splits
        intro!: write_audit drop_users)
  then show ?thesis using I by (auto simp: PurgeDeletedUsers_def intro: transaction_preserves)
qed

lemma apply_chunks:
  "I db \<Longrightarrow> \<forall>d\<in>snd ` set (concat cs). d \<noteq> UserStateDeleted \<Longrightarrow> I (snd (apply_chunks flt k cs db))"
proof (induction cs arbitrary: k db)
  case (Cons c cs)
  then have "I (db\<lparr>db_users := set_states c (db_users db)\<rparr>)"
    by (intro account_write[OF _ set_states_effect]) auto
  then show ?case using Cons by auto
qed simp

lemma RecomputeDerivedState: "I db \<Longrightarrow> I (snd (RecomputeDerivedState flt ext cursor now n db))"
proof -
  assume "I db"
  then have "I (snd (apply_chunks flt 0 (chunks derivedStateChunkSize (divergent ext now rows)) db))" for rows
    by (rule apply_chunks) (use divergent_not_deleted in \<open>simp add: concat_chunks derivedStateChunkSize_def\<close>)
  then show ?thesis using \<open>I db\<close>
    by (auto simp: RecomputeDerivedState_def Let_def split: prod.splits option.splits) (metis snd_conv)+
qed

lemma admin_edit:
  assumes I: "I db"
  shows "I (snd (UpdateAdminUser flt ext lx pg u up caller t db))"
proof -
  have "I db'" if b: "updateAdminBody flt ext lx pg u up caller t db = Inr (res, db')" "\<not> invalidAdminUpdate u up" for res db'
    using b by (rule updateAdminBody_effect) (use account_write[OF I] revokeAllByUser in blast)
  then show ?thesis using I by (auto simp: UpdateAdminUser_def intro: transaction_preserves)
qed

lemma close:
  assumes I: "I db"
  shows "I (snd (SoftDeleteAndRevokeSessions flt u caller t db))"
proof -
  have "I db'" if "softDeleteBody flt u caller t db = Inr (es, db')" for es db'
    using that by (rule softDeleteBody_InrE) (use account_write[OF I close_account_effect] revokeAllByUser in blast)
  then show ?thesis using I by (auto simp: SoftDeleteAndRevokeSessions_def intro: transaction_preserves)
qed

lemma ApproveAlumniRequest:
  assumes "I db" "provision_fresh f"
  shows "I (snd (ApproveAlumniRequest flt lx pg i r now f db))"
proof (cases f)
  case (Some g)
  have "I db'" if "approveBody flt lx pg i r now g db = Inr (x, db')" for x db'
    using approve_effects[OF that] assms Some account_write ticket_write by blast
  then have "I (snd (transaction flt (approveBody flt lx pg i r now g) db))"
    using assms(1) by (rule transaction_preserves[rotated])
  then show ?thesis using Some assms(1) by (simp add: ApproveAlumniRequest_def)
qed (use assms(1) in \<open>simp add: ApproveAlumniRequest_def\<close>)

lemma ApproveAlumniRequestRecover:
  assumes "I db"
  shows "I (snd (ApproveAlumniRequestRecover flt pg i r now db))"
proof -
  have "I db'" if "recoverBody flt pg i r now db = Inr (x, db')" for x db'
    using recover_effects[OF that] assms account_write ticket_write by blast
  then have "I (snd (transaction flt (recoverBody flt pg i r now) db))"
    using assms by (rule transaction_preserves[rotated])
  then show ?thesis using assms by (simp add: ApproveAlumniRequestRecover_def)
qed

lemmas tickets = ApproveAlumniRequest ApproveAlumniRequestRecover ticket_write[OF _ ticket_writes(1)]
  ticket_write[OF _ ticket_writes(2)] ticket_write[OF _ ticket_writes(3)] ticket_write[OF _ ticket_writes(4)]
  ticket_write[OF _ ticket_writes(5)]

lemmas account_writes = account_write[OF _ CreateWithProfile_effect] account_write[OF _ CreateAdminUser_effect]
  account_write[OF _ UpdateProfile_effect] account_write[OF _ DeleteByIDAndUser_effect]
  account_write[OF _ DeleteGuarding_effect] account_write[OF _ UpdateProviderCredentials_effect]
  account_write[OF _ CreateWithinLimit_effect] account_write[OF _ RestoreUser_effect]
  admin_edit close

end

section \<open>Interpretations\<close>

lemma ticket_effect_frame:
  assumes "ticket_effect db db'"
  shows "db_users db' = db_users db" "db_profiles db' = db_profiles db" "db_identities db' = db_identities db"
    "db_clients db' = db_clients db" "db_authorizations db' = db_authorizations db" "db_grants db' = db_grants db"
    "db_access db' = db_access db" "db_refresh db' = db_refresh db" "db_outbox db' = db_outbox db" "db_seq db \<le> db_seq db'"
proof -
  from assms have e: "db' = db\<lparr>db_alumni := db_alumni db', db_seq := db_seq db'\<rparr>" by (simp add: ticket_effect_def)
  show "db_users db' = db_users db" "db_profiles db' = db_profiles db" "db_identities db' = db_identities db"
    "db_clients db' = db_clients db" "db_authorizations db' = db_authorizations db" "db_grants db' = db_grants db"
    "db_access db' = db_access db" "db_refresh db' = db_refresh db" "db_outbox db' = db_outbox db" by (subst e; simp)+
  show "db_seq db \<le> db_seq db'" using assms by (simp add: ticket_effect_def)
qed

lemma cut_tokens_seq: "db_seq db \<le> db_seq (cut_tokens PA PR t reason db)"
  using fold_upsert_outbox_seq[of "revoke_refresh PR t reason (revoke_access PA t db)" t]
  by (simp add: cut_tokens_def revoke_refresh_def revoke_access_def)

interpretation tokens: store_invariant token_inv
proof
  show "token_inv db \<Longrightarrow> token_inv (delete_client_cascade c db)" for db c
    by (rule token_inv_cong[OF _ _ _ token_inv_delete[of db "\<lambda>r. rt_ClientID r = c" "\<lambda>a. at_ClientID a = c"]])
      (simp_all add: delete_client_cascade_def)
  show "token_inv db \<Longrightarrow> token_inv (delete_users_cascade gone db)" for db gone
    by (rule token_inv_cong[OF _ _ _ token_inv_delete[of db "\<lambda>r. gone (rt_UserID r)" "\<lambda>a. gone (at_UserID a)"]])
      (simp_all add: delete_users_cascade_def)
qed (auto intro: token_inv_cut_tokens token_inv_cong simp: account_effect_def others_kept_def ticket_effect_frame)

lemma burn_codes_maps:
  "map az_ID (db_authorizations (burn_codes u t db)) = map az_ID (db_authorizations db)"
  "map az_Code (db_authorizations (burn_codes u t db)) = map az_Code (db_authorizations db)"
  "map az_pair (db_authorizations (burn_codes u t db)) = map az_pair (db_authorizations db)"
  by (simp_all add: burn_codes_def map_update_where)

lemma consent_inv_cascade:
  assumes "consent_inv db"
    and "\<And>z g. gr_pair g = az_pair z \<Longrightarrow> Q g \<longleftrightarrow> P z"
    and "db_authorizations db' = delete_where P (db_authorizations db)"
    "db_grants db' = delete_where Q (db_grants db)" "db_seq db' = db_seq db"
  shows "consent_inv db'"
  using consent_inv_delete[OF assms(1), of Q P] assms(2-5)
  by (intro consent_inv_cong[OF _ _ _ _ _ consent_inv_delete[OF assms(1), of Q P]]) auto

interpretation consents: store_invariant consent_inv
proof
  fix db :: database
  assume inv: "consent_inv db"
  show "consent_inv (cut_tokens PA PR t reason db)" for PA PR t reason
    by (rule consent_inv_cong[OF _ _ _ _ cut_tokens_seq inv]) simp_all
  show "consent_inv (burn_codes u t db)" for u t
    by (rule consent_inv_cong[OF burn_codes_maps _ _ inv]) simp_all
  show "consent_inv (db\<lparr>db_grants := delete_where (\<lambda>g. gr_UserID g = u \<and> gr_ClientID g = c) (db_grants db),
        db_authorizations := delete_where (\<lambda>z. az_UserID z = u \<and> az_ClientID z = c) (db_authorizations db)\<rparr>)" for u c
    by (rule consent_inv_cascade[OF inv, of "\<lambda>g. gr_UserID g = u \<and> gr_ClientID g = c" "\<lambda>z. az_UserID z = u \<and> az_ClientID z = c"])
      (auto simp: gr_pair_def az_pair_def)
  show "consent_inv (db\<lparr>db_grants := delete_where (\<lambda>g. gr_ClientID g = c) (db_grants db),
        db_authorizations := delete_where (\<lambda>z. az_ClientID z = c) (db_authorizations db)\<rparr>)" for c
    by (rule consent_inv_cascade[OF inv, of "\<lambda>g. gr_ClientID g = c" "\<lambda>z. az_ClientID z = c"])
      (auto simp: gr_pair_def az_pair_def)
  show "consent_inv (delete_client_cascade c db)" for c
    by (rule consent_inv_cascade[OF inv, of "\<lambda>g. gr_ClientID g = c" "\<lambda>z. az_ClientID z = c"])
      (auto simp: gr_pair_def az_pair_def delete_client_cascade_def)
  show "consent_inv (delete_users_cascade gone db)" for gone
    by (rule consent_inv_cascade[OF inv, of "\<lambda>g. gone (gr_UserID g)" "\<lambda>z. gone (az_UserID z)"])
      (auto simp: gr_pair_def az_pair_def delete_users_cascade_def)
qed (auto intro: consent_inv_cong simp: account_effect_def others_kept_def ticket_effect_frame)

lemma outbox_inv_cong:
  "db_outbox db' = db_outbox db \<Longrightarrow> db_seq db \<le> db_seq db' \<Longrightarrow> outbox_inv db \<Longrightarrow> outbox_inv db'"
  by (fastforce simp: outbox_inv_def)

lemma outbox_inv_upsert: "outbox_inv db \<Longrightarrow> outbox_inv (upsert_outbox t e db)"
  by (fastforce simp: outbox_inv_def upsert_outbox_def map_update_where set_update_where list_ex_iff)

lemma outbox_inv_fold_upsert: "outbox_inv db \<Longrightarrow> outbox_inv (fold (upsert_outbox t) es db)"
  by (induction es arbitrary: db) (auto intro: outbox_inv_upsert)

interpretation outbox: store_invariant outbox_inv
proof
  show "outbox_inv db \<Longrightarrow> outbox_inv (cut_tokens PA PR t reason db)" for db PA PR t reason
    unfolding cut_tokens_def
    by (rule outbox_inv_fold_upsert, rule outbox_inv_cong[rotated 2])
      (auto simp: revoke_refresh_def revoke_access_def)
qed (auto intro: outbox_inv_cong simp: burn_codes_def delete_client_cascade_def delete_users_cascade_def
    account_effect_def others_kept_def ticket_effect_frame)

text \<open>A refresh token is dead when no unrevoked row carries its hash.\<close>

definition refresh_dead :: "string \<Rightarrow> database \<Rightarrow> bool" where
  "refresh_dead h db \<longleftrightarrow> (\<forall>r\<in>set (db_refresh db). rt_TokenHash r = h \<longrightarrow> rt_RevokedAt r \<noteq> None)"

interpretation dead: store_invariant "refresh_dead h" for h
proof
  show "refresh_dead h db \<Longrightarrow> refresh_dead h (cut_tokens PA PR t reason db)" for db PA PR t reason
    unfolding refresh_dead_def db_refresh_cut_tokens revoke_refresh_def
    by (auto elim!: in_update_whereE split: if_splits)
qed (auto simp: refresh_dead_def burn_codes_def delete_client_cascade_def delete_users_cascade_def
    account_effect_def others_kept_def ticket_effect_frame)

text \<open>The account tables: only the purge touches them besides the account operations, and it removes
  closed accounts with everything they own.\<close>

lemma fold_upsert_accounts [simp]:
  "db_profiles (fold (upsert_outbox t) es db) = db_profiles db"
  "db_identities (fold (upsert_outbox t) es db) = db_identities db"
  by (induction es arbitrary: db) (simp_all add: upsert_outbox_def)

lemma accounts_frame [simp]:
  "db_profiles (cut_tokens PA PR t reason db) = db_profiles db"
  "db_identities (cut_tokens PA PR t reason db) = db_identities db"
  "db_profiles (burn_codes u t db) = db_profiles db" "db_identities (burn_codes u t db) = db_identities db"
  by (simp_all add: cut_tokens_def revoke_refresh_def revoke_access_def burn_codes_def)

lemma account_inv_drop:
  assumes inv: "account_inv db"
  shows "account_inv (delete_users_cascade gone db)"
proof -
  let ?db = "delete_users_cascade gone db"
  have "length (filter Q (filter R xs)) \<le> length (filter Q xs)" for Q R and xs :: "identity list"
    by (induction xs) auto
  then have "identity_count ?db u p \<le> identity_count db u p" for u p
    by (simp add: identity_count_def delete_users_cascade_def delete_where_def)
  then have c: "identity_count db u p \<le> n \<Longrightarrow> identity_count ?db u p \<le> n" for u p n by (meson order_trans)
  have e: "user_exists db i \<Longrightarrow> \<not> gone i \<Longrightarrow> user_exists ?db i" for i
    by (auto simp: user_exists_def list_ex_iff delete_users_cascade_def)
  have "users_inv ?db" using inv
    by (auto simp: account_inv_def users_inv_def delete_users_cascade_def delete_where_def distinct_map_filter)
  moreover have "profiles_inv ?db" using inv e
    by (auto simp: account_inv_def profiles_inv_def delete_where_def distinct_map_filter)
      (auto simp: delete_users_cascade_def delete_where_def distinct_map_filter)
  moreover have "identities_inv ?db" using inv c e unfolding account_inv_def identities_inv_def
    by (auto simp: delete_users_cascade_def delete_where_def distinct_map_filter)
  moreover have "addresses_inv ?db" using inv unfolding account_inv_def addresses_inv_def
    by (auto simp: delete_users_cascade_def bound_as_mail_def list_ex_iff)
  ultimately show ?thesis by (simp add: account_inv_def)
qed

interpretation accounts: store_invariant account_inv
proof
  fix db :: database
  assume inv: "account_inv db"
  show "account_inv (cut_tokens PA PR t reason db)" for PA PR t reason
    by (rule account_inv_cong(1)[OF _ _ _ cut_tokens_seq inv]) simp_all
  show "account_inv (delete_client_cascade c db)" for c
    by (rule account_inv_cong(1)[OF _ _ _ _ inv]) (simp_all add: delete_client_cascade_def)
  show "account_inv db'" if "account_effect db db'" for db'
    using that inv by (simp add: account_effect_def)
qed (auto intro: account_inv_drop account_inv_cong(1) simp: ticket_effect_frame)

definition administered :: "database \<Rightarrow> bool" where
  "administered db \<longleftrightarrow> account_inv db \<and> has_admin db"

lemma has_admin_drop:
  assumes "administered db"
    "\<And>i. gone i \<Longrightarrow> \<exists>u\<in>set (db_users db). us_ID u = i \<and> us_State u = UserStateDeleted"
  shows "has_admin (delete_users_cascade gone db)"
proof -
  obtain w where w: "w \<in> set (db_users db)" "active_admin w"
    using assms(1) by (auto simp: administered_def has_admin_def list_ex_iff)
  have "distinct (map us_ID (db_users db))" using assms(1) by (simp add: administered_def account_inv_def users_inv_def)
  then have "\<not> gone (us_ID w)" using assms(2)[of "us_ID w"] w distinct_map_inj by (fastforce simp: active_admin_def)
  then show ?thesis using w by (auto simp: has_admin_def list_ex_iff delete_users_cascade_def)
qed

interpretation admins: store_invariant administered
proof
  fix db :: database
  assume a: "administered db"
  then have inv: "account_inv db" and ha: "has_admin db" by (simp_all add: administered_def)
  show "administered (cut_tokens PA PR t reason db)" for PA PR t reason
    using accounts.cut[OF inv] ha by (simp add: administered_def has_admin_def)
  show "administered (burn_codes u t db)" for u t
    using accounts.codes[OF inv] ha by (simp add: administered_def has_admin_def)
  show "administered (delete_client_cascade c db)" for c
    using accounts.drop_client[OF inv] ha by (simp add: administered_def has_admin_def delete_client_cascade_def)
  show "administered (delete_users_cascade gone db)"
    if "\<And>i. gone i \<Longrightarrow> \<exists>u\<in>set (db_users db). us_ID u = i \<and> us_State u = UserStateDeleted" for gone
    using account_inv_drop[OF inv] has_admin_drop[OF a that] by (simp add: administered_def)
  show "administered db'" if "account_effect db db'" for db'
    using that inv ha by (simp add: account_effect_def administered_def)
qed (auto simp: administered_def has_admin_def ticket_effect_frame intro: account_inv_cong(1))

text \<open>The verdict on a ticket: once given it stays.\<close>

definition verdict_kept :: "int \<Rightarrow> AlumniRequestStatus \<Rightarrow> database \<Rightarrow> bool" where
  "verdict_kept i s db \<longleftrightarrow> s \<noteq> AlumniRequestStatusPending \<and> i \<le> db_seq db \<and>
     (\<forall>a\<in>set (db_alumni db). al_ID a = i \<longrightarrow> al_Status a = s)"

lemma verdict_kept_cong:
  "db_alumni db' = db_alumni db \<Longrightarrow> db_seq db \<le> db_seq db' \<Longrightarrow> verdict_kept i s db \<Longrightarrow> verdict_kept i s db'"
  by (auto simp: verdict_kept_def)

lemma fold_upsert_alumni [simp]: "db_alumni (fold (upsert_outbox t) es db) = db_alumni db"
  by (induction es arbitrary: db) (simp_all add: upsert_outbox_def)

interpretation verdicts: store_invariant "verdict_kept i s" for i s
proof
  fix db :: database
  assume v: "verdict_kept i s db"
  show "verdict_kept i s (cut_tokens PA PR t reason db)" for PA PR t reason
    by (rule verdict_kept_cong[OF _ cut_tokens_seq v]) (simp add: cut_tokens_def revoke_refresh_def revoke_access_def)
  show "verdict_kept i s (delete_users_cascade gone db)" for gone
    using v by (auto simp: verdict_kept_def delete_users_cascade_def unlink_ticket_def)
  show "verdict_kept i s db'" if "ticket_effect db db'" for db'
    using that v unfolding ticket_effect_def verdict_kept_def by (metis leD order_trans)
qed (auto intro: verdict_kept_cong simp: burn_codes_def delete_client_cascade_def account_effect_def others_kept_def)

end
