(* ===== verification/Store_System.thy ===== *)
theory Store_System
  imports Store_Laws
begin

text \<open>
  The store as a transition system: one rule per writing operation of the repositories, each
  with arbitrary arguments, clock readings and statement failures. The invariants of the token,
  consent and outbox tables hold in every reachable state. The only condition on a caller is
  that a family identifier is not reused after retention removed the family's origin row.
\<close>

section \<open>Commits of the issuing operations\<close>

definition issued :: "access_token option \<Rightarrow> refresh_token option \<Rightarrow> database \<Rightarrow> database \<Rightarrow> bool" where
  "issued access refresh db db' \<longleftrightarrow>
    (\<exists>flt pair db1 rows. createTokenPairInTransaction flt access refresh db = Inr (pair, db1)
       \<and> db' = db1\<lparr>db_audit := rows\<rparr>)"

lemma issuedI:
  "createTokenPairInTransaction flt access refresh db = Inr (pair, db1) \<Longrightarrow>
     issued access refresh db (db1\<lparr>db_audit := rows\<rparr>)"
  unfolding issued_def by blast

lemma CreatePair_cases:
  "snd (CreatePair flt access refresh db) = db \<or> issued access refresh db (snd (CreatePair flt access refresh db))"
proof (cases rule: transaction_cases[of "createTokenPairInTransaction flt access refresh" db flt])
  case (commit x db')
  then show ?thesis using issuedI[OF commit(1), of "db_audit db'"] by (simp add: CreatePair_def)
qed (simp add: CreatePair_def)

lemma CreatePairWithAudit_cases:
  "snd (CreatePairWithAudit flt access refresh audit db) = db
   \<or> issued access refresh db (snd (CreatePairWithAudit flt access refresh audit db))"
proof -
  let ?body = "\<lambda>db. bindE (createTokenPairInTransaction flt access refresh db) (\<lambda>(pair, db1).
       bindE (insert_audit flt ''create login audit'' audit db1) (\<lambda>(_, db2). Inr (pair, db2)))"
  show ?thesis unfolding CreatePairWithAudit_def
    by (cases rule: transaction_cases[of ?body db flt])
      (auto simp: bindE_eq_Inr_iff dest!: insert_audit_InrD intro: issuedI)
qed

lemma createLockedPairBody_InrD:
  assumes "createLockedPairBody flt now u c v z a r audit db = Inr (pair, db')"
  obtains locked client authz db1 rows where
    "find_user db u = Some locked" "us_TokenVersion locked = v"
    "find_client db c = Some client" "cl_IsActive client = Some True"
    "ContainsAll (cl_Scopes client) (at_Scopes a) = Inr True"
    "authz \<in> set (db_authorizations db)" "az_ID authz = z" "az_UserID authz = u" "az_ClientID authz = c"
    "az_IsUsed authz" "az_FamilyID authz = Some (rt_FamilyID r)" "now < az_ExpiresAt authz"
    "createTokenPairInTransaction flt (Some a) (Some r) db = Inr (pair, db1)"
    "db' = db1\<lparr>db_audit := rows\<rparr>"
proof -
  obtain locked where l: "find_user db u = Some locked" "us_TokenVersion locked = v"
    using assms by (auto simp: createLockedPairBody_def stmt_Inr_iff split: option.splits if_splits)
  moreover obtain client where c: "find_client db c = Some client" "cl_IsActive client = Some True"
    "ContainsAll (cl_Scopes client) (at_Scopes a) = Inr True"
    using assms l
    by (auto simp: createLockedPairBody_def stmt_Inr_iff split: option.splits if_splits sum.splits)
  moreover obtain authz where
    f: "List.find (\<lambda>y. az_ID y = z \<and> az_UserID y = u \<and> az_ClientID y = c \<and> az_IsUsed y
          \<and> az_FamilyID y = Some (rt_FamilyID r)) (db_authorizations db) = Some authz"
    using assms l c by (auto simp: createLockedPairBody_def stmt_Inr_iff split: option.splits)
  moreover have "now < az_ExpiresAt authz"
    using assms l c f by (simp add: createLockedPairBody_def stmt_Inr_iff split: if_splits)
  moreover obtain db1 x where "createTokenPairInTransaction flt (Some a) (Some r) db = Inr (pair, db1)"
    "insert_audit flt ''create pair audit'' audit db1 = Inr (x, db')"
    using assms l c f by (auto simp: createLockedPairBody_def stmt_Inr_iff bindE_eq_Inr_iff split: if_splits)
  ultimately show thesis using that find_SomeD[OF f] by (blast dest: insert_audit_InrD)
qed

lemma CreatePairLocked_cases:
  obtains (error) e where
    "CreatePairWithUserAndClientLock flt now u c v z access refresh audit db = (Inl e, db)"
  | (commit) a r pair db' where "access = Some a" "refresh = Some r"
      "createLockedPairBody flt now u c v z a r audit db = Inr (pair, db')"
      "CreatePairWithUserAndClientLock flt now u c v z access refresh audit db = (Inr pair, db')"
proof (cases "validateTokenPair access refresh")
  case None
  then obtain a r where ar: "access = Some a" "refresh = Some r" by (rule validateTokenPair_NoneE)
  show ?thesis
  proof (cases rule: transaction_cases[of "createLockedPairBody flt now u c v z a r audit" db flt])
    case (commit x db')
    then show ?thesis using that(2)[OF ar] None ar by (simp add: CreatePairWithUserAndClientLock_def)
  next
    case (rollback e)
    then show ?thesis using that(1) None ar by (simp add: CreatePairWithUserAndClientLock_def)
  qed
qed (use that(1) in \<open>simp add: CreatePairWithUserAndClientLock_def\<close>)

lemma CreatePairLocked_issued:
  "snd (CreatePairWithUserAndClientLock flt now u c v z access refresh audit db) = db
   \<or> issued access refresh db (snd (CreatePairWithUserAndClientLock flt now u c v z access refresh audit db))"
  by (cases rule: CreatePairLocked_cases[of flt now u c v z access refresh audit db])
    (auto elim!: createLockedPairBody_InrD intro: issuedI)

section \<open>The transition system\<close>

definition opens_known_family :: "refresh_token option \<Rightarrow> database \<Rightarrow> bool" where
  "opens_known_family refresh db \<longleftrightarrow>
    (\<forall>r. refresh = Some r \<longrightarrow> rt_Sequence r = 0 \<longrightarrow> origin_kept db (rt_FamilyID r))"

definition factory_opens_known_family :: "token_pair_factory option \<Rightarrow> database \<Rightarrow> bool" where
  "factory_opens_known_family mk db \<longleftrightarrow>
    (\<forall>f u access refresh. mk = Some f \<longrightarrow> f u = Inr (access, refresh) \<longrightarrow> opens_known_family refresh db)"

inductive store_step :: "database \<Rightarrow> database \<Rightarrow> bool" where
  create: "opens_known_family refresh db \<Longrightarrow> store_step db (snd (CreatePair flt access refresh db))"
| create_audit: "opens_known_family refresh db \<Longrightarrow>
    store_step db (snd (CreatePairWithAudit flt access refresh audit db))"
| create_locked: "opens_known_family refresh db \<Longrightarrow>
    store_step db (snd (CreatePairWithUserAndClientLock flt now u c v z access refresh audit db))"
| rotate: "store_step db (snd (rotateRefreshToken flt now f h access refresh audit m db))"
| revoke_family: "store_step db (snd (RevokeFamily flt f t db))"
| revoke_user: "store_step db (snd (RevokeAllByUser flt u t db))"
| revoke_grant: "store_step db (snd (RevokeUserClientTokens flt u c t db))"
| consent: "store_step db (snd (CreateWithGrant flt now authz db))"
| silent: "store_step db (snd (CreateWithExistingGrant flt now authz db))"
| consume: "store_step db (snd (Consume flt code now c db))"
| client_new: "store_step db (snd (CreateClient flt cl db))"
| client_update: "store_step db (snd (UpdateAndRevoke flt dbnow i fs rv t w db))"
| client_delete: "store_step db (snd (DeleteAndRevoke flt i t db))"
| password: "store_step db (snd (UpdatePasswordAndRevokeSessions flt u p t reason db))"
| rehash: "store_step db (snd (UpdatePasswordHash flt u p p' db))"
| evict: "store_step db (snd (ResolveDeviceEviction flt u h f g e t db))"
| claim: "store_step db (snd (ClaimDue flt tok skip now lease limit db))"
| ack: "store_step db (snd (Ack flt i tok db))"
| ack_many: "store_step db (snd (AckMany flt is tok db))"
| fail: "store_step db (snd (Fail flt i tok t t' msg db))"
| cleanup: "store_step db (snd (CleanupExpired flt pick now n db))"
| sweep_codes: "store_step db (snd (DeleteExpiredAuthorizations flt pick cutoff n db))"
| sweep_access: "store_step db (snd (DeleteExpiredAccessTokens flt pick cutoff n db))"
| sweep_refresh: "store_step db (snd (DeleteRevokedRefreshTokens flt pick cutoff n db))"
| sweep_audit: "store_step db (snd (DeleteExpiredAuditLogs flt pick cutoff n db))"
| recompute: "store_step db (snd (RecomputeDerivedState flt ext cursor now n db))"
| purge: "store_step db (snd (PurgeDeletedUsers flt skipu before now n db))"
| user_new: "fresh_option user \<Longrightarrow> store_step db (snd (CreateWithProfile flt lx pg user prof db))"
| user_provision: "fresh_option user \<Longrightarrow> store_step db (snd (CreateAdminUser flt lx pg user prof bind db))"
| register: "fresh_option user \<Longrightarrow> factory_opens_known_family mk db \<Longrightarrow>
    store_step db (snd (CreateRegistrationWithIdentity flt lx pg user prof bind mk db))"
| profile_edit: "store_step db (snd (UpdateProfile flt u pu db))"
| unbind: "store_step db (snd (DeleteByIDAndUser flt i u db))"
| unbind_guarded: "store_step db (snd (DeleteIdentityGuardingLoginMethod flt i u db))"
| credentials: "store_step db (snd (UpdateProviderCredentials flt i creds db))"
| bind_within: "store_step db (snd (CreateWithinLimit flt bind n db))"
| admin_edit: "store_step db (snd (UpdateAdminUser flt ext lx pg u up caller t db))"
| close: "store_step db (snd (SoftDeleteAndRevokeSessions flt u caller t db))"
| reopen: "store_step db (snd (RestoreUser flt ext u caller now db))"
| audit: "store_step db (snd (CreateAuditLog flt row db))"
| ticket_new: "store_step db (snd (CreateAlumniRequest flt pg now ticket db))"
| ticket_approve: "provision_fresh f \<Longrightarrow> store_step db (snd (ApproveAlumniRequest flt lx pg i r now f db))"
| ticket_recover: "store_step db (snd (ApproveAlumniRequestRecover flt pg i r now db))"
| ticket_reject: "store_step db (snd (RejectAlumniRequest flt i r reason silent now db))"
| ticket_attempt: "store_step db (snd (MarkNotifyAttempt flt i db))"
| ticket_notified: "store_step db (snd (MarkNotified flt i now db))"
| sweep_tickets: "store_step db (snd (DeleteExpiredAlumniRequests flt pick cutoff n db))"

section \<open>Preservation\<close>

lemma issuedE:
  assumes "issued access refresh db db'"
  obtains flt a r rows a' r' where "access = Some a" "refresh = Some r"
    "createTokenPairInTransaction flt access refresh db = Inr ((a', r'), append_pair a r db)"
    "db' = (append_pair a r db)\<lparr>db_audit := rows\<rparr>"
    "rt_TokenHash r \<notin> rt_TokenHash ` set (db_refresh db)"
proof -
  obtain flt a' r' db1 rows where i: "createTokenPairInTransaction flt access refresh db = Inr ((a', r'), db1)"
    "db' = db1\<lparr>db_audit := rows\<rparr>"
    using assms unfolding issued_def by (metis prod.collapse)
  from i(1) show thesis
    by (rule createTokenPair_InrD) (use that i in simp)
qed

lemma token_inv_issued:
  assumes "token_inv db" "opens_known_family refresh db" "issued access refresh db db'"
  shows "token_inv db'"
  using assms(3)
proof (rule issuedE)
  fix flt a r rows a' r'
  assume i: "createTokenPairInTransaction flt access refresh db = Inr ((a', r'), append_pair a r db)"
    and db': "db' = (append_pair a r db)\<lparr>db_audit := rows\<rparr>"
  have "token_inv (append_pair a r db)"
    by (rule token_inv_createTokenPair[OF assms(1) _ i]) (use assms(2) in \<open>simp add: opens_known_family_def\<close>)
  then show ?thesis unfolding db' by (rule tokens.write_audit)
qed

lemma append_pair_frame [simp]:
  "db_authorizations (append_pair a r db) = db_authorizations db" "db_grants (append_pair a r db) = db_grants db"
  "db_outbox (append_pair a r db) = db_outbox db" "db_seq (append_pair a r db) = db_seq db + 2"
  "db_users (append_pair a r db) = db_users db" "db_profiles (append_pair a r db) = db_profiles db"
  "db_identities (append_pair a r db) = db_identities db" "db_clients (append_pair a r db) = db_clients db"
  "db_alumni (append_pair a r db) = db_alumni db"
  by (simp_all add: append_pair_def)

lemma consent_outbox_issued:
  assumes "issued access refresh db db'"
  shows "consent_inv db \<Longrightarrow> consent_inv db'" "outbox_inv db \<Longrightarrow> outbox_inv db'"
  using assms
  by (auto elim!: issuedE intro!: consent_inv_cong[where db = db] outbox_inv_cong[where db = db])

lemma refresh_dead_append:
  assumes "refresh_dead h db" "rt_TokenHash r \<noteq> h"
  shows "refresh_dead h ((append_pair a r db)\<lparr>db_audit := rows\<rparr>)"
  using assms by (auto simp: refresh_dead_def append_pair_def)

lemma refresh_dead_issued:
  assumes "issued access refresh db db'" "refresh_dead h db" "h \<in> rt_TokenHash ` set (db_refresh db)"
  shows "refresh_dead h db'"
  using assms(1)
proof (rule issuedE)
  fix a r rows
  assume "db' = (append_pair a r db)\<lparr>db_audit := rows\<rparr>"
    "rt_TokenHash r \<notin> rt_TokenHash ` set (db_refresh db)"
  then show ?thesis using refresh_dead_append[OF assms(2), of r] assms(3) by metis
qed

text \<open>A registration writes the account tables and then issues a pair.\<close>

lemma opens_known_family_kept:
  "others_kept db db' \<Longrightarrow> opens_known_family refresh db \<Longrightarrow> opens_known_family refresh db'"
  by (simp add: opens_known_family_def origin_kept_def others_kept_def)

lemma registrationBody_cases:
  assumes "registrationBody flt lx pg u p bind f db = Inr (u', db')" "fresh_account u"
    "factory_opens_known_family (Some f) db"
  shows "\<exists>db2 access refresh. account_effect db db2 \<and> opens_known_family refresh db2 \<and> issued access refresh db2 db'"
  using assms(1,2)
proof (rule registrationBody_InrE)
  fix db2 access refresh pair
  assume e: "account_effect db db2" and f: "f u' = Inr (access, refresh)"
    and c: "createTokenPairInTransaction flt access refresh db2 = Inr (pair, db')"
  have "issued access refresh db2 db'" using issuedI[OF c, of "db_audit db'"] by simp
  moreover have "opens_known_family refresh db"
    using assms(3) f unfolding factory_opens_known_family_def by blast
  ultimately show ?thesis using e opens_known_family_kept account_effect_def by blast
qed

lemma registration_cases:
  assumes "fresh_option user" "factory_opens_known_family mk db"
  shows "snd (CreateRegistrationWithIdentity flt lx pg user prof bind mk db) = db
   \<or> (\<exists>db2 access refresh. account_effect db db2 \<and> opens_known_family refresh db2
        \<and> issued access refresh db2 (snd (CreateRegistrationWithIdentity flt lx pg user prof bind mk db)))"
proof (cases "\<exists>u p f. user = Some u \<and> prof = Some p \<and> mk = Some f")
  case True
  then obtain u p f where upf: "user = Some u" "prof = Some p" "mk = Some f" by blast
  have u: "fresh_account u" using assms(1) upf by (simp add: fresh_option_def)
  show ?thesis
    by (cases rule: transaction_cases[of "registrationBody flt lx pg u p bind f" db flt])
      (use registrationBody_cases[OF _ u] assms(2) upf in \<open>auto simp: CreateRegistrationWithIdentity_def\<close>)
qed (auto simp: CreateRegistrationWithIdentity_def split: option.splits)

text \<open>A rotation either leaves the store alone, cuts the family, or appends the successor.\<close>

lemma rotate_effect:
  obtains (same) "snd (rotateRefreshToken flt now f h access refresh audit m db) = db"
  | (cut) "snd (rotateRefreshToken flt now f h access refresh audit m db) = cut_family f now db"
  | (succ) c a r rows where "rt_TokenHash r \<notin> rt_TokenHash ` set (db_refresh db)"
      "snd (rotateRefreshToken flt now f h access refresh audit m db)
        = (append_pair a r (cut_current now c db))\<lparr>db_audit := rows\<rparr>"
proof (cases rule: rotateRefreshToken_cases[of flt now f h access refresh audit m db])
  case (error e)
  then show ?thesis using that(1) by simp
next
  case (commit a r out db')
  from commit(6) show ?thesis
  proof (cases rule: rotateBody_InrE)
    case cut
    then show ?thesis using that(2) commit(7) by simp
  next
    case (rotated c origin)
    note w = rotateWrites_InrD[OF rotated(10)]
    show ?thesis using that(3)[of "clampRefresh m origin r"] w(1,4) commit(7) by auto
  qed
qed

lemma cut_current_consent_frame [simp]:
  "db_authorizations (cut_current now c db) = db_authorizations db"
  "db_grants (cut_current now c db) = db_grants db"
  by (simp_all add: cut_current_def)

lemma rotate_preserves:
  "consent_inv db \<Longrightarrow> consent_inv (snd (rotateRefreshToken flt now f h access refresh audit m db))"
  "outbox_inv db \<Longrightarrow> outbox_inv (snd (rotateRefreshToken flt now f h access refresh audit m db))"
  by (cases rule: rotate_effect[of flt now f h access refresh audit m db];
      auto simp: cut_family_def intro!: consents.cut outbox.cut consent_inv_cong[where db = db] outbox_inv_cong[where db = db])+

lemma refresh_dead_cut_current: "refresh_dead h db \<Longrightarrow> refresh_dead h (cut_current now c db)"
  unfolding refresh_dead_def cut_current_def by (auto elim!: in_update_whereE split: if_splits)

lemma refresh_dead_rotate:
  assumes "refresh_dead h db" "h \<in> rt_TokenHash ` set (db_refresh db)"
  shows "refresh_dead h (snd (rotateRefreshToken flt now f k access refresh audit m db))"
proof (cases rule: rotate_effect[of flt now f k access refresh audit m db])
  case (succ c a r rows)
  then have "rt_TokenHash r \<noteq> h" using assms(2) by blast
  then show ?thesis
    using refresh_dead_append[OF refresh_dead_cut_current[OF assms(1)]] succ(2) by simp
qed (use assms(1) in \<open>simp_all add: cut_family_def dead.cut\<close>)

text \<open>The consent operations leave the token, outbox and account tables alone.\<close>

definition tokens_kept :: "database \<Rightarrow> database \<Rightarrow> bool" where
  "tokens_kept db db' \<longleftrightarrow> db_refresh db' = db_refresh db \<and> db_access db' = db_access db
     \<and> db_outbox db' = db_outbox db \<and> db_seq db \<le> db_seq db'
     \<and> db_users db' = db_users db \<and> db_profiles db' = db_profiles db \<and> db_identities db' = db_identities db
     \<and> db_alumni db' = db_alumni db"

lemma tokens_keptD:
  assumes "tokens_kept db db'"
  shows "token_inv db \<Longrightarrow> token_inv db'" "outbox_inv db \<Longrightarrow> outbox_inv db'" "refresh_dead h db \<Longrightarrow> refresh_dead h db'"
  using assms by (auto simp: tokens_kept_def refresh_dead_def intro: token_inv_cong outbox_inv_cong)

lemma tokens_kept_insert_authorization:
  "insert_authorization flt now z db = Inr (z', db') \<Longrightarrow> tokens_kept db db'"
  by (auto dest!: insert_authorization_InrD(2) simp: tokens_kept_def)

definition consent_effect :: "database \<Rightarrow> database \<Rightarrow> bool" where
  "consent_effect db db' \<longleftrightarrow> tokens_kept db db' \<and> (consent_inv db \<longrightarrow> consent_inv db')"

lemma consent_effect_refl [simp]: "consent_effect db db"
  by (simp add: consent_effect_def tokens_kept_def)

lemma consent_effect_transaction:
  "(\<And>x db'. body db = Inr (x, db') \<Longrightarrow> consent_effect db db') \<Longrightarrow>
     consent_effect db (snd (transaction flt body db))"
  by (rule transaction_preserves) simp_all

lemma CreateWithGrant_effect: "consent_effect db (snd (CreateWithGrant flt now authz db))"
proof -
  have "consent_effect db db1" if b: "createWithGrantBody flt now z db = Inr (z', db1)" for z z' db1
    using b consent_inv_createWithGrant[OF _ b] unfolding consent_effect_def
    by (auto elim!: createWithGrantBody_InrD dest!: tokens_kept_insert_authorization simp: tokens_kept_def)
  then show ?thesis
    by (auto simp: CreateWithGrant_def split: option.splits intro: consent_effect_transaction)
qed

lemma CreateWithExistingGrant_effect: "consent_effect db (snd (CreateWithExistingGrant flt now authz db))"
proof -
  have "consent_effect db db1" if b: "createWithExistingGrantBody flt now z db = Inr (z', db1)" for z z' db1
    using tokens_kept_insert_authorization[OF createWithExistingGrantBody_InrD(2)[OF b]]
      consent_inv_createWithExistingGrant[OF _ b] by (auto simp: tokens_kept_def consent_effect_def)
  then show ?thesis
    by (auto simp: CreateWithExistingGrant_def split: option.splits intro: consent_effect_transaction)
qed

lemma Consume_effect: "consent_effect db (snd (Consume flt code now c db))"
proof -
  have "consent_effect db db1" if b: "consumeBody flt code now c db = Inr (out, db1)" for out db1
  proof -
    from b have "tokens_kept db db1" by (cases rule: consumeBody_InrE) (auto simp: tokens_kept_def)
    then show ?thesis using consent_inv_consumeBody[OF _ b] by (simp add: consent_effect_def)
  qed
  then have "consent_effect db (snd (transaction flt (consumeBody flt code now c) db))"
    by (rule consent_effect_transaction)
  then show ?thesis unfolding Consume_def
    by (auto split: prod.splits sum.splits consume_outcome.splits)
qed

text \<open>The outbox operations write the outbox only.\<close>

definition outbox_effect :: "database \<Rightarrow> database \<Rightarrow> bool" where
  "outbox_effect db db' \<longleftrightarrow> (\<exists>rows. db' = db\<lparr>db_outbox := rows\<rparr>) \<and> (outbox_inv db \<longrightarrow> outbox_inv db')"

lemma outbox_effectD:
  assumes "outbox_effect db db'"
  shows "token_inv db \<Longrightarrow> token_inv db'" "consent_inv db \<Longrightarrow> consent_inv db'"
    "outbox_inv db \<Longrightarrow> outbox_inv db'" "refresh_dead h db \<Longrightarrow> refresh_dead h db'"
  using assms
  by (auto simp: outbox_effect_def refresh_dead_def intro: token_inv_cong consent_inv_cong)

lemma outbox_effect_refl [simp]: "outbox_effect db db"
  unfolding outbox_effect_def by (metis (full_types) database.surjective database.update_convs(9))

lemma outbox_effect_delete: "outbox_effect db (db\<lparr>db_outbox := delete_where P (db_outbox db)\<rparr>)"
  by (auto simp: outbox_effect_def outbox_inv_def delete_where_def distinct_map_filter)

lemma outbox_effect_update:
  assumes "\<And>x. ob_ID (g x) = ob_ID x \<and> ob_TokenID (g x) = ob_TokenID x
    \<and> (ob_ClaimToken (g x) = None \<longleftrightarrow> ob_ClaimedUntil (g x) = None)"
  shows "outbox_effect db (db\<lparr>db_outbox := update_where P g (db_outbox db)\<rparr>)"
  using assms by (fastforce simp: outbox_effect_def outbox_inv_def map_update_where set_update_where)

lemma outbox_ops_effect:
  "outbox_effect db (snd (ClaimDue flt tok skip now lease limit db))"
  "outbox_effect db (snd (Ack flt i tok db))" "outbox_effect db (snd (AckMany flt is tok db))"
  "outbox_effect db (snd (Fail flt i tok t t' msg db))"
  "outbox_effect db (snd (CleanupExpired flt pick now n db))"
  by (auto simp: ClaimDue_def Ack_def AckMany_def Fail_def CleanupExpired_def Let_def lease_row_def
      intro!: outbox_effect_delete outbox_effect_update)

text \<open>The sweeps only delete.\<close>

definition swept :: "database \<Rightarrow> database \<Rightarrow> bool" where
  "swept db db' \<longleftrightarrow> (\<exists>P Q R. db' = db\<lparr>db_authorizations := delete_where P (db_authorizations db),
     db_access := delete_where Q (db_access db), db_refresh := delete_where R (db_refresh db)\<rparr>)"

lemma delete_nothing [simp]: "delete_where (\<lambda>_. False) xs = xs"
  by (simp add: delete_where_def)

lemma sweptI:
  "swept db db"
  "swept db (db\<lparr>db_authorizations := delete_where P (db_authorizations db)\<rparr>)"
  "swept db (db\<lparr>db_access := delete_where Q (db_access db)\<rparr>)"
  "swept db (db\<lparr>db_refresh := delete_where R (db_refresh db)\<rparr>)"
  unfolding swept_def
  by (rule exI[of _ "\<lambda>_. False"] exI[of _ P], rule exI[of _ "\<lambda>_. False"] exI[of _ Q],
      rule exI[of _ "\<lambda>_. False"] exI[of _ R], simp; fail)+

lemma sweptD:
  assumes "swept db db'"
  shows "token_inv db \<Longrightarrow> token_inv db'" "consent_inv db \<Longrightarrow> consent_inv db'"
    "outbox_inv db \<Longrightarrow> outbox_inv db'" "refresh_dead h db \<Longrightarrow> refresh_dead h db'"
proof -
  obtain P Q R where db': "db' = db\<lparr>db_authorizations := delete_where P (db_authorizations db),
     db_access := delete_where Q (db_access db), db_refresh := delete_where R (db_refresh db)\<rparr>"
    using assms by (auto simp: swept_def)
  show "token_inv db \<Longrightarrow> token_inv db'"
    by (rule token_inv_cong[OF _ _ _ token_inv_delete[of db R Q]]) (simp_all add: db')
  show "consent_inv db \<Longrightarrow> consent_inv db'"
    by (rule consent_inv_cong[OF _ _ _ _ _ consent_inv_delete[of db "\<lambda>_. False" P]]) (simp_all add: db')
  show "outbox_inv db \<Longrightarrow> outbox_inv db'" by (rule outbox_inv_cong) (simp_all add: db')
  show "refresh_dead h db \<Longrightarrow> refresh_dead h db'" by (simp add: db' refresh_dead_def)
qed

lemma sweep_ops_swept:
  "swept db (snd (DeleteExpiredAuthorizations flt pick cutoff n db))"
  "swept db (snd (DeleteExpiredAccessTokens flt pick cutoff n db))"
  "swept db (snd (DeleteRevokedRefreshTokens flt pick cutoff n db))"
  unfolding DeleteExpiredAuthorizations_def DeleteExpiredAccessTokens_def DeleteRevokedRefreshTokens_def
    commit_rows_def deleteBatch_def stmt_def Let_def
  by (auto intro: sweptI)

lemma CreateClient_effect: "consent_effect db (snd (CreateClient flt cl db))"
  by (auto simp: CreateClient_def consent_effect_def tokens_kept_def Let_def split: option.splits
      intro: consent_inv_cong)

section \<open>Invariants of every reachable state\<close>

text \<open>The contract of an invariant of the whole system: besides the revocation laws it survives an
  issued pair, a rotation, and the three kinds of writes that stay inside one group of tables.\<close>

locale system_invariant = store_invariant +
  assumes issue: "I db \<Longrightarrow> opens_known_family refresh db \<Longrightarrow> issued access refresh db db' \<Longrightarrow> I db'"
    and rotation: "I db \<Longrightarrow> I (snd (rotateRefreshToken flt now f h access refresh audit m db))"
    and consent_write: "I db \<Longrightarrow> consent_effect db db' \<Longrightarrow> I db'"
    and outbox_write: "I db \<Longrightarrow> outbox_effect db db' \<Longrightarrow> I db'"
    and sweep: "I db \<Longrightarrow> swept db db' \<Longrightarrow> I db'"
begin

lemmas revocations = RevokeFamily RevokeAllByUser RevokeUserClientTokens UpdateAndRevoke DeleteAndRevoke
  UpdatePassword UpdatePasswordHash ResolveDeviceEviction DeleteExpiredAuditLogs RecomputeDerivedState
  PurgeDeletedUsers CreateAuditLog

lemma registration:
  assumes "I db" "fresh_option user" "factory_opens_known_family mk db"
  shows "I (snd (CreateRegistrationWithIdentity flt lx pg user prof bind mk db))"
  using registration_cases[OF assms(2,3), of flt lx pg prof bind] assms(1) account_write issue by metis

lemma step:
  assumes "store_step db db'" "I db"
  shows "I db'"
  using assms
proof (induction rule: store_step.induct)
  case (create refresh db flt access)
  then show ?case using CreatePair_cases[of flt access refresh db] issue by auto
next
  case (create_audit refresh db flt access audit)
  then show ?case using CreatePairWithAudit_cases[of flt access refresh audit db] issue by auto
next
  case (create_locked refresh db flt now u c v z access audit)
  then show ?case using CreatePairLocked_issued[of flt now u c v z access refresh audit db] issue by auto
qed (auto intro: revocations rotation account_writes tickets registration
    consent_write[OF _ CreateWithGrant_effect] consent_write[OF _ CreateWithExistingGrant_effect]
    consent_write[OF _ Consume_effect] consent_write[OF _ CreateClient_effect]
    outbox_write[OF _ outbox_ops_effect(1)] outbox_write[OF _ outbox_ops_effect(2)]
    outbox_write[OF _ outbox_ops_effect(3)] outbox_write[OF _ outbox_ops_effect(4)]
    outbox_write[OF _ outbox_ops_effect(5)] sweep[OF _ sweep_ops_swept(1)]
    sweep[OF _ sweep_ops_swept(2)] sweep[OF _ sweep_ops_swept(3)])

lemma reachable: "store_step\<^sup>*\<^sup>* db db' \<Longrightarrow> I db \<Longrightarrow> I db'"
  by (induction rule: rtranclp_induct) (auto intro: step)

end

interpretation tokens_sys: system_invariant token_inv
  by unfold_locales (auto intro: token_inv_issued token_inv_rotateRefreshToken tokens_keptD(1)
      outbox_effectD(1) sweptD(1) simp: consent_effect_def)

interpretation consents_sys: system_invariant consent_inv
  by unfold_locales (auto intro: consent_outbox_issued(1) rotate_preserves(1) outbox_effectD(2) sweptD(2)
      simp: consent_effect_def)

interpretation outbox_sys: system_invariant outbox_inv
  by unfold_locales (auto intro: consent_outbox_issued(2) rotate_preserves(2) tokens_keptD(2)
      outbox_effectD(3) sweptD(3) simp: consent_effect_def)

text \<open>A revoked refresh token stays revoked as long as its row exists.\<close>

lemma refresh_dead_of_revoked:
  "token_inv db \<Longrightarrow> r \<in> set (db_refresh db) \<Longrightarrow> rt_RevokedAt r \<noteq> None \<Longrightarrow> refresh_dead (rt_TokenHash r) db"
  unfolding refresh_dead_def token_inv_def keys_inv_def by (metis distinct_map_inj)

lemmas dead_ops = dead.RevokeFamily dead.RevokeAllByUser dead.RevokeUserClientTokens dead.UpdateAndRevoke
  dead.DeleteAndRevoke dead.UpdatePassword dead.UpdatePasswordHash dead.ResolveDeviceEviction
  dead.DeleteExpiredAuditLogs dead.RecomputeDerivedState dead.PurgeDeletedUsers dead.CreateAuditLog dead.account_writes dead.tickets

lemma refresh_dead_step:
  assumes "store_step db db'" "refresh_dead h db" "h \<in> rt_TokenHash ` set (db_refresh db)"
  shows "refresh_dead h db'"
  using assms
proof (induction rule: store_step.induct)
  case (create refresh db flt access)
  then show ?case using CreatePair_cases[of flt access refresh db] refresh_dead_issued by auto
next
  case (create_audit refresh db flt access audit)
  then show ?case using CreatePairWithAudit_cases[of flt access refresh audit db] refresh_dead_issued by auto
next
  case (create_locked refresh db flt now u c v z access audit)
  then show ?case using CreatePairLocked_issued[of flt now u c v z access refresh audit db] refresh_dead_issued
    by auto
next
  case (register user mk db flt lx pg prof bind)
  have "refresh_dead h db'" if "account_effect db db2" "issued access refresh db2 db'" for db2 db' access refresh
  proof (rule refresh_dead_issued[OF that(2) dead.account_write[OF register(3) that(1)]])
    show "h \<in> rt_TokenHash ` set (db_refresh db2)"
      using register(4) that(1) by (simp add: account_effect_def others_kept_def)
  qed
  then show ?case using registration_cases[OF register(1,2), of flt lx pg prof bind] register(3) by metis
qed (auto intro: dead_ops refresh_dead_rotate tokens_keptD(3) outbox_effectD(4)[OF outbox_ops_effect(1)]
    outbox_effectD(4)[OF outbox_ops_effect(2)] outbox_effectD(4)[OF outbox_ops_effect(3)]
    outbox_effectD(4)[OF outbox_ops_effect(4)] outbox_effectD(4)[OF outbox_ops_effect(5)]
    sweptD(4)[OF sweep_ops_swept(1)] sweptD(4)[OF sweep_ops_swept(2)] sweptD(4)[OF sweep_ops_swept(3)]
    CreateWithGrant_effect[unfolded consent_effect_def, THEN conjunct1]
    CreateWithExistingGrant_effect[unfolded consent_effect_def, THEN conjunct1]
    Consume_effect[unfolded consent_effect_def, THEN conjunct1]
    CreateClient_effect[unfolded consent_effect_def, THEN conjunct1])

text \<open>The account tables and the administrators.\<close>

lemma accounts_kept:
  assumes "db_users db' = db_users db" "db_profiles db' = db_profiles db" "db_identities db' = db_identities db"
    "db_seq db \<le> db_seq db'"
  shows "account_inv db \<Longrightarrow> account_inv db'" "administered db \<Longrightarrow> administered db'"
  using account_inv_cong[OF assms] by (auto simp: administered_def)

lemma cut_current_accounts [simp]:
  "db_profiles (cut_current now c db) = db_profiles db" "db_identities (cut_current now c db) = db_identities db"
  "db_users (cut_current now c db) = db_users db" "db_seq (cut_current now c db) = db_seq db"
  by (simp_all add: cut_current_def)

lemma rotate_accounts:
  "account_inv db \<Longrightarrow> account_inv (snd (rotateRefreshToken flt now f h access refresh audit m db))"
  "administered db \<Longrightarrow> administered (snd (rotateRefreshToken flt now f h access refresh audit m db))"
  by (cases rule: rotate_effect[of flt now f h access refresh audit m db];
      auto simp: cut_family_def intro!: accounts.cut admins.cut accounts_kept[where db = db])+

lemma issued_accounts:
  assumes "issued access refresh db db'"
  shows "account_inv db \<Longrightarrow> account_inv db'" "administered db \<Longrightarrow> administered db'"
  using assms by (auto elim!: issuedE intro!: accounts_kept[where db = db])

lemma consent_outbox_sweep_accounts:
  "consent_effect db db' \<or> outbox_effect db db' \<or> swept db db' \<Longrightarrow> account_inv db \<Longrightarrow> account_inv db'"
  "consent_effect db db' \<or> outbox_effect db db' \<or> swept db db' \<Longrightarrow> administered db \<Longrightarrow> administered db'"
  by (auto simp: consent_effect_def tokens_kept_def outbox_effect_def swept_def
      intro!: accounts_kept[where db = db])

interpretation accounts_sys: system_invariant account_inv
  by unfold_locales (auto intro: issued_accounts rotate_accounts consent_outbox_sweep_accounts)

interpretation admins_sys: system_invariant administered
  by unfold_locales (auto intro: issued_accounts rotate_accounts consent_outbox_sweep_accounts)

text \<open>The verdicts on tickets.\<close>

lemma rotate_verdicts:
  "verdict_kept i s db \<Longrightarrow> verdict_kept i s (snd (rotateRefreshToken flt now f h access refresh audit m db))"
  by (cases rule: rotate_effect[of flt now f h access refresh audit m db])
    (auto simp: cut_family_def cut_current_def intro!: verdicts.cut verdict_kept_cong[where db = db])

lemma verdicts_frame:
  assumes "issued access refresh db db' \<or> consent_effect db db' \<or> outbox_effect db db' \<or> swept db db'"
  shows "verdict_kept i s db \<Longrightarrow> verdict_kept i s db'"
proof -
  have "db_alumni db' = db_alumni db \<and> db_seq db \<le> db_seq db'"
    using assms by (auto elim!: issuedE simp: consent_effect_def tokens_kept_def outbox_effect_def swept_def)
  then show "verdict_kept i s db \<Longrightarrow> verdict_kept i s db'" using verdict_kept_cong by blast
qed

interpretation verdicts_sys: system_invariant "verdict_kept i s" for i s
  by unfold_locales (auto intro: rotate_verdicts verdicts_frame)

end
