(* ===== verification/Samples.thy ===== *)
theory Samples
  imports Store_System
begin

text \<open>Concrete rows at which the witnesses instantiate the properties.\<close>

definition sample_user :: user where
  "sample_user = \<lparr>us_ID = 7, us_Role = ''member'', us_Name = ''n'', us_PhoneNumber = ''1'',
     us_QQNumber = ''2'', us_PasswordHash = ''p'', us_StudentID = ''B24040525'', us_State = ''njupter'',
     us_StateManual = False, us_EmailType = ''njupt_email'', us_LoginEmail = ''b24040525@njupt.edu.cn'', us_College = ''c'',
     us_Major = ''m'', us_TokenVersion = 3, us_DeletedAt = None\<rparr>"

definition sample_client :: oauth_client where
  "sample_client = \<lparr>cl_ID = 5, cl_ClientID = ''app'', cl_ClientSecretHash = None,
     cl_ClientName = ''App'', cl_ClientType = ''public'', cl_RedirectURIs = [''https://a.b/c''],
     cl_GrantTypes = [''authorization_code''], cl_Scopes = [''openid''], cl_IsActive = Some True,
     cl_UpdatedAt = 50\<rparr>"

definition sample_access :: access_token where
  "sample_access = \<lparr>at_ID = 0, at_TokenID = ''j1'', at_ClientID = 5, at_UserID = 7,
     at_FamilyID = Some ''f'', at_Scopes = [''openid''], at_RevokedAt = None,
     at_ExpiresAt = 1000 * Second, at_CreatedAt = 100\<rparr>"

definition sample_refresh :: refresh_token where
  "sample_refresh = \<lparr>rt_ID = 0, rt_TokenHash = ''h1'', rt_FamilyID = ''f'', rt_Sequence = 0,
     rt_ClientID = 5, rt_UserID = 7, rt_Scopes = [''openid''], rt_RevokedAt = None,
     rt_RevokedReason = None, rt_ExpiresAt = 5000 * Second, rt_CreatedAt = 100\<rparr>"

definition sample_code :: authorization where
  "sample_code = \<lparr>az_ID = 0, az_Code = ''code'', az_ClientID = 5, az_UserID = 7,
     az_RedirectURI = None, az_Scopes = [''openid''], az_CodeChallenge = ''ch'',
     az_CodeChallengeMethod = ''S256'', az_Nonce = None, az_IsUsed = False, az_FamilyID = Some ''f'',
     az_ExpiresAt = 600 * Second, az_CreatedAt = 100\<rparr>"

definition sample_grant :: oauth_grant where
  "sample_grant = \<lparr>gr_UserID = 7, gr_ClientID = 5, gr_Scopes = [''openid''], gr_GrantedAt = 90\<rparr>"

definition empty_store :: database where
  "empty_store = \<lparr>db_users = [], db_profiles = [], db_identities = [], db_clients = [],
     db_authorizations = [], db_grants = [], db_access = [], db_refresh = [], db_outbox = [],
     db_audit = [], db_alumni = [], db_seq = 100\<rparr>"

definition sample_store :: database where
  "sample_store = empty_store\<lparr>db_users := [sample_user], db_clients := [sample_client],
     db_grants := [sample_grant], db_authorizations := [sample_code\<lparr>az_ID := 1\<rparr>],
     db_access := [sample_access\<lparr>at_ID := 2\<rparr>], db_refresh := [sample_refresh\<lparr>rt_ID := 3\<rparr>]\<rparr>"

text \<open>The successor pair of the sample session.\<close>

definition next_access :: access_token where
  "next_access = sample_access\<lparr>at_TokenID := ''j2'', at_ExpiresAt := 2000 * Second, at_CreatedAt := 200\<rparr>"

definition next_refresh :: refresh_token where
  "next_refresh = sample_refresh\<lparr>rt_TokenHash := ''h2'', rt_Sequence := 1, rt_CreatedAt := 200\<rparr>"

lemmas sample_defs = sample_user_def sample_client_def sample_access_def sample_refresh_def
  sample_code_def sample_grant_def empty_store_def sample_store_def next_access_def next_refresh_def

lemma well_formed_sample: "well_formed [''openid'']"
  by (simp add: well_formed_def canonicalOrder_def OpenID_def oidcScopes_def)

lemma sample_pair_valid:
  "validateTokenPair (Some sample_access) (Some sample_refresh) = None"
  "validateTokenPair (Some next_access) (Some next_refresh) = None"
  by (simp_all add: validateTokenPair_None_iff sample_defs well_formed_sample)

lemma sample_token_inv: "token_inv sample_store" "token_inv empty_store"
  by (simp_all add: token_inv_def keys_inv_def chain_inv_def access_inv_def kin_def same_owner_def
      sample_defs well_formed_sample)

lemma sample_consent_inv: "consent_inv sample_store" "consent_inv empty_store"
  by (simp_all add: consent_inv_def sample_defs az_pair_def gr_pair_def)

lemma sample_outbox_inv: "outbox_inv sample_store" "outbox_inv empty_store"
  by (simp_all add: outbox_inv_def sample_defs)

lemma TrimSpace_f [simp]: "TrimSpace ''f'' = ''f''" "TrimSpace ''code'' = ''code''"
  by (simp_all add: TrimSpace_eq_iff trimmed_graphic graphic_ascii_def byte_def)

section \<open>Witnesses for the retention properties\<close>

theorem DeleteRevokedRefreshTokens_keeps_live_witness:
  "sample_refresh\<lparr>rt_ID := 3\<rparr> \<in> set (db_refresh (snd (DeleteRevokedRefreshTokens no_fault take (4000 * Second) 10 sample_store)))"
proof -
  have p: "sound_pick take" by (auto simp: sound_pick_def dest: in_set_takeD)
  have r: "sample_refresh\<lparr>rt_ID := 3\<rparr> \<in> set (db_refresh sample_store)" by (simp add: sample_store_def)
  show ?thesis
    using DeleteRevokedRefreshTokens_keeps_live[OF sample_token_inv(1) p r _ _ r]
    by (simp add: sample_refresh_def duration_defs)
qed

end
