(* ===== verification/Token_Properties.thy ===== *)
theory Token_Properties
  imports Samples
begin

text \<open>
  The properties of refresh-token rotation, replay detection and revocation, stated over the
  operations of \<open>Token_Store\<close> and the transition system of \<open>Store_System\<close>, with a witness on
  the sample store for each.
\<close>

section \<open>Families\<close>

definition live_in_family :: "database \<Rightarrow> string \<Rightarrow> refresh_token list" where
  "live_in_family db f = filter (\<lambda>r. rt_FamilyID r = f \<and> rt_RevokedAt r = None) (db_refresh db)"

lemma live_in_family_le_1:
  assumes "token_inv db"
  shows "length (live_in_family db f) \<le> 1"
proof -
  let ?L = "live_in_family db f"
  have chain: "chain_inv (set (db_refresh db))" and "distinct (map rt_ID (db_refresh db))"
    using assms by (simp_all add: token_inv_def keys_inv_def)
  then have d: "distinct ?L" by (simp add: live_in_family_def distinct_map)
  have "x = y" if "x \<in> set ?L" "y \<in> set ?L" for x y
    using single_live_refresh[OF chain, of x y] that by (simp add: live_in_family_def)
  then have "card (set ?L) \<le> 1" by (simp add: card_le_Suc0_iff_eq)
  then show ?thesis using distinct_card[OF d] by simp
qed

text \<open>A store that three operations reach from the empty one: a client, an account and an open session.\<close>

definition client_store :: database where
  "client_store = empty_store\<lparr>db_clients := [sample_client\<lparr>cl_ID := 101\<rparr>], db_seq := 101\<rparr>"

definition account_store :: database where
  "account_store = client_store\<lparr>db_users := [sample_user\<lparr>us_ID := 102\<rparr>], db_profiles := [blank_profile 102], db_seq := 102\<rparr>"

definition opened_store :: database where
  "opened_store = account_store\<lparr>db_access := [sample_access\<lparr>at_ID := 103, at_ClientID := 101, at_UserID := 102\<rparr>],
     db_refresh := [sample_refresh\<lparr>rt_ID := 104, rt_ClientID := 101, rt_UserID := 102\<rparr>], db_seq := 104\<rparr>"

lemma opened_store_reachable: "store_step\<^sup>*\<^sup>* empty_store opened_store"
proof -
  have client: "snd (CreateClient no_fault (Some sample_client) empty_store) = client_store"
    by (simp add: CreateClient_def empty_store_def client_row_ok_def sample_client_def client_store_def Let_def no_fault_def)
  have guard: "guardNewUserAssignment no_fault lx pg u db = Inr ()" if "db_users db = []" for lx pg u db using that
    by (simp add: guardNewUserAssignment_def lockIdentityAssignment_def guardIdentityAssignment_def student_id_taken_def mailbox_owner_taken_def Let_def bindE_def split: option.split prod.split)
  have mail: "email_type_of (\<lambda>s. s) ''b24040525@njupt.edu.cn'' = Some EmailTypeNJUpt" by (simp add: email_type_of_def HasSuffix_def EmailTypeNJUpt_def)
  have account: "snd (CreateWithProfile no_fault (\<lambda>r. r) (\<lambda>s. s) (Some sample_user) (Some (blank_profile 0)) client_store) = account_store"
    by (simp add: CreateWithProfile_def transaction_no_fault createUserAndProfile_def guard insert_user_def insert_profile_def Let_def mail
        sample_user_def account_store_def client_store_def empty_store_def user_conflict_def bound_as_mail_def or_default_def user_exists_def
        EmailTypeNJUpt_def blank_profile_def)
  let ?a = "sample_access\<lparr>at_ClientID := 101, at_UserID := 102\<rparr>" and ?r = "sample_refresh\<lparr>rt_ClientID := 101, rt_UserID := 102\<rparr>"
  have valid: "validateTokenPair (Some ?a) (Some ?r) = None"
    by (simp add: validateTokenPair_None_iff sample_defs well_formed_sample)
  have pair: "snd (CreatePair no_fault (Some ?a) (Some ?r) account_store) = opened_store"
    by (simp add: CreatePair_def transaction_no_fault createTokenPairInTransaction_def valid)
      (simp add: validateTokenFamilyAppend_def insert_access_def
        insert_refresh_def Let_def client_exists_def user_exists_def account_store_def client_store_def empty_store_def opened_store_def
        sample_access_def sample_refresh_def duration_defs)
  have "fresh_option (Some sample_user)" by (simp add: fresh_option_def fresh_account_def sample_user_def state_defs)
  moreover have "opens_known_family (Some ?r) account_store"
    by (simp add: opens_known_family_def origin_kept_def account_store_def client_store_def empty_store_def)
  ultimately have "store_step empty_store client_store" "store_step client_store account_store" "store_step account_store opened_store"
    using store_step.client_new[of empty_store no_fault "Some sample_client"]
      store_step.user_new[of "Some sample_user" client_store no_fault "\<lambda>r. r" "\<lambda>s. s" "Some (blank_profile 0)"]
      store_step.create[of "Some ?r" account_store no_fault "Some ?a"]
    unfolding client account pair by blast+
  then show ?thesis by (blast intro: rtranclp.rtrancl_into_rtrancl)
qed

text \<open>C2: in every reachable state of the store, whatever operations ran in whatever order and
  wherever statements failed, a token family has at most one live refresh token, and all its
  refresh and access tokens belong to one user and one client and carry one set of scopes.\<close>

theorem reachable_single_live_token:
  assumes "store_step\<^sup>*\<^sup>* empty_store db"
  shows "length (live_in_family db f) \<le> 1
    \<and> (\<forall>r\<in>set (db_refresh db). \<forall>s\<in>set (db_refresh db). rt_FamilyID r = rt_FamilyID s \<longrightarrow>
         rt_UserID r = rt_UserID s \<and> rt_ClientID r = rt_ClientID s \<and> set (rt_Scopes r) = set (rt_Scopes s))
    \<and> (\<forall>a\<in>set (db_access db). \<forall>r\<in>set (db_refresh db). at_FamilyID a = Some (rt_FamilyID r) \<longrightarrow>
         at_UserID a = rt_UserID r \<and> at_ClientID a = rt_ClientID r \<and> set (at_Scopes a) = set (rt_Scopes r))"
proof -
  have inv: "token_inv db" using tokens_sys.reachable[OF assms sample_token_inv(2)] .
  then have "\<forall>r\<in>set (db_refresh db). \<forall>s\<in>set (db_refresh db). kin r s"
    "\<forall>a\<in>set (db_access db). \<forall>r\<in>set (db_refresh db). same_owner a r"
    by (simp_all add: token_inv_def chain_inv_def access_inv_def)
  then show ?thesis using live_in_family_le_1[OF inv, of f] unfolding kin_def same_owner_def by blast
qed

theorem reachable_single_live_token_witness:
  "map rt_ID (live_in_family opened_store ''f'') = [104] \<and> length (live_in_family opened_store ''f'') \<le> 1"
  using reachable_single_live_token[OF opened_store_reachable, of "''f''"]
  by (simp add: live_in_family_def opened_store_def sample_refresh_def)

text \<open>No operation ever makes a revoked refresh token usable again: if a row with its hash exists
  after a step, it is still revoked.\<close>

theorem revocation_is_final:
  assumes "token_inv db" "store_step db db'" "r \<in> set (db_refresh db)" "rt_RevokedAt r \<noteq> None"
    "r' \<in> set (db_refresh db')" "rt_TokenHash r' = rt_TokenHash r"
  shows "rt_RevokedAt r' \<noteq> None"
proof -
  have "refresh_dead (rt_TokenHash r) db" using refresh_dead_of_revoked assms by blast
  then have "refresh_dead (rt_TokenHash r) db'" using refresh_dead_step assms(2,3) by blast
  then show ?thesis using assms(5,6) by (simp add: refresh_dead_def)
qed

section \<open>Rotation\<close>

lemma find_hash:
  "token_inv db \<Longrightarrow> c \<in> set (db_refresh db) \<Longrightarrow>
     List.find (\<lambda>r. rt_TokenHash r = rt_TokenHash c) (db_refresh db) = Some c"
  using find_Some_iff_distinct[of rt_TokenHash "db_refresh db"] by (auto simp: token_inv_def keys_inv_def)

lemma revokeFamily_no_fault:
  "revokeFamilyInTransaction no_fault f t db =
     Inr (live_entries (\<lambda>a. at_FamilyID a = Some f) t db, cut_family f t db)"
  by (simp add: revokeFamilyInTransaction_def enqueueBlacklistInTransaction_def Let_def cut_family_def
      cut_tokens_def)

lemma cut_family_delivers:
  "token_inv db \<Longrightarrow> a \<in> set (db_access db) \<Longrightarrow> at_FamilyID a = Some f \<Longrightarrow> at_RevokedAt a = None \<Longrightarrow>
     t < at_ExpiresAt a \<Longrightarrow> pending_delivery (cut_family f t db) (at_TokenID a) (at_ExpiresAt a)"
  unfolding cut_family_def by (rule cut_tokens_delivers)

text \<open>C1: presenting a refresh token that is already revoked never yields tokens. After an
  administrative revocation the reason is reported and nothing changes; within 30 seconds of a
  rotation the replay is reported and nothing changes; later, every token of the family is
  revoked, durably: the revocation commits although the call fails, and each access token that
  was still live has an outbox row with its expiry.\<close>

theorem rotate_revoked_token:
  assumes inv: "token_inv db" and c: "c \<in> set (db_refresh db)" "rt_RevokedAt c = Some revokedAt"
    and args: "TrimSpace (rt_FamilyID c) \<noteq> []" "rt_TokenHash c \<noteq> []" "validateTokenPair (Some a) (Some r) = None"
  shows "case rotateRefreshToken no_fault now (rt_FamilyID c) (rt_TokenHash c) (Some a) (Some r) audit m db of
    (res, db') \<Rightarrow>
      (case rt_RevokedReason c of
         Some reason \<Rightarrow> res = Inl (SessionRevokedError reason) \<and> db' = db
       | None \<Rightarrow>
           if now - revokedAt \<le> 30 * Second then res = Inl ErrTokenReplayWithinGrace \<and> db' = db
           else res = Inl ErrTokenReplay
             \<and> (\<forall>x\<in>set (db_refresh db'). rt_FamilyID x = rt_FamilyID c \<longrightarrow> rt_RevokedAt x \<noteq> None)
             \<and> (\<forall>x\<in>set (db_access db'). at_FamilyID x = Some (rt_FamilyID c) \<longrightarrow> at_RevokedAt x \<noteq> None)
             \<and> (\<forall>x\<in>set (db_access db). at_FamilyID x = Some (rt_FamilyID c) \<longrightarrow> at_RevokedAt x = None
                  \<longrightarrow> now < at_ExpiresAt x \<longrightarrow> pending_delivery db' (at_TokenID x) (at_ExpiresAt x)))"
proof -
  let ?f = "rt_FamilyID c"
  have body: "rotateBody no_fault now ?f (rt_TokenHash c) a r audit m db =
     (case rt_RevokedReason c of
        Some reason \<Rightarrow> Inl (SessionRevokedError reason)
      | None \<Rightarrow> if now - revokedAt \<le> 30 * Second then Inl ErrTokenReplayWithinGrace
               else Inr (RotateReplay, cut_family ?f now db))"
    using c(2) find_hash[OF inv c(1)]
    by (auto simp: rotateBody_def findRefreshTokenForUpdate_def IsWithinRefreshGrace_def
        refreshGracePeriod_def revokeFamily_no_fault split: option.splits)
  have "rotateRefreshToken no_fault now ?f (rt_TokenHash c) (Some a) (Some r) audit m db =
     (case rt_RevokedReason c of
        Some reason \<Rightarrow> (Inl (SessionRevokedError reason), db)
      | None \<Rightarrow> if now - revokedAt \<le> 30 * Second then (Inl ErrTokenReplayWithinGrace, db)
               else (Inl ErrTokenReplay, cut_family ?f now db))"
    using args by (simp add: rotateRefreshToken_def transaction_no_fault body split: option.splits)
  then show ?thesis using cut_family_dead cut_family_delivers[OF inv] by (auto split: option.splits)
qed

theorem rotate_revoked_token_witness:
  "rotateRefreshToken no_fault (100 * Second) ''f'' ''h1'' (Some next_access) (Some next_refresh) None 0
     (sample_store\<lparr>db_refresh := [sample_refresh\<lparr>rt_ID := 3, rt_RevokedAt := Some 0\<rparr>]\<rparr>)
   = (Inl ErrTokenReplay, snd (rotateRefreshToken no_fault (100 * Second) ''f'' ''h1'' (Some next_access)
        (Some next_refresh) None 0
        (sample_store\<lparr>db_refresh := [sample_refresh\<lparr>rt_ID := 3, rt_RevokedAt := Some 0\<rparr>]\<rparr>)))"
proof -
  let ?c = "sample_refresh\<lparr>rt_ID := 3, rt_RevokedAt := Some 0\<rparr>"
  let ?db = "sample_store\<lparr>db_refresh := [?c]\<rparr>"
  have inv: "token_inv ?db"
    by (simp add: token_inv_def keys_inv_def chain_inv_def access_inv_def kin_def same_owner_def
        sample_defs well_formed_sample)
  have c: "?c \<in> set (db_refresh ?db)" "rt_RevokedAt ?c = Some 0" "TrimSpace (rt_FamilyID ?c) \<noteq> []" "rt_TokenHash ?c \<noteq> []"
    "rt_RevokedReason ?c = None" "rt_FamilyID ?c = ''f''" "rt_TokenHash ?c = ''h1''"
    by (simp_all add: sample_refresh_def)
  show ?thesis
    using rotate_revoked_token[OF inv c(1-4) sample_pair_valid(2), of "100 * Second" None 0]
    unfolding c(5,6,7) by (auto simp: duration_defs split: prod.splits)
qed


lemma rows_affected_current:
  assumes "token_inv db" "c \<in> set (db_refresh db)" "rt_RevokedAt c = None"
  shows "rows_affected (\<lambda>r. rt_ID r = rt_ID c \<and> rt_RevokedAt r = None) (db_refresh db) = 1"
proof -
  have ids: "distinct (map rt_ID (db_refresh db))" using assms(1) by (simp add: token_inv_def keys_inv_def)
  let ?F = "filter (\<lambda>r. rt_ID r = rt_ID c \<and> rt_RevokedAt r = None) (db_refresh db)"
  have "set ?F = {c}" using distinct_map_inj[OF ids _ assms(2)] assms(2,3) by auto
  moreover have "distinct ?F" using ids by (simp add: distinct_map)
  ultimately show ?thesis using distinct_card[of ?F] by (simp add: rows_affected_def)
qed

lemma insert_pair_ok:
  assumes "at_TokenID a \<notin> at_TokenID ` set (db_access db)" "rt_TokenHash r \<notin> rt_TokenHash ` set (db_refresh db)"
    "\<forall>x\<in>set (db_refresh db). rt_FamilyID x = rt_FamilyID r \<longrightarrow> rt_Sequence x \<noteq> rt_Sequence r"
    "rt_CreatedAt r < rt_ExpiresAt r" "client_exists db (rt_ClientID r)" "user_exists db (rt_UserID r)"
    "at_ClientID a = rt_ClientID r" "at_UserID a = rt_UserID r"
  shows "\<exists>a' r' db1. insert_access no_fault l1 a db = Inr (a', db1)
    \<and> insert_refresh no_fault l2 r db1 = Inr (r', append_pair a r db)"
proof -
  have "\<not> list_ex (\<lambda>x. at_TokenID x = at_TokenID a) (db_access db)"
    "\<not> list_ex (\<lambda>x. rt_TokenHash x = rt_TokenHash r \<or> rt_FamilyID x = rt_FamilyID r \<and> rt_Sequence x = rt_Sequence r) (db_refresh db)"
    using assms(1-3) by (auto simp: list_ex_iff image_iff dest: sym)
  then show ?thesis using assms(4-8)
    by (simp add: insert_access_def insert_refresh_def Let_def client_exists_def user_exists_def append_pair_def)
qed

lemma rotateWrites_ok:
  assumes inv: "token_inv db" and c: "c \<in> set (db_refresh db)" "rt_RevokedAt c = None"
    and v: "validateRefreshRotation c a r = None"
    and fresh: "at_TokenID a \<notin> at_TokenID ` set (db_access db)"
      "rt_TokenHash r \<notin> rt_TokenHash ` set (db_refresh db)" "rt_CreatedAt r < rt_ExpiresAt r"
    and refs: "client_exists db (rt_ClientID c)" "user_exists db (rt_UserID c)"
  shows "\<exists>a' r' db'. rotateWrites no_fault now c origin a r audit db = Inr (Rotated origin a' r', db')"
proof -
  note vr = v[unfolded validateRefreshRotation_None_iff]
  have seqs: "\<forall>x\<in>set (db_refresh (cut_current now c db)). rt_FamilyID x = rt_FamilyID r \<longrightarrow> rt_Sequence x \<noteq> rt_Sequence r"
    using cut_current_family[OF inv c, of _ now] vr by fastforce
  have ex: "client_exists (cut_current now c db) (rt_ClientID r)" "user_exists (cut_current now c db) (rt_UserID r)"
    using refs vr by (simp_all add: cut_current_def client_exists_def user_exists_def)
  obtain a' r' db1 where i: "insert_access no_fault ''create rotated access token'' a (cut_current now c db) = Inr (a', db1)"
      "insert_refresh no_fault ''create rotated refresh token'' r db1 = Inr (r', append_pair a r (cut_current now c db))"
    using insert_pair_ok[of a "cut_current now c db" r "''create rotated access token''" "''create rotated refresh token''"]
      fresh seqs ex vr by (auto simp: hashes_cut_current)
  obtain db2 where au: "insert_audit no_fault ''create refresh audit'' audit (append_pair a r (cut_current now c db)) = Inr ((), db2)"
    by (cases audit) (auto simp: insert_audit_def)
  show ?thesis using rows_affected_current[OF inv c] i au
    by (simp add: rotateWrites_def Let_def cut_current_def)
qed


lemma sample_rotation_facts:
  "sample_refresh\<lparr>rt_ID := 3\<rparr> \<in> set (db_refresh sample_store)"
  "validateRefreshRotation (sample_refresh\<lparr>rt_ID := 3\<rparr>) next_access next_refresh = None"
  "FamilyOriginCreatedAt no_fault sample_store ''f'' = Inr 100"
  "\<not> tokenFamilyHasRevokedAccess sample_store ''f''"
  "client_exists sample_store 5" "user_exists sample_store 7"
  by (simp_all add: validateRefreshRotation_None_iff FamilyOriginCreatedAt_def family_by_sequence_def
      tokenFamilyHasRevokedAccess_def client_exists_def user_exists_def sample_defs well_formed_sample)


lemma sample_rotation:
  "\<exists>a' r' db'. rotateRefreshToken no_fault 200 ''f'' ''h1'' (Some next_access) (Some next_refresh) None 0 sample_store
    = (Inr (100, a', r'), db')"
proof -
  let ?c = "sample_refresh\<lparr>rt_ID := 3\<rparr>"
  have fresh: "at_TokenID next_access \<notin> at_TokenID ` set (db_access sample_store)"
    "rt_TokenHash next_refresh \<notin> rt_TokenHash ` set (db_refresh sample_store)"
    "rt_CreatedAt next_refresh < rt_ExpiresAt next_refresh"
    by (simp_all add: sample_defs duration_defs)
  have c: "rt_RevokedAt ?c = None" "rt_ClientID ?c = 5" "rt_UserID ?c = 7" "rt_FamilyID ?c = ''f''"
    "rt_TokenHash ?c = ''h1''" "200 < rt_ExpiresAt ?c" by (simp_all add: sample_refresh_def duration_defs)
  obtain a' r' db' where w: "rotateWrites no_fault 200 ?c 100 next_access next_refresh None sample_store = Inr (Rotated 100 a' r', db')"
    using rotateWrites_ok[OF sample_token_inv(1) sample_rotation_facts(1) c(1) sample_rotation_facts(2) fresh,
        of 200 100 None] sample_rotation_facts(5,6) c by auto
  have fam: "family_by_sequence sample_store ''f'' = [?c]" "rt_CreatedAt ?c = 100"
    by (simp_all add: family_by_sequence_def sample_defs)
  have "rotateBody no_fault 200 ''f'' ''h1'' next_access next_refresh None 0 sample_store = Inr (Rotated 100 a' r', db')"
    using find_hash[OF sample_token_inv(1) sample_rotation_facts(1)] c sample_rotation_facts(2,4) fam w
    by (simp add: rotateBody_def findRefreshTokenForUpdate_def Let_def clampAccess_def clampRefresh_def)
  then show ?thesis using sample_pair_valid(2) by (simp add: rotateRefreshToken_def transaction_no_fault)
qed


theorem revocation_is_final_witness:
  "\<exists>r'\<in>set (db_refresh (snd (RevokeFamily no_fault ''f'' 5
      (sample_store\<lparr>db_refresh := [sample_refresh\<lparr>rt_ID := 3, rt_RevokedAt := Some 0\<rparr>]\<rparr>)))).
     rt_TokenHash r' = ''h1'' \<and> rt_RevokedAt r' \<noteq> None"
proof -
  let ?c = "sample_refresh\<lparr>rt_ID := 3, rt_RevokedAt := Some 0\<rparr>"
  let ?db = "sample_store\<lparr>db_refresh := [?c]\<rparr>"
  have inv: "token_inv ?db"
    by (simp add: token_inv_def keys_inv_def chain_inv_def access_inv_def kin_def same_owner_def
        sample_defs well_formed_sample)
  have c: "?c \<in> set (db_refresh ?db)" "rt_RevokedAt ?c \<noteq> None" "rt_TokenHash ?c = ''h1''"
    by (simp_all add: sample_refresh_def)
  have refresh: "db_refresh (snd (RevokeFamily no_fault ''f'' 5 ?db)) = [?c]"
    by (simp add: RevokeFamily_def transaction_no_fault revokeFamily_no_fault cut_family_def
        db_refresh_cut_tokens revoke_refresh_def update_where_def sample_refresh_def)
  have "rt_RevokedAt ?c \<noteq> None"
    by (rule revocation_is_final[OF inv store_step.revoke_family c(1,2), of ?c no_fault "''f''" 5])
      (simp_all only: refresh list.set insertI1)
  then show ?thesis unfolding refresh using c(3) by simp
qed

end
