(* ===== verification/Revocation_Properties.thy ===== *)
theory Revocation_Properties
  imports Token_Properties
begin

text \<open>
  What the revoking and consent operations guarantee: sessions cut by a password change, a
  revoked grant, a disabled or removed client; single-use authorization codes; silent
  authorization that never widens a consent; failed calls that leave the store unchanged.
\<close>

section \<open>Errors roll back\<close>

lemma rotateWrites_error:
  assumes "rotateWrites flt now c origin a r audit db = Inl e" "token_inv db" "c \<in> set (db_refresh db)" "rt_RevokedAt c = None"
  shows "\<exists>l. e = DbError l"
  using assms(1) rows_affected_current[OF assms(2-4)]
  by (auto simp: rotateWrites_def insert_access_def insert_refresh_def insert_audit_def stmt_def bindE_def Let_def
      split: if_splits sum.splits option.splits)

lemma revokeFamily_error: "revokeFamilyInTransaction flt f t db = Inl e \<Longrightarrow> \<exists>l. e = DbError l"
  by (auto simp: revokeFamilyInTransaction_def enqueueBlacklistInTransaction_def stmt_def bindE_def Let_def
      split: if_splits sum.splits)

lemma validateRefreshRotation_error: "validateRefreshRotation c a r = Some e \<Longrightarrow> e = ErrInvalidArgument"
  by (auto simp: validateRefreshRotation_def split: if_splits sum.splits)

text \<open>The two errors that stand for a cut never come out of a rolled back transaction.\<close>

lemma rotateBody_error:
  assumes "rotateBody flt now f h a r audit m db = Inl e" "token_inv db"
  shows "e \<noteq> ErrTokenReplay \<and> e \<noteq> ErrTokenFamilyExpired"
proof (cases "findRefreshTokenForUpdate flt db h")
  case (Inl e')
  then show ?thesis using assms(1)
    by (auto simp: rotateBody_def findRefreshTokenForUpdate_def stmt_def bindE_def split: if_splits option.splits)
next
  case (Inr c)
  note c = findRefreshTokenForUpdate_InrD(1)[OF Inr]
  show ?thesis
  proof (cases "rt_RevokedAt c")
    case None
    then show ?thesis using assms(1) Inr
      by (auto simp: rotateBody_def stmt_def bindE_def Let_def split: if_splits option.splits sum.splits list.splits
          dest!: revokeFamily_error validateRefreshRotation_error rotateWrites_error[OF _ assms(2) c None])
  next
    case (Some t)
    then show ?thesis using assms(1) Inr
      by (auto simp: rotateBody_def stmt_def bindE_def split: if_splits option.splits sum.splits dest!: revokeFamily_error)
  qed
qed

lemma rotate_rolled_back:
  assumes "rotateRefreshToken flt now f h newA newR audit m db = (Inl e, db')" "token_inv db"
    and "e = ErrTokenReplay \<or> e = ErrTokenFamilyExpired"
  obtains a r out where "rotateBody flt now f h a r audit m db = Inr (out, db')" "out = RotateReplay \<or> out = RotateFamilyExpired"
proof -
  have "validateTokenPair newA newR = Some e' \<Longrightarrow> e' = ErrInvalidArgument" for e'
    by (auto simp: validateTokenPair_def split: if_splits sum.splits option.splits)
  then obtain a r where "validateTokenPair newA newR = None" "newA = Some a" "newR = Some r"
    using assms(1,3) by (auto simp: rotateRefreshToken_def split: if_splits option.splits)
  then show thesis using assms(1,3) rotateBody_error[OF _ assms(2), of flt now f h a r audit m] that[of a r]
    by (auto simp: rotateRefreshToken_def transaction_def split: if_splits sum.splits rotate_outcome.splits)
qed

text \<open>C20: a failed rotation that reports a detected replay or an exhausted capability lifetime has cut the
  presented family: none of its tokens is live, and beside the outbox rows of this cut nothing else changed. A
  rotation failing with any other error, a failing statement included, leaves the store as it was.\<close>

theorem rotate_error_effect:
  assumes "rotateRefreshToken flt now f h newA newR audit m db = (Inl e, db')" "token_inv db"
  shows "db' = (if e = ErrTokenReplay \<or> e = ErrTokenFamilyExpired then cut_family f now db else db)
    \<and> (e = ErrTokenReplay \<or> e = ErrTokenFamilyExpired
        \<longrightarrow> (\<forall>x\<in>set (db_refresh db'). rt_FamilyID x = f \<longrightarrow> rt_RevokedAt x \<noteq> None)
          \<and> (\<forall>x\<in>set (db_access db'). at_FamilyID x = Some f \<longrightarrow> at_RevokedAt x \<noteq> None))"
proof (cases "e = ErrTokenReplay \<or> e = ErrTokenFamilyExpired")
  case True
  obtain a r out where "rotateBody flt now f h a r audit m db = Inr (out, db')" and out: "out = RotateReplay \<or> out = RotateFamilyExpired"
    using rotate_rolled_back[OF assms True] by blast
  then have "db' = cut_family f now db"
    by (cases rule: rotateBody_InrE) (use out in \<open>auto dest: rotateWrites_InrD(2)\<close>)
  then show ?thesis using True cut_family_dead by auto
next
  case False
  show ?thesis
  proof (cases rule: rotateRefreshToken_cases[of flt now f h newA newR audit m db])
    case (error e')
    then show ?thesis using assms False by simp
  next
    case (commit a r out db1)
    then show ?thesis using assms(1) False by (auto split: rotate_outcome.splits)
  qed
qed

theorem rotate_error_effect_witness:
  "rotateRefreshToken no_fault 200 ''f'' ''zz'' (Some next_access) (Some next_refresh) None 0 sample_store = (Inl ErrNotFound, sample_store)
   \<and> rotateRefreshToken no_fault (100 * Second) ''f'' ''h1'' (Some next_access) (Some next_refresh) None 0
       (sample_store\<lparr>db_refresh := [sample_refresh\<lparr>rt_ID := 3, rt_RevokedAt := Some 0\<rparr>]\<rparr>)
     = (Inl ErrTokenReplay, cut_family ''f'' (100 * Second) (sample_store\<lparr>db_refresh := [sample_refresh\<lparr>rt_ID := 3, rt_RevokedAt := Some 0\<rparr>]\<rparr>))"
proof -
  let ?db = "sample_store\<lparr>db_refresh := [sample_refresh\<lparr>rt_ID := 3, rt_RevokedAt := Some 0\<rparr>]\<rparr>"
  let ?lost = "rotateRefreshToken no_fault 200 ''f'' ''zz'' (Some next_access) (Some next_refresh) None 0 sample_store"
  let ?replay = "rotateRefreshToken no_fault (100 * Second) ''f'' ''h1'' (Some next_access) (Some next_refresh) None 0 ?db"
  have inv: "token_inv sample_store" "token_inv ?db"
    by (simp_all add: token_inv_def keys_inv_def chain_inv_def access_inv_def kin_def same_owner_def sample_defs well_formed_sample)
  have lost: "?lost = (Inl ErrNotFound, snd ?lost)"
    by (simp add: rotateRefreshToken_def sample_pair_valid transaction_no_fault rotateBody_def
        findRefreshTokenForUpdate_def sample_store_def sample_refresh_def)
  have replay: "?replay = (Inl ErrTokenReplay, snd ?replay)"
    by (simp add: rotateRefreshToken_def sample_pair_valid transaction_no_fault rotateBody_def findRefreshTokenForUpdate_def
        IsWithinRefreshGrace_def refreshGracePeriod_def revokeFamily_no_fault sample_refresh_def duration_defs)
  show ?thesis
    using rotate_error_effect[OF lost inv(1)] rotate_error_effect[OF replay inv(2)] lost replay by simp
qed

section \<open>Accounts\<close>

definition usable_code :: "instant \<Rightarrow> authorization \<Rightarrow> bool" where
  "usable_code t z \<longleftrightarrow> \<not> az_IsUsed z \<and> t < az_ExpiresAt z"

lemma burn_codes_none:
  assumes "z \<in> set (db_authorizations (burn_codes u t db))" "az_UserID z = u"
  shows "\<not> usable_code t z"
proof -
  let ?P = "\<lambda>z. az_UserID z = u \<and> \<not> az_IsUsed z \<and> t < az_ExpiresAt z"
  obtain z0 where "z = (if ?P z0 then z0\<lparr>az_IsUsed := True\<rparr> else z0)"
    using assms(1) by (auto simp: burn_codes_def simp del: if_split elim!: in_update_whereE)
  then show ?thesis using assms(2) by (cases "?P z0") (simp_all add: usable_code_def)
qed

lemma updatePassword_InrD:
  assumes "UpdatePasswordAndRevokeSessions flt u p t reason db = (Inr es, db')"
  shows "revokeAllByUserInTransaction flt u t reason
    (db\<lparr>db_users := update_where (\<lambda>x. us_ID x = u)
        (\<lambda>x. x\<lparr>us_PasswordHash := p, us_TokenVersion := us_TokenVersion x + 1\<rparr>) (db_users db)\<rparr>) = Inr (es, db')"
  using assms
  by (simp add: UpdatePasswordAndRevokeSessions_def transaction_Inr_iff updatePasswordBody_def stmt_Inr_iff Let_def
      split: if_splits)

text \<open>What cutting all sessions of a user leaves behind.\<close>

lemma revokeAllByUser_cuts:
  assumes inv: "token_inv db" and rev: "revokeAllByUserInTransaction flt u t reason db = Inr (es, db')"
  shows "\<forall>r\<in>set (db_refresh db'). rt_UserID r = u \<longrightarrow> rt_RevokedAt r \<noteq> None"
    "\<forall>a\<in>set (db_access db'). at_UserID a = u \<longrightarrow> at_RevokedAt a \<noteq> None"
    "\<forall>z\<in>set (db_authorizations db'). az_UserID z = u \<longrightarrow> \<not> usable_code t z"
    "\<forall>a\<in>set (db_access db). at_UserID a = u \<longrightarrow> at_RevokedAt a = None \<longrightarrow> t < at_ExpiresAt a
         \<longrightarrow> pending_delivery db' (at_TokenID a) (at_ExpiresAt a)"
    "db_users db' = db_users db"
proof -
  have db': "db' = cut_tokens (\<lambda>a. at_UserID a = u) (\<lambda>r. rt_UserID r = u) t (Some reason) (burn_codes u t db)"
    using revokeAllByUser_InrD(2)[OF rev] .
  have inv2: "token_inv (burn_codes u t db)" using tokens.codes[OF inv] .
  show "\<forall>r\<in>set (db_refresh db'). rt_UserID r = u \<longrightarrow> rt_RevokedAt r \<noteq> None"
    "\<forall>a\<in>set (db_access db'). at_UserID a = u \<longrightarrow> at_RevokedAt a \<noteq> None"
    unfolding db' by (auto dest: cut_refresh_dead cut_access_dead)
  show "\<forall>z\<in>set (db_authorizations db'). az_UserID z = u \<longrightarrow> \<not> usable_code t z"
    unfolding db' using burn_codes_none by auto
  show "\<forall>a\<in>set (db_access db). at_UserID a = u \<longrightarrow> at_RevokedAt a = None \<longrightarrow> t < at_ExpiresAt a
         \<longrightarrow> pending_delivery db' (at_TokenID a) (at_ExpiresAt a)"
    unfolding db' using cut_tokens_delivers[OF inv2, of _ "\<lambda>a. at_UserID a = u"] by simp
  show "db_users db' = db_users db" unfolding db' by simp
qed

lemma revokeAllByUser_users:
  "revokeAllByUserInTransaction flt u t reason db = Inr (es, db') \<Longrightarrow> db_users db' = db_users db"
  by (drule revokeAllByUser_InrD(2)) simp

text \<open>A pair locked on an older token version is refused.\<close>

lemma stale_version_refused:
  assumes "find_user db u = Some usr" "us_TokenVersion usr \<noteq> v"
  shows "\<not> is_ok (fst (CreatePairWithUserAndClientLock flt now u c v z (Some a) (Some r) audit db))"
  by (cases rule: CreatePairLocked_cases[of flt now u c v z "Some a" "Some r" audit db])
    (use assms in \<open>auto elim!: createLockedPairBody_InrD\<close>)

text \<open>After a password change no token of the user is live, no code of the user can be consumed,
  every access token that was live has an outbox row, and the user's token version has grown, so
  a code consumed before the change can no longer be turned into tokens.\<close>

theorem password_change_cuts_sessions:
  assumes inv: "token_inv db" and ids: "distinct (map us_ID (db_users db))"
    and user: "find_user db u = Some usr"
    and ok: "UpdatePasswordAndRevokeSessions flt u p t reason db = (Inr es, db')"
  shows "(\<forall>r\<in>set (db_refresh db'). rt_UserID r = u \<longrightarrow> rt_RevokedAt r \<noteq> None)
    \<and> (\<forall>a\<in>set (db_access db'). at_UserID a = u \<longrightarrow> at_RevokedAt a \<noteq> None)
    \<and> (\<forall>z\<in>set (db_authorizations db'). az_UserID z = u \<longrightarrow> \<not> usable_code t z)
    \<and> (\<forall>a\<in>set (db_access db). at_UserID a = u \<longrightarrow> at_RevokedAt a = None \<longrightarrow> t < at_ExpiresAt a
         \<longrightarrow> pending_delivery db' (at_TokenID a) (at_ExpiresAt a))
    \<and> (\<forall>flt' now c z a r audit. us_TokenVersion usr = v \<longrightarrow>
         \<not> is_ok (fst (CreatePairWithUserAndClientLock flt' now u c v z (Some a) (Some r) audit db')))"
proof -
  let ?f = "\<lambda>x. x\<lparr>us_PasswordHash := p, us_TokenVersion := us_TokenVersion x + 1\<rparr>"
  define db1 where db1: "db1 = db\<lparr>db_users := update_where (\<lambda>x. us_ID x = u) ?f (db_users db)\<rparr>"
  have rev: "revokeAllByUserInTransaction flt u t reason db1 = Inr (es, db')"
    unfolding db1 by (rule updatePassword_InrD[OF ok])
  have "token_inv db1" unfolding db1 by (rule tokens.account_write[OF inv password_effect])
  note cuts = revokeAllByUser_cuts[OF this rev]
  have "find_user db' u = Some (?f usr)"
    using user ids cuts(5) unfolding find_user_def
    by (simp add: db1 find_Some_iff_distinct map_update_where set_update_where)
  then have "\<not> is_ok (fst (CreatePairWithUserAndClientLock flt' now u c (us_TokenVersion usr) z (Some a) (Some r) audit db'))"
    for flt' now c z a r audit by (rule stale_version_refused) simp
  moreover have acc: "db_access db1 = db_access db" by (simp add: db1)
  ultimately show ?thesis using cuts(1,2,3) cuts(4)[unfolded acc] by blast
qed

section \<open>Grants\<close>

lemma revokeUserClient_InrD:
  assumes "RevokeUserClientTokens flt u c t db = (Inr es, db')" "client_exists db c"
  shows "db' = cut_tokens (\<lambda>a. at_UserID a = u \<and> at_ClientID a = c) (\<lambda>r. rt_UserID r = u \<and> rt_ClientID r = c) t None
     (db\<lparr>db_grants := delete_where (grant_of u c) (db_grants db),
       db_authorizations := delete_where (\<lambda>z. az_UserID z = u \<and> az_ClientID z = c) (db_authorizations db)\<rparr>)"
  using assms unfolding RevokeUserClientTokens_def transaction_Inr_iff
  by (auto simp: stmt_Inr_iff bindE_eq_Inr_iff Let_def cut_tokens_def
      dest!: deleteAuthorizations_InrD enqueueBlacklist_InrD)

text \<open>C17: revoking an application removes the consent and every code issued on it, leaves no live token
  of the pair, and the silent path cannot bring the application back: until the user consents
  again it finds no grant.\<close>

theorem revoke_grant_complete:
  assumes "client_exists db c" "RevokeUserClientTokens flt u c t db = (Inr es, db')"
  shows "(\<forall>r\<in>set (db_refresh db'). rt_UserID r = u \<and> rt_ClientID r = c \<longrightarrow> rt_RevokedAt r \<noteq> None)
    \<and> (\<forall>a\<in>set (db_access db'). at_UserID a = u \<and> at_ClientID a = c \<longrightarrow> at_RevokedAt a \<noteq> None)
    \<and> (\<forall>z\<in>set (db_authorizations db'). \<not> (az_UserID z = u \<and> az_ClientID z = c))
    \<and> (\<forall>flt' now z. az_UserID z = u \<and> az_ClientID z = c \<longrightarrow>
         (\<exists>e. CreateWithExistingGrant flt' now (Some z) db' = (Inl e, db')))"
proof -
  note db' = revokeUserClient_InrD[OF assms(2,1)]
  have "\<forall>r\<in>set (db_refresh db'). rt_UserID r = u \<and> rt_ClientID r = c \<longrightarrow> rt_RevokedAt r \<noteq> None"
    "\<forall>a\<in>set (db_access db'). at_UserID a = u \<and> at_ClientID a = c \<longrightarrow> at_RevokedAt a \<noteq> None"
    unfolding db' by (auto dest: cut_refresh_dead cut_access_dead)
  moreover have "\<forall>z\<in>set (db_authorizations db'). \<not> (az_UserID z = u \<and> az_ClientID z = c)"
    unfolding db' by simp
  moreover have none: "\<forall>g\<in>set (db_grants db'). \<not> grant_of u c g" unfolding db' by simp
  have "\<exists>e. CreateWithExistingGrant flt' now (Some z) db' = (Inl e, db')"
    if z: "az_UserID z = u" "az_ClientID z = c" for flt' now z
  proof (cases rule: transaction_cases[of "createWithExistingGrantBody flt' now z" db' flt'])
    case (commit x db2)
    then have "\<exists>g\<in>set (db_grants db'). covering_grant z g" by (auto dest: createWithExistingGrantBody_InrD(1))
    then show ?thesis using none z by (auto simp: covering_grant_def)
  qed (auto simp: CreateWithExistingGrant_def split: option.splits)
  ultimately show ?thesis by blast
qed

text \<open>C18: a silently issued code rests on a consent that already covered its scopes, and issuing it
  never widens any consent.\<close>

theorem silent_code_within_consent:
  assumes "CreateWithExistingGrant flt now (Some z) db = (Inr z', db')"
  shows "(\<exists>g\<in>set (db_grants db). grant_of (az_UserID z) (az_ClientID z) g \<and> set (az_Scopes z) \<subseteq> set (gr_Scopes g))
    \<and> (\<forall>g'\<in>set (db_grants db'). \<exists>g\<in>set (db_grants db). gr_pair g' = gr_pair g \<and> set (gr_Scopes g') \<subseteq> set (gr_Scopes g))
    \<and> z' \<in> set (db_authorizations db') \<and> az_Scopes z' = az_Scopes z"
proof -
  have b: "createWithExistingGrantBody flt now z db = Inr (z', db')"
    using assms by (auto simp: CreateWithExistingGrant_def transaction_Inr_iff split: option.splits)
  note c = createWithExistingGrantBody_InrD[OF b]
  note i = insert_authorization_InrD[OF c(2)]
  have "\<exists>g\<in>set (db_grants db). gr_pair g' = gr_pair g \<and> set (gr_Scopes g') \<subseteq> set (gr_Scopes g)"
    if g': "g' \<in> set (db_grants db')" for g'
  proof -
    obtain g where "g \<in> set (db_grants db)" "g' = (if covering_grant z g
        then g\<lparr>gr_Scopes := az_Scopes z, gr_GrantedAt := az_CreatedAt z\<rparr> else g)"
      using g' i(2) by (auto simp del: if_split elim!: in_update_whereE)
    then show ?thesis by (intro bexI[of _ g]) (auto simp: covering_grant_def list_all_iff)
  qed
  then show ?thesis using c(1) i(1,2) by (auto simp: covering_grant_def list_all_iff)
qed

section \<open>Authorization codes\<close>

lemma Consume_success_body:
  assumes "Consume flt code now c db = ((Some z, v, None), db')"
  shows "consumeBody flt code now c db = Inr (Consumed z v, db')"
  using assms
  by (auto simp: Consume_def transaction_def split: if_splits prod.splits sum.splits consume_outcome.splits)

lemma consumeBody_InlD:
  "consumeBody flt code now c db = Inl e \<Longrightarrow> e \<noteq> ErrAuthorizationReplayed"
  by (auto simp: consumeBody_def stmt_def Let_def split: option.splits if_splits)

lemma Consume_cases:
  obtains (error) e where "Consume flt code now c db = ((None, 0, Some e), db)" "e \<noteq> ErrAuthorizationReplayed"
  | (commit) out db' where "consumeBody flt code now c db = Inr (out, db')"
      "Consume flt code now c db = ((case out of Replayed z \<Rightarrow> (Some z, 0, Some ErrAuthorizationReplayed)
         | Expired z \<Rightarrow> (Some z, 0, Some ErrAuthorizationExpired) | Consumed z v \<Rightarrow> (Some z, v, None)), db')"
proof (cases "TrimSpace code = [] \<or> IsZero now \<or> c \<le> 0")
  case True
  then show ?thesis using that(1)[of ErrInvalidArgument] by (simp add: Consume_def)
next
  case False
  show ?thesis
  proof (cases "consumeBody flt code now c db")
    case (Inl e)
    then show ?thesis using that(1)[of e] consumeBody_InlD[OF Inl] False by (simp add: Consume_def transaction_def)
  next
    case (Inr p)
    then obtain out db' where p: "consumeBody flt code now c db = Inr (out, db')" by (cases p) simp
    show ?thesis
    proof (cases "flt ''commit''")
      case True
      then show ?thesis using that(1)[of "DbError ''commit''"] p False by (simp add: Consume_def transaction_def)
    next
      case nf: False
      then show ?thesis using that(2)[OF p] p False
        by (cases out) (simp_all add: Consume_def transaction_def)
    qed
  qed
qed

text \<open>C16: an authorization code is redeemed at most once. Once a consume succeeded, every later attempt
  with the same code fails, whatever the clock says, and a second presentation that commits
  expires the code, so that the pair the first consume was about to create is refused too.\<close>

theorem code_consumed_once:
  assumes inv: "consent_inv db" and first: "Consume flt code now c db = ((Some z, v, None), db1)"
  shows "(\<exists>z0\<in>set (db_authorizations db). az_Code z0 = code \<and> \<not> az_IsUsed z0 \<and> now < az_ExpiresAt z0)
    \<and> (\<forall>flt' now' c'. case Consume flt' code now' c' db1 of ((_, _, err), db2) \<Rightarrow>
         err \<noteq> None \<and> (err = Some ErrAuthorizationReplayed \<longrightarrow>
           (\<forall>x\<in>set (db_authorizations db2). az_Code x = code \<longrightarrow> az_ExpiresAt x \<le> now')))"
proof -
  note b = Consume_success_body[OF first]
  obtain z0 where z0: "z0 \<in> set (db_authorizations db)" "az_Code z0 = code" "\<not> az_IsUsed z0" "now < az_ExpiresAt z0"
    and db1: "db1 = db\<lparr>db_authorizations := update_where (\<lambda>x. az_ID x = az_ID z0 \<and> \<not> az_IsUsed x)
         (\<lambda>x. x\<lparr>az_IsUsed := True\<rparr>) (db_authorizations db)\<rparr>"
    using b by (cases rule: consumeBody_InrE) auto
  have inv1: "consent_inv db1" by (rule consent_inv_consumeBody[OF inv b])
  have used: "az_IsUsed x" if "x \<in> set (db_authorizations db1)" "az_Code x = code" for x
  proof -
    obtain x0 where x0: "x0 \<in> set (db_authorizations db)"
      "x = (if az_ID x0 = az_ID z0 \<and> \<not> az_IsUsed x0 then x0\<lparr>az_IsUsed := True\<rparr> else x0)"
      using \<open>x \<in> set (db_authorizations db1)\<close> unfolding db1 by (auto elim!: in_update_whereE)
    moreover have "x0 = z0"
      using distinct_map_inj[of az_Code "db_authorizations db" x0 z0] inv x0 z0 that(2)
      by (auto simp: consent_inv_def split: if_splits)
    ultimately show ?thesis using z0(3) by simp
  qed
  have later: "\<exists>y. out = Replayed y \<and> (\<forall>x\<in>set (db_authorizations db2). az_Code x = code \<longrightarrow> az_ExpiresAt x \<le> now')"
    if "consumeBody flt' code now' c' db1 = Inr (out, db2)" for flt' now' c' out db2
    using that
  proof (cases rule: consumeBody_InrE)
    case (replayed y)
    have "az_ExpiresAt x \<le> now'" if x: "x \<in> set (db_authorizations db2)" "az_Code x = code" for x
    proof -
      obtain x0 where x0: "x0 \<in> set (db_authorizations db1)"
        "x = (if az_ID x0 = az_ID y then x0\<lparr>az_ExpiresAt := min (az_ExpiresAt x0) now'\<rparr> else x0)"
        using x(1) unfolding replayed(6) by (auto elim!: in_update_whereE)
      moreover have "x0 = y"
        using distinct_map_inj[of az_Code "db_authorizations db1" x0 y] inv1 x0 replayed x(2)
        by (auto simp: consent_inv_def split: if_splits)
      ultimately show ?thesis by simp
    qed
    then show ?thesis using replayed(1) by blast
  qed (use used in auto)
  have "case Consume flt' code now' c' db1 of ((_, _, err), db2) \<Rightarrow>
         err \<noteq> None \<and> (err = Some ErrAuthorizationReplayed \<longrightarrow>
           (\<forall>x\<in>set (db_authorizations db2). az_Code x = code \<longrightarrow> az_ExpiresAt x \<le> now'))" for flt' now' c'
    by (cases rule: Consume_cases[of flt' code now' c' db1]) (auto dest!: later)
  then show ?thesis using z0 by (intro conjI allI) blast+
qed

section \<open>Witnesses\<close>

lemma sample_user_facts:
  "distinct (map us_ID (db_users sample_store))" "find_user sample_store 7 = Some sample_user"
  "client_exists sample_store 5"
  by (simp_all add: sample_store_def empty_store_def find_user_def client_exists_def sample_user_def sample_client_def)

theorem password_change_cuts_sessions_witness:
  "let db' = snd (UpdatePasswordAndRevokeSessions no_fault 7 ''new'' 500 ''password_changed'' sample_store) in
   \<not> (\<exists>r\<in>set (db_refresh db'). rt_UserID r = 7 \<and> rt_RevokedAt r = None) \<and> pending_delivery db' ''j1'' (1000 * Second)"
proof -
  obtain es db' where ok: "UpdatePasswordAndRevokeSessions no_fault 7 ''new'' 500 ''password_changed'' sample_store = (Inr es, db')"
    by (simp add: UpdatePasswordAndRevokeSessions_def transaction_no_fault updatePasswordBody_def Let_def
        revokeAllByUserInTransaction_def rows_affected_def sample_store_def
        empty_store_def sample_user_def)
  have "sample_access\<lparr>at_ID := 2\<rparr> \<in> set (db_access sample_store)" by (simp add: sample_store_def)
  then show ?thesis
    using password_change_cuts_sessions[OF sample_token_inv(1) sample_user_facts(1,2) ok] ok
    by (fastforce simp: sample_access_def duration_defs)
qed

theorem revoke_grant_complete_witness:
  "client_exists sample_store 5 \<and> \<not> (\<exists>z\<in>set (db_authorizations (snd (RevokeUserClientTokens no_fault 7 5 500 sample_store))).
     az_UserID z = 7 \<and> az_ClientID z = 5)"
proof -
  obtain es db' where ok: "RevokeUserClientTokens no_fault 7 5 500 sample_store = (Inr es, db')"
    using sample_user_facts(3)
    by (simp add: RevokeUserClientTokens_def transaction_no_fault deleteAuthorizationsInTransaction_def
        Let_def)
  show ?thesis using revoke_grant_complete[OF sample_user_facts(3) ok] ok sample_user_facts(3) by simp
qed

lemma sample_silent:
  "\<exists>z' db'. CreateWithExistingGrant no_fault 200 (Some (sample_code\<lparr>az_Code := ''code2''\<rparr>)) sample_store = (Inr z', db')"
proof -
  have t: "TrimSpace ''code2'' = ''code2''"
    by (simp add: TrimSpace_eq_iff trimmed_graphic graphic_ascii_def byte_def)
  show ?thesis
    by (simp add: CreateWithExistingGrant_def validateNewAuthorization_def t transaction_no_fault
        createWithExistingGrantBody_def lockAuthorizationClient_def insert_authorization_def Let_def
        client_exists_def user_exists_def rows_affected_def covering_grant_def sample_defs IsZero_def
        zeroTime_def duration_defs)
qed

theorem silent_code_within_consent_witness:
  "\<exists>z' db'. CreateWithExistingGrant no_fault 200 (Some (sample_code\<lparr>az_Code := ''code2''\<rparr>)) sample_store = (Inr z', db')
     \<and> az_Scopes z' = [''openid'']"
proof -
  obtain z' db' where ok: "CreateWithExistingGrant no_fault 200 (Some (sample_code\<lparr>az_Code := ''code2''\<rparr>)) sample_store = (Inr z', db')"
    using sample_silent by blast
  show ?thesis using silent_code_within_consent[OF ok] ok by (auto simp: sample_code_def)
qed

theorem code_consumed_once_witness:
  "\<exists>z v db1. Consume no_fault ''code'' 200 5 sample_store = ((Some z, v, None), db1)
     \<and> snd (snd (fst (Consume no_fault ''code'' 300 5 db1))) \<noteq> None"
proof -
  obtain z v db1 where ok: "Consume no_fault ''code'' 200 5 sample_store = ((Some z, v, None), db1)"
    by (simp add: Consume_def transaction_no_fault consumeBody_def Let_def sample_defs IsZero_def zeroTime_def
        duration_defs rows_affected_def)
  have "case Consume no_fault ''code'' 300 5 db1 of ((_, _, err), db2) \<Rightarrow> err \<noteq> None"
    using code_consumed_once[OF sample_consent_inv(1) ok] by (auto split: prod.splits)
  then show ?thesis using ok by (auto split: prod.splits)
qed

end
