(* ===== verification/Redis.thy ===== *)
theory Redis
  imports GoStrings
begin

text \<open>
  The Redis server as \<open>internal/redis\<close> uses it. Keys of strings, sorted sets and hashes are
  kept apart, since no key is used with two types; every key carries an optional deadline
  in milliseconds and is absent once the deadline has passed. Commands take the server's clock
  reading. A command or a script runs atomically, but the client may fail to reach the server
  or lose the reply; \<open>call\<close> gives the caller's view of both.
\<close>

type_synonym millis = int
type_synonym 'v keyspace = "string \<rightharpoonup> 'v \<times> millis option"

record redis =
  rs_string :: "string keyspace"
  rs_zset :: "(int \<times> string) list keyspace"
  rs_hash :: "(string \<rightharpoonup> string) keyspace"

definition no_data :: redis where
  "no_data = \<lparr>rs_string = Map.empty, rs_zset = Map.empty, rs_hash = Map.empty\<rparr>"

section \<open>Expiry\<close>

definition alive :: "millis \<Rightarrow> 'v \<times> millis option \<Rightarrow> bool" where
  "alive now e \<longleftrightarrow> (case snd e of None \<Rightarrow> True | Some d \<Rightarrow> now < d)"

definition entry :: "millis \<Rightarrow> 'v keyspace \<Rightarrow> string \<Rightarrow> ('v \<times> millis option) option" where
  "entry now ks k = (case ks k of None \<Rightarrow> None | Some e \<Rightarrow> if alive now e then Some e else None)"

definition value_at :: "millis \<Rightarrow> 'v keyspace \<Rightarrow> string \<Rightarrow> 'v option" where
  "value_at now ks k = map_option fst (entry now ks k)"

text \<open>\<open>PTTL\<close>: \<open>-2\<close> for an absent key, \<open>-1\<close> for a key without a deadline.\<close>

definition pttl :: "millis \<Rightarrow> 'v keyspace \<Rightarrow> string \<Rightarrow> int" where
  "pttl now ks k = (case entry now ks k of
     None \<Rightarrow> -2 | Some (_, None) \<Rightarrow> -1 | Some (_, Some d) \<Rightarrow> d - now)"

definition pexpire :: "millis \<Rightarrow> string \<Rightarrow> int \<Rightarrow> 'v keyspace \<Rightarrow> 'v keyspace" where
  "pexpire now k ms ks = (case entry now ks k of
     None \<Rightarrow> ks
   | Some (v, _) \<Rightarrow> if ms \<le> 0 then ks(k := None) else ks(k \<mapsto> (v, Some (now + ms))))"

text \<open>A write that keeps the deadline of a live key, as \<open>INCR\<close>, \<open>ZADD\<close> and \<open>HSET\<close> do.\<close>

definition write_at :: "millis \<Rightarrow> string \<Rightarrow> 'v \<Rightarrow> 'v keyspace \<Rightarrow> 'v keyspace" where
  "write_at now k v ks = ks(k \<mapsto> (v, case entry now ks k of None \<Rightarrow> None | Some (_, d) \<Rightarrow> d))"

lemma entry_simps [simp]:
  "entry now (ks(k := None)) k = None"
  "k' \<noteq> k \<Longrightarrow> entry now (ks(k := e)) k' = entry now ks k'"
  "entry now (ks(k \<mapsto> (v, Some d))) k = (if now < d then Some (v, Some d) else None)"
  "entry now (ks(k \<mapsto> (v, None))) k = Some (v, None)"
  "entry now Map.empty k = None"
  by (simp_all add: entry_def alive_def)

lemma entry_SomeD: "entry now ks k = Some (v, d) \<Longrightarrow> ks k = Some (v, d) \<and> (\<forall>x. d = Some x \<longrightarrow> now < x)"
  by (auto simp: entry_def alive_def split: option.splits if_splits)

lemma entry_later: "entry t ks k = None \<Longrightarrow> t \<le> t' \<Longrightarrow> entry t' ks k = None"
  by (auto simp: entry_def alive_def split: option.splits if_splits)

section \<open>Integers\<close>

definition max_int64 :: int where "max_int64 = 2 ^ 63 - 1"

text \<open>A stored string is an integer when it is the canonical rendering of one in range.\<close>

definition stored_int :: "string \<Rightarrow> int option" where
  "stored_int s =
    (let n = (case s of [] \<Rightarrow> 0
        | c # cs \<Rightarrow> if c = CHR ''-'' then - int (decimal_value cs) else int (decimal_value s)) in
     if decimal n = s \<and> - max_int64 - 1 \<le> n \<and> n \<le> max_int64 then Some n else None)"

lemma stored_int_decimal: "0 \<le> n \<Longrightarrow> n \<le> max_int64 \<Longrightarrow> stored_int (decimal n) = Some n"
proof -
  assume n: "0 \<le> n" "n \<le> max_int64"
  obtain c cs where cs: "decimal_nat (nat n) = c # cs" by (meson decimal_nat_not_Nil neq_Nil_conv)
  have "c \<noteq> CHR ''-''" using decimal_nat_digits[of "nat n"] cs by (auto simp: byte_def)
  then have "int (decimal_value (c # cs)) = n" using n(1) decimal_value_decimal_nat[of "nat n"] cs by simp
  then show ?thesis using n cs \<open>c \<noteq> _\<close>
    by (simp add: stored_int_def decimal_def Let_def max_int64_def del: decimal_value.simps)
qed

section \<open>Replies\<close>

datatype redis_error =
    ErrMiss
  | ErrAlreadyExists
  | ErrRedisArgument
  | RedisUnavailable
  | ScriptError string
  | PayloadError

datatype net = Delivered | RequestLost | ReplyLost

definition call :: "net \<Rightarrow> (redis \<Rightarrow> (redis_error + 'a) \<times> redis) \<Rightarrow> redis \<Rightarrow> (redis_error + 'a) \<times> redis" where
  "call n script r = (case n of
     Delivered \<Rightarrow> script r
   | RequestLost \<Rightarrow> (Inl RedisUnavailable, r)
   | ReplyLost \<Rightarrow> (Inl RedisUnavailable, snd (script r)))"

lemma call_Delivered [simp]: "call Delivered script r = script r"
  by (simp add: call_def)

lemma snd_call: "snd (call n script r) = r \<or> snd (call n script r) = snd (script r)"
  by (cases n) (simp_all add: call_def)

lemma call_Inr: "call n script r = (Inr x, r') \<Longrightarrow> script r = (Inr x, r')"
  by (cases n) (simp_all add: call_def)

section \<open>Commands on strings\<close>

text \<open>The client library sends a lifetime in milliseconds, at least one.\<close>

definition px :: "duration \<Rightarrow> int" where
  "px ttl = max 1 (ttl div Millisecond)"

definition cmd_get :: "millis \<Rightarrow> string \<Rightarrow> redis \<Rightarrow> string option" where
  "cmd_get now k r = value_at now (rs_string r) k"

definition cmd_set :: "millis \<Rightarrow> string \<Rightarrow> string \<Rightarrow> int \<Rightarrow> redis \<Rightarrow> redis" where
  "cmd_set now k v ms r = r\<lparr>rs_string := (rs_string r)(k \<mapsto> (v, Some (now + ms)))\<rparr>"

definition cmd_setnx :: "millis \<Rightarrow> string \<Rightarrow> string \<Rightarrow> int \<Rightarrow> redis \<Rightarrow> bool \<times> redis" where
  "cmd_setnx now k v ms r =
    (case cmd_get now k r of None \<Rightarrow> (True, cmd_set now k v ms r) | Some _ \<Rightarrow> (False, r))"

definition cmd_del :: "string \<Rightarrow> redis \<Rightarrow> redis" where
  "cmd_del k r = r\<lparr>rs_string := (rs_string r)(k := None)\<rparr>"

definition cmd_incr :: "millis \<Rightarrow> string \<Rightarrow> redis \<Rightarrow> (redis_error + int) \<times> redis" where
  "cmd_incr now k r =
    (case cmd_get now k r of
       None \<Rightarrow> (Inr 1, r\<lparr>rs_string := (rs_string r)(k \<mapsto> (decimal 1, None))\<rparr>)
     | Some s \<Rightarrow>
         (case stored_int s of
            None \<Rightarrow> (Inl (ScriptError ''value is not an integer or out of range''), r)
          | Some n \<Rightarrow>
              if n = max_int64 then (Inl (ScriptError ''increment or decrement would overflow''), r)
              else (Inr (n + 1), r\<lparr>rs_string := write_at now k (decimal (n + 1)) (rs_string r)\<rparr>)))"

definition cmd_pexpire :: "millis \<Rightarrow> string \<Rightarrow> int \<Rightarrow> redis \<Rightarrow> redis" where
  "cmd_pexpire now k ms r = r\<lparr>rs_string := pexpire now k ms (rs_string r)\<rparr>"

lemmas string_cmd_defs = cmd_get_def cmd_set_def cmd_setnx_def cmd_del_def value_at_def

text \<open>\<open>redisInt\<close> on the 64-bit integers a script returns.\<close>

definition redisInt :: "int \<Rightarrow> redis_error + int" where
  "redisInt v = (if v < 0 \<or> max_int64 < v then Inl ErrRedisArgument else Inr v)"

text \<open>\<open>ttl.Milliseconds()\<close> truncates toward zero.\<close>

definition Milliseconds :: "duration \<Rightarrow> int" where
  "Milliseconds d = (if d < 0 then - (- d div Millisecond) else d div Millisecond)"

lemma Milliseconds_pos: "0 < Milliseconds d \<Longrightarrow> px d = Milliseconds d"
  by (auto simp: Milliseconds_def px_def duration_defs split: if_splits)

end
