(* ===== verification/Auth_Store.thy ===== *)
theory Auth_Store
  imports Redis
begin

text \<open>
  \<open>internal/redis/auth_store.go\<close>: the key builder, the cache of per-token authentication states
  with its revocation tombstones, one-time values, e-mail verification codes with their attempt
  budget, and the login failure counter. The JSON codec of the payloads is a pair of arguments
  \<open>enc\<close> and \<open>dec\<close>. A clock reading of the server is an argument \<open>now\<close>, the fate of the network
  exchange an argument \<open>n\<close>.
\<close>

section \<open>Keys\<close>

definition NewKeys :: "string \<Rightarrow> string option" where
  "NewKeys pre =
    (let trimmed = rev (dropWhile (\<lambda>c. c = CHR '':'') (rev (dropWhile (\<lambda>c. c = CHR '':'') pre))) in
     if ContainsAny trimmed ''{}'' then None else Some trimmed)"

definition join_key :: "string \<Rightarrow> string list \<Rightarrow> string" where
  "join_key pre parts = Join ((if pre \<noteq> [] then [pre] else []) @ parts) '':''"

definition dynamicKeySegment :: "string \<Rightarrow> string" where
  "dynamicKeySegment v =
    (if v = [] then ''%00''
     else ReplaceByte CHR '':'' ''%3A'' (ReplaceByte CHR ''%'' ''%25'' v))"

definition OneTime :: "string \<Rightarrow> string \<Rightarrow> string \<Rightarrow> string" where
  "OneTime pre kind i = join_key pre [dynamicKeySegment kind, dynamicKeySegment i]"

definition VerifyCode :: "string \<Rightarrow> string \<Rightarrow> string \<Rightarrow> string" where
  "VerifyCode pre purpose email =
     join_key pre [''verify'', dynamicKeySegment purpose, dynamicKeySegment email]"

definition OAuthState :: "string \<Rightarrow> string \<Rightarrow> string" where
  "OAuthState pre state = join_key pre [''oauth'', ''state'', dynamicKeySegment state]"

definition OAuthRegistration :: "string \<Rightarrow> string \<Rightarrow> string" where
  "OAuthRegistration pre state = join_key pre [''oauth'', ''registration'', dynamicKeySegment state]"

definition AuthorizeRequest :: "string \<Rightarrow> string \<Rightarrow> string" where
  "AuthorizeRequest pre requestID =
     join_key pre [''oauth'', ''authorize_request'', dynamicKeySegment requestID]"

definition RegisterTicket :: "string \<Rightarrow> string \<Rightarrow> string" where
  "RegisterTicket pre ticket = join_key pre [''auth'', ''register_ticket'', dynamicKeySegment ticket]"

definition BindTicket :: "string \<Rightarrow> string \<Rightarrow> string" where
  "BindTicket pre ticket = join_key pre [''auth'', ''bind_ticket'', dynamicKeySegment ticket]"

definition LoginCode :: "string \<Rightarrow> string \<Rightarrow> string" where
  "LoginCode pre code = join_key pre [''auth'', ''login_code'', dynamicKeySegment code]"

definition AuthState :: "string \<Rightarrow> string \<Rightarrow> string" where
  "AuthState pre jti = join_key pre [''auth'', ''authstate'', dynamicKeySegment jti]"

definition RateLimit :: "string \<Rightarrow> string \<Rightarrow> string \<Rightarrow> string" where
  "RateLimit pre scp i = join_key pre [''ratelimit'', dynamicKeySegment i, dynamicKeySegment scp]"

definition LoginFailure :: "string \<Rightarrow> string \<Rightarrow> string" where
  "LoginFailure pre email = join_key pre [''auth'', ''login_failure'', dynamicKeySegment email]"

definition VerificationCodeAttempt :: "string \<Rightarrow> string \<Rightarrow> string \<Rightarrow> string" where
  "VerificationCodeAttempt pre purpose email =
     join_key pre [''verify'', ''attempt'', dynamicKeySegment purpose, dynamicKeySegment email]"

section \<open>The auth-state cache\<close>

definition authStateTombstone :: string where "authStateTombstone = ''__revoked__''"

definition defaultAuthStateTombstoneTTL :: duration where
  "defaultAuthStateTombstoneTTL = 15 * Second"

definition GetAuthState ::
    "net \<Rightarrow> millis \<Rightarrow> string \<Rightarrow> string \<Rightarrow> redis \<Rightarrow> redis_error + string option" where
  "GetAuthState n now pre jti r =
    (if jti = [] then Inl ErrRedisArgument
     else bindE (fst (call n (\<lambda>r. (Inr (cmd_get now (AuthState pre jti) r), r)) r)) (\<lambda>data.
       Inr (if data = Some authStateTombstone then None else data)))"

definition PutAuthState ::
    "net \<Rightarrow> millis \<Rightarrow> string \<Rightarrow> string \<Rightarrow> string \<Rightarrow> duration \<Rightarrow> redis \<Rightarrow> (redis_error + unit) \<times> redis" where
  "PutAuthState n now pre jti data ttl r =
    (if jti = [] \<or> data = [] \<or> ttl \<le> 0 then (Inl ErrRedisArgument, r)
     else call n (\<lambda>r. (Inr (), snd (cmd_setnx now (AuthState pre jti) data (px ttl) r))) r)"

definition tombstoneTTL :: "duration \<Rightarrow> duration" where
  "tombstoneTTL configured = (if 0 < configured then configured else defaultAuthStateTombstoneTTL)"

text \<open>The pipeline sends one \<open>SET\<close> per non-empty identifier; when the exchange fails, a prefix of
  the commands may have run.\<close>

definition tombstones :: "millis \<Rightarrow> string \<Rightarrow> duration \<Rightarrow> string list \<Rightarrow> redis \<Rightarrow> redis" where
  "tombstones now pre configured jtis r =
     fold (\<lambda>jti. cmd_set now (AuthState pre jti) authStateTombstone (px (tombstoneTTL configured)))
       (filter (\<lambda>jti. jti \<noteq> []) jtis) r"

definition DeleteAuthStates ::
    "nat option \<Rightarrow> millis \<Rightarrow> string \<Rightarrow> duration \<Rightarrow> string list \<Rightarrow> redis \<Rightarrow> (redis_error + unit) \<times> redis" where
  "DeleteAuthStates brokenAfter now pre configured jtis r =
    (case brokenAfter of
       None \<Rightarrow> (Inr (), tombstones now pre configured jtis r)
     | Some k \<Rightarrow> (Inl RedisUnavailable, tombstones now pre configured (take k jtis) r))"

section \<open>One-time values\<close>

definition SetOneTime ::
    "('a \<Rightarrow> string option) \<Rightarrow> net \<Rightarrow> millis \<Rightarrow> string \<Rightarrow> 'a option \<Rightarrow> duration \<Rightarrow> redis
      \<Rightarrow> (redis_error + unit) \<times> redis" where
  "SetOneTime enc n now key payload ttl r =
    (if key = [] \<or> payload = None \<or> ttl \<le> 0 then (Inl ErrRedisArgument, r)
     else (case enc (the payload) of
        None \<Rightarrow> (Inl PayloadError, r)
      | Some encoded \<Rightarrow>
          call n (\<lambda>r. case cmd_setnx now key encoded (px ttl) r of
            (fresh, r') \<Rightarrow> (if fresh then Inr () else Inl ErrAlreadyExists, r')) r))"

definition PeekOneTime ::
    "(string \<Rightarrow> 'a option) \<Rightarrow> net \<Rightarrow> millis \<Rightarrow> string \<Rightarrow> redis \<Rightarrow> redis_error + 'a" where
  "PeekOneTime dec n now key r =
    (if key = [] then Inl ErrRedisArgument
     else bindE (fst (call n (\<lambda>r. (case cmd_get now key r of None \<Rightarrow> Inl ErrMiss | Some v \<Rightarrow> Inr v, r)) r))
       (\<lambda>v. case dec v of None \<Rightarrow> Inl PayloadError | Some x \<Rightarrow> Inr x))"

definition peekWithTTLScript :: "millis \<Rightarrow> string \<Rightarrow> redis \<Rightarrow> string option \<times> int" where
  "peekWithTTLScript now key r =
    (case cmd_get now key r of
       None \<Rightarrow> (None, 0)
     | Some v \<Rightarrow> (Some v, pttl now (rs_string r) key))"

text \<open>The result is the remaining lifetime with the payload, or \<open>None\<close> for not found.\<close>

definition PeekOneTimeWithTTL ::
    "(string \<Rightarrow> 'a option) \<Rightarrow> net \<Rightarrow> millis \<Rightarrow> string \<Rightarrow> redis \<Rightarrow> redis_error + (duration \<times> 'a) option" where
  "PeekOneTimeWithTTL dec n now key r =
    (if key = [] then Inl ErrRedisArgument
     else bindE (fst (call n (\<lambda>r. (Inr (peekWithTTLScript now key r), r)) r)) (\<lambda>(raw, ttl).
       case raw of
         None \<Rightarrow> Inr None
       | Some v \<Rightarrow>
           if ttl \<le> 0 then Inr None
           else (case dec v of None \<Rightarrow> Inl PayloadError | Some x \<Rightarrow> Inr (Some (ttl * Millisecond, x)))))"

definition DeleteOneTime :: "net \<Rightarrow> millis \<Rightarrow> string \<Rightarrow> redis \<Rightarrow> (redis_error + bool) \<times> redis" where
  "DeleteOneTime n now key r =
    (if key = [] then (Inl ErrRedisArgument, r)
     else call n (\<lambda>r. (Inr (cmd_get now key r \<noteq> None), cmd_del key r)) r)"

definition GetDelOneTime ::
    "(string \<Rightarrow> 'a option) \<Rightarrow> net \<Rightarrow> millis \<Rightarrow> string \<Rightarrow> redis \<Rightarrow> (redis_error + 'a) \<times> redis" where
  "GetDelOneTime dec n now key r =
    (if key = [] then (Inl ErrRedisArgument, r)
     else (case call n (\<lambda>r. (case cmd_get now key r of None \<Rightarrow> Inl ErrMiss | Some v \<Rightarrow> Inr v,
                              cmd_del key r)) r of
        (res, r') \<Rightarrow> (bindE res (\<lambda>v. case dec v of None \<Rightarrow> Inl PayloadError | Some x \<Rightarrow> Inr x), r')))"

definition SetRawOneTime ::
    "net \<Rightarrow> millis \<Rightarrow> string \<Rightarrow> string \<Rightarrow> duration \<Rightarrow> redis \<Rightarrow> (redis_error + unit) \<times> redis" where
  "SetRawOneTime n now key v ttl r =
    (if key = [] \<or> v = [] \<or> ttl \<le> 0 then (Inl ErrRedisArgument, r)
     else call n (\<lambda>r. case cmd_setnx now key v (px ttl) r of
            (fresh, r') \<Rightarrow> (if fresh then Inr () else Inl ErrAlreadyExists, r')) r)"

definition GetDelRawOneTime :: "net \<Rightarrow> millis \<Rightarrow> string \<Rightarrow> redis \<Rightarrow> (redis_error + string) \<times> redis" where
  "GetDelRawOneTime n now key r =
    (if key = [] then (Inl ErrRedisArgument, r)
     else call n (\<lambda>r. (case cmd_get now key r of None \<Rightarrow> Inl ErrMiss | Some v \<Rightarrow> Inr v,
                       cmd_del key r)) r)"

section \<open>Verification codes\<close>

definition saveVerificationCodeScript :: "millis \<Rightarrow> string \<Rightarrow> string \<Rightarrow> string \<Rightarrow> int \<Rightarrow> redis \<Rightarrow> redis" where
  "saveVerificationCodeScript now k1 k2 code ms r = cmd_del k2 (cmd_set now k1 code ms r)"

definition SaveVerificationCode ::
    "net \<Rightarrow> millis \<Rightarrow> string \<Rightarrow> string \<Rightarrow> string \<Rightarrow> string \<Rightarrow> duration \<Rightarrow> redis \<Rightarrow> (redis_error + unit) \<times> redis" where
  "SaveVerificationCode n now pre purpose email code ttl r =
    (if purpose = [] \<or> email = [] \<or> code = [] \<or> ttl \<le> 0 then (Inl ErrRedisArgument, r)
     else let ms = Milliseconds ttl in
       if ms \<le> 0 \<or> max_int64 < ms then (Inl ErrRedisArgument, r)
       else call n (\<lambda>r. (Inr (), saveVerificationCodeScript now (VerifyCode pre purpose email)
                  (VerificationCodeAttempt pre purpose email) code ms r)) r)"

definition maximumVerificationCodeAttempts :: int where "maximumVerificationCodeAttempts = 5"

text \<open>The script's pair: \<open>0\<close> missing or exhausted, \<open>1\<close> match, \<open>2\<close> mismatch; and what remains.\<close>

definition verificationCodeAttemptScript ::
    "millis \<Rightarrow> string \<Rightarrow> string \<Rightarrow> string \<Rightarrow> int \<Rightarrow> redis \<Rightarrow> (redis_error + int \<times> int) \<times> redis" where
  "verificationCodeAttemptScript now k1 k2 code limit r =
    (case cmd_get now k1 r of
       None \<Rightarrow> (Inr (0, 0), cmd_del k2 r)
     | Some stored \<Rightarrow>
         if stored = code then (Inr (1, 0), cmd_del k2 (cmd_del k1 r))
         else (case cmd_incr now k2 r of
           (Inl e, r1) \<Rightarrow> (Inl e, r1)
         | (Inr attempts, r1) \<Rightarrow>
             (let ttl = pttl now (rs_string r1) k1;
                  r2 = (if attempts = 1 \<and> 0 < ttl then cmd_pexpire now k2 ttl r1 else r1) in
              if limit \<le> attempts then (Inr (0, 0), cmd_del k2 (cmd_del k1 r2))
              else (Inr (2, limit - attempts), r2))))"

definition VerifyVerificationCode ::
    "net \<Rightarrow> millis \<Rightarrow> string \<Rightarrow> string \<Rightarrow> string \<Rightarrow> string \<Rightarrow> redis \<Rightarrow> (redis_error + bool \<times> int) \<times> redis" where
  "VerifyVerificationCode n now pre purpose email code r =
    (if purpose = [] \<or> email = [] \<or> code = [] then (Inl ErrRedisArgument, r)
     else (case call n (verificationCodeAttemptScript now (VerifyCode pre purpose email)
                  (VerificationCodeAttempt pre purpose email) code maximumVerificationCodeAttempts) r of
        (res, r') \<Rightarrow> (bindE res (\<lambda>(s, m). bindE (redisInt s) (\<lambda>status. bindE (redisInt m) (\<lambda>remaining.
            Inr (status = 1, remaining)))), r')))"

definition DiscardVerificationCode ::
    "net \<Rightarrow> string \<Rightarrow> string \<Rightarrow> string \<Rightarrow> redis \<Rightarrow> (redis_error + unit) \<times> redis" where
  "DiscardVerificationCode n pre purpose email r =
    (if purpose = [] \<or> email = [] then (Inl ErrRedisArgument, r)
     else call n (\<lambda>r. (Inr (), cmd_del (VerificationCodeAttempt pre purpose email)
                  (cmd_del (VerifyCode pre purpose email) r))) r)"

definition SaveRegisterTicket ::
    "(string \<Rightarrow> string option) \<Rightarrow> net \<Rightarrow> millis \<Rightarrow> string \<Rightarrow> string \<Rightarrow> string \<Rightarrow> duration \<Rightarrow> redis
      \<Rightarrow> (redis_error + unit) \<times> redis" where
  "SaveRegisterTicket enc n now pre ticket email ttl r =
    (if ticket = [] \<or> email = [] \<or> ttl \<le> 0 then (Inl ErrRedisArgument, r)
     else SetOneTime enc n now (RegisterTicket pre ticket) (Some email) ttl r)"

definition PeekRegisterTicket ::
    "(string \<Rightarrow> string option) \<Rightarrow> net \<Rightarrow> millis \<Rightarrow> string \<Rightarrow> string \<Rightarrow> redis \<Rightarrow> redis_error + string option" where
  "PeekRegisterTicket dec n now pre ticket r =
    (if ticket = [] then Inl ErrRedisArgument
     else (case PeekOneTime dec n now (RegisterTicket pre ticket) r of
        Inl e \<Rightarrow> if e = ErrMiss then Inr None else Inl e
      | Inr email \<Rightarrow> Inr (Some email)))"

definition ConsumeRegisterTicket ::
    "net \<Rightarrow> millis \<Rightarrow> string \<Rightarrow> string \<Rightarrow> redis \<Rightarrow> (redis_error + unit) \<times> redis" where
  "ConsumeRegisterTicket n now pre ticket r =
    (if ticket = [] then (Inl ErrRedisArgument, r)
     else (case DeleteOneTime n now (RegisterTicket pre ticket) r of
        (res, r') \<Rightarrow> (bindE res (\<lambda>_. Inr ()), r')))"

section \<open>Login failures\<close>

record LoginFailureState =
  lf_Count :: int
  lf_TTL :: duration

definition counted :: "redis_error + int \<times> int \<Rightarrow> redis_error + LoginFailureState" where
  "counted res = bindE res (\<lambda>(c, t). bindE (redisInt c) (\<lambda>count. bindE (redisInt t) (\<lambda>ttl.
     Inr \<lparr>lf_Count = count, lf_TTL = (if ttl < 0 then 0 else ttl) * Millisecond\<rparr>)))"

definition loginFailureCounterScript :: "millis \<Rightarrow> string \<Rightarrow> int \<Rightarrow> redis \<Rightarrow> (redis_error + int \<times> int) \<times> redis" where
  "loginFailureCounterScript now k window r =
    (case cmd_incr now k r of
       (Inl e, r1) \<Rightarrow> (Inl e, r1)
     | (Inr current, r1) \<Rightarrow>
         (let r2 = (if current = 1 \<or> pttl now (rs_string r1) k < 0 then cmd_pexpire now k window r1 else r1) in
          (Inr (current, pttl now (rs_string r2) k), r2)))"

definition getLoginFailuresScript :: "millis \<Rightarrow> string \<Rightarrow> redis \<Rightarrow> redis_error + int \<times> int" where
  "getLoginFailuresScript now k r =
    (case cmd_get now k r of
       None \<Rightarrow> Inr (0, 0)
     | Some s \<Rightarrow> (case stored_int s of
         None \<Rightarrow> Inl (ScriptError ''unsupported'')
       | Some c \<Rightarrow> Inr (c, pttl now (rs_string r) k)))"

definition GetLoginFailures :: "net \<Rightarrow> millis \<Rightarrow> string \<Rightarrow> string \<Rightarrow> redis \<Rightarrow> redis_error + LoginFailureState" where
  "GetLoginFailures n now pre email r =
    (if email = [] then Inl ErrRedisArgument
     else counted (fst (call n (\<lambda>r. (getLoginFailuresScript now (LoginFailure pre email) r, r)) r)))"

definition RecordLoginFailure ::
    "net \<Rightarrow> millis \<Rightarrow> string \<Rightarrow> string \<Rightarrow> duration \<Rightarrow> redis \<Rightarrow> (redis_error + LoginFailureState) \<times> redis" where
  "RecordLoginFailure n now pre email window r =
    (if email = [] \<or> window \<le> 0 then (Inl ErrRedisArgument, r)
     else let ms = Milliseconds window in
       if ms \<le> 0 \<or> max_int64 < ms then (Inl ErrRedisArgument, r)
       else (case call n (loginFailureCounterScript now (LoginFailure pre email) ms) r of
         (res, r') \<Rightarrow> (counted res, r')))"

definition ResetLoginFailures :: "net \<Rightarrow> string \<Rightarrow> string \<Rightarrow> redis \<Rightarrow> (redis_error + unit) \<times> redis" where
  "ResetLoginFailures n pre email r =
    (if email = [] then (Inl ErrRedisArgument, r)
     else call n (\<lambda>r. (Inr (), cmd_del (LoginFailure pre email) r)) r)"

end
