(* ===== verification/Limiter.thy ===== *)
theory Limiter
  imports Auth_Store
begin

text \<open>
  \<open>internal/redis/limiter.go\<close>: the fixed-window rate limiter. The first request of a window sets
  the deadline of the counter, later requests keep it, and a counter without a deadline is given
  one.
\<close>

record RateLimitResult =
  rl_Allowed :: bool
  rl_Limit :: int
  rl_Remaining :: int
  rl_RetryAfter :: duration

record FixedWindowLimiter =
  fw_Limit :: int
  fw_Window :: duration

definition fixedWindowLimiterScript ::
    "millis \<Rightarrow> string \<Rightarrow> int \<Rightarrow> int \<Rightarrow> redis \<Rightarrow> (redis_error + int \<times> int \<times> int) \<times> redis" where
  "fixedWindowLimiterScript now k limit window r =
    (case cmd_incr now k r of
       (Inl e, r1) \<Rightarrow> (Inl e, r1)
     | (Inr current, r1) \<Rightarrow>
         (let r2 = (if current = 1 \<or> pttl now (rs_string r1) k < 0 then cmd_pexpire now k window r1 else r1) in
          (Inr (current, limit, pttl now (rs_string r2) k), r2)))"

definition Allow ::
    "net \<Rightarrow> millis \<Rightarrow> string \<Rightarrow> FixedWindowLimiter \<Rightarrow> string \<Rightarrow> string \<Rightarrow> redis
      \<Rightarrow> (redis_error + RateLimitResult) \<times> redis" where
  "Allow n now pre l scp subject r =
    (if scp = [] \<or> subject = [] \<or> fw_Limit l \<le> 0 \<or> fw_Window l < Second then (Inl ErrRedisArgument, r)
     else let ms = Milliseconds (fw_Window l) in
       if ms \<le> 0 \<or> max_int64 < ms then (Inl ErrRedisArgument, r)
       else (case call n (fixedWindowLimiterScript now (RateLimit pre scp subject) (fw_Limit l) ms) r of
         (res, r') \<Rightarrow>
           (bindE res (\<lambda>(c, m, t).
            bindE (redisInt c) (\<lambda>count. bindE (redisInt m) (\<lambda>limit. bindE (redisInt t) (\<lambda>ttl.
              Inr \<lparr>rl_Allowed = (count \<le> limit), rl_Limit = limit, rl_Remaining = max 0 (limit - count),
                rl_RetryAfter = (if ttl \<le> 0 \<and> limit < count then 1 else ttl) * Millisecond\<rparr>)))), r')))"

section \<open>One window\<close>

text \<open>A limiter the configuration accepts, with values of machine width.\<close>

definition limiter_ok :: "FixedWindowLimiter \<Rightarrow> bool" where
  "limiter_ok l \<longleftrightarrow> 0 < fw_Limit l \<and> fw_Limit l \<le> max_int64 \<and> Second \<le> fw_Window l \<and> fw_Window l \<le> max_int64"

lemma window_ms:
  assumes "limiter_ok l"
  shows "1000 \<le> Milliseconds (fw_Window l)" "Milliseconds (fw_Window l) \<le> max_int64"
proof -
  have w: "Second \<le> fw_Window l" "fw_Window l \<le> max_int64" using assms by (simp_all add: limiter_ok_def)
  then have m: "Milliseconds (fw_Window l) = fw_Window l div Millisecond" by (simp add: Milliseconds_def duration_defs)
  show "1000 \<le> Milliseconds (fw_Window l)"
    using zdiv_mono1[OF w(1), of Millisecond] by (simp add: m duration_defs)
  show "Milliseconds (fw_Window l) \<le> max_int64"
    using zdiv_mono1[OF w(2), of Millisecond] by (simp add: m duration_defs max_int64_def)
qed

text \<open>The counter after \<open>c\<close> requests of the window that ends at \<open>d\<close>.\<close>

definition counter_at :: "string \<Rightarrow> nat \<Rightarrow> millis \<Rightarrow> redis \<Rightarrow> bool" where
  "counter_at k c d r \<longleftrightarrow> rs_string r k = Some (decimal (int c), Some d)"

lemma script_first:
  assumes "entry now (rs_string r) k = None" "0 < w"
  shows "\<exists>r'. fixedWindowLimiterScript now k limit w r = (Inr (1, limit, w), r') \<and> counter_at k 1 (now + w) r'"
  using assms by (simp add: fixedWindowLimiterScript_def cmd_incr_def cmd_get_def value_at_def cmd_pexpire_def pexpire_def
      pttl_def counter_at_def Let_def)

lemma script_next:
  assumes "counter_at k c d r" "0 < c" "int c < max_int64" "now < d"
  shows "\<exists>r'. fixedWindowLimiterScript now k limit w r = (Inr (int c + 1, limit, d - now), r') \<and> counter_at k (Suc c) d r'"
proof -
  have e: "entry now (rs_string r) k = Some (decimal (int c), Some d)"
    using assms by (simp add: counter_at_def entry_def alive_def)
  have "stored_int (decimal (int c)) = Some (int c)" using assms(3) by (intro stored_int_decimal) simp_all
  then have "cmd_incr now k r = (Inr (int c + 1), r\<lparr>rs_string := (rs_string r)(k \<mapsto> (decimal (int c + 1), Some d))\<rparr>)"
    using e assms(3) by (simp add: cmd_incr_def cmd_get_def value_at_def write_at_def)
  then show ?thesis using assms(2,4)
    by (simp add: fixedWindowLimiterScript_def pttl_def Let_def counter_at_def add.commute)
qed

lemma Allow_of_script:
  assumes "limiter_ok l" "scp \<noteq> []" "subject \<noteq> []"
    and "fixedWindowLimiterScript now (RateLimit pre scp subject) (fw_Limit l) (Milliseconds (fw_Window l)) r
      = (Inr (c, fw_Limit l, t), r')" "0 \<le> c" "c \<le> max_int64" "0 < t" "t \<le> max_int64"
  shows "Allow Delivered now pre l scp subject r =
    (Inr \<lparr>rl_Allowed = (c \<le> fw_Limit l), rl_Limit = fw_Limit l, rl_Remaining = max 0 (fw_Limit l - c),
       rl_RetryAfter = t * Millisecond\<rparr>, r')"
  using assms window_ms[OF assms(1)]
  by (simp add: Allow_def Let_def redisInt_def limiter_ok_def)

fun allow_run :: "string \<Rightarrow> FixedWindowLimiter \<Rightarrow> string \<Rightarrow> string \<Rightarrow> millis list \<Rightarrow> redis
    \<Rightarrow> (redis_error + RateLimitResult) list" where
  "allow_run pre l scp subject [] r = []"
| "allow_run pre l scp subject (t # ts) r =
    (case Allow Delivered t pre l scp subject r of (res, r') \<Rightarrow> res # allow_run pre l scp subject ts r')"

definition decision :: "FixedWindowLimiter \<Rightarrow> millis \<Rightarrow> nat \<Rightarrow> millis \<Rightarrow> RateLimitResult" where
  "decision l d i t = \<lparr>rl_Allowed = (int i < fw_Limit l), rl_Limit = fw_Limit l,
     rl_Remaining = max 0 (fw_Limit l - int i - 1), rl_RetryAfter = (d - t) * Millisecond\<rparr>"

lemma enumerate_Suc_map: "enumerate (Suc n) xs = map (\<lambda>(i, x). (Suc i, x)) (enumerate n xs)"
  by (induction xs arbitrary: n) simp_all

lemma allow_run_next:
  assumes ok: "limiter_ok l" "scp \<noteq> []" "subject \<noteq> []"
    and "counter_at (RateLimit pre scp subject) c d r" "0 < c" "int c + int (length ts) \<le> max_int64"
    and "\<forall>t\<in>set ts. t < d \<and> d - t \<le> max_int64"
  shows "allow_run pre l scp subject ts r = map (\<lambda>(i, t). Inr (decision l d (c + i) t)) (enumerate 0 ts)"
  using assms(4-)
proof (induction ts arbitrary: c r)
  case (Cons t ts)
  have "int c < max_int64" "t < d" "d - t \<le> max_int64" using Cons.prems by auto
  then obtain r' where r': "fixedWindowLimiterScript t (RateLimit pre scp subject) (fw_Limit l) (Milliseconds (fw_Window l)) r
      = (Inr (int c + 1, fw_Limit l, d - t), r')" "counter_at (RateLimit pre scp subject) (Suc c) d r'"
    using script_next[OF Cons.prems(1,2), of t] by blast
  have "Allow Delivered t pre l scp subject r = (Inr (decision l d c t), r')"
    using Allow_of_script[OF ok r'(1)] \<open>int c < max_int64\<close> \<open>t < d\<close> \<open>d - t \<le> max_int64\<close>
    by (auto simp: decision_def)
  moreover have "allow_run pre l scp subject ts r' = map (\<lambda>(i, t). Inr (decision l d (Suc c + i) t)) (enumerate 0 ts)"
    using Cons.IH[OF r'(2)] Cons.prems by simp
  ultimately show ?case by (simp add: enumerate_Suc_map comp_def split_beta)
qed simp

text \<open>In one window, starting with the request at \<open>t0\<close> that finds no counter, exactly the first
  \<open>Limit\<close> requests of a subject are admitted, whatever their spacing; each answer reports how many
  are left and how long the window still runs.\<close>

theorem limiter_window:
  assumes ok: "limiter_ok l" "scp \<noteq> []" "subject \<noteq> []"
    and "entry t0 (rs_string r) (RateLimit pre scp subject) = None"
    and "\<forall>t\<in>set ts. t0 \<le> t \<and> t < t0 + Milliseconds (fw_Window l)"
    and "int (length ts) < max_int64"
  shows "allow_run pre l scp subject (t0 # ts) r =
    map (\<lambda>(i, t). Inr (decision l (t0 + Milliseconds (fw_Window l)) i t)) (enumerate 0 (t0 # ts))"
proof -
  let ?w = "Milliseconds (fw_Window l)" and ?k = "RateLimit pre scp subject"
  note w = window_ms[OF ok(1)]
  obtain r' where r': "fixedWindowLimiterScript t0 ?k (fw_Limit l) ?w r = (Inr (1, fw_Limit l, ?w), r')"
      "counter_at ?k 1 (t0 + ?w) r'"
    using script_first[OF assms(4), of ?w] w by auto
  have "Allow Delivered t0 pre l scp subject r = (Inr (decision l (t0 + ?w) 0 t0), r')"
    using Allow_of_script[OF ok r'(1)] w ok(1) by (auto simp: decision_def max_int64_def limiter_ok_def)
  moreover have "allow_run pre l scp subject ts r' =
      map (\<lambda>(i, t). Inr (decision l (t0 + ?w) (1 + i) t)) (enumerate 0 ts)"
    using assms(5,6) w by (intro allow_run_next[OF ok r'(2)]) auto
  ultimately show ?thesis by (simp add: enumerate_Suc_map comp_def split_beta)
qed

theorem limiter_window_witness:
  "map (map_sum id rl_Allowed) (allow_run [] \<lparr>fw_Limit = 2, fw_Window = Second\<rparr> ''login'' ''u'' [0, 10, 20] no_data)
     = [Inr True, Inr True, Inr False]"
  using limiter_window[of "\<lparr>fw_Limit = 2, fw_Window = Second\<rparr>" "''login''" "''u''" 0 no_data "[]" "[10, 20]"]
  by (simp add: limiter_ok_def max_int64_def duration_defs Milliseconds_def no_data_def decision_def)

lemma script_deadline:
  assumes "rs_string r k = Some (decimal c, dl)" "0 \<le> c" "c < max_int64" "0 < w" "\<forall>d. dl = Some d \<longrightarrow> d \<le> t + w"
  shows "\<exists>v d. rs_string (snd (fixedWindowLimiterScript t k limit w r)) k = Some (v, Some d) \<and> d \<le> t + w"
proof (cases "entry t (rs_string r) k")
  case None
  then show ?thesis using script_first[OF None assms(4), of limit] by (auto simp: counter_at_def)
next
  case (Some e)
  then have e: "entry t (rs_string r) k = Some (decimal c, dl)" using entry_SomeD[of t _ k] assms(1) by (cases e) fastforce
  let ?r = "r\<lparr>rs_string := (rs_string r)(k \<mapsto> (decimal (c + 1), dl))\<rparr>"
  have "stored_int (decimal c) = Some c" using assms(2,3) by (intro stored_int_decimal) simp_all
  then have i: "cmd_incr t k r = (Inr (c + 1), ?r)"
    using e assms(3) by (simp add: cmd_incr_def cmd_get_def value_at_def write_at_def)
  show ?thesis
  proof (cases dl)
    case None
    then show ?thesis using i assms(4)
      by (simp add: fixedWindowLimiterScript_def Let_def pttl_def cmd_pexpire_def pexpire_def)
  next
    case (Some d)
    then have "t < d" "d \<le> t + w" using entry_SomeD[OF e] assms(5) by auto
    then show ?thesis using i Some assms(4)
      by (simp add: fixedWindowLimiterScript_def Let_def pttl_def cmd_pexpire_def pexpire_def)
  qed
qed

text \<open>A refused subject is never locked out for longer than one window, even when its counter
  lost its deadline or the answer was lost: a request one window after a counted one is admitted.\<close>

theorem limiter_recovers:
  assumes ok: "limiter_ok l" "scp \<noteq> []" "subject \<noteq> []"
    and key: "rs_string r (RateLimit pre scp subject) = Some (decimal c, dl)" "0 \<le> c" "c < max_int64"
      "\<forall>d. dl = Some d \<longrightarrow> d \<le> t + Milliseconds (fw_Window l)"
    and "n \<noteq> RequestLost" "t + Milliseconds (fw_Window l) \<le> t'"
  shows "fst (Allow Delivered t' pre l scp subject (snd (Allow n t pre l scp subject r))) =
    Inr (decision l (t' + Milliseconds (fw_Window l)) 0 t')"
proof -
  let ?w = "Milliseconds (fw_Window l)" and ?k = "RateLimit pre scp subject"
  let ?r = "snd (fixedWindowLimiterScript t ?k (fw_Limit l) ?w r)"
  note w = window_ms[OF ok(1)]
  have s: "snd (Allow n t pre l scp subject r) = ?r"
    using ok w assms(8) by (cases n) (simp_all add: Allow_def Let_def limiter_ok_def call_def split_beta)
  obtain v d where "rs_string ?r ?k = Some (v, Some d)" "d \<le> t + ?w"
    using script_deadline[OF key(1-3) _ key(4), of "fw_Limit l"] w by auto
  then have "entry t' (rs_string ?r) ?k = None" using assms(9) by (simp add: entry_def alive_def)
  from script_first[OF this, of ?w "fw_Limit l"] w obtain r' where
    r': "fixedWindowLimiterScript t' ?k (fw_Limit l) ?w ?r = (Inr (1, fw_Limit l, ?w), r')" by auto
  show ?thesis unfolding s using Allow_of_script[OF ok r'] w ok(1)
    by (auto simp: decision_def max_int64_def limiter_ok_def)
qed

theorem limiter_recovers_witness:
  "fst (Allow Delivered 2000 [] \<lparr>fw_Limit = 2, fw_Window = Second\<rparr> ''login'' ''u''
      (snd (Allow ReplyLost 0 [] \<lparr>fw_Limit = 2, fw_Window = Second\<rparr> ''login'' ''u''
        (no_data\<lparr>rs_string := [RateLimit [] ''login'' ''u'' \<mapsto> (decimal 7, None)]\<rparr>))))
     = Inr \<lparr>rl_Allowed = True, rl_Limit = 2, rl_Remaining = 1, rl_RetryAfter = Second\<rparr>"
  using limiter_recovers[of "\<lparr>fw_Limit = 2, fw_Window = Second\<rparr>" "''login''" "''u''"
      "no_data\<lparr>rs_string := [RateLimit [] ''login'' ''u'' \<mapsto> (decimal 7, None)]\<rparr>" "[]" 7 None 0 ReplyLost 2000]
  by (simp add: limiter_ok_def max_int64_def duration_defs Milliseconds_def decision_def)

end
