(* ===== verification/Base64.thy ===== *)
theory Base64
  imports GoStrings
begin

text \<open>
  \<open>base64.RawURLEncoding\<close>: the unpadded URL-safe alphabet. Decoding follows Go: carriage returns
  and line feeds are skipped, and the unused bits of a final partial group are ignored.
\<close>

definition alphabet :: string where
  "alphabet = ''ABCDEFGHIJKLMNOPQRSTUVWXYZabcdefghijklmnopqrstuvwxyz0123456789-_''"

definition b64_char :: "nat \<Rightarrow> char" where "b64_char n = alphabet ! n"

definition b64_value :: "char \<Rightarrow> nat option" where "b64_value c = IndexByte alphabet c"

fun encode_groups :: "nat list \<Rightarrow> nat list" where
  "encode_groups [] = []"
| "encode_groups [a] = [a div 4, (a mod 4) * 16]"
| "encode_groups [a, b] = [a div 4, (a mod 4) * 16 + b div 16, (b mod 16) * 4]"
| "encode_groups (a # b # c # r) =
    [a div 4, (a mod 4) * 16 + b div 16, (b mod 16) * 4 + c div 64, c mod 64] @ encode_groups r"

fun decode_groups :: "nat list \<Rightarrow> nat list option" where
  "decode_groups [] = Some []"
| "decode_groups [x] = None"
| "decode_groups [x, y] = Some [x * 4 + y div 16]"
| "decode_groups [x, y, z] = Some [x * 4 + y div 16, (y mod 16) * 16 + z div 4]"
| "decode_groups (x # y # z # w # r) =
    map_option (\<lambda>bs. [x * 4 + y div 16, (y mod 16) * 16 + z div 4, (z mod 4) * 64 + w] @ bs) (decode_groups r)"

definition EncodeToString :: "string \<Rightarrow> string" where
  "EncodeToString s = map b64_char (encode_groups (map byte s))"

definition DecodeString :: "string \<Rightarrow> string option" where
  "DecodeString s =
    (case those (map b64_value (filter (\<lambda>c. byte c \<noteq> 0x0A \<and> byte c \<noteq> 0x0D) s)) of
       None \<Rightarrow> None
     | Some vs \<Rightarrow> map_option (map unbyte) (decode_groups vs))"

section \<open>Round trip\<close>

lemma IndexByte_nth: "distinct xs \<Longrightarrow> n < length xs \<Longrightarrow> IndexByte xs (xs ! n) = Some n"
  by (induction xs arbitrary: n) (auto simp: nth_Cons in_set_conv_nth split: nat.splits)

lemma alphabet_facts: "distinct alphabet" "length alphabet = 64"
  by (simp_all add: alphabet_def)

lemma alphabet_bytes: "c \<in> set alphabet \<Longrightarrow> 0x2D \<le> byte c \<and> byte c < 0x80 \<and> c \<noteq> CHR ''$''"
  by (auto simp: alphabet_def byte_def)

lemma b64_value_char: "n < 64 \<Longrightarrow> b64_value (b64_char n) = Some n"
  using alphabet_facts by (simp add: b64_value_def b64_char_def IndexByte_nth)

lemma b64_char_alphabet: "n < 64 \<Longrightarrow> b64_char n \<in> set alphabet"
  using alphabet_facts by (simp add: b64_char_def)

lemma encode_groups_bound: "\<forall>b\<in>set bs. b < 256 \<Longrightarrow> v \<in> set (encode_groups bs) \<Longrightarrow> v < 64"
  by (induction bs rule: encode_groups.induct) auto

lemma pack:
  fixes x d k :: nat
  assumes "d < k"
  shows "(x * k + d) div k = x" "(x * k + d) mod k = d"
  using assms by simp_all

lemma sixteenth: "b < 256 \<Longrightarrow> b div 16 < (16::nat)" "c < 256 \<Longrightarrow> c div 64 < (4::nat)"
  by (simp_all add: less_mult_imp_div_less)

lemma decode_encode_groups: "\<forall>b\<in>set bs. b < 256 \<Longrightarrow> decode_groups (encode_groups bs) = Some bs"
proof (induction bs rule: encode_groups.induct)
  case (3 a b)
  then show ?case using pack[OF sixteenth(1)[of b], of "a mod 4"] by simp
next
  case (4 a b c r)
  then show ?case using pack[OF sixteenth(1)[of b], of "a mod 4"] pack[OF sixteenth(2)[of c], of "b mod 16"] by simp
qed simp_all

lemma those_map_Some: "(\<And>x. x \<in> set xs \<Longrightarrow> f x = Some (g x)) \<Longrightarrow> those (map f xs) = Some (map g xs)"
  by (induction xs) auto

lemma EncodeToString_alphabet: "c \<in> set (EncodeToString s) \<Longrightarrow> c \<in> set alphabet"
  using encode_groups_bound[of "map byte s"] by (auto simp: EncodeToString_def intro: b64_char_alphabet)

theorem DecodeString_EncodeToString: "DecodeString (EncodeToString s) = Some s"
proof -
  let ?vs = "encode_groups (map byte s)"
  have b: "\<forall>b\<in>set (map byte s). b < 256" by simp
  have "filter (\<lambda>c. byte c \<noteq> 0x0A \<and> byte c \<noteq> 0x0D) (EncodeToString s) = EncodeToString s"
    using EncodeToString_alphabet[of _ s] alphabet_bytes by (force simp: filter_id_conv)
  moreover have "those (map b64_value (EncodeToString s)) = Some ?vs"
    unfolding EncodeToString_def map_map
    using those_map_Some[of ?vs "b64_value \<circ> b64_char" id] encode_groups_bound[OF b] b64_value_char by simp
  ultimately show ?thesis using decode_encode_groups[OF b] by (simp add: DecodeString_def comp_def)
qed

fun EncodedLen :: "nat \<Rightarrow> nat" where
  "EncodedLen n = n div 3 * 4 + (n mod 3 * 8 + 5) div 6"

lemma length_EncodeToString: "length (EncodeToString s) = EncodedLen (length s)"
proof -
  have d: "(3 + n) div 3 = Suc (n div 3)" for n :: nat using div_add_self1[of 3 n] by presburger
  have "length (encode_groups bs) = EncodedLen (length bs)" for bs
    by (induction bs rule: encode_groups.induct) (simp_all add: d)
  then show ?thesis by (simp add: EncodeToString_def)
qed

end
