(* ===== verification/Auth_Primitives.thy ===== *)
theory Auth_Primitives
  imports Base64 Validate "HOL-Library.Word"
begin

text \<open>
  \<open>internal/auth\<close>: PKCE, refresh-token and client-secret hashes, password hashes with their bounds
  and migration, access-token and ID-token claims and the checks of a presented token. The
  cryptographic primitives are parameters (\<open>sum256\<close> for SHA-256, \<open>hmac\<close> for HMAC-SHA256,
  \<open>idkey\<close> for argon2id, \<open>pbkdf2\<close>, \<open>ed_public\<close> for the public half of an Ed25519 key), as are
  the random source and the third-party JWT codec. Comparisons in constant time are equality.
\<close>

datatype auth_error =
    ErrInvalidInput
  | ErrInvalidSecret
  | ErrUnsupportedVersion
  | ErrExpiredToken
  | ErrInvalidToken
  | ErrRevokedToken
  | ErrAuthTokenReplay
  | ErrConflict
  | ContextDone
  | RandomFailed
  | SigningFailed
  | DerivationFailed

type_synonym random_source = "nat \<Rightarrow> string option"

definition randomBytes :: "random_source \<Rightarrow> nat \<Rightarrow> auth_error + string" where
  "randomBytes source n = (case source n of None \<Rightarrow> Inl RandomFailed | Some bs \<Rightarrow> Inr bs)"

section \<open>PKCE (pkce.go)\<close>

definition pkceMinVerifierLength :: nat where "pkceMinVerifierLength = 43"
definition pkceMaxVerifierLength :: nat where "pkceMaxVerifierLength = 128"
definition pkceMethodS256 :: string where "pkceMethodS256 = ''S256''"
definition sha256_Size :: nat where "sha256_Size = 32"

definition isPKCEAlphaNumeric :: "rune \<Rightarrow> bool" where
  "isPKCEAlphaNumeric r \<longleftrightarrow> 0x61 \<le> r \<and> r \<le> 0x7A \<or> 0x41 \<le> r \<and> r \<le> 0x5A \<or> 0x30 \<le> r \<and> r \<le> 0x39"

definition ValidatePKCEVerifier :: "string \<Rightarrow> auth_error + unit" where
  "ValidatePKCEVerifier verifier =
    (if length verifier < pkceMinVerifierLength \<or> pkceMaxVerifierLength < length verifier then Inl ErrInvalidInput
     else if list_ex (\<lambda>r. MaxASCII < r \<or> \<not> isPKCEAlphaNumeric r \<and> r \<notin> set (map byte ''-._~'')) (runes verifier)
       then Inl ErrInvalidInput
     else Inr ())"

definition PKCEChallengeS256 :: "(string \<Rightarrow> string) \<Rightarrow> string \<Rightarrow> auth_error + string" where
  "PKCEChallengeS256 sum256 verifier =
     bindE (ValidatePKCEVerifier verifier) (\<lambda>_. Inr (EncodeToString (sum256 verifier)))"

definition VerifyPKCES256 :: "(string \<Rightarrow> string) \<Rightarrow> string \<Rightarrow> string \<Rightarrow> string \<Rightarrow> auth_error + unit" where
  "VerifyPKCES256 sum256 verifier challenge method =
    (if method \<noteq> pkceMethodS256 then Inl ErrInvalidInput
     else bindE (PKCEChallengeS256 sum256 verifier) (\<lambda>actual.
       if length actual \<noteq> length challenge \<or> actual \<noteq> challenge then Inl ErrInvalidSecret else Inr ()))"

definition IsValidPKCEChallenge :: "string \<Rightarrow> bool" where
  "IsValidPKCEChallenge challenge \<longleftrightarrow>
     length challenge = EncodedLen sha256_Size \<and>
     \<not> list_ex (\<lambda>r. MaxASCII < r \<or> \<not> isPKCEAlphaNumeric r \<and> r \<noteq> 0x2D \<and> r \<noteq> 0x5F) (runes challenge)"

section \<open>Refresh tokens (refresh.go)\<close>

definition refreshTokenPrefix :: string where "refreshTokenPrefix = ''rt_''"
definition refreshTokenBytes :: nat where "refreshTokenBytes = 32"
definition minimumHMACSecretSize :: nat where "minimumHMACSecretSize = 32"

definition NewRefreshTokenManager :: "string \<Rightarrow> auth_error + string" where
  "NewRefreshTokenManager secret =
    (if length secret < minimumHMACSecretSize then Inl ErrInvalidInput else Inr secret)"

definition NewRefreshToken :: "random_source \<Rightarrow> string \<Rightarrow> auth_error + string" where
  "NewRefreshToken rnd secret =
    (if length secret < minimumHMACSecretSize then Inl ErrInvalidInput
     else bindE (randomBytes rnd refreshTokenBytes) (\<lambda>bs. Inr (refreshTokenPrefix @ EncodeToString bs)))"

definition HashRefreshToken :: "(string \<Rightarrow> string \<Rightarrow> string) \<Rightarrow> string \<Rightarrow> string \<Rightarrow> auth_error + string" where
  "HashRefreshToken hmac secret token =
    (if length secret < minimumHMACSecretSize \<or> \<not> HasPrefix token refreshTokenPrefix then Inl ErrInvalidInput
     else Inr (EncodeToString (hmac secret token)))"

definition VerifyRefreshTokenHash ::
    "(string \<Rightarrow> string \<Rightarrow> string) \<Rightarrow> string \<Rightarrow> string \<Rightarrow> string \<Rightarrow> auth_error + unit" where
  "VerifyRefreshTokenHash hmac secret token expectedHash =
    bindE (HashRefreshToken hmac secret token) (\<lambda>actualHash.
      if length actualHash \<noteq> length expectedHash then Inl ErrInvalidSecret
      else (case (DecodeString actualHash, DecodeString expectedHash) of
        (Some actual, Some expected) \<Rightarrow> if actual = expected then Inr () else Inl ErrInvalidSecret
      | _ \<Rightarrow> Inl ErrInvalidInput))"

section \<open>Client secrets (clientsecret.go)\<close>

definition clientSecretHashVersion :: string where "clientSecretHashVersion = ''sha256-v1''"
definition clientSecretBytes :: nat where "clientSecretBytes = 32"

definition HashClientSecret :: "(string \<Rightarrow> string) \<Rightarrow> string \<Rightarrow> string" where
  "HashClientSecret sum256 secret = clientSecretHashVersion @ ''$'' @ EncodeToString (sum256 secret)"

definition NewClientSecret :: "(string \<Rightarrow> string) \<Rightarrow> random_source \<Rightarrow> auth_error + (string \<times> string)" where
  "NewClientSecret sum256 rnd =
     bindE (randomBytes rnd clientSecretBytes) (\<lambda>bs.
       let secret = EncodeToString bs in Inr (secret, HashClientSecret sum256 secret))"

definition VerifyClientSecret :: "(string \<Rightarrow> string) \<Rightarrow> string \<Rightarrow> string \<Rightarrow> auth_error + unit" where
  "VerifyClientSecret sum256 secret encodedHash =
    (if secret = [] then Inl ErrInvalidInput
     else (case CutByte encodedHash CHR ''$'' of (version, expected, found) \<Rightarrow>
       if \<not> found then Inl ErrInvalidInput
       else if version \<noteq> clientSecretHashVersion then Inl ErrUnsupportedVersion
       else (case DecodeString expected of
         None \<Rightarrow> Inl ErrInvalidInput
       | Some expectedSum \<Rightarrow>
           if length expectedSum \<noteq> sha256_Size then Inl ErrInvalidInput
           else if sum256 secret \<noteq> expectedSum then Inl ErrInvalidSecret
           else Inr ())))"

definition initialPasswordBytes :: nat where "initialPasswordBytes = 24"

definition GenerateInitialPassword :: "random_source \<Rightarrow> auth_error + string" where
  "GenerateInitialPassword rnd = bindE (randomBytes rnd initialPasswordBytes) (\<lambda>bs. Inr (EncodeToString bs))"

section \<open>Passwords (password.go)\<close>

definition passwordHashVersion :: string where "passwordHashVersion = ''pbkdf2-sha512-v1''"
definition argon2Version :: string where "argon2Version = ''argon2id-v1''"
definition passwordSaltBytes :: nat where "passwordSaltBytes = 16"
definition passwordKeyBytes :: nat where "passwordKeyBytes = 64"
definition minimumHashIterations :: int where "minimumHashIterations = 10000"
definition maximumHashIterations :: int where "maximumHashIterations = 1000000"
definition memoryHashKeyBytes :: nat where "memoryHashKeyBytes = 32"
definition defaultArgon2Time :: "32 word" where "defaultArgon2Time = 2"
definition defaultArgon2Memory :: "32 word" where "defaultArgon2Memory = 19456"
definition defaultArgon2Threads :: "8 word" where "defaultArgon2Threads = 1"
definition maxArgon2Memory :: nat where "maxArgon2Memory = 64 * 1024"
definition maxArgon2Time :: nat where "maxArgon2Time = 10"
definition maxArgon2Threads :: nat where "maxArgon2Threads = 8"

lemmas password_consts = passwordHashVersion_def argon2Version_def passwordSaltBytes_def passwordKeyBytes_def
  minimumHashIterations_def maximumHashIterations_def memoryHashKeyBytes_def defaultArgon2Time_def
  defaultArgon2Memory_def defaultArgon2Threads_def maxArgon2Memory_def maxArgon2Time_def maxArgon2Threads_def

record password_hasher =
  ph_Semaphore :: bool
  ph_Argon2Time :: "32 word"
  ph_Argon2Memory :: "32 word"
  ph_Argon2Threads :: "8 word"

text \<open>Waiting for a derivation slot ends with the slot or with the caller's context.\<close>

datatype slot = SlotFree | CallerGone

definition acquire :: "password_hasher \<Rightarrow> slot \<Rightarrow> auth_error + unit" where
  "acquire h slot = (if \<not> ph_Semaphore h then Inr ()
     else (case slot of SlotFree \<Rightarrow> Inr () | CallerGone \<Rightarrow> Inl ContextDone))"

definition or_zero :: "'a::len word \<Rightarrow> 'a word \<Rightarrow> 'a word" where
  "or_zero d w = (if w = 0 then d else w)"

definition want_time :: "password_hasher \<Rightarrow> 32 word" where
  "want_time h = or_zero defaultArgon2Time (ph_Argon2Time h)"
definition want_memory :: "password_hasher \<Rightarrow> 32 word" where
  "want_memory h = or_zero defaultArgon2Memory (ph_Argon2Memory h)"
definition want_threads :: "password_hasher \<Rightarrow> 8 word" where
  "want_threads h = or_zero defaultArgon2Threads (ph_Argon2Threads h)"

type_synonym idkey = "string \<Rightarrow> string \<Rightarrow> 32 word \<Rightarrow> 32 word \<Rightarrow> 8 word \<Rightarrow> nat \<Rightarrow> string"
type_synonym pbkdf2 = "string \<Rightarrow> string \<Rightarrow> int \<Rightarrow> nat \<Rightarrow> string option"

definition HashPassword ::
    "idkey \<Rightarrow> random_source \<Rightarrow> slot \<Rightarrow> password_hasher \<Rightarrow> string \<Rightarrow> auth_error + string" where
  "HashPassword idkey rnd slot h password =
    (if password = [] then Inl ErrInvalidInput
     else bindE (acquire h slot) (\<lambda>_.
       bindE (randomBytes rnd passwordSaltBytes) (\<lambda>salt.
         let t = want_time h; m = want_memory h; threads = want_threads h;
             key = idkey password salt t m threads memoryHashKeyBytes in
         Inr (Join [argon2Version, decimal_nat (unat t), decimal_nat (unat m), decimal_nat (unat threads),
                EncodeToString salt, EncodeToString key] ''$''))))"

text \<open>\<open>strconv.ParseUint(s, 10, bits)\<close> and \<open>strings.TrimPrefix\<close>.\<close>

definition ParseUint :: "nat \<Rightarrow> string \<Rightarrow> nat option" where
  "ParseUint bits s =
    (if s = [] then None
     else (case digits_value 0 s of None \<Rightarrow> None | Some n \<Rightarrow> if n < 2 ^ bits then Some n else None))"

definition TrimPrefix :: "string \<Rightarrow> string \<Rightarrow> string" where
  "TrimPrefix s p = (if HasPrefix s p then drop (length p) s else s)"

definition argon2_parts :: "string \<Rightarrow> string list" where
  "argon2_parts encodedHash = SplitByte (TrimPrefix encodedHash (argon2Version @ ''$'')) CHR ''$''"

definition ShouldRehash :: "password_hasher \<Rightarrow> string \<Rightarrow> bool" where
  "ShouldRehash h encodedHash =
    (case CutByte encodedHash CHR ''$'' of (version, _, _) \<Rightarrow>
      if version \<noteq> argon2Version then version = passwordHashVersion
      else (let parts = argon2_parts encodedHash in
        if length parts \<noteq> 5 then False
        else (case (ParseUint 32 (parts ! 0), ParseUint 32 (parts ! 1), ParseUint 8 (parts ! 2)) of
          (Some t, Some m, Some threads) \<Rightarrow>
            word_of_nat t \<noteq> want_time h \<or> word_of_nat m \<noteq> want_memory h \<or> word_of_nat threads \<noteq> want_threads h
        | _ \<Rightarrow> False)))"

definition verifyPBKDF2 ::
    "pbkdf2 \<Rightarrow> slot \<Rightarrow> password_hasher \<Rightarrow> string \<Rightarrow> string \<Rightarrow> auth_error + unit" where
  "verifyPBKDF2 pbkdf2 slot h password encodedHash =
    (let parts = SplitByte encodedHash CHR ''$'' in
     if length parts \<noteq> 4 then Inl ErrInvalidInput
     else if parts ! 0 \<noteq> passwordHashVersion then Inl ErrUnsupportedVersion
     else (case Atoi (parts ! 1) of
       None \<Rightarrow> Inl ErrInvalidInput
     | Some iterations \<Rightarrow>
       if iterations < minimumHashIterations \<or> maximumHashIterations < iterations then Inl ErrInvalidInput
       else (case DecodeString (parts ! 2) of
         None \<Rightarrow> Inl ErrInvalidInput
       | Some salt \<Rightarrow>
         if length salt \<noteq> passwordSaltBytes then Inl ErrInvalidInput
         else (case DecodeString (parts ! 3) of
           None \<Rightarrow> Inl ErrInvalidInput
         | Some expected \<Rightarrow>
           if length expected \<noteq> passwordKeyBytes then Inl ErrInvalidInput
           else bindE (acquire h slot) (\<lambda>_.
             (case pbkdf2 password salt iterations (length expected) of
               None \<Rightarrow> Inl DerivationFailed
             | Some actual \<Rightarrow> if actual \<noteq> expected then Inl ErrInvalidSecret else Inr ()))))))"

definition verifyArgon2id ::
    "idkey \<Rightarrow> slot \<Rightarrow> password_hasher \<Rightarrow> string \<Rightarrow> string \<Rightarrow> auth_error + unit" where
  "verifyArgon2id idkey slot h password encodedHash =
    (let parts = argon2_parts encodedHash in
     if length parts \<noteq> 5 then Inl ErrInvalidInput
     else (case (ParseUint 32 (parts ! 0), ParseUint 32 (parts ! 1), ParseUint 8 (parts ! 2)) of
       (Some t, Some m, Some threads) \<Rightarrow>
         if t < 1 \<or> maxArgon2Time < t \<or> m < 8 * threads \<or> maxArgon2Memory < m
            \<or> threads < 1 \<or> maxArgon2Threads < threads then Inl ErrInvalidInput
         else (case (DecodeString (parts ! 3), DecodeString (parts ! 4)) of
           (Some salt, Some expected) \<Rightarrow>
             if length salt \<noteq> passwordSaltBytes \<or> length expected \<noteq> memoryHashKeyBytes then Inl ErrInvalidInput
             else bindE (acquire h slot) (\<lambda>_.
               if idkey password salt (word_of_nat t) (word_of_nat m) (word_of_nat threads) memoryHashKeyBytes \<noteq> expected
               then Inl ErrInvalidSecret else Inr ())
         | _ \<Rightarrow> Inl ErrInvalidInput)
     | _ \<Rightarrow> Inl ErrInvalidInput))"

definition VerifyPassword ::
    "idkey \<Rightarrow> pbkdf2 \<Rightarrow> slot \<Rightarrow> password_hasher \<Rightarrow> string \<Rightarrow> string \<Rightarrow> auth_error + unit" where
  "VerifyPassword idkey pbkdf2 slot h password encodedHash =
    (case CutByte encodedHash CHR ''$'' of (version, _, _) \<Rightarrow>
      if version = argon2Version then verifyArgon2id idkey slot h password encodedHash
      else if version = passwordHashVersion then verifyPBKDF2 pbkdf2 slot h password encodedHash
      else Inl ErrUnsupportedVersion)"

section \<open>Access tokens (jwt.go, config.go)\<close>

definition jwtAlgEdDSA :: string where "jwtAlgEdDSA = ''EdDSA''"

record jwt_key_pair =
  kp_KID :: string
  kp_Private :: string
  kp_Public :: string

record jwt_manager =
  jm_Issuer :: string
  jm_Audience :: "string list"
  jm_Active :: jwt_key_pair
  jm_Previous :: "jwt_key_pair list"

record token_claims =
  tc_Role :: string
  tc_State :: string
  tc_TokenVersion :: int
  tc_Scope :: string
  tc_AZP :: string
  tc_Issuer :: string
  tc_Subject :: string
  tc_Audience :: "string list"
  tc_ExpiresAt :: "instant option"
  tc_IssuedAt :: "instant option"
  tc_NotBefore :: "instant option"
  tc_ID :: string

text \<open>\<open>UnmarshalJSON\<close>: the decoded claims with the version as it appeared, absent or not.\<close>

definition UnmarshalJSON :: "(token_claims \<times> int option) option \<Rightarrow> auth_error + token_claims" where
  "UnmarshalJSON raw =
    (case raw of
       None \<Rightarrow> Inl ErrInvalidInput
     | Some (claims, None) \<Rightarrow> Inl ErrInvalidToken
     | Some (claims, Some v) \<Rightarrow> Inr (claims\<lparr>tc_TokenVersion := v\<rparr>))"

record token_input =
  ti_Subject :: string
  ti_JTI :: string
  ti_Role :: string
  ti_State :: string
  ti_TokenVersion :: int
  ti_Scopes :: "string list"
  ti_TTL :: duration
  ti_NotBefore :: instant
  ti_AuthorizedParty :: string

type_synonym 'c signer = "string \<Rightarrow> 'c \<Rightarrow> string \<Rightarrow> string option"

text \<open>A numeric date has second precision.\<close>

definition NewNumericDate :: "instant \<Rightarrow> instant" where "NewNumericDate t = t div Second * Second"

definition access_claims :: "jwt_manager \<Rightarrow> instant \<Rightarrow> string \<Rightarrow> token_input \<Rightarrow> token_claims" where
  "access_claims m issuedAt scopeClaim input =
    \<lparr>tc_Role = ti_Role input, tc_State = ti_State input, tc_TokenVersion = ti_TokenVersion input,
     tc_Scope = scopeClaim, tc_AZP = TrimSpace (ti_AuthorizedParty input), tc_Issuer = jm_Issuer m,
     tc_Subject = ti_Subject input, tc_Audience = jm_Audience m,
     tc_ExpiresAt = Some (NewNumericDate (issuedAt + ti_TTL input)), tc_IssuedAt = Some (NewNumericDate issuedAt),
     tc_NotBefore = Some (NewNumericDate (if IsZero (ti_NotBefore input) then issuedAt else ti_NotBefore input)),
     tc_ID = ti_JTI input\<rparr>"

definition SignAccessToken ::
    "token_claims signer \<Rightarrow> jwt_manager \<Rightarrow> instant \<Rightarrow> token_input \<Rightarrow> auth_error + string" where
  "SignAccessToken sign m now input =
    (case Claim (ti_Scopes input) of
       Inl _ \<Rightarrow> Inl ErrInvalidInput
     | Inr scopeClaim \<Rightarrow>
         if jm_Issuer m = [] \<or> ti_Subject input = [] \<or> TrimSpace (ti_JTI input) = [] \<or> TrimSpace (ti_Role input) = []
            \<or> TrimSpace (ti_State input) = [] \<or> ti_TokenVersion input < 0 \<or> jm_Audience m = [] \<or> ti_TTL input \<le> 0
            \<or> kp_KID (jm_Active m) = [] \<or> kp_Private (jm_Active m) = [] then Inl ErrInvalidInput
         else (case sign (kp_KID (jm_Active m)) (access_claims m now scopeClaim input) (kp_Private (jm_Active m)) of
           None \<Rightarrow> Inl SigningFailed | Some token \<Rightarrow> Inr token))"

definition publicKey :: "(string \<Rightarrow> string) \<Rightarrow> jwt_key_pair \<Rightarrow> string" where
  "publicKey ed_public pair =
    (if kp_Public pair \<noteq> [] then kp_Public pair
     else if kp_Private pair \<noteq> [] then ed_public (kp_Private pair)
     else [])"

definition publicKeyByKID :: "(string \<Rightarrow> string) \<Rightarrow> string \<Rightarrow> jwt_key_pair \<Rightarrow> string" where
  "publicKeyByKID ed_public kid pair = (if kp_KID pair \<noteq> kid then [] else publicKey ed_public pair)"

definition keyfunc :: "(string \<Rightarrow> string) \<Rightarrow> jwt_manager \<Rightarrow> string \<Rightarrow> string option \<Rightarrow> auth_error + string" where
  "keyfunc ed_public m alg kidHeader =
    (if alg \<noteq> jwtAlgEdDSA then Inl ErrInvalidToken
     else (case kidHeader of
       None \<Rightarrow> Inl ErrInvalidToken
     | Some kid \<Rightarrow>
         if kid = [] then Inl ErrInvalidToken
         else if publicKeyByKID ed_public kid (jm_Active m) \<noteq> [] then Inr (publicKeyByKID ed_public kid (jm_Active m))
         else (case List.find (\<lambda>p. publicKeyByKID ed_public kid p \<noteq> []) (jm_Previous m) of
           Some p \<Rightarrow> Inr (publicKeyByKID ed_public kid p)
         | None \<Rightarrow> Inl ErrInvalidToken)))"

definition validateTokenClaims :: "token_claims \<Rightarrow> auth_error + unit" where
  "validateTokenClaims c =
    (if TrimSpace (tc_Subject c) = [] \<or> TrimSpace (tc_ID c) = [] \<or> tc_ExpiresAt c = None \<or> tc_IssuedAt c = None
        \<or> tc_NotBefore c = None then Inl ErrInvalidToken
     else if TrimSpace (tc_Role c) = [] \<or> TrimSpace (tc_State c) = [] \<or> tc_TokenVersion c < 0 then Inl ErrInvalidToken
     else (case ParseClaim (tc_Scope c) of Inl _ \<Rightarrow> Inl ErrInvalidToken | Inr _ \<Rightarrow> Inr ()))"

text \<open>The failures the JWT library reports, joined in one error.\<close>

datatype jwt_error =
    TokenExpired
  | TokenSignatureInvalid
  | TokenUnverifiable
  | TokenMalformed
  | TokenInvalidIssuer
  | TokenInvalidAudience
  | TokenInvalidSubject
  | TokenInvalidId
  | TokenNotValidYet
  | TokenUsedBeforeIssued
  | TokenRequiredClaimMissing
  | TokenInvalidClaims

definition fatal_errors :: "jwt_error list" where
  "fatal_errors = [TokenSignatureInvalid, TokenUnverifiable, TokenMalformed, TokenInvalidIssuer, TokenInvalidAudience,
     TokenInvalidSubject, TokenInvalidId, TokenNotValidYet, TokenUsedBeforeIssued, TokenRequiredClaimMissing]"

definition isOnlyExpiredError :: "jwt_error list \<Rightarrow> bool" where
  "isOnlyExpiredError errs \<longleftrightarrow> TokenExpired \<in> set errs \<and> \<not> list_ex (\<lambda>e. e \<in> set fatal_errors) errs"

record parser_options =
  po_Methods :: "string list"
  po_Issuer :: string
  po_Audiences :: "string list"
  po_ExpirationRequired :: bool
  po_IssuedAt :: bool
  po_NotBeforeRequired :: bool
  po_Leeway :: duration
  po_Now :: instant

text \<open>The library's parser: from the options, the key selection and the token text to the claims it
  decoded and the errors it found.\<close>

type_synonym jwt_parser =
  "parser_options \<Rightarrow> (string \<Rightarrow> string option \<Rightarrow> auth_error + string) \<Rightarrow> string \<Rightarrow> token_claims \<times> jwt_error list"

definition access_parser_options :: "jwt_manager \<Rightarrow> instant \<Rightarrow> parser_options" where
  "access_parser_options m now = \<lparr>po_Methods = [jwtAlgEdDSA], po_Issuer = jm_Issuer m, po_Audiences = jm_Audience m,
     po_ExpirationRequired = True, po_IssuedAt = True, po_NotBeforeRequired = True, po_Leeway = 5 * Second, po_Now = now\<rparr>"

definition parseAccessToken ::
    "jwt_parser \<Rightarrow> (string \<Rightarrow> string) \<Rightarrow> jwt_manager \<Rightarrow> instant \<Rightarrow> string \<Rightarrow> bool \<Rightarrow> auth_error + token_claims" where
  "parseAccessToken parse ed_public m now tokenString allowExpired =
    (if jm_Issuer m = [] \<or> jm_Audience m = [] then Inl ErrInvalidInput
     else (case parse (access_parser_options m now) (keyfunc ed_public m) tokenString of (claims, errs) \<Rightarrow>
       if errs \<noteq> [] then
         (if allowExpired \<and> isOnlyExpiredError errs then
            (if tc_ExpiresAt claims = None then Inl ErrInvalidToken
             else bindE (validateTokenClaims claims) (\<lambda>_. Inr claims))
          else if TokenExpired \<in> set errs then Inl ErrExpiredToken
          else Inl ErrInvalidToken)
       else bindE (validateTokenClaims claims) (\<lambda>_. Inr claims)))"

definition VerifyAccessToken where
  "VerifyAccessToken parse ed_public m now tokenString = parseAccessToken parse ed_public m now tokenString False"

definition VerifyExpiredAccessToken where
  "VerifyExpiredAccessToken parse ed_public m now tokenString = parseAccessToken parse ed_public m now tokenString True"

definition jwk :: "(string \<Rightarrow> string) \<Rightarrow> jwt_key_pair \<Rightarrow> (string \<times> string) list option" where
  "jwk ed_public pair =
    (let public = publicKey ed_public pair in
     if kp_KID pair = [] \<or> public = [] then None
     else Some [(''kty'', ''OKP''), (''use'', ''sig''), (''kid'', kp_KID pair), (''crv'', ''Ed25519''),
                (''alg'', jwtAlgEdDSA), (''x'', EncodeToString public)])"

definition JWKS :: "(string \<Rightarrow> string) \<Rightarrow> jwt_manager \<Rightarrow> (string \<times> string) list list" where
  "JWKS ed_public m = List.map_filter (jwk ed_public) (jm_Active m # jm_Previous m)"

record jwt_config =
  jc_Issuer :: string
  jc_Audience :: string
  jc_ActiveKID :: string
  jc_ActiveKeyPEM :: string
  jc_PreviousKID :: string
  jc_PreviousKeyPEM :: string

definition NewJWTManager ::
    "(string \<Rightarrow> string option) \<Rightarrow> (string \<Rightarrow> string option) \<Rightarrow> jwt_config \<Rightarrow> auth_error + jwt_manager" where
  "NewJWTManager parsePrivate parsePublic config =
    (let issuer = TrimSpace (jc_Issuer config); audience = TrimSpace (jc_Audience config);
         activeKID = TrimSpace (jc_ActiveKID config); activeKeyPEM = TrimSpace (jc_ActiveKeyPEM config);
         previousKID = TrimSpace (jc_PreviousKID config); previousKeyPEM = TrimSpace (jc_PreviousKeyPEM config) in
     if issuer = [] \<or> audience = [] \<or> activeKID = [] \<or> activeKeyPEM = [] then Inl ErrInvalidInput
     else if (previousKID = []) \<noteq> (previousKeyPEM = []) then Inl ErrInvalidInput
     else (case parsePrivate activeKeyPEM of
       None \<Rightarrow> Inl ErrInvalidInput
     | Some active \<Rightarrow>
         (let m = \<lparr>jm_Issuer = issuer, jm_Audience = [audience],
                   jm_Active = \<lparr>kp_KID = activeKID, kp_Private = active, kp_Public = []\<rparr>, jm_Previous = []\<rparr> in
          if previousKeyPEM = [] then Inr m
          else (case parsePublic previousKeyPEM of
            None \<Rightarrow> Inl ErrInvalidInput
          | Some previous \<Rightarrow>
              if previousKID = activeKID then Inl ErrInvalidInput
              else Inr (m\<lparr>jm_Previous := [\<lparr>kp_KID = previousKID, kp_Private = [], kp_Public = previous\<rparr>]\<rparr>)))))"

section \<open>ID tokens (idtoken.go)\<close>

record id_token_claims =
  ic_Nonce :: string
  ic_Name :: string
  ic_Picture :: string
  ic_PreferredUsername :: string
  ic_UpdatedAt :: int
  ic_Role :: string
  ic_Email :: string
  ic_EmailVerified :: "bool option"
  ic_Issuer :: string
  ic_Subject :: string
  ic_Audience :: "string list"
  ic_ExpiresAt :: instant
  ic_IssuedAt :: instant

record id_token_subject =
  is_Name :: string
  is_Picture :: string
  is_PreferredUsername :: string
  is_UpdatedAt :: instant
  is_Email :: string
  is_Role :: string

record id_token_input =
  ii_Subject :: string
  ii_ClientID :: string
  ii_Scopes :: "string list"
  ii_Nonce :: string
  ii_TTL :: duration
  ii_Claims :: id_token_subject

definition applyScopeClaim :: "id_token_subject \<Rightarrow> string \<Rightarrow> id_token_claims \<Rightarrow> id_token_claims" where
  "applyScopeClaim subject name c =
    (if name = ProfileScope then
       c\<lparr>ic_Name := is_Name subject, ic_Picture := is_Picture subject,
         ic_PreferredUsername := is_PreferredUsername subject, ic_Role := is_Role subject,
         ic_UpdatedAt := (if IsZero (is_UpdatedAt subject) then ic_UpdatedAt c else is_UpdatedAt subject div Second)\<rparr>
     else if name = EmailScope then c\<lparr>ic_Email := is_Email subject, ic_EmailVerified := Some True\<rparr>
     else c)"

definition applyIDTokenScopeClaims :: "id_token_claims \<Rightarrow> string list \<Rightarrow> id_token_subject \<Rightarrow> id_token_claims" where
  "applyIDTokenScopeClaims c granted subject = fold (applyScopeClaim subject) granted c"

definition id_base_claims :: "jwt_manager \<Rightarrow> instant \<Rightarrow> id_token_input \<Rightarrow> id_token_claims" where
  "id_base_claims m issuedAt input =
    \<lparr>ic_Nonce = ii_Nonce input, ic_Name = [], ic_Picture = [], ic_PreferredUsername = [], ic_UpdatedAt = 0,
     ic_Role = [], ic_Email = [], ic_EmailVerified = None, ic_Issuer = jm_Issuer m, ic_Subject = ii_Subject input,
     ic_Audience = [ii_ClientID input], ic_ExpiresAt = NewNumericDate (issuedAt + ii_TTL input),
     ic_IssuedAt = NewNumericDate issuedAt\<rparr>"

definition SignIDToken ::
    "id_token_claims signer \<Rightarrow> jwt_manager \<Rightarrow> instant \<Rightarrow> id_token_input \<Rightarrow> auth_error + string" where
  "SignIDToken sign m now input =
    (case Normalize (ii_Scopes input) of
       Inl _ \<Rightarrow> Inl ErrInvalidInput
     | Inr normalized \<Rightarrow>
         if jm_Issuer m = [] \<or> TrimSpace (ii_Subject input) = [] \<or> TrimSpace (ii_ClientID input) = [] \<or> ii_TTL input \<le> 0
            \<or> kp_KID (jm_Active m) = [] \<or> kp_Private (jm_Active m) = [] then Inl ErrInvalidInput
         else (case sign (kp_KID (jm_Active m))
             (applyIDTokenScopeClaims (id_base_claims m now input) (ClaimScopes normalized) (ii_Claims input))
             (kp_Private (jm_Active m)) of
           None \<Rightarrow> Inl SigningFailed | Some token \<Rightarrow> Inr token))"

end
