(* ===== verification/Service_Base.thy ===== *)
theory Service_Base
  imports Store_System Limiter Auth_Primitives "HOL-Library.State_Monad"
begin

text \<open>
  What the services share. A request handler is a state action over the store and Redis; each call
  it makes has a site name, and the environment gives, per site, what other requests did since the
  previous call (\<open>ev_Between\<close>), which statements fail, how the network behaves, the clock readings, the
  random bytes and numbers, whether the caller is gone and whether a mail is accepted. So a handler is not atomic: only its single calls are. The theory also holds
  \<open>internal/service/shared\<close> and \<open>internal/service/tokenissue\<close>.
\<close>

text \<open>Besides the two stores, the state of the process: the built-in client it keeps, the mails handed to
  the mailer with the code they carry, and the queue of password-reset jobs.\<close>

record mail =
  ml_To :: string
  ml_Code :: string
  ml_Purpose :: string

record ForgotPasswordJob =
  fj_Email :: string
  fj_ClientIP :: string
  fj_UserAgent :: string

record world =
  wd_db :: database
  wd_redis :: redis
  wd_internal :: "string \<rightharpoonup> oauth_client"
  wd_mail :: "mail list"
  wd_jobs :: "ForgotPasswordJob list"

type_synonym site = string

record env =
  ev_Between :: "site \<Rightarrow> world \<Rightarrow> world"
  ev_Fault :: "site \<Rightarrow> fault"
  ev_Net :: "site \<Rightarrow> net"
  ev_Broken :: "site \<Rightarrow> nat option"
  ev_Now :: "site \<Rightarrow> instant"
  ev_Millis :: "site \<Rightarrow> millis"
  ev_Random :: "site \<Rightarrow> random_source"
  ev_UUID :: "site \<Rightarrow> string"
  ev_Slot :: "site \<Rightarrow> slot"
  ev_Gone :: "site \<Rightarrow> bool"
  ev_Sent :: "site \<Rightarrow> bool"
  ev_Int :: "site \<Rightarrow> nat \<Rightarrow> nat option"

type_synonym 'a action = "(world, 'a) state"

definition db_write :: "env \<Rightarrow> site \<Rightarrow> (fault \<Rightarrow> database \<Rightarrow> 'r \<times> database) \<Rightarrow> 'r action" where
  "db_write ev site f = State (\<lambda>w. let w1 = ev_Between ev site w in
     (case f (ev_Fault ev site) (wd_db w1) of (x, db') \<Rightarrow> (x, w1\<lparr>wd_db := db'\<rparr>)))"

definition db_read :: "env \<Rightarrow> site \<Rightarrow> (fault \<Rightarrow> database \<Rightarrow> 'r) \<Rightarrow> 'r action" where
  "db_read ev site q = State (\<lambda>w. let w1 = ev_Between ev site w in (q (ev_Fault ev site) (wd_db w1), w1))"

definition redis_write :: "env \<Rightarrow> site \<Rightarrow> (net \<Rightarrow> millis \<Rightarrow> redis \<Rightarrow> 'r \<times> redis) \<Rightarrow> 'r action" where
  "redis_write ev site f = State (\<lambda>w. let w1 = ev_Between ev site w in
     (case f (ev_Net ev site) (ev_Millis ev site) (wd_redis w1) of (x, r') \<Rightarrow> (x, w1\<lparr>wd_redis := r'\<rparr>)))"

definition redis_read :: "env \<Rightarrow> site \<Rightarrow> (net \<Rightarrow> millis \<Rightarrow> redis \<Rightarrow> 'r) \<Rightarrow> 'r action" where
  "redis_read ev site q = State (\<lambda>w. let w1 = ev_Between ev site w in
     (q (ev_Net ev site) (ev_Millis ev site) (wd_redis w1), w1))"

definition process_step :: "env \<Rightarrow> site \<Rightarrow> (world \<Rightarrow> 'r \<times> world) \<Rightarrow> 'r action" where
  "process_step ev site f = State (\<lambda>w. f (ev_Between ev site w))"

abbreviation ok :: "'a \<Rightarrow> ('e + 'a) action" where "ok x \<equiv> State_Monad.return (Inr x)"
abbreviation err :: "'e \<Rightarrow> ('e + 'a) action" where "err e \<equiv> State_Monad.return (Inl e)"

text \<open>Going on after a call that may fail, and an early return with its error.\<close>

definition bindM :: "('e + 'a) action \<Rightarrow> ('a \<Rightarrow> ('e + 'b) action) \<Rightarrow> ('e + 'b) action" where
  "bindM m k = do { r \<leftarrow> m; case r of Inl e \<Rightarrow> err e | Inr x \<Rightarrow> k x }"

section \<open>Shared helpers (shared.go)\<close>

definition DurationOrDefault :: "duration \<Rightarrow> duration \<Rightarrow> duration" where
  "DurationOrDefault v fallback = (if 0 < v then v else fallback)"

definition NullableString :: "string \<Rightarrow> string option" where
  "NullableString s = (if s = [] then None else Some s)"

definition ActorClientID :: "string \<Rightarrow> string \<Rightarrow> string" where
  "ActorClientID actor internalClientID =
    (if TrimSpace actor \<noteq> [] then TrimSpace actor else TrimSpace internalClientID)"

definition deliverable :: "instant \<Rightarrow> blacklist_entry \<Rightarrow> bool" where
  "deliverable now e \<longleftrightarrow> \<not> be_ExpiresAt e - now \<le> 0 \<and> TrimSpace (be_TokenID e) \<noteq> []"

record blacklist_port =
  bp_Prefix :: string
  bp_TombstoneTTL :: duration

definition DeliverBlacklist ::
    "env \<Rightarrow> blacklist_port option \<Rightarrow> blacklist_entry list \<Rightarrow> instant \<Rightarrow> unit action" where
  "DeliverBlacklist ev port entries now =
    (case port of
       None \<Rightarrow> State_Monad.return ()
     | Some bp \<Rightarrow>
         let jtis = map be_TokenID (filter (deliverable now) entries) in
         if jtis = [] then State_Monad.return ()
         else do {
           _ \<leftarrow> redis_write ev ''deliver blacklist'' (\<lambda>_ ms r.
             DeleteAuthStates (ev_Broken ev ''deliver blacklist'') ms (bp_Prefix bp) (bp_TombstoneTTL bp) jtis r);
           State_Monad.return () })"

section \<open>Error codes (errcode.go)\<close>

definition CodeBadRequest :: int where "CodeBadRequest = 40000"
definition CodeVerificationCodeWrong :: int where "CodeVerificationCodeWrong = 40010"
definition CodeVerificationCodeExpired :: int where "CodeVerificationCodeExpired = 40011"
definition CodeEmailDomainNotAllowed :: int where "CodeEmailDomainNotAllowed = 40020"
definition CodeNjuptEmailPrefixNotAllowed :: int where "CodeNjuptEmailPrefixNotAllowed = 40022"
definition CodeUnauthenticated :: int where "CodeUnauthenticated = 40100"
definition CodeAccessTokenExpired :: int where "CodeAccessTokenExpired = 40101"
definition CodeAccessTokenInvalid :: int where "CodeAccessTokenInvalid = 40102"
definition CodeRegisterTicketInvalid :: int where "CodeRegisterTicketInvalid = 40103"
definition CodeBindTicketInvalid :: int where "CodeBindTicketInvalid = 40104"
definition CodePasswordInvalid :: int where "CodePasswordInvalid = 40105"
definition CodeUnknownIdentifier :: int where "CodeUnknownIdentifier = 40106"
definition CodeConcurrentRefresh :: int where "CodeConcurrentRefresh = 40108"
definition CodeForbidden :: int where "CodeForbidden = 40300"
definition CodeAccountDeleted :: int where "CodeAccountDeleted = 40301"
definition CodeNotFound :: int where "CodeNotFound = 40400"
definition CodeUserNotFound :: int where "CodeUserNotFound = 40401"
definition CodeConflict :: int where "CodeConflict = 40900"
definition CodeEmailAlreadyRegistered :: int where "CodeEmailAlreadyRegistered = 40901"
definition CodeStudentIDOccupied :: int where "CodeStudentIDOccupied = 40902"
definition CodeIdentityOccupied :: int where "CodeIdentityOccupied = 40903"
definition CodeIdentityAlreadyBound :: int where "CodeIdentityAlreadyBound = 40904"
definition CodeIdentityLimitReached :: int where "CodeIdentityLimitReached = 40905"
definition CodeValidationFailed :: int where "CodeValidationFailed = 42200"
definition CodePasswordTooShort :: int where "CodePasswordTooShort = 42201"
definition CodePasswordUnchanged :: int where "CodePasswordUnchanged = 42202"
definition CodeRateLimited :: int where "CodeRateLimited = 42900"
definition CodeInternal :: int where "CodeInternal = 50000"
definition CodeEmailDeliveryFailed :: int where "CodeEmailDeliveryFailed = 50001"
definition CodeDatabaseFailed :: int where "CodeDatabaseFailed = 50003"
definition CodeDependencyUnavailable :: int where "CodeDependencyUnavailable = 50300"

section \<open>Token issuance (issuer.go)\<close>

record crypto =
  cr_Sum256 :: "string \<Rightarrow> string"
  cr_HMAC :: "string \<Rightarrow> string \<Rightarrow> string"
  cr_EdPublic :: "string \<Rightarrow> string"
  cr_SignAccess :: "token_claims signer"
  cr_SignID :: "id_token_claims signer"
  cr_Parse :: jwt_parser
  cr_IDKey :: idkey
  cr_PBKDF2 :: pbkdf2

datatype issue_error =
    ErrNotConfigured
  | ErrIssueInvalidInput
  | IssueScopeInvalid
  | IssueAuth auth_error

record token_pair =
  tp_AccessToken :: string
  tp_RefreshToken :: string
  tp_ScopeClaim :: string
  tp_FamilyID :: string
  tp_Access :: access_token
  tp_Refresh :: refresh_token

record issue_request =
  ir_User :: "user option"
  ir_Client :: "oauth_client option"
  ir_Sequence :: int
  ir_FamilyID :: string
  ir_Scopes :: "string list"
  ir_AccessTTL :: duration
  ir_RefreshTTL :: duration

definition issue_input :: "user \<Rightarrow> oauth_client \<Rightarrow> string \<Rightarrow> instant \<Rightarrow> string list \<Rightarrow> duration \<Rightarrow> token_input" where
  "issue_input user client jti now scopes ttl =
    \<lparr>ti_Subject = decimal (us_ID user), ti_JTI = jti, ti_Role = us_Role user, ti_State = us_State user,
     ti_TokenVersion = us_TokenVersion user, ti_Scopes = scopes, ti_TTL = ttl, ti_NotBefore = now,
     ti_AuthorizedParty = cl_ClientID client\<rparr>"

definition access_row :: "user \<Rightarrow> oauth_client \<Rightarrow> string \<Rightarrow> string \<Rightarrow> instant \<Rightarrow> string list \<Rightarrow> duration \<Rightarrow> access_token" where
  "access_row user client jti familyID now scopes ttl =
    \<lparr>at_ID = 0, at_TokenID = jti, at_ClientID = cl_ID client, at_UserID = us_ID user, at_FamilyID = Some familyID,
     at_Scopes = scopes, at_RevokedAt = None, at_ExpiresAt = now + ttl, at_CreatedAt = now\<rparr>"

definition refresh_row ::
    "user \<Rightarrow> oauth_client \<Rightarrow> string \<Rightarrow> string \<Rightarrow> int \<Rightarrow> instant \<Rightarrow> string list \<Rightarrow> duration \<Rightarrow> refresh_token" where
  "refresh_row user client tokenHash familyID sq now scopes ttl =
    \<lparr>rt_ID = 0, rt_TokenHash = tokenHash, rt_FamilyID = familyID, rt_Sequence = sq, rt_ClientID = cl_ID client,
     rt_UserID = us_ID user, rt_Scopes = scopes, rt_RevokedAt = None, rt_RevokedReason = None,
     rt_ExpiresAt = now + ttl, rt_CreatedAt = now\<rparr>"

definition Issue ::
    "crypto \<Rightarrow> env \<Rightarrow> jwt_manager option \<Rightarrow> string option \<Rightarrow> issue_request \<Rightarrow> issue_error + token_pair" where
  "Issue cr ev jwt refreshSecret request =
    (case (jwt, refreshSecret) of
       (Some m, Some secret) \<Rightarrow>
         (case (ir_User request, ir_Client request) of
            (Some user, Some client) \<Rightarrow>
              if ir_AccessTTL request \<le> 0 \<or> ir_RefreshTTL request \<le> 0 \<or> ir_Sequence request < 0
              then Inl ErrIssueInvalidInput
              else (case Normalize (ir_Scopes request) of
                Inl _ \<Rightarrow> Inl IssueScopeInvalid
              | Inr scopes \<Rightarrow>
                (case Claim scopes of
                  Inl _ \<Rightarrow> Inl IssueScopeInvalid
                | Inr scopeClaim \<Rightarrow>
                  let now = ev_Now ev ''issue'';
                      familyID = (if ir_FamilyID request = [] then ev_UUID ev ''family'' else ir_FamilyID request);
                      jti = ev_UUID ev ''jti'' in
                  (case SignAccessToken (cr_SignAccess cr) m (ev_Now ev ''sign access'')
                          (issue_input user client jti now scopes (ir_AccessTTL request)) of
                    Inl e \<Rightarrow> Inl (IssueAuth e)
                  | Inr accessToken \<Rightarrow>
                    (case NewRefreshToken (ev_Random ev ''refresh token'') secret of
                      Inl e \<Rightarrow> Inl (IssueAuth e)
                    | Inr refreshToken \<Rightarrow>
                      (case HashRefreshToken (cr_HMAC cr) secret refreshToken of
                        Inl e \<Rightarrow> Inl (IssueAuth e)
                      | Inr refreshHash \<Rightarrow>
                          Inr \<lparr>tp_AccessToken = accessToken, tp_RefreshToken = refreshToken, tp_ScopeClaim = scopeClaim,
                            tp_FamilyID = familyID,
                            tp_Access = access_row user client jti familyID now scopes (ir_AccessTTL request),
                            tp_Refresh = refresh_row user client refreshHash familyID (ir_Sequence request) now scopes
                              (ir_RefreshTTL request)\<rparr>)))))
          | _ \<Rightarrow> Inl ErrIssueInvalidInput)
     | _ \<Rightarrow> Inl ErrNotConfigured)"

text \<open>Random tokens rendered in hexadecimal, and the whole seconds of a duration.\<close>

definition hex_digit :: "nat \<Rightarrow> char" where "hex_digit n = ''0123456789abcdef'' ! n"

definition HexEncode :: "string \<Rightarrow> string" where
  "HexEncode s = concat (map (\<lambda>c. [hex_digit (byte c div 16), hex_digit (byte c mod 16)]) s)"

definition whole_seconds :: "duration \<Rightarrow> int" where
  "whole_seconds d = (if 0 \<le> d then d div Second else - (- d div Second))"

section \<open>Reasoning about actions\<close>

lemma io_rel_return [intro, simp]: "(\<And>s. R s s) \<Longrightarrow> state_io_rel R (State_Monad.return x)"
  by (simp add: state_io_rel_def)

lemma io_rel_bind:
  assumes "\<And>a b c. R a b \<Longrightarrow> R b c \<Longrightarrow> R a c" "state_io_rel R m" "\<And>x. state_io_rel R (k x)"
  shows "state_io_rel R (State_Monad.bind m k)"
  using assms unfolding state_io_rel_def run_state_bind split_beta by metis

lemma run_bindM:
  "run_state (bindM m k) w = (case run_state m w of (Inl e, w') \<Rightarrow> (Inl e, w') | (Inr x, w') \<Rightarrow> run_state (k x) w')"
  by (auto simp: bindM_def split: prod.splits sum.splits)

lemma run_calls [simp]:
  "run_state (db_read ev site q) w = (q (ev_Fault ev site) (wd_db (ev_Between ev site w)), ev_Between ev site w)"
  "run_state (redis_read ev site p) w =
     (p (ev_Net ev site) (ev_Millis ev site) (wd_redis (ev_Between ev site w)), ev_Between ev site w)"
  by (simp_all add: db_read_def redis_read_def Let_def)

section \<open>Issued pairs\<close>

lemma Issue_Inr:
  assumes "Issue cr ev jwt secret req = Inr pair"
  obtains user client scopes h where "ir_User req = Some user" "ir_Client req = Some client"
    "Normalize (ir_Scopes req) = Inr scopes" "0 < ir_AccessTTL req" "0 < ir_RefreshTTL req"
    "tp_FamilyID pair = (if ir_FamilyID req = [] then ev_UUID ev ''family'' else ir_FamilyID req)"
    "tp_Access pair = access_row user client (ev_UUID ev ''jti'') (tp_FamilyID pair) (ev_Now ev ''issue'') scopes (ir_AccessTTL req)"
    "tp_Refresh pair = refresh_row user client h (tp_FamilyID pair) (ir_Sequence req) (ev_Now ev ''issue'') scopes (ir_RefreshTTL req)"
proof -
  obtain user client where uc: "ir_User req = Some user" "ir_Client req = Some client"
    using assms by (auto simp: Issue_def split: option.splits)
  moreover obtain scopes where "Normalize (ir_Scopes req) = Inr scopes"
    using assms uc by (auto simp: Issue_def split: option.splits if_splits sum.splits)
  ultimately show thesis using assms
    by (auto simp: Issue_def Let_def split: option.splits if_splits sum.splits intro!: that[of user client scopes])
qed

lemma Issue_sequence: "Issue cr ev jwt secret req = Inr pair \<Longrightarrow> rt_Sequence (tp_Refresh pair) = ir_Sequence req"
  by (erule Issue_Inr) (simp add: refresh_row_def)

end
