(* ===== verification/Rfc3339.thy ===== *)
theory Rfc3339
  imports Calendar GoStrings
begin

text \<open>
  Timestamps of device records. Go writes \<open>now.UTC().Format(time.RFC3339)\<close>; the touch script of
  \<open>internal/redis/device_store.go\<close> rebuilds the same text from the Unix milliseconds of a sorted
  set score with the civil-from-days algorithm. The two agree.
\<close>

fun day_from :: "int \<Rightarrow> int list \<Rightarrow> int" where
  "day_from d [] = d + 1"
| "day_from d (l # ls) = (if d < l then d + 1 else day_from (d - l) ls)"

definition day_of_month :: "int \<Rightarrow> int" where
  "day_of_month n = (let y = year_of_day n in day_from (n - days_before_year y) (month_lengths y))"

text \<open>Zero-padded decimal of a non-negative number.\<close>

definition pad :: "nat \<Rightarrow> int \<Rightarrow> string" where
  "pad w n = replicate (w - length (decimal n)) CHR ''0'' @ decimal n"

definition rfc3339_text :: "int \<Rightarrow> int \<Rightarrow> int \<Rightarrow> int \<Rightarrow> int \<Rightarrow> int \<Rightarrow> string" where
  "rfc3339_text y m d hh mm ss = pad 4 y @ ''-'' @ pad 2 m @ ''-'' @ pad 2 d @ ''T''
     @ pad 2 hh @ '':'' @ pad 2 mm @ '':'' @ pad 2 ss @ ''Z''"

definition FormatRFC3339 :: "instant \<Rightarrow> string" where
  "FormatRFC3339 now =
    (let day = local_day 0 now; sod = (now div Second) mod 86400 in
     rfc3339_text (year_of_day day) (month_of_day day) (day_of_month day)
       (sod div 3600) (sod mod 3600 div 60) (sod mod 60))"

definition UnixMilli :: "instant \<Rightarrow> int" where
  "UnixMilli t = t div Millisecond"

text \<open>The local function of \<open>touchDeviceScript\<close>; \<open>math.floor\<close> of a quotient is integer division.\<close>

definition civil_yoe :: "int \<Rightarrow> int" where
  "civil_yoe doe = (doe - doe div 1460 + doe div 36524 - doe div 146096) div 365"

definition civil_from_days :: "int \<Rightarrow> int \<times> int \<times> int" where
  "civil_from_days days =
    (let z = days + 719468;
         era = z div 146097;
         doe = z - era * 146097;
         yoe = civil_yoe doe;
         y = yoe + era * 400;
         doy = doe - (365 * yoe + yoe div 4 - yoe div 100);
         mp = (5 * doy + 2) div 153;
         d = doy - (153 * mp + 2) div 5 + 1;
         m = mp + 3 - 12 * (mp div 10) in
     (y + mp div 10, m, d))"

definition unix_ms_to_rfc3339 :: "int \<Rightarrow> string" where
  "unix_ms_to_rfc3339 ms =
    (let sec = ms div 1000; days = sec div 86400; sod = sec mod 86400 in
     case civil_from_days days of (y, m, d) \<Rightarrow>
       rfc3339_text y m d (sod div 3600) (sod mod 3600 div 60) (sod mod 60))"

section \<open>Agreement\<close>

text \<open>Days before 1 March of a year, counted from 1 March of year 0.\<close>

definition march_days :: "int \<Rightarrow> int" where
  "march_days y = 365 * y + y div 4 - y div 100 + y div 400"

lemma div_unique: "(a::int) = b * q + r \<Longrightarrow> 0 \<le> r \<Longrightarrow> r < b \<Longrightarrow> a div b = q"
  by (metis int_div_pos_eq)

lemma ceil_div:
  fixes y k l :: int
  assumes "0 < k" and l: "l = k - 1"
  shows "(y + l) div k = y div k + (if y mod k = 0 then 0 else 1)"
proof -
  have y: "y = k * (y div k) + y mod k" "0 \<le> y mod k" "y mod k < k" using assms by simp_all
  show ?thesis
  proof (cases "y mod k = 0")
    case True
    then have "y + l = k * (y div k) + l" using y(1) by linarith
    then have "(y + l) div k = y div k" by (rule div_unique) (use assms in simp_all)
    then show ?thesis using True by simp
  next
    case False
    then have m: "0 < y mod k" using y(2) by linarith
    have "y + l = k * (y div k + 1) + (y mod k - 1)" using y(1) l by (simp add: algebra_simps)
    moreover have "0 \<le> y mod k - 1" "y mod k - 1 < k" using m y(3) by linarith+
    ultimately have "(y + l) div k = y div k + 1" by (rule div_unique)
    then show ?thesis using False by simp
  qed
qed

lemma leap_ceil:
  fixes x a b c :: int
  assumes "B \<Longrightarrow> A" "C \<Longrightarrow> B" "a' = a + (if A then 0 else 1)" "b' = b + (if B then 0 else 1)" "c' = c + (if C then 0 else 1)"
  shows "x + a' - b' + c' + (if A \<and> (\<not> B \<or> C) then 1 else 0) = x + a - b + c + 1"
  using assms by (cases A; cases B; cases C) simp_all

lemma march_first: "days_before_year y + (if isLeap y then 1 else 0) = march_days y + 1"
proof -
  have "y mod 100 = 0 \<Longrightarrow> y mod 4 = 0" "y mod 400 = 0 \<Longrightarrow> y mod 100 = 0" by presburger+
  moreover have "(y + 3) div 4 = y div 4 + (if y mod 4 = 0 then 0 else 1)"
    "(y + 99) div 100 = y div 100 + (if y mod 100 = 0 then 0 else 1)"
    "(y + 399) div 400 = y div 400 + (if y mod 400 = 0 then 0 else 1)"
    by (rule ceil_div; simp)+
  ultimately show ?thesis unfolding days_before_year_def march_days_def isLeap_def by (intro leap_ceil)
qed

text \<open>A day of an era is a century, a group of four years, a year and a day of it.\<close>

lemma era_day_split:
  fixes doe :: int
  assumes "0 \<le> doe" "doe < 146097"
  obtains c q a s where "doe = 36524 * c + 1461 * q + 365 * a + s" "0 \<le> c" "c \<le> 3" "0 \<le> q" "q \<le> 24"
    "0 \<le> a" "a \<le> 3" "0 \<le> s" "s \<le> 364 \<or> s = 365 \<and> a = 3 \<and> (q < 24 \<or> c = 3)"
proof -
  define c where "c = min 3 (doe div 36524)"
  define r1 where "r1 = doe - 36524 * c"
  have d: "36524 * (doe div 36524) \<le> doe" "doe < 36524 * (doe div 36524) + 36524" "0 \<le> doe div 36524"
    using div_bounds[of 36524 doe] assms by (simp_all add: pos_imp_zdiv_nonneg_iff)
  have r1: "0 \<le> c" "c \<le> 3" "0 \<le> r1" "r1 < 36524 \<or> c = 3 \<and> r1 = 36524"
    using d assms unfolding c_def r1_def by linarith+
  define q where "q = r1 div 1461"
  define r2 where "r2 = r1 - 1461 * q"
  have q: "0 \<le> q" "0 \<le> r2" "r2 < 1461" using div_bounds[of 1461 r1] r1(3)
    by (simp_all add: q_def r2_def pos_imp_zdiv_nonneg_iff)
  have "q \<le> 24" "q = 24 \<longrightarrow> r2 < 1460 \<or> c = 3" using q r1 by (auto simp: r2_def)
  define a where "a = min 3 (r2 div 365)"
  have d: "365 * (r2 div 365) \<le> r2" "r2 < 365 * (r2 div 365) + 365" "0 \<le> r2 div 365"
    using div_bounds[of 365 r2] q by (simp_all add: pos_imp_zdiv_nonneg_iff)
  have a: "0 \<le> a" "a \<le> 3" "0 \<le> r2 - 365 * a" "r2 - 365 * a \<le> 364 \<or> r2 = 1460 \<and> a = 3"
    using d q(3) unfolding a_def by linarith+
  show ?thesis
    using that[of c q a "r2 - 365 * a"] r1 q a \<open>q \<le> 24\<close> \<open>q = 24 \<longrightarrow> _\<close>
    by (auto simp: r1_def r2_def)
qed

lemma civil_yoe_correct:
  assumes doe: "doe = 36524 * c + 1461 * q + 365 * a + s" and c: "0 \<le> c" "c \<le> 3" and q: "0 \<le> q" "q \<le> 24"
    and a: "0 \<le> a" "a \<le> 3" and s: "0 \<le> s" "s \<le> 364 \<or> s = 365 \<and> a = 3 \<and> (q < 24 \<or> c = 3)"
  shows "civil_yoe doe = 100 * c + 4 * q + a"
proof (cases "doe = 146096")
  case True
  then have "c = 3 \<and> q = 24 \<and> a = 3" using assms by linarith
  then show ?thesis using True by (simp add: civil_yoe_def)
next
  case False
  let ?r2 = "365 * a + s"
  have r2: "0 \<le> ?r2" "?r2 \<le> 1460" using a s by linarith+
  have "doe < 146096" using assms False by linarith
  then have h: "doe div 146096 = 0" using doe c q r2 by simp
  have "?r2 < 1460" if "q = 24" using that s a False doe c by linarith
  then have "0 \<le> 1461 * q + ?r2" "1461 * q + ?r2 < 36524" using q r2 by (cases "q = 24"; simp)+
  then have g: "doe div 36524 = c" by (intro div_unique[where r = "1461 * q + ?r2"]) (simp_all add: doe)
  define e where "e = (if 1460 \<le> 24 * c + q + ?r2 then 1 else (0::int))"
  have f: "doe div 1460 = 25 * c + q + e"
    using c q r2 by (intro div_unique[where r = "24 * c + q + ?r2 - 1460 * e"]) (auto simp: doe e_def)
  have "0 \<le> s - e \<and> s - e < 365 \<or> e = 1 \<and> s = 0" using s a c q by (auto simp: e_def)
  moreover have "\<not> (e = 1 \<and> s = 0)" using c q a by (auto simp: e_def split: if_splits)
  ultimately have "(36500 * c + 1460 * q + ?r2 - e) div 365 = 100 * c + 4 * q + a"
    by (intro div_unique[where r = "s - e"]) simp_all
  moreover have "doe - doe div 1460 + doe div 36524 - doe div 146096 = 36500 * c + 1460 * q + ?r2 - e"
    unfolding f g h by (simp add: doe)
  ultimately show ?thesis by (simp only: civil_yoe_def)
qed

lemma march_days_era:
  assumes "yoe = 100 * c + 4 * q + a" "0 \<le> c" "c \<le> 3" "0 \<le> q" "q \<le> 24" "0 \<le> a" "a \<le> 3"
  shows "march_days (yoe + era * 400) = 146097 * era + 36524 * c + 1461 * q + 365 * a"
    "yoe div 4 = 25 * c + q" "yoe div 100 = c"
proof -
  let ?y = "yoe + era * 400"
  have "?y div 4 = 25 * c + q + 100 * era" "?y div 100 = c + 4 * era" "?y div 400 = era"
    "yoe div 4 = 25 * c + q" "yoe div 100 = c"
    using assms(2-)
    by (intro div_unique[where r = a] div_unique[where r = "4 * q + a"] div_unique[where r = "100 * c + 4 * q + a"];
        simp add: assms(1))+
  then show "march_days ?y = 146097 * era + 36524 * c + 1461 * q + 365 * a" "yoe div 4 = 25 * c + q" "yoe div 100 = c"
    by (simp_all add: march_days_def assms(1))
qed

text \<open>A month counted from March, by the day of the year counted from 1 March.\<close>

lemma month_of_march_year:
  fixes doy :: int
  assumes "0 \<le> doy" "doy \<le> 365" and mp: "mp = (5 * doy + 2) div 153"
  shows "0 \<le> mp" "mp \<le> 11" "(153 * mp + 2) div 5 \<le> doy" "doy < (153 * (mp + 1) + 2) div 5"
proof -
  have b: "153 * mp \<le> 5 * doy + 2" "5 * doy + 2 < 153 * mp + 153"
    using div_bounds[of 153 "5 * doy + 2"] mp by simp_all
  show "0 \<le> mp" "mp \<le> 11" using b assms by linarith+
  show "(153 * mp + 2) div 5 \<le> doy" using b div_bounds[of 5 "153 * mp + 2"] by linarith
  have "doy + 1 \<le> (153 * (mp + 1) + 2) div 5" using b by (subst le_div_iff) simp_all
  then show "doy < (153 * (mp + 1) + 2) div 5" by simp
qed

lemma year_of_dayI: "days_before_year y \<le> n \<Longrightarrow> n < days_before_year (y + 1) \<Longrightarrow> year_of_day n = y"
proof -
  assume y: "days_before_year y \<le> n" "n < days_before_year (y + 1)"
  have b: "days_before_year (year_of_day n) \<le> n" "n < days_before_year (year_of_day n + 1)"
    using year_of_day_bounds by simp_all
  show ?thesis using days_before_year_mono[of "y + 1" "year_of_day n"] days_before_year_mono[of "year_of_day n + 1" y] y b
    by linarith
qed

lemma small_int_cases:
  fixes m :: int
  assumes "0 \<le> m" "m \<le> 11"
  obtains "m = 0" | "m = 1" | "m = 2" | "m = 3" | "m = 4" | "m = 5" | "m = 6" | "m = 7" | "m = 8" | "m = 9"
    | "m = 10" | "m = 11"
proof -
  have "m = 0 \<or> m = 1 \<or> m = 2 \<or> m = 3 \<or> m = 4 \<or> m = 5 \<or> m = 6 \<or> m = 7 \<or> m = 8 \<or> m = 9 \<or> m = 10 \<or> m = 11"
    using assms by presburger
  then show ?thesis using that by blast
qed

text \<open>March to December fall in the same civil year, January and February in the next one.\<close>

lemma march_to_december:
  assumes "0 \<le> mp" "mp \<le> 9" "(153 * mp + 2) div 5 \<le> s" "s < (153 * (mp + 1) + 2) div 5"
    and L: "L = (if isLeap y then 1 else 0)"
  shows "month_from 1 (s + 59 + L) (month_lengths y) = mp + 3 \<and> day_from (s + 59 + L) (month_lengths y) = s - (153 * mp + 2) div 5 + 1
    \<and> s < 306"
proof -
  have "mp \<le> 11" using assms(2) by simp
  show ?thesis
    by (rule small_int_cases[OF assms(1) \<open>mp \<le> 11\<close>]; cases "isLeap y"; use assms in \<open>simp add: month_lengths_def\<close>)
qed

lemma january_february:
  assumes "mp = 10 \<or> mp = 11" "(153 * mp + 2) div 5 \<le> s" "s < (153 * (mp + 1) + 2) div 5" "s \<le> 365" "s = 365 \<longrightarrow> isLeap y"
  shows "month_from 1 (s - 306) (month_lengths y) = mp - 9 \<and> day_from (s - 306) (month_lengths y) = s - (153 * mp + 2) div 5 + 1
    \<and> 306 \<le> s"
  using assms(1) by (rule disjE; use assms in \<open>cases "isLeap y"; simp add: month_lengths_def\<close>)

lemma leap_after_long_year:
  assumes "c = 3 \<or> q < 24" "0 \<le> q" "q \<le> 24" "(y::int) = 100 * c + 4 * q + 3 + era * 400"
  shows "isLeap (y + 1)"
proof -
  have y: "y + 1 = 4 * (25 * c + q + 1 + 100 * era)" using assms(4) by simp
  then have "(y + 1) mod 4 = 0" by simp
  moreover have "(y + 1) mod 100 \<noteq> 0 \<or> (y + 1) mod 400 = 0"
  proof (cases "q < 24")
    case True
    have "(y + 1) mod 100 = (4 * q + 4 + 100 * (c + 4 * era)) mod 100" using assms(4) by (simp add: algebra_simps)
    also have "\<dots> = (4 * q + 4) mod 100" by (rule mod_mult_self2)
    also have "\<dots> = 4 * q + 4" using True assms(2) by simp
    finally show ?thesis using assms(2) by simp
  next
    case False
    then have "y + 1 = 400 * (era + 1)" using assms by simp
    then show ?thesis by (metis mod_mult_self1_is_0)
  qed
  ultimately show ?thesis by (simp add: isLeap_def)
qed

lemma civil_from_days_correct:
  fixes days :: int
  defines "n \<equiv> days + 719528"
  shows "civil_from_days days = (year_of_day n, month_of_day n, day_of_month n)"
proof -
  define era where "era = (days + 719468) div 146097"
  define doe where "doe = days + 719468 - era * 146097"
  have "0 \<le> doe" "doe < 146097" using div_bounds[of 146097 "days + 719468"] by (simp_all add: era_def doe_def)
  then obtain c q a s where d: "doe = 36524 * c + 1461 * q + 365 * a + s" "0 \<le> c" "c \<le> 3" "0 \<le> q" "q \<le> 24"
    "0 \<le> a" "a \<le> 3" "0 \<le> s" "s \<le> 364 \<or> s = 365 \<and> a = 3 \<and> (q < 24 \<or> c = 3)" by (rule era_day_split)
  define yoe where "yoe = 100 * c + 4 * q + a"
  define y where "y = yoe + era * 400"
  define mp where "mp = (5 * s + 2) div 153"
  define L :: int where "L = (if isLeap y then 1 else 0)"
  have yoe: "civil_yoe doe = yoe" unfolding yoe_def using d by (rule civil_yoe_correct)
  note md1 = march_days_era(1)[OF yoe_def d(2-7), where era = era, folded y_def]
    and md = march_days_era(2,3)[OF yoe_def d(2-7)]
  have doy: "doe - (365 * yoe + yoe div 4 - yoe div 100) = s" unfolding md by (simp add: d(1) yoe_def)
  have civ: "civil_from_days days = (y + mp div 10, mp + 3 - 12 * (mp div 10), s - (153 * mp + 2) div 5 + 1)"
    by (simp only: civil_from_days_def Let_def era_def[symmetric] doe_def[symmetric] yoe doy y_def[symmetric] mp_def[symmetric])
  have idx: "n - days_before_year y = s + 59 + L"
    using march_first[of y] md1 d(1) by (simp add: n_def L_def doe_def)
  have nexty: "days_before_year (y + 1) = days_before_year y + 365 + L" using days_before_year_step[of y] by (simp add: L_def)
  have s: "s \<le> 365" using d(9) by auto
  note m = month_of_march_year[OF d(8) s mp_def]
  show ?thesis
  proof (cases "mp \<le> 9")
    case True
    note t = march_to_december[OF m(1) True m(3,4) L_def]
    have "s < 306" "0 \<le> L" using t by (simp_all add: L_def)
    then have "year_of_day n = y" using idx nexty d(8) by (intro year_of_dayI) linarith+
    moreover have "mp div 10 = 0" using m(1) True by simp
    ultimately show ?thesis using t idx by (simp add: civ month_of_day_def day_of_month_def)
  next
    case False
    then have mp: "mp = 10 \<or> mp = 11" using m(2) by auto
    have "isLeap (y + 1)" if "s = 365" using that d(9) leap_after_long_year[of c q y era] d(4,5) by (auto simp: y_def yoe_def)
    then have t: "month_from 1 (s - 306) (month_lengths (y + 1)) = mp - 9 \<and>
        day_from (s - 306) (month_lengths (y + 1)) = s - (153 * mp + 2) div 5 + 1 \<and> 306 \<le> s"
      using january_february[OF mp m(3,4) s] by blast
    have idx': "n - days_before_year (y + 1) = s - 306" using idx nexty by simp
    have "days_before_year (y + 1 + 1) \<ge> days_before_year (y + 1) + 365" using days_before_year_step[of "y + 1"] by simp
    then have "year_of_day n = y + 1" using idx' conjunct2[OF conjunct2[OF t]] s by (intro year_of_dayI) linarith+
    moreover have "mp div 10 = 1" using mp by auto
    ultimately show ?thesis using t idx' by (simp add: civ month_of_day_def day_of_month_def)
  qed
qed

text \<open>The login time a touch rebuilds from the sorted-set score is, to the byte, the text a login
  at that instant stores, for every instant of the years 0 to 9999 the text formats cover.\<close>

theorem rebuilt_login_time: "unix_ms_to_rfc3339 (UnixMilli t) = FormatRFC3339 t"
proof -
  have sec: "UnixMilli t div 1000 = t div Second"
    by (simp add: UnixMilli_def zdiv_zmult2_eq[symmetric] duration_defs)
  moreover have "t div Day = t div Second div 86400" by (simp add: Day_def duration_defs zdiv_zmult2_eq[symmetric])
  ultimately show ?thesis
    by (simp add: unix_ms_to_rfc3339_def FormatRFC3339_def Let_def local_day_def civil_from_days_correct)
qed

end
