(* ===== verification/Device_Store.thy ===== *)
theory Device_Store
  imports Auth_Store Rfc3339
begin

text \<open>
  \<open>internal/redis/device_store.go\<close> and \<open>device_evictions.go\<close>: the per-user sorted set of devices
  scored by login time, the hash with the details of each device, the eviction of the oldest
  device past the cap, and the journal of evictions awaiting the revocation of their token
  family. Each Lua script is one atomic function. The JSON codec of Redis (\<open>cjson\<close>) and of the
  journal reader is the argument \<open>J\<close>, the random operation identifier an argument \<open>opID\<close>.
\<close>

section \<open>Sorted sets\<close>

text \<open>Members are ordered by score, then by their bytes.\<close>

fun bytes_le :: "string \<Rightarrow> string \<Rightarrow> bool" where
  "bytes_le [] t = True"
| "bytes_le (c # s) [] = False"
| "bytes_le (c # s) (d # t) = (byte c < byte d \<or> c = d \<and> bytes_le s t)"

definition zset_le :: "int \<times> string \<Rightarrow> int \<times> string \<Rightarrow> bool" where
  "zset_le x y \<longleftrightarrow> fst x < fst y \<or> fst x = fst y \<and> bytes_le (snd x) (snd y)"

fun zset_insert :: "int \<times> string \<Rightarrow> (int \<times> string) list \<Rightarrow> (int \<times> string) list" where
  "zset_insert x [] = [x]"
| "zset_insert x (y # ys) = (if zset_le x y then x # y # ys else y # zset_insert x ys)"

definition zset :: "millis \<Rightarrow> string \<Rightarrow> redis \<Rightarrow> (int \<times> string) list" where
  "zset now k r = (case value_at now (rs_zset r) k of None \<Rightarrow> [] | Some z \<Rightarrow> z)"

text \<open>A sorted set that becomes empty is removed.\<close>

definition zset_write :: "millis \<Rightarrow> string \<Rightarrow> (int \<times> string) list \<Rightarrow> redis \<Rightarrow> redis" where
  "zset_write now k z r = r\<lparr>rs_zset :=
     (if z = [] then (rs_zset r)(k := None) else write_at now k z (rs_zset r))\<rparr>"

definition cmd_zrem :: "millis \<Rightarrow> string \<Rightarrow> string \<Rightarrow> redis \<Rightarrow> redis" where
  "cmd_zrem now k m r = zset_write now k (filter (\<lambda>x. snd x \<noteq> m) (zset now k r)) r"

definition cmd_zadd :: "millis \<Rightarrow> string \<Rightarrow> int \<Rightarrow> string \<Rightarrow> redis \<Rightarrow> redis" where
  "cmd_zadd now k score m r =
     zset_write now k (zset_insert (score, m) (filter (\<lambda>x. snd x \<noteq> m) (zset now k r))) r"

definition cmd_zscore :: "millis \<Rightarrow> string \<Rightarrow> string \<Rightarrow> redis \<Rightarrow> int option" where
  "cmd_zscore now k m r = map_option fst (List.find (\<lambda>x. snd x = m) (zset now k r))"

definition zset_expire :: "millis \<Rightarrow> string \<Rightarrow> int \<Rightarrow> redis \<Rightarrow> redis" where
  "zset_expire now k seconds r = r\<lparr>rs_zset := pexpire now k (seconds * 1000) (rs_zset r)\<rparr>"

definition zset_del :: "string \<Rightarrow> redis \<Rightarrow> redis" where
  "zset_del k r = r\<lparr>rs_zset := (rs_zset r)(k := None)\<rparr>"

section \<open>Hashes\<close>

definition hash_exists :: "millis \<Rightarrow> string \<Rightarrow> redis \<Rightarrow> bool" where
  "hash_exists now k r \<longleftrightarrow> value_at now (rs_hash r) k \<noteq> None"

definition cmd_hset :: "millis \<Rightarrow> string \<Rightarrow> (string \<times> string) list \<Rightarrow> redis \<Rightarrow> redis" where
  "cmd_hset now k fvs r = r\<lparr>rs_hash := write_at now k
     (case value_at now (rs_hash r) k of None \<Rightarrow> map_of (rev fvs) | Some h \<Rightarrow> h ++ map_of (rev fvs)) (rs_hash r)\<rparr>"

definition hash_expire :: "millis \<Rightarrow> string \<Rightarrow> int \<Rightarrow> redis \<Rightarrow> redis" where
  "hash_expire now k seconds r = r\<lparr>rs_hash := pexpire now k (seconds * 1000) (rs_hash r)\<rparr>"

definition hash_del :: "string \<Rightarrow> redis \<Rightarrow> redis" where
  "hash_del k r = r\<lparr>rs_hash := (rs_hash r)(k := None)\<rparr>"

section \<open>Keys and records\<close>

definition Devices :: "string \<Rightarrow> int \<Rightarrow> string" where
  "Devices pre userID = join_key pre [''{dev}'', ''devices'', decimal userID]"

definition Device :: "string \<Rightarrow> string \<Rightarrow> string" where
  "Device pre deviceID = join_key pre [''{dev}'', ''device'', deviceID]"

definition deviceHashKeyPrefix :: "string \<Rightarrow> string" where
  "deviceHashKeyPrefix pre = join_key pre [''{dev}'', ''device''] @ '':''"

definition operation_key :: "string \<Rightarrow> string \<Rightarrow> string" where
  "operation_key pre opID = join_key pre [''{dev}'', ''operation'', opID]"

definition pending_key :: "string \<Rightarrow> string" where
  "pending_key pre = join_key pre [''{dev}'', ''pending_evictions'']"

record DeviceOperation =
  do_TokenHash :: string
  do_ExpiresAt :: instant

text \<open>The zero value of the operation has the zero instant.\<close>

definition deviceOperation :: "DeviceOperation list \<Rightarrow> DeviceOperation" where
  "deviceOperation ops = (case ops of [] \<Rightarrow> \<lparr>do_TokenHash = [], do_ExpiresAt = zeroTime\<rparr> | op # _ \<Rightarrow> op)"

record DeviceEviction =
  de_OperationID :: string
  de_TokenHash :: string
  de_UserID :: int
  de_ExpiresAt :: int
  de_SourceFamily :: string
  de_Evicted :: string

record DeviceInfo =
  di_DeviceID :: string
  di_UA :: string
  di_IP :: string
  di_LoginTime :: instant
  di_LastSeen :: instant

record codec =
  cj_text :: "string \<Rightarrow> string"
  cj_text_decode :: "string \<Rightarrow> string option"
  cj_pair :: "int \<times> string \<Rightarrow> string"
  cj_pair_decode :: "string \<Rightarrow> (int \<times> string) option"
  cj_eviction :: "DeviceEviction \<Rightarrow> string"
  cj_eviction_decode :: "string \<Rightarrow> DeviceEviction option"

text \<open>The arguments the two staging scripts share.\<close>

record device_call =
  dc_User :: int
  dc_Device :: string
  dc_UA :: string
  dc_IP :: string
  dc_Stamp :: string
  dc_Score :: int
  dc_Seconds :: int
  dc_Limit :: int
  dc_TokenHash :: string
  dc_Deadline :: int
  dc_OperationID :: string

section \<open>Staging scripts\<close>

definition journal_full :: "millis \<Rightarrow> string \<Rightarrow> device_call \<Rightarrow> redis \<Rightarrow> bool" where
  "journal_full now pre c r \<longleftrightarrow> dc_TokenHash c \<noteq> [] \<and> 10000 \<le> length (zset now (pending_key pre) r)"

text \<open>The local function \<open>finish\<close>: journal the eviction, remember the encoded result for a minute.\<close>

definition finish :: "codec \<Rightarrow> millis \<Rightarrow> string \<Rightarrow> device_call \<Rightarrow> string \<Rightarrow> string \<Rightarrow> redis \<Rightarrow> redis" where
  "finish J now pre c evicted encoded r =
    (let r1 = (if evicted \<noteq> [] \<and> dc_TokenHash c \<noteq> []
               then cmd_zadd now (pending_key pre) (dc_Deadline c)
                 (cj_eviction J \<lparr>de_OperationID = dc_OperationID c, de_TokenHash = dc_TokenHash c,
                    de_UserID = dc_User c, de_ExpiresAt = dc_Deadline c, de_SourceFamily = dc_Device c,
                    de_Evicted = evicted\<rparr>) r
               else r) in
     cmd_set now (operation_key pre (dc_OperationID c)) encoded 60000 r1)"

definition sweep_phantoms :: "millis \<Rightarrow> string \<Rightarrow> string \<Rightarrow> redis \<Rightarrow> redis" where
  "sweep_phantoms now pre k r =
     fold (\<lambda>m r. if hash_exists now (deviceHashKeyPrefix pre @ m) r then r else cmd_zrem now k m r)
       (map snd (zset now k r)) r"

text \<open>The eviction past the cap: the member with the least score and its hash.\<close>

definition evict_oldest :: "millis \<Rightarrow> string \<Rightarrow> string \<Rightarrow> int \<Rightarrow> redis \<Rightarrow> string \<times> redis" where
  "evict_oldest now pre k limit r =
    (case zset now k r of
       [] \<Rightarrow> ([], r)
     | (_, m) # rest \<Rightarrow>
         if limit < int (length (zset now k r))
         then (m, hash_del (deviceHashKeyPrefix pre @ m) (zset_write now k rest r))
         else ([], r))"

text \<open>The part both scripts run for a device that is not in the set.\<close>

definition stage_device :: "millis \<Rightarrow> string \<Rightarrow> device_call \<Rightarrow> redis \<Rightarrow> string \<times> redis" where
  "stage_device now pre c r =
    (let k = Devices pre (dc_User c); h = Device pre (dc_Device c);
         r1 = zset_expire now k (dc_Seconds c) (cmd_zadd now k (dc_Score c) (dc_Device c) r);
         r2 = hash_expire now h (dc_Seconds c)
                (cmd_hset now h [(''ua'', dc_UA c), (''ip'', dc_IP c), (''login_time'', dc_Stamp c),
                   (''last_seen'', dc_Stamp c)] r1) in
     evict_oldest now pre k (dc_Limit c) (sweep_phantoms now pre k r2))"

definition registerDeviceScript :: "codec \<Rightarrow> millis \<Rightarrow> string \<Rightarrow> device_call \<Rightarrow> redis \<Rightarrow> (redis_error + string) \<times> redis" where
  "registerDeviceScript J now pre c r =
    (case cmd_get now (operation_key pre (dc_OperationID c)) r of
       Some prior \<Rightarrow> (case cj_text_decode J prior of None \<Rightarrow> Inl (ScriptError ''decode'') | Some s \<Rightarrow> Inr s, r)
     | None \<Rightarrow>
         if journal_full now pre c r then (Inl (ScriptError ''device eviction journal full''), r)
         else (case stage_device now pre c r of
           (evicted, r') \<Rightarrow> (Inr evicted, finish J now pre c evicted (cj_text J evicted) r')))"

definition touchDeviceScript :: "codec \<Rightarrow> millis \<Rightarrow> string \<Rightarrow> device_call \<Rightarrow> redis \<Rightarrow> (redis_error + int \<times> string) \<times> redis" where
  "touchDeviceScript J now pre c r =
    (case cmd_get now (operation_key pre (dc_OperationID c)) r of
       Some prior \<Rightarrow> (case cj_pair_decode J prior of None \<Rightarrow> Inl (ScriptError ''decode'') | Some p \<Rightarrow> Inr p, r)
     | None \<Rightarrow>
         if journal_full now pre c r then (Inl (ScriptError ''device eviction journal full''), r)
         else let k = Devices pre (dc_User c); h = Device pre (dc_Device c) in
           (case cmd_zscore now k (dc_Device c) r of
              Some score \<Rightarrow>
                (let r1 = (if hash_exists now h r then cmd_hset now h [(''last_seen'', dc_Stamp c)] r
                           else cmd_hset now h [(''ua'', dc_UA c), (''ip'', dc_IP c),
                             (''login_time'', unix_ms_to_rfc3339 score), (''last_seen'', dc_Stamp c)] r);
                     r2 = (if pttl now (rs_hash r1) h < 0 then hash_expire now h (dc_Seconds c) r1 else r1);
                     r3 = (if pttl now (rs_zset r2) k < 0 then zset_expire now k (dc_Seconds c) r2 else r2) in
                 (Inr (1, []), finish J now pre c [] (cj_pair J (1, [])) r3))
            | None \<Rightarrow>
                (case stage_device now pre c r of
                   (evicted, r') \<Rightarrow> (Inr (0, evicted), finish J now pre c evicted (cj_pair J (0, evicted)) r'))))"

section \<open>Operations\<close>

text \<open>\<open>int(ttl.Seconds())\<close> truncates; \<open>op.ExpiresAt.Unix()\<close> is the second the instant falls in.\<close>

definition device_call_of ::
    "int \<Rightarrow> string \<Rightarrow> string \<Rightarrow> string \<Rightarrow> instant \<Rightarrow> duration \<Rightarrow> int \<Rightarrow> DeviceOperation list \<Rightarrow> string \<Rightarrow> device_call" where
  "device_call_of userID deviceID ua ip at ttl limit ops opID =
    \<lparr>dc_User = userID, dc_Device = deviceID, dc_UA = ua, dc_IP = ip, dc_Stamp = FormatRFC3339 at,
      dc_Score = UnixMilli at, dc_Seconds = ttl div Second, dc_Limit = limit,
      dc_TokenHash = do_TokenHash (deviceOperation ops),
      dc_Deadline = do_ExpiresAt (deviceOperation ops) div Second + 1, dc_OperationID = opID\<rparr>"

definition RegisterDevice ::
    "codec \<Rightarrow> net \<Rightarrow> millis \<Rightarrow> string \<Rightarrow> string \<Rightarrow> int \<Rightarrow> string \<Rightarrow> string \<Rightarrow> string \<Rightarrow> instant \<Rightarrow> duration \<Rightarrow> int
      \<Rightarrow> DeviceOperation list \<Rightarrow> redis \<Rightarrow> (redis_error + string) \<times> redis" where
  "RegisterDevice J n now pre opID userID deviceID ua ip at ttl limit ops r =
    (if userID \<le> 0 \<or> deviceID = [] \<or> ttl \<le> 0 \<or> limit \<le> 0 then (Inl ErrRedisArgument, r)
     else if ttl div Second \<le> 0 then (Inl ErrRedisArgument, r)
     else call n (registerDeviceScript J now pre
            (device_call_of userID deviceID ua ip at ttl limit ops opID)) r)"

definition TouchDevice ::
    "codec \<Rightarrow> net \<Rightarrow> millis \<Rightarrow> string \<Rightarrow> string \<Rightarrow> int \<Rightarrow> string \<Rightarrow> string \<Rightarrow> string \<Rightarrow> instant \<Rightarrow> duration \<Rightarrow> int
      \<Rightarrow> DeviceOperation list \<Rightarrow> redis \<Rightarrow> (redis_error + string) \<times> redis" where
  "TouchDevice J n now pre opID userID deviceID ua ip at ttl limit ops r =
    (if userID \<le> 0 \<or> deviceID = [] \<or> ttl \<le> 0 \<or> limit \<le> 0 then (Inl ErrRedisArgument, r)
     else if ttl div Second \<le> 0 then (Inl ErrRedisArgument, r)
     else (case call n (touchDeviceScript J now pre
              (device_call_of userID deviceID ua ip at ttl limit ops opID)) r of
        (res, r') \<Rightarrow> (map_sum id snd res, r')))"

definition RemoveDevice :: "net \<Rightarrow> millis \<Rightarrow> string \<Rightarrow> int \<Rightarrow> string \<Rightarrow> redis \<Rightarrow> (redis_error + unit) \<times> redis" where
  "RemoveDevice n now pre userID deviceID r =
    (if userID \<le> 0 \<or> deviceID = [] then (Inl ErrRedisArgument, r)
     else call n (\<lambda>r. (Inr (), hash_del (Device pre deviceID)
            (cmd_zrem now (Devices pre userID) deviceID r))) r)"

definition RemoveAllDevices :: "net \<Rightarrow> millis \<Rightarrow> string \<Rightarrow> int \<Rightarrow> redis \<Rightarrow> (redis_error + unit) \<times> redis" where
  "RemoveAllDevices n now pre userID r =
    (if userID \<le> 0 then (Inl ErrRedisArgument, r)
     else call n (\<lambda>r. (Inr (), fold (\<lambda>m. hash_del (deviceHashKeyPrefix pre @ m))
            (map snd (zset now (Devices pre userID) r)) (zset_del (Devices pre userID) r))) r)"

text \<open>One listed device: missing hash fields are empty, unreadable times are the zero instant; the
  reader of timestamps (\<open>time.Parse\<close>) is the argument \<open>parse\<close>.\<close>

definition device_info :: "(string \<Rightarrow> instant option) \<Rightarrow> string \<Rightarrow> (string \<rightharpoonup> string) \<Rightarrow> DeviceInfo" where
  "device_info parse m h =
    (let field = (\<lambda>f. case h f of None \<Rightarrow> [] | Some v \<Rightarrow> v);
         time = (\<lambda>f. case parse (field f) of None \<Rightarrow> zeroTime | Some t \<Rightarrow> t) in
     \<lparr>di_DeviceID = m, di_UA = field ''ua'', di_IP = field ''ip'', di_LoginTime = time ''login_time'',
       di_LastSeen = time ''last_seen''\<rparr>)"

definition ListDevices ::
    "(string \<Rightarrow> instant option) \<Rightarrow> net \<Rightarrow> millis \<Rightarrow> string \<Rightarrow> int \<Rightarrow> redis \<Rightarrow> (redis_error + DeviceInfo list) \<times> redis" where
  "ListDevices parse n now pre userID r =
    (if userID \<le> 0 then (Inl ErrRedisArgument, r)
     else call n (\<lambda>r.
       (Inr (List.map_filter (\<lambda>m. map_option (device_info parse m)
               (value_at now (rs_hash r) (deviceHashKeyPrefix pre @ m)))
             (rev (map snd (zset now (Devices pre userID) r)))),
        sweep_phantoms now pre (Devices pre userID) r)) r)"

definition DeviceOwnedBy :: "net \<Rightarrow> millis \<Rightarrow> string \<Rightarrow> int \<Rightarrow> string \<Rightarrow> redis \<Rightarrow> redis_error + bool" where
  "DeviceOwnedBy n now pre userID deviceID r =
    (if userID \<le> 0 \<or> deviceID = [] then Inl ErrRedisArgument
     else fst (call n (\<lambda>r. (Inr (cmd_zscore now (Devices pre userID) deviceID r \<noteq> None), r)) r))"

section \<open>The eviction journal\<close>

text \<open>Each entry is returned with the raw member, its receipt; one undecodable entry fails the read.
  The range \<open>0 .. -1\<close> denotes the whole set.\<close>

fun decode_all :: "(string \<Rightarrow> 'a option) \<Rightarrow> string list \<Rightarrow> redis_error + ('a \<times> string) list" where
  "decode_all dec [] = Inr []"
| "decode_all dec (v # vs) = (case dec v of
     None \<Rightarrow> Inl PayloadError
   | Some x \<Rightarrow> bindE (decode_all dec vs) (\<lambda>xs. Inr ((x, v) # xs)))"

definition PendingDeviceEvictions ::
    "codec \<Rightarrow> net \<Rightarrow> millis \<Rightarrow> string \<Rightarrow> nat \<Rightarrow> nat \<Rightarrow> redis \<Rightarrow> redis_error + (DeviceEviction \<times> string) list" where
  "PendingDeviceEvictions J n now pre offset limit r =
     bindE (fst (call n (\<lambda>r. (Inr (let ms = map snd (zset now (pending_key pre) r) in
          if offset = 0 \<and> limit = 0 then ms else take limit (drop offset ms)), r)) r))
       (decode_all (cj_eviction_decode J))"

definition AckDeviceEviction :: "net \<Rightarrow> millis \<Rightarrow> string \<Rightarrow> string \<Rightarrow> redis \<Rightarrow> (redis_error + unit) \<times> redis" where
  "AckDeviceEviction n now pre receipt r =
     call n (\<lambda>r. (Inr (), cmd_zrem now (pending_key pre) receipt r)) r"

end
