(* ===== verification/Session_Base.thy ===== *)
theory Session_Base
  imports Service_Base Device_Store
begin

text \<open>
  What the session service is made of: its errors (\<open>service/session/errors.go\<close>), settings and data
  (\<open>types.go\<close>), the Redis ports (\<open>adapter/redis/session\<close>) and the helpers of \<open>helpers.go\<close> and
  \<open>service.go\<close>: throttling, login lockout, verification codes, audit rows, issued pairs. A message of the
  source is represented by an ASCII key; causes, which only reach the log, and metrics are dropped.
\<close>

section \<open>Errors (errors.go)\<close>

datatype session_kind =
    KindInvalidInput
  | KindRateLimited
  | KindLocked
  | KindUnknownIdentifier
  | KindPasswordInvalid
  | KindLoginFailed
  | KindUserDeleted
  | KindInvalidToken
  | KindEmailFailed
  | KindConflict
  | KindValidationFailed
  | KindNotFound
  | KindInternal
  | KindDependencyUnavailable

record session_error =
  se_Kind :: session_kind
  se_Code :: int
  se_Message :: string
  se_RetryAfter :: duration

type_synonym session_sentinel = "session_kind \<times> int"

definition ErrInvalidInput :: session_sentinel where "ErrInvalidInput = (KindInvalidInput, CodeBadRequest)"
definition ErrRateLimited :: session_sentinel where "ErrRateLimited = (KindRateLimited, CodeRateLimited)"
definition ErrLocked :: session_sentinel where "ErrLocked = (KindLocked, CodeRateLimited)"
definition ErrUnknownIdentifier :: session_sentinel where
  "ErrUnknownIdentifier = (KindUnknownIdentifier, CodeUnknownIdentifier)"
definition ErrPasswordInvalid :: session_sentinel where "ErrPasswordInvalid = (KindPasswordInvalid, CodePasswordInvalid)"
definition ErrLoginFailed :: session_sentinel where "ErrLoginFailed = (KindLoginFailed, CodePasswordInvalid)"
definition ErrUserDeleted :: session_sentinel where "ErrUserDeleted = (KindUserDeleted, CodeAccountDeleted)"
definition ErrInvalidToken :: session_sentinel where "ErrInvalidToken = (KindInvalidToken, CodeAccessTokenInvalid)"
definition ErrConcurrentRefresh :: session_sentinel where "ErrConcurrentRefresh = (KindInvalidToken, CodeConcurrentRefresh)"
definition ErrEmailFailed :: session_sentinel where "ErrEmailFailed = (KindEmailFailed, CodeEmailDeliveryFailed)"
definition ErrVerificationCodeWrong :: session_sentinel where
  "ErrVerificationCodeWrong = (KindInvalidInput, CodeVerificationCodeWrong)"
definition ErrVerificationCodeExpired :: session_sentinel where
  "ErrVerificationCodeExpired = (KindInvalidInput, CodeVerificationCodeExpired)"
definition ErrRegisterTicketInvalid :: session_sentinel where
  "ErrRegisterTicketInvalid = (KindInvalidToken, CodeRegisterTicketInvalid)"
definition ErrBindTicketInvalid :: session_sentinel where "ErrBindTicketInvalid = (KindInvalidToken, CodeBindTicketInvalid)"
definition ErrEmailAlreadyRegistered :: session_sentinel where
  "ErrEmailAlreadyRegistered = (KindConflict, CodeEmailAlreadyRegistered)"
definition ErrStudentIDOccupied :: session_sentinel where "ErrStudentIDOccupied = (KindConflict, CodeStudentIDOccupied)"
definition ErrConflict :: session_sentinel where "ErrConflict = (KindConflict, CodeConflict)"
definition ErrIdentityOccupied :: session_sentinel where "ErrIdentityOccupied = (KindConflict, CodeIdentityOccupied)"
definition ErrIdentityLimitReached :: session_sentinel where
  "ErrIdentityLimitReached = (KindConflict, CodeIdentityLimitReached)"
definition ErrPasswordTooShort :: session_sentinel where "ErrPasswordTooShort = (KindValidationFailed, CodePasswordTooShort)"
definition ErrPasswordUnchanged :: session_sentinel where
  "ErrPasswordUnchanged = (KindValidationFailed, CodePasswordUnchanged)"
definition ErrIdentityNotFound :: session_sentinel where "ErrIdentityNotFound = (KindNotFound, CodeNotFound)"
definition ErrDeviceNotFound :: session_sentinel where "ErrDeviceNotFound = (KindNotFound, CodeNotFound)"
definition ErrLastLoginMethod_s :: session_sentinel where
  "ErrLastLoginMethod_s = (KindValidationFailed, CodeValidationFailed)"
definition ErrInternal :: session_sentinel where "ErrInternal = (KindInternal, CodeInternal)"
definition ErrDependencyUnavailable :: session_sentinel where
  "ErrDependencyUnavailable = (KindDependencyUnavailable, CodeDependencyUnavailable)"

definition newError :: "session_sentinel \<Rightarrow> string \<Rightarrow> session_error" where
  "newError sentinel message =
     \<lparr>se_Kind = fst sentinel, se_Code = snd sentinel, se_Message = message, se_RetryAfter = 0\<rparr>"

definition withRetryAfter :: "session_error \<Rightarrow> duration \<Rightarrow> session_error" where
  "withRetryAfter e d = e\<lparr>se_RetryAfter := d\<rparr>"

section \<open>Settings and data (types.go, service.go)\<close>

definition defaultAccessTTL :: duration where "defaultAccessTTL = Hour"
definition defaultRefreshTTL :: duration where "defaultRefreshTTL = 30 * 24 * Hour"
definition verificationTTL :: duration where "verificationTTL = 5 * Minute"
definition maxOtherMailBindings :: int where "maxOtherMailBindings = 2"
definition sessionScopes :: "string list" where "sessionScopes = InternalSessionScopes"
definition ClientTypeFirstParty :: string where "ClientTypeFirstParty = ''first_party''"
definition BearerTokenType :: string where "BearerTokenType = ''Bearer''"
definition MinPasswordLength :: nat where "MinPasswordLength = 8"
definition MaxLoginEmailLength :: nat where "MaxLoginEmailLength = 255"
definition VerificationPurposeRegister :: string where "VerificationPurposeRegister = ''register''"
definition VerificationPurposeResetPassword :: string where "VerificationPurposeResetPassword = ''reset_password''"
definition VerificationPurposeBindEmail :: string where "VerificationPurposeBindEmail = ''bind_email''"
definition defaultForgotPasswordQueueSize :: nat where "defaultForgotPasswordQueueSize = 64"

record LoginFailureStore =
  fs_Limit :: int
  fs_Window :: duration

record LoginFailureResult =
  lr_Count :: int
  lr_TTL :: duration
  lr_Locked :: bool

record DeviceStore =
  dv_Codec :: codec
  dv_Parse :: "string \<Rightarrow> instant option"

record BindTicketPayload =
  bt_Email :: string
  bt_UserID :: int

record OAuthRegistrationPayload =
  rp_Provider :: LoginMethod
  rp_ProviderID :: string
  rp_IdentityData :: "string option"
  rp_OAuthState :: string
  rp_AccessToken :: string
  rp_RefreshToken :: string
  rp_TokenExpiresAt :: "instant option"

text \<open>The collaborators and settings of the service; an absent port is \<open>None\<close> or \<open>False\<close>. The JSON codecs
  of the tickets, the reader of URLs and the Unicode tables beyond ASCII are parameters.\<close>

record session_service =
  ss_Crypto :: crypto
  ss_Prefix :: string
  ss_Lower :: "rune \<Rightarrow> rune"
  ss_PgLower :: "string \<Rightarrow> string"
  ss_Digit :: "rune \<Rightarrow> bool"
  ss_EqualFold :: "string \<Rightarrow> string \<Rightarrow> bool"
  ss_ParseURL :: "string \<Rightarrow> (string \<times> string) option"
  ss_Limiter :: "FixedWindowLimiter option"
  ss_EmailLimiter :: "FixedWindowLimiter option"
  ss_EmailIPLimiter :: "FixedWindowLimiter option"
  ss_UnbindLimiter :: "FixedWindowLimiter option"
  ss_RegisterLimiter :: "FixedWindowLimiter option"
  ss_RefreshLimiter :: "FixedWindowLimiter option"
  ss_DeviceLimiter :: "FixedWindowLimiter option"
  ss_Failures :: "LoginFailureStore option"
  ss_Blacklist :: "blacklist_port option"
  ss_Audit :: bool
  ss_OAuthRegistration :: "(string \<Rightarrow> OAuthRegistrationPayload option) option"
  ss_ForgotPasswords :: bool
  ss_InternalClientID :: string
  ss_JWT :: "jwt_manager option"
  ss_RefreshSecret :: string
  ss_Passwords :: password_hasher
  ss_AccessTTL :: duration
  ss_RefreshTTL :: duration
  ss_Devices :: "DeviceStore option"
  ss_EncodeText :: "string \<Rightarrow> string option"
  ss_DecodeText :: "string \<Rightarrow> string option"
  ss_EncodeBind :: "BindTicketPayload \<Rightarrow> string option"
  ss_DecodeBind :: "string \<Rightarrow> BindTicketPayload option"

record LoginInput =
  li_Identifier :: string
  li_Password :: string
  li_ClientIP :: string
  li_UserAgent :: string

record RefreshInput =
  ri_RefreshToken :: string
  ri_ClientIP :: string
  ri_UserAgent :: string

section \<open>Helpers (helpers.go)\<close>

definition normalizeIdentifier :: "(rune \<Rightarrow> rune) \<Rightarrow> string \<Rightarrow> string" where
  "normalizeIdentifier lower_ext identifier = ToLower lower_ext (TrimSpace identifier)"

definition loginLimitSubject :: "LoginInput \<Rightarrow> string \<Rightarrow> string" where
  "loginLimitSubject input identifier =
    (if TrimSpace (li_ClientIP input) \<noteq> [] then TrimSpace (li_ClientIP input) else identifier)"

definition loginFailureKey :: "(rune \<Rightarrow> rune) \<Rightarrow> user option \<Rightarrow> string \<Rightarrow> string" where
  "loginFailureKey lower_ext user identifier =
    (case user of
       None \<Rightarrow> ''identifier:'' @ normalizeIdentifier lower_ext (StripSubaddress lower_ext identifier)
     | Some u \<Rightarrow> ''user:'' @ decimal (us_ID u))"

definition loginUserID :: "user option \<Rightarrow> int option" where
  "loginUserID user = map_option us_ID user"

definition loginMethod :: "(rune \<Rightarrow> rune) \<Rightarrow> user option \<Rightarrow> string \<Rightarrow> string" where
  "loginMethod lower_ext user identifier =
    (case user of
       Some u \<Rightarrow> if normalizeIdentifier lower_ext (us_LoginEmail u) \<noteq> identifier then ''other_mail'' else ''password''
     | None \<Rightarrow> ''password'')"

definition non_blank :: "string \<Rightarrow> string option" where
  "non_blank s = (if TrimSpace s \<noteq> [] then Some s else None)"

definition buildAuditLog ::
    "instant \<Rightarrow> int option \<Rightarrow> string \<Rightarrow> string \<Rightarrow> string option \<Rightarrow> string option \<Rightarrow> bool \<Rightarrow> int \<Rightarrow> string \<Rightarrow> string
      \<Rightarrow> (string \<times> json) list option \<Rightarrow> audit_log" where
  "buildAuditLog now userID action resource resourceID actorClientID success errCode clientIP userAgent detail =
    \<lparr>au_UserID = userID, au_Action = action, au_Resource = resource, au_ResourceID = resourceID,
     au_Detail = detail, au_ClientIP = non_blank clientIP, au_UserAgent = non_blank userAgent, au_Success = success,
     au_ErrCode = (if errCode \<noteq> 0 then Some errCode else None), au_ActorClientID = actorClientID,
     au_CreatedAt = now\<rparr>"

definition audit ::
    "env \<Rightarrow> session_service \<Rightarrow> site \<Rightarrow> int option \<Rightarrow> string \<Rightarrow> string \<Rightarrow> string option \<Rightarrow> string option \<Rightarrow> bool \<Rightarrow> int
      \<Rightarrow> string \<Rightarrow> string \<Rightarrow> (string \<times> json) list option \<Rightarrow> unit action" where
  "audit ev s site userID action resource resourceID actorClientID success errCode clientIP userAgent detail =
    (if \<not> ss_Audit s then State_Monad.return ()
     else do {
       _ \<leftarrow> db_write ev site (\<lambda>flt db. CreateAuditLog flt
              (buildAuditLog (ev_Now ev site) userID action resource resourceID actorClientID success errCode
                clientIP userAgent detail) db);
       State_Monad.return () })"

definition actor :: "session_service \<Rightarrow> string \<Rightarrow> string option" where
  "actor s actorClientID = NullableString (ActorClientID actorClientID (ss_InternalClientID s))"

definition issuePair ::
    "env \<Rightarrow> session_service \<Rightarrow> user \<Rightarrow> oauth_client \<Rightarrow> int \<Rightarrow> string \<Rightarrow> string list \<Rightarrow> session_error + token_pair" where
  "issuePair ev s user client sq familyID requestedScopes =
    (case ss_JWT s of
       None \<Rightarrow> Inl (newError ErrInternal ''session dependencies missing'')
     | Some m \<Rightarrow>
         (case Issue (ss_Crypto s) ev (Some m) (Some (ss_RefreshSecret s))
                 \<lparr>ir_User = Some user, ir_Client = Some client, ir_Sequence = sq, ir_FamilyID = familyID,
                  ir_Scopes = requestedScopes,
                  ir_AccessTTL = (if ss_AccessTTL s \<le> 0 then defaultAccessTTL else ss_AccessTTL s),
                  ir_RefreshTTL = (if ss_RefreshTTL s \<le> 0 then defaultRefreshTTL else ss_RefreshTTL s)\<rparr> of
            Inl _ \<Rightarrow> Inl (newError ErrInternal ''issue pair failed'')
          | Inr pair \<Rightarrow> Inr pair))"

text \<open>\<open>fmt.Sprintf("%06d", n)\<close>; the number drawn by \<open>rand.Int\<close> comes from the environment.\<close>

definition pad6 :: "nat \<Rightarrow> string" where
  "pad6 n = (let d = decimal_nat n in replicate (6 - length d) CHR ''0'' @ d)"

definition GenerateVerificationCode :: "env \<Rightarrow> site \<Rightarrow> string option" where
  "GenerateVerificationCode ev site = map_option pad6 (ev_Int ev site 1000000)"

definition generateRegisterTicket :: "env \<Rightarrow> site \<Rightarrow> string option" where
  "generateRegisterTicket ev site = map_option (\<lambda>bs. ''reg_'' @ HexEncode bs) (ev_Random ev site 16)"

definition generateBindTicket :: "env \<Rightarrow> site \<Rightarrow> string option" where
  "generateBindTicket ev site = map_option (\<lambda>bs. ''be_'' @ HexEncode bs) (ev_Random ev site 16)"

definition userLoginEmailConstraint :: string where "userLoginEmailConstraint = ''user_login_email_key''"
definition userStudentIDConstraint :: string where "userStudentIDConstraint = ''user_student_id_key''"
definition userLoginEmailIsIdentityConstraint :: string where
  "userLoginEmailIsIdentityConstraint = ''ck_user_login_email_not_identity''"
definition identityProviderConstraint :: string where "identityProviderConstraint = ''uq_identities_provider_provider_id''"

definition duplicateConstraint :: "repo_error \<Rightarrow> string" where
  "duplicateConstraint e = (case e of UniqueViolation c \<Rightarrow> c | _ \<Rightarrow> [])"

definition isDuplicateError :: "repo_error \<Rightarrow> bool" where
  "isDuplicateError e \<longleftrightarrow> (case e of UniqueViolation _ \<Rightarrow> True | _ \<Rightarrow> False)"

text \<open>\<open>ctx.Err() != nil\<close> after a derivation: the caller left while waiting for a slot or since.\<close>

definition callerGone :: "env \<Rightarrow> site \<Rightarrow> bool" where
  "callerGone ev site \<longleftrightarrow> ev_Gone ev site \<or> ev_Slot ev site = CallerGone"

definition verifyPassword :: "env \<Rightarrow> session_service \<Rightarrow> site \<Rightarrow> string \<Rightarrow> string \<Rightarrow> auth_error + unit" where
  "verifyPassword ev s site password encodedHash =
     VerifyPassword (cr_IDKey (ss_Crypto s)) (cr_PBKDF2 (ss_Crypto s)) (ev_Slot ev site) (ss_Passwords s) password encodedHash"

definition hashPassword :: "env \<Rightarrow> session_service \<Rightarrow> site \<Rightarrow> string \<Rightarrow> auth_error + string" where
  "hashPassword ev s site password =
     HashPassword (cr_IDKey (ss_Crypto s)) (ev_Random ev site) (ev_Slot ev site) (ss_Passwords s) password"

definition hashError :: "env \<Rightarrow> site \<Rightarrow> session_error" where
  "hashError ev site =
    (if callerGone ev site then newError ErrDependencyUnavailable ''password hashing interrupted''
     else newError ErrInternal ''password hashing failed'')"

section \<open>Profiles in responses (helpers.go)\<close>

text \<open>The columns the store model carries; the generated completion flag and the row times are left out.\<close>

record IdentityDTO =
  idd_ID :: int
  idd_Provider :: string
  idd_ProviderID :: string
  idd_IdentityData :: "string option"
  idd_TokenExpiresAt :: "instant option"

record UserProfileDTO =
  ud_ID :: int
  ud_Name :: string
  ud_LoginEmail :: string
  ud_Role :: string
  ud_State :: string
  ud_EmailType :: string
  ud_PhoneNumber :: string
  ud_QQNumber :: string
  ud_StudentID :: string
  ud_College :: string
  ud_Major :: string
  ud_IncompleteFields :: "string list"
  ud_Profile :: "profile option"
  ud_Identities :: "IdentityDTO list"

definition identityDTO :: "identity \<Rightarrow> IdentityDTO" where
  "identityDTO i = \<lparr>idd_ID = id_ID i, idd_Provider = id_Provider i, idd_ProviderID = id_ProviderID i,
     idd_IdentityData = id_IdentityData i, idd_TokenExpiresAt = id_TokenExpiresAt i\<rparr>"

definition profileDTO :: "session_service \<Rightarrow> user_aggregate \<Rightarrow> UserProfileDTO" where
  "profileDTO s a = (let u = ua_User a in
     \<lparr>ud_ID = us_ID u, ud_Name = us_Name u, ud_LoginEmail = us_LoginEmail u, ud_Role = us_Role u, ud_State = us_State u,
      ud_EmailType = us_EmailType u, ud_PhoneNumber = us_PhoneNumber u, ud_QQNumber = us_QQNumber u,
      ud_StudentID = us_StudentID u, ud_College = us_College u, ud_Major = us_Major u,
      ud_IncompleteFields = IncompleteProfileFields (ss_EqualFold s) (us_Name u) (us_PhoneNumber u) (us_QQNumber u)
        (us_Major u) (us_StudentID u),
      ud_Profile = ua_Profile a, ud_Identities = map identityDTO (ua_Identities a)\<rparr>)"

definition bare :: "user \<Rightarrow> user_aggregate" where
  "bare u = \<lparr>ua_User = u, ua_Profile = None, ua_Identities = []\<rparr>"

record SessionResult =
  sr_AccessToken :: string
  sr_RefreshToken :: string
  sr_TokenType :: string
  sr_Scope :: string
  sr_AccessExpiresAt :: instant
  sr_RefreshExpiresAt :: instant

definition session_result :: "token_pair \<Rightarrow> SessionResult" where
  "session_result pair = \<lparr>sr_AccessToken = tp_AccessToken pair, sr_RefreshToken = tp_RefreshToken pair,
     sr_TokenType = BearerTokenType, sr_Scope = tp_ScopeClaim pair, sr_AccessExpiresAt = at_ExpiresAt (tp_Access pair),
     sr_RefreshExpiresAt = rt_ExpiresAt (tp_Refresh pair)\<rparr>"

section \<open>Ports (adapter/redis/session)\<close>

definition IsLocked :: "env \<Rightarrow> session_service \<Rightarrow> LoginFailureStore \<Rightarrow> string \<Rightarrow> (redis_error + bool \<times> duration) action" where
  "IsLocked ev s fs identifier = do {
     r \<leftarrow> redis_read ev ''login lock'' (\<lambda>n ms rd. GetLoginFailures n ms (ss_Prefix s) identifier rd);
     case r of
       Inl e \<Rightarrow> err e
     | Inr st \<Rightarrow> ok (0 < fs_Limit fs \<and> fs_Limit fs \<le> lf_Count st \<and> 0 < lf_TTL st, lf_TTL st) }"

definition RecordFailure ::
    "env \<Rightarrow> session_service \<Rightarrow> LoginFailureStore \<Rightarrow> string \<Rightarrow> (redis_error + LoginFailureResult) action" where
  "RecordFailure ev s fs identifier = do {
     r \<leftarrow> redis_write ev ''record failure'' (\<lambda>n ms rd. RecordLoginFailure n ms (ss_Prefix s) identifier (fs_Window fs) rd);
     case r of
       Inl e \<Rightarrow> err e
     | Inr raw \<Rightarrow> ok \<lparr>lr_Count = lf_Count raw, lr_TTL = lf_TTL raw,
          lr_Locked = (0 < fs_Limit fs \<and> fs_Limit fs \<le> lf_Count raw \<and> 0 < lf_TTL raw)\<rparr> }"

definition ResetFailures :: "env \<Rightarrow> session_service \<Rightarrow> site \<Rightarrow> string \<Rightarrow> (redis_error + unit) action" where
  "ResetFailures ev s site identifier =
     redis_write ev site (\<lambda>n _ rd. ResetLoginFailures n (ss_Prefix s) identifier rd)"

definition deviceTTL :: duration where "deviceTTL = 30 * 24 * Hour"
definition maxDevicesPerUser :: int where "maxDevicesPerUser = 5"

text \<open>\<open>WithDeviceOperation\<close> carries the refresh token that the registration belongs to.\<close>

definition WithDeviceOperation :: "token_pair \<Rightarrow> DeviceOperation list" where
  "WithDeviceOperation pair =
     [\<lparr>do_TokenHash = rt_TokenHash (tp_Refresh pair), do_ExpiresAt = rt_ExpiresAt (tp_Refresh pair)\<rparr>]"

definition RegisterDevice_port ::
    "env \<Rightarrow> session_service \<Rightarrow> DeviceStore \<Rightarrow> DeviceOperation list \<Rightarrow> int \<Rightarrow> string \<Rightarrow> string \<Rightarrow> string \<Rightarrow> (redis_error + string) action" where
  "RegisterDevice_port ev s d ops userID deviceID ua ip =
     redis_write ev ''register device'' (\<lambda>n ms rd. RegisterDevice (dv_Codec d) n ms (ss_Prefix s)
       (ev_UUID ev ''device operation'') userID deviceID ua ip (ev_Now ev ''register device'') deviceTTL maxDevicesPerUser ops rd)"

definition TouchDevice_port ::
    "env \<Rightarrow> session_service \<Rightarrow> DeviceStore \<Rightarrow> DeviceOperation list \<Rightarrow> int \<Rightarrow> string \<Rightarrow> string \<Rightarrow> string \<Rightarrow> (redis_error + string) action" where
  "TouchDevice_port ev s d ops userID deviceID ua ip =
     redis_write ev ''touch device'' (\<lambda>n ms rd. TouchDevice (dv_Codec d) n ms (ss_Prefix s)
       (ev_UUID ev ''device operation'') userID deviceID ua ip (ev_Now ev ''touch device'') deviceTTL maxDevicesPerUser ops rd)"

text \<open>Dropping records is best effort: its error only reaches the log.\<close>

definition dropDevice :: "env \<Rightarrow> session_service \<Rightarrow> site \<Rightarrow> int \<Rightarrow> string \<Rightarrow> unit action" where
  "dropDevice ev s site userID deviceID =
    (case ss_Devices s of
       None \<Rightarrow> State_Monad.return ()
     | Some _ \<Rightarrow> do {
         _ \<leftarrow> redis_write ev site (\<lambda>n ms rd. RemoveDevice n ms (ss_Prefix s) userID deviceID rd);
         State_Monad.return () })"

definition dropAllDevices :: "env \<Rightarrow> session_service \<Rightarrow> int \<Rightarrow> unit action" where
  "dropAllDevices ev s userID =
    (case ss_Devices s of
       None \<Rightarrow> State_Monad.return ()
     | Some _ \<Rightarrow> do {
         _ \<leftarrow> redis_write ev ''remove all devices'' (\<lambda>n ms rd. RemoveAllDevices n ms (ss_Prefix s) userID rd);
         State_Monad.return () })"

definition SaveBindTicket where
  "SaveBindTicket ev s ticket payload =
     redis_write ev ''save bind ticket'' (\<lambda>n ms rd.
       SetOneTime (ss_EncodeBind s) n ms (BindTicket (ss_Prefix s) ticket) (Some payload) verificationTTL rd)"

text \<open>A missing ticket is \<open>None\<close>.\<close>

definition PeekBindTicket :: "env \<Rightarrow> session_service \<Rightarrow> string \<Rightarrow> (redis_error + BindTicketPayload option) action" where
  "PeekBindTicket ev s ticket = do {
     r \<leftarrow> redis_read ev ''peek bind ticket'' (\<lambda>n ms rd.
       PeekOneTime (ss_DecodeBind s) n ms (BindTicket (ss_Prefix s) ticket) rd);
     case r of
       Inl e \<Rightarrow> if e = ErrMiss then ok None else err e
     | Inr payload \<Rightarrow> ok (Some payload) }"

definition ConsumeBindTicket :: "env \<Rightarrow> session_service \<Rightarrow> string \<Rightarrow> (redis_error + bool) action" where
  "ConsumeBindTicket ev s ticket =
     redis_write ev ''consume bind ticket'' (\<lambda>n ms rd. DeleteOneTime n ms (BindTicket (ss_Prefix s) ticket) rd)"

definition ConsumeRegistrationState ::
    "env \<Rightarrow> session_service \<Rightarrow> (string \<Rightarrow> OAuthRegistrationPayload option) \<Rightarrow> string
      \<Rightarrow> (redis_error + OAuthRegistrationPayload option) action" where
  "ConsumeRegistrationState ev s decode st = do {
     r \<leftarrow> redis_write ev ''consume registration state'' (\<lambda>n ms rd.
       GetDelOneTime decode n ms (OAuthRegistration (ss_Prefix s) st) rd);
     case r of
       Inl e \<Rightarrow> if e = ErrMiss then ok None else err e
     | Inr payload \<Rightarrow> ok (Some payload) }"

text \<open>The mailer takes a message and reports whether it was delivered.\<close>

definition SendVerificationCode :: "env \<Rightarrow> string \<Rightarrow> string \<Rightarrow> string \<Rightarrow> bool action" where
  "SendVerificationCode ev recipient code purpose =
     process_step ev ''send mail'' (\<lambda>w. (ev_Sent ev ''send mail'',
       w\<lparr>wd_mail := wd_mail w @ [\<lparr>ml_To = recipient, ml_Code = code, ml_Purpose = purpose\<rparr>]\<rparr>))"

text \<open>\<open>EnqueueForgotPassword\<close>: the queue is bounded and the call never blocks.\<close>

definition EnqueueForgotPassword :: "env \<Rightarrow> ForgotPasswordJob \<Rightarrow> bool action" where
  "EnqueueForgotPassword ev job =
     process_step ev ''enqueue job'' (\<lambda>w.
       if length (wd_jobs w) < defaultForgotPasswordQueueSize then (True, w\<lparr>wd_jobs := wd_jobs w @ [job]\<rparr>) else (False, w))"

section \<open>Throttling, lockout and codes (service.go)\<close>

definition checkEndpointLimit ::
    "env \<Rightarrow> session_service \<Rightarrow> FixedWindowLimiter option \<Rightarrow> string \<Rightarrow> string \<Rightarrow> (session_error + unit) action" where
  "checkEndpointLimit ev s limiter endpoint subject =
    (case limiter of
       None \<Rightarrow> ok ()
     | Some l \<Rightarrow>
         if TrimSpace subject = [] then ok ()
         else do {
           r \<leftarrow> redis_write ev ''limiter'' (\<lambda>n ms rd. Allow n ms (ss_Prefix s) l endpoint subject rd);
           case r of
             Inl _ \<Rightarrow> ok ()
           | Inr result \<Rightarrow>
               if \<not> rl_Allowed result
               then err (withRetryAfter (newError ErrRateLimited ''too many requests'') (rl_RetryAfter result))
               else ok () })"

text \<open>One of the two windows of \<open>checkEmailLimit\<close>.\<close>

definition emailWindow ::
    "env \<Rightarrow> session_service \<Rightarrow> site \<Rightarrow> FixedWindowLimiter \<Rightarrow> string \<Rightarrow> (session_error + unit) action" where
  "emailWindow ev s site l subject = do {
     r \<leftarrow> redis_write ev site (\<lambda>n ms rd. Allow n ms (ss_Prefix s) l ''send_email'' subject rd);
     case r of
       Inl _ \<Rightarrow> ok ()
     | Inr result \<Rightarrow>
         if \<not> rl_Allowed result
         then err (withRetryAfter (newError ErrRateLimited ''too many requests'') (rl_RetryAfter result))
         else ok () }"

definition checkEmailLimit :: "env \<Rightarrow> session_service \<Rightarrow> string \<Rightarrow> string \<Rightarrow> (session_error + unit) action" where
  "checkEmailLimit ev s email clientIP =
     bindM (case ss_EmailLimiter s of
              None \<Rightarrow> ok ()
            | Some l \<Rightarrow> emailWindow ev s ''email limiter'' l (''email:'' @ StripSubaddress (ss_Lower s) email))
       (\<lambda>_. case ss_EmailIPLimiter s of
              None \<Rightarrow> ok ()
            | Some l \<Rightarrow> if TrimSpace clientIP = [] then ok ()
                        else emailWindow ev s ''email ip limiter'' l (''ip:'' @ TrimSpace clientIP))"

definition verifyCode :: "env \<Rightarrow> session_service \<Rightarrow> string \<Rightarrow> string \<Rightarrow> string \<Rightarrow> (session_error + unit) action" where
  "verifyCode ev s purpose email code = do {
     r \<leftarrow> redis_write ev ''verify code'' (\<lambda>n ms rd.
       VerifyVerificationCode n ms (ss_Prefix s) purpose (StripSubaddress (ss_Lower s) email) code rd);
     case r of
       Inl _ \<Rightarrow> err (newError ErrDependencyUnavailable ''verify code failed'')
     | Inr (matched, remaining) \<Rightarrow>
         if matched then ok ()
         else if remaining \<le> 0 then err (newError ErrVerificationCodeExpired ''code expired'')
         else err (newError ErrVerificationCodeWrong ''code wrong'') }"

definition discardCode :: "env \<Rightarrow> session_service \<Rightarrow> string \<Rightarrow> string \<Rightarrow> unit action" where
  "discardCode ev s purpose email = do {
     _ \<leftarrow> redis_write ev ''discard code'' (\<lambda>n _ rd.
       DiscardVerificationCode n (ss_Prefix s) purpose (StripSubaddress (ss_Lower s) email) rd);
     State_Monad.return () }"

definition saveCode :: "env \<Rightarrow> session_service \<Rightarrow> string \<Rightarrow> string \<Rightarrow> string \<Rightarrow> (redis_error + unit) action" where
  "saveCode ev s purpose email code =
     redis_write ev ''save code'' (\<lambda>n ms rd.
       SaveVerificationCode n ms (ss_Prefix s) purpose (StripSubaddress (ss_Lower s) email) code verificationTTL rd)"

definition clearLoginFailures :: "env \<Rightarrow> session_service \<Rightarrow> user \<Rightarrow> string \<Rightarrow> unit action" where
  "clearLoginFailures ev s user email =
    (case ss_Failures s of
       None \<Rightarrow> State_Monad.return ()
     | Some _ \<Rightarrow> do {
         _ \<leftarrow> ResetFailures ev s ''reset user failures'' (loginFailureKey (ss_Lower s) (Some user) email);
         let identifier = normalizeIdentifier (ss_Lower s) email in
         if identifier = [] then State_Monad.return ()
         else do {
           _ \<leftarrow> ResetFailures ev s ''reset identifier failures'' (''identifier:'' @ identifier);
           State_Monad.return () } })"

definition checkLoginLock :: "env \<Rightarrow> session_service \<Rightarrow> string \<Rightarrow> (session_error + unit) action" where
  "checkLoginLock ev s key =
    (case ss_Failures s of
       None \<Rightarrow> ok ()
     | Some fs \<Rightarrow> do {
         r \<leftarrow> IsLocked ev s fs key;
         case r of
           Inl _ \<Rightarrow> ok ()
         | Inr (locked, retryAfter) \<Rightarrow>
             if locked then err (withRetryAfter (newError ErrLocked ''login locked'') retryAfter) else ok () })"

definition failLogin ::
    "env \<Rightarrow> session_service \<Rightarrow> user option \<Rightarrow> LoginInput \<Rightarrow> string \<Rightarrow> session_sentinel \<Rightarrow> string \<Rightarrow> string \<Rightarrow> session_error action" where
  "failLogin ev s user input failureKey sentinel message reason = do {
     lock \<leftarrow> (case ss_Failures s of
        None \<Rightarrow> State_Monad.return (False, 0)
      | Some fs \<Rightarrow> do {
          r \<leftarrow> RecordFailure ev s fs failureKey;
          State_Monad.return (case r of Inl _ \<Rightarrow> (False, 0) | Inr result \<Rightarrow> (lr_Locked result, lr_TTL result)) });
     _ \<leftarrow> audit ev s ''audit'' (loginUserID user) ''login'' ''session'' None None False (snd sentinel) (li_ClientIP input)
            (li_UserAgent input) (Some [(''method'', JString (loginMethod (ss_Lower s) user (li_Identifier input))),
              (''reason'', JString reason), (''identifier'', JString (normalizeIdentifier (ss_Lower s) (li_Identifier input)))]);
     State_Monad.return (if fst lock then withRetryAfter (newError ErrLocked ''login locked'') (snd lock)
       else newError sentinel message) }"

definition findInternalClient :: "env \<Rightarrow> session_service \<Rightarrow> (session_error + oauth_client) action" where
  "findInternalClient ev s =
    (let clientID = TrimSpace (ss_InternalClientID s) in
     if clientID = [] then err (newError ErrInternal ''internal client not configured'')
     else do {
       r \<leftarrow> process_step ev ''internal client'' (\<lambda>w.
         case FindActiveInternalClient (ev_Fault ev ''internal client'') (wd_db w) clientID (wd_internal w) of
           (x, cache) \<Rightarrow> (x, w\<lparr>wd_internal := cache\<rparr>));
       case r of
         Inl e \<Rightarrow> if e = ErrNotFound \<or> e = ErrInvalidArgument
                  then err (newError ErrInternal ''internal client unavailable'')
                  else err (newError ErrInternal ''query internal client failed'')
       | Inr client \<Rightarrow>
           if cl_ClientType client \<noteq> ClientTypeFirstParty \<or> cl_ClientSecretHash client \<noteq> None
           then err (newError ErrInternal ''internal client not public first party'')
           else if EqualScopes (cl_Scopes client) sessionScopes \<noteq> Inr True
           then err (newError ErrInternal ''internal client scopes'')
           else ok client })"

section \<open>Evicted devices (device.go)\<close>

definition revokeEvictedDevice ::
    "env \<Rightarrow> session_service \<Rightarrow> int \<Rightarrow> string \<Rightarrow> string \<Rightarrow> string \<Rightarrow> unit action" where
  "revokeEvictedDevice ev s userID evicted clientIP userAgent =
    (if evicted = [] then State_Monad.return ()
     else let now = ev_Now ev ''evict'' in do {
       r \<leftarrow> db_write ev ''evict'' (\<lambda>flt db. RevokeFamily flt evicted now db);
       case r of
         Inl _ \<Rightarrow> State_Monad.return ()
       | Inr entries \<Rightarrow> do {
           _ \<leftarrow> DeliverBlacklist ev (ss_Blacklist s) entries now;
           _ \<leftarrow> dropDevice ev s ''remove evicted device'' userID evicted;
           audit ev s ''audit eviction'' (Some userID) ''evict_device'' ''session'' (Some evicted) None True 0 clientIP userAgent
             (Some [(''device_id'', JString evicted)]) } })"

end
