(* ===== verification/Session_Service.thy ===== *)
theory Session_Service
  imports Session_Base
begin

text \<open>
  The session use cases of \<open>service/session/service.go\<close> that open, renew and end a session: login,
  refresh, the read-only identification of a refresh cookie, logout, and the device operations of
  \<open>device.go\<close>.
\<close>

section \<open>Login\<close>

record LoginResult =
  lg_Session :: SessionResult
  lg_Profile :: UserProfileDTO

text \<open>A stale hash is replaced in place once the password is proven; no outcome of it is an error.\<close>

definition rehashOnLogin :: "env \<Rightarrow> session_service \<Rightarrow> user \<Rightarrow> string \<Rightarrow> unit action" where
  "rehashOnLogin ev s user password =
    (if \<not> ShouldRehash (ss_Passwords s) (us_PasswordHash user) then State_Monad.return ()
     else (case hashPassword ev s ''rehash'' password of
       Inl _ \<Rightarrow> State_Monad.return ()
     | Inr newHash \<Rightarrow> do {
         _ \<leftarrow> db_write ev ''rehash'' (\<lambda>flt db. UpdatePasswordHash flt (us_ID user) (us_PasswordHash user) newHash db);
         State_Monad.return () }))"

text \<open>Recording the new session as a device, and ending the session it displaced.\<close>

definition registerSessionDevice :: "env \<Rightarrow> session_service \<Rightarrow> int \<Rightarrow> token_pair \<Rightarrow> string \<Rightarrow> string \<Rightarrow> unit action" where
  "registerSessionDevice ev s userID pair userAgent clientIP =
    (case ss_Devices s of
       None \<Rightarrow> State_Monad.return ()
     | Some d \<Rightarrow> do {
         r \<leftarrow> RegisterDevice_port ev s d (WithDeviceOperation pair) userID (tp_FamilyID pair) userAgent clientIP;
         revokeEvictedDevice ev s userID (case r of Inl _ \<Rightarrow> [] | Inr evicted \<Rightarrow> evicted) clientIP userAgent })"

definition login_audit :: "env \<Rightarrow> session_service \<Rightarrow> user \<Rightarrow> LoginInput \<Rightarrow> string \<Rightarrow> audit_log option" where
  "login_audit ev s user input identifier =
    (if ss_Audit s then Some (buildAuditLog (ev_Now ev ''audit'') (Some (us_ID user)) ''login'' ''session'' None None True 0
       (li_ClientIP input) (li_UserAgent input) (Some [(''method'', JString (loginMethod (ss_Lower s) (Some user) identifier))]))
     else None)"

text \<open>The steps after the password is verified.\<close>

definition loginProven ::
    "env \<Rightarrow> session_service \<Rightarrow> LoginInput \<Rightarrow> string \<Rightarrow> user \<Rightarrow> string \<Rightarrow> (session_error + LoginResult) action" where
  "loginProven ev s input identifier user failureKey = do {
     _ \<leftarrow> rehashOnLogin ev s user (li_Password input);
     bindM (findInternalClient ev s) (\<lambda>client.
       case issuePair ev s user client 0 [] sessionScopes of
         Inl e \<Rightarrow> err e
       | Inr pair \<Rightarrow> do {
           r \<leftarrow> db_write ev ''create session'' (\<lambda>flt db. CreatePairWithAudit flt (Some (tp_Access pair))
                  (Some (tp_Refresh pair)) (login_audit ev s user input identifier) db);
           case r of
             Inl _ \<Rightarrow> err (newError ErrInternal ''create pair failed'')
           | Inr _ \<Rightarrow> do {
               _ \<leftarrow> (case ss_Failures s of
                  None \<Rightarrow> State_Monad.return (Inr ())
                | Some _ \<Rightarrow> ResetFailures ev s ''reset failures'' failureKey);
               _ \<leftarrow> registerSessionDevice ev s (us_ID user) pair (li_UserAgent input) (li_ClientIP input);
               ok \<lparr>lg_Session = session_result pair, lg_Profile = profileDTO s (bare user)\<rparr> } }) }"

definition loginUser ::
    "env \<Rightarrow> session_service \<Rightarrow> LoginInput \<Rightarrow> string \<Rightarrow> user \<Rightarrow> (session_error + LoginResult) action" where
  "loginUser ev s input identifier user =
    (let failureKey = loginFailureKey (ss_Lower s) (Some user) identifier in
     bindM (checkLoginLock ev s failureKey) (\<lambda>_.
       if us_State user = UserStateDeleted then do {
         _ \<leftarrow> audit ev s ''audit'' (Some (us_ID user)) ''login'' ''session'' None None False CodeAccountDeleted
                (li_ClientIP input) (li_UserAgent input)
                (Some [(''method'', JString (loginMethod (ss_Lower s) (Some user) identifier)),
                  (''reason'', JString ''user_deleted''), (''identifier'', JString identifier)]);
         err (newError ErrUserDeleted ''account closed'') }
       else (case verifyPassword ev s ''verify password'' (li_Password input) (us_PasswordHash user) of
         Inl _ \<Rightarrow>
           if callerGone ev ''verify password''
           then err (newError ErrDependencyUnavailable ''password check interrupted'')
           else do {
             e \<leftarrow> failLogin ev s (Some user) input failureKey ErrLoginFailed ''password wrong'' ''password_invalid'';
             err e }
       | Inr _ \<Rightarrow> loginProven ev s input identifier user failureKey)))"

definition Login :: "env \<Rightarrow> session_service \<Rightarrow> LoginInput \<Rightarrow> (session_error + LoginResult) action" where
  "Login ev s input =
    (let identifier = normalizeIdentifier (ss_Lower s) (li_Identifier input) in
     if identifier = [] \<or> li_Password input = [] then err (newError ErrInvalidInput ''login input invalid'')
     else bindM (checkEndpointLimit ev s (ss_Limiter s) ''login'' (loginLimitSubject input identifier)) (\<lambda>_. do {
       found \<leftarrow> db_read ev ''find login user'' (\<lambda>flt db. FindAuthUserByLoginIdentifier flt db identifier);
       case found of
         Inl e \<Rightarrow>
           if e = ErrNotFound then
             (let failureKey = loginFailureKey (ss_Lower s) None identifier in
              bindM (checkLoginLock ev s failureKey) (\<lambda>_. do {
                e \<leftarrow> failLogin ev s None input failureKey ErrUnknownIdentifier ''identifier unknown'' ''identifier_unknown'';
                err e }))
           else err (newError ErrInternal ''query login user failed'')
       | Inr user \<Rightarrow> loginUser ev s input identifier user }))"

section \<open>Refresh\<close>

definition refreshOutcomeRotated :: string where "refreshOutcomeRotated = ''rotated''"
definition refreshOutcomeReplayed :: string where "refreshOutcomeReplayed = ''refresh_replayed''"
definition refreshOutcomeConcurrent :: string where "refreshOutcomeConcurrent = ''concurrent_refresh''"
definition refreshOutcomeExpired :: string where "refreshOutcomeExpired = ''expired''"
definition refreshOutcomeSessionRevoked :: string where "refreshOutcomeSessionRevoked = ''session_revoked''"
definition refreshOutcomeClientMismatch :: string where "refreshOutcomeClientMismatch = ''client_mismatch''"
definition refreshOutcomeUserDeleted :: string where "refreshOutcomeUserDeleted = ''user_deleted''"
definition refreshOutcomeUserMissing :: string where "refreshOutcomeUserMissing = ''user_missing''"

definition auditRefresh ::
    "env \<Rightarrow> session_service \<Rightarrow> int \<Rightarrow> string \<Rightarrow> bool \<Rightarrow> string \<Rightarrow> string \<Rightarrow> RefreshInput \<Rightarrow> unit action" where
  "auditRefresh ev s userID familyID success outcome revokedReason input =
     audit ev s ''audit'' (Some userID) ''refresh'' ''session'' (Some familyID) None success
       (if success then 0 else if outcome = refreshOutcomeConcurrent then CodeConcurrentRefresh else CodeAccessTokenInvalid)
       (ri_ClientIP input) (ri_UserAgent input)
       (Some ((''outcome'', JString outcome) #
         (if revokedReason \<noteq> [] then [(''revoked_reason'', JString revokedReason)] else [])))"

text \<open>A presented token that is already revoked: cut by an administrative act, replayed, or overtaken by
  a sibling request within the grace window.\<close>

definition refreshRevoked ::
    "env \<Rightarrow> session_service \<Rightarrow> RefreshInput \<Rightarrow> refresh_token \<Rightarrow> instant \<Rightarrow> (session_error + SessionResult) action" where
  "refreshRevoked ev s input current revokedAt =
    (let userID = rt_UserID current; familyID = rt_FamilyID current in
     case rt_RevokedReason current of
       Some reason \<Rightarrow> do {
         _ \<leftarrow> auditRefresh ev s userID familyID False refreshOutcomeSessionRevoked reason input;
         err (newError ErrInvalidToken ''refresh token invalid'') }
     | None \<Rightarrow>
         if \<not> IsWithinRefreshGrace revokedAt (ev_Now ev ''refresh grace'') then do {
           r \<leftarrow> db_write ev ''revoke replayed family'' (\<lambda>flt db. RevokeFamily flt familyID (ev_Now ev ''revoke replayed family'') db);
           case r of
             Inl _ \<Rightarrow> err (newError ErrInternal ''revoke replayed family failed'')
           | Inr entries \<Rightarrow> do {
               _ \<leftarrow> DeliverBlacklist ev (ss_Blacklist s) entries (ev_Now ev ''deliver replayed family'');
               _ \<leftarrow> dropDevice ev s ''remove replayed device'' userID familyID;
               _ \<leftarrow> auditRefresh ev s userID familyID False refreshOutcomeReplayed [] input;
               err (newError ErrInvalidToken ''refresh token invalid'') } }
         else do {
           _ \<leftarrow> auditRefresh ev s userID familyID False refreshOutcomeConcurrent [] input;
           err (newError ErrConcurrentRefresh ''concurrent refresh'') })"

definition refresh_audit :: "env \<Rightarrow> session_service \<Rightarrow> refresh_token \<Rightarrow> RefreshInput \<Rightarrow> audit_log option" where
  "refresh_audit ev s current input =
    (if ss_Audit s then Some (buildAuditLog (ev_Now ev ''audit'') (Some (rt_UserID current)) ''refresh'' ''session''
       (Some (rt_FamilyID current)) None True 0 (ri_ClientIP input) (ri_UserAgent input)
       (Some [(''outcome'', JString refreshOutcomeRotated)]))
     else None)"

text \<open>Touching the device precedes the rotation, ending the displaced session follows it.\<close>

definition touchSessionDevice :: "env \<Rightarrow> session_service \<Rightarrow> RefreshInput \<Rightarrow> refresh_token \<Rightarrow> token_pair \<Rightarrow> string action" where
  "touchSessionDevice ev s input current pair =
    (case ss_Devices s of
       None \<Rightarrow> State_Monad.return []
     | Some d \<Rightarrow> do {
         r \<leftarrow> TouchDevice_port ev s d (WithDeviceOperation pair) (rt_UserID current) (rt_FamilyID current)
                (ri_UserAgent input) (ri_ClientIP input);
         State_Monad.return (case r of Inl _ \<Rightarrow> [] | Inr evicted \<Rightarrow> evicted) })"

definition rotationFailed ::
    "env \<Rightarrow> session_service \<Rightarrow> RefreshInput \<Rightarrow> refresh_token \<Rightarrow> repo_error \<Rightarrow> session_error action" where
  "rotationFailed ev s input current e =
    (let userID = rt_UserID current; familyID = rt_FamilyID current in
     case e of
       SessionRevokedError reason \<Rightarrow> do {
         _ \<leftarrow> auditRefresh ev s userID familyID False refreshOutcomeSessionRevoked reason input;
         State_Monad.return (newError ErrInvalidToken ''refresh token invalid'') }
     | _ \<Rightarrow>
         if e = ErrTokenReplayWithinGrace then do {
           _ \<leftarrow> auditRefresh ev s userID familyID False refreshOutcomeConcurrent [] input;
           State_Monad.return (newError ErrConcurrentRefresh ''concurrent refresh'') }
         else if e = ErrTokenReplay \<or> e = ErrTokenExpired \<or> e = ErrTokenFamilyRevoked \<or> e = ErrNotFound then do {
           _ \<leftarrow> dropDevice ev s ''remove cut device'' userID familyID;
           _ \<leftarrow> auditRefresh ev s userID familyID False refreshOutcomeReplayed [] input;
           State_Monad.return (newError ErrInvalidToken ''refresh token invalid'') }
         else State_Monad.return (newError ErrInternal ''rotate failed''))"

definition refreshRotate ::
    "env \<Rightarrow> session_service \<Rightarrow> RefreshInput \<Rightarrow> string \<Rightarrow> refresh_token \<Rightarrow> token_pair \<Rightarrow> (session_error + SessionResult) action" where
  "refreshRotate ev s input tokenHash current pair = do {
     evicted \<leftarrow> touchSessionDevice ev s input current pair;
     r \<leftarrow> db_write ev ''rotate'' (\<lambda>flt db. RotateRefreshTokenWithAudit flt (ev_Now ev ''rotate'') (rt_FamilyID current) tokenHash
            (Some (tp_Access pair)) (Some (tp_Refresh pair)) (refresh_audit ev s current input) db);
     case r of
       Inl e \<Rightarrow> do { e' \<leftarrow> rotationFailed ev s input current e; err e' }
     | Inr _ \<Rightarrow> do {
         _ \<leftarrow> revokeEvictedDevice ev s (rt_UserID current) evicted (ri_ClientIP input) (ri_UserAgent input);
         ok (session_result pair) } }"

text \<open>The checks of a token that is not revoked.\<close>

definition refreshLive ::
    "env \<Rightarrow> session_service \<Rightarrow> RefreshInput \<Rightarrow> string \<Rightarrow> refresh_token \<Rightarrow> (session_error + SessionResult) action" where
  "refreshLive ev s input tokenHash current =
    (let userID = rt_UserID current; familyID = rt_FamilyID current in
     if \<not> ev_Now ev ''refresh expiry'' < rt_ExpiresAt current then do {
       _ \<leftarrow> dropDevice ev s ''remove expired device'' userID familyID;
       _ \<leftarrow> auditRefresh ev s userID familyID False refreshOutcomeExpired [] input;
       err (newError ErrInvalidToken ''refresh token invalid'') }
     else bindM (findInternalClient ev s) (\<lambda>client.
       if rt_ClientID current \<noteq> cl_ID client then do {
         _ \<leftarrow> auditRefresh ev s userID familyID False refreshOutcomeClientMismatch [] input;
         err (newError ErrInvalidToken ''client mismatch'') }
       else do {
         found \<leftarrow> db_read ev ''find refresh user'' (\<lambda>flt db. FindAuthUserByID flt db userID);
         case found of
           Inl e \<Rightarrow>
             if e = ErrNotFound then do {
               _ \<leftarrow> auditRefresh ev s userID familyID False refreshOutcomeUserMissing [] input;
               err (newError ErrInvalidToken ''owner invalid'') }
             else err (newError ErrInternal ''query owner failed'')
         | Inr user \<Rightarrow>
             if us_State user = UserStateDeleted then do {
               _ \<leftarrow> auditRefresh ev s userID familyID False refreshOutcomeUserDeleted [] input;
               err (newError ErrUserDeleted ''account closed'') }
             else (case issuePair ev s user client (rt_Sequence current + 1) familyID (rt_Scopes current) of
               Inl e \<Rightarrow> err e
             | Inr pair \<Rightarrow> refreshRotate ev s input tokenHash current pair) }))"

definition hashRefreshToken :: "session_service \<Rightarrow> string \<Rightarrow> auth_error + string" where
  "hashRefreshToken s token = HashRefreshToken (cr_HMAC (ss_Crypto s)) (ss_RefreshSecret s) token"

definition Refresh :: "env \<Rightarrow> session_service \<Rightarrow> RefreshInput \<Rightarrow> (session_error + SessionResult) action" where
  "Refresh ev s input =
    (if TrimSpace (ri_RefreshToken input) = [] then err (newError ErrInvalidInput ''refresh input invalid'')
     else bindM (checkEndpointLimit ev s (ss_RefreshLimiter s) ''refresh'' (TrimSpace (ri_ClientIP input))) (\<lambda>_.
       case hashRefreshToken s (ri_RefreshToken input) of
         Inl _ \<Rightarrow> err (newError ErrInvalidToken ''refresh token invalid'')
       | Inr tokenHash \<Rightarrow> do {
           found \<leftarrow> db_read ev ''find refresh token'' (\<lambda>flt db. FindRefreshToken flt db tokenHash);
           case found of
             Inl e \<Rightarrow> if e = ErrNotFound then err (newError ErrInvalidToken ''refresh token invalid'')
                      else err (newError ErrInternal ''query refresh token failed'')
           | Inr current \<Rightarrow>
               (case rt_RevokedAt current of
                 Some revokedAt \<Rightarrow> refreshRevoked ev s input current revokedAt
               | None \<Rightarrow> refreshLive ev s input tokenHash current) }))"

definition IdentifyByRefreshToken :: "env \<Rightarrow> session_service \<Rightarrow> string \<Rightarrow> (session_error + int) action" where
  "IdentifyByRefreshToken ev s token =
    (if TrimSpace token = [] then err (newError ErrInvalidInput ''refresh input invalid'')
     else (case hashRefreshToken s token of
       Inl _ \<Rightarrow> err (hashError ev ''identify'')
     | Inr tokenHash \<Rightarrow> do {
         found \<leftarrow> db_read ev ''find refresh token'' (\<lambda>flt db. FindRefreshToken flt db tokenHash);
         case found of
           Inl e \<Rightarrow> if e = ErrNotFound then err (newError ErrInvalidToken ''refresh token invalid'')
                    else err (newError ErrInternal ''query refresh token failed'')
         | Inr current \<Rightarrow>
             if rt_RevokedAt current \<noteq> None \<or> \<not> ev_Now ev ''refresh expiry'' < rt_ExpiresAt current
             then err (newError ErrInvalidToken ''refresh token invalid'')
             else bindM (findInternalClient ev s) (\<lambda>client.
               if rt_ClientID current \<noteq> cl_ID client then err (newError ErrInvalidToken ''client mismatch'')
               else do {
                 owner \<leftarrow> db_read ev ''find refresh user'' (\<lambda>flt db. FindAuthUserByID flt db (rt_UserID current));
                 case owner of
                   Inl e \<Rightarrow> if e = ErrNotFound then err (newError ErrInvalidToken ''owner invalid'')
                            else err (newError ErrInternal ''query owner failed'')
                 | Inr user \<Rightarrow>
                     if us_State user = UserStateDeleted then err (newError ErrUserDeleted ''account closed'')
                     else ok (rt_UserID current) }) }))"

section \<open>Logout and devices\<close>

record LogoutInput =
  lo_PrincipalJTI :: string
  lo_PrincipalUserID :: int
  lo_ActorClientID :: string
  lo_ClientIP :: string
  lo_UserAgent :: string

record LogoutResult =
  lo_BlacklistedJTI :: string
  lo_FamilyID :: string

definition Logout :: "env \<Rightarrow> session_service \<Rightarrow> LogoutInput \<Rightarrow> (session_error + LogoutResult) action" where
  "Logout ev s input =
    (let principalJTI = TrimSpace (lo_PrincipalJTI input) in
     if principalJTI = [] \<or> lo_PrincipalUserID input \<le> 0 then err (newError ErrInvalidInput ''logout input invalid'')
     else do {
       found \<leftarrow> db_read ev ''find access token'' (\<lambda>flt db. FindAccessTokenByJTI flt db principalJTI);
       case found of
         Inl e \<Rightarrow> if e = ErrNotFound then err (newError ErrInvalidToken ''session gone'')
                  else err (newError ErrInternal ''query access token failed'')
       | Inr access \<Rightarrow>
           let now = ev_Now ev ''logout'' in
           if at_RevokedAt access \<noteq> None then err (newError ErrInvalidToken ''session ended'')
           else (case at_FamilyID access of
             None \<Rightarrow> err (newError ErrInternal ''access token without family'')
           | Some familyID \<Rightarrow> do {
               r \<leftarrow> db_write ev ''revoke session'' (\<lambda>flt db. RevokeFamily flt familyID now db);
               case r of
                 Inl _ \<Rightarrow> err (newError ErrInternal ''revoke family failed'')
               | Inr entries \<Rightarrow> do {
                   _ \<leftarrow> DeliverBlacklist ev (ss_Blacklist s) entries now;
                   _ \<leftarrow> dropDevice ev s ''remove device'' (lo_PrincipalUserID input) familyID;
                   _ \<leftarrow> audit ev s ''audit'' (Some (lo_PrincipalUserID input)) ''logout'' ''session'' (Some familyID)
                          (actor s (lo_ActorClientID input)) True 0 (lo_ClientIP input) (lo_UserAgent input) (Some []);
                   ok \<lparr>lo_BlacklistedJTI = principalJTI, lo_FamilyID = familyID\<rparr> } }) })"

definition ListDevices_service :: "env \<Rightarrow> session_service \<Rightarrow> int \<Rightarrow> (session_error + DeviceInfo list) action" where
  "ListDevices_service ev s userID =
    (if userID \<le> 0 then err (newError ErrInvalidInput ''device list input invalid'')
     else (case ss_Devices s of
       None \<Rightarrow> ok []
     | Some d \<Rightarrow> do {
         r \<leftarrow> redis_write ev ''list devices'' (\<lambda>n ms rd. ListDevices (dv_Parse d) n ms (ss_Prefix s) userID rd);
         case r of Inl _ \<Rightarrow> ok [] | Inr devices \<Rightarrow> ok devices }))"

record LogoutDeviceInput =
  ld_UserID :: int
  ld_DeviceID :: string
  ld_ClientIP :: string
  ld_UserAgent :: string
  ld_ActorClientID :: string

definition LogoutDevice :: "env \<Rightarrow> session_service \<Rightarrow> LogoutDeviceInput \<Rightarrow> (session_error + string) action" where
  "LogoutDevice ev s input =
    (let deviceID = TrimSpace (ld_DeviceID input) in
     if ld_UserID input \<le> 0 \<or> deviceID = [] then err (newError ErrInvalidInput ''logout device input invalid'')
     else bindM (checkEndpointLimit ev s (ss_DeviceLimiter s) ''device'' (''user:'' @ decimal (ld_UserID input))) (\<lambda>_.
       case ss_Devices s of
         None \<Rightarrow> err (newError ErrDependencyUnavailable ''device service unavailable'')
       | Some _ \<Rightarrow> do {
           owned \<leftarrow> redis_read ev ''device owned'' (\<lambda>n ms rd. DeviceOwnedBy n ms (ss_Prefix s) (ld_UserID input) deviceID rd);
           case owned of
             Inl _ \<Rightarrow> err (newError ErrDependencyUnavailable ''device service unreachable'')
           | Inr isOwned \<Rightarrow>
               if \<not> isOwned then err (newError ErrDeviceNotFound ''device missing'')
               else let now = ev_Now ev ''logout device'' in do {
                 r \<leftarrow> db_write ev ''revoke device'' (\<lambda>flt db. RevokeFamily flt deviceID now db);
                 case r of
                   Inl _ \<Rightarrow> err (newError ErrInternal ''revoke device failed'')
                 | Inr entries \<Rightarrow> do {
                     _ \<leftarrow> DeliverBlacklist ev (ss_Blacklist s) entries now;
                     _ \<leftarrow> dropDevice ev s ''remove device'' (ld_UserID input) deviceID;
                     _ \<leftarrow> audit ev s ''audit'' (Some (ld_UserID input)) ''logout_device'' ''session'' (Some deviceID)
                            (actor s (ld_ActorClientID input)) True 0 (ld_ClientIP input) (ld_UserAgent input)
                            (Some [(''device_id'', JString deviceID)]);
                     ok deviceID } } }))"

end
