(* ===== verification/Session_Account.thy ===== *)
theory Session_Account
  imports Session_Service
begin

text \<open>
  The account use cases of the session service: verification codes and registration, password reset and
  change, bound addresses (\<open>service.go\<close>, \<open>identity.go\<close>) and the self-service profile edit
  (\<open>profile.go\<close>).
\<close>

section \<open>Registration\<close>

definition RevokeReasonPasswordReset :: string where "RevokeReasonPasswordReset = ''password_reset''"

record MailInput =
  mi_Email :: string
  mi_ClientIP :: string
  mi_UserAgent :: string

text \<open>The address checks the two registration legs share.\<close>

definition checkRegisterEmail :: "string \<Rightarrow> session_error + unit" where
  "checkRegisterEmail email =
    (if \<not> EmailFormat email then Inl (newError ErrInvalidInput ''email malformed'')
     else if \<not> WithinLength email MaxLoginEmailLength then Inl (newError ErrInvalidInput ''email too long'')
     else if \<not> IsLoginEmailDomain email then Inl (newError (KindInvalidInput, CodeEmailDomainNotAllowed) ''email domain not allowed'')
     else if \<not> IsNjuptEmailLocalAllowed email
       then Inl (newError (KindInvalidInput, CodeNjuptEmailPrefixNotAllowed) ''email prefix malformed'')
     else Inr ())"

definition SendRegisterCode :: "env \<Rightarrow> session_service \<Rightarrow> MailInput \<Rightarrow> (session_error + string) action" where
  "SendRegisterCode ev s input =
    (let email = normalizeIdentifier (ss_Lower s) (mi_Email input) in
     if email = [] then err (newError ErrInvalidInput ''email required'')
     else (case checkRegisterEmail email of
       Inl e \<Rightarrow> err e
     | Inr _ \<Rightarrow> bindM (checkEmailLimit ev s email (mi_ClientIP input)) (\<lambda>_.
         case GenerateVerificationCode ev ''register code'' of
           None \<Rightarrow> err (newError ErrInternal ''generate code failed'')
         | Some code \<Rightarrow> do {
             saved \<leftarrow> saveCode ev s VerificationPurposeRegister email code;
             case saved of
               Inl _ \<Rightarrow> err (newError ErrDependencyUnavailable ''save code failed'')
             | Inr _ \<Rightarrow> do {
                 sent \<leftarrow> SendVerificationCode ev email code VerificationPurposeRegister;
                 if \<not> sent then err (newError ErrEmailFailed ''mail failed'')
                 else do {
                   _ \<leftarrow> audit ev s ''audit'' None ''register_send_code'' ''verification_code'' None None True 0
                          (mi_ClientIP input) (mi_UserAgent input) (Some [(''login_email'', JString email)]);
                   ok email } } })))"

record VerifyRegisterCodeInput =
  vr_Email :: string
  vr_Code :: string
  vr_ClientIP :: string
  vr_UserAgent :: string

definition VerifyRegisterCode ::
    "env \<Rightarrow> session_service \<Rightarrow> VerifyRegisterCodeInput \<Rightarrow> (session_error + string \<times> string) action" where
  "VerifyRegisterCode ev s input =
    (let email = normalizeIdentifier (ss_Lower s) (vr_Email input) in
     if email = [] \<or> vr_Code input = [] then err (newError ErrInvalidInput ''email and code required'')
     else (case checkRegisterEmail email of
       Inl e \<Rightarrow> err e
     | Inr _ \<Rightarrow> bindM (verifyCode ev s VerificationPurposeRegister email (vr_Code input)) (\<lambda>_.
         case generateRegisterTicket ev ''register ticket'' of
           None \<Rightarrow> err (newError ErrInternal ''generate ticket failed'')
         | Some ticket \<Rightarrow> do {
             saved \<leftarrow> redis_write ev ''save register ticket'' (\<lambda>n ms rd.
               SaveRegisterTicket (ss_EncodeText s) n ms (ss_Prefix s) ticket email verificationTTL rd);
             case saved of
               Inl _ \<Rightarrow> do {
                 _ \<leftarrow> discardCode ev s VerificationPurposeRegister email;
                 err (newError ErrDependencyUnavailable ''save ticket failed'') }
             | Inr _ \<Rightarrow> do {
                 _ \<leftarrow> audit ev s ''audit'' None ''register_verify_code'' ''verification_code'' None None True 0
                        (vr_ClientIP input) (vr_UserAgent input) (Some [(''login_email'', JString email)]);
                 ok (ticket, email) } })))"

definition resolveRegistrationIdentity ::
    "env \<Rightarrow> session_service \<Rightarrow> string \<Rightarrow> string \<Rightarrow> (session_error + identity) action" where
  "resolveRegistrationIdentity ev s registrationState oauthState =
    (case ss_OAuthRegistration s of
       None \<Rightarrow> err (newError ErrInvalidInput ''oauth registration disabled'')
     | Some decode \<Rightarrow> do {
         r \<leftarrow> ConsumeRegistrationState ev s decode registrationState;
         case r of
           Inl _ \<Rightarrow> err (newError ErrDependencyUnavailable ''read registration state failed'')
         | Inr None \<Rightarrow> err (newError ErrInvalidInput ''registration state expired'')
         | Inr (Some payload) \<Rightarrow>
             if rp_OAuthState payload = [] \<or> rp_ProviderID payload = [] \<or> rp_Provider payload = []
             then err (newError ErrInvalidInput ''registration state incomplete'')
             else if rp_OAuthState payload \<noteq> oauthState then err (newError ErrInvalidInput ''oauth state mismatch'')
             else ok \<lparr>id_ID = 0, id_UserID = 0, id_Provider = rp_Provider payload, id_ProviderID = rp_ProviderID payload,
               id_IdentityData = rp_IdentityData payload, id_AccessToken = NullableString (rp_AccessToken payload),
               id_RefreshToken = NullableString (rp_RefreshToken payload), id_TokenExpiresAt = rp_TokenExpiresAt payload\<rparr> })"

text \<open>The members of \<open>college_enum\<close>, as code points (\<open>model/types.go\<close>).\<close>

definition college_runes :: "rune list list" where
  "college_runes = [
   [0x8D1D, 0x5C14, 0x82F1, 0x624D, 0x5B66, 0x9662],
   [0x901A, 0x4FE1, 0x4E0E, 0x4FE1, 0x606F, 0x5DE5, 0x7A0B, 0x5B66, 0x9662],
   [0x7535, 0x5149, 0x67D4, 0x5B66, 0x9662],
   [0x96C6, 0x6210, 0x7535, 0x8DEF, 0x79D1, 0x5B66, 0x4E0E, 0x5DE5, 0x7A0B, 0x5B66, 0x9662, 0xFF08, 0x4EA7, 0x6559, 0x878D, 0x5408, 0x5B66, 0x9662, 0xFF09],
   [0x8BA1, 0x7B97, 0x673A, 0x5B66, 0x9662, 0x3001, 0x8F6F, 0x4EF6, 0x5B66, 0x9662, 0x3001, 0x7F51, 0x7EDC, 0x7A7A, 0x95F4, 0x5B89, 0x5168, 0x5B66, 0x9662],
   [0x81EA, 0x52A8, 0x5316, 0x5B66, 0x9662],
   [0x4EBA, 0x5DE5, 0x667A, 0x80FD, 0x5B66, 0x9662],
   [0x6750, 0x6599, 0x79D1, 0x5B66, 0x4E0E, 0x5DE5, 0x7A0B, 0x5B66, 0x9662],
   [0x5316, 0x5B66, 0x4E0E, 0x751F, 0x547D, 0x79D1, 0x5B66, 0x5B66, 0x9662],
   [0x7269, 0x8054, 0x7F51, 0x5B66, 0x9662],
   [0x7406, 0x5B66, 0x9662],
   [0x73B0, 0x4EE3, 0x90AE, 0x653F, 0x5B66, 0x9662, 0x3001, 0x667A, 0x6167, 0x4EA4, 0x901A, 0x5B66, 0x9662],
   [0x6570, 0x5B57, 0x5A92, 0x4F53, 0x4E0E, 0x8BBE, 0x8BA1, 0x827A, 0x672F, 0x5B66, 0x9662],
   [0x7BA1, 0x7406, 0x5B66, 0x9662],
   [0x7ECF, 0x6D4E, 0x5B66, 0x9662],
   [0x793E, 0x4F1A, 0x4E0E, 0x4EBA, 0x53E3, 0x5B66, 0x9662, 0x3001, 0x793E, 0x4F1A, 0x5DE5, 0x4F5C, 0x5B66, 0x9662],
   [0x5916, 0x56FD, 0x8BED, 0x5B66, 0x9662],
   [0x6559, 0x80B2, 0x79D1, 0x5B66, 0x4E0E, 0x6280, 0x672F, 0x5B66, 0x9662],
   [0x6CE2, 0x7279, 0x5170, 0x5B66, 0x9662],
   [0x6B27, 0x6D32, 0x585E, 0x6D66, 0x8DEF, 0x65AF, 0x5B66, 0x9662],
   [0x5176, 0x4ED6]]"

definition CollegeValid :: "string \<Rightarrow> bool" where
  "CollegeValid c \<longleftrightarrow> c \<in> set (map (\<lambda>rs. concat (map encode_rune rs)) college_runes)"

record RegisterInput =
  rg_RegisterTicket :: string
  rg_Password :: string
  rg_Name :: string
  rg_StudentID :: string
  rg_PhoneNumber :: string
  rg_QQNumber :: string
  rg_College :: string
  rg_Major :: string
  rg_RegistrationState :: string
  rg_OAuthState :: string
  rg_ClientIP :: string
  rg_UserAgent :: string

text \<open>The checks that cost nothing, in their order; the result is the derived state.\<close>

definition checkRegisterInput :: "env \<Rightarrow> session_service \<Rightarrow> RegisterInput \<Rightarrow> session_error + UserState" where
  "checkRegisterInput ev s input =
    (let name = TrimSpace (rg_Name input); studentID = TrimSpace (rg_StudentID input);
         college = TrimSpace (rg_College input) in
     if TrimSpace (rg_RegisterTicket input) = [] then Inl (newError ErrRegisterTicketInvalid ''ticket required'')
     else if (TrimSpace (rg_RegistrationState input) = []) \<noteq> (TrimSpace (rg_OAuthState input) = [])
       then Inl (newError ErrInvalidInput ''states must come together'')
     else if name = [] \<or> studentID = [] \<or> TrimSpace (rg_PhoneNumber input) = [] \<or> TrimSpace (rg_QQNumber input) = []
        \<or> college = [] \<or> TrimSpace (rg_Major input) = [] \<or> rg_Password input = []
       then Inl (newError ErrInvalidInput ''registration incomplete'')
     else if IsInvalidName name then Inl (newError ErrInvalidInput ''name charset'')
     else if \<not> CollegeValid college then Inl (newError ErrInvalidInput ''college unknown'')
     else if length (rg_Password input) < MinPasswordLength then Inl (newError ErrPasswordTooShort ''password too short'')
     else (case DeriveState (ss_Digit s) UserRoleFreshman studentID (ev_Now ev ''derive state'') of
       None \<Rightarrow> Inl (newError ErrInvalidInput ''student id unreadable'')
     | Some st \<Rightarrow> Inr st))"

definition new_account :: "RegisterInput \<Rightarrow> UserState \<Rightarrow> string \<Rightarrow> string \<Rightarrow> user" where
  "new_account input st email passwordHash =
    \<lparr>us_ID = 0, us_Role = UserRoleFreshman, us_Name = TrimSpace (rg_Name input), us_PhoneNumber = TrimSpace (rg_PhoneNumber input),
     us_QQNumber = TrimSpace (rg_QQNumber input), us_PasswordHash = passwordHash, us_StudentID = TrimSpace (rg_StudentID input),
     us_State = st, us_StateManual = False, us_EmailType = [], us_LoginEmail = email, us_College = TrimSpace (rg_College input),
     us_Major = TrimSpace (rg_Major input), us_TokenVersion = 0, us_DeletedAt = None\<rparr>"

text \<open>The callback that builds the first pair from the stored account; its error rolls back.\<close>

definition registration_factory :: "env \<Rightarrow> session_service \<Rightarrow> oauth_client \<Rightarrow> token_pair_factory" where
  "registration_factory ev s client created =
    (case issuePair ev s created client 0 [] sessionScopes of
       Inl _ \<Rightarrow> Inl (DbError ''issue registration pair'')
     | Inr pair \<Rightarrow> Inr (Some (tp_Access pair), Some (tp_Refresh pair)))"

definition registrationRefused :: "repo_error \<Rightarrow> session_error" where
  "registrationRefused e =
    (if e = ErrStudentIDExists then newError ErrStudentIDOccupied ''student id or mailbox taken''
     else (let c = duplicateConstraint e in
       if c = userStudentIDConstraint then newError ErrStudentIDOccupied ''student id taken''
       else if c = userLoginEmailConstraint \<or> c = userLoginEmailIsIdentityConstraint
         then newError ErrEmailAlreadyRegistered ''email registered''
       else if c = identityProviderConstraint then newError ErrIdentityOccupied ''identity bound elsewhere''
       else if c \<noteq> [] then newError ErrConflict ''registration conflict''
       else newError ErrInternal ''create user failed''))"

text \<open>What follows the commit: the ticket is spent, the device recorded, the account read back.\<close>

definition registered ::
    "env \<Rightarrow> session_service \<Rightarrow> RegisterInput \<Rightarrow> string \<Rightarrow> user \<Rightarrow> token_pair \<Rightarrow> (session_error + LoginResult) action" where
  "registered ev s input email user pair = do {
     _ \<leftarrow> redis_write ev ''consume register ticket'' (\<lambda>n ms rd.
       ConsumeRegisterTicket n ms (ss_Prefix s) (TrimSpace (rg_RegisterTicket input)) rd);
     _ \<leftarrow> audit ev s ''audit'' (Some (us_ID user)) ''register'' ''session'' None None True 0
            (rg_ClientIP input) (rg_UserAgent input) (Some [(''login_email'', JString email)]);
     _ \<leftarrow> registerSessionDevice ev s (us_ID user) pair (rg_UserAgent input) (rg_ClientIP input);
     reloaded \<leftarrow> db_read ev ''reload user'' (\<lambda>flt db. FindUserByID flt db (us_ID user));
     ok \<lparr>lg_Session = session_result pair,
         lg_Profile = profileDTO s (case reloaded of Inl _ \<Rightarrow> bare user | Inr a \<Rightarrow> a)\<rparr> }"

definition createRegistration ::
    "env \<Rightarrow> session_service \<Rightarrow> RegisterInput \<Rightarrow> UserState \<Rightarrow> string \<Rightarrow> identity option \<Rightarrow> (session_error + LoginResult) action" where
  "createRegistration ev s input st email oauthIdentity =
    (case hashPassword ev s ''hash password'' (rg_Password input) of
       Inl _ \<Rightarrow> err (hashError ev ''hash password'')
     | Inr passwordHash \<Rightarrow> bindM (findInternalClient ev s) (\<lambda>client. do {
         r \<leftarrow> db_write ev ''create registration'' (\<lambda>flt db. CreateRegistrationWithIdentity flt (ss_Lower s) (ss_PgLower s)
                (Some (new_account input st email passwordHash)) (Some (blank_profile 0)) oauthIdentity
                (Some (registration_factory ev s client)) db);
         case r of
           Inl e \<Rightarrow> err (registrationRefused e)
         | Inr user \<Rightarrow> (case issuePair ev s user client 0 [] sessionScopes of
             Inl e \<Rightarrow> err e
           | Inr pair \<Rightarrow> registered ev s input email user pair) }))"

text \<open>The occupancy checks before anything is spent.\<close>

definition checkRegisterOccupied :: "env \<Rightarrow> session_service \<Rightarrow> RegisterInput \<Rightarrow> string \<Rightarrow> (session_error + unit) action" where
  "checkRegisterOccupied ev s input email = do {
     r1 \<leftarrow> db_read ev ''email exists'' (\<lambda>flt db. ExistsAsEmailAnywhere flt db email);
     case r1 of
       Inl _ \<Rightarrow> err (newError ErrInternal ''query email failed'')
     | Inr emailTaken \<Rightarrow>
         if emailTaken then err (newError ErrEmailAlreadyRegistered ''email registered'')
         else do {
           r2 \<leftarrow> db_read ev ''student id exists'' (\<lambda>flt db. ExistsByStudentID flt (ss_PgLower s) db (TrimSpace (rg_StudentID input)));
           case r2 of
             Inl _ \<Rightarrow> err (newError ErrInternal ''query student id failed'')
           | Inr studentTaken \<Rightarrow>
               if studentTaken then err (newError ErrStudentIDOccupied ''student id taken'') else ok () } }"

definition Register :: "env \<Rightarrow> session_service \<Rightarrow> RegisterInput \<Rightarrow> (session_error + LoginResult) action" where
  "Register ev s input =
    (case checkRegisterInput ev s input of
       Inl e \<Rightarrow> err e
     | Inr st \<Rightarrow>
         (let ticket = TrimSpace (rg_RegisterTicket input) in do {
           peeked \<leftarrow> redis_read ev ''peek register ticket'' (\<lambda>n ms rd.
             PeekRegisterTicket (ss_DecodeText s) n ms (ss_Prefix s) ticket rd);
           case peeked of
             Inl _ \<Rightarrow> err (newError ErrDependencyUnavailable ''read ticket failed'')
           | Inr None \<Rightarrow> err (newError ErrRegisterTicketInvalid ''ticket expired'')
           | Inr (Some email) \<Rightarrow>
               if \<not> IsLoginEmailDomain email
               then err (newError (KindInvalidInput, CodeEmailDomainNotAllowed) ''email domain not allowed'')
               else if \<not> IsNjuptEmailLocalAllowed email
               then err (newError (KindInvalidInput, CodeNjuptEmailPrefixNotAllowed) ''email prefix malformed'')
               else bindM (checkRegisterOccupied ev s input email) (\<lambda>_.
                 bindM (checkEndpointLimit ev s (ss_RegisterLimiter s) ''register'' (''ticket:'' @ ticket)) (\<lambda>_.
                   bindM (if TrimSpace (rg_RegistrationState input) = [] then ok None
                          else bindM (resolveRegistrationIdentity ev s (TrimSpace (rg_RegistrationState input))
                                 (TrimSpace (rg_OAuthState input))) (\<lambda>i. ok (Some i)))
                     (\<lambda>oauthIdentity. createRegistration ev s input st email oauthIdentity))) }))"

section \<open>Passwords\<close>

definition ForgotPasswordSendCode :: "env \<Rightarrow> session_service \<Rightarrow> MailInput \<Rightarrow> (session_error + string) action" where
  "ForgotPasswordSendCode ev s input =
    (let email = normalizeIdentifier (ss_Lower s) (mi_Email input) in
     if email = [] then err (newError ErrInvalidInput ''email required'')
     else if \<not> EmailFormat email then err (newError ErrInvalidInput ''email malformed'')
     else bindM (checkEmailLimit ev s email (mi_ClientIP input)) (\<lambda>_. do {
       found \<leftarrow> db_read ev ''find account'' (\<lambda>flt db. FindAuthUserByLoginIdentifier flt db email);
       case found of
         Inl e \<Rightarrow> if e = ErrNotFound then err (newError ErrUnknownIdentifier ''identifier unknown'')
                  else err (newError ErrInternal ''query account failed'')
       | Inr _ \<Rightarrow>
           if \<not> ss_ForgotPasswords s then err (newError ErrInternal ''reset queue not configured'')
           else do {
             accepted \<leftarrow> EnqueueForgotPassword ev \<lparr>fj_Email = email, fj_ClientIP = mi_ClientIP input, fj_UserAgent = mi_UserAgent input\<rparr>;
             if \<not> accepted then err (newError ErrDependencyUnavailable ''mail busy'') else ok email } }))"

text \<open>The rewrite both flows end with: one transaction, then the deliveries that may fail.\<close>

definition replacePassword ::
    "env \<Rightarrow> session_service \<Rightarrow> user \<Rightarrow> string \<Rightarrow> string \<Rightarrow> string \<Rightarrow> string \<Rightarrow> (session_error + unit) action" where
  "replacePassword ev s user password reason email failure =
    (case hashPassword ev s ''hash password'' password of
       Inl _ \<Rightarrow> err (hashError ev ''hash password'')
     | Inr passwordHash \<Rightarrow> let now = ev_Now ev ''update password'' in do {
         r \<leftarrow> db_write ev ''update password'' (\<lambda>flt db. UpdatePasswordAndRevokeSessions flt (us_ID user) passwordHash now reason db);
         case r of
           Inl _ \<Rightarrow> err (newError ErrInternal failure)
         | Inr entries \<Rightarrow> do {
             _ \<leftarrow> DeliverBlacklist ev (ss_Blacklist s) entries now;
             _ \<leftarrow> clearLoginFailures ev s user email;
             _ \<leftarrow> dropAllDevices ev s (us_ID user);
             ok () } })"

record ResetPasswordInput =
  rs_Email :: string
  rs_Code :: string
  rs_Password :: string
  rs_ClientIP :: string
  rs_UserAgent :: string

definition ResetPassword :: "env \<Rightarrow> session_service \<Rightarrow> ResetPasswordInput \<Rightarrow> (session_error + string) action" where
  "ResetPassword ev s input =
    (let email = normalizeIdentifier (ss_Lower s) (rs_Email input) in
     if email = [] \<or> rs_Code input = [] \<or> rs_Password input = [] then err (newError ErrInvalidInput ''reset input incomplete'')
     else if \<not> EmailFormat email then err (newError ErrInvalidInput ''email malformed'')
     else if length (rs_Password input) < MinPasswordLength then err (newError ErrPasswordTooShort ''password too short'')
     else bindM (verifyCode ev s VerificationPurposeResetPassword email (rs_Code input)) (\<lambda>_. do {
       found \<leftarrow> db_read ev ''find account'' (\<lambda>flt db. FindAuthUserByLoginIdentifier flt db email);
       case found of
         Inl e \<Rightarrow> if e = ErrNotFound then err (newError ErrUnknownIdentifier ''identifier unknown'')
                  else err (newError ErrInternal ''query account failed'')
       | Inr user \<Rightarrow>
           if us_State user = UserStateDeleted then err (newError ErrUserDeleted ''account closed'')
           else if verifyPassword ev s ''compare password'' (rs_Password input) (us_PasswordHash user) = Inr ()
           then err (newError ErrPasswordUnchanged ''password unchanged'')
           else if callerGone ev ''compare password''
           then err (newError ErrDependencyUnavailable ''password check interrupted'')
           else bindM (replacePassword ev s user (rs_Password input) RevokeReasonPasswordReset email ''reset password failed'') (\<lambda>_. do {
             _ \<leftarrow> audit ev s ''audit'' (Some (us_ID user)) ''reset_password'' ''session'' None None True 0
                    (rs_ClientIP input) (rs_UserAgent input) (Some [(''email'', JString email)]);
             ok email }) }))"

record ChangePasswordInput =
  cp_UserID :: int
  cp_OldPassword :: string
  cp_NewPassword :: string
  cp_ActorClientID :: string
  cp_ClientIP :: string
  cp_UserAgent :: string

definition ChangePassword :: "env \<Rightarrow> session_service \<Rightarrow> ChangePasswordInput \<Rightarrow> (session_error + int) action" where
  "ChangePassword ev s input =
    (if cp_UserID input \<le> 0 then err (newError ErrInvalidToken ''subject invalid'')
     else if cp_OldPassword input = [] \<or> cp_NewPassword input = [] then err (newError ErrInvalidInput ''passwords required'')
     else if length (cp_NewPassword input) < MinPasswordLength then err (newError ErrPasswordTooShort ''password too short'')
     else if cp_NewPassword input = cp_OldPassword input then err (newError ErrPasswordUnchanged ''password unchanged'')
     else do {
       found \<leftarrow> db_read ev ''find account'' (\<lambda>flt db. FindAuthUserByID flt db (cp_UserID input));
       case found of
         Inl e \<Rightarrow> if e = ErrNotFound then err (newError ErrInvalidToken ''subject invalid'')
                  else err (newError ErrInternal ''query account failed'')
       | Inr user \<Rightarrow>
           if us_State user = UserStateDeleted then err (newError ErrUserDeleted ''account closed'')
           else (case verifyPassword ev s ''verify password'' (cp_OldPassword input) (us_PasswordHash user) of
             Inl _ \<Rightarrow>
               if callerGone ev ''verify password'' then err (newError ErrDependencyUnavailable ''password check interrupted'')
               else do {
                 _ \<leftarrow> audit ev s ''audit'' (Some (us_ID user)) ''change_password'' ''session'' None (actor s (cp_ActorClientID input))
                        False CodePasswordInvalid (cp_ClientIP input) (cp_UserAgent input) None;
                 err (newError ErrPasswordInvalid ''old password wrong'') }
           | Inr _ \<Rightarrow>
               bindM (replacePassword ev s user (cp_NewPassword input) RevokeReasonPasswordChanged (us_LoginEmail user)
                        ''change password failed'') (\<lambda>_. do {
                 _ \<leftarrow> audit ev s ''audit'' (Some (us_ID user)) ''change_password'' ''session'' None (actor s (cp_ActorClientID input))
                        True 0 (cp_ClientIP input) (cp_UserAgent input) None;
                 ok (us_ID user) })) })"

section \<open>Bound addresses\<close>

record BindEmailSendCodeInput =
  bs_UserID :: int
  bs_Email :: string
  bs_ActorClientID :: string
  bs_ClientIP :: string
  bs_UserAgent :: string

text \<open>Whether the address is free: bound nowhere and nobody's login address.\<close>

definition checkAddressFree :: "env \<Rightarrow> string \<Rightarrow> (session_error + unit) action" where
  "checkAddressFree ev email = do {
     bound \<leftarrow> db_read ev ''find binding'' (\<lambda>flt db. FindByProviderID flt db LoginMethodOtherMail email);
     case bound of
       Inr _ \<Rightarrow> err (newError ErrIdentityOccupied ''address occupied'')
     | Inl e \<Rightarrow>
         if e \<noteq> ErrNotFound then err (newError ErrInternal ''query binding failed'')
         else do {
           r \<leftarrow> db_read ev ''email exists'' (\<lambda>flt db. ExistsAsEmailAnywhere flt db email);
           case r of
             Inl _ \<Rightarrow> err (newError ErrInternal ''query email failed'')
           | Inr emailExists \<Rightarrow>
               if emailExists then err (newError ErrIdentityOccupied ''address occupied'') else ok () } }"

definition issueBindTicket :: "env \<Rightarrow> session_service \<Rightarrow> BindEmailSendCodeInput \<Rightarrow> string \<Rightarrow> (session_error + string) action" where
  "issueBindTicket ev s input email =
    (case GenerateVerificationCode ev ''bind code'' of
       None \<Rightarrow> err (newError ErrInternal ''generate code failed'')
     | Some code \<Rightarrow> do {
         saved \<leftarrow> saveCode ev s VerificationPurposeBindEmail email code;
         case saved of
           Inl _ \<Rightarrow> err (newError ErrDependencyUnavailable ''save code failed'')
         | Inr _ \<Rightarrow> (case generateBindTicket ev ''bind ticket'' of
             None \<Rightarrow> err (newError ErrInternal ''generate ticket failed'')
           | Some ticket \<Rightarrow> do {
               stored \<leftarrow> SaveBindTicket ev s ticket \<lparr>bt_Email = email, bt_UserID = bs_UserID input\<rparr>;
               case stored of
                 Inl _ \<Rightarrow> err (newError ErrDependencyUnavailable ''save ticket failed'')
               | Inr _ \<Rightarrow> do {
                   sent \<leftarrow> SendVerificationCode ev email code VerificationPurposeBindEmail;
                   if \<not> sent then err (newError ErrEmailFailed ''mail failed'')
                   else do {
                     _ \<leftarrow> audit ev s ''audit'' (Some (bs_UserID input)) ''bind_email_send_code'' ''verification_code'' None
                            (actor s (bs_ActorClientID input)) True 0 (bs_ClientIP input) (bs_UserAgent input)
                            (Some [(''email'', JString email)]);
                     ok ticket } } }) })"

definition BindEmailSendCode :: "env \<Rightarrow> session_service \<Rightarrow> BindEmailSendCodeInput \<Rightarrow> (session_error + string) action" where
  "BindEmailSendCode ev s input =
    (let email = normalizeIdentifier (ss_Lower s) (bs_Email input) in
     if email = [] then err (newError ErrInvalidInput ''email required'')
     else if \<not> EmailFormat email then err (newError ErrInvalidInput ''email malformed'')
     else if IsNjuptEmailDomain email then err (newError ErrInvalidInput ''campus address not bindable'')
     else if bs_UserID input \<le> 0 then err (newError ErrInvalidToken ''subject invalid'')
     else bindM (checkEmailLimit ev s email (bs_ClientIP input)) (\<lambda>_.
       bindM (checkAddressFree ev email) (\<lambda>_. do {
         counted \<leftarrow> db_read ev ''count bindings'' (\<lambda>flt db. CountByUserAndProvider flt db (bs_UserID input) LoginMethodOtherMail);
         case counted of
           Inl _ \<Rightarrow> err (newError ErrInternal ''count bindings failed'')
         | Inr count \<Rightarrow>
             if maxOtherMailBindings \<le> count then err (newError ErrIdentityLimitReached ''binding limit'')
             else issueBindTicket ev s input email })))"

record BindEmailVerifyInput =
  bv_UserID :: int
  bv_BindTicket :: string
  bv_Code :: string
  bv_ActorClientID :: string
  bv_ClientIP :: string
  bv_UserAgent :: string

definition bindAddress :: "env \<Rightarrow> session_service \<Rightarrow> BindEmailVerifyInput \<Rightarrow> string \<Rightarrow> (session_error + string \<times> IdentityDTO) action" where
  "bindAddress ev s input email =
     bindM (checkAddressFree ev email) (\<lambda>_. do {
       r \<leftarrow> db_write ev ''create binding'' (\<lambda>flt db. CreateWithinLimit flt (Some \<lparr>id_ID = 0, id_UserID = bv_UserID input,
              id_Provider = LoginMethodOtherMail, id_ProviderID = email, id_IdentityData = None, id_AccessToken = None,
              id_RefreshToken = None, id_TokenExpiresAt = None\<rparr>) maxOtherMailBindings db);
       case r of
         Inl e \<Rightarrow>
           if e = ErrLimitExceeded then err (newError ErrIdentityLimitReached ''binding limit'')
           else if isDuplicateError e then err (newError ErrIdentityOccupied ''address occupied'')
           else err (newError ErrInternal ''create binding failed'')
       | Inr identity \<Rightarrow> do {
           _ \<leftarrow> audit ev s ''audit'' (Some (bv_UserID input)) ''oauth_bind'' ''identity'' None (actor s (bv_ActorClientID input))
                  True 0 (bv_ClientIP input) (bv_UserAgent input)
                  (Some [(''provider'', JString LoginMethodOtherMail), (''provider_id'', JString email)]);
           ok (email, identityDTO identity) } })"

definition BindEmailVerify ::
    "env \<Rightarrow> session_service \<Rightarrow> BindEmailVerifyInput \<Rightarrow> (session_error + string \<times> IdentityDTO) action" where
  "BindEmailVerify ev s input =
    (let ticket = TrimSpace (bv_BindTicket input) in
     if bv_UserID input \<le> 0 then err (newError ErrInvalidToken ''subject invalid'')
     else if ticket = [] \<or> bv_Code input = [] then err (newError ErrInvalidInput ''ticket and code required'')
     else do {
       peeked \<leftarrow> PeekBindTicket ev s ticket;
       case peeked of
         Inl _ \<Rightarrow> err (newError ErrDependencyUnavailable ''read ticket failed'')
       | Inr None \<Rightarrow> err (newError ErrBindTicketInvalid ''ticket expired'')
       | Inr (Some payload) \<Rightarrow>
           if bt_UserID payload \<noteq> bv_UserID input then err (newError ErrBindTicketInvalid ''ticket of another user'')
           else bindM (verifyCode ev s VerificationPurposeBindEmail (bt_Email payload) (bv_Code input)) (\<lambda>_. do {
             consumed \<leftarrow> ConsumeBindTicket ev s ticket;
             case consumed of
               Inl _ \<Rightarrow> do {
                 _ \<leftarrow> discardCode ev s VerificationPurposeBindEmail (bt_Email payload);
                 err (newError ErrDependencyUnavailable ''consume ticket failed'') }
             | Inr removed \<Rightarrow>
                 if \<not> removed then do {
                   _ \<leftarrow> discardCode ev s VerificationPurposeBindEmail (bt_Email payload);
                   err (newError ErrBindTicketInvalid ''ticket expired'') }
                 else bindAddress ev s input (bt_Email payload) }) })"

section \<open>Bindings and profile (identity.go, service.go)\<close>

definition ListIdentities :: "env \<Rightarrow> session_service \<Rightarrow> int \<Rightarrow> (session_error + IdentityDTO list) action" where
  "ListIdentities ev s userID =
    (if userID \<le> 0 then err (newError ErrInvalidToken ''subject invalid'')
     else do {
       r \<leftarrow> db_read ev ''list identities'' (\<lambda>flt db. ListByUser flt db userID);
       case r of
         Inl _ \<Rightarrow> err (newError ErrInternal ''list identities failed'')
       | Inr identities \<Rightarrow> ok (map identityDTO identities) })"

record UnbindIdentityInput =
  ub_UserID :: int
  ub_IdentityID :: int
  ub_Password :: string
  ub_ActorClientID :: string
  ub_ClientIP :: string
  ub_UserAgent :: string

definition auditUnbind :: "env \<Rightarrow> session_service \<Rightarrow> UnbindIdentityInput \<Rightarrow> identity \<Rightarrow> bool \<Rightarrow> int \<Rightarrow> unit action" where
  "auditUnbind ev s input identity success errCode =
     audit ev s ''audit'' (Some (ub_UserID input)) ''oauth_unbind'' ''identity'' (Some (decimal (id_ID identity)))
       (actor s (ub_ActorClientID input)) success errCode (ub_ClientIP input) (ub_UserAgent input)
       (Some [(''provider'', JString (id_Provider identity)), (''provider_id'', JString (id_ProviderID identity))])"

definition UnbindIdentity :: "env \<Rightarrow> session_service \<Rightarrow> UnbindIdentityInput \<Rightarrow> (session_error + string \<times> string) action" where
  "UnbindIdentity ev s input =
    (if ub_UserID input \<le> 0 then err (newError ErrInvalidToken ''subject invalid'')
     else if ub_IdentityID input \<le> 0 then err (newError ErrIdentityNotFound ''binding missing'')
     else if ub_Password input = [] then err (newError ErrInvalidInput ''password required'')
     else bindM (checkEndpointLimit ev s (ss_UnbindLimiter s) ''unbind'' (''user:'' @ decimal (ub_UserID input))) (\<lambda>_. do {
       found \<leftarrow> db_read ev ''find account'' (\<lambda>flt db. FindAuthUserByID flt db (ub_UserID input));
       case found of
         Inl e \<Rightarrow> if e = ErrNotFound then err (newError ErrInvalidToken ''subject invalid'')
                  else err (newError ErrInternal ''query account failed'')
       | Inr user \<Rightarrow>
           if us_State user = UserStateDeleted then err (newError ErrUserDeleted ''account closed'')
           else do {
             bound \<leftarrow> db_read ev ''find identity'' (\<lambda>flt db. FindByIDAndUser flt db (ub_IdentityID input) (ub_UserID input));
             case bound of
               Inl e \<Rightarrow> if e = ErrNotFound then err (newError ErrIdentityNotFound ''binding missing'')
                        else err (newError ErrInternal ''query binding failed'')
             | Inr identity \<Rightarrow>
                 (case verifyPassword ev s ''verify password'' (ub_Password input) (us_PasswordHash user) of
                   Inl _ \<Rightarrow>
                     if callerGone ev ''verify password''
                     then err (newError ErrDependencyUnavailable ''password check interrupted'')
                     else do {
                       _ \<leftarrow> auditUnbind ev s input identity False (snd ErrPasswordInvalid);
                       err (newError ErrPasswordInvalid ''password wrong'') }
                 | Inr _ \<Rightarrow> do {
                     r \<leftarrow> db_write ev ''delete binding'' (\<lambda>flt db.
                       DeleteIdentityGuardingLoginMethod flt (ub_IdentityID input) (ub_UserID input) db);
                     case r of
                       Inl e \<Rightarrow>
                         if e = ErrNotFound then err (newError ErrIdentityNotFound ''binding missing'')
                         else if e = ErrLastLoginMethod then err (newError ErrLastLoginMethod_s ''last login method'')
                         else err (newError ErrInternal ''delete binding failed'')
                     | Inr _ \<Rightarrow> do {
                         _ \<leftarrow> auditUnbind ev s input identity True 0;
                         ok (id_Provider identity, id_ProviderID identity) } }) } }))"

definition Profile :: "env \<Rightarrow> session_service \<Rightarrow> int \<Rightarrow> (session_error + UserProfileDTO) action" where
  "Profile ev s userID =
    (if userID \<le> 0 then err (newError ErrInvalidInput ''profile input invalid'')
     else do {
       r \<leftarrow> db_read ev ''find profile'' (\<lambda>flt db. FindProfileByID flt db userID);
       case r of
         Inl e \<Rightarrow> if e = ErrNotFound then err (newError ErrInvalidToken ''subject invalid'')
                  else err (newError ErrInternal ''query profile failed'')
       | Inr a \<Rightarrow>
           if us_State (ua_User a) = UserStateDeleted then err (newError ErrUserDeleted ''account closed'')
           else ok (profileDTO s a) })"

section \<open>The self-service edit (profile.go)\<close>

definition MaxNicknameLength :: nat where "MaxNicknameLength = 255"
definition MaxIntroLength :: nat where "MaxIntroLength = 255"
definition MaxDisplayEmailLen :: nat where "MaxDisplayEmailLen = 255"
definition MaxURLLength :: nat where "MaxURLLength = 512"

definition profileFieldOrder :: "string list" where
  "profileFieldOrder = [''name'', ''phone_number'', ''qq_number'', ''college'', ''major'', ''nickname'', ''department'',
     ''intro'', ''email'', ''blog_url'', ''github_url'']"

record UpdateProfileInput =
  up_UserID :: int
  up_ActorClientID :: string
  up_Role :: string
  up_Name :: "string option"
  up_PhoneNumber :: "string option"
  up_QQNumber :: "string option"
  up_College :: "string option"
  up_Major :: "string option"
  up_Nickname :: "string option"
  up_Department :: "string option"
  up_Intro :: "string option"
  up_Email :: "string option"
  up_BlogURL :: "string option"
  up_GitHubURL :: "string option"
  up_ClientIP :: string
  up_UserAgent :: string

text \<open>The two loops over a field table, one entry at a time: an absent field stays absent.\<close>

definition shapeField :: "string \<Rightarrow> nat \<Rightarrow> string \<Rightarrow> session_error + string option" where
  "shapeField field limit text_in =
    (if limit < RuneCountInString text_in then Inl (newError ErrInvalidInput (field @ '' too long''))
     else if HasControlCharacter text_in then Inl (newError ErrInvalidInput (field @ '' invalid characters''))
     else Inr (Some text_in))"

definition requiredEntry :: "string \<Rightarrow> string option \<Rightarrow> nat \<Rightarrow> session_error + string option" where
  "requiredEntry field v limit =
    (case v of
       None \<Rightarrow> Inr None
     | Some raw \<Rightarrow> if TrimSpace raw = [] then Inl (newError ErrInvalidInput (field @ '' required''))
                   else shapeField field limit (TrimSpace raw))"

definition optionalEntry :: "string \<Rightarrow> string option \<Rightarrow> nat \<Rightarrow> session_error + string option" where
  "optionalEntry field v limit =
    (case v of None \<Rightarrow> Inr None | Some raw \<Rightarrow> shapeField field limit (TrimSpace raw))"

text \<open>\<open>url.Parse\<close> is the parameter \<open>parse\<close>: the scheme and host of a readable URL.\<close>

definition validHTTPURL :: "(string \<Rightarrow> (string \<times> string) option) \<Rightarrow> string \<Rightarrow> bool" where
  "validHTTPURL parse v \<longleftrightarrow>
    (case parse v of
       None \<Rightarrow> False
     | Some (scheme, host) \<Rightarrow> scheme \<in> {''http'', ''https''} \<and> host \<noteq> []
         \<and> \<not> list_ex (\<lambda>r. r < 0x20 \<or> r = 0x7F \<or> IsSpace r) (runes v))"

definition checkLink :: "(string \<Rightarrow> (string \<times> string) option) \<Rightarrow> string \<Rightarrow> string option \<Rightarrow> session_error + unit" where
  "checkLink parse field v =
    (case v of
       None \<Rightarrow> Inr ()
     | Some link \<Rightarrow> if link = [] \<or> validHTTPURL parse link then Inr ()
                    else Inl (newError ErrInvalidInput (field @ '' must be http'')))"

definition departmentSelfEditAllowed :: "string \<Rightarrow> bool" where
  "departmentSelfEditAllowed role \<longleftrightarrow> role \<in> {UserRoleManager, UserRoleAdmin}"

definition checkDepartment :: "string \<Rightarrow> string option \<Rightarrow> session_error + Department option" where
  "checkDepartment role v =
    (case v of
       None \<Rightarrow> Inr None
     | Some raw \<Rightarrow>
         if \<not> departmentSelfEditAllowed role then Inl (newError ErrInvalidInput ''department needs manager'')
         else (let department = TrimSpace raw in
           if department \<noteq> [] \<and> \<not> DepartmentValid department then Inl (newError ErrInvalidInput ''department unknown'')
           else Inr (Some department)))"

definition checkCollege :: "string option \<Rightarrow> session_error + string option" where
  "checkCollege v =
    (case v of
       None \<Rightarrow> Inr None
     | Some raw \<Rightarrow> if CollegeValid (TrimSpace raw) then Inr (Some (TrimSpace raw))
                   else Inl (newError ErrInvalidInput ''college unknown''))"

definition present_fields :: "profile_update \<Rightarrow> string list" where
  "present_fields pu =
    (let present = (\<lambda>f.
       (f = ''name'' \<and> pu_Name pu \<noteq> None) \<or> (f = ''phone_number'' \<and> pu_PhoneNumber pu \<noteq> None)
       \<or> (f = ''qq_number'' \<and> pu_QQNumber pu \<noteq> None) \<or> (f = ''college'' \<and> pu_College pu \<noteq> None)
       \<or> (f = ''major'' \<and> pu_Major pu \<noteq> None) \<or> (f = ''nickname'' \<and> pu_Nickname pu \<noteq> None)
       \<or> (f = ''department'' \<and> pu_Department pu \<noteq> None) \<or> (f = ''intro'' \<and> pu_Intro pu \<noteq> None)
       \<or> (f = ''email'' \<and> pu_Email pu \<noteq> None) \<or> (f = ''blog_url'' \<and> pu_BlogURL pu \<noteq> None)
       \<or> (f = ''github_url'' \<and> pu_GitHubURL pu \<noteq> None)) in
     filter present profileFieldOrder)"

definition buildProfileUpdate :: "session_service \<Rightarrow> UpdateProfileInput \<Rightarrow> session_error + (profile_update \<times> string list)" where
  "buildProfileUpdate s input =
    bindE (requiredEntry ''name'' (up_Name input) MaxNameLength) (\<lambda>name.
    bindE (requiredEntry ''phone_number'' (up_PhoneNumber input) MaxPhoneNumberLength) (\<lambda>phone.
    bindE (requiredEntry ''qq_number'' (up_QQNumber input) MaxQQNumberLength) (\<lambda>qq.
    bindE (requiredEntry ''major'' (up_Major input) MaxMajorLength) (\<lambda>major.
    bindE (if (case up_Name input of None \<Rightarrow> False | Some n \<Rightarrow> IsInvalidName n)
           then Inl (newError ErrInvalidInput ''name charset'') else Inr ()) (\<lambda>_.
    bindE (checkCollege (up_College input)) (\<lambda>college.
    bindE (optionalEntry ''nickname'' (up_Nickname input) MaxNicknameLength) (\<lambda>nickname.
    bindE (optionalEntry ''intro'' (up_Intro input) MaxIntroLength) (\<lambda>intro.
    bindE (optionalEntry ''email'' (up_Email input) MaxDisplayEmailLen) (\<lambda>email.
    bindE (optionalEntry ''blog_url'' (up_BlogURL input) MaxURLLength) (\<lambda>blog.
    bindE (optionalEntry ''github_url'' (up_GitHubURL input) MaxURLLength) (\<lambda>github.
    bindE (if (case email of None \<Rightarrow> False | Some e \<Rightarrow> e \<noteq> [] \<and> \<not> EmailFormat (normalizeIdentifier (ss_Lower s) e))
           then Inl (newError ErrInvalidInput ''display email malformed'') else Inr ()) (\<lambda>_.
    bindE (checkLink (ss_ParseURL s) ''blog_url'' blog) (\<lambda>_.
    bindE (checkLink (ss_ParseURL s) ''github_url'' github) (\<lambda>_.
    bindE (checkDepartment (up_Role input) (up_Department input)) (\<lambda>department.
      let pu = \<lparr>pu_Name = name, pu_PhoneNumber = phone, pu_QQNumber = qq, pu_College = college, pu_Major = major,
                pu_Nickname = nickname, pu_Department = department, pu_Intro = intro, pu_Email = email, pu_Avatar = None,
                pu_BlogURL = blog, pu_GitHubURL = github\<rparr> in
      Inr (pu, present_fields pu))))))))))))))))"

definition UpdateProfile_service ::
    "env \<Rightarrow> session_service \<Rightarrow> UpdateProfileInput \<Rightarrow> (session_error + UserProfileDTO \<times> string list) action" where
  "UpdateProfile_service ev s input =
    (if up_UserID input \<le> 0 then err (newError ErrInvalidToken ''subject invalid'')
     else (case buildProfileUpdate s input of
       Inl e \<Rightarrow> err e
     | Inr (update, changed) \<Rightarrow>
         if changed = [] then err (newError ErrInvalidInput ''nothing to update'')
         else do {
           r \<leftarrow> db_write ev ''update profile'' (\<lambda>flt db. UpdateProfile flt (up_UserID input) update db);
           case r of
             Inl e \<Rightarrow>
               if e = ErrNotFound then err (newError ErrInvalidToken ''subject invalid'')
               else if duplicateConstraint e \<noteq> [] then err (newError ErrConflict ''profile conflict'')
               else err (newError ErrInternal ''update profile failed'')
           | Inr a \<Rightarrow> do {
               _ \<leftarrow> audit ev s ''audit'' (Some (up_UserID input)) ''update_profile'' ''user'' (Some (decimal (up_UserID input)))
                      (actor s (up_ActorClientID input)) True 0 (up_ClientIP input) (up_UserAgent input)
                      (Some [(''changed_fields'', JStrings changed)]);
               ok (profileDTO s a, changed) } }))"

section \<open>All entry points\<close>

datatype session_call =
    CallLogin LoginInput
  | CallRefresh RefreshInput
  | CallIdentify string
  | CallLogout LogoutInput
  | CallListDevices int
  | CallLogoutDevice LogoutDeviceInput
  | CallSendRegisterCode MailInput
  | CallVerifyRegisterCode VerifyRegisterCodeInput
  | CallRegister RegisterInput
  | CallForgotPassword MailInput
  | CallResetPassword ResetPasswordInput
  | CallChangePassword ChangePasswordInput
  | CallBindEmailSendCode BindEmailSendCodeInput
  | CallBindEmailVerify BindEmailVerifyInput
  | CallListIdentities int
  | CallUnbindIdentity UnbindIdentityInput
  | CallProfile int
  | CallUpdateProfile UpdateProfileInput

definition quietly :: "'a action \<Rightarrow> unit action" where
  "quietly m = do { _ \<leftarrow> m; State_Monad.return () }"

fun serve :: "env \<Rightarrow> session_service \<Rightarrow> session_call \<Rightarrow> unit action" where
  "serve ev s (CallLogin i) = quietly (Login ev s i)"
| "serve ev s (CallRefresh i) = quietly (Refresh ev s i)"
| "serve ev s (CallIdentify t) = quietly (IdentifyByRefreshToken ev s t)"
| "serve ev s (CallLogout i) = quietly (Logout ev s i)"
| "serve ev s (CallListDevices u) = quietly (ListDevices_service ev s u)"
| "serve ev s (CallLogoutDevice i) = quietly (LogoutDevice ev s i)"
| "serve ev s (CallSendRegisterCode i) = quietly (SendRegisterCode ev s i)"
| "serve ev s (CallVerifyRegisterCode i) = quietly (VerifyRegisterCode ev s i)"
| "serve ev s (CallRegister i) = quietly (Register ev s i)"
| "serve ev s (CallForgotPassword i) = quietly (ForgotPasswordSendCode ev s i)"
| "serve ev s (CallResetPassword i) = quietly (ResetPassword ev s i)"
| "serve ev s (CallChangePassword i) = quietly (ChangePassword ev s i)"
| "serve ev s (CallBindEmailSendCode i) = quietly (BindEmailSendCode ev s i)"
| "serve ev s (CallBindEmailVerify i) = quietly (BindEmailVerify ev s i)"
| "serve ev s (CallListIdentities u) = quietly (ListIdentities ev s u)"
| "serve ev s (CallUnbindIdentity i) = quietly (UnbindIdentity ev s i)"
| "serve ev s (CallProfile u) = quietly (Profile ev s u)"
| "serve ev s (CallUpdateProfile i) = quietly (UpdateProfile_service ev s i)"

end
