(* ===== verification/Admin_Service.thy ===== *)
theory Admin_Service
  imports Session_Account
begin

text \<open>
  Provisioning of accounts by an administrator or a manager: \<open>CreateUser\<close> of \<open>service/adminuser/create.go\<close> with
  its input rules (\<open>validate.go\<close>), error mapping (\<open>conflict.go\<close>, \<open>errors.go\<close>) and audit rows (\<open>service.go\<close>). A
  message is represented by an ASCII key, as in the session service; causes only reach the log.
\<close>

section \<open>Errors (errors.go)\<close>

datatype admin_kind =
    AdminInvalidInput
  | AdminNotFound
  | AdminConflict
  | AdminStateConflict
  | AdminProtected
  | AdminInternal

record admin_error =
  ae_Kind :: admin_kind
  ae_Code :: int
  ae_Message :: string

type_synonym admin_sentinel = "admin_kind \<times> int"

definition ErrInvalidInput_admin :: admin_sentinel where "ErrInvalidInput_admin = (AdminInvalidInput, CodeBadRequest)"
definition ErrEmailPrefix_admin :: admin_sentinel where "ErrEmailPrefix_admin = (AdminInvalidInput, CodeNjuptEmailPrefixNotAllowed)"
definition ErrStudentIDOccupied_admin :: admin_sentinel where "ErrStudentIDOccupied_admin = (AdminConflict, CodeStudentIDOccupied)"
definition ErrEmailOccupied_admin :: admin_sentinel where "ErrEmailOccupied_admin = (AdminConflict, CodeEmailAlreadyRegistered)"
definition ErrConflict_admin :: admin_sentinel where "ErrConflict_admin = (AdminConflict, CodeConflict)"
definition ErrStateConflict_admin :: admin_sentinel where "ErrStateConflict_admin = (AdminStateConflict, CodeValidationFailed)"
definition ErrProtected_admin :: admin_sentinel where "ErrProtected_admin = (AdminProtected, CodeForbidden)"
definition ErrInternal_admin :: admin_sentinel where "ErrInternal_admin = (AdminInternal, CodeInternal)"

definition newError_admin :: "admin_sentinel \<Rightarrow> string \<Rightarrow> admin_error" where
  "newError_admin sentinel message = \<lparr>ae_Kind = fst sentinel, ae_Code = snd sentinel, ae_Message = message\<rparr>"

section \<open>Input (types.go, validate.go)\<close>

definition MaxStudentIDLength :: nat where "MaxStudentIDLength = 50"

record CreateUserInput =
  cu_Name :: string
  cu_PhoneNumber :: string
  cu_QQNumber :: string
  cu_StudentID :: string
  cu_LoginEmail :: string
  cu_Major :: "string option"
  cu_College :: "string option"
  cu_Role :: "string option"
  cu_State :: "string option"
  cu_PersonalEmail :: "string option"
  cu_AdminUserID :: int
  cu_AdminRole :: string
  cu_ActorClientID :: string
  cu_ClientIP :: string
  cu_UserAgent :: string

record CreateUserResult =
  cur_UserID :: int
  cur_LoginEmail :: string
  cur_InitialPassword :: string

record validatedCreate =
  vc_name :: string
  vc_phoneNumber :: string
  vc_qqNumber :: string
  vc_studentID :: string
  vc_major :: string
  vc_college :: string
  vc_loginEmail :: string
  vc_role :: UserRole
  vc_state :: UserState
  vc_stateManual :: bool
  vc_personalEmail :: "string option"

definition validRole :: "UserRole \<Rightarrow> bool" where
  "validRole role \<longleftrightarrow> role \<in> {UserRoleFreshman, UserRoleMember, UserRoleManager, UserRoleLecturer, UserRoleAdmin}"

definition validState :: "UserState \<Rightarrow> bool" where
  "validState st \<longleftrightarrow> st \<in> {UserStateNJUPTer, UserStateOnSAST, UserStateRetiredSAST, UserStateDeleted}"

definition fieldError :: "field_error \<Rightarrow> admin_error" where
  "fieldError refused = newError_admin ErrInvalidInput_admin
    (fe_Field refused @ (case fe_Reason refused of
       ReasonRequired \<Rightarrow> '' required'' | ReasonTooLong \<Rightarrow> '' too long'' | ReasonInvalid \<Rightarrow> '' invalid''))"

definition checkedField :: "field_error + string \<Rightarrow> admin_error + string" where
  "checkedField r = (case r of Inl refused \<Rightarrow> Inl (fieldError refused) | Inr v \<Rightarrow> Inr v)"

text \<open>The address is given, so the case of an absent one does not arise.\<close>

definition validateLoginEmail :: "(rune \<Rightarrow> rune) \<Rightarrow> string \<Rightarrow> admin_error + string" where
  "validateLoginEmail lower_ext raw =
    (let email = ToLower lower_ext (TrimSpace raw) in
     if email = [] then Inl (newError_admin ErrInvalidInput_admin ''login_email required'')
     else if MaxLoginEmailLength < RuneCountInString email then Inl (newError_admin ErrInvalidInput_admin ''login_email too long'')
     else if \<not> EmailFormat email then Inl (newError_admin ErrInvalidInput_admin ''login_email malformed'')
     else if \<not> IsLoginEmailDomain email then Inl (newError_admin ErrInvalidInput_admin ''login_email domain'')
     else if \<not> IsNjuptEmailLocalAllowed email then Inl (newError_admin ErrEmailPrefix_admin ''email prefix malformed'')
     else Inr email)"

definition createPersonalEmail :: "(rune \<Rightarrow> rune) \<Rightarrow> string option \<Rightarrow> string \<Rightarrow> admin_error + string option" where
  "createPersonalEmail lower_ext raw loginEmail =
    (case raw of
       None \<Rightarrow> Inr None
     | Some r \<Rightarrow>
         (let email = ToLower lower_ext (TrimSpace r) in
          if email = [] then Inl (newError_admin ErrInvalidInput_admin ''personal_email required'')
          else if MaxLoginEmailLength < RuneCountInString email
            then Inl (newError_admin ErrInvalidInput_admin ''personal_email too long'')
          else if \<not> EmailFormat email then Inl (newError_admin ErrInvalidInput_admin ''personal_email malformed'')
          else if IsNjuptEmailDomain email then Inl (newError_admin ErrInvalidInput_admin ''personal_email school domain'')
          else if email = loginEmail then Inl (newError_admin ErrInvalidInput_admin ''personal_email is login_email'')
          else Inr (Some email)))"

definition createCollege :: "string option \<Rightarrow> admin_error + string" where
  "createCollege raw =
    (case raw of
       None \<Rightarrow> Inr CollegeOther
     | Some r \<Rightarrow> if CollegeValid (TrimSpace r) then Inr (TrimSpace r)
                 else Inl (newError_admin ErrInvalidInput_admin ''college unknown''))"

definition createRole :: "string option \<Rightarrow> admin_error + UserRole" where
  "createRole raw =
    (case raw of
       None \<Rightarrow> Inr UserRoleMember
     | Some r \<Rightarrow> if validRole (TrimSpace r) then Inr (TrimSpace r)
                 else Inl (newError_admin ErrInvalidInput_admin ''role unknown''))"

text \<open>The state and whether it is pinned.\<close>

definition createState ::
    "(rune \<Rightarrow> bool) \<Rightarrow> string option \<Rightarrow> UserRole \<Rightarrow> string \<Rightarrow> instant \<Rightarrow> admin_error + UserState \<times> bool" where
  "createState digit_ext raw role studentID now =
    (case raw of
       Some r \<Rightarrow>
         if \<not> validState (TrimSpace r) then Inl (newError_admin ErrInvalidInput_admin ''state unknown'')
         else if TrimSpace r = UserStateDeleted then Inl (newError_admin ErrStateConflict_admin ''state closed'')
         else Inr (TrimSpace r, True)
     | None \<Rightarrow>
         (case DeriveState digit_ext role studentID now of
            None \<Rightarrow> Inl (newError_admin ErrInvalidInput_admin ''student id unreadable'')
          | Some st \<Rightarrow> Inr (st, False)))"

definition validateCreate ::
    "(rune \<Rightarrow> rune) \<Rightarrow> (rune \<Rightarrow> bool) \<Rightarrow> CreateUserInput \<Rightarrow> instant \<Rightarrow> admin_error + validatedCreate" where
  "validateCreate lower_ext digit_ext input now =
     bindE (checkedField (RequiredField ''name'' (cu_Name input) MaxNameLength)) (\<lambda>name.
     bindE (checkedField (RequiredField ''phone_number'' (cu_PhoneNumber input) MaxPhoneNumberLength)) (\<lambda>phone.
     bindE (checkedField (RequiredField ''qq_number'' (cu_QQNumber input) MaxQQNumberLength)) (\<lambda>qq.
     bindE (checkedField (RequiredField ''student_id'' (cu_StudentID input) MaxStudentIDLength)) (\<lambda>sid.
     if IsInvalidName name then Inl (newError_admin ErrInvalidInput_admin ''name charset'')
     else
     bindE (case cu_Major input of None \<Rightarrow> Inr [] | Some m \<Rightarrow> checkedField (OptionalField ''major'' m MaxMajorLength)) (\<lambda>major.
     bindE (createCollege (cu_College input)) (\<lambda>college.
     bindE (validateLoginEmail lower_ext (cu_LoginEmail input)) (\<lambda>loginEmail.
     bindE (createPersonalEmail lower_ext (cu_PersonalEmail input) loginEmail) (\<lambda>personal.
     bindE (createRole (cu_Role input)) (\<lambda>role.
     bindE (createState digit_ext (cu_State input) role sid now) (\<lambda>(st, pinned).
       Inr \<lparr>vc_name = name, vc_phoneNumber = phone, vc_qqNumber = qq, vc_studentID = sid, vc_major = major,
         vc_college = college, vc_loginEmail = loginEmail, vc_role = role, vc_state = st, vc_stateManual = pinned,
         vc_personalEmail = personal\<rparr>))))))))))"

section \<open>The service (service.go, conflict.go, create.go)\<close>

record admin_service =
  ads_Audit :: bool
  ads_Passwords :: password_hasher
  ads_ConsoleClientID :: string
  ads_Crypto :: crypto
  ads_Lower :: "rune \<Rightarrow> rune"
  ads_PgLower :: "string \<Rightarrow> string"
  ads_Digit :: "rune \<Rightarrow> bool"

definition callerIsAdmin :: "string \<Rightarrow> bool" where
  "callerIsAdmin role \<longleftrightarrow> role = UserRoleAdmin"

definition identityProviderIDNotLoginEmailConstraint :: string where
  "identityProviderIDNotLoginEmailConstraint = ''ck_identities_provider_id_not_login_email''"

definition mapUniqueViolation :: "repo_error \<Rightarrow> string \<Rightarrow> admin_error" where
  "mapUniqueViolation e internalMessage =
    (if e = ErrStudentIDExists then newError_admin ErrStudentIDOccupied_admin ''student id or mailbox taken''
     else (let c = duplicateConstraint e in
       if c \<in> {userLoginEmailConstraint, userLoginEmailIsIdentityConstraint, identityProviderIDNotLoginEmailConstraint,
               identityProviderConstraint} then newError_admin ErrEmailOccupied_admin ''email taken''
       else if c = userStudentIDConstraint then newError_admin ErrStudentIDOccupied_admin ''student id taken''
       else if c = [] then newError_admin ErrInternal_admin internalMessage
       else newError_admin ErrConflict_admin ''account conflict''))"

definition admin_audit ::
    "env \<Rightarrow> admin_service \<Rightarrow> int \<Rightarrow> string \<Rightarrow> string \<Rightarrow> int \<Rightarrow> bool \<Rightarrow> int \<Rightarrow> string \<Rightarrow> string \<Rightarrow> (string \<times> json) list
      \<Rightarrow> unit action" where
  "admin_audit ev s adminUserID actorClientID action targetUserID success errCode clientIP userAgent detail =
    (if \<not> ads_Audit s then State_Monad.return ()
     else do {
       _ \<leftarrow> db_write ev ''audit'' (\<lambda>flt db. CreateAuditLog flt
              \<lparr>au_UserID = Some adminUserID, au_Action = action, au_Resource = ''user'',
               au_ResourceID = Some (decimal targetUserID), au_Detail = (if detail = [] then None else Some detail),
               au_ClientIP = NullableString clientIP, au_UserAgent = NullableString userAgent, au_Success = success,
               au_ErrCode = (if errCode \<noteq> 0 then Some errCode else None),
               au_ActorClientID = NullableString (ActorClientID actorClientID (ads_ConsoleClientID s)),
               au_CreatedAt = ev_Now ev ''audit''\<rparr> db);
       State_Monad.return () })"

definition attemptedCreateDetail :: "CreateUserInput \<Rightarrow> (string \<times> json) list" where
  "attemptedCreateDetail input =
     (''login_email'', JString (cu_LoginEmail input)) #
     (case cu_PersonalEmail input of None \<Rightarrow> [] | Some e \<Rightarrow> [(''attempted_personal_email'', JString e)])"

definition auditCreate ::
    "env \<Rightarrow> admin_service \<Rightarrow> CreateUserInput \<Rightarrow> int \<Rightarrow> bool \<Rightarrow> int \<Rightarrow> (string \<times> json) list \<Rightarrow> unit action" where
  "auditCreate ev s input userID success errCode detail =
     admin_audit ev s (cu_AdminUserID input) (cu_ActorClientID input) ''admin_user_create'' userID success errCode
       (cu_ClientIP input) (cu_UserAgent input) detail"

text \<open>Each refusal writes a row and returns its error.\<close>

definition refuseCreate :: "env \<Rightarrow> admin_service \<Rightarrow> CreateUserInput \<Rightarrow> admin_error \<Rightarrow> (admin_error + 'a) action" where
  "refuseCreate ev s input e = do {
     _ \<leftarrow> auditCreate ev s input 0 False (ae_Code e) (attemptedCreateDetail input);
     err e }"

definition managerBoundary :: "string \<Rightarrow> validatedCreate \<Rightarrow> admin_error option" where
  "managerBoundary adminRole v =
    (if callerIsAdmin adminRole then None
     else if vc_role v = UserRoleAdmin then Some (newError_admin ErrProtected_admin ''admin role not grantable'')
     else if vc_personalEmail v \<noteq> None then Some (newError_admin ErrProtected_admin ''personal email reserved'')
     else None)"

text \<open>The three look-ups before the write.\<close>

definition checkStudentID :: "env \<Rightarrow> admin_service \<Rightarrow> validatedCreate \<Rightarrow> (admin_error + unit) action" where
  "checkStudentID ev s v = do {
     r \<leftarrow> db_read ev ''student id taken'' (\<lambda>flt db. ExistsByStudentIDExcluding flt (ads_PgLower s) db (vc_studentID v) 0);
     case r of
       Inl _ \<Rightarrow> err (newError_admin ErrInternal_admin ''query student id failed'')
     | Inr taken \<Rightarrow> if taken then err (newError_admin ErrStudentIDOccupied_admin ''student id taken'') else ok () }"

definition checkMailboxPrefix :: "env \<Rightarrow> admin_service \<Rightarrow> validatedCreate \<Rightarrow> (admin_error + unit) action" where
  "checkMailboxPrefix ev s v =
    (case UnmatchedNjuptPrefix (ads_Lower s) (vc_loginEmail v) (vc_studentID v) of (mailbox, lookup) \<Rightarrow>
       if \<not> lookup then ok ()
       else do {
         r \<leftarrow> db_read ev ''prefix taken'' (\<lambda>flt db. ExistsByStudentIDExcluding flt (ads_PgLower s) db mailbox 0);
         case r of
           Inl _ \<Rightarrow> err (newError_admin ErrInternal_admin ''query prefix failed'')
         | Inr taken \<Rightarrow> if taken then err (newError_admin ErrStudentIDOccupied_admin ''prefix is another student id'') else ok () })"

definition checkPersonalEmail :: "env \<Rightarrow> admin_service \<Rightarrow> validatedCreate \<Rightarrow> (admin_error + unit) action" where
  "checkPersonalEmail ev s v =
    (case vc_personalEmail v of
       None \<Rightarrow> ok ()
     | Some email \<Rightarrow> do {
         r \<leftarrow> db_read ev ''email taken'' (\<lambda>flt db. ExistsAsEmailAnywhere flt db email);
         case r of
           Inl _ \<Rightarrow> err (newError_admin ErrInternal_admin ''query email failed'')
         | Inr occupied \<Rightarrow> if occupied then err (newError_admin ErrEmailOccupied_admin ''email taken'') else ok () })"

definition provisioned_account :: "validatedCreate \<Rightarrow> string \<Rightarrow> user" where
  "provisioned_account v passwordHash =
    \<lparr>us_ID = 0, us_Role = vc_role v, us_Name = vc_name v, us_PhoneNumber = vc_phoneNumber v, us_QQNumber = vc_qqNumber v,
     us_PasswordHash = passwordHash, us_StudentID = vc_studentID v, us_State = vc_state v, us_StateManual = vc_stateManual v,
     us_EmailType = [], us_LoginEmail = vc_loginEmail v, us_College = vc_college v, us_Major = vc_major v,
     us_TokenVersion = 0, us_DeletedAt = None\<rparr>"

definition bound_mail :: "string \<Rightarrow> identity" where
  "bound_mail email = \<lparr>id_ID = 0, id_UserID = 0, id_Provider = LoginMethodOtherMail, id_ProviderID = email,
     id_IdentityData = None, id_AccessToken = None, id_RefreshToken = None, id_TokenExpiresAt = None\<rparr>"

definition created_detail :: "user \<Rightarrow> string option \<Rightarrow> (string \<times> json) list" where
  "created_detail u personal =
     [(''login_email'', JString (us_LoginEmail u)), (''role'', JString (us_Role u)), (''state'', JString (us_State u))] @
     (case personal of None \<Rightarrow> [] | Some e \<Rightarrow> [(''bound_email'', JString e)])"

definition provision :: "env \<Rightarrow> admin_service \<Rightarrow> CreateUserInput \<Rightarrow> validatedCreate \<Rightarrow> (admin_error + CreateUserResult) action" where
  "provision ev s input v =
    (case GenerateInitialPassword (ev_Random ev ''initial password'') of
       Inl _ \<Rightarrow> refuseCreate ev s input (newError_admin ErrInternal_admin ''generate password failed'')
     | Inr password \<Rightarrow>
         (case HashPassword (cr_IDKey (ads_Crypto s)) (ev_Random ev ''hash password'') (ev_Slot ev ''hash password'')
                 (ads_Passwords s) password of
            Inl _ \<Rightarrow> refuseCreate ev s input (newError_admin ErrInternal_admin ''hash password failed'')
          | Inr hash \<Rightarrow> do {
              r \<leftarrow> db_write ev ''create account'' (\<lambda>flt db. CreateAdminUser flt (ads_Lower s) (ads_PgLower s)
                     (Some (provisioned_account v hash)) (Some (blank_profile 0)) (map_option bound_mail (vc_personalEmail v)) db);
              case r of
                Inl e \<Rightarrow> refuseCreate ev s input (mapUniqueViolation e ''create user failed'')
              | Inr user \<Rightarrow> do {
                  _ \<leftarrow> auditCreate ev s input (us_ID user) True 0 (created_detail user (vc_personalEmail v));
                  ok \<lparr>cur_UserID = us_ID user, cur_LoginEmail = us_LoginEmail user, cur_InitialPassword = password\<rparr> } }))"

definition CreateUser :: "env \<Rightarrow> admin_service \<Rightarrow> CreateUserInput \<Rightarrow> (admin_error + CreateUserResult) action" where
  "CreateUser ev s input =
    (case validateCreate (ads_Lower s) (ads_Digit s) input (ev_Now ev ''validate'') of
       Inl e \<Rightarrow> refuseCreate ev s input e
     | Inr v \<Rightarrow>
         (case managerBoundary (cu_AdminRole input) v of
            Some e \<Rightarrow> refuseCreate ev s input e
          | None \<Rightarrow> do {
              guard \<leftarrow> bindM (checkStudentID ev s v) (\<lambda>_. bindM (checkMailboxPrefix ev s v) (\<lambda>_. checkPersonalEmail ev s v));
              case guard of
                Inl e \<Rightarrow> refuseCreate ev s input e
              | Inr _ \<Rightarrow> provision ev s input v }))"

end
