(* ===== verification/Account_Properties.thy ===== *)
theory Account_Properties
  imports Revocation_Properties Admin_List
begin

text \<open>
  What the account and administration repositories guarantee: well-formed account tables in
  every reachable state, an administrator who cannot be locked out, the boundary between
  managers and administrators, and the sessions cut by a role change or a closed account.
\<close>

section \<open>Reachable account tables\<close>

lemma empty_account_inv: "account_inv empty_store"
  by (simp add: account_inv_defs empty_store_def identity_count_def)

text \<open>C30: in every reachable state of the store, keys, student numbers and login addresses of accounts
  are unique, the type of every login address is set, an account is closed exactly when its purge
  clock runs, every profile and every binding has an owner, no login address is bound to an
  account as a further address, and no account holds more than two such addresses.\<close>

theorem accounts_well_formed:
  assumes "store_step\<^sup>*\<^sup>* empty_store db"
  shows "distinct (map us_ID (db_users db)) \<and> distinct (map us_StudentID (db_users db))
    \<and> distinct (map us_LoginEmail (db_users db))
    \<and> (\<forall>u\<in>set (db_users db). us_EmailType u \<in> {EmailTypeSAST, EmailTypeNJUpt}
         \<and> (us_State u = UserStateDeleted \<longleftrightarrow> us_DeletedAt u \<noteq> None))
    \<and> (\<forall>p\<in>set (db_profiles db). user_exists db (pf_UserID p))
    \<and> (\<forall>i\<in>set (db_identities db). user_exists db (id_UserID i))
    \<and> (\<forall>u\<in>set (db_users db). \<forall>i\<in>set (db_identities db).
         id_Provider i = LoginMethodOtherMail \<longrightarrow> id_ProviderID i \<noteq> us_LoginEmail u)
    \<and> (\<forall>u. identity_count db u LoginMethodOtherMail \<le> 2)"
proof -
  have "account_inv db" using accounts_sys.reachable[OF assms empty_account_inv] .
  then show ?thesis
    by (auto simp: account_inv_defs row_ok_def bound_as_mail_def list_ex_iff)
qed

text \<open>C29: as long as the store starts with an active administrator, it has one after any sequence of
  operations: demotions, closures, purges and state sweeps included.\<close>

theorem admin_remains:
  assumes "account_inv db" "\<exists>u\<in>set (db_users db). us_Role u = UserRoleAdmin \<and> us_State u \<noteq> UserStateDeleted"
    "store_step\<^sup>*\<^sup>* db db'"
  shows "\<exists>u\<in>set (db_users db'). us_Role u = UserRoleAdmin \<and> us_State u \<noteq> UserStateDeleted"
proof -
  have "administered db" using assms(1,2) by (auto simp: administered_def has_admin_def active_admin_def list_ex_iff)
  then have "administered db'" using admins_sys.reachable[OF assms(3)] by blast
  then show ?thesis by (auto simp: administered_def has_admin_def active_admin_def list_ex_iff)
qed

section \<open>Administrative edits\<close>

lemma upsert_profile_users: "upsert_profile flt l l' u f db = Inr (x, db') \<Longrightarrow> db_users db' = db_users db"
  by (auto simp: upsert_profile_def stmt_Inr_iff Let_def split: if_splits)

lemma writeDepartment_users: "writeDepartment flt u d db = Inr (x, db') \<Longrightarrow> db_users db' = db_users db"
  by (auto simp: writeDepartment_def split: option.splits dest: upsert_profile_users)

text \<open>The rows of the user table after a committed edit.\<close>

lemma updateAdminBody_users:
  assumes b: "updateAdminBody flt dx lx pg i up caller t db = Inr (res, db')" and v: "\<not> invalidAdminUpdate i up"
    and ids: "distinct (map us_ID (db_users db))"
  obtains stored u' db3 where "stored \<in> set (db_users db)" "us_ID stored = i" "us_State stored \<noteq> UserStateDeleted"
    "checkAdminTarget i up caller stored = Inr ()" "us_ID u' = i" "us_Role u' = assign (aup_Role up) (us_Role stored)"
    "us_TokenVersion u' = us_TokenVersion stored + (if snd res then 1 else 0)"
    "snd res \<longleftrightarrow> role_changed up stored" "account_effect db db3"
    "db_users db3 = map (\<lambda>u. if us_ID u = i then u' else u) (db_users db)"
    "if snd res then revokeAllByUserInTransaction flt i t RevokeReasonAdminRoleChange db3 = Inr (fst res, db') else db' = db3"
  using b
proof (rule updateAdminBody_InrE)
  fix stored f db1 db2 db3
  assume s: "stored \<in> set (db_users db)" "live_account i stored" and chk: "checkAdminTarget i up caller stored = Inr ()"
    and a: "adminAssignments dx up stored t = Inr f"
    and e: "demotes_admin up stored \<Longrightarrow> ensureAnotherAdminRemains flt i db = Inr ()"
    and u: "no_columns up \<and> \<not> aup_StateAuto up \<and> db1 = db
      \<or> update_user_row flt ''update admin user fields'' pg (aup_LoginEmail up \<noteq> None) stored f db = Inr ((), db1)"
    and p: "bindPersonalEmail flt i (aup_PersonalEmail up) db1 = Inr ((), db2)"
    and w: "writeDepartment flt i (aup_Department up) db2 = Inr ((), db3)"
    and r: "if role_changed up stored
     then \<exists>es. res = (es, True) \<and> revokeAllByUserInTransaction flt i t RevokeReasonAdminRoleChange db3 = Inr (es, db')
     else res = ([], False) \<and> db' = db3"
  have i: "us_ID stored = i" and live: "us_State stored \<noteq> UserStateDeleted" using s(2) by (simp_all add: live_account_def)
  have st: "aup_State up \<noteq> Some UserStateDeleted" using v by (simp add: invalidAdminUpdate_def)
  note f = adminAssignments_InrD[OF a st live]
  have flag: "snd res \<longleftrightarrow> role_changed up stored" using r by (auto split: if_splits)
  have ex: "user_exists db i" using s(1) i by (auto simp: user_exists_def list_ex_iff)
  have 1: "account_effect db db1" "user_exists db1 i" using u admin_update_row_effect[OF s a v e] ex by auto
  have 2: "account_effect db1 db2" "user_exists db2 i"
    using bindPersonalEmail_effect[OF p] 1(2) by (simp_all add: user_exists_def)
  have eff: "account_effect db db3"
    using account_effect_trans[OF account_effect_trans[OF 1(1) 2(1)] writeDepartment_effect[OF w 2(2)]] .
  have same: "db_users db3 = db_users db1" using bindPersonalEmail_effect(2)[OF p] writeDepartment_users[OF w] by simp
  have "\<exists>u'. us_ID u' = i \<and> us_Role u' = assign (aup_Role up) (us_Role stored)
      \<and> us_TokenVersion u' = us_TokenVersion stored + (if role_changed up stored then 1 else 0)
      \<and> db_users db1 = map (\<lambda>x. if us_ID x = i then u' else x) (db_users db)"
    using u
  proof
    assume n: "no_columns up \<and> \<not> aup_StateAuto up \<and> db1 = db"
    then have "\<not> role_changed up stored" "aup_Role up = None" by (simp_all add: role_changed_def no_columns_def)
    moreover have "x = stored" if "x \<in> set (db_users db)" "us_ID x = i" for x
      using distinct_map_inj[OF ids that(1) s(1)] that(2) i by simp
    then have "map (\<lambda>x. if us_ID x = i then stored else x) (db_users db) = db_users db" by (intro map_idI) auto
    ultimately show ?thesis using n i by (intro exI[of _ stored]) (simp add: assign_def)
  next
    assume "update_user_row flt ''update admin user fields'' pg (aup_LoginEmail up \<noteq> None) stored f db = Inr ((), db1)"
    then show ?thesis
    proof (rule update_user_row_InrE)
      fix u'
      assume ty: "retype pg (aup_LoginEmail up \<noteq> None) (f stored) = Some u'"
        and db1: "db1 = db\<lparr>db_users := update_where (live_account (us_ID stored)) (\<lambda>_. u') (db_users db)\<rparr>"
      show ?thesis using retype_SomeD[OF ty] f(1,4,7)[of stored] i update_live_eq[OF ids s(1), of i u'] s(2)
        by (intro exI[of _ u']) (simp add: db1)
    qed
  qed
  then show thesis using that[OF s(1) i live chk _ _ _ flag eff] same r flag by (auto split: if_splits)
qed

text \<open>A caller who is not an administrator can neither edit, close nor reopen an administrator's account, nor
  promote anybody: the rows with that role stay exactly as they are.\<close>

lemma manager_boundary_store:
  assumes ids: "distinct (map us_ID (db_users db))" and caller: "caller \<noteq> UserRoleAdmin"
    and op: "db' = snd (UpdateAdminUser flt dx lx pg i up caller t db)
      \<or> db' = snd (SoftDeleteAndRevokeSessions flt i caller t db) \<or> db' = snd (RestoreUser flt dx i caller t db)"
  shows "filter (\<lambda>u. us_Role u = UserRoleAdmin) (db_users db') = filter (\<lambda>u. us_Role u = UserRoleAdmin) (db_users db)"
proof -
  let ?adm = "filter (\<lambda>u. us_Role u = UserRoleAdmin)"
  have keep: "?adm (map g xs) = ?adm xs"
    if "\<And>u. u \<in> set xs \<Longrightarrow> g u = u \<or> us_Role u \<noteq> UserRoleAdmin \<and> us_Role (g u) \<noteq> UserRoleAdmin" for g xs
    using that by (induction xs) (auto, metis+)
  consider (same) "db' = db"
    | (edit) res where "updateAdminBody flt dx lx pg i up caller t db = Inr (res, db')" "\<not> invalidAdminUpdate i up"
    | (close) es where "softDeleteBody flt i caller t db = Inr (es, db')"
    | (reopen) x where "restoreBody flt dx i caller t db = Inr (x, db')"
    using op
    by (cases rule: transaction_cases[of "updateAdminBody flt dx lx pg i up caller t" db flt];
        cases rule: transaction_cases[of "softDeleteBody flt i caller t" db flt];
        cases rule: transaction_cases[of "restoreBody flt dx i caller t" db flt])
      (auto simp: UpdateAdminUser_def SoftDeleteAndRevokeSessions_def RestoreUser_def split: if_splits)
  then show ?thesis
  proof cases
    case edit
    from edit ids show ?thesis
    proof (rule updateAdminBody_users)
      fix stored u' db3
      assume s: "stored \<in> set (db_users db)" "us_ID stored = i" and chk: "checkAdminTarget i up caller stored = Inr ()"
        and u': "us_Role u' = assign (aup_Role up) (us_Role stored)"
        and db3: "db_users db3 = map (\<lambda>u. if us_ID u = i then u' else u) (db_users db)"
        and r: "if snd res then revokeAllByUserInTransaction flt i t RevokeReasonAdminRoleChange db3 = Inr (fst res, db') else db' = db3"
      have "us_Role stored \<noteq> UserRoleAdmin" "us_Role u' \<noteq> UserRoleAdmin"
        using chk caller u' by (auto simp: checkAdminTarget_def assign_def split: if_splits option.splits)
      moreover have "u = stored" if "u \<in> set (db_users db)" "us_ID u = i" for u
        using distinct_map_inj[OF ids that(1) s(1)] that(2) s(2) by simp
      ultimately have "?adm (db_users db3) = ?adm (db_users db)" unfolding db3 by (intro keep) auto
      moreover have "db_users db' = db_users db3"
        using r revokeAllByUser_users by (auto split: if_splits)
      ultimately show ?thesis by simp
    qed
  next
    case close
    then show ?thesis
    proof (rule softDeleteBody_InrE)
      assume o: "caller = UserRoleAdmin \<or> (\<exists>stored. List.find (live_account i) (db_users db) = Some stored \<and> us_Role stored \<noteq> UserRoleAdmin)"
        and rev: "revokeAllByUserInTransaction flt i t RevokeReasonAccountClosed
          (db\<lparr>db_users := update_where (live_account i) (close_row t) (db_users db)\<rparr>) = Inr (es, db')"
      obtain stored where s: "stored \<in> set (db_users db)" "live_account i stored" "us_Role stored \<noteq> UserRoleAdmin"
        using o caller find_SomeD by metis
      have "u = stored" if "u \<in> set (db_users db)" "live_account i u" for u
        using distinct_map_inj[OF ids that(1) s(1)] that(2) s(2) by (simp add: live_account_def)
      then have "?adm (update_where (live_account i) (close_row t) (db_users db)) = ?adm (db_users db)"
        unfolding update_where_def using s(3) by (intro keep) (auto simp: close_row_def)
      then show ?thesis using revokeAllByUser_InrD(2)[OF rev] by simp
    qed
  next
    case reopen
    then obtain stored where f: "List.find (closed_account i) (db_users db) = Some stored" and role: "us_Role stored \<noteq> UserRoleAdmin"
      and db': "db' = db\<lparr>db_users := update_where (closed_account i)
        (\<lambda>u. u\<lparr>us_State := reopen_state dx stored t, us_StateManual := False, us_DeletedAt := None\<rparr>) (db_users db)\<rparr>"
      using caller by (auto simp: restoreBody_def stmt_Inr_iff split: option.splits if_splits)
    have "us_Role u \<noteq> UserRoleAdmin" if "u \<in> set (db_users db)" "closed_account i u" for u
      using distinct_map_inj[OF ids that(1), of stored] that(2) find_SomeD[OF f] role by (simp add: closed_account_def)
    then have "?adm (map (\<lambda>u. if closed_account i u then u\<lparr>us_State := reopen_state dx stored t,
        us_StateManual := False, us_DeletedAt := None\<rparr> else u) (db_users db)) = ?adm (db_users db)"
      by (intro keep) simp
    then show ?thesis unfolding db' update_where_def by simp
  qed simp
qed

text \<open>A committed role change and a committed closure leave the user without a live token or a
  usable code, queue every access token that was live for delivery, and raise the token version,
  so that a code consumed before can no longer be turned into tokens.\<close>

theorem role_change_or_close_cuts_sessions:
  assumes inv: "token_inv db" and ids: "distinct (map us_ID (db_users db))" and user: "find_user db i = Some usr"
    and op: "UpdateAdminUser flt dx lx pg i up caller t db = (Inr (es, True), db')
      \<or> SoftDeleteAndRevokeSessions flt i caller t db = (Inr es, db')"
  shows "(\<forall>r\<in>set (db_refresh db'). rt_UserID r = i \<longrightarrow> rt_RevokedAt r \<noteq> None)
    \<and> (\<forall>a\<in>set (db_access db'). at_UserID a = i \<longrightarrow> at_RevokedAt a \<noteq> None)
    \<and> (\<forall>z\<in>set (db_authorizations db'). az_UserID z = i \<longrightarrow> \<not> usable_code t z)
    \<and> (\<forall>a\<in>set (db_access db). at_UserID a = i \<longrightarrow> at_RevokedAt a = None \<longrightarrow> t < at_ExpiresAt a
         \<longrightarrow> pending_delivery db' (at_TokenID a) (at_ExpiresAt a))
    \<and> (\<exists>usr'. find_user db' i = Some usr' \<and> us_TokenVersion usr' = us_TokenVersion usr + 1
         \<and> (us_Role usr' \<noteq> us_Role usr \<or> us_State usr' = UserStateDeleted))
    \<and> (\<forall>flt' now c z a r audit.
         \<not> is_ok (fst (CreatePairWithUserAndClientLock flt' now i c (us_TokenVersion usr) z (Some a) (Some r) audit db')))"
proof -
  have "\<exists>db1 reason usr'. account_effect db db1 \<and> revokeAllByUserInTransaction flt i t reason db1 = Inr (es, db')
      \<and> find_user db1 i = Some usr' \<and> us_TokenVersion usr' = us_TokenVersion usr + 1
      \<and> (us_Role usr' \<noteq> us_Role usr \<or> us_State usr' = UserStateDeleted)"
    using op
  proof
    assume "UpdateAdminUser flt dx lx pg i up caller t db = (Inr (es, True), db')"
    then have b: "updateAdminBody flt dx lx pg i up caller t db = Inr ((es, True), db')" "\<not> invalidAdminUpdate i up"
      by (auto simp: UpdateAdminUser_def transaction_Inr_iff split: if_splits)
    from b ids show ?thesis
    proof (rule updateAdminBody_users)
      fix stored u' db3
      assume s: "stored \<in> set (db_users db)" "us_ID stored = i" and id: "us_ID u' = i"
        and role: "us_Role u' = assign (aup_Role up) (us_Role stored)"
        and v: "us_TokenVersion u' = us_TokenVersion stored + (if snd (es, True) then 1 else 0)"
        and c: "snd (es, True) = role_changed up stored" and e: "account_effect db db3"
        and db3: "db_users db3 = map (\<lambda>u. if us_ID u = i then u' else u) (db_users db)"
        and r: "if snd (es, True) then revokeAllByUserInTransaction flt i t RevokeReasonAdminRoleChange db3 = Inr (fst (es, True), db') else db' = db3"
      have "usr = stored" using user s ids by (simp add: find_user_def find_Some_iff_distinct)
          (metis distinct_map_inj ids)
      moreover have "find_user db3 i = Some u'"
        using find_map_key[of "db_users db" "\<lambda>u. us_ID u = i" "\<lambda>u. if us_ID u = i then u' else u"] id user
          find_SomeD[of "\<lambda>u. us_ID u = i" "db_users db" usr] by (simp add: find_user_def db3)
      moreover have "us_Role u' \<noteq> us_Role stored" using c role by (auto simp: role_changed_def assign_def)
      ultimately show ?thesis using r v e by auto
    qed
  next
    assume "SoftDeleteAndRevokeSessions flt i caller t db = (Inr es, db')"
    then have "softDeleteBody flt i caller t db = Inr (es, db')"
      by (auto simp: SoftDeleteAndRevokeSessions_def transaction_Inr_iff split: if_splits)
    then show ?thesis
    proof (rule softDeleteBody_InrE)
      let ?db1 = "db\<lparr>db_users := update_where (live_account i) (close_row t) (db_users db)\<rparr>"
      assume g: "ensureAnotherAdminRemains flt i db = Inr ()" and n: "0 < rows_affected (live_account i) (db_users db)"
        and rev: "revokeAllByUserInTransaction flt i t RevokeReasonAccountClosed ?db1 = Inr (es, db')"
      obtain w where w: "w \<in> set (db_users db)" "live_account i w"
        using n by (auto simp: rows_affected_def filter_empty_conv)
      have u: "usr \<in> set (db_users db)" "us_ID usr = i" using find_SomeD user by (fastforce simp: find_user_def)+
      then have "live_account i usr" using distinct_map_inj[OF ids w(1) u(1)] w(2) by (simp add: live_account_def)
      then have "find_user ?db1 i = Some (close_row t usr)"
        using find_map_key[of "db_users db" "\<lambda>u. us_ID u = i" "\<lambda>u. if live_account i u then close_row t u else u"] user
        by (simp add: find_user_def update_where_def close_row_def)
      then show ?thesis using close_account_effect[OF g] rev by (force simp: close_row_def)
    qed
  qed
  then obtain db1 reason usr' where e: "account_effect db db1"
    and rev: "revokeAllByUserInTransaction flt i t reason db1 = Inr (es, db')"
    and u: "find_user db1 i = Some usr'" "us_TokenVersion usr' = us_TokenVersion usr + 1"
      "us_Role usr' \<noteq> us_Role usr \<or> us_State usr' = UserStateDeleted" by blast
  note cuts = revokeAllByUser_cuts[OF tokens.account_write[OF inv e] rev]
  have acc: "db_access db1 = db_access db" using e by (simp add: account_effect_def others_kept_def)
  have f: "find_user db' i = Some usr'" using u(1) cuts(5) by (simp add: find_user_def)
  have "\<not> is_ok (fst (CreatePairWithUserAndClientLock flt' now i c (us_TokenVersion usr) z (Some a) (Some r) audit db'))"
    for flt' now c z a r audit by (rule stale_version_refused[OF f]) (use u(2) in simp)
  then show ?thesis using cuts(1,2,3) cuts(4)[unfolded acc] f u by blast
qed

section \<open>Witnesses\<close>

definition sample_admin :: user where
  "sample_admin = sample_user\<lparr>us_ID := 1, us_Role := ''admin'', us_StudentID := ''B20010101'',
     us_LoginEmail := ''root@sast.fun'', us_EmailType := ''sast_email''\<rparr>"

definition staffed_store :: database where
  "staffed_store = sample_store\<lparr>db_users := [sample_admin, sample_user]\<rparr>"

definition no_update :: admin_user_update where
  "no_update = \<lparr>aup_CallerUserID = 1, aup_Name = None, aup_PhoneNumber = None, aup_QQNumber = None,
     aup_StudentID = None, aup_Major = None, aup_College = None, aup_LoginEmail = None, aup_Role = None,
     aup_State = None, aup_StateAuto = False, aup_EmailType = None, aup_PersonalEmail = None,
     aup_Department = None\<rparr>"

lemma staffed_account_inv: "account_inv staffed_store"
  by (simp add: account_inv_defs row_ok_def staffed_store_def sample_admin_def sample_defs bound_as_mail_def
      identity_count_def EmailTypeSAST_def EmailTypeNJUpt_def state_defs)

lemma staffed_token_inv: "token_inv staffed_store"
  by (rule token_inv_cong[OF _ _ _ sample_token_inv(1)]) (simp_all add: staffed_store_def)

theorem accounts_well_formed_witness:
  "distinct (map us_LoginEmail (db_users (snd (CreateWithProfile no_fault (\<lambda>r. r) (\<lambda>s. s)
     (Some sample_user) (Some (blank_profile 0)) empty_store))))"
proof -
  have "fresh_option (Some sample_user)"
    by (simp add: fresh_option_def fresh_account_def sample_user_def state_defs)
  from store_step.user_new[OF this]
  have "store_step\<^sup>*\<^sup>* empty_store (snd (CreateWithProfile no_fault (\<lambda>r. r) (\<lambda>s. s)
     (Some sample_user) (Some (blank_profile 0)) empty_store))" ..
  from accounts_well_formed[OF this] show ?thesis by simp
qed

theorem admin_remains_witness:
  "\<exists>u\<in>set (db_users (snd (SoftDeleteAndRevokeSessions no_fault 1 ''admin'' 500 staffed_store))).
     us_Role u = UserRoleAdmin \<and> us_State u \<noteq> UserStateDeleted"
proof -
  have "store_step\<^sup>*\<^sup>* staffed_store (snd (SoftDeleteAndRevokeSessions no_fault 1 ''admin'' 500 staffed_store))"
    using store_step.close ..
  then show ?thesis
    by (rule admin_remains[OF staffed_account_inv, rotated])
      (simp add: staffed_store_def sample_admin_def sample_user_def role_defs state_defs)
qed

theorem role_change_or_close_cuts_sessions_witness:
  "let db' = snd (UpdateAdminUser no_fault (\<lambda>_. False) (\<lambda>r. r) (\<lambda>s. s) 7 (no_update\<lparr>aup_Role := Some ''lecturer''\<rparr>)
      ''admin'' 500 staffed_store) in
   \<not> (\<exists>r\<in>set (db_refresh db'). rt_UserID r = 7 \<and> rt_RevokedAt r = None) \<and> pending_delivery db' ''j1'' (1000 * Second)"
proof -
  let ?op = "UpdateAdminUser no_fault (\<lambda>_. False) (\<lambda>r. r) (\<lambda>s. s) 7 (no_update\<lparr>aup_Role := Some ''lecturer''\<rparr>)
      ''admin'' 500 staffed_store"
  have "\<exists>es db'. ?op = (Inr (es, True), db')"
    by (simp add: UpdateAdminUser_def invalidAdminUpdate_def no_update_def no_columns_def transaction_no_fault
        updateAdminBody_def guardAssignment_def loadForUpdate_def live_account_def checkAdminTarget_def
        adminAssignments_def role_changed_def demotes_admin_def update_user_row_def retype_def user_conflict_def
        columns_def assign_def bindPersonalEmail_def writeDepartment_def revokeAllByUserInTransaction_def Let_def
        staffed_store_def sample_admin_def sample_user_def role_defs state_defs)
  then obtain es db' where ok: "?op = (Inr (es, True), db')" by blast
  have "distinct (map us_ID (db_users staffed_store))" "find_user staffed_store 7 = Some sample_user"
    by (simp_all add: staffed_store_def sample_admin_def sample_user_def find_user_def)
  note cut = role_change_or_close_cuts_sessions[OF staffed_token_inv this disjI1[OF ok]]
  have "sample_access\<lparr>at_ID := 2\<rparr> \<in> set (db_access staffed_store)" by (simp add: staffed_store_def sample_store_def)
  then have "pending_delivery db' ''j1'' (1000 * Second)" using cut by (fastforce simp: sample_access_def duration_defs)
  then show ?thesis using cut unfolding ok by auto
qed

definition whole_list :: admin_user_filter where
  "whole_list = \<lparr>auf_Role = None, auf_State = None, auf_Department = None, auf_StudentID = [], auf_Keyword = [],
     auf_IncludePhoneColumn = False, auf_NeedsCompletion = None, auf_Limit = 1, auf_Offset = 1\<rparr>"

theorem admin_list_page_witness:
  "ListAdminUsers no_fault (\<lambda>s. s) (\<lambda>_. False) (\<lambda>s. s) (\<lambda>_. False) whole_list staffed_store
     = Inr ([admin_row (\<lambda>_. False) staffed_store sample_user], 2)"
proof -
  have l: "lower_keeps_pattern (\<lambda>s. s)" by (simp add: lower_keeps_pattern_def)
  have d: "distinct (map us_ID (db_users staffed_store))"
    by (simp add: staffed_store_def sample_admin_def sample_user_def)
  have "sort_key us_ID (filter (admin_match (\<lambda>s. s) (\<lambda>s. s) (\<lambda>_. False) whole_list staffed_store) (db_users staffed_store))
      = [sample_admin, sample_user]"
    by (simp add: admin_match_def adminUserQuery_def whole_list_def staffed_store_def sample_admin_def sample_user_def)
  then show ?thesis
    using admin_list_page[OF l d, of whole_list "\<lambda>_. False" "\<lambda>s. s" "\<lambda>_. False"]
    by (simp add: whole_list_def MaxPageSize_def MaxInt_def)
qed

end
