(* ===== verification/Service_Evolution.thy ===== *)
theory Service_Evolution
  imports Service_Base
begin

text \<open>
  What a handler does to the store: whatever other requests do between its calls, the store evolves by
  steps of the transition system. The one condition of that system on its callers, that a family is
  opened only while its identifier is unused or its origin row exists, becomes a predicate on the store
  that covers the families named by authorization codes and the identifiers a request draws.
\<close>

section \<open>Families that may be opened\<close>

definition refresh_keys :: "database \<Rightarrow> (string \<times> int) set" where
  "refresh_keys db = (\<lambda>r. (rt_FamilyID r, rt_Sequence r)) ` set (db_refresh db)"

definition access_families :: "database \<Rightarrow> string option set" where
  "access_families db = at_FamilyID ` set (db_access db)"

definition code_families :: "database \<Rightarrow> string option set" where
  "code_families db = az_FamilyID ` set (db_authorizations db)"

lemmas shape_defs = refresh_keys_def access_families_def code_families_def

definition fresh_families :: "string set \<Rightarrow> database \<Rightarrow> bool" where
  "fresh_families U db \<longleftrightarrow> (\<forall>f. f \<in> U \<or> Some f \<in> code_families db \<longrightarrow> origin_kept db f)"

lemma origin_kept_shape:
  "origin_kept db f \<longleftrightarrow> (\<forall>s. (f, s) \<notin> refresh_keys db) \<and> Some f \<notin> access_families db \<or> (f, 0) \<in> refresh_keys db"
proof -
  have "(f, s) \<in> refresh_keys db \<longleftrightarrow> (\<exists>x\<in>set (db_refresh db). rt_FamilyID x = f \<and> rt_Sequence x = s)" for s
    by (auto simp: refresh_keys_def)
  moreover have "Some f \<in> access_families db \<longleftrightarrow> (\<exists>x\<in>set (db_access db). at_FamilyID x = Some f)"
    by (auto simp: access_families_def) (metis image_iff)
  ultimately show ?thesis unfolding origin_kept_def by blast
qed

lemma fresh_families_shape:
  assumes "fresh_families U db" "refresh_keys db' = refresh_keys db" "access_families db' = access_families db"
    "code_families db' \<subseteq> code_families db \<union> Some ` U"
  shows "fresh_families U db'"
  using assms unfolding fresh_families_def origin_kept_shape by blast

lemma image_update_where: "(\<And>r. k (g r) = k r) \<Longrightarrow> k ` set (update_where P g rows) = k ` set rows"
proof -
  assume "\<And>r. k (g r) = k r"
  then have "map k (update_where P g rows) = map k rows" by (simp add: update_where_def)
  then show ?thesis by (metis list.set_map)
qed

lemma cut_tokens_shape [simp]:
  "refresh_keys (cut_tokens PA PR t reason db) = refresh_keys db"
  "access_families (cut_tokens PA PR t reason db) = access_families db"
  by (simp_all add: shape_defs cut_tokens_def revoke_refresh_def revoke_access_def image_update_where)

interpretation families: revocation_invariant "fresh_families U" for U
proof
  fix PA PR t reason u c au and db :: database
  assume I: "fresh_families U db"
  show "fresh_families U (cut_tokens PA PR t reason db)"
    by (rule fresh_families_shape[OF I]) (simp_all add: code_families_def)
  show "fresh_families U (burn_codes u t db)"
    by (rule fresh_families_shape[OF I]) (simp_all add: shape_defs burn_codes_def image_update_where)
  show "fresh_families U (db\<lparr>db_grants := delete_where (\<lambda>g. gr_UserID g = u \<and> gr_ClientID g = c) (db_grants db),
        db_authorizations := delete_where (\<lambda>z. az_UserID z = u \<and> az_ClientID z = c) (db_authorizations db)\<rparr>)"
    by (rule fresh_families_shape[OF I]) (auto simp: shape_defs)
  show "fresh_families U (db\<lparr>db_audit := au\<rparr>)"
    by (rule fresh_families_shape[OF I]) (simp_all add: shape_defs)
qed

lemma append_pair_shape:
  assumes "rt_Sequence r = 0 \<or> (\<exists>s. (rt_FamilyID r, s) \<in> refresh_keys db)" "at_FamilyID a = Some (rt_FamilyID r)"
    "fresh_families U db"
  shows "fresh_families U ((append_pair a r db)\<lparr>db_audit := rows\<rparr>)"
proof -
  have "refresh_keys ((append_pair a r db)\<lparr>db_audit := rows\<rparr>) = insert (rt_FamilyID r, rt_Sequence r) (refresh_keys db)"
    "access_families ((append_pair a r db)\<lparr>db_audit := rows\<rparr>) = insert (Some (rt_FamilyID r)) (access_families db)"
    "code_families ((append_pair a r db)\<lparr>db_audit := rows\<rparr>) = code_families db"
    using assms(2) by (auto simp: shape_defs append_pair_def)
  then show ?thesis using assms(1,3) unfolding fresh_families_def origin_kept_shape by auto
qed

lemma pair_family: "validateTokenPair (Some a) (Some r) = None \<Longrightarrow> at_FamilyID a = Some (rt_FamilyID r)"
  by (auto simp: validateTokenPair_def split: if_splits)

lemma fresh_families_rotate:
  assumes "fresh_families U db"
  shows "fresh_families U (snd (rotateRefreshToken flt now f h access refresh audit m db))"
proof (cases rule: rotateRefreshToken_cases[of flt now f h access refresh audit m db])
  case (commit a r out db')
  from commit(6) have "fresh_families U db'"
  proof (cases rule: rotateBody_InrE)
    case cut
    then show ?thesis using families.cut[OF assms] by (simp add: cut_family_def)
  next
    case (rotated c origin)
    obtain rows where db': "db' = (append_pair (clampAccess m origin a) (clampRefresh m origin r) (cut_current now c db))\<lparr>db_audit := rows\<rparr>"
      using rotateWrites_InrD(1)[OF rotated(10)] by blast
    have fam: "rt_FamilyID r = rt_FamilyID c" "at_FamilyID a = Some (rt_FamilyID c)"
      using rotated(6) pair_family[OF commit(5)] by (auto simp: validateRefreshRotation_def split: if_splits)
    have keys: "refresh_keys (cut_current now c db) = refresh_keys db"
      by (simp add: shape_defs cut_current_def image_update_where)
    have known: "\<exists>s. (rt_FamilyID c, s) \<in> refresh_keys (cut_current now c db)"
      unfolding keys using rotated(1) by (auto simp: refresh_keys_def)
    show ?thesis unfolding db'
      by (rule append_pair_shape)
        (use fam known keys fresh_families_shape[OF assms, of "cut_current now c db"] in
          \<open>auto simp: clampAccess_def clampRefresh_def access_families_def code_families_def\<close>)
  qed
  then show ?thesis using commit(7) by simp
qed (use assms in simp)

lemma consent_shape:
  assumes "tokens_kept db db'" "code_families db' \<subseteq> code_families db \<union> Some ` U" "fresh_families U db"
  shows "fresh_families U db'"
  using assms by (intro fresh_families_shape[OF assms(3)]) (simp_all add: tokens_kept_def shape_defs)

lemma fresh_families_Consume:
  assumes "fresh_families U db"
  shows "fresh_families U (snd (Consume flt code now c db))"
proof -
  have "fresh_families U db1" if b: "consumeBody flt code now c db = Inr (out, db1)" for out db1
  proof -
    from b have "code_families db1 = code_families db"
      by (cases rule: consumeBody_InrE) (auto simp: code_families_def image_update_where)
    moreover from b have "tokens_kept db db1" by (cases rule: consumeBody_InrE) (auto simp: tokens_kept_def)
    ultimately show ?thesis using consent_shape assms by blast
  qed
  then have "fresh_families U (snd (transaction flt (consumeBody flt code now c) db))"
    using assms by (rule transaction_preserves[rotated])
  then show ?thesis using assms unfolding Consume_def
    by (auto split: prod.splits sum.splits consume_outcome.splits)
qed

lemma insert_authorization_codes:
  "insert_authorization flt now z db = Inr (z', db') \<Longrightarrow> code_families db' \<subseteq> insert (az_FamilyID z) (code_families db)"
  using insert_authorization_InrD(1,2)[of flt now z db z' db'] by (auto simp: code_families_def)

lemma fresh_families_new_code:
  assumes "fresh_families U db" "az_FamilyID z \<in> Some ` U"
  shows "fresh_families U (snd (CreateWithGrant flt now (Some z) db))"
    "fresh_families U (snd (CreateWithExistingGrant flt now (Some z) db))"
proof -
  have "fresh_families U db'" if b: "createWithGrantBody flt now z db = Inr (x, db')" for x db'
    using b
  proof (rule createWithGrantBody_InrD)
    fix db1 g
    assume i: "insert_authorization flt now z db = Inr (x, db1)" and d: "db' = upsert_grant g db1"
    have "tokens_kept db db'" using tokens_kept_insert_authorization[OF i] d by (simp add: tokens_kept_def)
    moreover have "code_families db' \<subseteq> code_families db \<union> Some ` U"
      using insert_authorization_codes[OF i] d assms(2) by (auto simp: code_families_def)
    ultimately show ?thesis using consent_shape assms(1) by blast
  qed
  then show "fresh_families U (snd (CreateWithGrant flt now (Some z) db))"
    using assms(1) by (auto simp: CreateWithGrant_def split: option.splits intro: transaction_preserves)
  have "fresh_families U db'" if b: "createWithExistingGrantBody flt now z db = Inr (x, db')" for x db'
  proof -
    note i = createWithExistingGrantBody_InrD(2)[OF b]
    have "tokens_kept db db'" using tokens_kept_insert_authorization[OF i] by (simp add: tokens_kept_def)
    moreover have "code_families db' \<subseteq> code_families db \<union> Some ` U"
      using insert_authorization_codes[OF i] assms(2) by (auto simp: code_families_def)
    ultimately show ?thesis using consent_shape assms(1) by blast
  qed
  then show "fresh_families U (snd (CreateWithExistingGrant flt now (Some z) db))"
    using assms(1) by (auto simp: CreateWithExistingGrant_def split: option.splits intro: transaction_preserves)
qed

lemma createLocked_known:
  assumes "fresh_families U db" "createLockedPairBody flt now u c v z a r audit db = Inr (pair, db')"
  shows "origin_kept db (rt_FamilyID r)"
  using assms(2)
proof (rule createLockedPairBody_InrD)
  fix authz
  assume "authz \<in> set (db_authorizations db)" "az_FamilyID authz = Some (rt_FamilyID r)"
  then have "Some (rt_FamilyID r) \<in> code_families db" by (force simp: code_families_def)
  then show ?thesis using assms(1) by (simp add: fresh_families_def)
qed

lemma fresh_families_issued:
  assumes "fresh_families U db" "issued access refresh db db'"
    "\<And>r. refresh = Some r \<Longrightarrow> rt_Sequence r \<noteq> 0 \<Longrightarrow> \<exists>s. (rt_FamilyID r, s) \<in> refresh_keys db"
  shows "fresh_families U db'"
  using assms(2)
proof (rule issuedE)
  fix flt a r rows a' r'
  assume i: "access = Some a" "refresh = Some r" "createTokenPairInTransaction flt access refresh db = Inr ((a', r'), append_pair a r db)"
    "db' = (append_pair a r db)\<lparr>db_audit := rows\<rparr>"
  have "validateTokenPair (Some a) (Some r) = None" using i(3) by (rule createTokenPair_InrD) (use i in simp)
  then show ?thesis unfolding i(4) using assms(1,3) i(2) by (intro append_pair_shape pair_family) auto
qed

section \<open>Actions and the store\<close>

definition evolves :: "string set \<Rightarrow> world \<Rightarrow> world \<Rightarrow> bool" where
  "evolves U w w' \<longleftrightarrow>
    (fresh_families U (wd_db w) \<longrightarrow> store_step\<^sup>*\<^sup>* (wd_db w) (wd_db w') \<and> fresh_families U (wd_db w'))"

text \<open>Other requests move the store by its own steps and leave the identifiers of this one alone.\<close>

definition sound_env :: "string set \<Rightarrow> env \<Rightarrow> bool" where
  "sound_env U ev \<longleftrightarrow> (\<forall>site w. evolves U w (ev_Between ev site w))"

lemma evolves_refl [simp]: "evolves U w w"
  by (simp add: evolves_def)

lemma evolves_trans: "evolves U a b \<Longrightarrow> evolves U b c \<Longrightarrow> evolves U a c"
  unfolding evolves_def by (metis rtranclp_trans)

abbreviation safe :: "string set \<Rightarrow> 'a action \<Rightarrow> bool" where
  "safe U m \<equiv> state_io_rel (evolves U) m"

named_theorems safe_intros

lemma safe_return [safe_intros]: "safe U (State_Monad.return x)"
  by (simp add: state_io_rel_def)

lemma safe_bind [safe_intros]: "safe U m \<Longrightarrow> (\<And>x. safe U (k x)) \<Longrightarrow> safe U (State_Monad.bind m k)"
  by (rule io_rel_bind[OF evolves_trans])

lemma safe_bindM [safe_intros]: "safe U m \<Longrightarrow> (\<And>x. safe U (k x)) \<Longrightarrow> safe U (bindM m k)"
  unfolding bindM_def by (intro safe_bind) (auto intro: safe_return split: sum.split)

lemma safe_branch [safe_intros]:
  "(b \<Longrightarrow> safe U m) \<Longrightarrow> (\<not> b \<Longrightarrow> safe U n) \<Longrightarrow> safe U (if b then m else n)"
  "(\<And>e. safe U (f e)) \<Longrightarrow> (\<And>x. safe U (g x)) \<Longrightarrow> safe U (case r of Inl e \<Rightarrow> f e | Inr x \<Rightarrow> g x)"
  "safe U n \<Longrightarrow> (\<And>y. safe U (h y)) \<Longrightarrow> safe U (case p of None \<Rightarrow> n | Some y \<Rightarrow> h y)"
  "(\<And>x y. safe U (k x y)) \<Longrightarrow> safe U (case q of (x, y) \<Rightarrow> k x y)"
  by (auto split: sum.split option.split prod.split)

lemma safe_calls [safe_intros]:
  assumes "sound_env U ev"
  shows "safe U (db_read ev site q)" "safe U (redis_read ev site p)" "safe U (redis_write ev site f)"
  using assms
  by (auto simp: state_io_rel_def sound_env_def evolves_def redis_write_def Let_def split: prod.split)

lemma safe_db_write:
  assumes "sound_env U ev"
    and "\<And>flt db. fresh_families U db \<Longrightarrow> store_step\<^sup>*\<^sup>* db (snd (f flt db)) \<and> fresh_families U (snd (f flt db))"
  shows "safe U (db_write ev site f)"
proof (rule state_io_relI)
  fix x w w'
  assume r: "run_state (db_write ev site f) w = (x, w')"
  have "evolves U w (ev_Between ev site w)" using assms(1) by (simp add: sound_env_def)
  moreover have "wd_db w' = snd (f (ev_Fault ev site) (wd_db (ev_Between ev site w)))"
    using r by (auto simp: db_write_def Let_def split: prod.splits)
  then have "evolves U (ev_Between ev site w) w'" using assms(2) by (simp add: evolves_def)
  ultimately show "evolves U w w'" by (rule evolves_trans)
qed

lemma safe_writes [safe_intros]:
  assumes "sound_env U ev"
  shows "safe U (db_write ev site (\<lambda>flt db. CreateAuditLog flt row db))"
    "safe U (db_write ev site (\<lambda>flt db. RevokeFamily flt f t db))"
    "safe U (db_write ev site (\<lambda>flt db. RevokeAllByUser flt u t db))"
    "safe U (db_write ev site (\<lambda>flt db. RevokeUserClientTokens flt u c t db))"
    "safe U (db_write ev site (\<lambda>flt db. Consume flt code now c db))"
    "safe U (db_write ev site (\<lambda>flt db. RotateRefreshTokenWithAuditCapped flt now f h access refresh au m db))"
  by (rule safe_db_write[OF assms],
      auto simp: RotateRefreshTokenWithAuditCapped_def intro: store_step.intros families.CreateAuditLog
        families.RevokeFamily families.RevokeAllByUser families.RevokeUserClientTokens fresh_families_Consume
        fresh_families_rotate; fail)+

lemma safe_new_code [safe_intros]:
  assumes "sound_env U ev" "az_FamilyID z \<in> Some ` U"
  shows "safe U (db_write ev site (\<lambda>flt db. CreateWithGrant flt now (Some z) db))"
    "safe U (db_write ev site (\<lambda>flt db. CreateWithExistingGrant flt now (Some z) db))"
  by (rule safe_db_write[OF assms(1)],
      auto intro: store_step.intros fresh_families_new_code[OF _ assms(2)]; fail)+

lemma safe_create_locked [safe_intros]:
  assumes "sound_env U ev" "rt_Sequence r = 0"
  shows "safe U (db_write ev site (\<lambda>flt db. CreatePairWithUserAndClientLock flt now u c v z (Some a) (Some r) au db))"
proof (rule safe_db_write[OF assms(1)])
  fix flt db
  assume fresh: "fresh_families U db"
  let ?op = "CreatePairWithUserAndClientLock flt now u c v z (Some a) (Some r) au db"
  show "store_step\<^sup>*\<^sup>* db (snd ?op) \<and> fresh_families U (snd ?op)"
  proof (cases rule: CreatePairLocked_cases[of flt now u c v z "Some a" "Some r" au db])
    case (commit a' r' pair db')
    have known: "opens_known_family (Some r) db"
      using createLocked_known[OF fresh commit(3)] commit(2) by (simp add: opens_known_family_def)
    have "store_step db (snd ?op)" by (rule store_step.create_locked[OF known])
    moreover have "fresh_families U (snd ?op)"
      using CreatePairLocked_issued[of flt now u c v z "Some a" "Some r" au db]
        fresh_families_issued[OF fresh, of "Some a" "Some r"] fresh assms(2) by auto
    ultimately show ?thesis by blast
  qed (use fresh in simp)
qed

lemma safe_DeliverBlacklist [safe_intros]: "sound_env U ev \<Longrightarrow> safe U (DeliverBlacklist ev port entries now)"
  unfolding DeliverBlacklist_def Let_def by (intro safe_intros)

end
