(* ===== verification/Session_Evolution.thy ===== *)
theory Session_Evolution
  imports Session_Account Service_Evolution
begin

text \<open>
  Every use case of the session service moves the store by the steps of its transition system. The
  identifiers a login or a registration draws for its family belong to the set of fresh ones.
\<close>

section \<open>Account writes and fresh families\<close>

lemma fresh_families_account:
  assumes "fresh_families U db" "account_effect db db'"
  shows "fresh_families U db'"
  by (rule fresh_families_shape[OF assms(1)]) (use assms(2) in \<open>simp_all add: account_effect_def others_kept_def shape_defs\<close>)

lemma fresh_families_password:
  assumes "fresh_families U db"
  shows "fresh_families U (snd (UpdatePasswordAndRevokeSessions flt u h t reason db))"
proof -
  have "fresh_families U db'" if b: "updatePasswordBody flt u h t reason db = Inr (es, db')" for es db'
  proof -
    let ?db1 = "db\<lparr>db_users := update_where (\<lambda>r. us_ID r = u)
        (\<lambda>r. r\<lparr>us_PasswordHash := h, us_TokenVersion := us_TokenVersion r + 1\<rparr>) (db_users db)\<rparr>"
    have "revokeAllByUserInTransaction flt u t reason ?db1 = Inr (es, db')"
      using b by (auto simp: updatePasswordBody_def stmt_Inr_iff Let_def split: if_splits)
    moreover have "fresh_families U ?db1" by (rule fresh_families_shape[OF assms]) (simp_all add: shape_defs)
    ultimately show ?thesis by (rule families.revokeAllByUser[rotated])
  qed
  then have "fresh_families U (snd (transaction flt (updatePasswordBody flt u h t reason) db))"
    using assms by (rule transaction_preserves[rotated])
  then show ?thesis using assms by (auto simp: UpdatePasswordAndRevokeSessions_def)
qed

lemma fresh_families_rehash: "fresh_families U db \<Longrightarrow> fresh_families U (snd (UpdatePasswordHash flt u old new db))"
  by (auto simp: UpdatePasswordHash_def Let_def intro: fresh_families_account rehash_effect)

lemma issued_known:
  assumes "rt_Sequence r = 0" "rt_FamilyID r \<in> U" "fresh_families U db"
  shows "opens_known_family (Some r) db"
  using assms by (auto simp: opens_known_family_def fresh_families_def)

lemma safe_create_session [safe_intros]:
  assumes "sound_env U ev" "rt_Sequence r = 0" "rt_FamilyID r \<in> U"
  shows "safe U (db_write ev site (\<lambda>flt db. CreatePairWithAudit flt (Some a) (Some r) au db))"
proof (rule safe_db_write[OF assms(1)])
  fix flt db
  assume fresh: "fresh_families U db"
  let ?db' = "snd (CreatePairWithAudit flt (Some a) (Some r) au db)"
  have "store_step db ?db'" by (rule store_step.create_audit[OF issued_known[OF assms(2,3) fresh]])
  moreover have "fresh_families U ?db'"
    using CreatePairWithAudit_cases[of flt "Some a" "Some r" au db] fresh_families_issued[OF fresh, of "Some a" "Some r"] fresh assms(2)
    by auto
  ultimately show "store_step\<^sup>*\<^sup>* db ?db' \<and> fresh_families U ?db'" by blast
qed

lemma safe_account_writes [safe_intros]:
  assumes "sound_env U ev"
  shows "safe U (db_write ev site (\<lambda>flt db. UpdatePasswordAndRevokeSessions flt u h t reason db))"
    "safe U (db_write ev site (\<lambda>flt db. UpdatePasswordHash flt u old new db))"
    "safe U (db_write ev site (\<lambda>flt db. CreateWithinLimit flt b n db))"
    "safe U (db_write ev site (\<lambda>flt db. DeleteIdentityGuardingLoginMethod flt i u db))"
    "safe U (db_write ev site (\<lambda>flt db. UpdateProfile flt u pu db))"
    "safe U (db_write ev site (\<lambda>flt db. RotateRefreshTokenWithAudit flt now f k access refresh au db))"
  by (rule safe_db_write[OF assms],
      auto simp: RotateRefreshTokenWithAudit_def intro: store_step.intros fresh_families_password fresh_families_rotate
        fresh_families_rehash fresh_families_account UpdateProfile_effect DeleteGuarding_effect CreateWithinLimit_effect; fail)+

lemma safe_register:
  assumes "sound_env U ev" "fresh_account u"
    and "\<And>v access refresh. mk v = Inr (access, refresh) \<Longrightarrow> \<exists>r. refresh = Some r \<and> rt_Sequence r = 0 \<and> rt_FamilyID r \<in> U"
  shows "safe U (db_write ev site (\<lambda>flt db. CreateRegistrationWithIdentity flt lx pg (Some u) prof b (Some mk) db))"
proof (rule safe_db_write[OF assms(1)])
  fix flt db
  assume fresh: "fresh_families U db"
  let ?db' = "snd (CreateRegistrationWithIdentity flt lx pg (Some u) prof b (Some mk) db)"
  have known: "factory_opens_known_family (Some mk) db"
    unfolding factory_opens_known_family_def using assms(3) issued_known[OF _ _ fresh] by blast
  have u: "fresh_option (Some u)" using assms(2) by (simp add: fresh_option_def)
  have "fresh_families U ?db'"
  proof (cases "\<exists>p. prof = Some p")
    case True
    then obtain p where p: "prof = Some p" by blast
    have "fresh_families U db'" if body: "registrationBody flt lx pg u p b mk db = Inr (u', db')" for u' db'
      using body assms(2)
    proof (rule registrationBody_InrE)
      fix db2 access refresh pair
      assume e: "account_effect db db2" and f: "mk u' = Inr (access, refresh)"
        and c: "createTokenPairInTransaction flt access refresh db2 = Inr (pair, db')"
      have "issued access refresh db2 db'" using issuedI[OF c, of "db_audit db'"] by simp
      then show ?thesis
        using fresh_families_issued[OF fresh_families_account[OF fresh e]] assms(3)[OF f] by blast
    qed
    then have "fresh_families U (snd (transaction flt (registrationBody flt lx pg u p b mk) db))"
      using fresh by (rule transaction_preserves[rotated])
    then show ?thesis by (simp add: CreateRegistrationWithIdentity_def p)
  qed (use fresh in \<open>auto simp: CreateRegistrationWithIdentity_def split: option.splits\<close>)
  then show "store_step\<^sup>*\<^sup>* db ?db' \<and> fresh_families U ?db'"
    using store_step.register[OF u known] by blast
qed

lemma safe_process_step:
  assumes "sound_env U ev" "\<And>w. wd_db (snd (f w)) = wd_db w"
  shows "safe U (process_step ev site f)"
proof (rule state_io_relI)
  fix x w w'
  assume "run_state (process_step ev site f) w = (x, w')"
  then have "w' = snd (f (ev_Between ev site w))" by (simp add: process_step_def)
  then have "wd_db w' = wd_db (ev_Between ev site w)" using assms(2) by simp
  moreover have "evolves U w (ev_Between ev site w)" using assms(1) by (simp add: sound_env_def)
  ultimately show "evolves U w w'" by (simp add: evolves_def)
qed

section \<open>Helpers\<close>

lemma safe_process [safe_intros]:
  assumes "sound_env U ev"
  shows "safe U (SendVerificationCode ev a c p)" "safe U (EnqueueForgotPassword ev job)" "safe U (findInternalClient ev s)"
  unfolding SendVerificationCode_def EnqueueForgotPassword_def findInternalClient_def Let_def
  by (intro safe_intros assms safe_process_step[OF assms]; simp split: prod.split)+

lemma safe_session_audit [safe_intros]: "sound_env U ev \<Longrightarrow> safe U (audit ev s site u a r ri ac b n ip ua d)"
  unfolding audit_def by (intro safe_intros)

lemma safe_ports [safe_intros]:
  assumes "sound_env U ev"
  shows "safe U (checkEndpointLimit ev s l e x)" "safe U (checkEmailLimit ev s em ip)" "safe U (verifyCode ev s p em c)"
    "safe U (discardCode ev s p em)" "safe U (saveCode ev s p em c)" "safe U (clearLoginFailures ev s user em)"
    "safe U (checkLoginLock ev s k)" "safe U (ResetFailures ev s site k)" "safe U (dropDevice ev s site u i)"
    "safe U (dropAllDevices ev s u)" "safe U (RegisterDevice_port ev s d ops u i ua ip)"
    "safe U (TouchDevice_port ev s d ops u i ua ip)" "safe U (SaveBindTicket ev s tk pl)" "safe U (PeekBindTicket ev s tk)"
    "safe U (ConsumeBindTicket ev s tk)" "safe U (ConsumeRegistrationState ev s dec st)"
    "safe U (failLogin ev s user' input k sen m reason)"
  unfolding checkEndpointLimit_def checkEmailLimit_def emailWindow_def verifyCode_def discardCode_def saveCode_def
    clearLoginFailures_def checkLoginLock_def IsLocked_def ResetFailures_def dropDevice_def dropAllDevices_def
    RegisterDevice_port_def TouchDevice_port_def SaveBindTicket_def PeekBindTicket_def ConsumeBindTicket_def
    ConsumeRegistrationState_def failLogin_def RecordFailure_def Let_def
  by (intro safe_intros assms)+

lemma safe_eviction [safe_intros]:
  assumes "sound_env U ev"
  shows "safe U (revokeEvictedDevice ev s u e ip ua)" "safe U (registerSessionDevice ev s u pair ua ip)"
    "safe U (touchSessionDevice ev s input cur pair)"
  unfolding registerSessionDevice_def touchSessionDevice_def revokeEvictedDevice_def Let_def by (intro safe_intros assms)+

lemma safe_outcome:
  "(\<And>e. r = Inl e \<Longrightarrow> safe U (f e)) \<Longrightarrow> (\<And>x. r = Inr x \<Longrightarrow> safe U (g x)) \<Longrightarrow> safe U (case r of Inl e \<Rightarrow> f e | Inr x \<Rightarrow> g x)"
  by (simp split: sum.split)

lemma issuePair_Inr:
  assumes "issuePair ev s user client sq fam scopes = Inr pair"
  shows "rt_Sequence (tp_Refresh pair) = sq"
    "rt_FamilyID (tp_Refresh pair) = (if fam = [] then ev_UUID ev ''family'' else fam)"
    "at_UserID (tp_Access pair) = us_ID user" "rt_UserID (tp_Refresh pair) = us_ID user"
    "tp_FamilyID pair = rt_FamilyID (tp_Refresh pair)"
  using assms
  by (auto simp: issuePair_def access_row_def refresh_row_def split: option.splits sum.splits elim!: Issue_Inr)

section \<open>Use cases\<close>

lemma safe_Login [safe_intros]:
  assumes "sound_env U ev" "ev_UUID ev ''family'' \<in> U"
  shows "safe U (Login ev s input)"
proof -
  have "safe U (rehashOnLogin ev s user pw)" for user pw unfolding rehashOnLogin_def by (intro safe_intros assms)
  moreover have "safe U (db_write ev ''create session'' (\<lambda>flt db. CreatePairWithAudit flt (Some (tp_Access pair))
      (Some (tp_Refresh pair)) au db))" if "issuePair ev s user client 0 [] sessionScopes = Inr pair" for user client pair au
    using issuePair_Inr[OF that] assms by (intro safe_create_session) simp_all
  ultimately have "safe U (loginProven ev s input idf user k)" for idf user k
    unfolding loginProven_def
    by (intro safe_bind safe_bindM safe_outcome safe_return safe_branch(3) safe_ports safe_eviction safe_process assms; assumption?)
  then show ?thesis unfolding Login_def loginUser_def Let_def by (intro safe_intros assms)
qed

lemma safe_Refresh [safe_intros]:
  assumes "sound_env U ev"
  shows "safe U (Refresh ev s input)" "safe U (IdentifyByRefreshToken ev s token)"
proof -
  have a: "safe U (auditRefresh ev s u f b out reason input)" for u f b out reason
    unfolding auditRefresh_def by (intro safe_intros assms)
  have "safe U (rotationFailed ev s input cur e)" for cur e
    unfolding rotationFailed_def Let_def by (cases e) (simp_all, (intro safe_intros assms a)+)
  then have "safe U (refreshRotate ev s input h cur pair)" for h cur pair
    unfolding refreshRotate_def by (intro safe_intros assms)
  then have "safe U (refreshLive ev s input h cur)" for h cur
    unfolding refreshLive_def Let_def by (intro safe_intros assms a)
  moreover have "safe U (refreshRevoked ev s input cur t)" for cur t
    unfolding refreshRevoked_def Let_def by (intro safe_intros assms a)
  ultimately show "safe U (Refresh ev s input)" unfolding Refresh_def by (intro safe_intros assms)
  show "safe U (IdentifyByRefreshToken ev s token)" unfolding IdentifyByRefreshToken_def by (intro safe_intros assms)
qed

lemma safe_Logout [safe_intros]:
  assumes "sound_env U ev"
  shows "safe U (Logout ev s i)" "safe U (LogoutDevice ev s j)" "safe U (ListDevices_service ev s u)"
  unfolding Logout_def LogoutDevice_def ListDevices_service_def Let_def by (intro safe_intros assms)+

lemma safe_codes [safe_intros]:
  assumes "sound_env U ev"
  shows "safe U (SendRegisterCode ev s i)" "safe U (VerifyRegisterCode ev s j)" "safe U (ForgotPasswordSendCode ev s i)"
    "safe U (resolveRegistrationIdentity ev s rs os)" "safe U (checkRegisterOccupied ev s k em)"
  unfolding SendRegisterCode_def VerifyRegisterCode_def ForgotPasswordSendCode_def resolveRegistrationIdentity_def
    checkRegisterOccupied_def Let_def
  by (intro safe_intros assms)+

lemma DeriveState_fresh: "checkRegisterInput ev s input = Inr st \<Longrightarrow> st \<noteq> UserStateDeleted"
  using DeriveState_not_deleted
  by (auto simp: checkRegisterInput_def Let_def split: if_splits option.splits)

lemma safe_Register [safe_intros]:
  assumes "sound_env U ev" "ev_UUID ev ''family'' \<in> U"
  shows "safe U (Register ev s input)"
proof -
  have reg: "safe U (registered ev s input em user pair)" for em user pair
    unfolding registered_def by (intro safe_intros assms)
  have w: "safe U (db_write ev ''create registration'' (\<lambda>flt db. CreateRegistrationWithIdentity flt (ss_Lower s) (ss_PgLower s)
      (Some (new_account input st em h)) (Some (blank_profile 0)) oi (Some (registration_factory ev s client)) db))"
    if "st \<noteq> UserStateDeleted" for st em h oi client
  proof (rule safe_register[OF assms(1)])
    show "fresh_account (new_account input st em h)" using that by (simp add: new_account_def fresh_account_def)
    fix v access refresh
    assume "registration_factory ev s client v = Inr (access, refresh)"
    then obtain pair where p: "issuePair ev s v client 0 [] sessionScopes = Inr pair" "refresh = Some (tp_Refresh pair)"
      by (auto simp: registration_factory_def split: sum.splits)
    show "\<exists>r. refresh = Some r \<and> rt_Sequence r = 0 \<and> rt_FamilyID r \<in> U" using issuePair_Inr(1,2)[OF p(1)] p(2) assms(2) by simp
  qed
  then have "safe U (createRegistration ev s input st em oi)" if "st \<noteq> UserStateDeleted" for st em oi
    unfolding createRegistration_def by (intro safe_intros assms reg w that)
  then have created: "safe U (createRegistration ev s input st em oi)" if "checkRegisterInput ev s input = Inr st" for st em oi
    using DeriveState_fresh that by blast
  show ?thesis
  proof (cases "checkRegisterInput ev s input")
    case (Inr st)
    note c = created[OF Inr]
    show ?thesis unfolding Register_def Inr sum.case Let_def by (intro safe_intros assms c)
  qed (simp add: Register_def)
qed

lemma safe_passwords [safe_intros]:
  assumes "sound_env U ev"
  shows "safe U (ResetPassword ev s i)" "safe U (ChangePassword ev s j)"
  unfolding ResetPassword_def ChangePassword_def replacePassword_def Let_def by (intro safe_intros assms)+

lemma safe_bindings [safe_intros]:
  assumes "sound_env U ev"
  shows "safe U (BindEmailSendCode ev s i)" "safe U (BindEmailVerify ev s j)" "safe U (ListIdentities ev s u)"
    "safe U (UnbindIdentity ev s k)" "safe U (Profile ev s u)" "safe U (UpdateProfile_service ev s up)"
  unfolding BindEmailSendCode_def BindEmailVerify_def ListIdentities_def UnbindIdentity_def Profile_def
    UpdateProfile_service_def checkAddressFree_def issueBindTicket_def bindAddress_def auditUnbind_def Let_def
  by (intro safe_intros assms)+

lemma safe_session_serve: "sound_env U ev \<Longrightarrow> ev_UUID ev ''family'' \<in> U \<Longrightarrow> safe U (serve ev s c)"
  by (cases c) (auto simp: quietly_def intro!: safe_intros)

end
