(* ===== verification/Auth_Middleware.thy ===== *)
theory Auth_Middleware
  imports Service_Base
begin

text \<open>
  \<open>internal/web/middleware/auth.go\<close> and \<open>role.go\<close>: how a request becomes a principal. The header is
  parsed, the token verified, its state read from the short-lived cache or from the database, and the
  gates of the internal, delegated and role-bound endpoints applied. A refusal is the HTTP status with
  the business code; its message is represented by an ASCII key.
\<close>

record Principal =
  pr_UserID :: int
  pr_JTI :: string
  pr_Role :: string
  pr_State :: string
  pr_Scopes :: "string list"
  pr_ClientID :: string
  pr_ExpiresAt :: instant

record BusinessError =
  be_HTTPStatus :: int
  be_Code :: int
  be_Message :: string

text \<open>The cache is used when \<open>am_Cache\<close> is set; its JSON codec is a parameter.\<close>

record Authenticator =
  am_Crypto :: crypto
  am_JWT :: "jwt_manager option"
  am_Prefix :: string
  am_Cache :: bool
  am_AuthStateTTL :: duration
  am_Encode :: "access_auth_state \<Rightarrow> string option"
  am_Decode :: "string \<Rightarrow> access_auth_state option"
  am_InternalClientID :: string

definition authBusinessError :: "int \<Rightarrow> int \<Rightarrow> string \<Rightarrow> BusinessError" where
  "authBusinessError status code message = \<lparr>be_HTTPStatus = status, be_Code = code, be_Message = message\<rparr>"

definition backendError :: BusinessError where
  "backendError = authBusinessError 500 CodeInternal ''internal error''"

definition tokenInvalid :: BusinessError where
  "tokenInvalid = authBusinessError 401 CodeAccessTokenInvalid ''access token invalid''"

definition strictBearerToken :: "string \<Rightarrow> string option" where
  "strictBearerToken header =
    (case CutByte header CHR '' '' of (scheme, token, found) \<Rightarrow>
      if \<not> found \<or> scheme \<noteq> ''Bearer'' \<or> token = [] \<or> ContainsAny token [CHR '' '', CHR 0x09, CHR 0x0D, CHR 0x0A]
      then None else Some token)"

text \<open>\<open>strconv.ParseInt(s, 10, 64)\<close>.\<close>

definition ParseInt64 :: "string \<Rightarrow> int option" where
  "ParseInt64 s = (case Atoi s of None \<Rightarrow> None | Some n \<Rightarrow> if - (2 ^ 63) \<le> n \<and> n < 2 ^ 63 then Some n else None)"

definition principalFromClaims :: "token_claims \<Rightarrow> int \<Rightarrow> string list \<Rightarrow> access_auth_state option \<Rightarrow> Principal" where
  "principalFromClaims claims userID scopes st =
    \<lparr>pr_UserID = userID, pr_JTI = tc_ID claims, pr_Role = (case st of None \<Rightarrow> [] | Some x \<Rightarrow> as_UserRole x),
     pr_State = (case st of None \<Rightarrow> [] | Some x \<Rightarrow> as_UserState x), pr_Scopes = scopes,
     pr_ClientID = TrimSpace (tc_AZP claims),
     pr_ExpiresAt = (case tc_ExpiresAt claims of None \<Rightarrow> zeroTime | Some t \<Rightarrow> t)\<rparr>"

text \<open>The cached entry, when the cache answers with a decodable one that names a token.\<close>

definition cachedState :: "env \<Rightarrow> Authenticator \<Rightarrow> string \<Rightarrow> access_auth_state option action" where
  "cachedState ev a jti =
    (if \<not> am_Cache a then State_Monad.return None
     else do {
       r \<leftarrow> redis_read ev ''get auth state'' (\<lambda>n ms rd. GetAuthState n ms (am_Prefix a) jti rd);
       State_Monad.return (case r of
           Inl _ \<Rightarrow> None
         | Inr None \<Rightarrow> None
         | Inr (Some data) \<Rightarrow> (case am_Decode a data of
             None \<Rightarrow> None
           | Some cached \<Rightarrow> if as_TokenID cached \<noteq> [] then Some cached else None)) })"

definition fillCache :: "env \<Rightarrow> Authenticator \<Rightarrow> string \<Rightarrow> access_auth_state \<Rightarrow> unit action" where
  "fillCache ev a jti st =
    (if \<not> am_Cache a \<or> am_AuthStateTTL a \<le> 0 then State_Monad.return ()
     else (case am_Encode a st of
       None \<Rightarrow> State_Monad.return ()
     | Some data \<Rightarrow> do {
         _ \<leftarrow> redis_write ev ''put auth state'' (\<lambda>n ms rd. PutAuthState n ms (am_Prefix a) jti data (am_AuthStateTTL a) rd);
         State_Monad.return () }))"

definition authState :: "env \<Rightarrow> Authenticator \<Rightarrow> string \<Rightarrow> (repo_error + access_auth_state) action" where
  "authState ev a jti = do {
     cached \<leftarrow> cachedState ev a jti;
     case cached of
       Some st \<Rightarrow> ok st
     | None \<Rightarrow> do {
         r \<leftarrow> db_read ev ''auth state'' (\<lambda>flt db. FindAccessAuthStateByJTI flt db jti);
         case r of
           Inl e \<Rightarrow> err e
         | Inr st \<Rightarrow> do { _ \<leftarrow> fillCache ev a jti st; ok st } } }"

text \<open>The subject and scopes of verified claims.\<close>

definition claimSubject :: "token_claims \<Rightarrow> (int \<times> string list) option" where
  "claimSubject claims =
    (case ParseInt64 (tc_Subject claims) of
       None \<Rightarrow> None
     | Some userID \<Rightarrow>
         if userID \<le> 0 \<or> TrimSpace (tc_ID claims) = [] \<or> tc_ExpiresAt claims = None then None
         else (case ParseClaim (tc_Scope claims) of Inl _ \<Rightarrow> None | Inr scopes \<Rightarrow> Some (userID, scopes)))"

definition authenticateClaims :: "env \<Rightarrow> Authenticator \<Rightarrow> token_claims \<Rightarrow> (BusinessError + Principal) action" where
  "authenticateClaims ev a claims =
    (case claimSubject claims of
       None \<Rightarrow> err tokenInvalid
     | Some (userID, scopes) \<Rightarrow> do {
         r \<leftarrow> authState ev a (tc_ID claims);
         case r of
           Inl e \<Rightarrow> if e = ErrNotFound then err tokenInvalid else err backendError
         | Inr st \<Rightarrow>
             if as_TokenID st \<noteq> tc_ID claims \<or> as_UserID st \<noteq> userID \<or> as_RevokedAt st \<noteq> None
                \<or> \<not> ev_Now ev ''authenticate'' < as_ExpiresAt st then err tokenInvalid
             else if as_UserState st = UserStateDeleted
             then err (authBusinessError 403 CodeAccountDeleted ''account closed'')
             else if as_TokenVersion st \<noteq> tc_TokenVersion claims then err tokenInvalid
             else ok (principalFromClaims claims userID scopes (Some st)) })"

definition verifyToken :: "env \<Rightarrow> Authenticator \<Rightarrow> jwt_manager \<Rightarrow> string \<Rightarrow> auth_error + token_claims" where
  "verifyToken ev a m token =
     VerifyAccessToken (cr_Parse (am_Crypto a)) (cr_EdPublic (am_Crypto a)) m (ev_Now ev ''verify token'') token"

definition authenticate :: "env \<Rightarrow> Authenticator \<Rightarrow> string \<Rightarrow> (BusinessError + Principal) action" where
  "authenticate ev a header =
    (case strictBearerToken header of
       None \<Rightarrow> err (authBusinessError 401 CodeUnauthenticated ''not logged in'')
     | Some token \<Rightarrow>
         (case am_JWT a of
            None \<Rightarrow> err backendError
          | Some m \<Rightarrow>
              (case verifyToken ev a m token of
                 Inl e \<Rightarrow> if e = auth_error.ErrExpiredToken
                          then err (authBusinessError 401 CodeAccessTokenExpired ''access token expired'')
                          else err tokenInvalid
               | Inr claims \<Rightarrow> authenticateClaims ev a claims)))"

definition requireInternalClient :: "Authenticator \<Rightarrow> Principal \<Rightarrow> BusinessError + unit" where
  "requireInternalClient a p =
    (if TrimSpace (am_InternalClientID a) = [] then Inl backendError
     else if pr_ClientID p \<noteq> [] \<and> pr_ClientID p \<noteq> am_InternalClientID a
     then Inl (authBusinessError 403 CodeForbidden ''third party token'')
     else Inr ())"

definition Authenticate :: "env \<Rightarrow> Authenticator \<Rightarrow> string \<Rightarrow> (BusinessError + Principal) action" where
  "Authenticate ev a header = bindM (authenticate ev a header) (\<lambda>p.
     case requireInternalClient a p of Inl e \<Rightarrow> err e | Inr _ \<Rightarrow> ok p)"

definition AuthenticateAnyClient where
  "AuthenticateAnyClient ev a header = authenticate ev a header"

definition applyScopedPolicy ::
    "Authenticator \<Rightarrow> (Principal \<Rightarrow> bool) \<Rightarrow> string \<Rightarrow> Principal \<Rightarrow> BusinessError + Principal" where
  "applyScopedPolicy a carriesCapability deniedMessage p =
    (if TrimSpace (am_InternalClientID a) = [] then Inl backendError
     else if pr_ClientID p = [] \<or> pr_ClientID p = am_InternalClientID a then Inr p
     else if \<not> carriesCapability p then Inl (authBusinessError 403 CodeForbidden deniedMessage)
     else Inr p)"

definition authenticateScoped ::
    "env \<Rightarrow> Authenticator \<Rightarrow> string \<Rightarrow> (Principal \<Rightarrow> bool) \<Rightarrow> string \<Rightarrow> (BusinessError + Principal) action" where
  "authenticateScoped ev a header carriesCapability deniedMessage =
     bindM (authenticate ev a header) (\<lambda>p. State_Monad.return (applyScopedPolicy a carriesCapability deniedMessage p))"

definition carriesAdmin :: "Principal \<Rightarrow> bool" where "carriesAdmin p \<longleftrightarrow> ContainsAdmin (pr_Scopes p)"
definition carriesUser :: "Principal \<Rightarrow> bool" where "carriesUser p \<longleftrightarrow> ContainsUser (pr_Scopes p)"

definition AuthenticateAdminDelegated where
  "AuthenticateAdminDelegated ev a header = authenticateScoped ev a header carriesAdmin ''admin scope missing''"

definition AuthenticateUserScoped where
  "AuthenticateUserScoped ev a header = authenticateScoped ev a header carriesUser ''user scope missing''"

text \<open>Logout forgives the expiry of an otherwise valid token and reads nothing but its claims.\<close>

definition expiredPrincipal :: "env \<Rightarrow> Authenticator \<Rightarrow> jwt_manager \<Rightarrow> string \<Rightarrow> BusinessError + Principal" where
  "expiredPrincipal ev a m token =
    (case VerifyExpiredAccessToken (cr_Parse (am_Crypto a)) (cr_EdPublic (am_Crypto a)) m (ev_Now ev ''verify expired'') token of
       Inl _ \<Rightarrow> Inl tokenInvalid
     | Inr claims \<Rightarrow>
         (case claimSubject claims of
            None \<Rightarrow> Inl tokenInvalid
          | Some (userID, scopes) \<Rightarrow>
              applyScopedPolicy a carriesUser ''user scope missing'' (principalFromClaims claims userID scopes None)))"

definition AuthenticateUserLogout :: "env \<Rightarrow> Authenticator \<Rightarrow> string \<Rightarrow> (BusinessError + Principal) action" where
  "AuthenticateUserLogout ev a header =
    (case strictBearerToken header of
       None \<Rightarrow> err (authBusinessError 401 CodeUnauthenticated ''not logged in'')
     | Some token \<Rightarrow>
         (case am_JWT a of
            None \<Rightarrow> err backendError
          | Some m \<Rightarrow>
              (case VerifyAccessToken (cr_Parse (am_Crypto a)) (cr_EdPublic (am_Crypto a)) m (ev_Now ev ''verify logout'') token of
                 Inl e \<Rightarrow> if e = auth_error.ErrExpiredToken then State_Monad.return (expiredPrincipal ev a m token)
                          else err tokenInvalid
               | Inr _ \<Rightarrow> AuthenticateUserScoped ev a header)))"

text \<open>The gates after authentication; \<open>None\<close> is a missing principal.\<close>

definition RequireDelegatedScope :: "Authenticator \<Rightarrow> string list \<Rightarrow> Principal option \<Rightarrow> BusinessError + unit" where
  "RequireDelegatedScope a allowed who =
    (case who of
       None \<Rightarrow> Inl backendError
     | Some p \<Rightarrow>
         if TrimSpace (am_InternalClientID a) = [] then Inl backendError
         else if pr_ClientID p = [] \<or> pr_ClientID p = am_InternalClientID a then Inr ()
         else if list_ex (\<lambda>name. name \<in> set allowed) (pr_Scopes p) then Inr ()
         else Inl (authBusinessError 403 CodeForbidden ''scope missing''))"

definition RequireRole :: "UserRole list \<Rightarrow> Principal option \<Rightarrow> BusinessError + unit" where
  "RequireRole allowed who =
    (case who of
       None \<Rightarrow> Inl backendError
     | Some p \<Rightarrow> if pr_Role p \<in> set allowed then Inr () else Inl (authBusinessError 403 CodeForbidden ''forbidden''))"

end
