(* ===== verification/Auth_Store_Properties.thy ===== *)
theory Auth_Store_Properties
  imports Auth_Store
begin

text \<open>
  Properties of the Redis-side authentication state: keys of different purposes or subjects never
  collide, verification codes have a bounded number of guesses, a revocation tombstone cannot be
  overwritten while it lives, and one-time values are consumed once.
\<close>

section \<open>Keys\<close>

definition escape_byte :: "char \<Rightarrow> string" where
  "escape_byte c = (if c = CHR ''%'' then ''%25'' else if c = CHR '':'' then ''%3A'' else [c])"

lemma dynamicKeySegment_eq:
  "dynamicKeySegment v = (if v = [] then ''%00'' else concat (map escape_byte v))"
proof -
  have "ReplaceByte CHR '':'' ''%3A'' (ReplaceByte CHR ''%'' ''%25'' v) = concat (map escape_byte v)"
    by (induction v) (auto simp: ReplaceByte_def escape_byte_def)
  then show ?thesis by (simp add: dynamicKeySegment_def)
qed

lemma escape_inject: "concat (map escape_byte v) = concat (map escape_byte w) \<Longrightarrow> v = w"
proof (induction v arbitrary: w)
  case Nil
  then show ?case by (cases w) (auto simp: escape_byte_def split: if_splits)
next
  case (Cons c v)
  then show ?case by (cases w) (auto simp: escape_byte_def split: if_splits)
qed

lemma escape_not_empty_mark: "concat (map escape_byte v) \<noteq> ''%00''"
  by (cases v) (auto simp: escape_byte_def)

lemma dynamicKeySegment_inject [simp]: "dynamicKeySegment v = dynamicKeySegment w \<longleftrightarrow> v = w"
  using escape_inject[of v w] escape_not_empty_mark[of v] escape_not_empty_mark[of w]
  by (auto simp: dynamicKeySegment_eq split: if_splits)

lemma dynamicKeySegment_no_colon [simp]: "CHR '':'' \<notin> set (dynamicKeySegment v)"
  by (auto simp: dynamicKeySegment_eq escape_byte_def)

lemma Join_Cons: "xs \<noteq> [] \<Longrightarrow> Join (x # xs) sep = x @ sep @ Join xs sep"
  by (cases xs) simp_all

lemma join_key_inject:
  assumes "xs \<noteq> []" "ys \<noteq> []" "\<forall>x\<in>set xs \<union> set ys. CHR '':'' \<notin> set x"
    and eq: "join_key pre xs = join_key pre ys"
  shows "xs = ys"
proof -
  have "Join xs '':'' = Join ys '':''"
    using eq assms(1,2) by (cases "pre = []") (simp_all add: join_key_def Join_Cons)
  moreover have "SplitByte (Join xs '':'') CHR '':'' = xs" "SplitByte (Join ys '':'') CHR '':'' = ys"
    using assms(1-3) by (simp_all add: SplitByte_Join)
  ultimately show ?thesis by metis
qed

text \<open>The key families of the package, with the values they are built from.\<close>

datatype auth_key =
    OneTimeKey string string
  | VerifyCodeKey string string
  | AttemptKey string string
  | OAuthStateKey string
  | OAuthRegistrationKey string
  | AuthorizeRequestKey string
  | RegisterTicketKey string
  | BindTicketKey string
  | LoginCodeKey string
  | AuthStateKey string
  | RateLimitKey string string
  | LoginFailureKey string

fun render_key :: "string \<Rightarrow> auth_key \<Rightarrow> string" where
  "render_key pre (OneTimeKey a b) = OneTime pre a b"
| "render_key pre (VerifyCodeKey a b) = VerifyCode pre a b"
| "render_key pre (AttemptKey a b) = VerificationCodeAttempt pre a b"
| "render_key pre (OAuthStateKey a) = OAuthState pre a"
| "render_key pre (OAuthRegistrationKey a) = OAuthRegistration pre a"
| "render_key pre (AuthorizeRequestKey a) = AuthorizeRequest pre a"
| "render_key pre (RegisterTicketKey a) = RegisterTicket pre a"
| "render_key pre (BindTicketKey a) = BindTicket pre a"
| "render_key pre (LoginCodeKey a) = LoginCode pre a"
| "render_key pre (AuthStateKey a) = AuthState pre a"
| "render_key pre (RateLimitKey a b) = RateLimit pre a b"
| "render_key pre (LoginFailureKey a) = LoginFailure pre a"

fun key_parts :: "auth_key \<Rightarrow> string list" where
  "key_parts (OneTimeKey a b) = [dynamicKeySegment a, dynamicKeySegment b]"
| "key_parts (VerifyCodeKey a b) = [''verify'', dynamicKeySegment a, dynamicKeySegment b]"
| "key_parts (AttemptKey a b) = [''verify'', ''attempt'', dynamicKeySegment a, dynamicKeySegment b]"
| "key_parts (OAuthStateKey a) = [''oauth'', ''state'', dynamicKeySegment a]"
| "key_parts (OAuthRegistrationKey a) = [''oauth'', ''registration'', dynamicKeySegment a]"
| "key_parts (AuthorizeRequestKey a) = [''oauth'', ''authorize_request'', dynamicKeySegment a]"
| "key_parts (RegisterTicketKey a) = [''auth'', ''register_ticket'', dynamicKeySegment a]"
| "key_parts (BindTicketKey a) = [''auth'', ''bind_ticket'', dynamicKeySegment a]"
| "key_parts (LoginCodeKey a) = [''auth'', ''login_code'', dynamicKeySegment a]"
| "key_parts (AuthStateKey a) = [''auth'', ''authstate'', dynamicKeySegment a]"
| "key_parts (RateLimitKey a b) = [''ratelimit'', dynamicKeySegment b, dynamicKeySegment a]"
| "key_parts (LoginFailureKey a) = [''auth'', ''login_failure'', dynamicKeySegment a]"

lemma render_key_parts: "render_key pre k = join_key pre (key_parts k)"
  by (cases k) (simp_all add: OneTime_def VerifyCode_def VerificationCodeAttempt_def OAuthState_def
      OAuthRegistration_def AuthorizeRequest_def RegisterTicket_def BindTicket_def LoginCode_def
      AuthState_def RateLimit_def LoginFailure_def)

lemma key_parts_clean: "key_parts k \<noteq> [] \<and> (\<forall>x\<in>set (key_parts k). CHR '':'' \<notin> set x)"
  by (cases k) simp_all

lemma key_parts_inject: "key_parts x = key_parts y \<Longrightarrow> x = y"
  by (cases x; cases y) simp_all

lemma render_key_inject: "render_key pre x = render_key pre y \<Longrightarrow> x = y"
  using join_key_inject[of "key_parts x" "key_parts y" pre] key_parts_clean[of x] key_parts_clean[of y]
    key_parts_inject by (auto simp: render_key_parts)

text \<open>Whatever bytes purposes, addresses, tickets and subjects consist of, two Redis keys are
  equal only when they belong to the same family and were built from the same values: no value
  can be read or consumed through the key of another purpose or subject.\<close>

theorem auth_keys_injective: "render_key pre x = render_key pre y \<longleftrightarrow> x = y"
  using render_key_inject by blast

lemma verify_keys_distinct [simp]: "VerifyCode pre p e \<noteq> VerificationCodeAttempt pre q f"
  using render_key_inject[of pre "VerifyCodeKey p e" "AttemptKey q f"] by auto

section \<open>Verification codes\<close>

text \<open>The state of an issued code after \<open>m\<close> wrong guesses: the counter has the deadline of the code.\<close>

definition code_state :: "string \<Rightarrow> string \<Rightarrow> string \<Rightarrow> string \<Rightarrow> millis \<Rightarrow> nat \<Rightarrow> redis \<Rightarrow> bool" where
  "code_state pre p e c d m r \<longleftrightarrow>
     rs_string r (VerifyCode pre p e) = Some (c, Some d) \<and>
     rs_string r (VerificationCodeAttempt pre p e) = (if m = 0 then None else Some (decimal (int m), Some d))"

lemma SaveVerificationCode_state:
  assumes "SaveVerificationCode n t0 pre p e c ttl r = (Inr (), r0)"
  shows "code_state pre p e c (t0 + Milliseconds ttl) 0 r0" "p \<noteq> []" "e \<noteq> []" "c \<noteq> []"
  using assms
  by (auto simp: SaveVerificationCode_def Let_def saveVerificationCodeScript_def code_state_def
      cmd_set_def cmd_del_def dest!: call_Inr split: if_splits)

lemma attempt_wrong:
  assumes s: "code_state pre p e c d m r" and "g \<noteq> c" "m < 5" "now < d"
  shows "\<exists>r'. verificationCodeAttemptScript now (VerifyCode pre p e) (VerificationCodeAttempt pre p e) g 5 r
      = (Inr (if m < 4 then (2, 4 - int m) else (0, 0)), r')
    \<and> (if m < 4 then code_state pre p e c d (Suc m) r' else rs_string r' (VerifyCode pre p e) = None)"
proof -
  let ?k1 = "VerifyCode pre p e" and ?k2 = "VerificationCodeAttempt pre p e"
  have k: "?k1 \<noteq> ?k2" "?k2 \<noteq> ?k1" using verify_keys_distinct by metis+
  have e1: "entry now (rs_string r) ?k1 = Some (c, Some d)"
    using s assms(4) by (simp add: entry_def alive_def code_state_def)
  have e2: "entry now (rs_string r) ?k2 = (if m = 0 then None else Some (decimal (int m), Some d))"
    using s assms(4) by (simp add: entry_def alive_def code_state_def)
  have g: "cmd_get now ?k1 r = Some c" using e1 by (simp add: cmd_get_def value_at_def)
  have si: "stored_int (decimal (int m)) = Some (int m)" "int m \<noteq> max_int64"
    using assms(3) by (simp_all add: stored_int_decimal max_int64_def)
  show ?thesis
  proof (cases "m = 0")
    case True
    then have "cmd_incr now ?k2 r = (Inr 1, r\<lparr>rs_string := (rs_string r)(?k2 \<mapsto> (decimal 1, None))\<rparr>)"
      using e2 by (simp add: cmd_incr_def cmd_get_def value_at_def)
    then show ?thesis using g assms(2,4) e1 k s True
      by (simp add: verificationCodeAttemptScript_def Let_def pttl_def cmd_pexpire_def pexpire_def code_state_def)
  next
    case False
    let ?r = "r\<lparr>rs_string := (rs_string r)(?k2 \<mapsto> (decimal (int m + 1), Some d))\<rparr>"
    have "cmd_incr now ?k2 r = (Inr (int m + 1), ?r)"
      using e2 si False by (simp add: cmd_incr_def cmd_get_def value_at_def write_at_def)
    then have res: "verificationCodeAttemptScript now ?k1 ?k2 g 5 r =
        (if 5 \<le> int m + 1 then (Inr (0, 0), cmd_del ?k2 (cmd_del ?k1 ?r)) else (Inr (2, 5 - (int m + 1)), ?r))"
      using g assms(2) False by (simp add: verificationCodeAttemptScript_def Let_def)
    have "code_state pre p e c d (Suc m) ?r"
      using s k by (simp add: code_state_def add.commute)
    moreover have "rs_string (cmd_del ?k2 (cmd_del ?k1 ?r)) ?k1 = None" using k by (simp add: cmd_del_def)
    ultimately show ?thesis using assms(3) unfolding res by (cases "m < 4") simp_all
  qed
qed

lemma attempt_gone:
  assumes "entry now (rs_string r) (VerifyCode pre p e) = None"
  shows "verificationCodeAttemptScript now (VerifyCode pre p e) (VerificationCodeAttempt pre p e) g l r
    = (Inr (0, 0), cmd_del (VerificationCodeAttempt pre p e) r)"
  using assms by (simp add: verificationCodeAttemptScript_def cmd_get_def value_at_def)

text \<open>What holds after \<open>k\<close> wrong guesses reached the server, the last one by \<open>now\<close>.\<close>

definition budget_inv :: "string \<Rightarrow> string \<Rightarrow> string \<Rightarrow> string \<Rightarrow> millis \<Rightarrow> nat \<Rightarrow> millis \<Rightarrow> redis \<Rightarrow> bool" where
  "budget_inv pre p e c d k now r \<longleftrightarrow> k < 5 \<and> code_state pre p e c d k r
     \<or> rs_string r (VerifyCode pre p e) = None \<and> 5 \<le> k
     \<or> rs_string r (VerifyCode pre p e) = Some (c, Some d) \<and> d \<le> now"

lemma budget_inv_later: "budget_inv pre p e c d k now r \<Longrightarrow> now \<le> t \<Longrightarrow> budget_inv pre p e c d k t r"
  by (auto simp: budget_inv_def)

lemma budget_inv_script:
  assumes "budget_inv pre p e c d k now r" "now \<le> t" "g \<noteq> c"
  shows "budget_inv pre p e c d (Suc k) t (snd (verificationCodeAttemptScript t (VerifyCode pre p e)
    (VerificationCodeAttempt pre p e) g 5 r))"
proof (cases "k < 5 \<and> code_state pre p e c d k r \<and> t < d")
  case True
  then obtain r' where "snd (verificationCodeAttemptScript t (VerifyCode pre p e) (VerificationCodeAttempt pre p e) g 5 r) = r'"
    "if k < 4 then code_state pre p e c d (Suc k) r' else rs_string r' (VerifyCode pre p e) = None"
    using attempt_wrong[of pre p e c d k r g t] assms(3) by auto
  then show ?thesis using True by (auto simp: budget_inv_def split: if_splits)
next
  case False
  then have gone: "rs_string r (VerifyCode pre p e) = None \<and> 5 \<le> k \<or> rs_string r (VerifyCode pre p e) = Some (c, Some d) \<and> d \<le> t"
    using assms(1,2) by (auto simp: budget_inv_def code_state_def)
  then have "entry t (rs_string r) (VerifyCode pre p e) = None" by (auto simp: entry_def alive_def)
  note g = attempt_gone[OF this]
  show ?thesis unfolding g using gone by (auto simp: budget_inv_def cmd_del_def)
qed

text \<open>A sequence of submitted guesses, each with the fate of its exchange and the server's clock.\<close>

definition guess_step :: "string \<Rightarrow> string \<Rightarrow> string \<Rightarrow> net \<times> millis \<times> string \<Rightarrow> redis \<Rightarrow> redis" where
  "guess_step pre p e = (\<lambda>(n, t, g) r. snd (VerifyVerificationCode n t pre p e g r))"

definition reached :: "(net \<times> millis \<times> string) list \<Rightarrow> nat" where
  "reached gs = length (filter (\<lambda>(n, _, _). n \<noteq> RequestLost) gs)"

lemma snd_VerifyVerificationCode:
  "p \<noteq> [] \<Longrightarrow> e \<noteq> [] \<Longrightarrow> g \<noteq> [] \<Longrightarrow> snd (VerifyVerificationCode n t pre p e g r) =
     snd (call n (verificationCodeAttemptScript t (VerifyCode pre p e) (VerificationCodeAttempt pre p e) g 5) r)"
  by (simp add: VerifyVerificationCode_def maximumVerificationCodeAttempts_def split_beta)

lemma budget_inv_guesses:
  assumes "budget_inv pre p e c d k now r" "p \<noteq> []" "e \<noteq> []"
    and "sorted (now # map (\<lambda>(_, t, _). t) gs)" "\<forall>(_, _, g)\<in>set gs. g \<noteq> [] \<and> g \<noteq> c"
    and "\<forall>(_, t, _)\<in>set gs. t \<le> t'" "now \<le> t'"
  shows "budget_inv pre p e c d (k + reached gs) t' (fold (guess_step pre p e) gs r)"
  using assms(1,4-7)
proof (induction gs arbitrary: k now r)
  case Nil
  then show ?case by (auto simp: reached_def intro: budget_inv_later)
next
  case (Cons x gs)
  obtain n t g where x: "x = (n, t, g)" by (cases x)
  have g: "g \<noteq> []" "g \<noteq> c" "now \<le> t" "t \<le> t'" using Cons.prems x by auto
  let ?r = "guess_step pre p e x r" and ?k = "k + (if n = RequestLost then 0 else 1)"
  have "budget_inv pre p e c d ?k t ?r"
    using budget_inv_script[OF Cons.prems(1) g(3,2)] budget_inv_later[OF Cons.prems(1) g(3)] g(1) assms(2,3)
    by (cases n) (simp_all add: guess_step_def x snd_VerifyVerificationCode call_def)
  from Cons.IH[OF this] Cons.prems g(4) x show ?case
    by (cases n) (auto simp: reached_def split: if_splits)
qed

text \<open>C24: whatever wrong guesses were submitted against an issued code, in whatever exchanges, and
  however requests or replies were lost, the right code is accepted afterwards exactly when fewer
  than five wrong guesses reached the server and the code has not expired.\<close>

theorem verification_code_budget:
  assumes "SaveVerificationCode n t0 pre p e c ttl r = (Inr (), r0)"
    and "sorted (t0 # map (\<lambda>(_, t, _). t) gs)" "\<forall>(_, _, g)\<in>set gs. g \<noteq> [] \<and> g \<noteq> c"
    and "\<forall>(_, t, _)\<in>set gs. t \<le> t'" "t0 \<le> t'"
  shows "fst (VerifyVerificationCode Delivered t' pre p e c (fold (guess_step pre p e) gs r0)) =
    Inr (reached gs < 5 \<and> t' < t0 + Milliseconds ttl, 0)"
proof -
  note s = SaveVerificationCode_state[OF assms(1)]
  let ?r = "fold (guess_step pre p e) gs r0" and ?d = "t0 + Milliseconds ttl"
  have "budget_inv pre p e c ?d 0 t0 r0" using s(1) by (simp add: budget_inv_def)
  from budget_inv_guesses[OF this s(2,3) assms(2-5)] have "budget_inv pre p e c ?d (reached gs) t' ?r" by simp
  then have "cmd_get t' (VerifyCode pre p e) ?r = (if reached gs < 5 \<and> t' < ?d then Some c else None)"
    by (auto simp: budget_inv_def code_state_def cmd_get_def value_at_def entry_def alive_def)
  then show ?thesis using s(2-4)
    by (simp add: VerifyVerificationCode_def verificationCodeAttemptScript_def redisInt_def max_int64_def)
qed

theorem verification_code_budget_witness:
  "fst (VerifyVerificationCode Delivered 9 [] ''register'' ''a'' ''42''
     (fold (guess_step [] ''register'' ''a'') [(Delivered, 5, ''41''), (ReplyLost, 6, ''43'')]
       (snd (SaveVerificationCode Delivered 0 [] ''register'' ''a'' ''42'' Second
          \<lparr>rs_string = Map.empty, rs_zset = Map.empty, rs_hash = Map.empty\<rparr>)))) = Inr (True, 0)"
proof -
  let ?r = "\<lparr>rs_string = Map.empty, rs_zset = Map.empty, rs_hash = Map.empty\<rparr> :: redis"
  have "SaveVerificationCode Delivered 0 [] ''register'' ''a'' ''42'' Second ?r =
      (Inr (), snd (SaveVerificationCode Delivered 0 [] ''register'' ''a'' ''42'' Second ?r))"
    by (simp add: SaveVerificationCode_def Let_def Milliseconds_def duration_defs max_int64_def)
  from verification_code_budget[OF this, of "[(Delivered, 5, ''41''), (ReplyLost, 6, ''43'')]" 9]
  show ?thesis by (simp add: reached_def Milliseconds_def duration_defs)
qed

section \<open>Revocation tombstones\<close>

lemma AuthState_inject [simp]: "AuthState pre i = AuthState pre j \<longleftrightarrow> i = j"
  using render_key_inject[of pre "AuthStateKey i" "AuthStateKey j"] by auto

text \<open>Every deadline the cache may give a revoked token's entry is at least \<open>d\<close>.\<close>

definition buried :: "string \<Rightarrow> string \<Rightarrow> millis \<Rightarrow> redis \<Rightarrow> bool" where
  "buried pre jti d r \<longleftrightarrow> (\<exists>d'\<ge>d. rs_string r (AuthState pre jti) = Some (authStateTombstone, Some d'))"

lemma buried_set_other:
  "buried pre jti d r \<Longrightarrow> now + ms \<ge> d \<Longrightarrow> buried pre jti d (cmd_set now (AuthState pre j) authStateTombstone ms r)"
  by (auto simp: buried_def cmd_set_def)

lemma buried_tombstones:
  assumes "now + px (tombstoneTTL cfg) \<ge> d" "jti \<in> set jtis \<and> jti \<noteq> [] \<or> buried pre jti d r"
  shows "buried pre jti d (tombstones now pre cfg jtis r)"
proof -
  let ?set = "\<lambda>j. cmd_set now (AuthState pre j) authStateTombstone (px (tombstoneTTL cfg))"
  have keep: "buried pre jti d (fold ?set js s)" if "buried pre jti d s" for js s
    using that by (induction js arbitrary: s) (auto intro: buried_set_other[OF _ assms(1)])
  have new: "buried pre jti d (?set jti s)" for s using assms(1) by (auto simp: buried_def cmd_set_def)
  have "buried pre jti d (fold ?set js s)" if "jti \<in> set js" for js s
    using that new keep by (induction js arbitrary: s) auto
  then show ?thesis using assms(2) keep by (auto simp: tombstones_def)
qed

datatype cache_op =
    Refill net millis string string duration
  | BuryTokens "nat option" millis "string list"

fun op_time :: "cache_op \<Rightarrow> millis" where
  "op_time (Refill n t j data ttl) = t"
| "op_time (BuryTokens b t js) = t"

fun cache_step :: "string \<Rightarrow> duration \<Rightarrow> cache_op \<Rightarrow> redis \<Rightarrow> redis" where
  "cache_step pre cfg (Refill n t j data ttl) r = snd (PutAuthState n t pre j data ttl r)"
| "cache_step pre cfg (BuryTokens b t js) r = snd (DeleteAuthStates b t pre cfg js r)"

lemma buried_refill:
  assumes "buried pre jti d r" "t < d"
  shows "buried pre jti d (snd (PutAuthState n t pre j data ttl r))"
proof -
  have "buried pre jti d (snd (cmd_setnx t (AuthState pre j) data (px ttl) r))"
    using assms by (cases "j = jti")
      (auto simp: buried_def cmd_setnx_def cmd_get_def value_at_def entry_def alive_def cmd_set_def split: option.splits)
  then show ?thesis using assms(1) by (cases n) (auto simp: PutAuthState_def call_def)
qed

lemma buried_step:
  assumes "buried pre jti d r" "t0 \<le> op_time x" "op_time x < d" "d \<le> t0 + px (tombstoneTTL cfg)"
  shows "buried pre jti d (cache_step pre cfg x r)"
proof (cases x)
  case (Refill n t j data ttl)
  then show ?thesis using buried_refill assms by auto
next
  case (BuryTokens b t js)
  then show ?thesis using buried_tombstones[of d t cfg jti _ pre r] assms
    by (cases b) (auto simp: DeleteAuthStates_def)
qed

text \<open>C25: once a revocation has been delivered for a token, no concurrent refill of the cache and no
  other revocation makes the cache answer for that token again while the tombstone lives: the
  request falls back to the database, which knows of the revocation.\<close>

theorem tombstone_blocks_refill:
  assumes "jti \<in> set jtis" "jti \<noteq> []"
    and "\<forall>x\<in>set ops. t0 \<le> op_time x \<and> op_time x < t0 + px (tombstoneTTL cfg)"
    and "t' < t0 + px (tombstoneTTL cfg)"
  shows "GetAuthState Delivered t' pre jti
    (fold (cache_step pre cfg) ops (snd (DeleteAuthStates None t0 pre cfg jtis r))) = Inr None"
proof -
  let ?d = "t0 + px (tombstoneTTL cfg)"
  have start: "buried pre jti ?d (snd (DeleteAuthStates None t0 pre cfg jtis r))"
    using assms(1,2) buried_tombstones[of ?d t0 cfg jti jtis pre r] by (simp add: DeleteAuthStates_def)
  have "buried pre jti ?d (fold (cache_step pre cfg) ops s)" if "buried pre jti ?d s" for s
    using that assms(3) by (induction ops arbitrary: s) (auto intro: buried_step)
  from this[OF start] show ?thesis using assms(2,4)
    by (auto simp: buried_def GetAuthState_def cmd_get_def value_at_def entry_def alive_def)
qed

theorem tombstone_blocks_refill_witness:
  "GetAuthState Delivered 9000 [] ''j''
    (fold (cache_step [] 0) [Refill Delivered 10 ''j'' ''live'' Minute, BuryTokens None 20 [''k'']]
       (snd (DeleteAuthStates None 0 [] 0 [''j''] \<lparr>rs_string = Map.empty, rs_zset = Map.empty, rs_hash = Map.empty\<rparr>)))
   = Inr None"
  by (rule tombstone_blocks_refill)
    (simp_all add: px_def tombstoneTTL_def defaultAuthStateTombstoneTTL_def duration_defs)

section \<open>One-time values\<close>

text \<open>A stored one-time value is handed out unchanged, at most once and only before it expires,
  and until then it cannot be replaced; this holds for every codec that decodes what it encoded.\<close>

theorem one_time_roundtrip:
  assumes codec: "\<And>y s. enc y = Some s \<Longrightarrow> dec s = Some y"
    and ok: "SetOneTime enc n t0 key (Some x) ttl r = (Inr (), r0)" and "t0 \<le> t"
  shows "(case GetDelOneTime dec Delivered t key r0 of (res, r1) \<Rightarrow>
      res = (if t < t0 + px ttl then Inr x else Inl ErrMiss)
      \<and> (\<forall>t'. fst (GetDelOneTime dec Delivered t' key r1) = Inl ErrMiss))
    \<and> (\<forall>ttl' y s. t < t0 + px ttl \<and> 0 < ttl' \<and> enc y = Some s \<longrightarrow>
      SetOneTime enc Delivered t key (Some y) ttl' r0 = (Inl ErrAlreadyExists, r0))"
proof -
  obtain s0 where s0: "enc x = Some s0" "key \<noteq> []" "rs_string r0 key = Some (s0, Some (t0 + px ttl))"
    using ok by (auto simp: SetOneTime_def cmd_setnx_def cmd_set_def dest!: call_Inr split: if_splits option.splits prod.splits)
  then have g: "cmd_get t key r0 = (if t < t0 + px ttl then Some s0 else None)"
    by (simp add: cmd_get_def value_at_def entry_def alive_def)
  have "cmd_get t' key (cmd_del key r0) = None" for t' by (simp add: cmd_get_def cmd_del_def value_at_def)
  then show ?thesis using g s0 codec[OF s0(1)] by (simp add: GetDelOneTime_def SetOneTime_def cmd_setnx_def)
qed

theorem one_time_roundtrip_witness:
  "fst (GetDelOneTime Some Delivered 5 ''k''
     (snd (SetOneTime Some Delivered 0 ''k'' (Some ''v'') Second
        \<lparr>rs_string = Map.empty, rs_zset = Map.empty, rs_hash = Map.empty\<rparr>))) = Inr ''v''"
proof -
  let ?r = "\<lparr>rs_string = Map.empty, rs_zset = Map.empty, rs_hash = Map.empty\<rparr> :: redis"
  have "SetOneTime Some Delivered 0 ''k'' (Some ''v'') Second ?r =
     (Inr (), snd (SetOneTime Some Delivered 0 ''k'' (Some ''v'') Second ?r))"
    by (simp add: SetOneTime_def cmd_setnx_def cmd_get_def value_at_def duration_defs)
  from one_time_roundtrip[OF _ this, of Some 5] show ?thesis
    by (auto simp: px_def duration_defs split: prod.splits)
qed

section \<open>Login failures\<close>

text \<open>C28: reading the failure counter of an account whose key lost its deadline fails: the clamp of a
  negative lifetime in \<open>GetLoginFailures\<close> is never reached, because \<open>redisInt\<close> has already refused
  the negative value. Recording a further failure on the same key succeeds and sets a deadline.\<close>

theorem GetLoginFailures_without_deadline:
  assumes "email \<noteq> []" "rs_string r (LoginFailure pre email) = Some (decimal c, None)" "0 \<le> c" "c < max_int64"
    and w: "0 < Milliseconds window" "Milliseconds window \<le> max_int64" "0 < window"
  shows "GetLoginFailures Delivered now pre email r = Inl ErrRedisArgument
    \<and> fst (RecordLoginFailure Delivered now pre email window r) =
        Inr \<lparr>lf_Count = c + 1, lf_TTL = Milliseconds window * Millisecond\<rparr>"
proof -
  let ?k = "LoginFailure pre email"
  have e: "entry now (rs_string r) ?k = Some (decimal c, None)" using assms(2) by (simp add: entry_def alive_def)
  have s: "stored_int (decimal c) = Some c" using assms(3,4) by (intro stored_int_decimal) simp_all
  have "cmd_incr now ?k r = (Inr (c + 1), r\<lparr>rs_string := (rs_string r)(?k \<mapsto> (decimal (c + 1), None))\<rparr>)"
    using e s assms(4) by (simp add: cmd_incr_def cmd_get_def value_at_def write_at_def)
  then have "fst (loginFailureCounterScript now ?k (Milliseconds window) r) = Inr (c + 1, Milliseconds window)"
    using w by (simp add: loginFailureCounterScript_def Let_def pttl_def cmd_pexpire_def pexpire_def)
  then show ?thesis using assms e s
    by (simp add: GetLoginFailures_def RecordLoginFailure_def Let_def counted_def getLoginFailuresScript_def
        cmd_get_def value_at_def pttl_def redisInt_def split_beta)
qed

theorem GetLoginFailures_without_deadline_witness:
  "GetLoginFailures Delivered 0 [] ''a'' (no_data\<lparr>rs_string := [LoginFailure [] ''a'' \<mapsto> (decimal 3, None)]\<rparr>)
     = Inl ErrRedisArgument"
  using GetLoginFailures_without_deadline[of "''a''" "no_data\<lparr>rs_string := [LoginFailure [] ''a'' \<mapsto> (decimal 3, None)]\<rparr>" "[]" 3
      Minute 0]
  by (simp add: max_int64_def Milliseconds_def duration_defs)

end
