(* ===== verification/Middleware_Properties.thy ===== *)
theory Middleware_Properties
  imports Auth_Middleware Session_Evolution Auth_Store_Properties
begin

text \<open>
  What the middleware lets through: a principal stands for a live token row of a live account and carries
  the role of that row, a token of another client stays inside its scopes, and a session that was
  ended is dead in the store, queued for the caches and refused wherever no stale cache entry is left.
\<close>

section \<open>Principals\<close>

lemma run_cachedState:
  "snd (run_state (cachedState ev a jti) w) = (if am_Cache a then ev_Between ev ''get auth state'' w else w)"
  "\<not> am_Cache a \<Longrightarrow> fst (run_state (cachedState ev a jti) w) = None"
  by (simp_all add: cachedState_def split: option.splits)

lemma authState_Inr:
  assumes "run_state (authState ev a jti) w = (Inr st, w')"
  obtains (cached) "am_Cache a" "fst (run_state (cachedState ev a jti) w) = Some st"
  | (stored) w1 where "w1 = ev_Between ev ''auth state'' (snd (run_state (cachedState ev a jti) w))"
      "fst (run_state (cachedState ev a jti) w) = None"
      "FindAccessAuthStateByJTI (ev_Fault ev ''auth state'') (wd_db w1) jti = Inr st"
proof (cases "fst (run_state (cachedState ev a jti) w)")
  case None
  then show thesis using assms that(2)
    by (auto simp: authState_def split_beta split: sum.splits)
next
  case (Some x)
  then have "am_Cache a" using run_cachedState(2)[of a ev jti w] by (cases "am_Cache a") auto
  then show thesis using assms that(1) Some by (auto simp: authState_def split_beta)
qed

lemma FindAccessAuthState_Inr:
  assumes "FindAccessAuthStateByJTI flt db jti = Inr st"
  obtains row u where "row \<in> set (db_access db)" "at_TokenID row = jti" "find_user db (at_UserID row) = Some u"
    "st = \<lparr>as_TokenID = jti, as_UserID = at_UserID row, as_UserState = us_State u, as_UserRole = us_Role u,
      as_TokenVersion = us_TokenVersion u, as_RevokedAt = at_RevokedAt row, as_ExpiresAt = at_ExpiresAt row\<rparr>"
  using assms by (auto simp: FindAccessAuthStateByJTI_def stmt_Inr_iff split: if_splits option.splits dest!: find_SomeD)

lemma authenticate_Inr:
  assumes "run_state (authenticate ev a header) w = (Inr p, w')"
  obtains token m claims userID scopes st w1 where "strictBearerToken header = Some token" "am_JWT a = Some m"
    "verifyToken ev a m token = Inr claims" "claimSubject claims = Some (userID, scopes)"
    "run_state (authState ev a (tc_ID claims)) w = (Inr st, w1)" "as_TokenID st = tc_ID claims" "as_UserID st = userID"
    "as_RevokedAt st = None" "ev_Now ev ''authenticate'' < as_ExpiresAt st" "as_UserState st \<noteq> UserStateDeleted"
    "as_TokenVersion st = tc_TokenVersion claims" "p = principalFromClaims claims userID scopes (Some st)"
proof -
  obtain token where t: "strictBearerToken header = Some token" using assms by (auto simp: authenticate_def split: option.splits)
  obtain m where m: "am_JWT a = Some m" using assms t by (auto simp: authenticate_def split: option.splits)
  obtain claims where c: "verifyToken ev a m token = Inr claims"
    using assms t m by (auto simp: authenticate_def split: sum.splits if_splits)
  have run: "run_state (authenticateClaims ev a claims) w = (Inr p, w')" using assms t m c by (simp add: authenticate_def)
  obtain userID scopes where sub: "claimSubject claims = Some (userID, scopes)"
    using run by (auto simp: authenticateClaims_def split: option.splits)
  obtain st w1 where st: "run_state (authState ev a (tc_ID claims)) w = (Inr st, w1)"
    using run sub by (auto simp: authenticateClaims_def split_beta split: sum.splits if_splits) (metis prod.collapse)
  show thesis
    by (rule that[OF t m c sub st]) (use run sub st in \<open>auto simp: authenticateClaims_def split: if_splits\<close>)
qed

text \<open>C9: Whoever is admitted with the cache off presented a verified token whose row in the database is neither
  revoked nor expired, and whose owner exists, is not closed and has the token version of the claims;
  the role the request acts with is the one of the owner's row, not the one in the token.\<close>

theorem principal_is_live:
  assumes "run_state (authenticate ev a header) w = (Inr p, w')" "\<not> am_Cache a"
  shows "\<exists>token m claims row u. let db = wd_db (ev_Between ev ''auth state'' w) in
    strictBearerToken header = Some token \<and> am_JWT a = Some m \<and> verifyToken ev a m token = Inr claims
    \<and> pr_JTI p = tc_ID claims \<and> row \<in> set (db_access db) \<and> at_TokenID row = pr_JTI p \<and> at_UserID row = pr_UserID p
    \<and> at_RevokedAt row = None \<and> ev_Now ev ''authenticate'' < at_ExpiresAt row
    \<and> find_user db (pr_UserID p) = Some u \<and> us_State u \<noteq> UserStateDeleted
    \<and> us_TokenVersion u = tc_TokenVersion claims \<and> pr_Role p = us_Role u"
  using assms(1)
proof (rule authenticate_Inr)
  fix token m claims userID scopes st w1
  assume h: "strictBearerToken header = Some token" "am_JWT a = Some m" "verifyToken ev a m token = Inr claims"
    and r: "run_state (authState ev a (tc_ID claims)) w = (Inr st, w1)"
    and st: "as_UserID st = userID" "as_RevokedAt st = None"
      "ev_Now ev ''authenticate'' < as_ExpiresAt st" "as_UserState st \<noteq> UserStateDeleted" "as_TokenVersion st = tc_TokenVersion claims"
    and p: "p = principalFromClaims claims userID scopes (Some st)"
  from r show ?thesis
  proof (cases rule: authState_Inr)
    case cached
    then show ?thesis using assms(2) by simp
  next
    case (stored w2)
    then have "FindAccessAuthStateByJTI (ev_Fault ev ''auth state'') (wd_db (ev_Between ev ''auth state'' w)) (tc_ID claims) = Inr st"
      using run_cachedState(1)[of ev a] assms(2) by simp
    then show ?thesis
      by (rule FindAccessAuthState_Inr) (use h st p in \<open>auto simp: principalFromClaims_def Let_def\<close>)
  qed
qed

text \<open>C11: A token that another client holds never enters an internal endpoint; it enters the administration
  endpoints only with an administration scope, and past the scope gate only with one of the scopes
  the route allows.\<close>

theorem foreign_tokens_confined:
  assumes "pr_ClientID p \<noteq> []" "pr_ClientID p \<noteq> am_InternalClientID a"
  shows "run_state (Authenticate ev a header) w \<noteq> (Inr p, w')
    \<and> (run_state (AuthenticateAdminDelegated ev a header) w = (Inr p, w') \<longrightarrow> ContainsAdmin (pr_Scopes p))
    \<and> (run_state (AuthenticateUserLogout ev a header) w = (Inr p, w') \<longrightarrow> ContainsUser (pr_Scopes p))
    \<and> (RequireDelegatedScope a allowed (Some p) = Inr () \<longrightarrow> (\<exists>name\<in>set allowed. name \<in> set (pr_Scopes p)))"
proof (intro conjI impI)
  show "run_state (Authenticate ev a header) w \<noteq> (Inr p, w')"
    using assms by (auto simp: Authenticate_def run_bindM requireInternalClient_def split: prod.splits sum.splits if_splits)
  assume "run_state (AuthenticateAdminDelegated ev a header) w = (Inr p, w')"
  then show "ContainsAdmin (pr_Scopes p)"
    using assms by (auto simp: AuthenticateAdminDelegated_def authenticateScoped_def run_bindM applyScopedPolicy_def carriesAdmin_def
        split: prod.splits sum.splits if_splits)
next
  assume "run_state (AuthenticateUserLogout ev a header) w = (Inr p, w')"
  then show "ContainsUser (pr_Scopes p)"
    using assms by (auto simp: AuthenticateUserLogout_def AuthenticateUserScoped_def authenticateScoped_def expiredPrincipal_def
        run_bindM applyScopedPolicy_def carriesUser_def split: prod.splits sum.splits if_splits option.splits)
next
  assume "RequireDelegatedScope a allowed (Some p) = Inr ()"
  then show "\<exists>name\<in>set allowed. name \<in> set (pr_Scopes p)"
    using assms by (auto simp: RequireDelegatedScope_def list_ex_iff split: if_splits)
qed

section \<open>Ended sessions\<close>

text \<open>A request that no other one interferes with.\<close>

definition undisturbed :: "env \<Rightarrow> bool" where
  "undisturbed ev \<longleftrightarrow> (\<forall>site w. ev_Between ev site w = w)"

lemma undisturbedD [simp]: "undisturbed ev \<Longrightarrow> ev_Between ev site w = w"
  by (simp add: undisturbed_def)

definition token_dead :: "string \<Rightarrow> database \<Rightarrow> bool" where
  "token_dead jti db \<longleftrightarrow> (\<forall>row\<in>set (db_access db). at_TokenID row = jti \<longrightarrow> at_RevokedAt row \<noteq> None)"

text \<open>The cache holds nothing about a token, or its tombstone.\<close>

definition cache_silent :: "Authenticator \<Rightarrow> string \<Rightarrow> redis \<Rightarrow> bool" where
  "cache_silent a jti r \<longleftrightarrow> \<not> am_Cache a
     \<or> (\<forall>v d. rs_string r (AuthState (am_Prefix a) jti) = Some (v, d) \<longrightarrow> v = authStateTombstone)"

lemma cachedState_silent:
  assumes "cache_silent a jti (wd_redis (ev_Between ev ''get auth state'' w))"
  shows "fst (run_state (cachedState ev a jti) w) = None"
proof (cases "am_Cache a")
  case True
  then have "GetAuthState n ms (am_Prefix a) jti (wd_redis (ev_Between ev ''get auth state'' w)) \<noteq> Inr (Some data)" for n ms data
    using assms by (cases n) (auto simp: cache_silent_def GetAuthState_def cmd_get_def value_at_def entry_def alive_def call_def
        split: if_splits option.splits)
  then show ?thesis by (auto simp: cachedState_def split: sum.splits option.splits)
qed (simp add: cachedState_def)

lemma dead_token_refused:
  assumes "undisturbed ev" "token_dead jti (wd_db w)" "cache_silent a jti (wd_redis w)"
    and "strictBearerToken header = Some token" "am_JWT a = Some m" "verifyToken ev a m token = Inr claims" "tc_ID claims = jti"
  shows "\<exists>e. fst (run_state (authenticate ev a header) w) = Inl e"
proof (cases "fst (run_state (authenticate ev a header) w)")
  case (Inr p)
  then have "run_state (authenticate ev a header) w = (Inr p, snd (run_state (authenticate ev a header) w))" by (simp add: prod_eq_iff)
  then show ?thesis
  proof (rule authenticate_Inr)
    fix token' m' claims' userID scopes st w1
    assume h: "strictBearerToken header = Some token'" "am_JWT a = Some m'" "verifyToken ev a m' token' = Inr claims'"
      and r: "run_state (authState ev a (tc_ID claims')) w = (Inr st, w1)" and live: "as_RevokedAt st = None"
    have jti: "tc_ID claims' = jti" using h assms(4-7) by simp
    from r show ?thesis unfolding jti
    proof (cases rule: authState_Inr)
      case cached
      then show ?thesis using cachedState_silent[of a jti ev w] assms(1,3) by simp
    next
      case (stored w2)
      then have "FindAccessAuthStateByJTI (ev_Fault ev ''auth state'') (wd_db w) jti = Inr st"
        using run_cachedState(1)[of ev a jti w] assms(1) by (cases "am_Cache a") simp_all
      then show ?thesis by (rule FindAccessAuthState_Inr) (use live assms(2) in \<open>auto simp: token_dead_def\<close>)
    qed
  qed
qed simp

lemma cut_tokens_token_dead:
  assumes "token_inv db" "row \<in> set (db_access db)"
    and "\<And>x. at_FamilyID x = at_FamilyID row \<Longrightarrow> at_UserID x = at_UserID row \<Longrightarrow> PA x"
  shows "token_dead (at_TokenID row) (cut_tokens PA PR t reason db)"
  unfolding token_dead_def
proof (intro ballI impI)
  fix x
  assume x: "x \<in> set (db_access (cut_tokens PA PR t reason db))" "at_TokenID x = at_TokenID row"
  then obtain y where y: "y \<in> set (db_access db)" "at_TokenID y = at_TokenID x" "at_FamilyID y = at_FamilyID x" "at_UserID y = at_UserID x"
    by (auto simp: db_access_cut_tokens revoke_access_def elim!: in_update_whereE split: if_splits)
  have "distinct (map at_TokenID (db_access db))" using assms(1) by (simp add: token_inv_def keys_inv_def)
  then have "y = row" using y(1,2) x(2) assms(2) by (metis distinct_map_inj)
  then show "at_RevokedAt x \<noteq> None" using cut_access_dead[OF x(1)] assms(3) y(3,4) by metis
qed

lemma cut_family_token_dead:
  assumes "token_inv db" "row \<in> set (db_access db)" "at_FamilyID row = Some f"
  shows "token_dead (at_TokenID row) (cut_family f t db)"
  unfolding cut_family_def using assms by (intro cut_tokens_token_dead) simp_all

lemma RevokeFamily_Inr:
  assumes "RevokeFamily flt f t db = (Inr es, db')"
  shows "es = live_entries (\<lambda>a. at_FamilyID a = Some f) t db" "db' = cut_family f t db"
proof -
  have "revokeFamilyInTransaction flt f t db = Inr (es, db')"
    using assms by (cases rule: transaction_cases[of "\<lambda>db. stmt flt ''lock token family'' (revokeFamilyInTransaction flt f t db)" db flt])
      (auto simp: RevokeFamily_def stmt_Inr_iff)
  then show "es = live_entries (\<lambda>a. at_FamilyID a = Some f) t db" "db' = cut_family f t db"
    by (simp_all add: revokeFamily_InrD(1) revokeFamily_cut)
qed

lemma run_writes:
  "run_state (db_write ev site f) w = (case f (ev_Fault ev site) (wd_db (ev_Between ev site w)) of
     (x, db') \<Rightarrow> (x, (ev_Between ev site w)\<lparr>wd_db := db'\<rparr>))"
  "run_state (redis_write ev site g) w = (case g (ev_Net ev site) (ev_Millis ev site) (wd_redis (ev_Between ev site w)) of
     (y, r') \<Rightarrow> (y, (ev_Between ev site w)\<lparr>wd_redis := r'\<rparr>))"
  by (simp_all add: db_write_def redis_write_def Let_def)

text \<open>Dropping a device and writing the audit trail touch neither token rows, outbox nor cached states.\<close>

definition same_tokens :: "world \<Rightarrow> world \<Rightarrow> bool" where
  "same_tokens w w' \<longleftrightarrow> db_access (wd_db w') = db_access (wd_db w) \<and> db_outbox (wd_db w') = db_outbox (wd_db w)
     \<and> rs_string (wd_redis w') = rs_string (wd_redis w)"

lemma same_tokens_side_effects:
  assumes "undisturbed ev"
  shows "same_tokens w (snd (run_state (dropDevice ev s site u f) w))"
    and "same_tokens w (snd (run_state (audit ev s site2 uid action resource rid actr success code ip ua detail) w))"
proof -
  have "rs_string (snd (RemoveDevice n ms pre u f r)) = rs_string r" for n ms pre r
    by (cases n) (simp_all add: RemoveDevice_def call_def hash_del_def cmd_zrem_def zset_write_def zset_del_def)
  then show "same_tokens w (snd (run_state (dropDevice ev s site u f) w))"
    using assms by (auto simp: same_tokens_def dropDevice_def run_writes split_beta split: option.splits)
  have "db_access (snd (CreateAuditLog flt x db)) = db_access db \<and> db_outbox (snd (CreateAuditLog flt x db)) = db_outbox db" for flt x db
    by (auto simp: CreateAuditLog_def stmt_def Let_def split: option.splits sum.splits prod.splits)
  then show "same_tokens w (snd (run_state (audit ev s site2 uid action resource rid actr success code ip ua detail) w))"
    using assms by (simp add: same_tokens_def audit_def run_writes split_beta)
qed

lemma same_tokens_trans: "same_tokens a b \<Longrightarrow> same_tokens b c \<Longrightarrow> same_tokens a c"
  by (simp add: same_tokens_def)

lemma dead_same_tokens:
  assumes "same_tokens w w'"
  shows "token_dead jti (wd_db w) \<Longrightarrow> token_dead jti (wd_db w')" "cache_silent a jti (wd_redis w) \<Longrightarrow> cache_silent a jti (wd_redis w')"
    "pending_delivery (wd_db w) jti x \<Longrightarrow> pending_delivery (wd_db w') jti x"
  using assms by (simp_all add: same_tokens_def token_dead_def cache_silent_def pending_delivery_def)

text \<open>An authenticator that can hold no stale state once a request delivered its revocations: it keeps no cache, or
  its cache is the one the tombstones go to and they reached it.\<close>

definition no_stale_cache :: "env \<Rightarrow> blacklist_port option \<Rightarrow> Authenticator \<Rightarrow> bool" where
  "no_stale_cache ev port a \<longleftrightarrow> \<not> am_Cache a
     \<or> (\<exists>bp. port = Some bp \<and> bp_Prefix bp = am_Prefix a \<and> ev_Broken ev ''deliver blacklist'' = None)"

text \<open>Delivering the entries of a cut family buries the cached state of each of its live tokens.\<close>

lemma deliver_store: "undisturbed ev \<Longrightarrow> wd_db (snd (run_state (DeliverBlacklist ev port entries now) w)) = wd_db w"
  by (simp add: DeliverBlacklist_def Let_def run_writes split_beta split: option.splits)

lemma deliver_silences:
  assumes "undisturbed ev" "no_stale_cache ev port a" "e \<in> set entries" "deliverable now e"
  shows "cache_silent a (be_TokenID e) (wd_redis (snd (run_state (DeliverBlacklist ev port entries now) w)))"
proof (cases "am_Cache a")
  case True
  then obtain bp where port: "port = Some bp" "bp_Prefix bp = am_Prefix a" "ev_Broken ev ''deliver blacklist'' = None"
    using assms(2) by (auto simp: no_stale_cache_def)
  let ?d = "ev_Millis ev ''deliver blacklist'' + px (tombstoneTTL (bp_TombstoneTTL bp))"
  let ?jtis = "map be_TokenID (filter (deliverable now) entries)"
  have "be_TokenID e \<in> set ?jtis" "be_TokenID e \<noteq> []" using assms(3,4) by (auto simp: deliverable_def)
  then have "buried (am_Prefix a) (be_TokenID e) ?d (tombstones (ev_Millis ev ''deliver blacklist'') (am_Prefix a) (bp_TombstoneTTL bp) ?jtis (wd_redis w))"
    using buried_tombstones[of ?d] by blast
  moreover have "?jtis \<noteq> []" using assms(3,4) by (auto simp: filter_empty_conv)
  ultimately show ?thesis
    using assms(1) port by (auto simp: DeliverBlacklist_def Let_def run_writes DeleteAuthStates_def cache_silent_def buried_def)
qed (simp add: cache_silent_def)

lemma Logout_Inr:
  assumes "run_state (Logout ev s input) w = (Inr res, w')" "undisturbed ev"
  obtains es db' where "RevokeFamily (ev_Fault ev ''revoke session'') (lo_FamilyID res) (ev_Now ev ''logout'') (wd_db w) = (Inr es, db')"
    "same_tokens (snd (run_state (DeliverBlacklist ev (ss_Blacklist s) es (ev_Now ev ''logout'')) (w\<lparr>wd_db := db'\<rparr>))) w'"
proof -
  obtain access f where found: "FindAccessTokenByJTI (ev_Fault ev ''find access token'') (wd_db w) (TrimSpace (lo_PrincipalJTI input)) = Inr access"
      "at_RevokedAt access = None" "at_FamilyID access = Some f"
    using assms by (auto simp: Logout_def Let_def split: if_splits sum.splits option.splits)
  obtain es db' where cut: "RevokeFamily (ev_Fault ev ''revoke session'') f (ev_Now ev ''logout'') (wd_db w) = (Inr es, db')"
    using assms found by (auto simp: Logout_def Let_def run_writes split_beta split: if_splits sum.splits) (metis prod.collapse)
  show thesis
  proof (rule that)
    have "lo_FamilyID res = f" using assms found cut
      by (auto simp: Logout_def Let_def run_writes split_beta split: if_splits)
    then show "RevokeFamily (ev_Fault ev ''revoke session'') (lo_FamilyID res) (ev_Now ev ''logout'') (wd_db w) = (Inr es, db')"
      using cut by simp
    show "same_tokens (snd (run_state (DeliverBlacklist ev (ss_Blacklist s) es (ev_Now ev ''logout'')) (w\<lparr>wd_db := db'\<rparr>))) w'"
      using assms found cut
      by (auto simp: Logout_def Let_def run_writes split_beta split: if_splits
          intro: same_tokens_trans same_tokens_side_effects)
  qed
qed

text \<open>C4: Once a logout has answered, every access token of the ended session that was live is revoked in the store and
  has its row in the outbox. An authenticator that keeps no cache refuses it from then on, and so does one that
  shares the cache, whatever the cache held before, if the tombstones reached Redis during the logout. A logout
  answers also when they did not; the outbox row is then what is left to the delivery worker, and a state cached
  before may serve until it delivers or the state expires.\<close>

theorem logout_token_refused:
  assumes "run_state (Logout ev s input) w = (Inr res, w')" "undisturbed ev" "token_inv (wd_db w)"
    and "row \<in> set (db_access (wd_db w))" "at_FamilyID row = Some (lo_FamilyID res)" "at_RevokedAt row = None"
    and "ev_Now ev ''logout'' < at_ExpiresAt row" "TrimSpace (at_TokenID row) \<noteq> []"
  shows "token_dead (at_TokenID row) (wd_db w') \<and> pending_delivery (wd_db w') (at_TokenID row) (at_ExpiresAt row)
    \<and> (\<forall>ev' a header token m claims. no_stale_cache ev (ss_Blacklist s) a \<and> undisturbed ev'
        \<and> strictBearerToken header = Some token \<and> am_JWT a = Some m \<and> verifyToken ev' a m token = Inr claims
        \<and> tc_ID claims = at_TokenID row
        \<longrightarrow> (\<exists>e. fst (run_state (authenticate ev' a header) w') = Inl e))"
proof -
  from assms(1,2) obtain es db' where cut: "RevokeFamily (ev_Fault ev ''revoke session'') (lo_FamilyID res) (ev_Now ev ''logout'') (wd_db w) = (Inr es, db')"
    and same: "same_tokens (snd (run_state (DeliverBlacklist ev (ss_Blacklist s) es (ev_Now ev ''logout'')) (w\<lparr>wd_db := db'\<rparr>))) w'"
    by (rule Logout_Inr)
  let ?e = "\<lparr>be_TokenID = at_TokenID row, be_ExpiresAt = at_ExpiresAt row\<rparr>"
  have e: "?e \<in> set es" "deliverable (ev_Now ev ''logout'') ?e"
    using RevokeFamily_Inr(1)[OF cut] assms(4-8) by (auto simp: live_entries_def deliverable_def)
  note db' = RevokeFamily_Inr(2)[OF cut]
  have dead: "token_dead (at_TokenID row) (wd_db w')"
    using cut_family_token_dead[OF assms(3-5)] db' deliver_store[OF assms(2)] by (intro dead_same_tokens(1)[OF same]) simp
  moreover have "pending_delivery (wd_db w') (at_TokenID row) (at_ExpiresAt row)"
    using cut_tokens_delivers[OF assms(3,4), of "\<lambda>a. at_FamilyID a = Some (lo_FamilyID res)"] assms(5-7) db' deliver_store[OF assms(2)]
    by (intro dead_same_tokens(3)[OF same]) (simp add: cut_family_def)
  moreover have "cache_silent a (at_TokenID row) (wd_redis w')" if "no_stale_cache ev (ss_Blacklist s) a" for a
    using deliver_silences[OF assms(2) that e] by (intro dead_same_tokens(2)[OF same]) simp
  ultimately show ?thesis using dead_token_refused[OF _ dead] by blast
qed

end
