(* ===== verification/Session_Properties.thy ===== *)
theory Session_Properties
  imports Session_Evolution Middleware_Properties Revocation_Properties
begin

text \<open>
  What the session service guarantees: its use cases refine the store, a login proves a password of a
  live and unlocked account, a refresh token renews a session once, and the code of the registration
  mail is good for one ticket.
\<close>

section \<open>Refinement\<close>

text \<open>C5: Whatever other requests do between its calls and whichever of its calls fail, a use case of the session
  service moves the store only by steps of the store's transition system, so the token, consent,
  outbox and account invariants hold after it. The other requests are steps of the same system, and none of them
  uses the family identifier this request has drawn.\<close>

theorem session_refines_store:
  assumes "sound_env {ev_UUID ev ''family''} ev" "fresh_families {ev_UUID ev ''family''} (wd_db w)"
    and "token_inv (wd_db w)" "consent_inv (wd_db w)" "outbox_inv (wd_db w)" "account_inv (wd_db w)" "administered (wd_db w)"
  shows "let db' = wd_db (snd (run_state (serve ev s request) w)) in
    store_step\<^sup>*\<^sup>* (wd_db w) db' \<and> token_inv db' \<and> consent_inv db' \<and> outbox_inv db' \<and> account_inv db' \<and> administered db'"
proof -
  have "evolves {ev_UUID ev ''family''} w (snd (run_state (serve ev s request) w))"
    using safe_session_serve[OF assms(1)] by (simp add: state_io_rel_def)
  then have "store_step\<^sup>*\<^sup>* (wd_db w) (wd_db (snd (run_state (serve ev s request) w)))"
    using assms(2) by (simp add: evolves_def)
  then show ?thesis unfolding Let_def
    using assms(3-7) tokens_sys.reachable consents_sys.reachable outbox_sys.reachable accounts_sys.reachable
      admins_sys.reachable by blast
qed

section \<open>Actions that return\<close>

text \<open>When an action returns a value: which branches it took.\<close>

lemma returns_bindM:
  "run_state (bindM m k) w = (Inr y, w') \<longleftrightarrow> (\<exists>x w1. run_state m w = (Inr x, w1) \<and> run_state (k x) w1 = (Inr y, w'))"
  by (auto simp: run_bindM split: prod.splits sum.splits)

lemma returns_bind:
  "run_state (State_Monad.bind m k) w = (Inr y, w') \<longleftrightarrow> (\<exists>x w1. run_state m w = (x, w1) \<and> run_state (k x) w1 = (Inr y, w'))"
  by (simp split: prod.split)

lemma returns_case:
  "run_state (case r of Inl e \<Rightarrow> h e | Inr x \<Rightarrow> k x) w = (Inr y, w') \<longleftrightarrow>
     (\<exists>e. r = Inl e \<and> run_state (h e) w = (Inr y, w')) \<or> (\<exists>x. r = Inr x \<and> run_state (k x) w = (Inr y, w'))"
  "run_state (if b then m else m') w = (Inr y, w') \<longleftrightarrow>
     b \<and> run_state m w = (Inr y, w') \<or> \<not> b \<and> run_state m' w = (Inr y, w')"
  by (auto split: sum.split)

lemma returns_branch:
  "run_state (case r of Inl e \<Rightarrow> err (f e) | Inr x \<Rightarrow> k x) w = (Inr y, w') \<longleftrightarrow> (\<exists>x. r = Inr x \<and> run_state (k x) w = (Inr y, w'))"
  "run_state (if b then err e0 else m) w = (Inr y, w') \<longleftrightarrow> \<not> b \<and> run_state m w = (Inr y, w')"
  "run_state (ok z) w = (Inr y, w') \<longleftrightarrow> z = y \<and> w = w'"
  "run_state (err e0) w = (Inr y, w') \<longleftrightarrow> False"
  by (auto split: sum.split)

lemmas returns = returns_bindM returns_bind returns_branch returns_case

section \<open>Login\<close>

definition locked_out :: "LoginFailureStore \<Rightarrow> LoginFailureState \<Rightarrow> bool" where
  "locked_out fs st \<longleftrightarrow> 0 < fs_Limit fs \<and> fs_Limit fs \<le> lf_Count st \<and> 0 < lf_TTL st"

lemma checkLoginLock_Inr:
  assumes "run_state (checkLoginLock ev s key) w = (Inr u, w')" "ss_Failures s = Some fs"
    "GetLoginFailures (ev_Net ev ''login lock'') (ev_Millis ev ''login lock'') (ss_Prefix s) key
       (wd_redis (ev_Between ev ''login lock'' w)) = Inr st"
  shows "\<not> locked_out fs st"
  using assms by (auto simp: checkLoginLock_def IsLocked_def locked_out_def split: if_splits)

lemma loginProven_Inr:
  assumes "run_state (loginProven ev s input idf user key) w = (Inr res, w')"
  obtains client pair where "issuePair ev s user client 0 [] sessionScopes = Inr pair" "lg_Session res = session_result pair"
  using assms that by (clarsimp simp only: loginProven_def returns) auto

lemma loginUser_Inr:
  assumes "run_state (loginUser ev s input idf user) w = (Inr res, w')"
  obtains w1 where "run_state (checkLoginLock ev s (loginFailureKey (ss_Lower s) (Some user) idf)) w = (Inr (), w1)"
    "us_State user \<noteq> UserStateDeleted"
    "verifyPassword ev s ''verify password'' (li_Password input) (us_PasswordHash user) = Inr ()"
    "run_state (loginProven ev s input idf user (loginFailureKey (ss_Lower s) (Some user) idf)) w1 = (Inr res, w')"
  using assms that
  by (auto simp: loginUser_def Let_def returns_bindM split_beta split: if_splits sum.splits)

lemma Login_Inr:
  assumes "run_state (Login ev s input) w = (Inr res, w')"
  obtains user w1 where
    "run_state (checkEndpointLimit ev s (ss_Limiter s) ''login''
       (loginLimitSubject input (normalizeIdentifier (ss_Lower s) (li_Identifier input)))) w = (Inr (), w1)"
    "FindAuthUserByLoginIdentifier (ev_Fault ev ''find login user'') (wd_db (ev_Between ev ''find login user'' w1))
       (normalizeIdentifier (ss_Lower s) (li_Identifier input)) = Inr user"
    "run_state (loginUser ev s input (normalizeIdentifier (ss_Lower s) (li_Identifier input)) user)
       (ev_Between ev ''find login user'' w1) = (Inr res, w')"
  using assms that by (clarsimp simp only: Login_def Let_def returns simp_thms ex_simps) auto

text \<open>C7: Who is logged in named an account that is not closed and gave its password, and the account was not locked
  out as far as its failure counter could be read; the tokens belong to that account and name the built-in scopes.\<close>

theorem login_requires_password:
  assumes "run_state (Login ev s input) w = (Inr res, w')"
  shows "\<exists>user client pair. let identifier = normalizeIdentifier (ss_Lower s) (li_Identifier input);
      w1 = ev_Between ev ''find login user''
        (snd (run_state (checkEndpointLimit ev s (ss_Limiter s) ''login'' (loginLimitSubject input identifier)) w)) in
    FindAuthUserByLoginIdentifier (ev_Fault ev ''find login user'') (wd_db w1) identifier = Inr user
    \<and> us_State user \<noteq> UserStateDeleted
    \<and> verifyPassword ev s ''verify password'' (li_Password input) (us_PasswordHash user) = Inr ()
    \<and> (\<forall>fs st. ss_Failures s = Some fs
        \<and> GetLoginFailures (ev_Net ev ''login lock'') (ev_Millis ev ''login lock'') (ss_Prefix s)
            (''user:'' @ decimal (us_ID user)) (wd_redis (ev_Between ev ''login lock'' w1)) = Inr st \<longrightarrow> \<not> locked_out fs st)
    \<and> issuePair ev s user client 0 [] sessionScopes = Inr pair \<and> lg_Session res = session_result pair
    \<and> at_UserID (tp_Access pair) = us_ID user \<and> rt_UserID (tp_Refresh pair) = us_ID user"
  using assms
proof (rule Login_Inr)
  let ?idf = "normalizeIdentifier (ss_Lower s) (li_Identifier input)"
  fix user w1
  assume l: "run_state (checkEndpointLimit ev s (ss_Limiter s) ''login'' (loginLimitSubject input ?idf)) w = (Inr (), w1)"
    and f: "FindAuthUserByLoginIdentifier (ev_Fault ev ''find login user'') (wd_db (ev_Between ev ''find login user'' w1)) ?idf = Inr user"
    and u: "run_state (loginUser ev s input ?idf user) (ev_Between ev ''find login user'' w1) = (Inr res, w')"
  from u show ?thesis
  proof (rule loginUser_Inr)
    fix w2
    assume c: "run_state (checkLoginLock ev s (loginFailureKey (ss_Lower s) (Some user) ?idf)) (ev_Between ev ''find login user'' w1) = (Inr (), w2)"
      and v: "us_State user \<noteq> UserStateDeleted"
        "verifyPassword ev s ''verify password'' (li_Password input) (us_PasswordHash user) = Inr ()"
      and p: "run_state (loginProven ev s input ?idf user (loginFailureKey (ss_Lower s) (Some user) ?idf)) w2 = (Inr res, w')"
    from p obtain client pair where i: "issuePair ev s user client 0 [] sessionScopes = Inr pair" "lg_Session res = session_result pair"
      by (rule loginProven_Inr)
    show ?thesis
      by (rule exI[of _ user], rule exI[of _ client], rule exI[of _ pair])
        (use f v i issuePair_Inr(3,4)[OF i(1)] checkLoginLock_Inr[OF c] l in \<open>auto simp: Let_def loginFailureKey_def\<close>)
  qed
qed

section \<open>Refresh\<close>

text \<open>Throttling, device records and reads leave the database alone.\<close>

definition store_kept :: "'a action \<Rightarrow> bool" where
  "store_kept m \<longleftrightarrow> (\<forall>w. wd_db (snd (run_state m w)) = wd_db w)"

lemma store_keptD: "store_kept m \<Longrightarrow> run_state m w = (x, w') \<Longrightarrow> wd_db w' = wd_db w"
  unfolding store_kept_def by (metis snd_conv)

lemma store_kept_ports:
  assumes "undisturbed ev"
  shows "store_kept (checkEndpointLimit ev s l e x)" "store_kept (findInternalClient ev s)"
    "store_kept (touchSessionDevice ev s input cur pair)" "store_kept (db_read ev site q)"
  using assms
  by (auto simp: store_kept_def checkEndpointLimit_def findInternalClient_def touchSessionDevice_def TouchDevice_port_def
      process_step_def run_writes split_beta Let_def split: option.splits sum.splits)

lemma refreshLive_Inr:
  assumes "run_state (refreshLive ev s input h current) w = (Inr res, w')"
  obtains client w2 user pair where "run_state (findInternalClient ev s) w = (Inr client, w2)"
    "FindAuthUserByID (ev_Fault ev ''find refresh user'') (wd_db (ev_Between ev ''find refresh user'' w2)) (rt_UserID current) = Inr user"
    "ev_Now ev ''refresh expiry'' < rt_ExpiresAt current" "rt_ClientID current = cl_ID client" "us_State user \<noteq> UserStateDeleted"
    "issuePair ev s user client (rt_Sequence current + 1) (rt_FamilyID current) (rt_Scopes current) = Inr pair"
    "run_state (refreshRotate ev s input h current pair) (ev_Between ev ''find refresh user'' w2) = (Inr res, w')"
  using assms that by (clarsimp simp only: refreshLive_def Let_def returns) auto

lemma Refresh_Inr:
  assumes "run_state (Refresh ev s input) w = (Inr res, w')"
  obtains tokenHash current pair client user w2 where "hashRefreshToken s (ri_RefreshToken input) = Inr tokenHash"
    "rt_RevokedAt current = None" "ev_Now ev ''refresh expiry'' < rt_ExpiresAt current" "rt_ClientID current = cl_ID client"
    "us_State user \<noteq> UserStateDeleted"
    "issuePair ev s user client (rt_Sequence current + 1) (rt_FamilyID current) (rt_Scopes current) = Inr pair"
    "run_state (refreshRotate ev s input tokenHash current pair) w2 = (Inr res, w')"
    "undisturbed ev \<Longrightarrow> wd_db w2 = wd_db w
      \<and> FindRefreshToken (ev_Fault ev ''find refresh token'') (wd_db w) tokenHash = Inr current
      \<and> FindAuthUserByID (ev_Fault ev ''find refresh user'') (wd_db w) (rt_UserID current) = Inr user"
proof -
  have no: "run_state (refreshRevoked ev s input current t) w2 \<noteq> (Inr res, w')" for current t w2
    by (auto simp: refreshRevoked_def Let_def split_beta split: option.splits sum.splits if_splits)
  obtain tokenHash w1 current where h: "hashRefreshToken s (ri_RefreshToken input) = Inr tokenHash"
    and c: "run_state (checkEndpointLimit ev s (ss_RefreshLimiter s) ''refresh'' (TrimSpace (ri_ClientIP input))) w = (Inr (), w1)"
    and f: "FindRefreshToken (ev_Fault ev ''find refresh token'') (wd_db (ev_Between ev ''find refresh token'' w1)) tokenHash = Inr current"
    and l: "rt_RevokedAt current = None"
    and r: "run_state (refreshLive ev s input tokenHash current) (ev_Between ev ''find refresh token'' w1) = (Inr res, w')"
    using assms no by (clarsimp simp only: Refresh_def returns) (auto split: option.splits)
  from r obtain client w2 user pair where
      "run_state (findInternalClient ev s) (ev_Between ev ''find refresh token'' w1) = (Inr client, w2)"
      "FindAuthUserByID (ev_Fault ev ''find refresh user'') (wd_db (ev_Between ev ''find refresh user'' w2)) (rt_UserID current) = Inr user"
    and k: "ev_Now ev ''refresh expiry'' < rt_ExpiresAt current" "rt_ClientID current = cl_ID client" "us_State user \<noteq> UserStateDeleted"
      "issuePair ev s user client (rt_Sequence current + 1) (rt_FamilyID current) (rt_Scopes current) = Inr pair"
      "run_state (refreshRotate ev s input tokenHash current pair) (ev_Between ev ''find refresh user'' w2) = (Inr res, w')"
    by (rule refreshLive_Inr)
  then have "undisturbed ev \<Longrightarrow> wd_db (ev_Between ev ''find refresh user'' w2) = wd_db w
      \<and> FindRefreshToken (ev_Fault ev ''find refresh token'') (wd_db w) tokenHash = Inr current
      \<and> FindAuthUserByID (ev_Fault ev ''find refresh user'') (wd_db w) (rt_UserID current) = Inr user"
    using f store_keptD[OF store_kept_ports(1) c] store_keptD[OF store_kept_ports(2)[of ev s]] by fastforce
  then show thesis by (rule that[OF h l k])
qed

lemma rotated_dead:
  assumes "rotateRefreshToken flt now f h a r au m db = (Inr x, db')" "token_inv db"
  shows "refresh_dead h db'" "h \<in> rt_TokenHash ` set (db_refresh db')" "token_inv db'"
proof -
  obtain origin a' r' where ok: "rotateRefreshToken flt now f h a r au m db = (Inr (origin, a', r'), db')"
    using assms(1) by (cases x) auto
  show inv: "token_inv db'" using token_inv_rotateRefreshToken[OF assms(2), of flt now f h a r au m] ok by simp
  have "\<exists>c\<in>set (db_refresh db'). rt_TokenHash c = h \<and> rt_RevokedAt c \<noteq> None"
    using ok
  proof (rule rotateRefreshToken_InrE)
    fix a0 r0 c
    assume c: "c \<in> set (db_refresh db)" "rt_TokenHash c = h" "rt_RevokedAt c = None"
      and w: "rotateWrites flt now c origin (clampAccess m origin a0) (clampRefresh m origin r0) au db = Inr (Rotated origin a' r', db')"
    have "c\<lparr>rt_RevokedAt := Some now\<rparr> \<in> set (db_refresh (cut_current now c db))"
      using c by (auto simp: cut_current_def set_update_where)
    then have "c\<lparr>rt_RevokedAt := Some now\<rparr> \<in> set (db_refresh db')"
      using rotateWrites_InrD(1)[OF w] by (auto simp: append_pair_def)
    then show ?thesis using c(2) by (intro bexI[of _ "c\<lparr>rt_RevokedAt := Some now\<rparr>"]) simp_all
  qed
  then show "refresh_dead h db'" "h \<in> rt_TokenHash ` set (db_refresh db')" using refresh_dead_of_revoked[OF inv] by auto
qed

definition spent :: "string \<Rightarrow> database \<Rightarrow> bool" where
  "spent h db \<longleftrightarrow> refresh_dead h db \<and> h \<in> rt_TokenHash ` set (db_refresh db)"

lemma spent_cong: "db_refresh db' = db_refresh db \<Longrightarrow> spent h db' = spent h db"
  by (simp add: spent_def refresh_dead_def)

lemma spent_cut: "spent h db \<Longrightarrow> spent h (cut_family f t db)"
proof -
  have "rt_TokenHash ` set (db_refresh (cut_family f t db)) = rt_TokenHash ` set (db_refresh db)"
    by (simp add: cut_family_def cut_tokens_def revoke_refresh_def revoke_access_def image_update_where)
  then show "spent h db \<Longrightarrow> spent h (cut_family f t db)" by (simp add: spent_def cut_family_def dead.cut)
qed

lemma spent_RevokeFamily: "spent h db \<Longrightarrow> spent h (snd (RevokeFamily flt f t db))"
proof (cases rule: transaction_cases[of "\<lambda>db. stmt flt ''lock token family'' (revokeFamilyInTransaction flt f t db)" db flt])
  case (commit es db')
  then have "RevokeFamily flt f t db = (Inr es, db')" by (simp add: RevokeFamily_def)
  then show "spent h db \<Longrightarrow> ?thesis" using spent_cut RevokeFamily_Inr(2) by fastforce
qed (simp add: RevokeFamily_def)

lemma spent_eviction:
  assumes "undisturbed ev" "spent h (wd_db w)"
  shows "spent h (wd_db (snd (run_state (revokeEvictedDevice ev s u evicted ip ua) w)))"
proof -
  have "db_refresh (snd (CreateAuditLog flt x db)) = db_refresh db" for flt x db
    by (auto simp: CreateAuditLog_def stmt_def Let_def split: option.splits sum.splits prod.splits)
  then have "spent h (wd_db (snd (run_state (audit ev s site uid action resource rid actr success code ip ua detail) w')))
      = spent h (wd_db w')" for site uid action resource rid actr success code detail w'
    using assms(1) by (intro spent_cong) (simp add: audit_def run_writes split_beta)
  moreover have "wd_db (snd (run_state (dropDevice ev s site u f) w')) = wd_db w'" for site f w'
    using assms(1) by (simp add: dropDevice_def run_writes split_beta split: option.split)
  moreover have "wd_db (snd (run_state (DeliverBlacklist ev (ss_Blacklist s) es t) w')) = wd_db w'" for es t w'
    using assms(1) by (simp add: DeliverBlacklist_def Let_def run_writes split_beta split: option.split)
  ultimately show ?thesis
    using assms spent_RevokeFamily[OF assms(2)]
    by (auto simp: revokeEvictedDevice_def Let_def run_writes split_beta split: sum.split)
qed

lemma refreshRotate_spent:
  assumes "run_state (refreshRotate ev s input h current pair) w = (Inr res, w')" "undisturbed ev" "token_inv (wd_db w)"
  shows "spent h (wd_db w')" "res = session_result pair"
proof -
  obtain evicted w1 x w2 where t: "run_state (touchSessionDevice ev s input current pair) w = (evicted, w1)"
    and r: "run_state (db_write ev ''rotate'' (\<lambda>flt db. RotateRefreshTokenWithAudit flt (ev_Now ev ''rotate'') (rt_FamilyID current) h
            (Some (tp_Access pair)) (Some (tp_Refresh pair)) (refresh_audit ev s current input) db)) w1 = (Inr x, w2)"
    and e: "w' = snd (run_state (revokeEvictedDevice ev s (rt_UserID current) evicted (ri_ClientIP input) (ri_UserAgent input)) w2)"
    and res: "res = session_result pair"
    using assms(1) by (clarsimp simp only: refreshRotate_def returns) (auto simp: split_beta)
  have "wd_db w1 = wd_db w" using store_keptD[OF store_kept_ports(3)[OF assms(2)] t] .
  then have "rotateRefreshToken (ev_Fault ev ''rotate'') (ev_Now ev ''rotate'') (rt_FamilyID current) h (Some (tp_Access pair))
      (Some (tp_Refresh pair)) (refresh_audit ev s current input) 0 (wd_db w) = (Inr x, wd_db w2)"
    using r assms(2) by (auto simp: run_writes RotateRefreshTokenWithAudit_def split: prod.splits)
  from rotated_dead(1,2)[OF this assms(3)] have "spent h (wd_db w2)" by (simp add: spent_def)
  then show "spent h (wd_db w')" unfolding e by (rule spent_eviction[OF assms(2)])
  show "res = session_result pair" by (rule res)
qed

text \<open>A step of the store that leaves the row of a refresh token in place.\<close>

definition keeps_row :: "string \<Rightarrow> database \<Rightarrow> database \<Rightarrow> bool" where
  "keeps_row h db db' \<longleftrightarrow> store_step db db' \<and> h \<in> rt_TokenHash ` set (db_refresh db')"

lemma spent_forever: "(keeps_row h)\<^sup>*\<^sup>* db db' \<Longrightarrow> spent h db \<Longrightarrow> spent h db'"
  by (induction rule: rtranclp_induct) (auto simp: keeps_row_def spent_def intro: refresh_dead_step)

lemma dead_refresh_refused:
  assumes "undisturbed ev" "refresh_dead h (wd_db w)" "hashRefreshToken s (ri_RefreshToken input) = Inr h"
  shows "\<exists>e. fst (run_state (Refresh ev s input) w) = Inl e"
proof (cases "fst (run_state (Refresh ev s input) w)")
  case (Inr res)
  then have "run_state (Refresh ev s input) w = (Inr res, snd (run_state (Refresh ev s input) w))" by (simp add: prod_eq_iff)
  then show ?thesis
  proof (rule Refresh_Inr)
    fix h' current w2 user
    assume "hashRefreshToken s (ri_RefreshToken input) = Inr h'" "rt_RevokedAt current = None"
      and d: "undisturbed ev \<Longrightarrow> wd_db w2 = wd_db w
      \<and> FindRefreshToken (ev_Fault ev ''find refresh token'') (wd_db w) h' = Inr current
      \<and> FindAuthUserByID (ev_Fault ev ''find refresh user'') (wd_db w) (rt_UserID current) = Inr user"
    moreover have "FindRefreshToken (ev_Fault ev ''find refresh token'') (wd_db w) h' = Inr current" using d[OF assms(1)] by simp
    ultimately show ?thesis using assms(2,3)
      by (auto simp: FindRefreshToken_def stmt_Inr_iff refresh_dead_def split: option.splits dest!: find_SomeD)
  qed
qed simp

text \<open>C3: A refresh token renews a session at most once: the call that succeeded found its row live and unexpired
  with a live owner, and every later call with the same token is refused, whatever happened in
  between, as long as the row is stored.\<close>

theorem refresh_token_single_use:
  assumes "run_state (Refresh ev s input) w = (Inr res, w')" "undisturbed ev" "token_inv (wd_db w)"
  shows "\<exists>h current user. hashRefreshToken s (ri_RefreshToken input) = Inr h
    \<and> FindRefreshToken (ev_Fault ev ''find refresh token'') (wd_db w) h = Inr current
    \<and> rt_RevokedAt current = None \<and> ev_Now ev ''refresh expiry'' < rt_ExpiresAt current
    \<and> FindAuthUserByID (ev_Fault ev ''find refresh user'') (wd_db w) (rt_UserID current) = Inr user \<and> us_State user \<noteq> UserStateDeleted
    \<and> (\<forall>ev2 input2 w2. (keeps_row h)\<^sup>*\<^sup>* (wd_db w') (wd_db w2) \<and> undisturbed ev2 \<and> ri_RefreshToken input2 = ri_RefreshToken input
        \<longrightarrow> (\<exists>e. fst (run_state (Refresh ev2 s input2) w2) = Inl e))"
  using assms(1)
proof (rule Refresh_Inr)
  fix h current pair user w2
  assume h: "hashRefreshToken s (ri_RefreshToken input) = Inr h"
    and c: "rt_RevokedAt current = None" "ev_Now ev ''refresh expiry'' < rt_ExpiresAt current" "us_State user \<noteq> UserStateDeleted"
    and r: "run_state (refreshRotate ev s input h current pair) w2 = (Inr res, w')"
    and d: "undisturbed ev \<Longrightarrow> wd_db w2 = wd_db w
      \<and> FindRefreshToken (ev_Fault ev ''find refresh token'') (wd_db w) h = Inr current
      \<and> FindAuthUserByID (ev_Fault ev ''find refresh user'') (wd_db w) (rt_UserID current) = Inr user"
  have "spent h (wd_db w')" using refreshRotate_spent(1)[OF r assms(2)] d[OF assms(2)] assms(3) by simp
  then have "\<exists>e. fst (run_state (Refresh ev2 s input2) w3) = Inl e"
    if "(keeps_row h)\<^sup>*\<^sup>* (wd_db w') (wd_db w3)" "undisturbed ev2" "ri_RefreshToken input2 = ri_RefreshToken input" for ev2 input2 w3
    using dead_refresh_refused[OF that(2), of h w3 s input2] spent_forever[OF that(1)] h that(3) by (simp add: spent_def)
  then show ?thesis using h c d[OF assms(2)]
    by (intro exI[of _ h] exI[of _ current] exI[of _ user]) simp
qed

section \<open>Password changes\<close>

lemma store_kept_deliveries:
  assumes "undisturbed ev"
  shows "store_kept (DeliverBlacklist ev port es t)" "store_kept (clearLoginFailures ev s user email)"
    "store_kept (dropAllDevices ev s u)"
  using assms
  by (auto simp: store_kept_def DeliverBlacklist_def clearLoginFailures_def ResetFailures_def dropAllDevices_def run_writes
      split_beta Let_def split: option.splits)

text \<open>Deleting entries of Redis leaves the other ones as they were.\<close>

definition forgets :: "redis \<Rightarrow> redis \<Rightarrow> bool" where
  "forgets r r' \<longleftrightarrow> (\<forall>k. rs_string r' k = rs_string r k \<or> rs_string r' k = None)"

lemma forgets_refl [simp]: "forgets r r" by (simp add: forgets_def)

lemma forgets_trans: "forgets r r' \<Longrightarrow> forgets r' r'' \<Longrightarrow> forgets r r''"
  unfolding forgets_def by metis

lemma forgets_silent: "forgets r r' \<Longrightarrow> cache_silent a jti r \<Longrightarrow> cache_silent a jti r'"
  unfolding forgets_def cache_silent_def by (metis option.distinct(1))

lemma forgets_ResetFailures:
  "undisturbed ev \<Longrightarrow> forgets (wd_redis w) (wd_redis (snd (run_state (ResetFailures ev s site i) w)))"
  by (cases "ev_Net ev site")
    (auto simp: ResetFailures_def run_writes ResetLoginFailures_def call_def cmd_del_def forgets_def split_beta)

lemma forgets_clearLoginFailures:
  "undisturbed ev \<Longrightarrow> forgets (wd_redis w) (wd_redis (snd (run_state (clearLoginFailures ev s user email) w)))"
  by (auto simp: clearLoginFailures_def Let_def split_beta intro: forgets_ResetFailures forgets_trans split: option.splits)

lemma forgets_dropAllDevices:
  assumes "undisturbed ev"
  shows "forgets (wd_redis w) (wd_redis (snd (run_state (dropAllDevices ev s u) w)))"
proof -
  have "rs_string (fold (\<lambda>m. hash_del (pre @ m)) ms r) = rs_string r" for pre ms r
    by (induction ms arbitrary: r) (simp_all add: hash_del_def)
  then show ?thesis using assms
    by (cases "ev_Net ev ''remove all devices''")
      (auto simp: dropAllDevices_def run_writes RemoveAllDevices_def call_def zset_del_def forgets_def split_beta split: option.splits)
qed

lemma replacePassword_Inr:
  assumes "run_state (replacePassword ev s user password reason email failure) w = (Inr x, w')" "undisturbed ev"
  obtains passwordHash es where "hashPassword ev s ''hash password'' password = Inr passwordHash"
    "UpdatePasswordAndRevokeSessions (ev_Fault ev ''update password'') (us_ID user) passwordHash (ev_Now ev ''update password'')
       reason (wd_db w) = (Inr es, wd_db w')"
    "forgets (wd_redis (snd (run_state (DeliverBlacklist ev (ss_Blacklist s) es (ev_Now ev ''update password'')) (w\<lparr>wd_db := wd_db w'\<rparr>))))
       (wd_redis w')"
proof -
  obtain h where h: "hashPassword ev s ''hash password'' password = Inr h"
    using assms(1) by (auto simp: replacePassword_def split: sum.splits)
  obtain es db' where u: "UpdatePasswordAndRevokeSessions (ev_Fault ev ''update password'') (us_ID user) h
      (ev_Now ev ''update password'') reason (wd_db w) = (Inr es, db')"
    using assms h by (auto simp: replacePassword_def Let_def run_writes split_beta split: sum.splits) (metis prod.collapse)
  have "wd_db w' = db'"
    using assms h u store_kept_deliveries[OF assms(2)]
    by (auto simp: replacePassword_def Let_def run_writes store_kept_def split_beta)
  moreover have "forgets (wd_redis (snd (run_state (DeliverBlacklist ev (ss_Blacklist s) es (ev_Now ev ''update password'')) (w\<lparr>wd_db := db'\<rparr>))))
      (wd_redis w')"
    using assms h u
    by (auto simp: replacePassword_def Let_def run_writes split_beta intro: forgets_trans[OF forgets_clearLoginFailures forgets_dropAllDevices])
  ultimately show thesis using that h u by simp
qed

lemma audit_tables:
  assumes "undisturbed ev"
  shows "db_access (wd_db (snd (run_state (audit ev s site u a r ri ac b n ip ua d) w))) = db_access (wd_db w)"
    "db_refresh (wd_db (snd (run_state (audit ev s site u a r ri ac b n ip ua d) w))) = db_refresh (wd_db w)"
    "db_outbox (wd_db (snd (run_state (audit ev s site u a r ri ac b n ip ua d) w))) = db_outbox (wd_db w)"
    "wd_redis (snd (run_state (audit ev s site u a r ri ac b n ip ua d) w)) = wd_redis w"
proof -
  have "db_access (snd (CreateAuditLog flt x db)) = db_access db \<and> db_refresh (snd (CreateAuditLog flt x db)) = db_refresh db
    \<and> db_outbox (snd (CreateAuditLog flt x db)) = db_outbox db" for flt x db
    by (auto simp: CreateAuditLog_def stmt_def Let_def split: option.splits sum.splits prod.splits)
  then show "db_access (wd_db (snd (run_state (audit ev s site u a r ri ac b n ip ua d) w))) = db_access (wd_db w)"
    "db_refresh (wd_db (snd (run_state (audit ev s site u a r ri ac b n ip ua d) w))) = db_refresh (wd_db w)"
    "db_outbox (wd_db (snd (run_state (audit ev s site u a r ri ac b n ip ua d) w))) = db_outbox (wd_db w)"
    "wd_redis (snd (run_state (audit ev s site u a r ri ac b n ip ua d) w)) = wd_redis w"
    using assms by (simp_all add: audit_def run_writes split_beta)
qed

lemma ChangePassword_Inr:
  assumes "run_state (ChangePassword ev s input) w = (Inr x, w')" "undisturbed ev"
  obtains user passwordHash es db' where "MinPasswordLength \<le> length (cp_NewPassword input)"
    "FindAuthUserByID (ev_Fault ev ''find account'') (wd_db w) (cp_UserID input) = Inr user" "us_State user \<noteq> UserStateDeleted"
    "verifyPassword ev s ''verify password'' (cp_OldPassword input) (us_PasswordHash user) = Inr ()"
    "hashPassword ev s ''hash password'' (cp_NewPassword input) = Inr passwordHash"
    "UpdatePasswordAndRevokeSessions (ev_Fault ev ''update password'') (us_ID user) passwordHash (ev_Now ev ''update password'')
       RevokeReasonPasswordChanged (wd_db w) = (Inr es, db')"
    "db_access (wd_db w') = db_access db'" "db_refresh (wd_db w') = db_refresh db'" "db_outbox (wd_db w') = db_outbox db'"
    "forgets (wd_redis (snd (run_state (DeliverBlacklist ev (ss_Blacklist s) es (ev_Now ev ''update password'')) (w\<lparr>wd_db := db'\<rparr>))))
       (wd_redis w')"
proof -
  obtain user w1 where u: "MinPasswordLength \<le> length (cp_NewPassword input)"
      "FindAuthUserByID (ev_Fault ev ''find account'') (wd_db w) (cp_UserID input) = Inr user" "us_State user \<noteq> UserStateDeleted"
      "verifyPassword ev s ''verify password'' (cp_OldPassword input) (us_PasswordHash user) = Inr ()"
    and r: "run_state (replacePassword ev s user (cp_NewPassword input) RevokeReasonPasswordChanged (us_LoginEmail user)
        ''change password failed'') w = (Inr (), w1)"
    and w': "w' = snd (run_state (audit ev s ''audit'' (Some (us_ID user)) ''change_password'' ''session'' None (actor s (cp_ActorClientID input))
        True 0 (cp_ClientIP input) (cp_UserAgent input) None) w1)"
    using assms by (clarsimp simp only: ChangePassword_def Let_def returns) (auto simp: split_beta not_less)
  from r assms(2) obtain h es where "hashPassword ev s ''hash password'' (cp_NewPassword input) = Inr h"
    "UpdatePasswordAndRevokeSessions (ev_Fault ev ''update password'') (us_ID user) h (ev_Now ev ''update password'')
       RevokeReasonPasswordChanged (wd_db w) = (Inr es, wd_db w1)"
    "forgets (wd_redis (snd (run_state (DeliverBlacklist ev (ss_Blacklist s) es (ev_Now ev ''update password'')) (w\<lparr>wd_db := wd_db w1\<rparr>))))
       (wd_redis w1)"
    by (rule replacePassword_Inr)
  then show thesis using that u w' audit_tables[OF assms(2)] by simp
qed

text \<open>The rows of a user after a password change.\<close>

lemma updatePassword_dead:
  assumes "UpdatePasswordAndRevokeSessions flt u p t reason db = (Inr es, db')" "token_inv db"
  shows "\<And>row. row \<in> set (db_access db) \<Longrightarrow> at_UserID row = u \<Longrightarrow> token_dead (at_TokenID row) db'"
    and "\<And>r. r \<in> set (db_refresh db) \<Longrightarrow> rt_UserID r = u \<Longrightarrow> refresh_dead (rt_TokenHash r) db'"
    and "\<And>row. row \<in> set (db_access db) \<Longrightarrow> at_UserID row = u \<Longrightarrow> at_RevokedAt row = None \<Longrightarrow> t < at_ExpiresAt row
      \<Longrightarrow> pending_delivery db' (at_TokenID row) (at_ExpiresAt row)
        \<and> \<lparr>be_TokenID = at_TokenID row, be_ExpiresAt = at_ExpiresAt row\<rparr> \<in> set es"
proof -
  let ?db1 = "db\<lparr>db_users := update_where (\<lambda>x. us_ID x = u)
      (\<lambda>x. x\<lparr>us_PasswordHash := p, us_TokenVersion := us_TokenVersion x + 1\<rparr>) (db_users db)\<rparr>"
  have db': "db' = cut_tokens (\<lambda>a. at_UserID a = u) (\<lambda>r. rt_UserID r = u) t (Some reason) (burn_codes u t ?db1)"
    using revokeAllByUser_InrD(2)[OF updatePassword_InrD[OF assms(1)]] .
  have "token_inv ?db1" by (rule tokens.account_write[OF assms(2) password_effect])
  then have inv: "token_inv (burn_codes u t ?db1)" by (rule tokens.codes)
  have tables: "db_access (burn_codes u t ?db1) = db_access db" "db_refresh (burn_codes u t ?db1) = db_refresh db"
    by (simp_all add: burn_codes_def)
  show "token_dead (at_TokenID row) db'" if "row \<in> set (db_access db)" "at_UserID row = u" for row
    unfolding db' using that by (intro cut_tokens_token_dead[OF inv]) (simp_all add: tables)
  show "pending_delivery db' (at_TokenID row) (at_ExpiresAt row) \<and> \<lparr>be_TokenID = at_TokenID row, be_ExpiresAt = at_ExpiresAt row\<rparr> \<in> set es"
    if "row \<in> set (db_access db)" "at_UserID row = u" "at_RevokedAt row = None" "t < at_ExpiresAt row" for row
    using that cut_tokens_delivers[OF inv, of row "\<lambda>a. at_UserID a = u"] revokeAllByUser_InrD(1)[OF updatePassword_InrD[OF assms(1)]]
    by (auto simp: db' tables live_entries_def)
  show "refresh_dead (rt_TokenHash r) db'" if r: "r \<in> set (db_refresh db)" "rt_UserID r = u" for r
    unfolding refresh_dead_def
  proof (intro ballI impI)
    fix x
    assume x: "x \<in> set (db_refresh db')" "rt_TokenHash x = rt_TokenHash r"
    then obtain y where y: "y \<in> set (db_refresh db)" "rt_TokenHash y = rt_TokenHash x" "rt_UserID y = rt_UserID x"
      unfolding db' by (auto simp: db_refresh_cut_tokens revoke_refresh_def tables elim!: in_update_whereE split: if_splits)
    have "distinct (map rt_TokenHash (db_refresh db))" using assms(2) by (simp add: token_inv_def keys_inv_def)
    then have "y = r" using y(1,2) x(2) r(1) by (metis distinct_map_inj)
    then show "rt_RevokedAt x \<noteq> None" using cut_refresh_dead[OF x(1)[unfolded db']] y(3) r(2) by metis
  qed
qed

text \<open>C10: A password change was asked for with the present password of a live account, and ends its sessions. Every
  access token issued to the account before is refused by an authenticator that keeps no cache; one that was still
  live is also queued in the outbox, and refused by an authenticator with a cache, whatever the cache held before,
  if the tombstones reached Redis during the call. Every refresh token issued to the account before is refused.
  The change answers also when the tombstones did not reach Redis; until the outbox row is delivered a state
  cached before may then still serve.\<close>

theorem password_change_ends_sessions:
  assumes "run_state (ChangePassword ev s input) w = (Inr x, w')" "undisturbed ev" "token_inv (wd_db w)"
  shows "\<exists>user. FindAuthUserByID (ev_Fault ev ''find account'') (wd_db w) (cp_UserID input) = Inr user
    \<and> us_State user \<noteq> UserStateDeleted \<and> MinPasswordLength \<le> length (cp_NewPassword input)
    \<and> verifyPassword ev s ''verify password'' (cp_OldPassword input) (us_PasswordHash user) = Inr ()
    \<and> (\<forall>row. row \<in> set (db_access (wd_db w)) \<and> at_UserID row = cp_UserID input \<longrightarrow>
        (\<forall>ev' a header token m claims. undisturbed ev' \<and> strictBearerToken header = Some token \<and> am_JWT a = Some m
            \<and> verifyToken ev' a m token = Inr claims \<and> tc_ID claims = at_TokenID row
            \<and> (\<not> am_Cache a \<or> no_stale_cache ev (ss_Blacklist s) a \<and> at_RevokedAt row = None
                 \<and> ev_Now ev ''update password'' < at_ExpiresAt row \<and> TrimSpace (at_TokenID row) \<noteq> [])
          \<longrightarrow> (\<exists>e. fst (run_state (authenticate ev' a header) w') = Inl e))
        \<and> (at_RevokedAt row = None \<and> ev_Now ev ''update password'' < at_ExpiresAt row
          \<longrightarrow> pending_delivery (wd_db w') (at_TokenID row) (at_ExpiresAt row)))
    \<and> (\<forall>r ev' input'. r \<in> set (db_refresh (wd_db w)) \<and> rt_UserID r = cp_UserID input \<and> undisturbed ev'
        \<and> hashRefreshToken s (ri_RefreshToken input') = Inr (rt_TokenHash r)
        \<longrightarrow> (\<exists>e. fst (run_state (Refresh ev' s input') w') = Inl e))"
  using assms(1,2)
proof (rule ChangePassword_Inr)
  fix user h es db'
  assume c: "MinPasswordLength \<le> length (cp_NewPassword input)"
      "FindAuthUserByID (ev_Fault ev ''find account'') (wd_db w) (cp_UserID input) = Inr user" "us_State user \<noteq> UserStateDeleted"
      "verifyPassword ev s ''verify password'' (cp_OldPassword input) (us_PasswordHash user) = Inr ()"
    and u: "UpdatePasswordAndRevokeSessions (ev_Fault ev ''update password'') (us_ID user) h (ev_Now ev ''update password'')
       RevokeReasonPasswordChanged (wd_db w) = (Inr es, db')"
    and t: "db_access (wd_db w') = db_access db'" "db_refresh (wd_db w') = db_refresh db'" "db_outbox (wd_db w') = db_outbox db'"
      "forgets (wd_redis (snd (run_state (DeliverBlacklist ev (ss_Blacklist s) es (ev_Now ev ''update password'')) (w\<lparr>wd_db := db'\<rparr>))))
         (wd_redis w')"
  have id: "us_ID user = cp_UserID input"
    using c(2) by (auto simp: FindAuthUserByID_def find_or_missing_def stmt_Inr_iff split: option.splits if_splits dest!: find_SomeD)
  note dead = updatePassword_dead[OF u assms(3), unfolded id]
  have silent: "cache_silent a (at_TokenID row) (wd_redis w')"
    if "row \<in> set (db_access (wd_db w))" "at_UserID row = cp_UserID input"
      "\<not> am_Cache a \<or> no_stale_cache ev (ss_Blacklist s) a \<and> at_RevokedAt row = None
         \<and> ev_Now ev ''update password'' < at_ExpiresAt row \<and> TrimSpace (at_TokenID row) \<noteq> []" for row a
  proof (cases "am_Cache a")
    case True
    then have l: "no_stale_cache ev (ss_Blacklist s) a" "at_RevokedAt row = None" "ev_Now ev ''update password'' < at_ExpiresAt row"
      "TrimSpace (at_TokenID row) \<noteq> []" using that(3) by auto
    let ?e = "\<lparr>be_TokenID = at_TokenID row, be_ExpiresAt = at_ExpiresAt row\<rparr>"
    have "?e \<in> set es" "deliverable (ev_Now ev ''update password'') ?e" using dead(3)[OF that(1,2) l(2,3)] l(3,4) by (auto simp: deliverable_def)
    from deliver_silences[OF assms(2) l(1) this] show ?thesis by (intro forgets_silent[OF t(4)]) simp
  qed (simp add: cache_silent_def)
  have access: "\<exists>e. fst (run_state (authenticate ev' a header) w') = Inl e"
    if "row \<in> set (db_access (wd_db w))" "at_UserID row = cp_UserID input" "undisturbed ev'"
      "strictBearerToken header = Some token" "am_JWT a = Some m" "verifyToken ev' a m token = Inr claims" "tc_ID claims = at_TokenID row"
      "\<not> am_Cache a \<or> no_stale_cache ev (ss_Blacklist s) a \<and> at_RevokedAt row = None
         \<and> ev_Now ev ''update password'' < at_ExpiresAt row \<and> TrimSpace (at_TokenID row) \<noteq> []"
    for row ev' a header token m claims
    using dead(1)[OF that(1,2)] t(1)
    by (intro dead_token_refused[OF that(3) _ silent[OF that(1,2,8)] that(4-7)]) (simp add: token_dead_def)
  have refresh: "\<exists>e. fst (run_state (Refresh ev' s input') w') = Inl e"
    if "r \<in> set (db_refresh (wd_db w))" "rt_UserID r = cp_UserID input" "undisturbed ev'"
      "hashRefreshToken s (ri_RefreshToken input') = Inr (rt_TokenHash r)" for r ev' input'
    using dead(2)[OF that(1,2)] t(2) by (intro dead_refresh_refused[OF that(3) _ that(4)]) (simp add: refresh_dead_def)
  have queued: "pending_delivery (wd_db w') (at_TokenID row) (at_ExpiresAt row)"
    if "row \<in> set (db_access (wd_db w))" "at_UserID row = cp_UserID input" "at_RevokedAt row = None" "ev_Now ev ''update password'' < at_ExpiresAt row" for row
    using dead(3)[OF that] t(3) by (simp add: pending_delivery_def)
  show ?thesis using c access refresh queued by (intro exI[of _ user] conjI allI impI) blast+
qed

section \<open>Registration codes\<close>

text \<open>The entry of the registration code of an address.\<close>

abbreviation code_key :: "session_service \<Rightarrow> string \<Rightarrow> string" where
  "code_key s email \<equiv> VerifyCode (ss_Prefix s) VerificationPurposeRegister (StripSubaddress (ss_Lower s) email)"

lemma verify_ticket_keys [simp]: "VerifyCode pre p e \<noteq> RegisterTicket pre t" "VerificationCodeAttempt pre p e \<noteq> RegisterTicket pre t"
  using render_key_inject[of pre "VerifyCodeKey p e" "RegisterTicketKey t"] render_key_inject[of pre "AttemptKey p e" "RegisterTicketKey t"]
  by auto

lemma audit_redis: "undisturbed ev \<Longrightarrow> wd_redis (snd (run_state (audit ev s site u a r ri ac b n ip ua d) w)) = wd_redis w"
  "undisturbed ev \<Longrightarrow> wd_mail (snd (run_state (audit ev s site u a r ri ac b n ip ua d) w)) = wd_mail w"
  by (simp_all add: audit_def run_writes split_beta)

lemma SendRegisterCode_Inr:
  assumes "run_state (SendRegisterCode ev s i) w = (Inr email, w1)" "undisturbed ev"
  obtains code where "email = normalizeIdentifier (ss_Lower s) (mi_Email i)" "email \<noteq> []" "checkRegisterEmail email = Inr ()"
    "code \<noteq> []" "StripSubaddress (ss_Lower s) email \<noteq> []"
    "rs_string (wd_redis w1) (code_key s email) = Some (code, Some (ev_Millis ev ''save code'' + Milliseconds verificationTTL))"
    "last (wd_mail w1) = \<lparr>ml_To = email, ml_Code = code, ml_Purpose = VerificationPurposeRegister\<rparr>"
proof -
  let ?email = "normalizeIdentifier (ss_Lower s) (mi_Email i)"
  obtain code w2 where g: "?email \<noteq> []" "checkRegisterEmail ?email = Inr ()"
    and save: "fst (run_state (saveCode ev s VerificationPurposeRegister ?email code) w2) = Inr ()"
    and rest: "w1 = snd (run_state (audit ev s ''audit'' None ''register_send_code'' ''verification_code'' None None True 0
         (mi_ClientIP i) (mi_UserAgent i) (Some [(''login_email'', JString ?email)]))
         (snd (run_state (SendVerificationCode ev ?email code VerificationPurposeRegister)
           (snd (run_state (saveCode ev s VerificationPurposeRegister ?email code) w2)))))" "email = ?email"
    using assms(1)
    by (clarsimp simp only: SendRegisterCode_def Let_def returns) (auto split: option.splits if_splits simp: returns split_beta)
  have "SaveVerificationCode (ev_Net ev ''save code'') (ev_Millis ev ''save code'') (ss_Prefix s) VerificationPurposeRegister
      (StripSubaddress (ss_Lower s) ?email) code verificationTTL (wd_redis w2)
      = (Inr (), wd_redis (snd (run_state (saveCode ev s VerificationPurposeRegister ?email code) w2)))"
    using save assms(2) by (simp add: saveCode_def run_writes split_beta prod_eq_iff)
  note c = SaveVerificationCode_state[OF this]
  show thesis
    by (rule that[of code]) (use g rest c assms(2) in \<open>simp_all add: audit_redis code_state_def SendVerificationCode_def process_step_def\<close>)
qed

lemma verifyCode_match:
  assumes "undisturbed ev" "ev_Net ev ''verify code'' = Delivered" "ev_Millis ev ''verify code'' < d"
    and "rs_string (wd_redis w) (VerifyCode (ss_Prefix s) p (StripSubaddress (ss_Lower s) email)) = Some (code, Some d)"
    and "p \<noteq> []" "StripSubaddress (ss_Lower s) email \<noteq> []" "code \<noteq> []"
  shows "run_state (verifyCode ev s p email code) w = (Inr (), w\<lparr>wd_redis :=
    cmd_del (VerificationCodeAttempt (ss_Prefix s) p (StripSubaddress (ss_Lower s) email))
      (cmd_del (VerifyCode (ss_Prefix s) p (StripSubaddress (ss_Lower s) email)) (wd_redis w))\<rparr>)"
  using assms
  by (simp add: verifyCode_def run_writes VerifyVerificationCode_def verificationCodeAttemptScript_def cmd_get_def value_at_def
      entry_def alive_def redisInt_def max_int64_def)

lemma verifyCode_gone:
  assumes "undisturbed ev" "rs_string (wd_redis w) (VerifyCode (ss_Prefix s) p (StripSubaddress (ss_Lower s) email)) = None"
  shows "run_state (verifyCode ev s p email code) w \<noteq> (Inr (), w')"
  using assms
  by (cases "ev_Net ev ''verify code''") (auto simp: verifyCode_def run_writes VerifyVerificationCode_def verificationCodeAttemptScript_def cmd_get_def value_at_def
      entry_def alive_def redisInt_def max_int64_def call_def split: if_splits)

text \<open>C37: The code in the registration mail, submitted for the same address within five minutes, is exchanged for
  a ticket of that address; submitted once more, it is refused.\<close>

theorem registration_code_roundtrip:
  assumes "run_state (SendRegisterCode ev s i) w = (Inr email, w1)" "undisturbed ev"
    and "vr_Email j = mi_Email i" "vr_Code j = ml_Code (last (wd_mail w1))"
    and "undisturbed ev'" "ev_Net ev' ''verify code'' = Delivered" "ev_Net ev' ''save register ticket'' = Delivered"
    and "ev_Millis ev' ''verify code'' < ev_Millis ev ''save code'' + 300000"
    and "generateRegisterTicket ev' ''register ticket'' = Some ticket" "ss_EncodeText s email = Some text_data"
    and "cmd_get (ev_Millis ev' ''save register ticket'') (RegisterTicket (ss_Prefix s) ticket) (wd_redis w1) = None"
  shows "ml_To (last (wd_mail w1)) = email \<and> (\<exists>w2. run_state (VerifyRegisterCode ev' s j) w1 = (Inr (ticket, email), w2)
    \<and> cmd_get (ev_Millis ev' ''save register ticket'') (RegisterTicket (ss_Prefix s) ticket) (wd_redis w2) = Some text_data
    \<and> (\<forall>ev3. undisturbed ev3 \<longrightarrow> (\<exists>e. fst (run_state (VerifyRegisterCode ev3 s j) w2) = Inl e)))"
  using assms(1,2)
proof (rule SendRegisterCode_Inr)
  fix code
  assume e: "email = normalizeIdentifier (ss_Lower s) (mi_Email i)" "email \<noteq> []" "checkRegisterEmail email = Inr ()"
    and c: "code \<noteq> []" "StripSubaddress (ss_Lower s) email \<noteq> []"
      "rs_string (wd_redis w1) (code_key s email) = Some (code, Some (ev_Millis ev ''save code'' + Milliseconds verificationTTL))"
    and m: "last (wd_mail w1) = \<lparr>ml_To = email, ml_Code = code, ml_Purpose = VerificationPurposeRegister\<rparr>"
  let ?r = "cmd_del (VerificationCodeAttempt (ss_Prefix s) VerificationPurposeRegister (StripSubaddress (ss_Lower s) email))
      (cmd_del (code_key s email) (wd_redis w1))"
  let ?key = "RegisterTicket (ss_Prefix s) ticket"
  let ?t = "ev_Millis ev' ''save register ticket''"
  have ttl: "Milliseconds verificationTTL = 300000" by (simp add: verificationTTL_def Milliseconds_def duration_defs)
  have v: "run_state (verifyCode ev' s VerificationPurposeRegister email code) w1 = (Inr (), w1\<lparr>wd_redis := ?r\<rparr>)"
    by (rule verifyCode_match[OF assms(5,6) _ c(3)]) (use assms(8) c ttl in \<open>simp_all add: VerificationPurposeRegister_def\<close>)
  have k: "?key \<noteq> code_key s email" "?key \<noteq> VerificationCodeAttempt (ss_Prefix s) VerificationPurposeRegister (StripSubaddress (ss_Lower s) email)"
    using verify_ticket_keys by metis+
  have "cmd_get ?t ?key ?r = None" using assms(11) k by (simp add: cmd_get_def value_at_def entry_def cmd_del_def)
  then have save: "SaveRegisterTicket (ss_EncodeText s) Delivered ?t (ss_Prefix s) ticket email verificationTTL ?r
      = (Inr (), cmd_set ?t ?key text_data (px verificationTTL) ?r)"
    using assms(9,10) e(2)
    by (auto simp: SaveRegisterTicket_def SetOneTime_def cmd_setnx_def generateRegisterTicket_def RegisterTicket_def join_key_def
        verificationTTL_def duration_defs)
  define w2 where "w2 = snd (run_state (audit ev' s ''audit'' None ''register_verify_code'' ''verification_code'' None None True 0
      (vr_ClientIP j) (vr_UserAgent j) (Some [(''login_email'', JString email)]))
      (w1\<lparr>wd_redis := cmd_set ?t ?key text_data (px verificationTTL) ?r\<rparr>))"
  have run: "run_state (VerifyRegisterCode ev' s j) w1 = (Inr (ticket, email), w2)"
    using assms(3-5,7,9) e c(1) m v save
    by (simp add: VerifyRegisterCode_def Let_def returns_bindM run_writes w2_def prod_eq_iff run_bindM split_beta)
  have r2: "wd_redis w2 = cmd_set ?t ?key text_data (px verificationTTL) ?r" using assms(5) by (simp add: w2_def audit_redis)
  then have got: "cmd_get ?t ?key (wd_redis w2) = Some text_data"
    by (simp add: cmd_get_def value_at_def entry_def alive_def cmd_set_def px_def)
  have "rs_string (wd_redis w2) (code_key s email) = None" using r2 k by (simp add: cmd_set_def cmd_del_def)
  then have "\<exists>e. fst (run_state (VerifyRegisterCode ev3 s j) w2) = Inl e" if "undisturbed ev3" for ev3
    using verifyCode_gone[OF that, of w2 s VerificationPurposeRegister email code] assms(3,4) e m
    by (auto simp: VerifyRegisterCode_def Let_def run_bindM split: prod.splits sum.splits)
  then show ?thesis using m run got by auto
qed

end
