(* ===== verification/Auth_Properties.thy ===== *)
theory Auth_Properties
  imports Auth_Primitives
begin

text \<open>
  What the primitives of \<open>internal/auth\<close> promise to their callers: a hash is verified by the function
  that made it and by nothing else, whatever the stored text is a derivation is bounded, and a presented
  PKCE verifier is accepted exactly when it is well formed and hashes to the registered challenge.
\<close>

section \<open>Numbers and separators\<close>

lemma digits_value_append:
  "digits_value n (s @ t) = (case digits_value n s of None \<Rightarrow> None | Some m \<Rightarrow> digits_value m t)"
  by (induction s arbitrary: n) auto

lemma digits_value_decimal_nat: "digits_value 0 (decimal_nat n) = Some n"
proof (induction n rule: decimal_nat.induct)
  case (1 n)
  show ?case
  proof (cases "n < 10")
    case True
    then show ?thesis by (subst decimal_nat.simps) simp
  next
    case False
    have "n mod 10 < 10" by simp
    then show ?thesis using False 1 by (subst decimal_nat.simps) (simp add: digits_value_append)
  qed
qed

lemma ParseUint_decimal_nat: "n < 2 ^ bits \<Longrightarrow> ParseUint bits (decimal_nat n) = Some n"
  by (simp add: ParseUint_def digits_value_decimal_nat)

lemma ParseUint_unat: "ParseUint 32 (decimal_nat (unat (w :: 32 word))) = Some (unat w)"
  "ParseUint 8 (decimal_nat (unat (b :: 8 word))) = Some (unat b)"
proof -
  have "unat w < 2 ^ 32" "unat b < 2 ^ 8" using unsigned_less[of w] unsigned_less[of b] by simp_all
  then show "ParseUint 32 (decimal_nat (unat w)) = Some (unat w)" "ParseUint 8 (decimal_nat (unat b)) = Some (unat b)"
    by (simp_all only: ParseUint_decimal_nat)
qed

lemma dollar_free:
  "CHR ''$'' \<notin> set (decimal_nat n)" "CHR ''$'' \<notin> set (EncodeToString s)" "CHR ''$'' \<notin> set argon2Version"
  using decimal_nat_digits[of n] EncodeToString_alphabet[of "CHR ''$''" s] alphabet_bytes
  by (auto simp: argon2Version_def byte_def)

lemma TrimPrefix_append [simp]: "TrimPrefix (p @ s) p = s"
  by (simp add: TrimPrefix_def HasPrefix_iff_prefix)

section \<open>Passwords\<close>

definition argon2_encoded :: "32 word \<Rightarrow> 32 word \<Rightarrow> 8 word \<Rightarrow> string \<Rightarrow> string \<Rightarrow> string" where
  "argon2_encoded t m threads salt key =
     Join [argon2Version, decimal_nat (unat t), decimal_nat (unat m), decimal_nat (unat threads),
       EncodeToString salt, EncodeToString key] ''$''"

lemma argon2_parts_encoded:
  "argon2_parts (argon2_encoded t m threads salt key) =
     [decimal_nat (unat t), decimal_nat (unat m), decimal_nat (unat threads), EncodeToString salt, EncodeToString key]"
proof -
  let ?ps = "[decimal_nat (unat t), decimal_nat (unat m), decimal_nat (unat threads), EncodeToString salt, EncodeToString key]"
  have "argon2_encoded t m threads salt key = (argon2Version @ ''$'') @ Join ?ps ''$''"
    by (simp add: argon2_encoded_def)
  then have "TrimPrefix (argon2_encoded t m threads salt key) (argon2Version @ ''$'') = Join ?ps ''$''"
    by (simp only: TrimPrefix_append)
  then show ?thesis unfolding argon2_parts_def using SplitByte_Join[of ?ps "CHR ''$''"] dollar_free by simp
qed

lemma CutByte_argon2_encoded:
  "fst (CutByte (argon2_encoded t m threads salt key) CHR ''$'') = argon2Version"
  using CutByte_append[OF dollar_free(3)] by (simp add: argon2_encoded_def)

lemma ShouldRehash_encoded:
  "ShouldRehash h (argon2_encoded t m threads salt key) \<longleftrightarrow>
     t \<noteq> want_time h \<or> m \<noteq> want_memory h \<or> threads \<noteq> want_threads h"
  using CutByte_argon2_encoded[of t m threads salt key]
  by (simp add: ShouldRehash_def split_beta argon2_parts_encoded ParseUint_unat)

definition argon2_admissible :: "32 word \<Rightarrow> 32 word \<Rightarrow> 8 word \<Rightarrow> bool" where
  "argon2_admissible t m threads \<longleftrightarrow>
     1 \<le> unat t \<and> unat t \<le> maxArgon2Time \<and> 8 * unat threads \<le> unat m \<and> unat m \<le> maxArgon2Memory \<and>
     1 \<le> unat threads \<and> unat threads \<le> maxArgon2Threads"

lemma VerifyPassword_encoded:
  assumes "argon2_admissible t m threads" "length salt = passwordSaltBytes" "length key = memoryHashKeyBytes"
  shows "VerifyPassword idkey pbkdf2 slot h password (argon2_encoded t m threads salt key) =
    bindE (acquire h slot) (\<lambda>_.
      if idkey password salt t m threads memoryHashKeyBytes \<noteq> key then Inl ErrInvalidSecret else Inr ())"
  using assms CutByte_argon2_encoded[of t m threads salt key]
  by (auto simp: VerifyPassword_def verifyArgon2id_def split_beta argon2_parts_encoded ParseUint_unat
      DecodeString_EncodeToString argon2_admissible_def)

lemma HashPassword_Inr:
  "HashPassword idkey rnd slot h password = Inr e \<longleftrightarrow>
     password \<noteq> [] \<and> acquire h slot = Inr () \<and>
     (\<exists>salt. rnd passwordSaltBytes = Some salt \<and>
       e = argon2_encoded (want_time h) (want_memory h) (want_threads h) salt
             (idkey password salt (want_time h) (want_memory h) (want_threads h) memoryHashKeyBytes))"
  by (auto simp: HashPassword_def randomBytes_def bindE_eq_Inr_iff Let_def argon2_encoded_def split: option.splits)

text \<open>C33: A password hash made with parameters inside the verification bounds is verified, by a hasher of
  any configuration, exactly against passwords deriving the same key under the salt drawn for it; a
  rehash is asked for exactly when the verifying hasher is configured otherwise.\<close>

theorem password_roundtrip:
  assumes "HashPassword idkey rnd slot h password = Inr e"
    and "argon2_admissible (want_time h) (want_memory h) (want_threads h)"
    and "\<And>n bs. rnd n = Some bs \<Longrightarrow> length bs = n"
    and "\<And>p s t m w n. length (idkey p s t m w n) = n"
  shows "\<exists>salt. rnd passwordSaltBytes = Some salt \<and>
      (VerifyPassword idkey pbkdf2 SlotFree h' password' e = Inr () \<longleftrightarrow>
         idkey password' salt (want_time h) (want_memory h) (want_threads h) memoryHashKeyBytes =
         idkey password salt (want_time h) (want_memory h) (want_threads h) memoryHashKeyBytes) \<and>
      VerifyPassword idkey pbkdf2 SlotFree h' password e = Inr () \<and>
      (ShouldRehash h' e \<longleftrightarrow>
         want_time h' \<noteq> want_time h \<or> want_memory h' \<noteq> want_memory h \<or> want_threads h' \<noteq> want_threads h)"
proof -
  let ?key = "\<lambda>p salt. idkey p salt (want_time h) (want_memory h) (want_threads h) memoryHashKeyBytes"
  from assms(1) obtain salt where salt: "rnd passwordSaltBytes = Some salt"
    and e: "e = argon2_encoded (want_time h) (want_memory h) (want_threads h) salt (?key password salt)"
    unfolding HashPassword_Inr by blast
  have verify: "VerifyPassword idkey pbkdf2 SlotFree h' p e =
      (if ?key p salt \<noteq> ?key password salt then Inl ErrInvalidSecret else Inr ())" for p
    using VerifyPassword_encoded[OF assms(2) assms(3)[OF salt] assms(4)]
    by (auto simp: e acquire_def)
  show ?thesis using salt verify by (auto simp: e ShouldRehash_encoded)
qed

definition sample_hasher :: password_hasher where
  "sample_hasher = \<lparr>ph_Semaphore = True, ph_Argon2Time = 0, ph_Argon2Memory = 0, ph_Argon2Threads = 0\<rparr>"

definition sample_idkey :: idkey where
  "sample_idkey p s t m w n = take n (p @ replicate n CHR ''.'')"

definition sample_random :: random_source where
  "sample_random n = Some (replicate n CHR ''r'')"

lemma sample_hasher_want:
  "want_time sample_hasher = 2" "want_memory sample_hasher = 19456" "want_threads sample_hasher = 1"
  by (simp_all add: want_time_def want_memory_def want_threads_def or_zero_def sample_hasher_def password_consts)

theorem password_roundtrip_witness:
  "\<exists>e. HashPassword sample_idkey sample_random SlotFree sample_hasher ''hunter2'' = Inr e \<and>
     VerifyPassword sample_idkey (\<lambda>_ _ _ _. None) SlotFree sample_hasher ''hunter2'' e = Inr () \<and>
     VerifyPassword sample_idkey (\<lambda>_ _ _ _. None) SlotFree sample_hasher ''hunter3'' e \<noteq> Inr () \<and>
     \<not> ShouldRehash sample_hasher e"
proof -
  obtain e where e: "HashPassword sample_idkey sample_random SlotFree sample_hasher ''hunter2'' = Inr e"
    using HashPassword_Inr[of sample_idkey sample_random SlotFree sample_hasher "''hunter2''"]
    by (auto simp: acquire_def sample_random_def)
  have adm: "argon2_admissible (want_time sample_hasher) (want_memory sample_hasher) (want_threads sample_hasher)"
    by (simp add: sample_hasher_want argon2_admissible_def password_consts)
  have "sample_idkey ''hunter3'' s t m w memoryHashKeyBytes \<noteq> sample_idkey ''hunter2'' s t m w memoryHashKeyBytes" for s t m w
    by (simp add: sample_idkey_def memoryHashKeyBytes_def)
  then show ?thesis
    using e password_roundtrip[OF e adm, of "\<lambda>_ _ _ _. None" sample_hasher "''hunter3''"]
    by (auto simp: sample_random_def sample_idkey_def)
qed

section \<open>PKCE\<close>

definition unreserved :: "char \<Rightarrow> bool" where
  "unreserved c \<longleftrightarrow> c \<in> set alphabet \<or> c \<in> {CHR ''.'', CHR ''~''}"

lemma alphabet_codes: "map byte alphabet = [65..<91] @ [97..<123] @ [48..<58] @ [45, 95]"
  by (simp add: alphabet_def byte_def upt_rec_numeral)

lemma alphabet_runes: "c \<in> set alphabet \<longleftrightarrow> isPKCEAlphaNumeric (byte c) \<or> byte c = 0x2D \<or> byte c = 0x5F"
proof -
  have "n \<in> set (map byte alphabet) \<longleftrightarrow> isPKCEAlphaNumeric n \<or> n = 0x2D \<or> n = 0x5F" for n
    unfolding alphabet_codes isPKCEAlphaNumeric_def set_append set_upt by auto
  moreover have "c \<in> set alphabet \<longleftrightarrow> byte c \<in> set (map byte alphabet)" by auto
  ultimately show ?thesis by metis
qed

lemma unreserved_runes:
  "unreserved c \<longleftrightarrow> isPKCEAlphaNumeric (byte c) \<or> byte c \<in> set (map byte ''-._~'')"
proof -
  have "byte (CHR ''-'') = 0x2D" "byte (CHR ''_'') = 0x5F" by (simp_all add: byte_def)
  then have "byte c = 0x2D \<longleftrightarrow> c = CHR ''-''" "byte c = 0x5F \<longleftrightarrow> c = CHR ''_''" by (metis byte_inject)+
  then show ?thesis by (auto simp: unreserved_def alphabet_runes)
qed

lemma all_runes_iff:
  assumes "\<And>r. P r \<Longrightarrow> r < 0x80"
  shows "(\<forall>r\<in>set (runes s). P r) \<longleftrightarrow> (\<forall>c\<in>set s. P (byte c))"
proof (cases "\<forall>c\<in>set s. byte c < 0x80")
  case True
  then show ?thesis by (simp add: runes_ascii)
next
  case False
  then show ?thesis using runes_all_ascii[of s] assms by blast
qed

lemma ValidatePKCEVerifier_iff:
  "ValidatePKCEVerifier v = Inr () \<longleftrightarrow> 43 \<le> length v \<and> length v \<le> 128 \<and> (\<forall>c\<in>set v. unreserved c)"
proof -
  define ok where "ok r \<longleftrightarrow> r \<le> MaxASCII \<and> (isPKCEAlphaNumeric r \<or> r \<in> set (map byte ''-._~''))" for r
  have low: "ok r \<Longrightarrow> r < 0x80" for r by (simp add: ok_def MaxASCII_def)
  have "unreserved c \<longleftrightarrow> ok (byte c)" for c
    by (auto simp: unreserved_runes ok_def isPKCEAlphaNumeric_def MaxASCII_def) (simp_all add: byte_def)
  moreover have "list_ex (\<lambda>r. MaxASCII < r \<or> \<not> isPKCEAlphaNumeric r \<and> r \<notin> set (map byte ''-._~'')) (runes v) \<longleftrightarrow>
      \<not> (\<forall>r\<in>set (runes v). ok r)"
    by (auto simp: list_ex_iff ok_def not_le)
  ultimately show ?thesis
    by (auto simp: ValidatePKCEVerifier_def pkceMinVerifierLength_def pkceMaxVerifierLength_def all_runes_iff[OF low])
qed

lemma IsValidPKCEChallenge_iff:
  "IsValidPKCEChallenge s \<longleftrightarrow> length s = 43 \<and> (\<forall>c\<in>set s. c \<in> set alphabet)"
proof -
  define ok where "ok r \<longleftrightarrow> r \<le> MaxASCII \<and> (isPKCEAlphaNumeric r \<or> r = 0x2D \<or> r = 0x5F)" for r
  have low: "ok r \<Longrightarrow> r < 0x80" for r by (simp add: ok_def MaxASCII_def)
  have "c \<in> set alphabet \<longleftrightarrow> ok (byte c)" for c
    by (auto simp: alphabet_runes ok_def isPKCEAlphaNumeric_def MaxASCII_def)
  moreover have "list_ex (\<lambda>r. MaxASCII < r \<or> \<not> isPKCEAlphaNumeric r \<and> r \<noteq> 0x2D \<and> r \<noteq> 0x5F) (runes s) \<longleftrightarrow>
      \<not> (\<forall>r\<in>set (runes s). ok r)"
    by (auto simp: list_ex_iff ok_def not_le)
  ultimately show ?thesis by (simp add: IsValidPKCEChallenge_def sha256_Size_def all_runes_iff[OF low])
qed

text \<open>With a 32-byte digest, a PKCE verifier is accepted exactly when the method is S256, the verifier has
  43 to 128 unreserved characters and the unpadded base64url text of its digest is the registered
  challenge; that challenge then is one \<open>IsValidPKCEChallenge\<close> admits at registration.\<close>

theorem pkce_accepts_iff:
  assumes "\<And>s. length (sum256 s) = sha256_Size"
  shows "VerifyPKCES256 sum256 verifier challenge meth = Inr () \<longleftrightarrow>
     meth = ''S256'' \<and> 43 \<le> length verifier \<and> length verifier \<le> 128 \<and> (\<forall>c\<in>set verifier. unreserved c) \<and>
     challenge = EncodeToString (sum256 verifier) \<and> IsValidPKCEChallenge challenge"
proof -
  have "IsValidPKCEChallenge (EncodeToString (sum256 verifier))"
    using assms[of verifier] EncodeToString_alphabet[of _ "sum256 verifier"]
    by (auto simp: IsValidPKCEChallenge_iff length_EncodeToString sha256_Size_def)
  moreover have "VerifyPKCES256 sum256 verifier challenge meth = Inr () \<longleftrightarrow>
      meth = ''S256'' \<and> ValidatePKCEVerifier verifier = Inr () \<and> challenge = EncodeToString (sum256 verifier)"
    by (auto simp: VerifyPKCES256_def PKCEChallengeS256_def pkceMethodS256_def bindE_eq_Inr_iff split: if_splits)
  ultimately show ?thesis by (auto simp: ValidatePKCEVerifier_iff)
qed

theorem pkce_accepts_iff_witness:
  "VerifyPKCES256 (\<lambda>s. take 32 (s @ replicate 32 CHR ''0'')) (replicate 43 CHR ''a'')
     (EncodeToString (replicate 32 CHR ''a'')) ''S256'' = Inr ()"
  by (subst pkce_accepts_iff)
    (simp_all add: sha256_Size_def unreserved_def IsValidPKCEChallenge_iff length_EncodeToString EncodeToString_alphabet,
     simp add: alphabet_def)

section \<open>Client secrets and refresh tokens\<close>

lemma VerifyClientSecret_HashClientSecret:
  assumes "\<And>s. length (sum256 s) = sha256_Size" "secret' \<noteq> []"
  shows "VerifyClientSecret sum256 secret' (HashClientSecret sum256 secret) =
    (if sum256 secret' = sum256 secret then Inr () else Inl ErrInvalidSecret)"
proof -
  have "CHR ''$'' \<notin> set clientSecretHashVersion" by (simp add: clientSecretHashVersion_def)
  then have "CutByte (HashClientSecret sum256 secret) CHR ''$'' =
      (clientSecretHashVersion, EncodeToString (sum256 secret), True)"
    using CutByte_append by (simp add: HashClientSecret_def)
  then show ?thesis using assms by (simp add: VerifyClientSecret_def DecodeString_EncodeToString)
qed

lemma NewRefreshToken_hashes:
  assumes "NewRefreshToken rnd secret = Inr token"
  shows "HashRefreshToken hmac secret token = Inr (EncodeToString (hmac secret token))"
  using assms by (auto simp: NewRefreshToken_def HashRefreshToken_def bindE_eq_Inr_iff HasPrefix_iff_prefix split: if_splits)

lemma VerifyRefreshTokenHash_iff:
  assumes "HashRefreshToken hmac secret token = Inr h"
  shows "VerifyRefreshTokenHash hmac secret token' h = Inr () \<longleftrightarrow>
    HasPrefix token' refreshTokenPrefix \<and> hmac secret token' = hmac secret token"
  using assms
  by (auto simp: VerifyRefreshTokenHash_def HashRefreshToken_def bindE_eq_Inr_iff DecodeString_EncodeToString
      split: if_splits)

end
