(* ===== verification/Service_Samples.thy ===== *)
theory Service_Samples
  imports Service_Base Auth_Properties Account_Properties
begin

text \<open>An environment for the witnesses of the services and workers.\<close>

text \<open>A request that no other one interferes with and whose calls all succeed.\<close>

definition quiet :: env where
  "quiet = \<lparr>ev_Between = (\<lambda>_ w. w), ev_Fault = (\<lambda>_. no_fault), ev_Net = (\<lambda>_. Delivered), ev_Broken = (\<lambda>_. None),
     ev_Now = (\<lambda>_. 200), ev_Millis = (\<lambda>_. 0), ev_Random = (\<lambda>_. sample_random), ev_UUID = (\<lambda>_. ''u''),
     ev_Slot = (\<lambda>_. SlotFree), ev_Gone = (\<lambda>_. False), ev_Sent = (\<lambda>_. True),
     ev_Int = (\<lambda>_ _. Some 7)\<rparr>"

lemma quiet_simps [simp]:
  "ev_Between quiet site w = w" "ev_Fault quiet site = no_fault" "ev_Net quiet site = Delivered" "ev_Broken quiet site = None"
  "ev_Now quiet site = 200" "ev_Random quiet site = sample_random" "ev_UUID quiet site = ''u''"
  "ev_Slot quiet site = SlotFree" "ev_Gone quiet site = False" "ev_Sent quiet site = True" "ev_Int quiet site m = Some 7"
  by (simp_all add: quiet_def)

definition sample_claims :: token_claims where
  "sample_claims = \<lparr>tc_Role = ''member'', tc_State = ''njupter'', tc_TokenVersion = 3, tc_Scope = ''openid'', tc_AZP = ''app'',
     tc_Issuer = ''i'', tc_Subject = ''7'', tc_Audience = [''a''], tc_ExpiresAt = Some (1000 * Second), tc_IssuedAt = Some 100,
     tc_NotBefore = Some 100, tc_ID = ''j1''\<rparr>"

text \<open>Cryptography that is easy to compute with; every token parses to the sample claims.\<close>

definition sample_crypto :: crypto where
  "sample_crypto = \<lparr>cr_Sum256 = (\<lambda>s. take 32 (s @ replicate 32 CHR ''0'')), cr_HMAC = (\<lambda>_ _. ''abc''), cr_EdPublic = (\<lambda>s. s),
     cr_SignAccess = (\<lambda>_ _ _. Some ''access''), cr_SignID = (\<lambda>_ _ _. Some ''id''),
     cr_Parse = (\<lambda>_ _ _. (sample_claims, [])), cr_IDKey = sample_idkey, cr_PBKDF2 = (\<lambda>_ _ _ _. None)\<rparr>"

definition sample_jwt :: jwt_manager where
  "sample_jwt = \<lparr>jm_Issuer = ''i'', jm_Audience = [''a''],
     jm_Active = \<lparr>kp_KID = ''k'', kp_Private = ''s'', kp_Public = ''q''\<rparr>, jm_Previous = []\<rparr>"

abbreviation world_of :: "database \<Rightarrow> world" where
  "world_of db \<equiv> \<lparr>wd_db = db, wd_redis = no_data, wd_internal = Map.empty, wd_mail = [], wd_jobs = []\<rparr>"

lemma TrimSpace_samples [simp]:
  "TrimSpace ''app'' = ''app''" "TrimSpace ''https://a.b/c'' = ''https://a.b/c''"
  "TrimSpace (replicate 43 CHR ''a'') = replicate 43 CHR ''a''" "TrimSpace '''' = ''''" "TrimSpace ''u'' = ''u''"
  "TrimSpace ''njupter'' = ''njupter''" "TrimSpace ''member'' = ''member''" "TrimSpace ''7'' = ''7''"
  by (simp_all add: TrimSpace_eq_iff trimmed_graphic graphic_ascii_def byte_def)

lemma sample_normal [simp]: "Normalize [''openid''] = Inr [''openid'']" "Claim [''openid''] = Inr ''openid''"
  "ContainsAll [''openid''] [''openid''] = Inr True"
  by (simp_all add: scope_simps well_formed_sample canonical_def canonicalOrder_def scope_names)

lemma decimal_7 [simp]: "decimal 7 = ''7''"
  by code_simp

lemma sample_hash [simp]: "EncodeToString ''abc'' = ''YWJj''" "TrimSpace ''YWJj'' = ''YWJj''"
  by (simp_all add: TrimSpace_eq_iff trimmed_graphic graphic_ascii_def byte_def) code_simp

end
