(* ===== verification/Session_Witnesses.thy ===== *)
theory Session_Witnesses
  imports Session_Properties Service_Samples Token_Properties
begin

text \<open>Concrete requests at which the properties of the middleware and the session service are instantiated.\<close>

section \<open>Middleware\<close>

definition sample_auth :: Authenticator where
  "sample_auth = \<lparr>am_Crypto = sample_crypto, am_JWT = Some sample_jwt, am_Prefix = ''p'', am_Cache = False, am_AuthStateTTL = 0,
     am_Encode = (\<lambda>_. None), am_Decode = (\<lambda>_. None), am_InternalClientID = ''app''\<rparr>"

lemma TrimSpace_claims [simp]: "TrimSpace ''openid'' = ''openid''" "TrimSpace ''j1'' = ''j1''"
  by (simp_all add: TrimSpace_eq_iff trimmed_graphic graphic_ascii_def byte_def)

lemma sample_claim [simp]: "ParseClaim ''openid'' = Inr [''openid'']"
  by (simp add: ParseClaim_def SplitByte_no_sep ContainsAny_def)

lemma sample_verify [simp]: "verifyToken quiet a sample_jwt token = Inr sample_claims" if "am_Crypto a = sample_crypto"
  using that
  by (simp add: verifyToken_def VerifyAccessToken_def parseAccessToken_def sample_crypto_def sample_jwt_def validateTokenClaims_def
      sample_claims_def)

lemma sample_header [simp]: "strictBearerToken ''Bearer t'' = Some ''t''"
  by code_simp

lemma sample_subject [simp]: "claimSubject sample_claims = Some (7, [''openid''])"
proof -
  have "ParseInt64 ''7'' = Some 7" by code_simp
  then show ?thesis by (simp add: claimSubject_def sample_claims_def)
qed

lemma sample_state: "FindAccessAuthStateByJTI no_fault sample_store ''j1'' = Inr \<lparr>as_TokenID = ''j1'', as_UserID = 7, as_UserState = ''njupter'',
    as_UserRole = ''member'', as_TokenVersion = 3, as_RevokedAt = None, as_ExpiresAt = 1000 * Second\<rparr>"
  by (simp add: FindAccessAuthStateByJTI_def sample_defs find_user_def)

lemma sample_claim_fields [simp]:
  "tc_ID sample_claims = ''j1''" "tc_TokenVersion sample_claims = 3" "tc_AZP sample_claims = ''app''"
  by (simp_all add: sample_claims_def)

lemma sample_authenticate:
  "\<exists>p. run_state (authenticate quiet sample_auth ''Bearer t'') (world_of sample_store) = (Inr p, world_of sample_store)
    \<and> pr_JTI p = ''j1'' \<and> pr_UserID p = 7"
  by (simp add: authenticate_def authenticateClaims_def authState_def cachedState_def fillCache_def sample_auth_def sample_state
      UserStateDeleted_def principalFromClaims_def duration_defs)

theorem principal_is_live_witness:
  "\<exists>row u. row \<in> set (db_access sample_store) \<and> at_TokenID row = ''j1'' \<and> at_RevokedAt row = None
    \<and> find_user sample_store 7 = Some u \<and> us_State u \<noteq> UserStateDeleted \<and> us_TokenVersion u = 3"
proof -
  obtain p where "run_state (authenticate quiet sample_auth ''Bearer t'') (world_of sample_store) = (Inr p, world_of sample_store)"
    and p: "pr_JTI p = ''j1''" "pr_UserID p = 7"
    using sample_authenticate by blast
  from principal_is_live[OF this(1)] show ?thesis
    by (simp add: sample_auth_def Let_def p) blast
qed

definition sample_principal :: Principal where
  "sample_principal = \<lparr>pr_UserID = 7, pr_JTI = ''j1'', pr_Role = ''admin'', pr_State = ''njupter'', pr_Scopes = [''admin.read''],
     pr_ClientID = ''other'', pr_ExpiresAt = 500\<rparr>"

theorem foreign_tokens_confined_witness:
  "RequireDelegatedScope sample_auth [''admin.read''] (Some sample_principal) = Inr ()
    \<and> run_state (Authenticate quiet sample_auth ''Bearer t'') (world_of sample_store) \<noteq> (Inr sample_principal, world_of sample_store)
    \<and> (\<exists>name\<in>{''admin.read''}. name \<in> set (pr_Scopes sample_principal))"
proof -
  have "RequireDelegatedScope sample_auth [''admin.read''] (Some sample_principal) = Inr ()"
    by (simp add: RequireDelegatedScope_def sample_auth_def sample_principal_def)
  then show ?thesis
    using foreign_tokens_confined[of sample_principal sample_auth quiet "''Bearer t''" "world_of sample_store" "world_of sample_store" "[''admin.read'']"]
    by (simp add: sample_principal_def sample_auth_def)
qed

section \<open>The session service\<close>

definition sample_session :: session_service where
  "sample_session = \<lparr>ss_Crypto = sample_crypto\<lparr>cr_HMAC := (\<lambda>_ t. if length t < 10 then ''xyz'' else ''abc'')\<rparr>, ss_Prefix = ''p'', ss_Lower = (\<lambda>r. r), ss_PgLower = (\<lambda>s. s), ss_Digit = (\<lambda>_. False),
     ss_EqualFold = (=), ss_ParseURL = (\<lambda>_. None), ss_Limiter = None, ss_EmailLimiter = None, ss_EmailIPLimiter = None,
     ss_UnbindLimiter = None, ss_RegisterLimiter = None, ss_RefreshLimiter = None, ss_DeviceLimiter = None, ss_Failures = None,
     ss_Blacklist = Some \<lparr>bp_Prefix = ''p'', bp_TombstoneTTL = 0\<rparr>, ss_Audit = False, ss_OAuthRegistration = None,
     ss_ForgotPasswords = False, ss_InternalClientID = ''web'', ss_JWT = Some sample_jwt,
     ss_RefreshSecret = replicate 32 CHR ''s'', ss_Passwords = sample_hasher, ss_AccessTTL = 0, ss_RefreshTTL = 0,
     ss_Devices = None, ss_EncodeText = Some, ss_DecodeText = Some, ss_EncodeBind = (\<lambda>_. None), ss_DecodeBind = (\<lambda>_. None)\<rparr>"

lemma undisturbed_quiet [simp]: "undisturbed quiet"
  by (simp add: undisturbed_def)

theorem session_refines_store_witness:
  "account_inv (wd_db (snd (run_state (serve quiet sample_session (CallLogout \<lparr>lo_PrincipalJTI = ''j1'', lo_PrincipalUserID = 7,
     lo_ActorClientID = [], lo_ClientIP = [], lo_UserAgent = []\<rparr>)) (world_of staffed_store))))"
proof -
  let ?w = "world_of staffed_store"
  have "sound_env {ev_UUID quiet ''family''} quiet" by (simp add: sound_env_def)
  moreover have "fresh_families {ev_UUID quiet ''family''} (wd_db ?w)"
    by (simp add: fresh_families_def origin_kept_shape shape_defs staffed_store_def sample_defs)
  moreover have "consent_inv (wd_db ?w)" "outbox_inv (wd_db ?w)"
    using sample_consent_inv(1) sample_outbox_inv(1) by (simp_all add: consent_inv_def outbox_inv_def staffed_store_def)
  moreover have "administered (wd_db ?w)" using staffed_account_inv
    by (simp add: administered_def has_admin_def active_admin_def staffed_store_def sample_admin_def role_defs state_defs sample_user_def)
  ultimately show ?thesis
    using session_refines_store[of quiet ?w sample_session "CallLogout _"] staffed_token_inv staffed_account_inv
    by (simp add: Let_def)
qed

lemma sample_world_inv: "token_inv (wd_db (world_of sample_store))"
  by (simp add: sample_token_inv)

lemma sample_logout:
  "\<exists>w'. run_state (Logout quiet sample_session \<lparr>lo_PrincipalJTI = ''j1'', lo_PrincipalUserID = 7,
     lo_ActorClientID = [], lo_ClientIP = [], lo_UserAgent = []\<rparr>) (world_of sample_store)
     = (Inr \<lparr>lo_BlacklistedJTI = ''j1'', lo_FamilyID = ''f''\<rparr>, w')"
proof -
  have "FindAccessTokenByJTI no_fault sample_store ''j1'' = Inr (sample_access\<lparr>at_ID := 2\<rparr>)"
    by (simp add: FindAccessTokenByJTI_def sample_store_def sample_access_def)
  moreover have "\<exists>es db'. RevokeFamily no_fault ''f'' 200 sample_store = (Inr es, db')"
    by (simp add: RevokeFamily_def transaction_no_fault revokeFamily_no_fault)
  ultimately show ?thesis
    by (auto simp: Logout_def Let_def run_writes sample_access_def dropDevice_def audit_def sample_session_def split_beta)
qed

theorem logout_token_refused_witness:
  "\<exists>w' e. run_state (Logout quiet sample_session \<lparr>lo_PrincipalJTI = ''j1'', lo_PrincipalUserID = 7,
     lo_ActorClientID = [], lo_ClientIP = [], lo_UserAgent = []\<rparr>) (world_of sample_store)
     = (Inr \<lparr>lo_BlacklistedJTI = ''j1'', lo_FamilyID = ''f''\<rparr>, w')
   \<and> pending_delivery (wd_db w') ''j1'' (1000 * Second)
   \<and> fst (run_state (authenticate quiet (sample_auth\<lparr>am_Cache := True\<rparr>) ''Bearer t'') w') = Inl e"
proof -
  let ?row = "sample_access\<lparr>at_ID := 2\<rparr>" and ?a = "sample_auth\<lparr>am_Cache := True\<rparr>"
  obtain w' where l: "run_state (Logout quiet sample_session \<lparr>lo_PrincipalJTI = ''j1'', lo_PrincipalUserID = 7,
     lo_ActorClientID = [], lo_ClientIP = [], lo_UserAgent = []\<rparr>) (world_of sample_store)
     = (Inr \<lparr>lo_BlacklistedJTI = ''j1'', lo_FamilyID = ''f''\<rparr>, w')"
    using sample_logout by blast
  have "?row \<in> set (db_access (wd_db (world_of sample_store)))" "at_FamilyID ?row = Some (lo_FamilyID \<lparr>lo_BlacklistedJTI = ''j1'', lo_FamilyID = ''f''\<rparr>)"
    "at_RevokedAt ?row = None" "ev_Now quiet ''logout'' < at_ExpiresAt ?row" "TrimSpace (at_TokenID ?row) \<noteq> []"
    by (simp_all add: sample_store_def sample_access_def duration_defs)
  note r = logout_token_refused[OF l undisturbed_quiet sample_world_inv this]
  have "no_stale_cache quiet (ss_Blacklist sample_session) ?a" "strictBearerToken ''Bearer t'' = Some ''t''" "am_JWT ?a = Some sample_jwt"
    "verifyToken quiet ?a sample_jwt ''t'' = Inr sample_claims" "tc_ID sample_claims = at_TokenID ?row"
    by (simp_all add: no_stale_cache_def sample_access_def sample_session_def sample_auth_def)
  then obtain e where "fst (run_state (authenticate quiet ?a ''Bearer t'') w') = Inl e"
    using r undisturbed_quiet by blast
  moreover have "pending_delivery (wd_db w') ''j1'' (1000 * Second)"
    using r by (simp add: sample_access_def)
  ultimately show ?thesis using l by blast
qed

text \<open>An account with a known password, the built-in client, and a running session.\<close>

definition sample_password_hash :: string where
  "sample_password_hash = argon2_encoded 2 19456 1 (replicate 16 CHR ''r'') (sample_idkey ''hunter22'' (replicate 16 CHR ''r'') 2 19456 1 32)"

definition session_user :: user where "session_user = sample_user\<lparr>us_PasswordHash := sample_password_hash\<rparr>"

definition session_client :: oauth_client where
  "session_client = sample_client\<lparr>cl_ClientID := ''web'', cl_ClientType := ''first_party'', cl_Scopes := InternalSessionScopes\<rparr>"

definition session_row :: refresh_token where
  "session_row = sample_refresh\<lparr>rt_ID := 3, rt_TokenHash := ''eHl6''\<rparr>"

definition session_store :: database where
  "session_store = sample_store\<lparr>db_users := [session_user], db_clients := [session_client], db_refresh := [session_row]\<rparr>"

lemma sample_password:
  "verifyPassword quiet sample_session site ''hunter22'' sample_password_hash = Inr ()"
  "ShouldRehash sample_hasher sample_password_hash = False"
proof -
  have "argon2_admissible 2 19456 1" by (simp add: argon2_admissible_def password_consts)
  then have "VerifyPassword sample_idkey (\<lambda>_ _ _ _. None) SlotFree sample_hasher ''hunter22'' sample_password_hash = Inr ()"
    by (simp add: sample_password_hash_def VerifyPassword_encoded sample_idkey_def memoryHashKeyBytes_def passwordSaltBytes_def acquire_def)
  then show "verifyPassword quiet sample_session site ''hunter22'' sample_password_hash = Inr ()"
    by (simp add: verifyPassword_def sample_session_def sample_crypto_def)
  show "ShouldRehash sample_hasher sample_password_hash = False"
    by (simp add: sample_password_hash_def ShouldRehash_encoded sample_hasher_want)
qed

lemma session_client_found:
  "\<exists>w'. run_state (findInternalClient quiet sample_session) (world_of session_store) = (Inr session_client, w') \<and> wd_db w' = session_store"
proof -
  have "FindActiveByClientID no_fault session_store ''web'' = Inr session_client"
    by (simp add: FindActiveByClientID_def session_store_def session_client_def sample_client_def)
  moreover have "EqualScopes InternalSessionScopes sessionScopes = Inr True"
    by (simp add: scope_simps sessionScopes_def well_formed_def InternalSessionScopes_def oidcScopes_def canonicalOrder_def scope_names)
  moreover have "TrimSpace ''web'' = ''web''" by (simp add: TrimSpace_eq_iff trimmed_graphic graphic_ascii_def byte_def)
  ultimately show ?thesis
    by (simp add: findInternalClient_def process_step_def FindActiveInternalClient_def sample_session_def session_client_def
        sample_client_def ClientTypeFirstParty_def split_beta Let_def)
qed

lemma session_scopes_normal: "well_formed sessionScopes" "canonical sessionScopes = sessionScopes"
  by (simp_all add: sessionScopes_def well_formed_def canonical_def InternalSessionScopes_def oidcScopes_def canonicalOrder_def scope_names)

lemma session_issue:
  assumes "scopes = sessionScopes \<or> scopes = [''openid'']" "0 \<le> sq"
  shows "\<exists>pair. issuePair quiet sample_session session_user session_client sq fam scopes = Inr pair
    \<and> tp_Access pair = access_row session_user session_client ''u'' (if fam = [] then ''u'' else fam) 200 scopes Hour
    \<and> tp_Refresh pair = refresh_row session_user session_client ''YWJj'' (if fam = [] then ''u'' else fam) sq 200 scopes (720 * Hour)"
proof -
  have "Normalize scopes = Inr scopes \<and> (\<exists>c. Claim scopes = Inr c)"
    using assms(1)
  proof
    assume "scopes = sessionScopes"
    then show ?thesis using session_scopes_normal by (simp add: Normalize_eq Claim_eq)
  qed simp
  then show ?thesis using assms(2)
    by (auto simp: issuePair_def Issue_def SignAccessToken_def issue_input_def Let_def duration_defs HasPrefix_def
      NewRefreshToken_def HashRefreshToken_def sample_session_def sample_jwt_def sample_crypto_def sample_random_def randomBytes_def
      minimumHMACSecretSize_def session_user_def sample_user_def defaultAccessTTL_def defaultRefreshTTL_def refreshTokenPrefix_def
      length_EncodeToString refreshTokenBytes_def)
qed

lemma session_fields [simp]:
  "us_ID session_user = 7" "us_State session_user = ''njupter''" "us_PasswordHash session_user = sample_password_hash"
  "us_LoginEmail session_user = ''b24040525@njupt.edu.cn''" "cl_ID session_client = 5"
  "ss_Limiter sample_session = None" "ss_RefreshLimiter sample_session = None" "ss_Failures sample_session = None"
  "ss_Devices sample_session = None" "ss_Audit sample_session = False" "ss_Passwords sample_session = sample_hasher"
  "ss_Lower sample_session = (\<lambda>r. r)" "ss_Prefix sample_session = ''p''"
  by (simp_all add: session_user_def session_client_def sample_session_def sample_defs)

definition sample_login :: LoginInput where
  "sample_login = \<lparr>li_Identifier = ''b24040525@njupt.edu.cn'', li_Password = ''hunter22'', li_ClientIP = [], li_UserAgent = []\<rparr>"

lemma sample_identifier: "normalizeIdentifier (\<lambda>r. r) ''b24040525@njupt.edu.cn'' = ''b24040525@njupt.edu.cn''"
proof -
  have "TrimSpace ''b24040525@njupt.edu.cn'' = ''b24040525@njupt.edu.cn''"
    by (simp add: TrimSpace_eq_iff trimmed_graphic graphic_ascii_def byte_def)
  then show ?thesis by (simp add: normalizeIdentifier_def ToLower_def lower_byte_def byte_def)
qed

lemma session_pair_valid:
  assumes "scopes = sessionScopes \<or> scopes = [''openid'']" "fam \<in> {''u'', ''f''}" "0 \<le> sq"
  shows "validateTokenPair (Some (access_row session_user session_client ''u'' fam 200 scopes Hour))
    (Some (refresh_row session_user session_client ''YWJj'' fam sq 200 scopes (720 * Hour))) = None"
  using assms session_scopes_normal(1) well_formed_sample
  by (auto simp: validateTokenPair_None_iff access_row_def refresh_row_def duration_defs)

lemma sample_login_run: "\<exists>res w'. run_state (Login quiet sample_session sample_login) (world_of session_store) = (Inr res, w')"
proof -
  have user: "FindAuthUserByLoginIdentifier no_fault session_store ''b24040525@njupt.edu.cn'' = Inr session_user"
    by (simp add: FindAuthUserByLoginIdentifier_def session_store_def)
  obtain w1 where client: "run_state (findInternalClient quiet sample_session) (world_of session_store) = (Inr session_client, w1)"
    and w1: "wd_db w1 = session_store" using session_client_found by blast
  obtain pair where pair: "issuePair quiet sample_session session_user session_client 0 [] sessionScopes = Inr pair"
    and rows: "tp_Access pair = access_row session_user session_client ''u'' ''u'' 200 sessionScopes Hour"
      "tp_Refresh pair = refresh_row session_user session_client ''YWJj'' ''u'' 0 200 sessionScopes (720 * Hour)"
    using session_issue[of sessionScopes 0 "[]"] by auto
  note valid = session_pair_valid[of sessionScopes "''u''" 0, simplified]
  have create: "\<exists>x db'. CreatePairWithAudit no_fault (Some (tp_Access pair)) (Some (tp_Refresh pair)) None session_store = (Inr x, db')"
    unfolding rows CreatePairWithAudit_def
    by (simp add: transaction_def createTokenPairInTransaction_def valid)
      (simp add: access_row_def refresh_row_def session_store_def session_row_def sample_defs duration_defs validateTokenFamilyAppend_def
        insert_access_def insert_refresh_def insert_audit_def Let_def user_exists_def client_exists_def find_user_def find_client_def
        session_user_def session_client_def)
  then show ?thesis
    by (auto simp: Login_def loginUser_def loginProven_def Let_def run_bindM checkEndpointLimit_def checkLoginLock_def sample_login_def
        sample_identifier user sample_password rehashOnLogin_def client pair run_writes w1 login_audit_def registerSessionDevice_def
        UserStateDeleted_def)
qed

theorem login_requires_password_witness:
  "\<exists>user. FindAuthUserByLoginIdentifier no_fault session_store ''b24040525@njupt.edu.cn'' = Inr user
    \<and> us_State user \<noteq> UserStateDeleted \<and> verifyPassword quiet sample_session ''verify password'' ''hunter22'' (us_PasswordHash user) = Inr ()"
proof -
  obtain res w' where "run_state (Login quiet sample_session sample_login) (world_of session_store) = (Inr res, w')"
    using sample_login_run by blast
  from login_requires_password[OF this] show ?thesis
    by (auto simp: Let_def sample_login_def sample_identifier checkEndpointLimit_def)
qed

text \<open>Renewing the session with the stored token.\<close>

definition sample_renewal :: RefreshInput where
  "sample_renewal = \<lparr>ri_RefreshToken = ''rt_x'', ri_ClientIP = [], ri_UserAgent = []\<rparr>"

lemma session_token_inv: "token_inv (wd_db (world_of session_store))"
  by (simp add: token_inv_def keys_inv_def chain_inv_def access_inv_def kin_def same_owner_def session_store_def session_row_def
      sample_defs well_formed_sample)

lemma renewal_hash: "hashRefreshToken sample_session ''rt_x'' = Inr ''eHl6''"
proof -
  have "EncodeToString ''xyz'' = ''eHl6''" by code_simp
  then show ?thesis
    by (simp add: hashRefreshToken_def HashRefreshToken_def sample_session_def minimumHMACSecretSize_def refreshTokenPrefix_def HasPrefix_def)
qed

lemma session_rotation:
  assumes "a = access_row session_user session_client ''u'' ''f'' 200 [''openid''] Hour"
    and "r = refresh_row session_user session_client ''YWJj'' ''f'' 1 200 [''openid''] (720 * Hour)"
  shows "\<exists>x db'. RotateRefreshTokenWithAudit no_fault 200 ''f'' ''eHl6'' (Some a) (Some r) None session_store = (Inr x, db')"
proof -
  note inv = session_token_inv[simplified]
  have valid: "validateTokenPair (Some a) (Some r) = None"
    using session_pair_valid[of "[''openid'']" "''f''" 1] assms by simp
  have step: "validateRefreshRotation session_row a r = None"
    by (simp add: validateRefreshRotation_None_iff assms access_row_def refresh_row_def session_row_def sample_refresh_def
        well_formed_sample)
  have row: "session_row \<in> set (db_refresh session_store)" "rt_RevokedAt session_row = None" "rt_ClientID session_row = 5"
    "rt_UserID session_row = 7" "rt_FamilyID session_row = ''f''" "rt_TokenHash session_row = ''eHl6''"
    "200 < rt_ExpiresAt session_row" "rt_CreatedAt session_row = 100"
    by (simp_all add: session_store_def session_row_def sample_refresh_def duration_defs)
  have fresh: "at_TokenID a \<notin> at_TokenID ` set (db_access session_store)"
    "rt_TokenHash r \<notin> rt_TokenHash ` set (db_refresh session_store)" "rt_CreatedAt r < rt_ExpiresAt r"
    "client_exists session_store (rt_ClientID session_row)" "user_exists session_store (rt_UserID session_row)"
    by (simp_all add: assms access_row_def refresh_row_def session_store_def session_row_def sample_defs duration_defs
        client_exists_def user_exists_def find_client_def find_user_def session_user_def session_client_def)
  obtain a' r' db' where w: "rotateWrites no_fault 200 session_row 100 a r None session_store = Inr (Rotated 100 a' r', db')"
    using rotateWrites_ok[OF inv row(1,2) step fresh] by blast
  have fam: "family_by_sequence session_store ''f'' = [session_row]" "\<not> tokenFamilyHasRevokedAccess session_store ''f''"
    by (simp_all add: family_by_sequence_def tokenFamilyHasRevokedAccess_def session_store_def session_row_def sample_defs)
  have "rotateBody no_fault 200 ''f'' ''eHl6'' a r None 0 session_store = Inr (Rotated 100 a' r', db')"
    using find_hash[OF inv row(1)] row step fam w
    by (simp add: rotateBody_def findRefreshTokenForUpdate_def Let_def clampAccess_def clampRefresh_def)
  then show ?thesis using valid by (simp add: RotateRefreshTokenWithAudit_def rotateRefreshToken_def transaction_no_fault)
qed

lemma sample_refresh_run:
  "\<exists>res w'. run_state (Refresh quiet sample_session sample_renewal) (world_of session_store) = (Inr res, w')"
proof -
  have row: "FindRefreshToken no_fault session_store ''eHl6'' = Inr session_row"
    by (simp add: FindRefreshToken_def session_store_def session_row_def)
  have user: "FindAuthUserByID no_fault session_store 7 = Inr session_user"
    by (simp add: FindAuthUserByID_def find_or_missing_def session_store_def)
  obtain w1 where client: "run_state (findInternalClient quiet sample_session) (world_of session_store) = (Inr session_client, w1)"
    and w1: "wd_db w1 = session_store" using session_client_found by blast
  obtain pair where pair: "issuePair quiet sample_session session_user session_client 1 ''f'' [''openid''] = Inr pair"
    and rows: "tp_Access pair = access_row session_user session_client ''u'' ''f'' 200 [''openid''] Hour"
      "tp_Refresh pair = refresh_row session_user session_client ''YWJj'' ''f'' 1 200 [''openid''] (720 * Hour)"
    using session_issue[of "[''openid'']" 1 "''f''"] by auto
  have fields: "rt_RevokedAt session_row = None" "rt_ExpiresAt session_row = 5000 * Second" "rt_ClientID session_row = 5"
    "rt_UserID session_row = 7" "rt_FamilyID session_row = ''f''" "rt_Sequence session_row = 0" "rt_Scopes session_row = [''openid'']"
    by (simp_all add: session_row_def sample_refresh_def)
  have "TrimSpace ''rt_x'' = ''rt_x''" by (simp add: TrimSpace_eq_iff trimmed_graphic graphic_ascii_def byte_def)
  then show ?thesis
    using session_rotation[OF rows]
    by (auto simp: Refresh_def refreshLive_def refreshRotate_def Let_def run_bindM checkEndpointLimit_def sample_renewal_def
        renewal_hash row fields user client pair run_writes w1 refresh_audit_def touchSessionDevice_def revokeEvictedDevice_def
        UserStateDeleted_def duration_defs)
qed

theorem refresh_token_single_use_witness:
  "\<exists>res w' e. run_state (Refresh quiet sample_session sample_renewal) (world_of session_store) = (Inr res, w')
    \<and> fst (run_state (Refresh quiet sample_session sample_renewal) w') = Inl e"
proof -
  obtain res w' where r: "run_state (Refresh quiet sample_session sample_renewal) (world_of session_store) = (Inr res, w')"
    using sample_refresh_run by blast
  from refresh_token_single_use[OF r undisturbed_quiet session_token_inv] show ?thesis using r undisturbed_quiet by blast
qed

text \<open>Changing the password.\<close>

definition sample_change :: ChangePasswordInput where
  "sample_change = \<lparr>cp_UserID = 7, cp_OldPassword = ''hunter22'', cp_NewPassword = ''hunter33'', cp_ActorClientID = [],
     cp_ClientIP = [], cp_UserAgent = []\<rparr>"

lemma sample_change_run:
  "\<exists>u w'. run_state (ChangePassword quiet sample_session sample_change) (world_of session_store) = (Inr u, w')"
proof -
  have user: "FindAuthUserByID no_fault session_store 7 = Inr session_user"
    by (simp add: FindAuthUserByID_def find_or_missing_def session_store_def)
  obtain h where hash: "hashPassword quiet sample_session ''hash password'' ''hunter33'' = Inr h"
    using HashPassword_Inr[of sample_idkey sample_random SlotFree sample_hasher "''hunter33''"]
    by (auto simp: hashPassword_def sample_session_def sample_crypto_def acquire_def sample_random_def)
  have "\<exists>es db'. UpdatePasswordAndRevokeSessions no_fault 7 h 200 RevokeReasonPasswordChanged session_store = (Inr es, db')"
    by (simp add: UpdatePasswordAndRevokeSessions_def transaction_no_fault updatePasswordBody_def Let_def
        revokeAllByUserInTransaction_def rows_affected_def session_store_def)
  then show ?thesis
    by (auto simp: ChangePassword_def replacePassword_def Let_def run_bindM sample_change_def user sample_password hash run_writes
        MinPasswordLength_def UserStateDeleted_def audit_def split_beta)
qed

theorem password_change_ends_sessions_witness:
  "\<exists>u w' e. run_state (ChangePassword quiet sample_session sample_change) (world_of session_store) = (Inr u, w')
    \<and> fst (run_state (authenticate quiet (sample_auth\<lparr>am_Cache := True\<rparr>) ''Bearer t'') w') = Inl e"
proof -
  let ?row = "sample_access\<lparr>at_ID := 2\<rparr>" and ?a = "sample_auth\<lparr>am_Cache := True\<rparr>"
  obtain u w' where r: "run_state (ChangePassword quiet sample_session sample_change) (world_of session_store) = (Inr u, w')"
    using sample_change_run by blast
  have "?row \<in> set (db_access session_store)" "at_UserID ?row = 7" "tc_ID sample_claims = at_TokenID ?row" "at_RevokedAt ?row = None"
    "ev_Now quiet ''update password'' < at_ExpiresAt ?row" "TrimSpace (at_TokenID ?row) \<noteq> []"
    by (simp_all add: session_store_def sample_store_def sample_access_def duration_defs)
  moreover have "am_JWT ?a = Some sample_jwt" "no_stale_cache quiet (ss_Blacklist sample_session) ?a" "verifyToken quiet ?a sample_jwt ''t'' = Inr sample_claims"
    by (simp_all add: sample_auth_def no_stale_cache_def sample_session_def)
  ultimately have "\<exists>e. fst (run_state (authenticate quiet ?a ''Bearer t'') w') = Inl e"
    using password_change_ends_sessions[OF r undisturbed_quiet session_token_inv] sample_header undisturbed_quiet
    unfolding sample_change_def by (simp only: world.simps ChangePasswordInput.simps) blast
  then show ?thesis using r by blast
qed

section \<open>Registration codes\<close>

definition sample_mail :: MailInput where
  "sample_mail = \<lparr>mi_Email = ''b24040525@njupt.edu.cn'', mi_ClientIP = [], mi_UserAgent = []\<rparr>"

lemma sample_address_format: "EmailFormat ''b24040525@njupt.edu.cn''" (is "EmailFormat ?e")
proof -
  have r: "runes ?e = map byte ?e" by (rule runes_ascii) (simp add: byte_def)
  show ?thesis
    by (simp add: EmailFormat_def r CountByte_def ContainsAny_def invisible_runes_def IsSpace_def space_runes_def
        HasControlCharacter_def HasPrefix_def HasSuffix_def Let_def unbyte_def char_of_def bit_Suc_0_iff byte_def)
qed

lemma sample_address: "checkRegisterEmail ''b24040525@njupt.edu.cn'' = Inr ()" (is "checkRegisterEmail ?e = _")
proof -
  have r: "runes ?e = map byte ?e" by (rule runes_ascii) (simp add: byte_def)
  have "WithinLength ?e MaxLoginEmailLength" by (simp add: WithinLength_def RuneCountInString_def r MaxLoginEmailLength_def)
  moreover have "IsLoginEmailDomain ?e" "IsNjuptEmailLocalAllowed ?e" by code_simp+
  ultimately show ?thesis by (simp add: checkRegisterEmail_def sample_address_format)
qed

lemma sample_mailbox: "StripSubaddress (\<lambda>r. r) ''b24040525@njupt.edu.cn'' = ''b24040525@njupt.edu.cn''"
  using StripSubaddress_split[of "''b24040525''" "\<lambda>r. r" "''njupt.edu.cn''"] by (simp add: ToLower_def lower_byte_def byte_def)

lemma sample_code_sent:
  "\<exists>w1. run_state (SendRegisterCode quiet sample_session sample_mail) (world_of session_store) = (Inr ''b24040525@njupt.edu.cn'', w1)
    \<and> wd_mail w1 = [\<lparr>ml_To = ''b24040525@njupt.edu.cn'', ml_Code = ''000007'', ml_Purpose = VerificationPurposeRegister\<rparr>]
    \<and> (\<forall>k. k \<noteq> VerifyCode ''p'' VerificationPurposeRegister ''b24040525@njupt.edu.cn'' \<longrightarrow> rs_string (wd_redis w1) k = None)"
proof -
  have code: "pad6 7 = ''000007''" by code_simp
  have save: "SaveVerificationCode Delivered t ''p'' VerificationPurposeRegister ''b24040525@njupt.edu.cn'' ''000007'' verificationTTL no_data
    = (Inr (), saveVerificationCodeScript t (VerifyCode ''p'' VerificationPurposeRegister ''b24040525@njupt.edu.cn'')
        (VerificationCodeAttempt ''p'' VerificationPurposeRegister ''b24040525@njupt.edu.cn'') ''000007'' 300000 no_data)" for t
    by (simp add: SaveVerificationCode_def VerificationPurposeRegister_def verificationTTL_def Milliseconds_def duration_defs Let_def max_int64_def)
  define r where "r = saveVerificationCodeScript (ev_Millis quiet ''save code'') (VerifyCode ''p'' VerificationPurposeRegister ''b24040525@njupt.edu.cn'')
        (VerificationCodeAttempt ''p'' VerificationPurposeRegister ''b24040525@njupt.edu.cn'') ''000007'' 300000 no_data"
  have "run_state (saveCode quiet sample_session VerificationPurposeRegister ''b24040525@njupt.edu.cn'' ''000007'') (world_of session_store)
      = (Inr (), (world_of session_store)\<lparr>wd_redis := r\<rparr>)"
    by (simp add: saveCode_def run_writes sample_mailbox save r_def)
  moreover have "run_state (checkEmailLimit quiet sample_session email ip) w = (Inr (), w)" for email ip w
    by (simp add: checkEmailLimit_def run_bindM sample_session_def)
  ultimately have "run_state (SendRegisterCode quiet sample_session sample_mail) (world_of session_store) = (Inr ''b24040525@njupt.edu.cn'',
      (world_of session_store)\<lparr>wd_redis := r, wd_mail := [\<lparr>ml_To = ''b24040525@njupt.edu.cn'', ml_Code = ''000007'', ml_Purpose = VerificationPurposeRegister\<rparr>]\<rparr>)"
    by (simp add: SendRegisterCode_def Let_def sample_mail_def sample_identifier sample_address run_bindM
      GenerateVerificationCode_def code SendVerificationCode_def process_step_def audit_def)
  then show ?thesis by (simp add: r_def saveVerificationCodeScript_def cmd_del_def cmd_set_def no_data_def)
qed

theorem registration_code_roundtrip_witness:
  "\<exists>ticket w1 w2. run_state (SendRegisterCode quiet sample_session sample_mail) (world_of session_store) = (Inr ''b24040525@njupt.edu.cn'', w1)
    \<and> run_state (VerifyRegisterCode quiet sample_session \<lparr>vr_Email = ''b24040525@njupt.edu.cn'', vr_Code = ''000007'',
        vr_ClientIP = [], vr_UserAgent = []\<rparr>) w1 = (Inr (ticket, ''b24040525@njupt.edu.cn''), w2)"
proof -
  obtain w1 where r: "run_state (SendRegisterCode quiet sample_session sample_mail) (world_of session_store) = (Inr ''b24040525@njupt.edu.cn'', w1)"
    and m: "wd_mail w1 = [\<lparr>ml_To = ''b24040525@njupt.edu.cn'', ml_Code = ''000007'', ml_Purpose = VerificationPurposeRegister\<rparr>]"
    and k: "\<And>k. k \<noteq> VerifyCode ''p'' VerificationPurposeRegister ''b24040525@njupt.edu.cn'' \<Longrightarrow> rs_string (wd_redis w1) k = None"
    using sample_code_sent by blast
  obtain ticket where t: "generateRegisterTicket quiet ''register ticket'' = Some ticket"
    by (auto simp: generateRegisterTicket_def sample_random_def)
  have "RegisterTicket ''p'' ticket \<noteq> VerifyCode ''p'' VerificationPurposeRegister ''b24040525@njupt.edu.cn''"
    using verify_ticket_keys(1) by metis
  then have "cmd_get (ev_Millis quiet ''save register ticket'') (RegisterTicket (ss_Prefix sample_session) ticket) (wd_redis w1) = None"
    using k by (simp add: cmd_get_def value_at_def entry_def)
  then show ?thesis
    using registration_code_roundtrip[OF r undisturbed_quiet, of "\<lparr>vr_Email = ''b24040525@njupt.edu.cn'', vr_Code = ''000007'',
        vr_ClientIP = [], vr_UserAgent = []\<rparr>" quiet ticket "''b24040525@njupt.edu.cn''"] r t m
    by (auto simp: sample_mail_def sample_session_def[THEN arg_cong, of ss_EncodeText] quiet_def[THEN arg_cong, of ev_Millis])
qed

end
