(* ===== verification/Admin_Properties.thy ===== *)
theory Admin_Properties
  imports Admin_Service Account_Properties Session_Witnesses
begin

text \<open>
  The boundary between managers and administrators, over every write of the console: the repository operations
  that judge the caller under their lock, and the provisioning of accounts, where the service judges.
\<close>

abbreviation administrators :: "database \<Rightarrow> user list" where
  "administrators db \<equiv> filter (\<lambda>u. us_Role u = UserRoleAdmin) (db_users db)"

section \<open>Provisioning\<close>

lemma auditCreate_users:
  "undisturbed ev \<Longrightarrow> db_users (wd_db (snd (run_state (auditCreate ev s i u b c d) w))) = db_users (wd_db w)"
  by (auto simp: auditCreate_def admin_audit_def run_writes CreateAuditLog_def split_beta)

lemma refuseCreate_users:
  "undisturbed ev \<Longrightarrow> db_users (wd_db (snd (run_state (refuseCreate ev s i e) w))) = db_users (wd_db w)"
  by (simp add: refuseCreate_def auditCreate_users split_beta)

lemma CreateAdminUser_rows:
  assumes "us_Role u \<noteq> UserRoleAdmin"
  shows "administrators (snd (CreateAdminUser flt lx pg (Some u) (Some p) i db)) = administrators db"
proof -
  let ?body = "createAdminUserInTransaction flt lx pg u p i"
  have "administrators db' = administrators db" if body: "?body db = Inr (u', db')" for u' db'
  proof -
    obtain db1 db2 x where ins: "insert_user flt ''create admin user'' pg u db = Inr (u', db1)"
      and prof: "insert_profile flt ''create admin profile'' (p\<lparr>pf_UserID := us_ID u'\<rparr>) db1 = Inr (x, db2)"
      and bnd: "createIdentityFor flt ''create admin user identity'' u' i db2 = Inr ((), db')"
      using body by (auto simp: createAdminUserInTransaction_def createUserAndProfile_def bindE_eq_Inr_iff)
    have "db_users db' = db_users db1"
      using prof bnd by (auto simp: insert_profile_def createIdentityFor_def insert_identity_def stmt_Inr_iff bindE_eq_Inr_iff Let_def
          split: option.splits if_splits)
    moreover have "db_users db1 = db_users db @ [u']" "us_Role u' \<noteq> UserRoleAdmin"
      using insert_user_InrD(1,8)[OF ins] assms by (auto simp: or_default_def role_defs)
    ultimately show ?thesis by simp
  qed
  then show ?thesis by (cases rule: transaction_cases[of ?body db flt]) (auto simp: CreateAdminUser_def)
qed

lemma checks_keep:
  assumes "undisturbed ev"
  shows "snd (run_state (bindM (checkStudentID ev s v) (\<lambda>_. bindM (checkMailboxPrefix ev s v) (\<lambda>_. checkPersonalEmail ev s v))) w) = w"
  using assms
  by (auto simp: checkStudentID_def checkMailboxPrefix_def checkPersonalEmail_def run_bindM split_beta
      split: sum.split option.split prod.split)

lemma provision_rows:
  assumes "undisturbed ev" "vc_role v \<noteq> UserRoleAdmin"
  shows "administrators (wd_db (snd (run_state (provision ev s input v) w))) = administrators (wd_db w)"
proof -
  have "us_Role (provisioned_account v h) \<noteq> UserRoleAdmin" for h using assms(2) by (simp add: provisioned_account_def)
  note rows = CreateAdminUser_rows[OF this]
  show ?thesis using assms(1)
    by (auto simp: provision_def run_writes refuseCreate_users auditCreate_users rows split_beta split: sum.split)
qed

lemma CreateUser_rows:
  assumes "undisturbed ev" "cu_AdminRole input \<noteq> UserRoleAdmin"
  shows "administrators (wd_db (snd (run_state (CreateUser ev s input) w))) = administrators (wd_db w)"
proof (cases "validateCreate (ads_Lower s) (ads_Digit s) input (ev_Now ev ''validate'')")
  case (Inl e)
  then show ?thesis using assms(1) by (simp add: CreateUser_def refuseCreate_users)
next
  case (Inr v)
  show ?thesis
  proof (cases "managerBoundary (cu_AdminRole input) v")
    case None
    then have "vc_role v \<noteq> UserRoleAdmin" using assms(2) by (auto simp: managerBoundary_def callerIsAdmin_def split: if_splits)
    then show ?thesis using Inr None assms(1) checks_keep[OF assms(1), of s v w] provision_rows[OF assms(1), of v s input]
      by (auto simp: CreateUser_def refuseCreate_users split_beta split: sum.split)
  next
    case (Some e)
    then show ?thesis using Inr assms(1) by (simp add: CreateUser_def refuseCreate_users)
  qed
qed

text \<open>C31: A caller who is not an administrator can neither edit, close nor reopen an administrator's account, nor
  promote anybody, nor provision a new account with that role: after each of the four writes, whichever of its
  statements fail, the accounts with the role are exactly those of before. The provisioning runs with no other
  request between its own calls.\<close>

theorem manager_boundary:
  assumes "distinct (map us_ID (db_users db))" "caller \<noteq> UserRoleAdmin"
    and "db' = snd (UpdateAdminUser flt dx lx pg i up caller t db)
      \<or> db' = snd (SoftDeleteAndRevokeSessions flt i caller t db) \<or> db' = snd (RestoreUser flt dx i caller t db)
      \<or> (\<exists>ev s input w. undisturbed ev \<and> cu_AdminRole input = caller \<and> wd_db w = db
           \<and> db' = wd_db (snd (run_state (CreateUser ev s input) w)))"
  shows "filter (\<lambda>u. us_Role u = UserRoleAdmin) (db_users db') = filter (\<lambda>u. us_Role u = UserRoleAdmin) (db_users db)"
  using assms(3) manager_boundary_store[OF assms(1,2)] CreateUser_rows assms(2) by metis

section \<open>Witness\<close>

text \<open>A manager asks for an administrator account with valid data; the name is one Chinese character.\<close>

definition given_name :: string where "given_name = [CHR 0xE6, CHR 0x9D, CHR 0x8E]"

lemma name_runes: "runes given_name = [0x674E]"
  by (simp add: given_name_def runes.simps byte_def Let_def cont_in_def)

lemma space_encodings_ends:
  assumes "e \<in> set space_encodings"
  shows "byte (hd e) \<noteq> 0xE6" "byte (hd (rev e)) \<noteq> 0x8E" "e \<noteq> []"
  using assms by (auto simp: space_encodings_def space_runes_def encode_rune_def valid_rune_def encode_valid_rune_def)

lemma prefix_hd: "prefix e (x # xs) \<Longrightarrow> e \<noteq> [] \<Longrightarrow> hd e = x"
  by (cases e) (auto)

lemma name_trimmed: "TrimSpace given_name = given_name"
proof -
  have "\<not> prefix e given_name" "\<not> prefix (rev e) (rev given_name)" if "e \<in> set space_encodings" for e
    using space_encodings_ends[OF that] by (auto simp: given_name_def byte_def dest!: prefix_hd)
  then show ?thesis by (simp add: TrimSpace_eq_iff trimmed_def no_prefix_def)
qed

lemma name_field: "RequiredField f given_name 255 = Inr given_name" "\<not> IsInvalidName given_name"
proof -
  have "given_name \<noteq> []" by (simp add: given_name_def)
  then show "RequiredField f given_name 255 = Inr given_name" "\<not> IsInvalidName given_name"
    by (simp_all add: RequiredField_def Let_def validateTrimmed_def WithinLength_def RuneCountInString_def HasControlCharacter_def
        IsInvalidName_def name_trimmed name_runes inNameRanges_def nameRanges_def)
qed

lemma plain_field:
  assumes "\<forall>c\<in>set s. graphic_ascii c" "s \<noteq> []" "length s \<le> n"
  shows "TrimSpace s = s" "RequiredField f s n = Inr s"
proof -
  show t: "TrimSpace s = s" using assms(1) by (simp add: TrimSpace_eq_iff trimmed_graphic)
  have r: "runes s = map byte s" using assms(1) by (intro runes_ascii) (auto simp: graphic_ascii_def)
  show "RequiredField f s n = Inr s" using assms unfolding RequiredField_def t
    by (auto simp: Let_def validateTrimmed_def WithinLength_def RuneCountInString_def HasControlCharacter_def r list_ex_iff graphic_ascii_def)
qed

definition admin_provision :: CreateUserInput where
  "admin_provision = \<lparr>cu_Name = given_name, cu_PhoneNumber = ''1'', cu_QQNumber = ''2'', cu_StudentID = ''B24040525'',
     cu_LoginEmail = ''b24040525@njupt.edu.cn'', cu_Major = None, cu_College = None, cu_Role = Some ''admin'', cu_State = Some ''njupter'',
     cu_PersonalEmail = None, cu_AdminUserID = 7, cu_AdminRole = ''manager'', cu_ActorClientID = [], cu_ClientIP = [], cu_UserAgent = []\<rparr>"

definition sample_console :: admin_service where
  "sample_console = \<lparr>ads_Audit = True, ads_Passwords = sample_hasher, ads_ConsoleClientID = ''web'', ads_Crypto = sample_crypto,
     ads_Lower = (\<lambda>r. r), ads_PgLower = (\<lambda>s. s), ads_Digit = (\<lambda>_. False)\<rparr>"

lemma admin_provision_refused:
  "fst (run_state (CreateUser quiet sample_console admin_provision) w) = Inl (newError_admin ErrProtected_admin ''admin role not grantable'')"
proof -
  let ?e = "''b24040525@njupt.edu.cn''"
  have "RuneCountInString ?e \<le> MaxLoginEmailLength" "IsLoginEmailDomain ?e" "IsNjuptEmailLocalAllowed ?e"
    using sample_address by (auto simp: checkRegisterEmail_def WithinLength_def split: if_splits)
  then have mail: "validateLoginEmail (\<lambda>r. r) ?e = Inr ?e"
    unfolding validateLoginEmail_def sample_identifier[unfolded normalizeIdentifier_def] by (simp add: sample_address_format not_less)
  have "RequiredField f ''1'' 20 = Inr ''1''" "RequiredField f ''2'' 20 = Inr ''2''" "RequiredField f ''B24040525'' 50 = Inr ''B24040525''" for f
    by (rule plain_field; simp add: graphic_ascii_def byte_def)+
  moreover have "TrimSpace ''admin'' = ''admin''" "TrimSpace ''njupter'' = ''njupter''"
    by (simp_all add: TrimSpace_eq_iff trimmed_graphic graphic_ascii_def byte_def)
  moreover note name_field
  ultimately have "validateCreate (\<lambda>r. r) (\<lambda>_. False) admin_provision 200 = Inr \<lparr>vc_name = given_name, vc_phoneNumber = ''1'', vc_qqNumber = ''2'',
      vc_studentID = ''B24040525'', vc_major = [], vc_college = CollegeOther, vc_loginEmail = ?e, vc_role = ''admin'', vc_state = ''njupter'',
      vc_stateManual = True, vc_personalEmail = None\<rparr>"
    unfolding validateCreate_def admin_provision_def CreateUserInput.simps
    by (simp add: checkedField_def mail MaxNameLength_def MaxPhoneNumberLength_def MaxQQNumberLength_def MaxStudentIDLength_def
        createCollege_def createPersonalEmail_def createRole_def createState_def validRole_def validState_def role_defs state_defs)
  moreover have "cu_AdminRole admin_provision = ''manager''" by (simp add: admin_provision_def)
  ultimately show ?thesis
    by (simp add: CreateUser_def sample_console_def managerBoundary_def callerIsAdmin_def role_defs refuseCreate_def split_beta)
qed

theorem manager_boundary_witness:
  "fst (run_state (CreateUser quiet sample_console admin_provision) (world_of staffed_store))
     = Inl (newError_admin ErrProtected_admin ''admin role not grantable'')
   \<and> filter (\<lambda>u. us_Role u = UserRoleAdmin)
       (db_users (wd_db (snd (run_state (CreateUser quiet sample_console admin_provision) (world_of staffed_store))))) = [sample_admin]"
proof -
  have d: "distinct (map us_ID (db_users staffed_store))" "''manager'' \<noteq> UserRoleAdmin"
    and a: "filter (\<lambda>u. us_Role u = UserRoleAdmin) (db_users staffed_store) = [sample_admin]"
    by (simp_all add: staffed_store_def sample_admin_def sample_user_def role_defs)
  let ?db = "wd_db (snd (run_state (CreateUser quiet sample_console admin_provision) (world_of staffed_store)))"
  have "\<exists>ev s input w. undisturbed ev \<and> cu_AdminRole input = ''manager'' \<and> wd_db w = staffed_store
      \<and> ?db = wd_db (snd (run_state (CreateUser ev s input) w))"
    by (intro exI[of _ quiet] exI[of _ sample_console] exI[of _ admin_provision] exI[of _ "world_of staffed_store"])
      (simp add: undisturbed_def admin_provision_def)
  then show ?thesis using manager_boundary[OF d, of ?db] a admin_provision_refused by simp
qed

end
