(* ===== verification/Device_Properties.thy ===== *)
theory Device_Properties
  imports Device_Store Auth_Store_Properties
begin

text \<open>
  The device cap as an invariant of every sequence of device operations, and the journal that
  makes an eviction durable until the evicted family is revoked.
\<close>

section \<open>Frames\<close>

lemma zset_frames [simp]:
  "rs_zset (cmd_hset now k fvs r) = rs_zset r" "rs_zset (hash_expire now k s r) = rs_zset r"
  "rs_zset (hash_del k r) = rs_zset r" "rs_zset (cmd_set now k v ms r) = rs_zset r"
  by (simp_all add: cmd_hset_def hash_expire_def hash_del_def cmd_set_def)

lemma value_write_at [simp]: "value_at now (write_at now k v ks) k = Some v"
proof (cases "entry now ks k")
  case (Some e)
  then show ?thesis using entry_SomeD[of now ks k "fst e" "snd e"]
    by (cases e; cases "snd e") (auto simp: write_at_def value_at_def)
qed (simp add: write_at_def value_at_def)

lemma zset_write [simp]:
  "zset now k' (zset_write now k z r) = (if k' = k then z else zset now k' r)"
proof (cases "k' = k")
  case True
  then show ?thesis by (cases "z = []") (simp_all add: zset_def zset_write_def, simp add: value_at_def)
next
  case False
  then show ?thesis by (simp add: zset_def zset_write_def value_at_def write_at_def)
qed

lemma zset_cong: "rs_zset r = rs_zset r' \<Longrightarrow> zset now k r = zset now k r'"
  by (simp add: zset_def)

lemma zset_frame [simp]:
  "zset now k (cmd_hset t h fvs r) = zset now k r" "zset now k (hash_expire t h s r) = zset now k r"
  "zset now k (hash_del h r) = zset now k r" "zset now k (cmd_set t h v ms r) = zset now k r"
  by (simp_all add: zset_def)

lemma zset_expire_pos [simp]: "0 < s \<Longrightarrow> zset now k' (zset_expire now k s r) = zset now k' r"
  by (cases "k' = k") (auto simp: zset_def zset_expire_def pexpire_def value_at_def split: option.splits)

lemma zset_del [simp]: "zset now k' (zset_del k r) = (if k' = k then [] else zset now k' r)"
  by (simp add: zset_def zset_del_def value_at_def)

lemma zset_later: "now \<le> t \<Longrightarrow> zset t k r = zset now k r \<or> zset t k r = []"
  by (auto simp: zset_def value_at_def entry_def alive_def split: option.splits)

lemma hash_exists_hset: "hash_exists now k' (cmd_hset now k fvs r) \<longleftrightarrow> k' = k \<or> hash_exists now k' r"
proof (cases "k' = k")
  case False
  then show ?thesis by (simp add: hash_exists_def cmd_hset_def value_at_def write_at_def)
qed (simp add: hash_exists_def cmd_hset_def)

lemma hash_exists_expire: "0 < s \<Longrightarrow> hash_exists now k' (hash_expire now k s r) = hash_exists now k' r"
  by (cases "k' = k") (auto simp: hash_exists_def hash_expire_def pexpire_def value_at_def split: option.splits)

lemma pending_not_Devices [simp]: "pending_key pre \<noteq> Devices pre u" "Devices pre u \<noteq> pending_key pre"
proof -
  have "CHR '':'' \<notin> set (decimal u)"
    using decimal_nat_digits[of "nat u"] decimal_nat_digits[of "nat (- u)"] by (auto simp: decimal_def byte_def)
  then show "pending_key pre \<noteq> Devices pre u"
    using join_key_inject[of "[''{dev}'', ''pending_evictions'']" "[''{dev}'', ''devices'', decimal u]" pre]
    by (auto simp: pending_key_def Devices_def)
  then show "Devices pre u \<noteq> pending_key pre" by metis
qed

section \<open>The cap\<close>

definition bounded :: "string \<Rightarrow> (string \<Rightarrow> nat) \<Rightarrow> millis \<Rightarrow> redis \<Rightarrow> bool" where
  "bounded pre B now r \<longleftrightarrow> (\<forall>u. length (zset now (Devices pre u) r) \<le> B (Devices pre u))"

lemma bounded_later: "bounded pre B now r \<Longrightarrow> now \<le> t \<Longrightarrow> bounded pre B t r"
  unfolding bounded_def by (metis zset_later list.size(3) zero_le)

lemma bounded_hash_del [simp]: "bounded pre B now (hash_del h r) = bounded pre B now r"
  by (simp add: bounded_def)

lemma bounded_write:
  "bounded pre B now r \<Longrightarrow> k \<notin> range (Devices pre) \<or> length z \<le> B k \<Longrightarrow> bounded pre B now (zset_write now k z r)"
  by (auto simp: bounded_def)

lemma bounded_zrem: "bounded pre B now r \<Longrightarrow> bounded pre B now (cmd_zrem now k m r)"
  unfolding cmd_zrem_def
  by (rule bounded_write) (auto simp: bounded_def intro: order_trans[OF length_filter_le])

lemma bounded_sweep: "bounded pre B now r \<Longrightarrow> bounded pre B now (sweep_phantoms now pre k r)"
proof -
  have "bounded pre B now (fold (\<lambda>m r. if hash_exists now (deviceHashKeyPrefix pre @ m) r then r else cmd_zrem now k m r) ms r)"
    if "bounded pre B now r" for ms r
    using that by (induction ms arbitrary: r) (auto intro: bounded_zrem)
  then show "bounded pre B now r \<Longrightarrow> bounded pre B now (sweep_phantoms now pre k r)" by (simp add: sweep_phantoms_def)
qed

lemma length_zset_insert: "length (zset_insert x z) = Suc (length z)"
  by (induction z) simp_all

lemma bounded_evict:
  assumes "bounded pre (B(Devices pre u := Suc L)) now r" "B (Devices pre u) = L"
  shows "bounded pre B now (snd (evict_oldest now pre (Devices pre u) (int L) r))"
proof -
  let ?k = "Devices pre u"
  have other: "length (zset now (Devices pre v) r) \<le> B (Devices pre v)" if "Devices pre v \<noteq> ?k" for v
    using assms(1)[unfolded bounded_def, rule_format, of v] that by simp
  have self: "length (zset now ?k r) \<le> Suc L" using assms(1)[unfolded bounded_def, rule_format, of u] by simp
  have "length (zset now (Devices pre v) (snd (evict_oldest now pre ?k (int L) r))) \<le> B (Devices pre v)" for v
  proof (cases "Devices pre v = ?k")
    case True
    show ?thesis unfolding True assms(2) using self
      by (cases "zset now ?k r") (auto simp: evict_oldest_def split_beta)
  next
    case False
    then show ?thesis using other[OF False] by (cases "zset now ?k r") (auto simp: evict_oldest_def split_beta)
  qed
  then show ?thesis by (simp add: bounded_def)
qed

lemma bounded_stage:
  assumes "bounded pre B now r" "0 < dc_Seconds c" "dc_Limit c = int L" "B (Devices pre (dc_User c)) = L"
  shows "bounded pre B now (snd (stage_device now pre c r))"
proof -
  let ?k = "Devices pre (dc_User c)" and ?B = "B(Devices pre (dc_User c) := Suc L)"
  have "length (filter (\<lambda>x. snd x \<noteq> dc_Device c) (zset now ?k r)) \<le> L"
    using assms(1,4) by (auto simp: bounded_def intro: order_trans[OF length_filter_le])
  then have add: "bounded pre ?B now (cmd_zadd now ?k (dc_Score c) (dc_Device c) r)"
    using assms(1) by (auto simp: bounded_def cmd_zadd_def length_zset_insert)
  let ?r1 = "zset_expire now ?k (dc_Seconds c) (cmd_zadd now ?k (dc_Score c) (dc_Device c) r)"
  have "bounded pre ?B now (hash_expire now (Device pre (dc_Device c)) (dc_Seconds c)
      (cmd_hset now (Device pre (dc_Device c)) fvs ?r1))" for fvs
    using add assms(2) by (simp add: bounded_def)
  then show ?thesis unfolding stage_device_def Let_def
    using bounded_evict[OF bounded_sweep, of pre B "dc_User c" L now] assms(3,4) by simp
qed

lemma bounded_finish: "bounded pre B now r \<Longrightarrow> bounded pre B now (finish J now pre c ev enc r)"
  by (auto simp: finish_def Let_def bounded_def cmd_zadd_def)

text \<open>A step of the device store: one operation of the package at the server's current time, or the
  passing of time. The cap is the one the configuration gives to every call.\<close>

inductive device_step :: "codec \<Rightarrow> string \<Rightarrow> nat \<Rightarrow> millis \<times> redis \<Rightarrow> millis \<times> redis \<Rightarrow> bool"
  for J :: codec and pre :: string and L :: nat where
  tick: "now \<le> t \<Longrightarrow> device_step J pre L (now, r) (t, r)"
| register: "device_step J pre L (now, r) (now, snd (RegisterDevice J n now pre opID u d ua ip at ttl (int L) ops r))"
| touch: "device_step J pre L (now, r) (now, snd (TouchDevice J n now pre opID u d ua ip at ttl (int L) ops r))"
| remove: "device_step J pre L (now, r) (now, snd (RemoveDevice n now pre u d r))"
| remove_all: "device_step J pre L (now, r) (now, snd (RemoveAllDevices n now pre u r))"
| list_devices: "device_step J pre L (now, r) (now, snd (ListDevices parse n now pre u r))"
| ack: "device_step J pre L (now, r) (now, snd (AckDeviceEviction n now pre receipt r))"

lemma bounded_call:
  "bounded pre B now r \<Longrightarrow> bounded pre B now (snd (script r)) \<Longrightarrow> bounded pre B now (snd (call n script r))"
  using snd_call[of n script r] by metis

lemma bounded_fold_hash_del: "bounded pre B now (fold (\<lambda>m. hash_del (h m)) ms r) = bounded pre B now r"
  by (induction ms arbitrary: r) (simp_all add: bounded_def)

lemma bounded_register_script:
  "bounded pre (\<lambda>_. L) now r \<Longrightarrow> 0 < dc_Seconds c \<Longrightarrow> dc_Limit c = int L \<Longrightarrow>
     bounded pre (\<lambda>_. L) now (snd (registerDeviceScript J now pre c r))"
  using bounded_stage[of pre "\<lambda>_. L" now r c L]
  by (auto simp: registerDeviceScript_def split_beta intro!: bounded_finish split: option.splits)

lemma bounded_touch_script:
  "bounded pre (\<lambda>_. L) now r \<Longrightarrow> 0 < dc_Seconds c \<Longrightarrow> dc_Limit c = int L \<Longrightarrow>
     bounded pre (\<lambda>_. L) now (snd (touchDeviceScript J now pre c r))"
  using bounded_stage[of pre "\<lambda>_. L" now r c L]
  by (auto simp: touchDeviceScript_def split_beta Let_def bounded_def intro!: bounded_finish[unfolded bounded_def] split: option.splits)

lemma device_step_bounded:
  assumes "device_step J pre L x y" "bounded pre (\<lambda>_. L) (fst x) (snd x)"
  shows "bounded pre (\<lambda>_. L) (fst y) (snd y)"
  using assms
proof cases
  case (register now r n opID u d ua ip at ttl ops)
  then show ?thesis using assms(2)
    by (auto simp: RegisterDevice_def device_call_of_def intro!: bounded_call bounded_register_script)
next
  case (touch now r n opID u d ua ip at ttl ops)
  then show ?thesis using assms(2)
    by (auto simp: TouchDevice_def device_call_of_def split_beta intro!: bounded_call bounded_touch_script)
next
  case (remove now r n u d)
  then show ?thesis using assms(2) by (auto simp: RemoveDevice_def intro!: bounded_call bounded_zrem)
next
  case (remove_all now r n u)
  then show ?thesis using assms(2)
    by (auto simp: RemoveAllDevices_def bounded_fold_hash_del intro!: bounded_call) (auto simp: bounded_def)
next
  case (list_devices now r parse n u)
  then show ?thesis using assms(2) by (auto simp: ListDevices_def intro!: bounded_call bounded_sweep)
next
  case (ack now r n receipt)
  then show ?thesis using assms(2) by (auto simp: AckDeviceEviction_def intro!: bounded_call bounded_zrem)
qed (auto intro: bounded_later)

text \<open>C26: no user ever has more devices than the cap: in every state reachable from the empty store by
  device operations of any users, with lost requests and replies and the passing of time, every
  device set holds at most \<open>L\<close> members.\<close>

theorem device_cap:
  assumes "(device_step J pre L)\<^sup>*\<^sup>* (t0, \<lparr>rs_string = Map.empty, rs_zset = Map.empty, rs_hash = Map.empty\<rparr>) (t, r)"
  shows "length (zset t (Devices pre u) r) \<le> L"
proof -
  have "bounded pre (\<lambda>_. L) t0 \<lparr>rs_string = Map.empty, rs_zset = Map.empty, rs_hash = Map.empty\<rparr>"
    by (simp add: bounded_def zset_def value_at_def)
  with assms have "bounded pre (\<lambda>_. L) (fst (t, r)) (snd (t, r))"
    by (induction rule: rtranclp_induct) (auto dest: device_step_bounded)
  then show ?thesis by (simp add: bounded_def)
qed

definition plain_codec :: codec where
  "plain_codec = \<lparr>cj_text = id, cj_text_decode = Some, cj_pair = snd, cj_pair_decode = (\<lambda>s. Some (0, s)),
     cj_eviction = de_Evicted, cj_eviction_decode = (\<lambda>s. None)\<rparr>"

theorem device_cap_witness:
  "length (zset 0 (Devices [] 7) (snd (RegisterDevice plain_codec Delivered 0 [] ''op'' 7 ''f'' ''ua'' ''ip'' 0 Hour 5 []
     \<lparr>rs_string = Map.empty, rs_zset = Map.empty, rs_hash = Map.empty\<rparr>))) \<le> 5"
proof -
  let ?r = "\<lparr>rs_string = Map.empty, rs_zset = Map.empty, rs_hash = Map.empty\<rparr> :: redis"
  have "(device_step plain_codec [] 5)\<^sup>*\<^sup>* (0, ?r)
     (0, snd (RegisterDevice plain_codec Delivered 0 [] ''op'' 7 ''f'' ''ua'' ''ip'' 0 Hour (int 5) [] ?r))"
    by (rule r_into_rtranclp, rule device_step.register)
  from device_cap[OF this, of 7] show ?thesis by simp
qed

section \<open>The eviction journal\<close>

lemma Device_eq: "deviceHashKeyPrefix pre @ m = Device pre m"
  by (cases "pre = []") (simp_all add: deviceHashKeyPrefix_def Device_def join_key_def)

lemma set_zset_insert: "set (zset_insert x z) = insert x (set z)"
  by (induction z) auto

lemma distinct_zset_insert:
  "snd x \<notin> snd ` set z \<Longrightarrow> distinct (map snd z) \<Longrightarrow> distinct (map snd (zset_insert x z))"
  by (induction z) (auto simp: set_zset_insert)

lemma sweep_zset:
  "\<exists>P. zset now k (sweep_phantoms now pre k r) = filter P (zset now k r)"
proof -
  have "\<exists>P. zset now k (fold (\<lambda>m r. if hash_exists now (deviceHashKeyPrefix pre @ m) r then r else cmd_zrem now k m r) ms r)
      = filter P (zset now k r)" for ms r
  proof (induction ms arbitrary: r)
    case Nil
    show ?case by (rule exI[of _ "\<lambda>_. True"]) simp
  next
    case (Cons m ms)
    let ?r = "if hash_exists now (deviceHashKeyPrefix pre @ m) r then r else cmd_zrem now k m r"
    obtain P where "zset now k (fold (\<lambda>m r. if hash_exists now (deviceHashKeyPrefix pre @ m) r then r else cmd_zrem now k m r) ms ?r)
      = filter P (zset now k ?r)" using Cons.IH by blast
    then show ?case by (cases "hash_exists now (deviceHashKeyPrefix pre @ m) r") (auto simp: cmd_zrem_def)
  qed
  then show ?thesis by (simp add: sweep_phantoms_def)
qed

lemma stage_zset:
  assumes "stage_device now pre c r = (ev, r')" "ev \<noteq> []" "0 < dc_Seconds c"
  shows "ev \<in> insert (dc_Device c) (snd ` set (zset now (Devices pre (dc_User c)) r))"
    "distinct (map snd (zset now (Devices pre (dc_User c)) r)) \<Longrightarrow> ev \<notin> snd ` set (zset now (Devices pre (dc_User c)) r')"
    "\<not> hash_exists now (Device pre ev) r'"
proof -
  let ?k = "Devices pre (dc_User c)"
  let ?z = "zset_insert (dc_Score c, dc_Device c) (filter (\<lambda>x. snd x \<noteq> dc_Device c) (zset now ?k r))"
  obtain r2 where e: "evict_oldest now pre ?k (dc_Limit c) (sweep_phantoms now pre ?k r2) = (ev, r')" "zset now ?k r2 = ?z"
    using assms(1,3) by (auto simp: stage_device_def Let_def cmd_zadd_def)
  obtain P where z: "zset now ?k (sweep_phantoms now pre ?k r2) = filter P ?z" using sweep_zset[of now ?k pre r2] e(2) by auto
  obtain s rest where h: "filter P ?z = (s, ev) # rest"
    "r' = hash_del (deviceHashKeyPrefix pre @ ev) (zset_write now ?k rest (sweep_phantoms now pre ?k r2))"
    using e(1) assms(2) z by (auto simp: evict_oldest_def split: list.splits prod.splits if_splits)
  have "(s, ev) \<in> set ?z" using h(1) by (metis filter_is_subset list.set_intros(1) subsetD)
  then show "ev \<in> insert (dc_Device c) (snd ` set (zset now ?k r))" by (force simp: set_zset_insert)
  show "ev \<notin> snd ` set (zset now ?k r')" if "distinct (map snd (zset now ?k r))"
  proof -
    have "distinct (map snd ?z)" using that by (intro distinct_zset_insert) (auto simp: distinct_map_filter)
    then have "distinct (map snd (filter P ?z))" by (rule distinct_map_filter)
    then show ?thesis by (simp add: h)
  qed
  show "\<not> hash_exists now (Device pre ev) r'" by (simp add: h(2) hash_exists_def hash_del_def value_at_def Device_eq)
qed

text \<open>C27: a login or refresh that pushes a device out leaves, in the same atomic step, a journal entry
  naming the evicted device, the user and the issuance that caused the eviction; the device was one
  of the user's, it has left the set and its record is gone.\<close>

theorem eviction_journaled:
  fixes J :: codec and op :: DeviceOperation and u :: int
  assumes ok: "RegisterDevice J Delivered now pre opID u d ua ip at ttl limit [op] r = (Inr ev, r')"
    and "ev \<noteq> []" "do_TokenHash op \<noteq> []" "cmd_get now (operation_key pre opID) r = None"
    and ids: "distinct (map snd (zset now (Devices pre u) r))"
  defines "e \<equiv> \<lparr>de_OperationID = opID, de_TokenHash = do_TokenHash op, de_UserID = u,
      de_ExpiresAt = do_ExpiresAt op div Second + 1, de_SourceFamily = d, de_Evicted = ev\<rparr>"
  shows "(de_ExpiresAt e, cj_eviction J e) \<in> set (zset now (pending_key pre) r')
    \<and> ev \<in> insert d (snd ` set (zset now (Devices pre u) r))
    \<and> ev \<notin> snd ` set (zset now (Devices pre u) r') \<and> \<not> hash_exists now (Device pre ev) r'"
proof -
  let ?c = "device_call_of u d ua ip at ttl limit [op] opID"
  have ttl: "0 < ttl div Second" and s: "registerDeviceScript J now pre ?c r = (Inr ev, r')"
    using ok by (auto simp: RegisterDevice_def split: if_splits)
  have c: "dc_User ?c = u" "dc_Device ?c = d" "dc_TokenHash ?c = do_TokenHash op" "dc_OperationID ?c = opID"
    "dc_Deadline ?c = de_ExpiresAt e" "0 < dc_Seconds ?c" using ttl by (simp_all add: device_call_of_def deviceOperation_def e_def)
  obtain r1 where st: "stage_device now pre ?c r = (ev, r1)" and r': "r' = finish J now pre ?c ev (cj_text J ev) r1"
    using s assms(4) c by (auto simp: registerDeviceScript_def split: if_splits prod.splits)
  note z = stage_zset[OF st assms(2) c(6), unfolded c]
  have fin: "r' = cmd_set now (operation_key pre opID) (cj_text J ev) 60000
      (cmd_zadd now (pending_key pre) (de_ExpiresAt e) (cj_eviction J e) r1)"
    using assms(2,3) c by (simp add: r' finish_def Let_def e_def)
  have "zset now (Devices pre u) r' = zset now (Devices pre u) r1" by (simp add: fin cmd_zadd_def)
  moreover have "hash_exists now k r' = hash_exists now k r1" for k
    by (simp add: fin hash_exists_def cmd_zadd_def zset_write_def cmd_set_def)
  moreover have "(de_ExpiresAt e, cj_eviction J e) \<in> set (zset now (pending_key pre) r')"
    by (simp add: fin cmd_zadd_def set_zset_insert)
  ultimately show ?thesis using z ids by simp
qed

definition one_device :: redis where
  "one_device = no_data\<lparr>rs_zset := [Devices [] 7 \<mapsto> ([(0, ''a'')], None)],
     rs_hash := [Device [] ''a'' \<mapsto> (Map.empty, None)]\<rparr>"

lemma one_device_register:
  "\<exists>r'. RegisterDevice plain_codec Delivered 5 [] ''op'' 7 ''b'' ''ua'' ''ip'' Second Hour 1
     [\<lparr>do_TokenHash = ''h'', do_ExpiresAt = Hour\<rparr>] one_device = (Inr ''a'', r')"
proof -
  let ?c = "device_call_of 7 ''b'' ''ua'' ''ip'' Second Hour 1 [\<lparr>do_TokenHash = ''h'', do_ExpiresAt = Hour\<rparr>] ''op''"
  let ?k = "Devices [] 7"
  have c: "dc_User ?c = 7" "dc_Device ?c = ''b''" "dc_Score ?c = 1000" "dc_Seconds ?c = 3600" "dc_Limit ?c = 1"
    by (simp_all add: device_call_of_def UnixMilli_def duration_defs)
  have z0: "zset 5 ?k one_device = [(0, ''a'')]" "zset 5 (pending_key []) one_device = []"
    by (simp_all add: one_device_def zset_def value_at_def entry_def alive_def)
  obtain r2 where st: "stage_device 5 [] ?c one_device = evict_oldest 5 [] ?k 1 (sweep_phantoms 5 [] ?k r2)"
    and z2: "zset 5 ?k r2 = [(0, ''a''), (1000, ''b'')]"
    and h: "hash_exists 5 (Device [] ''a'') r2" "hash_exists 5 (Device [] ''b'') r2"
  proof
    let ?r1 = "zset_expire 5 ?k 3600 (cmd_zadd 5 ?k 1000 ''b'' one_device)"
    let ?fvs = "[(''ua'', dc_UA ?c), (''ip'', dc_IP ?c), (''login_time'', dc_Stamp ?c), (''last_seen'', dc_Stamp ?c)]"
    let ?r2 = "hash_expire 5 (Device [] ''b'') 3600 (cmd_hset 5 (Device [] ''b'') ?fvs ?r1)"
    show "stage_device 5 [] ?c one_device = evict_oldest 5 [] ?k 1 (sweep_phantoms 5 [] ?k ?r2)"
      by (simp only: stage_device_def Let_def c)
    show "zset 5 ?k ?r2 = [(0, ''a''), (1000, ''b'')]" by (simp add: cmd_zadd_def z0 zset_le_def)
    have "hash_exists 5 (Device [] ''a'') ?r1"
      by (simp add: hash_exists_def zset_expire_def cmd_zadd_def zset_write_def one_device_def value_at_def entry_def alive_def)
    then show "hash_exists 5 (Device [] ''a'') ?r2" "hash_exists 5 (Device [] ''b'') ?r2"
      by (simp_all add: hash_exists_expire hash_exists_hset)
  qed
  have "sweep_phantoms 5 [] ?k r2 = r2" using h by (simp add: sweep_phantoms_def z2 Device_eq)
  then have "fst (stage_device 5 [] ?c one_device) = ''a''" using z2 by (simp add: st evict_oldest_def)
  moreover have "cmd_get 5 (operation_key [] (dc_OperationID ?c)) one_device = None"
    by (simp add: cmd_get_def value_at_def one_device_def no_data_def)
  then have "fst (registerDeviceScript plain_codec 5 [] ?c one_device) = Inr (fst (stage_device 5 [] ?c one_device))"
    by (simp add: registerDeviceScript_def journal_full_def z0 split_beta)
  ultimately show ?thesis by (simp add: RegisterDevice_def duration_defs) (metis prod.collapse)
qed

theorem eviction_journaled_witness:
  "\<exists>r'. RegisterDevice plain_codec Delivered 5 [] ''op'' 7 ''b'' ''ua'' ''ip'' Second Hour 1
     [\<lparr>do_TokenHash = ''h'', do_ExpiresAt = Hour\<rparr>] one_device = (Inr ''a'', r')
   \<and> (3601, ''a'') \<in> set (zset 5 (pending_key []) r')"
proof -
  obtain r' where ok: "RegisterDevice plain_codec Delivered 5 [] ''op'' 7 ''b'' ''ua'' ''ip'' Second Hour 1
     [\<lparr>do_TokenHash = ''h'', do_ExpiresAt = Hour\<rparr>] one_device = (Inr ''a'', r')" using one_device_register by blast
  have "cmd_get 5 (operation_key [] ''op'') one_device = None" "distinct (map snd (zset 5 (Devices [] 7) one_device))"
    by (simp_all add: one_device_def no_data_def cmd_get_def zset_def value_at_def entry_def alive_def)
  from eviction_journaled[OF ok _ _ this] show ?thesis using ok by (auto simp: plain_codec_def duration_defs)
qed

end
