(* ===== verification/OAuth_Service.thy ===== *)
theory OAuth_Service
  imports Service_Base
begin

text \<open>
  \<open>internal/service/oauth\<close> with its Redis adapter: the authorize, consent, silent consent, token,
  revocation, grants and userinfo endpoints over the store and Redis. A description of the source is
  represented by an ASCII key, equal for equal texts; wrapped causes, which only reach the log, are
  dropped, as are metrics.
\<close>

section \<open>Errors (errors.go)\<close>

datatype oauth_kind =
    KindInvalidRequest
  | KindInvalidClient
  | KindInvalidGrant
  | KindAccessDenied
  | KindInvalidToken
  | KindRateLimited
  | KindDependencyUnavailable
  | KindInternal

record oauth_error =
  oe_Kind :: oauth_kind
  oe_Code :: string
  oe_Description :: string
  oe_Redirectable :: bool
  oe_StashSpent :: bool
  oe_RetryAfter :: duration

type_synonym oauth_sentinel = "oauth_kind \<times> string"

definition ErrInvalidRequest :: oauth_sentinel where "ErrInvalidRequest = (KindInvalidRequest, ''invalid_request'')"
definition ErrUnsupportedResponse :: oauth_sentinel where
  "ErrUnsupportedResponse = (KindInvalidRequest, ''unsupported_response_type'')"
definition ErrInvalidScope :: oauth_sentinel where "ErrInvalidScope = (KindInvalidRequest, ''invalid_scope'')"
definition ErrUnauthorizedClient :: oauth_sentinel where
  "ErrUnauthorizedClient = (KindInvalidRequest, ''unauthorized_client'')"
definition ErrInvalidClient :: oauth_sentinel where "ErrInvalidClient = (KindInvalidClient, ''invalid_client'')"
definition ErrInvalidGrant :: oauth_sentinel where "ErrInvalidGrant = (KindInvalidGrant, ''invalid_grant'')"
definition ErrUnsupportedGrantType :: oauth_sentinel where
  "ErrUnsupportedGrantType = (KindInvalidRequest, ''unsupported_grant_type'')"
definition ErrAccessDenied :: oauth_sentinel where "ErrAccessDenied = (KindAccessDenied, ''access_denied'')"
definition ErrInvalidBearer :: oauth_sentinel where "ErrInvalidBearer = (KindInvalidToken, ''invalid_token'')"
definition ErrRateLimited :: oauth_sentinel where "ErrRateLimited = (KindRateLimited, ''temporarily_unavailable'')"
definition ErrDependencyUnavailable :: oauth_sentinel where
  "ErrDependencyUnavailable = (KindDependencyUnavailable, ''temporarily_unavailable'')"
definition ErrInternal :: oauth_sentinel where "ErrInternal = (KindInternal, ''server_error'')"

lemmas sentinel_defs = ErrInvalidRequest_def ErrUnsupportedResponse_def ErrInvalidScope_def ErrUnauthorizedClient_def
  ErrInvalidClient_def ErrInvalidGrant_def ErrUnsupportedGrantType_def ErrAccessDenied_def ErrInvalidBearer_def
  ErrRateLimited_def ErrDependencyUnavailable_def ErrInternal_def

definition newError :: "oauth_sentinel \<Rightarrow> string \<Rightarrow> oauth_error" where
  "newError sentinel description = \<lparr>oe_Kind = fst sentinel, oe_Code = snd sentinel, oe_Description = description,
     oe_Redirectable = False, oe_StashSpent = False, oe_RetryAfter = 0\<rparr>"

definition redirectableError :: "oauth_sentinel \<Rightarrow> string \<Rightarrow> oauth_error" where
  "redirectableError sentinel description = (newError sentinel description)\<lparr>oe_Redirectable := True\<rparr>"

definition withRetryAfter :: "oauth_error \<Rightarrow> duration \<Rightarrow> oauth_error" where
  "withRetryAfter e d = e\<lparr>oe_RetryAfter := d\<rparr>"

section \<open>The service (service.go)\<close>

definition defaultAccessTTL :: duration where "defaultAccessTTL = Hour"
definition defaultRefreshTTL :: duration where "defaultRefreshTTL = 30 * 24 * Hour"
definition defaultCodeTTL :: duration where "defaultCodeTTL = 5 * Minute"
definition defaultRequestTTL :: duration where "defaultRequestTTL = 10 * Minute"
definition authorizationCodePrefix :: string where "authorizationCodePrefix = ''ac_''"
definition authorizeRequestIDPrefix :: string where "authorizeRequestIDPrefix = ''ar_''"

record authorize_payload =
  ap_ClientID :: string
  ap_ClientName :: string
  ap_RedirectURI :: string
  ap_Scopes :: "string list"
  ap_State :: string
  ap_CodeChallenge :: string
  ap_CodeChallengeMethod :: string
  ap_Nonce :: string
  ap_Prompt :: string

text \<open>The collaborators and settings of the service: absent limiters, audit, profile and blacklist
  ports are \<open>None\<close> or \<open>False\<close>; \<open>os_Encode\<close> and \<open>os_Decode\<close> are the JSON codec of a stashed request, and
  \<open>os_UpdatedAt\<close> the \<open>updated_at\<close> column of an account, which the store model does not carry.\<close>

record oauth_service =
  os_Crypto :: crypto
  os_Prefix :: string
  os_AuthorizeLimiter :: "FixedWindowLimiter option"
  os_ConsentInfoLimiter :: "FixedWindowLimiter option"
  os_TokenLimiter :: "FixedWindowLimiter option"
  os_ConsentLimiter :: "FixedWindowLimiter option"
  os_GrantsLimiter :: "FixedWindowLimiter option"
  os_Audit :: bool
  os_Profiles :: bool
  os_Blacklist :: "blacklist_port option"
  os_JWT :: jwt_manager
  os_RefreshSecret :: string
  os_AccessTTL :: duration
  os_RefreshTTL :: duration
  os_CapabilityRefreshMaxLifetime :: duration
  os_CodeTTL :: duration
  os_RequestTTL :: duration
  os_Issuer :: string
  os_Encode :: "authorize_payload \<Rightarrow> string option"
  os_Decode :: "string \<Rightarrow> authorize_payload option"
  os_UpdatedAt :: "user \<Rightarrow> instant"

definition accessTTL :: "oauth_service \<Rightarrow> duration" where
  "accessTTL s = (if 0 < os_AccessTTL s then os_AccessTTL s else defaultAccessTTL)"
definition refreshTTL :: "oauth_service \<Rightarrow> duration" where
  "refreshTTL s = (if 0 < os_RefreshTTL s then os_RefreshTTL s else defaultRefreshTTL)"
definition codeTTL :: "oauth_service \<Rightarrow> duration" where
  "codeTTL s = (if 0 < os_CodeTTL s then os_CodeTTL s else defaultCodeTTL)"
definition requestTTL :: "oauth_service \<Rightarrow> duration" where
  "requestTTL s = (if 0 < os_RequestTTL s then os_RequestTTL s else defaultRequestTTL)"

definition capabilityRefreshLifetime :: "oauth_service \<Rightarrow> string list \<Rightarrow> duration" where
  "capabilityRefreshLifetime s scopes =
    (if os_CapabilityRefreshMaxLifetime s \<le> 0 then 0
     else if ContainsAdmin scopes \<or> ContainsUser scopes then os_CapabilityRefreshMaxLifetime s
     else 0)"

definition checkLimit ::
    "env \<Rightarrow> oauth_service \<Rightarrow> FixedWindowLimiter option \<Rightarrow> string \<Rightarrow> string \<Rightarrow> (oauth_error + unit) action" where
  "checkLimit ev s limiter endpoint rawSubject =
    (let subject = TrimSpace rawSubject in
     case limiter of
       None \<Rightarrow> ok ()
     | Some l \<Rightarrow>
         if subject = [] then ok ()
         else do {
           r \<leftarrow> redis_write ev ''limiter'' (\<lambda>n ms rd. Allow n ms (os_Prefix s) l endpoint subject rd);
           case r of
             Inl _ \<Rightarrow> ok ()
           | Inr result \<Rightarrow>
               if \<not> rl_Allowed result
               then err (withRetryAfter (newError ErrRateLimited ''too many requests'') (rl_RetryAfter result))
               else ok () })"

definition checkAuthorizeLimit where
  "checkAuthorizeLimit ev s clientIP = checkLimit ev s (os_AuthorizeLimiter s) ''authorize'' (''ip:'' @ clientIP)"
definition checkTokenLimit where
  "checkTokenLimit ev s clientIP = checkLimit ev s (os_TokenLimiter s) ''oauth_token'' (''ip:'' @ clientIP)"
definition checkConsentInfoLimit where
  "checkConsentInfoLimit ev s userID =
     checkLimit ev s (os_ConsentInfoLimiter s) ''consent_info'' (''user:'' @ decimal userID)"
definition checkConsentLimit where
  "checkConsentLimit ev s userID = checkLimit ev s (os_ConsentLimiter s) ''oauth_consent'' (''user:'' @ decimal userID)"
definition checkSilentConsentLimit where
  "checkSilentConsentLimit ev s userID =
     checkLimit ev s (os_ConsentLimiter s) ''oauth_consent_silent'' (''user:'' @ decimal userID)"
definition checkGrantsListLimit where
  "checkGrantsListLimit ev s userID =
     checkLimit ev s (os_GrantsLimiter s) ''oauth_grants_list'' (''user:'' @ decimal userID)"
definition checkGrantsRevokeLimit where
  "checkGrantsRevokeLimit ev s userID =
     checkLimit ev s (os_GrantsLimiter s) ''oauth_grants_revoke'' (''user:'' @ decimal userID)"

definition revokeFamilyErr :: "env \<Rightarrow> oauth_service \<Rightarrow> string \<Rightarrow> (repo_error + unit) action" where
  "revokeFamilyErr ev s familyID =
    (if TrimSpace familyID = [] then ok ()
     else let now = ev_Now ev ''revoke family'' in do {
       r \<leftarrow> db_write ev ''revoke family'' (\<lambda>flt db. RevokeFamily flt familyID now db);
       case r of
         Inl e \<Rightarrow> err e
       | Inr entries \<Rightarrow> do { _ \<leftarrow> DeliverBlacklist ev (os_Blacklist s) entries now; ok () } })"

definition revokeFamily :: "env \<Rightarrow> oauth_service \<Rightarrow> string \<Rightarrow> unit action" where
  "revokeFamily ev s familyID = do { _ \<leftarrow> revokeFamilyErr ev s familyID; State_Monad.return () }"

definition non_blank :: "string \<Rightarrow> string option" where
  "non_blank s = (if TrimSpace s \<noteq> [] then Some s else None)"

definition buildAuditEntry ::
    "env \<Rightarrow> int option \<Rightarrow> string \<Rightarrow> string option \<Rightarrow> string option \<Rightarrow> bool \<Rightarrow> int \<Rightarrow> string \<Rightarrow> string
      \<Rightarrow> (string \<times> json) list option \<Rightarrow> audit_log" where
  "buildAuditEntry ev userID action resourceID actorClientID success errCode clientIP userAgent detail =
    \<lparr>au_UserID = userID, au_Action = action, au_Resource = ''oauth'', au_ResourceID = resourceID,
     au_Detail = detail, au_ClientIP = non_blank clientIP, au_UserAgent = non_blank userAgent, au_Success = success,
     au_ErrCode = (if errCode \<noteq> 0 then Some errCode else None), au_ActorClientID = actorClientID,
     au_CreatedAt = ev_Now ev ''audit''\<rparr>"

definition auditAs where
  "auditAs ev s userID action resourceID actorClientID success errCode clientIP userAgent detail =
    (if \<not> os_Audit s then State_Monad.return ()
     else do {
       _ \<leftarrow> db_write ev ''audit'' (\<lambda>flt db. CreateAuditLog flt
              (buildAuditEntry ev userID action resourceID actorClientID success errCode clientIP userAgent detail) db);
       State_Monad.return () })"

definition audit where
  "audit ev s userID action resourceID success errCode clientIP userAgent detail =
     auditAs ev s userID action resourceID resourceID success errCode clientIP userAgent detail"

definition randomToken :: "env \<Rightarrow> site \<Rightarrow> string \<Rightarrow> nat \<Rightarrow> auth_error + string" where
  "randomToken ev site pre n = bindE (randomBytes (ev_Random ev site) n) (\<lambda>raw. Inr (pre @ HexEncode raw))"

definition newAuthorizationCode where
  "newAuthorizationCode ev = randomToken ev ''authorization code'' authorizationCodePrefix 32"
definition newAuthorizeRequestID where
  "newAuthorizeRequestID ev = randomToken ev ''authorize request'' authorizeRequestIDPrefix 16"

section \<open>Pending requests (adapter/redis/oauth)\<close>

definition SaveAuthorizeRequest where
  "SaveAuthorizeRequest ev s requestID payload ttl =
     redis_write ev ''save request'' (\<lambda>n ms rd.
       SetOneTime (os_Encode s) n ms (AuthorizeRequest (os_Prefix s) requestID) (Some payload) ttl rd)"

definition PeekAuthorizeRequest where
  "PeekAuthorizeRequest ev s requestID =
     redis_read ev ''peek request'' (\<lambda>n ms rd.
       PeekOneTimeWithTTL (os_Decode s) n ms (AuthorizeRequest (os_Prefix s) requestID) rd)"

text \<open>The result is \<open>None\<close> for a missing request.\<close>

definition ConsumeAuthorizeRequest ::
    "env \<Rightarrow> oauth_service \<Rightarrow> string \<Rightarrow> (redis_error + authorize_payload option) action" where
  "ConsumeAuthorizeRequest ev s requestID = do {
     r \<leftarrow> redis_write ev ''consume request'' (\<lambda>n ms rd.
       GetDelOneTime (os_Decode s) n ms (AuthorizeRequest (os_Prefix s) requestID) rd);
     case r of
       Inl e \<Rightarrow> if e = ErrMiss then ok None else err e
     | Inr payload \<Rightarrow> ok (Some payload) }"

section \<open>Authorization (authorize.go)\<close>

definition responseTypeCode :: string where "responseTypeCode = ''code''"
definition grantTypeAuthorizationCode :: string where "grantTypeAuthorizationCode = ''authorization_code''"
definition grantTypeRefreshToken :: string where "grantTypeRefreshToken = ''refresh_token''"
definition maxAuthorizeParameterLength :: nat where "maxAuthorizeParameterLength = 255"
definition maxStateLength :: nat where "maxStateLength = 512"
definition ClientTypeThirdParty :: string where "ClientTypeThirdParty = ''third_party''"

record authorize_input =
  ai_ResponseType :: string
  ai_ClientID :: string
  ai_RedirectURI :: string
  ai_Scope :: string
  ai_State :: string
  ai_CodeChallenge :: string
  ai_CodeChallengeMethod :: string
  ai_Nonce :: string
  ai_Prompt :: string
  ai_ClientIP :: string
  ai_UserAgent :: string

record authorize_result =
  ar_RequestID :: string
  ar_ExpiresIn :: int
  ar_ClientName :: string
  ar_Scopes :: "string list"

definition parseRequestedScopes :: "string \<Rightarrow> scope_error + string list" where
  "parseRequestedScopes raw =
    (let v = TrimSpace raw in if v = [] then Inl scope_error.ErrInvalidScope else Normalize (Fields v))"

definition checkScopeForClient :: "oauth_client \<Rightarrow> string list \<Rightarrow> oauth_error + unit" where
  "checkScopeForClient client requested =
    (if ContainsAdmin requested \<and> cl_ClientType client \<noteq> ClientTypeThirdParty
     then Inl (newError ErrInvalidScope ''admin scope not grantable to a public client'')
     else (case ContainsAll (cl_Scopes client) requested of
       Inl _ \<Rightarrow> Inl (newError ErrInvalidScope ''registered scope invalid'')
     | Inr granted \<Rightarrow>
         if \<not> granted then Inl (newError ErrInvalidScope ''scope beyond registration'') else Inr ()))"

definition authorizeScopeForClient :: "oauth_client \<Rightarrow> string list \<Rightarrow> oauth_error + unit" where
  "authorizeScopeForClient client requested =
    (case checkScopeForClient client requested of
       Inl e \<Rightarrow> Inl (e\<lparr>oe_Redirectable := True\<rparr>)
     | Inr _ \<Rightarrow> Inr ())"

text \<open>The lookup every leg starts with: an unknown and a disabled client answer alike.\<close>

definition activeClient :: "env \<Rightarrow> site \<Rightarrow> string \<Rightarrow> oauth_error \<Rightarrow> (oauth_error + oauth_client) action" where
  "activeClient ev site clientID missing = do {
     r \<leftarrow> db_read ev site (\<lambda>flt db. FindActiveByClientID flt db clientID);
     case r of
       Inl e \<Rightarrow> if e = ErrNotFound \<or> e = ErrInvalidArgument then err missing
                else err (newError ErrInternal ''query client failed'')
     | Inr client \<Rightarrow> ok client }"

text \<open>The checks of a request whose client and redirect URI are verified.\<close>

definition checkAuthorizeParameters :: "oauth_client \<Rightarrow> authorize_input \<Rightarrow> oauth_error + string list" where
  "checkAuthorizeParameters client input =
    (if grantTypeAuthorizationCode \<notin> set (cl_GrantTypes client)
       then Inl (redirectableError ErrUnauthorizedClient ''grant not allowed'')
     else if TrimSpace (ai_ResponseType input) \<noteq> responseTypeCode
       then Inl (redirectableError ErrUnsupportedResponse ''response_type must be code'')
     else if TrimSpace (ai_State input) = [] then Inl (redirectableError ErrInvalidRequest ''state required'')
     else if maxStateLength < length (ai_State input) then Inl (redirectableError ErrInvalidRequest ''state too long'')
     else if TrimSpace (ai_CodeChallengeMethod input) \<noteq> pkceMethodS256
       then Inl (redirectableError ErrInvalidRequest ''code_challenge_method must be S256'')
     else if TrimSpace (ai_CodeChallenge input) = []
       then Inl (redirectableError ErrInvalidRequest ''code_challenge required'')
     else if \<not> IsValidPKCEChallenge (TrimSpace (ai_CodeChallenge input))
       then Inl (redirectableError ErrInvalidRequest ''code_challenge malformed'')
     else if maxAuthorizeParameterLength < length (TrimSpace (ai_Nonce input))
       then Inl (redirectableError ErrInvalidRequest ''nonce too long'')
     else if maxAuthorizeParameterLength < length (ai_Prompt input)
       then Inl (redirectableError ErrInvalidRequest ''prompt too long'')
     else (case parseRequestedScopes (ai_Scope input) of
         Inl _ \<Rightarrow> Inl (redirectableError ErrInvalidScope ''scope invalid'')
       | Inr requested \<Rightarrow> bindE (authorizeScopeForClient client requested) (\<lambda>_. Inr requested)))"

definition authorizePayload :: "oauth_client \<Rightarrow> authorize_input \<Rightarrow> string list \<Rightarrow> authorize_payload" where
  "authorizePayload client input requested =
    \<lparr>ap_ClientID = cl_ClientID client, ap_ClientName = cl_ClientName client,
     ap_RedirectURI = TrimSpace (ai_RedirectURI input), ap_Scopes = requested, ap_State = ai_State input,
     ap_CodeChallenge = TrimSpace (ai_CodeChallenge input), ap_CodeChallengeMethod = pkceMethodS256,
     ap_Nonce = TrimSpace (ai_Nonce input), ap_Prompt = TrimSpace (ai_Prompt input)\<rparr>"

definition Authorize :: "env \<Rightarrow> oauth_service \<Rightarrow> authorize_input \<Rightarrow> (oauth_error + authorize_result) action" where
  "Authorize ev s input =
    bindM (checkAuthorizeLimit ev s (ai_ClientIP input)) (\<lambda>_.
      let clientID = TrimSpace (ai_ClientID input); redirectURI = TrimSpace (ai_RedirectURI input) in
      if clientID = [] then err (newError ErrInvalidRequest ''client_id required'')
      else bindM (activeClient ev ''find client'' clientID (newError ErrInvalidClient ''client unknown or disabled'')) (\<lambda>client.
        if redirectURI = [] then err (newError ErrInvalidRequest ''redirect_uri required'')
        else if redirectURI \<notin> set (cl_RedirectURIs client)
          then err (newError ErrInvalidRequest ''redirect_uri not registered'')
        else (case checkAuthorizeParameters client input of
          Inl e \<Rightarrow> err e
        | Inr requested \<Rightarrow>
            (case newAuthorizeRequestID ev of
              Inl _ \<Rightarrow> err (newError ErrInternal ''generate request id failed'')
            | Inr requestID \<Rightarrow> do {
                r \<leftarrow> SaveAuthorizeRequest ev s requestID (authorizePayload client input requested) (requestTTL s);
                case r of
                  Inl _ \<Rightarrow> err (newError ErrDependencyUnavailable ''stash request failed'')
                | Inr _ \<Rightarrow> ok \<lparr>ar_RequestID = requestID, ar_ExpiresIn = whole_seconds (requestTTL s),
                     ar_ClientName = cl_ClientName client, ar_Scopes = requested\<rparr> }))))"

record consent_input =
  ci_RequestID :: string
  ci_Approve :: bool
  ci_UserID :: int
  ci_ClientIP :: string
  ci_UserAgent :: string

text \<open>A redirect is the registered URI with the parameters that are set on its query.\<close>

datatype redirect = Redirect string "(string \<times> string) list"

definition appendQuery :: "string \<Rightarrow> (string \<times> string) list \<Rightarrow> redirect" where
  "appendQuery rawURI parameters = Redirect rawURI (filter (\<lambda>(_, v). v \<noteq> []) parameters)"

definition successRedirectURI where
  "successRedirectURI redirectURI st code = appendQuery redirectURI [(''code'', code), (''state'', st)]"

definition errorRedirectURI where
  "errorRedirectURI redirectURI st code description =
     appendQuery redirectURI [(''error'', code), (''error_description'', description), (''state'', st)]"

definition auditAuthorize where
  "auditAuthorize ev s input payload userID success errCode outcome =
    (let subject = (case userID of Some _ \<Rightarrow> userID | None \<Rightarrow> if 0 < ci_UserID input then Some (ci_UserID input) else None) in
     audit ev s subject ''oauth_authorize'' (Some (ap_ClientID payload)) success errCode (ci_ClientIP input)
       (ci_UserAgent input) (Some [(''client_id'', JString (ap_ClientID payload)), (''scopes'', JStrings (ap_Scopes payload)),
         (''decision'', JString outcome)]))"

definition authorization_row ::
    "env \<Rightarrow> oauth_service \<Rightarrow> oauth_client \<Rightarrow> user \<Rightarrow> authorize_payload \<Rightarrow> string \<Rightarrow> authorization" where
  "authorization_row ev s client user payload code =
    \<lparr>az_ID = 0, az_Code = code, az_ClientID = cl_ID client, az_UserID = us_ID user,
     az_RedirectURI = Some (ap_RedirectURI payload), az_Scopes = ap_Scopes payload,
     az_CodeChallenge = ap_CodeChallenge payload, az_CodeChallengeMethod = ap_CodeChallengeMethod payload,
     az_Nonce = (if ap_Nonce payload \<noteq> [] then Some (ap_Nonce payload) else None), az_IsUsed = False,
     az_FamilyID = Some (ev_UUID ev ''code family''), az_ExpiresAt = ev_Now ev ''code'' + codeTTL s,
     az_CreatedAt = ev_Now ev ''code''\<rparr>"

type_synonym code_writer = "fault \<Rightarrow> instant \<Rightarrow> authorization option \<Rightarrow> database \<Rightarrow> (repo_error + authorization) \<times> database"

definition issueAuthorizationCode ::
    "env \<Rightarrow> oauth_service \<Rightarrow> consent_input \<Rightarrow> authorize_payload \<Rightarrow> string \<Rightarrow> code_writer
      \<Rightarrow> (oauth_error + redirect) action" where
  "issueAuthorizationCode ev s input payload outcome persist =
    bindM (activeClient ev ''find code client'' (ap_ClientID payload) (newError ErrInvalidClient ''client disabled'')) (\<lambda>client.
      if ap_RedirectURI payload \<notin> set (cl_RedirectURIs client)
        then err (newError ErrInvalidRequest ''redirect_uri no longer registered'')
      else (case checkScopeForClient client (ap_Scopes payload) of
        Inl _ \<Rightarrow> do {
          _ \<leftarrow> auditAuthorize ev s input payload None False CodeForbidden ''scope_revoked'';
          err (newError ErrInvalidScope ''scope no longer registered'') }
      | Inr _ \<Rightarrow> do {
          found \<leftarrow> db_read ev ''find code user'' (\<lambda>flt db. FindAuthUserByID flt db (ci_UserID input));
          case found of
            Inl e \<Rightarrow> if e = ErrNotFound then err (newError ErrInvalidBearer ''subject invalid'')
                     else err (newError ErrInternal ''query user failed'')
          | Inr user \<Rightarrow>
              if us_State user = UserStateDeleted then err (newError ErrAccessDenied ''account closed'')
              else (case newAuthorizationCode ev of
                Inl _ \<Rightarrow> err (newError ErrInternal ''generate code failed'')
              | Inr code \<Rightarrow> do {
                  r \<leftarrow> db_write ev ''persist code'' (\<lambda>flt db.
                    persist flt (ev_Now ev ''persist code'') (Some (authorization_row ev s client user payload code)) db);
                  case r of
                    Inl e \<Rightarrow> if e = ErrNotFound then err (newError ErrInvalidGrant ''grant revoked'')
                             else err (newError ErrInternal ''create code failed'')
                  | Inr _ \<Rightarrow> do {
                      _ \<leftarrow> auditAuthorize ev s input payload (Some (us_ID user)) True 0 outcome;
                      ok (successRedirectURI (ap_RedirectURI payload) (ap_State payload) code) } }) }))"

text \<open>A refusal: reported to the client at a callback that is still registered.\<close>

definition denyConsent ::
    "env \<Rightarrow> oauth_service \<Rightarrow> consent_input \<Rightarrow> authorize_payload \<Rightarrow> (oauth_error + redirect) action" where
  "denyConsent ev s input payload = do {
     r \<leftarrow> db_read ev ''find denied client'' (\<lambda>flt db. FindActiveByClientID flt db (ap_ClientID payload));
     case r of
       Inl e \<Rightarrow>
         if e = ErrNotFound \<or> e = ErrInvalidArgument then do {
           _ \<leftarrow> auditAuthorize ev s input payload None False CodeUnauthenticated ''denied_client_gone'';
           err (newError ErrInvalidClient ''client disabled'') }
         else do {
           _ \<leftarrow> auditAuthorize ev s input payload None False CodeInternal ''denied_redirect_unverifiable'';
           err (newError ErrInternal ''query client failed'') }
     | Inr client \<Rightarrow>
         if ap_RedirectURI payload \<notin> set (cl_RedirectURIs client) then do {
           _ \<leftarrow> auditAuthorize ev s input payload None False CodeBadRequest ''denied_redirect_removed'';
           err (newError ErrInvalidRequest ''redirect_uri no longer registered'') }
         else do {
           _ \<leftarrow> auditAuthorize ev s input payload None False CodeForbidden ''denied'';
           ok (errorRedirectURI (ap_RedirectURI payload) (ap_State payload) ''access_denied'' ''user denied'') } }"

definition Consent :: "env \<Rightarrow> oauth_service \<Rightarrow> consent_input \<Rightarrow> (oauth_error + redirect) action" where
  "Consent ev s input =
    (if ci_UserID input \<le> 0 then err (newError ErrInvalidBearer ''subject invalid'')
     else let requestID = TrimSpace (ci_RequestID input) in
     if requestID = [] then err (newError ErrInvalidRequest ''request_id required'')
     else bindM (if ci_Approve input then checkConsentLimit ev s (ci_UserID input) else ok ()) (\<lambda>_. do {
       r \<leftarrow> ConsumeAuthorizeRequest ev s requestID;
       case r of
         Inl _ \<Rightarrow> err (newError ErrDependencyUnavailable ''read request failed'')
       | Inr None \<Rightarrow> err (newError ErrInvalidRequest ''request expired'')
       | Inr (Some payload) \<Rightarrow>
           if \<not> ci_Approve input then denyConsent ev s input payload
           else issueAuthorizationCode ev s input payload ''granted'' CreateWithGrant }))"

definition spentStash :: "oauth_error \<Rightarrow> oauth_error" where
  "spentStash e = e\<lparr>oe_StashSpent := True\<rparr>"

definition promptForcesInteraction :: "string \<Rightarrow> bool" where
  "promptForcesInteraction prompt \<longleftrightarrow> list_ex (\<lambda>v. v = ''login'' \<or> v = ''consent'') (Fields prompt)"

record silent_consent_input =
  sci_RequestID :: string
  sci_UserID :: int
  sci_ClientIP :: string
  sci_UserAgent :: string

text \<open>The grant check of the silent path.\<close>

definition standingGrant :: "env \<Rightarrow> int \<Rightarrow> oauth_client \<Rightarrow> authorize_payload \<Rightarrow> (oauth_error + unit) action" where
  "standingGrant ev userID client payload = do {
     r \<leftarrow> db_read ev ''find grant'' (\<lambda>flt db. FindGrantScopes flt db userID (cl_ID client));
     case r of
       Inl _ \<Rightarrow> err (newError ErrInternal ''query grant failed'')
     | Inr (grantScopes, found) \<Rightarrow>
         if \<not> found then err (newError ErrInvalidScope ''not yet authorized'')
         else (case ContainsAll grantScopes (ap_Scopes payload) of
           Inl _ \<Rightarrow> err (newError ErrInvalidScope ''grant scope invalid'')
         | Inr covered \<Rightarrow> if \<not> covered then err (newError ErrInvalidScope ''scope beyond grant'') else ok ()) }"

definition SilentConsent :: "env \<Rightarrow> oauth_service \<Rightarrow> silent_consent_input \<Rightarrow> (oauth_error + redirect) action" where
  "SilentConsent ev s input =
    (if sci_UserID input \<le> 0 then err (newError ErrInvalidBearer ''subject invalid'')
     else let requestID = TrimSpace (sci_RequestID input) in
     if requestID = [] then err (newError ErrInvalidRequest ''request_id required'')
     else bindM (checkSilentConsentLimit ev s (sci_UserID input)) (\<lambda>_. do {
       peeked \<leftarrow> PeekAuthorizeRequest ev s requestID;
       case peeked of
         Inl _ \<Rightarrow> err (newError ErrDependencyUnavailable ''read request failed'')
       | Inr None \<Rightarrow> err (newError ErrInvalidRequest ''request expired'')
       | Inr (Some (_, payload)) \<Rightarrow>
           if promptForcesInteraction (ap_Prompt payload)
           then err (newError ErrInvalidRequest ''interaction required'')
           else bindM (activeClient ev ''find client'' (ap_ClientID payload) (newError ErrInvalidClient ''client disabled'')) (\<lambda>client.
             bindM (standingGrant ev (sci_UserID input) client payload) (\<lambda>_. do {
               consumed \<leftarrow> ConsumeAuthorizeRequest ev s requestID;
               case consumed of
                 Inl _ \<Rightarrow> err (newError ErrDependencyUnavailable ''read request failed'')
               | Inr None \<Rightarrow> err (spentStash (newError ErrInvalidRequest ''request expired''))
               | Inr (Some stashed) \<Rightarrow> do {
                   result \<leftarrow> issueAuthorizationCode ev s
                     \<lparr>ci_RequestID = requestID, ci_Approve = False, ci_UserID = sci_UserID input,
                      ci_ClientIP = sci_ClientIP input, ci_UserAgent = sci_UserAgent input\<rparr>
                     stashed ''granted_silent'' CreateWithExistingGrant;
                   case result of Inl e \<Rightarrow> err (spentStash e) | Inr x \<Rightarrow> ok x } })) }))"

record consent_info_result =
  cir_ClientName :: string
  cir_Scopes :: "string list"
  cir_ExpiresIn :: int

definition ConsentInfo :: "env \<Rightarrow> oauth_service \<Rightarrow> string \<Rightarrow> int \<Rightarrow> (oauth_error + consent_info_result) action" where
  "ConsentInfo ev s rawRequestID userID =
    bindM (checkConsentInfoLimit ev s userID) (\<lambda>_.
      let requestID = TrimSpace rawRequestID in
      if requestID = [] then err (newError ErrInvalidRequest ''request_id required'')
      else do {
        r \<leftarrow> PeekAuthorizeRequest ev s requestID;
        case r of
          Inl _ \<Rightarrow> err (newError ErrDependencyUnavailable ''read request failed'')
        | Inr None \<Rightarrow> err (newError ErrInvalidRequest ''request expired'')
        | Inr (Some (ttl, payload)) \<Rightarrow>
            bindM (activeClient ev ''find client'' (ap_ClientID payload) (newError ErrInvalidClient ''client disabled'')) (\<lambda>client.
              (case checkScopeForClient client (ap_Scopes payload) of
                 Inl _ \<Rightarrow> err (newError ErrInvalidScope ''scope no longer registered'')
               | Inr _ \<Rightarrow> ok \<lparr>cir_ClientName = ap_ClientName payload, cir_Scopes = ap_Scopes payload,
                   cir_ExpiresIn = whole_seconds ttl\<rparr>)) })"

section \<open>Claims (userinfo.go)\<close>

definition idTokenClaims :: "env \<Rightarrow> oauth_service \<Rightarrow> user \<Rightarrow> string list \<Rightarrow> (oauth_error + id_token_subject) action" where
  "idTokenClaims ev s user granted =
    (let claims = \<lparr>is_Name = us_Name user, is_Picture = [], is_PreferredUsername = us_Name user,
           is_UpdatedAt = os_UpdatedAt s user, is_Email = us_LoginEmail user, is_Role = us_Role user\<rparr> in
     if ProfileScope \<notin> set granted then ok claims
     else if \<not> os_Profiles s then ok claims
     else do {
       r \<leftarrow> db_read ev ''find card'' (\<lambda>flt db. FindPublicCardByUserID flt db (us_ID user));
       case r of
         Inl e \<Rightarrow> if e = ErrNotFound then ok claims else err (newError ErrInternal ''query profile failed'')
       | Inr pcard \<Rightarrow>
           ok (claims\<lparr>is_Picture := (case pc_Avatar pcard of Some a \<Rightarrow> a | None \<Rightarrow> is_Picture claims),
             is_PreferredUsername := (case pc_Nickname pcard of
                 Some n \<Rightarrow> if TrimSpace n \<noteq> [] then n else is_PreferredUsername claims
               | None \<Rightarrow> is_PreferredUsername claims)\<rparr>) })"

record userinfo_result =
  ui_Subject :: string
  ui_Name :: string
  ui_Picture :: string
  ui_PreferredUsername :: string
  ui_UpdatedAt :: int
  ui_Role :: string
  ui_Email :: string
  ui_EmailVerified :: "bool option"

definition userinfo_claims :: "user \<Rightarrow> string list \<Rightarrow> id_token_subject \<Rightarrow> userinfo_result" where
  "userinfo_claims user granted claims =
    (let p = ProfileScope \<in> set granted; e = EmailScope \<in> set granted in
     \<lparr>ui_Subject = decimal (us_ID user), ui_Name = (if p then is_Name claims else []),
      ui_Picture = (if p then is_Picture claims else []),
      ui_PreferredUsername = (if p then is_PreferredUsername claims else []),
      ui_UpdatedAt = (if p \<and> \<not> IsZero (is_UpdatedAt claims) then is_UpdatedAt claims div Second else 0),
      ui_Role = (if p then is_Role claims else []), ui_Email = (if e then is_Email claims else []),
      ui_EmailVerified = (if e then Some True else None)\<rparr>)"

definition UserInfo :: "env \<Rightarrow> oauth_service \<Rightarrow> int \<Rightarrow> string list \<Rightarrow> (oauth_error + userinfo_result) action" where
  "UserInfo ev s userID scopes =
    (if userID \<le> 0 then err (newError ErrInvalidBearer ''token invalid'')
     else (case Normalize scopes of
       Inl _ \<Rightarrow> err (newError ErrInvalidBearer ''token scope invalid'')
     | Inr normalized \<Rightarrow>
         let granted = ClaimScopes normalized in do {
           r \<leftarrow> db_read ev ''find user'' (\<lambda>flt db. FindAuthUserByID flt db userID);
           case r of
             Inl e \<Rightarrow> if e = ErrNotFound then err (newError ErrInvalidBearer ''token invalid'')
                      else err (newError ErrInternal ''query user failed'')
           | Inr user \<Rightarrow>
               if us_State user = UserStateDeleted then err (newError ErrInvalidBearer ''account closed'')
               else bindM (idTokenClaims ev s user granted) (\<lambda>claims. ok (userinfo_claims user granted claims)) }))"

section \<open>The token endpoint (token.go)\<close>

definition clientAuthFailed :: string where "clientAuthFailed = ''client authentication failed''"

record token_request =
  tr_GrantType :: string
  tr_Code :: string
  tr_RedirectURI :: string
  tr_ClientID :: string
  tr_ClientSecret :: string
  tr_CodeVerifier :: string
  tr_RefreshToken :: string
  tr_ClientIP :: string
  tr_UserAgent :: string

record token_result =
  tx_AccessToken :: string
  tx_RefreshToken :: string
  tx_TokenType :: string
  tx_ExpiresIn :: int
  tx_Scope :: string
  tx_IDToken :: string

definition BearerTokenType :: string where "BearerTokenType = ''Bearer''"

definition authenticateClient :: "env \<Rightarrow> oauth_service \<Rightarrow> string \<Rightarrow> string \<Rightarrow> (oauth_error + oauth_client) action" where
  "authenticateClient ev s clientID clientSecret =
    (let i = TrimSpace clientID in
     if i = [] then err (newError ErrInvalidClient ''client_id required'')
     else bindM (activeClient ev ''authenticate client'' i (newError ErrInvalidClient clientAuthFailed)) (\<lambda>client.
       let presented = TrimSpace clientSecret in
       case cl_ClientSecretHash client of
         None \<Rightarrow> if presented \<noteq> [] then err (newError ErrInvalidClient clientAuthFailed) else ok client
       | Some h \<Rightarrow>
           if presented = [] then err (newError ErrInvalidClient clientAuthFailed)
           else (case VerifyClientSecret (cr_Sum256 (os_Crypto s)) presented h of
             Inl _ \<Rightarrow> err (newError ErrInvalidClient clientAuthFailed)
           | Inr _ \<Rightarrow> ok client)))"

definition matchRedirectURI :: "string option \<Rightarrow> string \<Rightarrow> oauth_error + unit" where
  "matchRedirectURI authorized presented =
    (let v = TrimSpace presented in
     if authorized = None \<or> authorized = Some [] then Inl (newError ErrInvalidGrant ''code lacks redirect_uri'')
     else if v = [] then Inl (newError ErrInvalidRequest ''redirect_uri required'')
     else if Some v \<noteq> authorized then Inl (newError ErrInvalidGrant ''redirect_uri mismatch'')
     else Inr ())"

definition signIDToken ::
    "env \<Rightarrow> oauth_service \<Rightarrow> user \<Rightarrow> oauth_client \<Rightarrow> string list \<Rightarrow> string \<Rightarrow> duration \<Rightarrow> (oauth_error + string) action" where
  "signIDToken ev s user client scopes nonce ttl =
    bindM (idTokenClaims ev s user scopes) (\<lambda>claims.
      (case SignIDToken (cr_SignID (os_Crypto s)) (os_JWT s) (ev_Now ev ''sign id token'')
          \<lparr>ii_Subject = decimal (us_ID user), ii_ClientID = cl_ClientID client, ii_Scopes = scopes, ii_Nonce = nonce,
           ii_TTL = ttl, ii_Claims = claims\<rparr> of
        Inl _ \<Rightarrow> err (newError ErrInternal ''sign id token failed'')
      | Inr idToken \<Rightarrow> ok idToken))"

text \<open>\<open>math.Ceil\<close> of the remaining seconds, never negative.\<close>

definition tokenResult :: "env \<Rightarrow> token_pair \<Rightarrow> string \<Rightarrow> token_result" where
  "tokenResult ev pair idToken =
    \<lparr>tx_AccessToken = tp_AccessToken pair, tx_RefreshToken = tp_RefreshToken pair, tx_TokenType = BearerTokenType,
     tx_ExpiresIn = max 0 (- ((- (at_ExpiresAt (tp_Access pair) - ev_Now ev ''respond'')) div Second)),
     tx_Scope = tp_ScopeClaim pair, tx_IDToken = idToken\<rparr>"

definition token_detail where
  "token_detail clientID grantType outcome =
     [(''client_id'', JString clientID), (''grant_type'', JString grantType), (''outcome'', JString outcome)]"

definition auditToken where
  "auditToken ev s userID clientID grantType input success errCode outcome =
     audit ev s userID ''oauth_token'' (Some clientID) success errCode (tr_ClientIP input) (tr_UserAgent input)
       (Some (token_detail clientID grantType outcome))"

definition auditSessionRevoked where
  "auditSessionRevoked ev s userID clientID input reason =
     audit ev s (Some userID) ''oauth_token'' (Some clientID) False CodeAccessTokenInvalid (tr_ClientIP input)
       (tr_UserAgent input) (Some (token_detail clientID grantTypeRefreshToken ''session_revoked''
          @ [(''revoked_reason'', JString reason)]))"

text \<open>The audit row that rides the token transaction.\<close>

definition successAudit where
  "successAudit ev s user client input grantType outcome =
    (if \<not> os_Audit s then None
     else Some (buildAuditEntry ev (Some (us_ID user)) ''oauth_token'' (Some (cl_ClientID client)) (Some (cl_ClientID client))
       True 0 (tr_ClientIP input) (tr_UserAgent input) (Some (token_detail (cl_ClientID client) grantType outcome))))"

definition findGrantUser :: "env \<Rightarrow> int \<Rightarrow> (oauth_error + user) action" where
  "findGrantUser ev userID = do {
     r \<leftarrow> db_read ev ''find grant user'' (\<lambda>flt db. FindAuthUserByID flt db userID);
     case r of
       Inl e \<Rightarrow> if e = ErrNotFound then err (newError ErrInvalidGrant ''owner invalid'')
                else err (newError ErrInternal ''query owner failed'')
     | Inr user \<Rightarrow> if us_State user = UserStateDeleted then err (newError ErrInvalidGrant ''account closed'') else ok user }"

text \<open>The lifetimes of a redeemed pair: a capability family's first tokens stay inside its cap.\<close>

definition redemptionTTLs :: "oauth_service \<Rightarrow> string list \<Rightarrow> duration \<times> duration" where
  "redemptionTTLs s scopes =
    (let lifetime = capabilityRefreshLifetime s scopes in
     if 0 < lifetime \<and> lifetime < refreshTTL s
     then ((if lifetime < accessTTL s then lifetime else accessTTL s), lifetime)
     else (accessTTL s, refreshTTL s))"

definition codeRevoked where
  "codeRevoked ev s client input = do {
     _ \<leftarrow> auditToken ev s None (cl_ClientID client) grantTypeAuthorizationCode input False CodeAccessTokenInvalid
            ''code_redeemed_after_revocation'';
     err (newError ErrInvalidGrant ''code revoked'') }"

text \<open>From a consumed code whose bindings hold to the response.\<close>

definition redemptionRequest :: "oauth_service \<Rightarrow> oauth_client \<Rightarrow> authorization \<Rightarrow> user \<Rightarrow> issue_request" where
  "redemptionRequest s client authz user =
    \<lparr>ir_User = Some user, ir_Client = Some client, ir_Sequence = 0,
     ir_FamilyID = (case az_FamilyID authz of Some f \<Rightarrow> f | None \<Rightarrow> []), ir_Scopes = az_Scopes authz,
     ir_AccessTTL = fst (redemptionTTLs s (az_Scopes authz)), ir_RefreshTTL = snd (redemptionTTLs s (az_Scopes authz))\<rparr>"

definition redeemCode ::
    "env \<Rightarrow> oauth_service \<Rightarrow> token_request \<Rightarrow> oauth_client \<Rightarrow> authorization \<Rightarrow> int \<Rightarrow> user
      \<Rightarrow> (oauth_error + token_result) action" where
  "redeemCode ev s input client authz consumedVersion user =
    (case Issue (os_Crypto s) ev (Some (os_JWT s)) (Some (os_RefreshSecret s)) (redemptionRequest s client authz user) of
       Inl _ \<Rightarrow> err (newError ErrInternal ''issue pair failed'')
     | Inr pair \<Rightarrow> do {
         r \<leftarrow> db_write ev ''create pair'' (\<lambda>flt db. CreatePairWithUserAndClientLock flt (ev_Now ev ''create pair'') (us_ID user)
                (cl_ID client) consumedVersion (az_ID authz) (Some (tp_Access pair)) (Some (tp_Refresh pair))
                (successAudit ev s user client input grantTypeAuthorizationCode ''issued'') db);
         case r of
           Inl e \<Rightarrow>
             if e \<in> {ErrUserStateChanged, ErrClientInactive, ErrClientScopeChanged, ErrNotFound}
             then codeRevoked ev s client input
             else err (newError ErrInternal ''persist pair failed'')
         | Inr _ \<Rightarrow> do {
             signed_id \<leftarrow> signIDToken ev s user client (az_Scopes authz) (case az_Nonce authz of Some n \<Rightarrow> n | None \<Rightarrow> [])
               (fst (redemptionTTLs s (az_Scopes authz)));
             case signed_id of
               Inl e \<Rightarrow> do { _ \<leftarrow> revokeFamily ev s (tp_FamilyID pair); err e }
             | Inr idToken \<Rightarrow> ok (tokenResult ev pair idToken) } })"

text \<open>The checks of a consumed code.\<close>

definition checkConsumedCode ::
    "env \<Rightarrow> oauth_service \<Rightarrow> token_request \<Rightarrow> oauth_client \<Rightarrow> authorization \<Rightarrow> int \<Rightarrow> (oauth_error + token_result) action" where
  "checkConsumedCode ev s input client authz consumedVersion =
    (if az_ClientID authz \<noteq> cl_ID client then err (newError ErrInvalidGrant ''code invalid'')
     else (case matchRedirectURI (az_RedirectURI authz) (tr_RedirectURI input) of
       Inl e \<Rightarrow> err e
     | Inr _ \<Rightarrow>
       (case VerifyPKCES256 (cr_Sum256 (os_Crypto s)) (TrimSpace (tr_CodeVerifier input)) (az_CodeChallenge authz)
               (az_CodeChallengeMethod authz) of
         Inl _ \<Rightarrow> err (newError ErrInvalidGrant ''code_verifier mismatch'')
       | Inr _ \<Rightarrow>
         bindM (findGrantUser ev (az_UserID authz)) (\<lambda>user.
           if us_TokenVersion user \<noteq> consumedVersion then codeRevoked ev s client input
           else (case checkScopeForClient client (az_Scopes authz) of
             Inl _ \<Rightarrow> err (newError ErrInvalidScope ''scope no longer registered'')
           | Inr _ \<Rightarrow> redeemCode ev s input client authz consumedVersion user)))))"

definition replayedCode ::
    "env \<Rightarrow> oauth_service \<Rightarrow> token_request \<Rightarrow> oauth_client \<Rightarrow> authorization option \<Rightarrow> (oauth_error + token_result) action" where
  "replayedCode ev s input client authz =
    (case authz of
       None \<Rightarrow> err (newError ErrInvalidGrant ''code invalid'')
     | Some z \<Rightarrow>
         if az_ClientID z \<noteq> cl_ID client then err (newError ErrInvalidGrant ''code invalid'')
         else do {
           _ \<leftarrow> (case az_FamilyID z of Some f \<Rightarrow> revokeFamily ev s f | None \<Rightarrow> State_Monad.return ());
           _ \<leftarrow> auditToken ev s None (cl_ClientID client) grantTypeAuthorizationCode input False CodeAccessTokenInvalid
                  ''code_replayed'';
           err (newError ErrInvalidGrant ''code invalid'') })"

definition tokenByAuthorizationCode :: "env \<Rightarrow> oauth_service \<Rightarrow> token_request \<Rightarrow> (oauth_error + token_result) action" where
  "tokenByAuthorizationCode ev s input = do {
     authenticated \<leftarrow> authenticateClient ev s (tr_ClientID input) (tr_ClientSecret input);
     case authenticated of
       Inl e \<Rightarrow> do {
         _ \<leftarrow> auditToken ev s None (tr_ClientID input) grantTypeAuthorizationCode input False CodeUnauthenticated
                ''client_auth_failed'';
         err e }
     | Inr client \<Rightarrow>
         if grantTypeAuthorizationCode \<notin> set (cl_GrantTypes client)
         then err (newError ErrUnauthorizedClient ''grant not allowed'')
         else let code = TrimSpace (tr_Code input) in
         if code = [] then err (newError ErrInvalidRequest ''code required'')
         else if TrimSpace (tr_CodeVerifier input) = [] then err (newError ErrInvalidRequest ''code_verifier required'')
         else do {
           c \<leftarrow> db_write ev ''consume code'' (\<lambda>flt db. Consume flt code (ev_Now ev ''consume code'') (cl_ID client) db);
           case c of (authz, consumedVersion, consumeErr) \<Rightarrow>
             (case consumeErr of
                Some e \<Rightarrow>
                  if e = ErrNotFound then err (newError ErrInvalidGrant ''code invalid'')
                  else if e = ErrAuthorizationReplayed then replayedCode ev s input client authz
                  else if e = ErrAuthorizationExpired then err (newError ErrInvalidGrant ''code expired'')
                  else err (newError ErrInternal ''consume code failed'')
              | None \<Rightarrow> (case authz of
                    None \<Rightarrow> err (newError ErrInternal ''consume code failed'')
                  | Some z \<Rightarrow> checkConsumedCode ev s input client z consumedVersion)) } }"

text \<open>The presented token was revoked before this request read it.\<close>

definition revokedRefresh ::
    "env \<Rightarrow> oauth_service \<Rightarrow> token_request \<Rightarrow> oauth_client \<Rightarrow> refresh_token \<Rightarrow> instant \<Rightarrow> (oauth_error + token_result) action" where
  "revokedRefresh ev s input client current revokedAt =
    (let invalid = newError ErrInvalidGrant ''refresh_token invalid'' in
     if rt_RevokedReason current \<noteq> None \<and> rt_RevokedReason current \<noteq> Some [] then do {
       _ \<leftarrow> auditSessionRevoked ev s (rt_UserID current) (cl_ClientID client) input (the (rt_RevokedReason current));
       err invalid }
     else if \<not> IsWithinRefreshGrace revokedAt (ev_Now ev ''check grace'') then do {
       _ \<leftarrow> revokeFamily ev s (rt_FamilyID current);
       _ \<leftarrow> auditToken ev s (Some (rt_UserID current)) (cl_ClientID client) grantTypeRefreshToken input False
              CodeAccessTokenInvalid ''refresh_replayed'';
       err invalid }
     else do {
       _ \<leftarrow> auditToken ev s (Some (rt_UserID current)) (cl_ClientID client) grantTypeRefreshToken input False
              CodeAccessTokenInvalid ''concurrent_refresh'';
       err invalid })"

text \<open>The signed access lifetime stays inside the delegation boundary of a capability family.\<close>

definition rotationAccessTTL ::
    "env \<Rightarrow> oauth_service \<Rightarrow> refresh_token \<Rightarrow> string list \<Rightarrow> (oauth_error + duration) action" where
  "rotationAccessTTL ev s current scopes =
    (let lifetime = capabilityRefreshLifetime s scopes in
     if lifetime \<le> 0 then ok (accessTTL s)
     else do {
       r \<leftarrow> db_read ev ''family origin'' (\<lambda>flt db. FamilyOriginCreatedAt flt db (rt_FamilyID current));
       case r of
         Inl _ \<Rightarrow> err (newError ErrInternal ''read family origin failed'')
       | Inr origin \<Rightarrow>
           let boundary = (if origin + lifetime < rt_ExpiresAt current then origin + lifetime else rt_ExpiresAt current);
               remaining = boundary - ev_Now ev ''boundary'' in
           ok (if 0 < remaining \<and> remaining < accessTTL s then remaining else accessTTL s) })"

text \<open>The answer to a failed rotation.\<close>

definition rotationFailed ::
    "env \<Rightarrow> oauth_service \<Rightarrow> token_request \<Rightarrow> oauth_client \<Rightarrow> user \<Rightarrow> repo_error \<Rightarrow> (oauth_error + token_result) action" where
  "rotationFailed ev s input client user e =
    (let invalid = newError ErrInvalidGrant ''refresh_token invalid'';
         audited = (\<lambda>outcome. auditToken ev s (Some (us_ID user)) (cl_ClientID client) grantTypeRefreshToken input False
            CodeAccessTokenInvalid outcome) in
     case e of
       SessionRevokedError reason \<Rightarrow> do {
         _ \<leftarrow> auditSessionRevoked ev s (us_ID user) (cl_ClientID client) input reason;
         err invalid }
     | ErrTokenReplayWithinGrace \<Rightarrow> do { _ \<leftarrow> audited ''concurrent_refresh''; err invalid }
     | ErrTokenReplay \<Rightarrow> do { _ \<leftarrow> audited ''refresh_replayed''; err invalid }
     | ErrTokenExpired \<Rightarrow> do { _ \<leftarrow> audited ''refresh_replayed''; err invalid }
     | ErrTokenFamilyRevoked \<Rightarrow> do { _ \<leftarrow> audited ''refresh_replayed''; err invalid }
     | ErrTokenFamilyExpired \<Rightarrow> do { _ \<leftarrow> audited ''refresh_family_expired''; err (newError ErrInvalidGrant ''family expired'') }
     | _ \<Rightarrow> err (newError ErrInternal ''rotate failed''))"

definition rotatePair ::
    "env \<Rightarrow> oauth_service \<Rightarrow> token_request \<Rightarrow> oauth_client \<Rightarrow> user \<Rightarrow> refresh_token \<Rightarrow> string \<Rightarrow> duration
      \<Rightarrow> (oauth_error + token_result) action" where
  "rotatePair ev s input client user current tokenHash ttl =
    (let scopes = rt_Scopes current in
     case Issue (os_Crypto s) ev (Some (os_JWT s)) (Some (os_RefreshSecret s))
        \<lparr>ir_User = Some user, ir_Client = Some client, ir_Sequence = rt_Sequence current + 1,
         ir_FamilyID = rt_FamilyID current, ir_Scopes = scopes, ir_AccessTTL = ttl, ir_RefreshTTL = refreshTTL s\<rparr> of
       Inl _ \<Rightarrow> err (newError ErrInternal ''issue pair failed'')
     | Inr pair \<Rightarrow> do {
         r \<leftarrow> db_write ev ''rotate'' (\<lambda>flt db. RotateRefreshTokenWithAuditCapped flt (ev_Now ev ''rotate'') (rt_FamilyID current)
                tokenHash (Some (tp_Access pair)) (Some (tp_Refresh pair))
                (successAudit ev s user client input grantTypeRefreshToken ''rotated'') (capabilityRefreshLifetime s scopes) db);
         case r of
           Inl e \<Rightarrow> rotationFailed ev s input client user e
         | Inr (_, access, _) \<Rightarrow> do {
             signed_id \<leftarrow> signIDToken ev s user client scopes [] ttl;
             case signed_id of
               Inl e \<Rightarrow> do { _ \<leftarrow> revokeFamily ev s (tp_FamilyID pair); err e }
             | Inr idToken \<Rightarrow> ok (tokenResult ev (pair\<lparr>tp_Access := access\<rparr>) idToken) } })"

definition refreshCurrent ::
    "env \<Rightarrow> oauth_service \<Rightarrow> token_request \<Rightarrow> oauth_client \<Rightarrow> string \<Rightarrow> refresh_token \<Rightarrow> (oauth_error + token_result) action" where
  "refreshCurrent ev s input client tokenHash current =
    (if rt_ClientID current \<noteq> cl_ID client then err (newError ErrInvalidGrant ''refresh_token invalid'')
     else (case rt_RevokedAt current of
       Some revokedAt \<Rightarrow> revokedRefresh ev s input client current revokedAt
     | None \<Rightarrow>
         if \<not> ev_Now ev ''check expiry'' < rt_ExpiresAt current then err (newError ErrInvalidGrant ''refresh_token expired'')
         else bindM (findGrantUser ev (rt_UserID current)) (\<lambda>user.
           (case checkScopeForClient client (rt_Scopes current) of
              Inl _ \<Rightarrow> err (newError ErrInvalidScope ''scope no longer registered'')
            | Inr _ \<Rightarrow>
                bindM (rotationAccessTTL ev s current (rt_Scopes current)) (\<lambda>ttl.
                  rotatePair ev s input client user current tokenHash ttl)))))"

definition tokenByRefreshToken :: "env \<Rightarrow> oauth_service \<Rightarrow> token_request \<Rightarrow> (oauth_error + token_result) action" where
  "tokenByRefreshToken ev s input = do {
     authenticated \<leftarrow> authenticateClient ev s (tr_ClientID input) (tr_ClientSecret input);
     case authenticated of
       Inl e \<Rightarrow> do {
         _ \<leftarrow> auditToken ev s None (tr_ClientID input) grantTypeRefreshToken input False CodeUnauthenticated ''client_auth_failed'';
         err e }
     | Inr client \<Rightarrow>
         if grantTypeRefreshToken \<notin> set (cl_GrantTypes client) then err (newError ErrUnauthorizedClient ''grant not allowed'')
         else let presented = TrimSpace (tr_RefreshToken input) in
         if presented = [] then err (newError ErrInvalidRequest ''refresh_token required'')
         else (case HashRefreshToken (cr_HMAC (os_Crypto s)) (os_RefreshSecret s) presented of
           Inl _ \<Rightarrow> err (newError ErrInvalidGrant ''refresh_token invalid'')
         | Inr tokenHash \<Rightarrow> do {
             r \<leftarrow> db_read ev ''find refresh token'' (\<lambda>flt db. FindRefreshToken flt db tokenHash);
             case r of
               Inl e \<Rightarrow> if e = ErrNotFound then err (newError ErrInvalidGrant ''refresh_token invalid'')
                        else err (newError ErrInternal ''query refresh_token failed'')
             | Inr current \<Rightarrow> refreshCurrent ev s input client tokenHash current }) }"

definition dispatchTokenGrant :: "env \<Rightarrow> oauth_service \<Rightarrow> token_request \<Rightarrow> string \<Rightarrow> (oauth_error + token_result) action" where
  "dispatchTokenGrant ev s input grant =
    (if grant = grantTypeAuthorizationCode then tokenByAuthorizationCode ev s input
     else if grant = grantTypeRefreshToken then tokenByRefreshToken ev s input
     else if grant = [] then err (newError ErrInvalidRequest ''grant_type required'')
     else err (newError ErrUnsupportedGrantType ''grant_type unsupported''))"

definition Token :: "env \<Rightarrow> oauth_service \<Rightarrow> token_request \<Rightarrow> (oauth_error + token_result) action" where
  "Token ev s input =
     bindM (checkTokenLimit ev s (tr_ClientIP input)) (\<lambda>_. dispatchTokenGrant ev s input (TrimSpace (tr_GrantType input)))"

section \<open>Revocation (revoke.go)\<close>

definition tokenTypeHintAccess :: string where "tokenTypeHintAccess = ''access_token''"

record revoke_input =
  ri_Token :: string
  ri_TokenTypeHint :: string
  ri_ClientID :: string
  ri_ClientSecret :: string
  ri_ClientIP :: string
  ri_UserAgent :: string

text \<open>The family and owner a token names, \<open>None\<close> when it is not found.\<close>

definition familyByRefreshToken ::
    "env \<Rightarrow> oauth_service \<Rightarrow> string \<Rightarrow> int \<Rightarrow> (oauth_error + (string \<times> int) option) action" where
  "familyByRefreshToken ev s token clientID =
    (case HashRefreshToken (cr_HMAC (os_Crypto s)) (os_RefreshSecret s) token of
       Inl _ \<Rightarrow> ok None
     | Inr tokenHash \<Rightarrow> do {
         r \<leftarrow> db_read ev ''find refresh token'' (\<lambda>flt db. FindRefreshToken flt db tokenHash);
         case r of
           Inl e \<Rightarrow> if e = ErrNotFound then ok None else err (newError ErrInternal ''query refresh_token failed'')
         | Inr refresh \<Rightarrow>
             ok (if rt_ClientID refresh \<noteq> clientID then None else Some (rt_FamilyID refresh, rt_UserID refresh)) })"

definition familyByAccessJTI ::
    "env \<Rightarrow> oauth_service \<Rightarrow> string \<Rightarrow> int \<Rightarrow> (oauth_error + (string \<times> int) option) action" where
  "familyByAccessJTI ev s token clientID =
    (case VerifyExpiredAccessToken (cr_Parse (os_Crypto s)) (cr_EdPublic (os_Crypto s)) (os_JWT s) (ev_Now ev ''verify'') token of
       Inl _ \<Rightarrow> ok None
     | Inr claims \<Rightarrow> do {
         r \<leftarrow> db_read ev ''find access token'' (\<lambda>flt db. FindAccessTokenByJTI flt db (tc_ID claims));
         case r of
           Inl e \<Rightarrow> if e = ErrNotFound then ok None else err (newError ErrInternal ''query access token failed'')
         | Inr access \<Rightarrow>
             ok (if at_ClientID access \<noteq> clientID then None
                 else map_option (\<lambda>f. (f, at_UserID access)) (at_FamilyID access)) })"

definition resolveTokenFamily ::
    "env \<Rightarrow> oauth_service \<Rightarrow> string \<Rightarrow> string \<Rightarrow> int \<Rightarrow> (oauth_error + (string \<times> int) option) action" where
  "resolveTokenFamily ev s token hint clientID =
    (let refresh = familyByRefreshToken ev s token clientID; access = familyByAccessJTI ev s token clientID;
         (first, second) = (if TrimSpace hint = tokenTypeHintAccess then (access, refresh) else (refresh, access)) in
     bindM first (\<lambda>r. case r of Some x \<Rightarrow> ok (Some x) | None \<Rightarrow> second))"

definition auditRevoke where
  "auditRevoke ev s userID clientID input success errCode outcome =
     audit ev s userID ''oauth_revoke'' (Some clientID) success errCode (ri_ClientIP input) (ri_UserAgent input)
       (Some [(''client_id'', JString clientID), (''token_type_hint'', JString (TrimSpace (ri_TokenTypeHint input))),
         (''outcome'', JString outcome)])"

definition Revoke :: "env \<Rightarrow> oauth_service \<Rightarrow> revoke_input \<Rightarrow> (oauth_error + unit) action" where
  "Revoke ev s input =
    bindM (checkTokenLimit ev s (ri_ClientIP input)) (\<lambda>_. do {
      authenticated \<leftarrow> authenticateClient ev s (ri_ClientID input) (ri_ClientSecret input);
      case authenticated of
        Inl e \<Rightarrow> do {
          _ \<leftarrow> auditRevoke ev s None (ri_ClientID input) input False CodeUnauthenticated ''client_auth_failed'';
          err e }
      | Inr client \<Rightarrow>
          let token = TrimSpace (ri_Token input) in
          if token = [] then err (newError ErrInvalidRequest ''token required'')
          else bindM (resolveTokenFamily ev s token (ri_TokenTypeHint input) (cl_ID client)) (\<lambda>resolved.
            (case resolved of
               None \<Rightarrow> do {
                 _ \<leftarrow> auditRevoke ev s None (cl_ClientID client) input True 0 ''not_found'';
                 ok () }
             | Some (familyID, userID) \<Rightarrow> do {
                 r \<leftarrow> revokeFamilyErr ev s familyID;
                 case r of
                   Inl _ \<Rightarrow> do {
                     _ \<leftarrow> auditRevoke ev s (Some userID) (cl_ClientID client) input False CodeInternal ''revocation_failed'';
                     err (newError ErrInternal ''revoke failed'') }
                 | Inr _ \<Rightarrow> do {
                     _ \<leftarrow> auditRevoke ev s (Some userID) (cl_ClientID client) input True 0 ''revoked'';
                     ok () } })) })"

section \<open>Grants (grants.go)\<close>

text \<open>The grants endpoints hand a repository error to the HTTP layer as it is.\<close>

datatype grants_error = OAuthFailed oauth_error | RepoFailed repo_error

definition lift_oauth :: "(oauth_error + 'a) action \<Rightarrow> (grants_error + 'a) action" where
  "lift_oauth m = do { r \<leftarrow> m; case r of Inl e \<Rightarrow> err (OAuthFailed e) | Inr x \<Rightarrow> ok x }"

definition Grants :: "env \<Rightarrow> oauth_service \<Rightarrow> int \<Rightarrow> (grants_error + grant_view list) action" where
  "Grants ev s userID =
    bindM (lift_oauth (checkGrantsListLimit ev s userID)) (\<lambda>_. do {
      r \<leftarrow> db_read ev ''list grants'' (\<lambda>flt db. ListGrantsByUser flt db userID);
      case r of Inl e \<Rightarrow> err (RepoFailed e) | Inr grants \<Rightarrow> ok grants })"

definition RevokeGrant :: "env \<Rightarrow> oauth_service \<Rightarrow> int \<Rightarrow> int \<Rightarrow> string \<Rightarrow> (grants_error + unit) action" where
  "RevokeGrant ev s userID clientID actorClientID =
    bindM (lift_oauth (checkGrantsRevokeLimit ev s userID)) (\<lambda>_.
      let now = ev_Now ev ''revoke grant'' in do {
        r \<leftarrow> db_write ev ''revoke grant'' (\<lambda>flt db. RevokeUserClientTokens flt userID clientID now db);
        case r of
          Inl e \<Rightarrow> err (RepoFailed e)
        | Inr entries \<Rightarrow> do {
            _ \<leftarrow> DeliverBlacklist ev (os_Blacklist s) entries now;
            _ \<leftarrow> auditAs ev s (Some userID) ''oauth_grant_revoke'' (Some (decimal clientID)) (non_blank actorClientID) True 0
                   [] [] None;
            ok () } })"

section \<open>Discovery (discovery.go)\<close>

definition TrimRightSlash :: "string \<Rightarrow> string" where
  "TrimRightSlash s = rev (dropWhile (\<lambda>c. c = CHR ''/'') (rev s))"

definition Discovery :: "oauth_service \<Rightarrow> (string \<times> json) list" where
  "Discovery s =
    (let base = TrimRightSlash (TrimSpace (os_Issuer s)) in
     [(''issuer'', JString base), (''authorization_endpoint'', JString (base @ ''/oauth/authorize'')),
      (''token_endpoint'', JString (base @ ''/oauth/token'')), (''userinfo_endpoint'', JString (base @ ''/userinfo'')),
      (''jwks_uri'', JString (base @ ''/.well-known/jwks.json'')),
      (''revocation_endpoint'', JString (base @ ''/oauth/revoke'')),
      (''scopes_supported'', JStrings [OpenID, ProfileScope, EmailScope, AdminRead, AdminWrite, UserRead, UserWrite]),
      (''response_types_supported'', JStrings [responseTypeCode]),
      (''grant_types_supported'', JStrings [grantTypeAuthorizationCode, grantTypeRefreshToken]),
      (''subject_types_supported'', JStrings [''public'']),
      (''id_token_signing_alg_values_supported'', JStrings [''EdDSA'']),
      (''token_endpoint_auth_methods_supported'', JStrings [''none'', ''client_secret_post'']),
      (''claims_supported'', JStrings [''sub'', ''iss'', ''aud'', ''exp'', ''iat'', ''nonce'', ''name'', ''picture'',
         ''preferred_username'', ''role'', ''email'', ''email_verified'', ''updated_at'']),
      (''code_challenge_methods_supported'', JStrings [pkceMethodS256]),
      (''response_modes_supported'', JStrings [''query'']), (''claim_types_supported'', JStrings [''normal'']),
      (''request_parameter_supported'', JBool False), (''request_uri_parameter_supported'', JBool False),
      (''claims_parameter_supported'', JBool False)])"

definition PublicKeys :: "oauth_service \<Rightarrow> (string \<times> string) list list" where
  "PublicKeys s = JWKS (cr_EdPublic (os_Crypto s)) (os_JWT s)"

end
