(* ===== verification/OAuth_Properties.thy ===== *)
theory OAuth_Properties
  imports OAuth_Service Service_Evolution Auth_Store_Properties Auth_Properties
begin

text \<open>
  The endpoints of the authorization server: whatever other requests do in between they keep the store's
  invariants, only a registered callback is ever redirected to, a code becomes tokens only through every
  one of its checks, and a silent refusal leaves the pending request for the consent page.
\<close>

section \<open>Every endpoint moves the store by its own steps\<close>

lemma safe_checkLimit [safe_intros]: "sound_env U ev \<Longrightarrow> safe U (checkLimit ev s l e x)"
  unfolding checkLimit_def Let_def by (intro safe_intros)

lemma safe_limits [safe_intros]:
  assumes "sound_env U ev"
  shows "safe U (checkAuthorizeLimit ev s x)" "safe U (checkTokenLimit ev s x)" "safe U (checkConsentInfoLimit ev s i)"
    "safe U (checkConsentLimit ev s i)" "safe U (checkSilentConsentLimit ev s i)" "safe U (checkGrantsListLimit ev s i)"
    "safe U (checkGrantsRevokeLimit ev s i)"
  unfolding checkAuthorizeLimit_def checkTokenLimit_def checkConsentInfoLimit_def checkConsentLimit_def
    checkSilentConsentLimit_def checkGrantsListLimit_def checkGrantsRevokeLimit_def
  by (intro safe_intros assms)+

lemma safe_revokeFamily [safe_intros]:
  assumes "sound_env U ev"
  shows "safe U (revokeFamilyErr ev s f)" "safe U (revokeFamily ev s f)"
  unfolding revokeFamily_def revokeFamilyErr_def Let_def by (intro safe_intros assms)+

lemma safe_audits [safe_intros]:
  assumes "sound_env U ev"
  shows "safe U (auditAs ev s u a r c b n ip ua d)" "safe U (audit ev s u a r b n ip ua d)"
    "safe U (auditAuthorize ev s ci ap u b n out)" "safe U (auditToken ev s u c' gt tr b n out)"
    "safe U (auditSessionRevoked ev s i c' tr reason)" "safe U (auditRevoke ev s u c' ri b n out)"
  unfolding auditAuthorize_def auditToken_def auditSessionRevoked_def auditRevoke_def audit_def auditAs_def Let_def
  by (intro safe_intros assms)+

lemma safe_requests [safe_intros]:
  assumes "sound_env U ev"
  shows "safe U (SaveAuthorizeRequest ev s i p ttl)" "safe U (PeekAuthorizeRequest ev s i)"
    "safe U (ConsumeAuthorizeRequest ev s i)" "safe U (activeClient ev site c e)" "safe U (standingGrant ev u cl ap)"
    "safe U (findGrantUser ev u)" "safe U (idTokenClaims ev s user granted)"
  unfolding SaveAuthorizeRequest_def PeekAuthorizeRequest_def ConsumeAuthorizeRequest_def activeClient_def
    standingGrant_def findGrantUser_def idTokenClaims_def Let_def
  by (intro safe_intros assms)+

lemma safe_Authorize [safe_intros]: "sound_env U ev \<Longrightarrow> safe U (Authorize ev s input)"
  unfolding Authorize_def Let_def by (intro safe_intros)

lemma safe_issueCode [safe_intros]:
  assumes "sound_env U ev" "ev_UUID ev ''code family'' \<in> U"
  shows "safe U (issueAuthorizationCode ev s ci ap out CreateWithGrant)"
    "safe U (issueAuthorizationCode ev s ci ap out CreateWithExistingGrant)"
  unfolding issueAuthorizationCode_def Let_def
  by (intro safe_intros assms; simp add: authorization_row_def assms)+

lemma safe_Consent [safe_intros]:
  assumes "sound_env U ev" "ev_UUID ev ''code family'' \<in> U"
  shows "safe U (Consent ev s ci)" "safe U (SilentConsent ev s sci)" "safe U (ConsentInfo ev s rid i)"
  unfolding Consent_def SilentConsent_def ConsentInfo_def denyConsent_def Let_def
  by (intro safe_intros assms)+

lemma safe_signIDToken [safe_intros]: "sound_env U ev \<Longrightarrow> safe U (signIDToken ev s user cl sc n ttl)"
  unfolding signIDToken_def by (intro safe_intros)

lemma safe_UserInfo [safe_intros]: "sound_env U ev \<Longrightarrow> safe U (UserInfo ev s i sc)"
  unfolding UserInfo_def Let_def by (intro safe_intros)

lemma safe_authenticateClient [safe_intros]: "sound_env U ev \<Longrightarrow> safe U (authenticateClient ev s c x)"
  unfolding authenticateClient_def Let_def by (intro safe_intros)

lemma safe_redeemCode [safe_intros]:
  assumes "sound_env U ev"
  shows "safe U (redeemCode ev s tr cl z v user)"
proof -
  have "safe U (codeRevoked ev s cl tr)" unfolding codeRevoked_def by (intro safe_intros assms)
  then show ?thesis unfolding redeemCode_def
    using assms by (auto intro!: safe_intros dest!: Issue_sequence simp: redemptionRequest_def split: sum.split)
qed

lemma safe_tokenByAuthorizationCode [safe_intros]:
  assumes "sound_env U ev"
  shows "safe U (tokenByAuthorizationCode ev s tr)"
  unfolding tokenByAuthorizationCode_def checkConsumedCode_def replayedCode_def codeRevoked_def Let_def
  by (intro safe_intros assms)

lemma safe_tokenByRefreshToken [safe_intros]:
  assumes "sound_env U ev"
  shows "safe U (tokenByRefreshToken ev s tr)"
proof -
  have "safe U (rotationFailed ev s tr cl user e)" for cl user e
    unfolding rotationFailed_def Let_def by (cases e) (simp_all, (intro safe_intros assms)+)
  then have "safe U (rotatePair ev s tr cl user cur h ttl)" for cl user cur h ttl
    unfolding rotatePair_def Let_def by (intro safe_intros assms) auto
  moreover have "safe U (rotationAccessTTL ev s cur sc)" for cur sc
    unfolding rotationAccessTTL_def Let_def by (intro safe_intros assms)
  moreover have "safe U (revokedRefresh ev s tr cl cur t)" for cl cur t
    unfolding revokedRefresh_def Let_def by (intro safe_intros assms)
  ultimately show ?thesis
    unfolding tokenByRefreshToken_def refreshCurrent_def Let_def by (intro safe_intros assms)
qed

lemma safe_Token [safe_intros]: "sound_env U ev \<Longrightarrow> safe U (Token ev s tr)"
  unfolding Token_def dispatchTokenGrant_def by (intro safe_intros)

lemma safe_lookups [safe_intros]:
  assumes "sound_env U ev"
  shows "safe U (familyByRefreshToken ev s t c)" "safe U (familyByAccessJTI ev s t c)"
  unfolding familyByRefreshToken_def familyByAccessJTI_def by (intro safe_intros assms)+

lemma safe_resolveTokenFamily [safe_intros]:
  "sound_env U ev \<Longrightarrow> safe U (resolveTokenFamily ev s t hint c)"
  unfolding resolveTokenFamily_def Let_def
  by (cases "TrimSpace hint = tokenTypeHintAccess") (simp_all, (intro safe_intros; assumption)+)

lemma safe_Revoke [safe_intros]: "sound_env U ev \<Longrightarrow> safe U (Revoke ev s ri)"
  unfolding Revoke_def Let_def by (intro safe_intros)

lemma safe_Grants [safe_intros]: "sound_env U ev \<Longrightarrow> safe U (Grants ev s i) \<and> safe U (RevokeGrant ev s i c a)"
  unfolding Grants_def RevokeGrant_def lift_oauth_def Let_def by (intro conjI safe_intros)


datatype oauth_call =
    CallAuthorize authorize_input
  | CallConsent consent_input
  | CallSilentConsent silent_consent_input
  | CallConsentInfo string int
  | CallToken token_request
  | CallRevoke revoke_input
  | CallGrants int
  | CallRevokeGrant int int string
  | CallUserInfo int "string list"

fun serve :: "env \<Rightarrow> oauth_service \<Rightarrow> oauth_call \<Rightarrow> unit action" where
  "serve ev s (CallAuthorize i) = do { _ \<leftarrow> Authorize ev s i; State_Monad.return () }"
| "serve ev s (CallConsent i) = do { _ \<leftarrow> Consent ev s i; State_Monad.return () }"
| "serve ev s (CallSilentConsent i) = do { _ \<leftarrow> SilentConsent ev s i; State_Monad.return () }"
| "serve ev s (CallConsentInfo r u) = do { _ \<leftarrow> ConsentInfo ev s r u; State_Monad.return () }"
| "serve ev s (CallToken i) = do { _ \<leftarrow> Token ev s i; State_Monad.return () }"
| "serve ev s (CallRevoke i) = do { _ \<leftarrow> Revoke ev s i; State_Monad.return () }"
| "serve ev s (CallGrants u) = do { _ \<leftarrow> Grants ev s u; State_Monad.return () }"
| "serve ev s (CallRevokeGrant u c a) = do { _ \<leftarrow> RevokeGrant ev s u c a; State_Monad.return () }"
| "serve ev s (CallUserInfo u sc) = do { _ \<leftarrow> UserInfo ev s u sc; State_Monad.return () }"

lemma safe_serve: "sound_env U ev \<Longrightarrow> ev_UUID ev ''code family'' \<in> U \<Longrightarrow> safe U (serve ev s c)"
  using safe_Grants[of U ev s] by (cases c) (auto intro!: safe_intros)


section \<open>Redirects\<close>

lemma newError_simps [simp]:
  "oe_Redirectable (newError k d) = False" "oe_StashSpent (newError k d) = False"
  "oe_Redirectable (withRetryAfter e t) = oe_Redirectable e" "oe_StashSpent (withRetryAfter e t) = oe_StashSpent e"
  "oe_Redirectable (spentStash e) = oe_Redirectable e" "oe_StashSpent (spentStash e)"
  by (simp_all add: newError_def withRetryAfter_def spentStash_def)

lemma run_activeClient:
  "run_state (activeClient ev site c missing) w =
    (case FindActiveByClientID (ev_Fault ev site) (wd_db (ev_Between ev site w)) c of
       Inl e \<Rightarrow> Inl (if e = ErrNotFound \<or> e = ErrInvalidArgument then missing else newError ErrInternal ''query client failed'')
     | Inr client \<Rightarrow> Inr client, ev_Between ev site w)"
  by (auto simp: activeClient_def split: sum.splits)

lemma checkLimit_error:
  "run_state (checkLimit ev s l ep x) w = (Inl e, w') \<Longrightarrow> oe_Kind e = KindRateLimited \<and> \<not> oe_Redirectable e \<and> \<not> oe_StashSpent e"
  by (auto simp: checkLimit_def Let_def newError_def withRetryAfter_def ErrRateLimited_def split_beta
      split: option.splits if_splits sum.splits)

lemma FindActive_Inr:
  "FindActiveByClientID flt db c = Inr client \<Longrightarrow> client \<in> set (db_clients db) \<and> cl_ClientID client = c \<and> cl_IsActive client = Some True"
  by (auto simp: FindActiveByClientID_def stmt_Inr_iff split: if_splits option.splits dest: find_SomeD)

text \<open>C34: The authorize endpoint hands an error to the client's callback only when the client read in this
  request is registered and active and the presented URI is literally one of its registered ones.\<close>

theorem authorize_redirects_registered_only:
  assumes "run_state (Authorize ev s input) w = (Inl e, w')" "oe_Redirectable e"
  shows "\<exists>client \<in> set (db_clients (wd_db (ev_Between ev ''find client''
            (snd (run_state (checkAuthorizeLimit ev s (ai_ClientIP input)) w))))).
     cl_ClientID client = TrimSpace (ai_ClientID input) \<and> cl_IsActive client = Some True \<and>
     TrimSpace (ai_RedirectURI input) \<in> set (cl_RedirectURIs client)"
proof -
  let ?w1 = "snd (run_state (checkAuthorizeLimit ev s (ai_ClientIP input)) w)"
  obtain w1 where lim: "run_state (checkAuthorizeLimit ev s (ai_ClientIP input)) w = (Inr (), w1)"
    using assms checkLimit_error unfolding Authorize_def run_bindM checkAuthorizeLimit_def
    by (cases "run_state (checkLimit ev s (os_AuthorizeLimiter s) ''authorize'' (''ip:'' @ ai_ClientIP input)) w")
      (fastforce split: sum.splits)
  obtain client where client: "FindActiveByClientID (ev_Fault ev ''find client'') (wd_db (ev_Between ev ''find client'' w1))
      (TrimSpace (ai_ClientID input)) = Inr client"
    using assms lim unfolding Authorize_def run_bindM
    by (auto simp: Let_def run_bindM run_activeClient split: if_splits sum.splits)
  moreover have "TrimSpace (ai_RedirectURI input) \<in> set (cl_RedirectURIs client)"
    using assms lim client unfolding Authorize_def run_bindM
    by (auto simp: Let_def run_bindM run_activeClient split: if_splits)
  ultimately show ?thesis using FindActive_Inr lim by fastforce
qed

section \<open>Redeeming a code\<close>

lemma run_db_write:
  "run_state (db_write ev site f) w =
    (fst (f (ev_Fault ev site) (wd_db (ev_Between ev site w))),
     (ev_Between ev site w)\<lparr>wd_db := snd (f (ev_Fault ev site) (wd_db (ev_Between ev site w)))\<rparr>)"
  by (simp add: db_write_def Let_def split: prod.split)

lemma authenticateClient_Inr:
  assumes "run_state (authenticateClient ev s cid secret) w = (Inr client, w1)"
  shows "w1 = ev_Between ev ''authenticate client'' w" "client \<in> set (db_clients (wd_db w1))"
    "cl_ClientID client = TrimSpace cid" "cl_IsActive client = Some True"
    "case cl_ClientSecretHash client of None \<Rightarrow> TrimSpace secret = []
     | Some h \<Rightarrow> VerifyClientSecret (cr_Sum256 (os_Crypto s)) (TrimSpace secret) h = Inr ()"
  using assms FindActive_Inr
  by (auto simp: authenticateClient_def Let_def run_bindM run_activeClient
      split: if_splits sum.splits option.splits)

lemma run_findGrantUser:
  "run_state (findGrantUser ev u) w = (Inr user, w') \<longleftrightarrow>
     w' = ev_Between ev ''find grant user'' w \<and> us_State user \<noteq> UserStateDeleted \<and>
     FindAuthUserByID (ev_Fault ev ''find grant user'') (wd_db w') u = Inr user"
  by (auto simp: findGrantUser_def split: sum.splits if_splits)

lemma FindAuthUserByID_Inr: "FindAuthUserByID flt db u = Inr user \<Longrightarrow> user \<in> set (db_users db) \<and> us_ID user = u"
  by (auto simp: FindAuthUserByID_def find_or_missing_def stmt_Inr_iff split: option.splits dest: find_SomeD)

lemma matchRedirectURI_Inr: "matchRedirectURI a p = Inr x \<longleftrightarrow> a = Some (TrimSpace p) \<and> TrimSpace p \<noteq> []"
  by (auto simp: matchRedirectURI_def Let_def)

lemma run_codeRevoked [simp]: "run_state (codeRevoked ev s client input) w \<noteq> (Inr x, w')"
  by (simp add: codeRevoked_def split: prod.split)

text \<open>What the transaction that wrote the pair of a redemption found.\<close>

lemma redeemCode_Inr:
  assumes "run_state (redeemCode ev s input client z v user) w = (Inr res, w')"
  obtains locked registered scopes where
    "find_user (wd_db (ev_Between ev ''create pair'' w)) (us_ID user) = Some locked" "us_TokenVersion locked = v"
    "find_client (wd_db (ev_Between ev ''create pair'' w)) (cl_ID client) = Some registered" "cl_IsActive registered = Some True"
    "Normalize (az_Scopes z) = Inr scopes" "ContainsAll (cl_Scopes registered) scopes = Inr True"
proof -
  define db where "db = wd_db (ev_Between ev ''create pair'' w)"
  obtain pair where pair: "Issue (os_Crypto s) ev (Some (os_JWT s)) (Some (os_RefreshSecret s)) (redemptionRequest s client z user) = Inr pair"
    using assms by (auto simp: redeemCode_def split: sum.splits)
  define op where "op = CreatePairWithUserAndClientLock (ev_Fault ev ''create pair'') (ev_Now ev ''create pair'') (us_ID user)
      (cl_ID client) v (az_ID z) (Some (tp_Access pair)) (Some (tp_Refresh pair))
      (successAudit ev s user client input grantTypeAuthorizationCode ''issued'') db"
  have run: "run_state (redeemCode ev s input client z v user) w = (case fst op of
      Inl e \<Rightarrow> run_state (if e \<in> {ErrUserStateChanged, ErrClientInactive, ErrClientScopeChanged, ErrNotFound}
             then codeRevoked ev s client input else err (newError ErrInternal ''persist pair failed''))
          ((ev_Between ev ''create pair'' w)\<lparr>wd_db := snd op\<rparr>)
    | Inr rows \<Rightarrow> run_state (redeemCode ev s input client z v user) w)"
    using pair by (simp add: redeemCode_def run_db_write op_def db_def split: sum.split)
  have "\<exists>rows. fst op = Inr rows"
    using assms run by (cases "fst op") (auto simp: run_codeRevoked[symmetric] split: if_splits)
  then obtain rows where "fst op = Inr rows" by blast
  moreover have "at_Scopes (tp_Access pair) = sc \<Longrightarrow> Normalize (az_Scopes z) = Inr sc" for sc
    using pair by (rule Issue_Inr) (simp add: redemptionRequest_def access_row_def)
  ultimately show thesis using that
    by (cases rule: CreatePairLocked_cases[of "ev_Fault ev ''create pair''" "ev_Now ev ''create pair''" "us_ID user" "cl_ID client" v
          "az_ID z" "Some (tp_Access pair)" "Some (tp_Refresh pair)"
          "successAudit ev s user client input grantTypeAuthorizationCode ''issued''" db])
      (auto simp: op_def db_def elim!: createLockedPairBody_InrD)
qed

text \<open>C8: A code becomes tokens only when the client authenticated, the code was live and unused and is now
  used, the redirect URI and the PKCE verifier match it, its owner is open and unchanged since the code was
  consumed, and, at the moment the tokens are written, the owner's token version is still the one read with
  the code, the client is active and its registration still covers the scopes.\<close>

theorem code_redemption_sound:
  assumes "run_state (tokenByAuthorizationCode ev s input) w = (Inr res, w')"
  shows "let w1 = ev_Between ev ''authenticate client'' w; wc = ev_Between ev ''consume code'' w1 in
    \<exists>client z v dbc user locked registered.
      (case cl_ClientSecretHash client of None \<Rightarrow> TrimSpace (tr_ClientSecret input) = []
       | Some h \<Rightarrow> VerifyClientSecret (cr_Sum256 (os_Crypto s)) (TrimSpace (tr_ClientSecret input)) h = Inr ()) \<and>
      client \<in> set (db_clients (wd_db w1)) \<and> cl_ClientID client = TrimSpace (tr_ClientID input) \<and> cl_IsActive client = Some True \<and>
      Consume (ev_Fault ev ''consume code'') (TrimSpace (tr_Code input)) (ev_Now ev ''consume code'') (cl_ID client) (wd_db wc)
        = ((Some z, v, None), dbc) \<and>
      az_ClientID z = cl_ID client \<and> az_RedirectURI z = Some (TrimSpace (tr_RedirectURI input)) \<and>
      VerifyPKCES256 (cr_Sum256 (os_Crypto s)) (TrimSpace (tr_CodeVerifier input)) (az_CodeChallenge z) (az_CodeChallengeMethod z) = Inr () \<and>
      (let wu = ev_Between ev ''find grant user'' (wc\<lparr>wd_db := dbc\<rparr>); wp = ev_Between ev ''create pair'' wu in
        user \<in> set (db_users (wd_db wu)) \<and> us_ID user = az_UserID z \<and> us_State user \<noteq> UserStateDeleted \<and> us_TokenVersion user = v \<and>
        find_user (wd_db wp) (az_UserID z) = Some locked \<and> us_TokenVersion locked = v \<and>
        find_client (wd_db wp) (cl_ID client) = Some registered \<and> cl_IsActive registered = Some True \<and>
        (\<exists>scopes. Normalize (az_Scopes z) = Inr scopes \<and> ContainsAll (cl_Scopes registered) scopes = Inr True))"
proof -
  obtain client where auth: "run_state (authenticateClient ev s (tr_ClientID input) (tr_ClientSecret input)) w =
      (Inr client, ev_Between ev ''authenticate client'' w)"
    using assms authenticateClient_Inr(1)
    by (auto simp: tokenByAuthorizationCode_def split: sum.splits prod.splits)
  define wc where "wc = ev_Between ev ''consume code'' (ev_Between ev ''authenticate client'' w)"
  define c where "c = Consume (ev_Fault ev ''consume code'') (TrimSpace (tr_Code input)) (ev_Now ev ''consume code'')
      (cl_ID client) (wd_db wc)"
  obtain z v dbc where consumed: "c = ((Some z, v, None), dbc)"
    and check: "run_state (checkConsumedCode ev s input client z v) (wc\<lparr>wd_db := dbc\<rparr>) = (Inr res, w')"
    using assms auth
    by (cases c) (auto simp: tokenByAuthorizationCode_def Let_def run_db_write replayedCode_def
        simp flip: wc_def c_def split: if_splits option.splits prod.splits)
  have binds: "az_ClientID z = cl_ID client" "az_RedirectURI z = Some (TrimSpace (tr_RedirectURI input))"
    "VerifyPKCES256 (cr_Sum256 (os_Crypto s)) (TrimSpace (tr_CodeVerifier input)) (az_CodeChallenge z) (az_CodeChallengeMethod z) = Inr ()"
    using check by (auto simp: checkConsumedCode_def matchRedirectURI_Inr split: if_splits sum.splits)
  define wu where "wu = ev_Between ev ''find grant user'' (wc\<lparr>wd_db := dbc\<rparr>)"
  obtain user where user: "run_state (findGrantUser ev (az_UserID z)) (wc\<lparr>wd_db := dbc\<rparr>) = (Inr user, wu)"
    and version: "us_TokenVersion user = v"
    and redeem: "run_state (redeemCode ev s input client z v user) wu = (Inr res, w')"
  proof -
    from check obtain user wu' where u: "run_state (findGrantUser ev (az_UserID z)) (wc\<lparr>wd_db := dbc\<rparr>) = (Inr user, wu')"
      by (auto simp: checkConsumedCode_def run_bindM split: if_splits sum.splits prod.splits)
    then have "wu' = wu" by (simp add: run_findGrantUser wu_def)
    moreover have "us_TokenVersion user = v" "run_state (redeemCode ev s input client z v user) wu' = (Inr res, w')"
      using check u by (auto simp: checkConsumedCode_def run_bindM split: if_splits sum.splits)
    ultimately show thesis using that u by blast
  qed
  from user have u: "user \<in> set (db_users (wd_db wu))" "us_ID user = az_UserID z" "us_State user \<noteq> UserStateDeleted"
    by (auto simp: run_findGrantUser dest: FindAuthUserByID_Inr)
  from redeem obtain locked registered scopes where
    "find_user (wd_db (ev_Between ev ''create pair'' wu)) (us_ID user) = Some locked" "us_TokenVersion locked = v"
    "find_client (wd_db (ev_Between ev ''create pair'' wu)) (cl_ID client) = Some registered" "cl_IsActive registered = Some True"
    "Normalize (az_Scopes z) = Inr scopes" "ContainsAll (cl_Scopes registered) scopes = Inr True"
    by (rule redeemCode_Inr)
  then show ?thesis unfolding Let_def wc_def[symmetric] wu_def[symmetric]
    using authenticateClient_Inr(2-5)[OF auth] consumed[unfolded c_def] binds u version wu_def by metis
qed

end
