(* ===== verification/OAuth_Witnesses.thy ===== *)
theory OAuth_Witnesses
  imports OAuth_Properties Service_Samples
begin

text \<open>Concrete requests at which the properties of the authorization server are instantiated.\<close>

definition sample_service :: oauth_service where
  "sample_service = \<lparr>os_Crypto = sample_crypto, os_Prefix = ''p'', os_AuthorizeLimiter = None, os_ConsentInfoLimiter = None,
     os_TokenLimiter = None, os_ConsentLimiter = None, os_GrantsLimiter = None, os_Audit = False, os_Profiles = False,
     os_Blacklist = None,
     os_JWT = sample_jwt,
     os_RefreshSecret = replicate 32 CHR ''s'', os_AccessTTL = 0, os_RefreshTTL = 0, os_CapabilityRefreshMaxLifetime = 0,
     os_CodeTTL = 0, os_RequestTTL = 0, os_Issuer = ''i'', os_Encode = (\<lambda>_. None), os_Decode = (\<lambda>_. None),
     os_UpdatedAt = (\<lambda>_. 0)\<rparr>"

definition sample_request :: token_request where
  "sample_request = \<lparr>tr_GrantType = ''authorization_code'', tr_Code = ''code'', tr_RedirectURI = ''https://a.b/c'',
     tr_ClientID = ''app'', tr_ClientSecret = '''', tr_CodeVerifier = replicate 43 CHR ''a'', tr_RefreshToken = '''',
     tr_ClientIP = '''', tr_UserAgent = ''''\<rparr>"

definition code_store :: database where
  "code_store = sample_store\<lparr>db_access := [], db_refresh := [],
     db_authorizations := [sample_code\<lparr>az_ID := 1, az_RedirectURI := Some ''https://a.b/c'',
        az_CodeChallenge := EncodeToString (replicate 32 CHR ''a'')\<rparr>]\<rparr>"


theorem authorize_redirects_registered_only_witness:
  "\<exists>client \<in> set (db_clients sample_store). cl_ClientID client = ''app'' \<and> ''https://a.b/c'' \<in> set (cl_RedirectURIs client)"
proof -
  let ?w = "(world_of sample_store)"
  let ?i = "\<lparr>ai_ResponseType = ''u'', ai_ClientID = ''app'', ai_RedirectURI = ''https://a.b/c'', ai_Scope = ''openid'',
     ai_State = ''x'', ai_CodeChallenge = [], ai_CodeChallengeMethod = [], ai_Nonce = [], ai_Prompt = [],
     ai_ClientIP = [], ai_UserAgent = []\<rparr>"
  have c: "FindActiveByClientID no_fault sample_store ''app'' = Inr sample_client"
    by (simp add: FindActiveByClientID_def sample_defs)
  have "run_state (Authorize quiet sample_service ?i) ?w =
      (Inl (redirectableError ErrUnsupportedResponse ''response_type must be code''), ?w)"
    by (simp add: Authorize_def Let_def run_bindM run_activeClient checkAuthorizeLimit_def checkLimit_def sample_service_def c
        checkAuthorizeParameters_def sample_client_def grantTypeAuthorizationCode_def responseTypeCode_def)
  from authorize_redirects_registered_only[OF this] show ?thesis
    by (simp add: redirectableError_def checkAuthorizeLimit_def checkLimit_def sample_service_def Let_def) blast
qed

lemma sample_issue:
  "\<exists>claim at rt. Issue sample_crypto quiet (Some (os_JWT sample_service)) (Some (os_RefreshSecret sample_service))
     \<lparr>ir_User = Some sample_user, ir_Client = Some sample_client, ir_Sequence = 0, ir_FamilyID = ''f'', ir_Scopes = [''openid''],
      ir_AccessTTL = Hour, ir_RefreshTTL = 720 * Hour\<rparr>
     = Inr \<lparr>tp_AccessToken = at, tp_RefreshToken = rt, tp_ScopeClaim = claim, tp_FamilyID = ''f'',
          tp_Access = access_row sample_user sample_client ''u'' ''f'' 200 [''openid''] Hour,
          tp_Refresh = refresh_row sample_user sample_client (EncodeToString ''abc'') ''f'' 0 200 [''openid''] (720 * Hour)\<rparr>"
  by (simp add: Issue_def SignAccessToken_def issue_input_def Let_def duration_defs HasPrefix_def
      NewRefreshToken_def HashRefreshToken_def sample_service_def sample_jwt_def sample_crypto_def sample_random_def randomBytes_def
      minimumHMACSecretSize_def sample_user_def)

lemma sample_fields:
  "us_ID sample_user = 7" "us_State sample_user = ''njupter''" "us_TokenVersion sample_user = 3"
  "cl_ID sample_client = 5" "cl_ClientID sample_client = ''app''" "cl_GrantTypes sample_client = [''authorization_code'']"
  "cl_Scopes sample_client = [''openid'']" "os_Crypto sample_service = sample_crypto" "os_Audit sample_service = False"
  "os_Profiles sample_service = False" "jm_Issuer (os_JWT sample_service) = ''i''"
  "kp_KID (jm_Active (os_JWT sample_service)) = ''k''" "kp_Private (jm_Active (os_JWT sample_service)) = ''s''"
  "az_Scopes sample_code = [''openid'']" "az_Nonce sample_code = None" "az_ClientID sample_code = 5"
  "az_UserID sample_code = 7" "az_CodeChallengeMethod sample_code = ''S256''" "cr_SignID sample_crypto = (\<lambda>_ _ _. Some ''id'')"
  "accessTTL sample_service = Hour" "refreshTTL sample_service = 720 * Hour"
  "redemptionTTLs sample_service [''openid''] = (Hour, 720 * Hour)" "0 < Hour" "\<not> Hour \<le> 0"
  by (simp_all add: sample_user_def sample_client_def sample_service_def sample_jwt_def sample_code_def sample_crypto_def accessTTL_def
      refreshTTL_def redemptionTTLs_def capabilityRefreshLifetime_def defaultAccessTTL_def defaultRefreshTTL_def duration_defs)

lemma sample_redemption:
  "\<exists>res w'. run_state (tokenByAuthorizationCode quiet sample_service sample_request) (world_of code_store) = (Inr res, w')"
proof -
  have client: "FindActiveByClientID no_fault code_store ''app'' = Inr sample_client"
    by (simp add: FindActiveByClientID_def code_store_def sample_defs)
  have auth: "run_state (authenticateClient quiet sample_service ''app'' []) (world_of code_store)
      = (Inr sample_client, (world_of code_store))"
    by (simp add: authenticateClient_def Let_def run_bindM run_activeClient client sample_client_def)
  let ?z = "sample_code\<lparr>az_ID := 1, az_RedirectURI := Some ''https://a.b/c'', az_IsUsed := True,
        az_CodeChallenge := EncodeToString (replicate 32 CHR ''a'')\<rparr>"
  let ?db = "code_store\<lparr>db_authorizations := [?z]\<rparr>"
  have consume: "Consume no_fault ''code'' 200 5 code_store = ((Some ?z, 3, None), ?db)"
    by (simp add: Consume_def consumeBody_def transaction_def IsZero_def zeroTime_def code_store_def
        sample_store_def empty_store_def sample_code_def sample_user_def duration_defs update_where_def rows_affected_def find_user_def Let_def)
  obtain claim at rt where issue: "Issue sample_crypto quiet (Some (os_JWT sample_service)) (Some (os_RefreshSecret sample_service))
      (redemptionRequest sample_service sample_client ?z sample_user)
      = Inr \<lparr>tp_AccessToken = at, tp_RefreshToken = rt, tp_ScopeClaim = claim, tp_FamilyID = ''f'',
          tp_Access = access_row sample_user sample_client ''u'' ''f'' 200 [''openid''] Hour,
          tp_Refresh = refresh_row sample_user sample_client ''YWJj'' ''f'' 0 200 [''openid''] (720 * Hour)\<rparr>"
  proof -
    have "redemptionRequest sample_service sample_client ?z sample_user =
       \<lparr>ir_User = Some sample_user, ir_Client = Some sample_client, ir_Sequence = 0, ir_FamilyID = ''f'', ir_Scopes = [''openid''],
      ir_AccessTTL = Hour, ir_RefreshTTL = 720 * Hour\<rparr>"
      by (simp add: redemptionRequest_def redemptionTTLs_def capabilityRefreshLifetime_def accessTTL_def refreshTTL_def
         sample_service_def sample_code_def defaultAccessTTL_def defaultRefreshTTL_def Let_def)
    then show thesis using sample_issue that by auto
  qed
  define a where "a = access_row sample_user sample_client ''u'' ''f'' 200 [''openid''] Hour"
  define r where "r = refresh_row sample_user sample_client ''YWJj'' ''f'' 0 200 [''openid''] (720 * Hour)"
  have rows: "at_TokenID a = ''u''" "at_ClientID a = 5" "at_UserID a = 7" "at_Scopes a = [''openid'']" "at_CreatedAt a = 200"
      "at_ExpiresAt a = 200 + Hour" "rt_Sequence r = 0" "rt_FamilyID r = ''f''" "rt_ClientID r = 5" "rt_UserID r = 7"
      "rt_CreatedAt r = 200" "rt_ExpiresAt r = 200 + 720 * Hour"
    by (simp_all add: a_def r_def access_row_def refresh_row_def sample_user_def sample_client_def)
  have valid: "validateTokenPair (Some a) (Some r) = None"
    by (simp add: validateTokenPair_None_iff well_formed_sample a_def r_def access_row_def refresh_row_def sample_user_def
        sample_client_def duration_defs)
  have pair: "\<exists>rows db'. CreatePairWithUserAndClientLock no_fault 200 7 5 3 1 (Some a) (Some r) None ?db = (Inr rows, db')"
    by (simp add: CreatePairWithUserAndClientLock_def createLockedPairBody_def transaction_def createTokenPairInTransaction_def
        valid find_user_def find_client_def rows code_store_def sample_defs duration_defs
        validateTokenFamilyAppend_def insert_access_def insert_refresh_def insert_audit_def Let_def user_exists_def client_exists_def)
  have "ValidatePKCEVerifier (replicate 43 CHR ''a'') = Inr ()"
    by (simp add: ValidatePKCEVerifier_iff unreserved_def alphabet_def)
  then have verify: "VerifyPKCES256 (cr_Sum256 sample_crypto) (replicate 43 CHR ''a'') (EncodeToString (replicate 32 CHR ''a'')) ''S256'' = Inr ()"
    by (simp add: VerifyPKCES256_def PKCEChallengeS256_def pkceMethodS256_def sample_crypto_def)
  have user: "FindAuthUserByID no_fault ?db 7 = Inr sample_user"
    by (simp add: FindAuthUserByID_def find_or_missing_def code_store_def sample_defs)
  obtain rows db' where run: "CreatePairWithUserAndClientLock no_fault 200 7 5 3 1 (Some a) (Some r) None ?db = (Inr rows, db')"
    using pair by blast
  have sign: "run_state (signIDToken quiet sample_service sample_user sample_client [''openid''] [] Hour) w = (Inr ''id'', w)" for w
    by (simp add: signIDToken_def run_bindM idTokenClaims_def SignIDToken_def sample_fields ProfileScope_def Let_def)
  have redeem: "\<exists>res w'. run_state (redeemCode quiet sample_service sample_request sample_client ?z 3 sample_user)
      (world_of ?db) = (Inr res, w')"
    using issue run by (simp add: redeemCode_def run_db_write successAudit_def sign sample_fields flip: a_def r_def)
  have fields: "tr_ClientID sample_request = ''app''" "tr_ClientSecret sample_request = []" "tr_Code sample_request = ''code''"
    "tr_CodeVerifier sample_request = replicate 43 CHR ''a''" "tr_RedirectURI sample_request = ''https://a.b/c''"
    by (simp_all add: sample_request_def)
  have "run_state (checkConsumedCode quiet sample_service sample_request sample_client ?z 3) (world_of ?db) =
      run_state (redeemCode quiet sample_service sample_request sample_client ?z 3 sample_user) (world_of ?db)"
    using verify user by (simp add: checkConsumedCode_def matchRedirectURI_def fields sample_fields run_bindM findGrantUser_def
        checkScopeForClient_def state_defs ContainsAdmin_def IsAdmin_def adminScopes_def AdminRead_def AdminWrite_def)
  with redeem show ?thesis
    by (simp add: tokenByAuthorizationCode_def fields sample_fields auth grantTypeAuthorizationCode_def run_db_write consume Let_def)
qed

theorem code_redemption_sound_witness:
  "\<exists>z v dbc. Consume no_fault ''code'' 200 5 code_store = ((Some z, v, None), dbc) \<and>
     az_RedirectURI z = Some ''https://a.b/c''"
proof -
  obtain res w' where "run_state (tokenByAuthorizationCode quiet sample_service sample_request)
      (world_of code_store) = (Inr res, w')" using sample_redemption by blast
  from code_redemption_sound[OF this] show ?thesis
    by (auto simp: Let_def sample_request_def code_store_def sample_store_def sample_client_def)
qed

end
