(* ===== verification/Alumni_Properties.thy ===== *)
theory Alumni_Properties
  imports Samples
begin

text \<open>
  What the reviewer of an alumni ticket can rely on: a verdict is given once and stays, and an approval
  opens exactly the account it names.
\<close>

text \<open>A ticket that carries a verdict keeps it in every run of the store, whatever reviewers, workers
  and account operations do.\<close>

theorem alumni_verdict_final:
  assumes "store_step\<^sup>*\<^sup>* db db'" "distinct (map al_ID (db_alumni db))" "a \<in> set (db_alumni db)"
    "al_Status a \<noteq> AlumniRequestStatusPending" "al_ID a \<le> db_seq db"
    and "a' \<in> set (db_alumni db')" "al_ID a' = al_ID a"
  shows "al_Status a' = al_Status a"
proof -
  have "x = a" if "x \<in> set (db_alumni db)" "al_ID x = al_ID a" for x
    using distinct_map_inj[OF assms(2) that(1) assms(3)] that(2) by simp
  then have "verdict_kept (al_ID a) (al_Status a) db" using assms(4,5) by (auto simp: verdict_kept_def)
  then have "verdict_kept (al_ID a) (al_Status a) db'" by (rule verdicts_sys.reachable[OF assms(1)])
  then show ?thesis using assms(6,7) by (auto simp: verdict_kept_def)
qed

section \<open>Approval\<close>

lemma createAdminUser_users:
  assumes "createAdminUserInTransaction flt lx pg u p i db = Inr (u', db')"
  shows "db_users db' = db_users db @ [u']" "db_alumni db' = db_alumni db" "us_StudentID u' = us_StudentID u"
  using assms
  by (auto simp: createAdminUserInTransaction_def createUserAndProfile_def createIdentityFor_def bindE_eq_Inr_iff
      insert_user_def insert_profile_def insert_identity_def stmt_Inr_iff Let_def
      split: option.splits if_splits)

lemma find_update_ticket:
  "(\<And>a. al_ID (f a) = al_ID a) \<Longrightarrow> find_ticket (update_ticket i f db) i = map_option f (find_ticket db i)"
proof -
  assume f: "\<And>a. al_ID (f a) = al_ID a"
  have "List.find (\<lambda>a. al_ID a = i) (update_where (\<lambda>a. al_ID a = i) f rows)
      = map_option f (List.find (\<lambda>a. al_ID a = i) rows)" for rows
    by (induction rows) (auto simp: update_where_def f)
  then show ?thesis by (simp add: find_ticket_def update_ticket_def)
qed

lemma reviewed_refused:
  assumes "find_ticket db i = Some a" "al_Status a \<noteq> AlumniRequestStatusPending"
  shows "snd (ApproveAlumniRequest flt lx pg i r now f db) = db" "\<not> is_ok (fst (ApproveAlumniRequest flt lx pg i r now f db))"
    "snd (ApproveAlumniRequestRecover flt pg i r now db) = db" "\<not> is_ok (fst (ApproveAlumniRequestRecover flt pg i r now db))"
    "snd (RejectAlumniRequest flt i r reason silent now db) = db" "\<not> is_ok (fst (RejectAlumniRequest flt i r reason silent now db))"
proof -
  have "lockPendingRequest flt db i \<noteq> Inr x" for flt x
    using assms by (auto simp: lockPendingRequest_def stmt_Inr_iff)
  then have l: "\<exists>e. lockPendingRequest flt db i = Inl e" for flt by (metis sum.exhaust)
  then obtain e where "lockPendingRequest flt db i = Inl e" by blast
  then show "snd (ApproveAlumniRequest flt lx pg i r now f db) = db" "\<not> is_ok (fst (ApproveAlumniRequest flt lx pg i r now f db))"
    "snd (ApproveAlumniRequestRecover flt pg i r now db) = db" "\<not> is_ok (fst (ApproveAlumniRequestRecover flt pg i r now db))"
    "snd (RejectAlumniRequest flt i r reason silent now db) = db" "\<not> is_ok (fst (RejectAlumniRequest flt i r reason silent now db))"
    by (auto simp: ApproveAlumniRequest_def ApproveAlumniRequestRecover_def RejectAlumniRequest_def approveBody_def recoverBody_def
        rejectBody_def transaction_def lockIdentityAssignment_def stmt_def split: option.splits)
qed

text \<open>C36: A committed approval found its ticket pending, added exactly one account while no account had the
  ticket's student number, and left the ticket approved and naming that account; every later verdict on it,
  approval, recovery or rejection, is refused and changes nothing.\<close>

theorem alumni_approved_once:
  assumes "ApproveAlumniRequest flt lx pg i r now f db = (Inr (a, u), db')"
  shows "\<exists>request. find_ticket db i = Some request \<and> al_Status request = AlumniRequestStatusPending \<and>
     find_ticket db' i = Some (approve_row (us_ID u) r now request) \<and> db_users db' = db_users db @ [u] \<and>
     \<not> list_ex (\<lambda>x. folded pg (us_StudentID x) = folded pg (al_StudentID request)) (db_users db) \<and>
     \<not> is_ok (fst (ApproveAlumniRequest flt' lx' pg' i r' now' f' db')) \<and>
     snd (ApproveAlumniRequest flt' lx' pg' i r' now' f' db') = db' \<and>
     \<not> is_ok (fst (RejectAlumniRequest flt' i r' reason silent now' db')) \<and>
     snd (RejectAlumniRequest flt' i r' reason silent now' db') = db' \<and>
     \<not> is_ok (fst (ApproveAlumniRequestRecover flt' pg' i r' now' db')) \<and>
     snd (ApproveAlumniRequestRecover flt' pg' i r' now' db') = db'"
proof -
  obtain g where b: "approveBody flt lx pg i r now g db = Inr ((a, u), db')"
    using assms by (auto simp: ApproveAlumniRequest_def transaction_def split: if_splits option.splits sum.splits prod.splits)
  obtain request where lock: "lockPendingRequest flt db i = Inr request"
    and free: "\<not> list_ex (\<lambda>x. folded pg (us_StudentID x) = folded pg (al_StudentID request)) (db_users db)"
    using b by (auto simp: approveBody_def lockIdentityAssignment_def stmt_Inr_iff bindE_eq_Inr_iff split: if_splits)
  then have req: "find_ticket db i = Some request" "al_Status request = AlumniRequestStatusPending"
    by (auto simp: lockPendingRequest_def stmt_Inr_iff split: option.splits if_splits)
  from b obtain t u0 p bind db1 where t: "t \<in> set (db_alumni db)" "al_ID t = i" "al_Status t = AlumniRequestStatusPending"
    and c: "createAdminUserInTransaction flt lx pg u0 p bind db = Inr (u, db1)"
    and v: "writeApprovalVerdict flt i (us_ID u) r now db1 = Inr ((), db')"
    by (rule approveBody_InrE)
  note cu = createAdminUser_users[OF c]
  have db': "db' = update_ticket i (approve_row (us_ID u) r now) db1"
    using writeApproval_InrD(2)[OF v] t cu(2) by auto
  have keep: "al_ID (approve_row (us_ID u) r now x) = al_ID x" for x by (simp add: approve_row_def)
  have "find_ticket db1 i = find_ticket db i" using cu(2) by (simp add: find_ticket_def)
  then have found: "find_ticket db' i = Some (approve_row (us_ID u) r now request)"
    using req(1) find_update_ticket[OF keep] by (simp add: db')
  moreover have "al_Status (approve_row (us_ID u) r now request) \<noteq> AlumniRequestStatusPending"
    by (simp add: approve_row_def AlumniRequestStatusApproved_def AlumniRequestStatusPending_def)
  moreover have "db_users db' = db_users db @ [u]" using cu(1) by (simp add: db' update_ticket_def)
  ultimately show ?thesis using req free reviewed_refused[OF found] by auto
qed

section \<open>Witnesses\<close>

definition sample_ticket :: alumni_request where
  "sample_ticket = \<lparr>al_ID = 4, al_Name = ''n'', al_StudentID = ''b10010101'', al_LoginEmail = ''old@sast.fun'',
     al_PersonalEmail = ''n@a.b'', al_PhoneNumber = ''1'', al_QQNumber = ''2'', al_College = ''c'', al_Major = ''m'',
     al_JoinYear = ''2010'', al_DepartmentNote = [], al_Note = [], al_Intent = AlumniRequestIntentProvision,
     al_Status = AlumniRequestStatusPending, al_RejectReason = [], al_CreatedUserID = None, al_ReviewedBy = None,
     al_ReviewedAt = None, al_NotifiedAt = None, al_SilentlyRejected = False, al_NotifyAttempts = 0, al_SubmitterIP = [],
     al_CreatedAt = 100\<rparr>"

definition ticket_store :: database where
  "ticket_store = sample_store\<lparr>db_alumni := [sample_ticket]\<rparr>"

definition sample_provision :: alumni_provision where
  "sample_provision a = Inr (Some (sample_user\<lparr>us_StudentID := al_StudentID a, us_LoginEmail := al_LoginEmail a\<rparr>),
     Some (blank_profile 0), None)"

theorem alumni_verdict_final_witness:
  "al_Status (hd (db_alumni (snd (RejectAlumniRequest no_fault 4 7 ''late'' False 300
      (ticket_store\<lparr>db_alumni := [sample_ticket\<lparr>al_Status := AlumniRequestStatusApproved\<rparr>]\<rparr>)))))
   = AlumniRequestStatusApproved"
proof -
  let ?a = "sample_ticket\<lparr>al_Status := AlumniRequestStatusApproved\<rparr>"
  let ?db = "ticket_store\<lparr>db_alumni := [?a]\<rparr>"
  let ?db' = "snd (RejectAlumniRequest no_fault 4 7 ''late'' False 300 ?db)"
  have run: "store_step\<^sup>*\<^sup>* ?db ?db'" using store_step.ticket_reject ..
  have "?db' = ?db"
    by (rule reviewed_refused(5)[of _ _ ?a])
      (simp_all add: find_ticket_def sample_ticket_def AlumniRequestStatusApproved_def AlumniRequestStatusPending_def)
  then have "hd (db_alumni ?db') \<in> set (db_alumni ?db')" "al_ID (hd (db_alumni ?db')) = al_ID ?a" by simp_all
  then show ?thesis
    using alumni_verdict_final[OF run, of ?a "hd (db_alumni ?db')"]
    by (simp add: sample_ticket_def ticket_store_def sample_defs AlumniRequestStatusApproved_def AlumniRequestStatusPending_def)
qed

lemma sample_approval:
  "\<exists>a u db'. ApproveAlumniRequest no_fault (\<lambda>r. r) (\<lambda>s. s) 4 7 300 (Some sample_provision) ticket_store = (Inr (a, u), db')"
proof -
  have t: "TrimSpace ''b10010101'' = ''b10010101''" "TrimSpace ''old@sast.fun'' = ''old@sast.fun''"
    by (simp_all add: TrimSpace_eq_iff trimmed_graphic graphic_ascii_def byte_def)
  have l: "ToLower (\<lambda>r. r) ''b10010101'' = ''b10010101''" "ToLower (\<lambda>r. r) ''old@sast.fun'' = ''old@sast.fun''"
    by (simp_all add: ToLower_def lower_byte_def byte_def)
  have p: "UnmatchedNjuptPrefix (\<lambda>r. r) ''old@sast.fun'' [] = ([], False)"
    by (simp add: UnmatchedNjuptPrefix_def IsNjuptEmailDomain_def HasSuffix_def njuptEmailDomain_def)
  show ?thesis
    by (simp add: ApproveAlumniRequest_def transaction_no_fault approveBody_def lockIdentityAssignment_def lockPendingRequest_def
        find_ticket_def ticket_store_def sample_ticket_def sample_provision_def createAdminUserInTransaction_def
        createUserAndProfile_def guardNewUserAssignment_def guardIdentityAssignment_def t l p insert_user_def insert_profile_def
        createIdentityFor_def writeApprovalVerdict_def reread_ticket_def update_ticket_def update_where_def rows_affected_def
        student_id_taken_def user_conflict_def bound_as_mail_def email_type_of_def HasSuffix_def folded_def btrim_def
        user_exists_def sample_defs blank_profile_def approve_row_def or_default_def Let_def)
qed

theorem alumni_approved_once_witness:
  "\<exists>u db'. db_users db' = [sample_user, u] \<and> snd (RejectAlumniRequest no_fault 4 7 ''late'' False 400 db') = db'"
proof -
  obtain a u db' where "ApproveAlumniRequest no_fault (\<lambda>r. r) (\<lambda>s. s) 4 7 300 (Some sample_provision) ticket_store = (Inr (a, u), db')"
    using sample_approval by blast
  from alumni_approved_once[OF this, of no_fault "\<lambda>r. r" "\<lambda>s. s" 7 400 None "''late''" False]
  show ?thesis by (auto simp: ticket_store_def sample_store_def)
qed

end
