(* ===== verification/Retention_Worker.thy ===== *)
theory Retention_Worker
  imports Service_Base
begin

text \<open>
  \<open>internal/worker/retention.go\<close>: one tick of the retention worker over every table, with its pass cap,
  its early exits and the position of the derived-state sweep. Each pass is one call, so other requests
  run between the passes (\<open>ev_Between\<close>); \<open>cancelled\<close> tells at which site the context is found cancelled,
  \<open>pick\<close> which of the matching rows a batch takes there. The outcome of the advisory lock is an argument.
  Avatars handed to the object store are the output of a tick.
\<close>

section \<open>The worker\<close>

definition defaultRetentionInterval :: duration where "defaultRetentionInterval = Hour"
definition defaultRetentionBatchSize :: int where "defaultRetentionBatchSize = 1000"
definition maxRetentionPasses :: nat where "maxRetentionPasses = 20"
definition maxDerivedStateFailures :: int where "maxDerivedStateFailures = 3"

record retention_worker =
  rw_Interval :: duration
  rw_BatchSize :: int
  rw_AuthorizationAge :: duration
  rw_AccessTokenAge :: duration
  rw_RefreshTokenAge :: duration
  rw_AuditLogAge :: duration
  rw_AlumniRequestAge :: duration
  rw_DeletedUserAge :: duration
  rw_AvatarStore :: bool
  rw_derivedFailures :: int
  rw_DerivedStateCursor :: "int option"

datatype retention_error = NonPositiveWindow | NegativeDeletedUserAge | NegativeIntervalOrBatch

definition validate_worker :: "retention_worker \<Rightarrow> retention_error option" where
  "validate_worker w =
    (if rw_AuthorizationAge w \<le> 0 \<or> rw_AccessTokenAge w \<le> 0 \<or> rw_RefreshTokenAge w \<le> 0 \<or> rw_AuditLogAge w \<le> 0
        \<or> rw_AlumniRequestAge w \<le> 0 then Some NonPositiveWindow
     else if rw_DeletedUserAge w < 0 then Some NegativeDeletedUserAge
     else if rw_Interval w < 0 \<or> rw_BatchSize w < 0 then Some NegativeIntervalOrBatch
     else None)"

definition worker_batchSize :: "retention_worker \<Rightarrow> int" where
  "worker_batchSize w = (if 0 < rw_BatchSize w then rw_BatchSize w else defaultRetentionBatchSize)"

definition rememberDerivedStateCursor :: "int \<Rightarrow> retention_worker \<Rightarrow> retention_worker" where
  "rememberDerivedStateCursor cursor w =
    (case rw_DerivedStateCursor w of None \<Rightarrow> w | Some _ \<Rightarrow> w\<lparr>rw_DerivedStateCursor := Some cursor\<rparr>)"

section \<open>The loops\<close>

type_synonym row_picker = "site \<Rightarrow> nat \<Rightarrow> int list \<Rightarrow> int list"
type_synonym batch_delete = "site \<Rightarrow> fault \<Rightarrow> database \<Rightarrow> (repo_error + nat) \<times> database"

text \<open>The site of a pass: the table and how many passes are left.\<close>

definition pass_site :: "string \<Rightarrow> nat \<Rightarrow> site" where
  "pass_site table left = table @ '' '' @ decimal_nat left"

fun drain :: "env \<Rightarrow> (site \<Rightarrow> bool) \<Rightarrow> string \<Rightarrow> int \<Rightarrow> batch_delete \<Rightarrow> nat \<Rightarrow> unit action" where
  "drain ev cancelled table batch remove 0 = State_Monad.return ()"
| "drain ev cancelled table batch remove (Suc left) =
    (let site = pass_site table (Suc left) in
     if cancelled site then State_Monad.return ()
     else do {
       r \<leftarrow> db_write ev site (remove site);
       case r of
         Inl _ \<Rightarrow> State_Monad.return ()
       | Inr removed \<Rightarrow>
           if int removed < batch then State_Monad.return () else drain ev cancelled table batch remove left })"

definition avatars :: "retention_worker \<Rightarrow> (int \<times> string option) list \<Rightarrow> string list" where
  "avatars w purged = (if rw_AvatarStore w then List.map_filter snd purged else [])"

text \<open>The result lists the avatar objects whose removal was requested.\<close>

fun purgeDeletedUsers ::
    "env \<Rightarrow> (site \<Rightarrow> bool) \<Rightarrow> (site \<Rightarrow> user \<Rightarrow> bool) \<Rightarrow> retention_worker \<Rightarrow> instant \<Rightarrow> nat \<Rightarrow> string list action" where
  "purgeDeletedUsers ev cancelled skip w now 0 = State_Monad.return []"
| "purgeDeletedUsers ev cancelled skip w now (Suc left) =
    (let site = pass_site ''users'' (Suc left) in
     if cancelled site then State_Monad.return []
     else do {
       r \<leftarrow> db_write ev site (\<lambda>flt db. PurgeDeletedUsers flt (skip site) (now - rw_DeletedUserAge w) now (worker_batchSize w) db);
       case r of
         Inl _ \<Rightarrow> State_Monad.return []
       | Inr purged \<Rightarrow>
           if int (length purged) < worker_batchSize w then State_Monad.return (avatars w purged)
           else do {
             rest \<leftarrow> purgeDeletedUsers ev cancelled skip w now left;
             State_Monad.return (avatars w purged @ rest) } })"

text \<open>The derived-state sweep; the result is the position to remember and the failure count.\<close>

fun recompute_passes ::
    "env \<Rightarrow> (site \<Rightarrow> bool) \<Rightarrow> (rune \<Rightarrow> bool) \<Rightarrow> instant \<Rightarrow> int \<Rightarrow> int \<Rightarrow> int \<Rightarrow> nat \<Rightarrow> (int \<times> int) action" where
  "recompute_passes ev cancelled ext now batch failures cursor 0 = State_Monad.return (cursor, failures)"
| "recompute_passes ev cancelled ext now batch failures cursor (Suc left) =
    (let site = pass_site ''derived state'' (Suc left) in
     if cancelled site then State_Monad.return (cursor, failures)
     else do {
       r \<leftarrow> db_write ev site (\<lambda>flt db. RecomputeDerivedState flt ext cursor now batch db);
       case r of
         Inl _ \<Rightarrow>
           State_Monad.return
            (if cancelled (site @ '' failed'') then (cursor, failures)
             else if maxDerivedStateFailures \<le> failures + 1 then (0, 0)
             else (cursor, failures + 1))
       | Inr position \<Rightarrow>
           if position = 0 then State_Monad.return (0, 0)
           else recompute_passes ev cancelled ext now batch 0 position left })"

definition sweep_targets :: "row_picker \<Rightarrow> retention_worker \<Rightarrow> instant \<Rightarrow> (string \<times> batch_delete) list" where
  "sweep_targets pick w now =
    (let b = worker_batchSize w in
     [(''oauth_authorizations'', \<lambda>site flt db. DeleteExpiredAuthorizations flt (pick site) (now - rw_AuthorizationAge w) b db),
      (''oauth_access_tokens'', \<lambda>site flt db. DeleteExpiredAccessTokens flt (pick site) (now - rw_AccessTokenAge w) b db),
      (''oauth_refresh_tokens'', \<lambda>site flt db. DeleteRevokedRefreshTokens flt (pick site) (now - rw_RefreshTokenAge w) b db),
      (''audit_logs'', \<lambda>site flt db. DeleteExpiredAuditLogs flt (pick site) (now - rw_AuditLogAge w) b db),
      (''alumni_requests'', \<lambda>site flt db. DeleteExpiredAlumniRequests flt (pick site) (now - rw_AlumniRequestAge w) b db)])"

text \<open>The targets in order; false when the context was found cancelled between them.\<close>

fun drain_targets :: "env \<Rightarrow> (site \<Rightarrow> bool) \<Rightarrow> int \<Rightarrow> (string \<times> batch_delete) list \<Rightarrow> bool action" where
  "drain_targets ev cancelled batch [] = State_Monad.return True"
| "drain_targets ev cancelled batch ((table, remove) # ts) =
    (if cancelled table then State_Monad.return False
     else do { _ \<leftarrow> drain ev cancelled table batch remove maxRetentionPasses; drain_targets ev cancelled batch ts })"

definition retention_sweep ::
    "env \<Rightarrow> (site \<Rightarrow> bool) \<Rightarrow> row_picker \<Rightarrow> (site \<Rightarrow> user \<Rightarrow> bool) \<Rightarrow> (rune \<Rightarrow> bool) \<Rightarrow> (repo_error + bool) \<Rightarrow> retention_worker
      \<Rightarrow> (retention_worker \<times> string list) action" where
  "retention_sweep ev cancelled pick skip ext acquired w =
    (case acquired of
       Inl _ \<Rightarrow> State_Monad.return (w, [])
     | Inr False \<Rightarrow> State_Monad.return (w, [])
     | Inr True \<Rightarrow>
         let now = ev_Now ev ''sweep'' in do {
           live \<leftarrow> drain_targets ev cancelled (worker_batchSize w) (sweep_targets pick w now);
           if \<not> live then State_Monad.return (w, [])
           else do {
             objects \<leftarrow> (if 0 < rw_DeletedUserAge w then purgeDeletedUsers ev cancelled skip w now maxRetentionPasses
                        else State_Monad.return []);
             outcome \<leftarrow> recompute_passes ev cancelled ext now (worker_batchSize w) (rw_derivedFailures w)
                (case rw_DerivedStateCursor w of None \<Rightarrow> 0 | Some c \<Rightarrow> c) maxRetentionPasses;
             State_Monad.return (rememberDerivedStateCursor (fst outcome) (w\<lparr>rw_derivedFailures := snd outcome\<rparr>), objects) } })"

section \<open>The ticker\<close>

text \<open>What one firing of the ticker meets: its environment, where its context is cancelled, the rows its batches
  take and leave locked, and the outcome of the advisory lock.\<close>

record retention_tick =
  tk_Env :: env
  tk_Cancelled :: "site \<Rightarrow> bool"
  tk_Pick :: row_picker
  tk_Skip :: "site \<Rightarrow> user \<Rightarrow> bool"
  tk_Acquired :: "repo_error + bool"

fun retention_ticks :: "(rune \<Rightarrow> bool) \<Rightarrow> retention_tick list \<Rightarrow> retention_worker \<Rightarrow> retention_worker action" where
  "retention_ticks ext [] w = State_Monad.return w"
| "retention_ticks ext (t # ts) w = do {
     r \<leftarrow> retention_sweep (tk_Env t) (tk_Cancelled t) (tk_Pick t) (tk_Skip t) ext (tk_Acquired t) w;
     retention_ticks ext ts (fst r) }"

text \<open>\<open>Run\<close> sweeps once at its start and then at every firing; the list ends where the context does.\<close>

definition retention_Run ::
    "(rune \<Rightarrow> bool) \<Rightarrow> retention_tick \<Rightarrow> retention_tick list \<Rightarrow> retention_worker \<Rightarrow> (retention_error + retention_worker) action" where
  "retention_Run ext first ticks w =
    (case validate_worker w of
       Some e \<Rightarrow> err e
     | None \<Rightarrow> do {
         r \<leftarrow> retention_sweep (tk_Env first) (tk_Cancelled first) (tk_Pick first) (tk_Skip first) ext (tk_Acquired first) w;
         w' \<leftarrow> retention_ticks ext ticks (fst r);
         ok w' })"

end
