(* ===== verification/Retention_Worker_Properties.thy ===== *)
theory Retention_Worker_Properties
  imports Retention_Worker Service_Samples
begin

text \<open>
  The retention worker: a tick moves the store by its own steps only, and the derived-state sweep gets to
  the end of the table in finitely many ticks, however large the table is.
\<close>

section \<open>A tick moves the store by its own steps\<close>

definition moves :: "world \<Rightarrow> world \<Rightarrow> bool" where
  "moves w w' \<longleftrightarrow> store_step\<^sup>*\<^sup>* (wd_db w) (wd_db w')"

lemma moves_return: "state_io_rel moves (State_Monad.return x)"
  by (simp add: moves_def)

lemma moves_bind:
  "state_io_rel moves m \<Longrightarrow> (\<And>x. state_io_rel moves (k x)) \<Longrightarrow> state_io_rel moves (State_Monad.bind m k)"
  by (rule io_rel_bind) (auto simp: moves_def)

lemma moves_db_write:
  assumes "\<And>site w. moves w (ev_Between ev site w)" "\<And>flt db. store_step\<^sup>*\<^sup>* db (snd (f flt db))"
  shows "state_io_rel moves (db_write ev site f)"
proof (rule state_io_relI)
  fix x w w'
  assume "run_state (db_write ev site f) w = (x, w')"
  then have "wd_db w' = snd (f (ev_Fault ev site) (wd_db (ev_Between ev site w)))"
    by (auto simp: db_write_def Let_def split: prod.splits)
  then show "moves w w'" using assms(1)[of w site] assms(2) unfolding moves_def by (metis rtranclp_trans)
qed

lemma moves_drain:
  assumes "\<And>site w. moves w (ev_Between ev site w)" "\<And>site flt db. store_step\<^sup>*\<^sup>* db (snd (remove site flt db))"
  shows "state_io_rel moves (drain ev cancelled table batch remove left)"
  by (induction left) (auto simp: Let_def moves_return split: sum.split intro!: moves_bind moves_db_write assms)

lemma moves_drain_targets:
  assumes "\<And>site w. moves w (ev_Between ev site w)"
    "\<And>t site flt db. t \<in> set targets \<Longrightarrow> store_step\<^sup>*\<^sup>* db (snd (snd t site flt db))"
  shows "state_io_rel moves (drain_targets ev cancelled batch targets)"
  using assms(2)
proof (induction targets)
  case (Cons t ts)
  obtain table remove where t: "t = (table, remove)" by (cases t)
  have "state_io_rel moves (drain ev cancelled table batch remove maxRetentionPasses)"
    using Cons.prems[of t] t by (intro moves_drain assms(1)) simp
  then show ?case using Cons t by (auto simp: moves_return intro!: moves_bind)
qed (simp add: moves_return)

lemma moves_purge:
  assumes "\<And>site w. moves w (ev_Between ev site w)"
  shows "state_io_rel moves (purgeDeletedUsers ev cancelled skip w now left)"
  by (induction left) (auto simp: Let_def moves_return split: sum.split
      intro!: moves_bind moves_db_write assms store_step.purge r_into_rtranclp)

lemma moves_recompute:
  assumes "\<And>site w. moves w (ev_Between ev site w)"
  shows "state_io_rel moves (recompute_passes ev cancelled ext now batch failures cursor left)"
  by (induction left arbitrary: failures cursor) (auto simp: Let_def moves_return split: sum.split
      intro!: moves_bind moves_db_write assms store_step.recompute r_into_rtranclp)

lemma moves_sweep:
  assumes "\<And>site w. moves w (ev_Between ev site w)"
  shows "state_io_rel moves (retention_sweep ev cancelled pick skip ext acquired worker)"
proof -
  have "store_step\<^sup>*\<^sup>* db (snd (snd t site flt db))" if "t \<in> set (sweep_targets pick worker now)" for t site flt db now
    using that by (auto simp: sweep_targets_def Let_def intro!: r_into_rtranclp intro: store_step.intros)
  then show ?thesis unfolding retention_sweep_def Let_def
    by (auto intro!: moves_bind moves_drain_targets moves_purge moves_recompute assms simp: moves_return split: sum.split bool.split)
qed

text \<open>Whatever other requests do between its passes, and wherever it is cancelled or fails, a tick of the
  retention worker moves the store only by steps of the store system, so every invariant holds after it.\<close>

theorem retention_tick_keeps_invariants:
  assumes "\<And>site w. store_step\<^sup>*\<^sup>* (wd_db w) (wd_db (ev_Between ev site w))"
    and "token_inv (wd_db w)" "consent_inv (wd_db w)" "outbox_inv (wd_db w)" "account_inv (wd_db w)" "administered (wd_db w)"
  shows "let db' = wd_db (snd (run_state (retention_sweep ev cancelled pick skip ext acquired worker) w)) in
    token_inv db' \<and> consent_inv db' \<and> outbox_inv db' \<and> account_inv db' \<and> administered db'"
proof -
  have "state_io_rel moves (retention_sweep ev cancelled pick skip ext acquired worker)"
    by (rule moves_sweep) (simp add: moves_def assms(1))
  then have "store_step\<^sup>*\<^sup>* (wd_db w) (wd_db (snd (run_state (retention_sweep ev cancelled pick skip ext acquired worker) w)))"
    by (simp add: state_io_rel_def moves_def)
  then show ?thesis unfolding Let_def
    using assms(2-6) tokens_sys.reachable consents_sys.reachable outbox_sys.reachable accounts_sys.reachable
      admins_sys.reachable by blast
qed

section \<open>The derived-state sweep ends\<close>

text \<open>The accounts the sweep has still to visit.\<close>

definition pending_accounts :: "int \<Rightarrow> database \<Rightarrow> user list" where
  "pending_accounts cursor db = filter (\<lambda>u. unpinned u \<and> cursor < us_ID u) (db_users db)"

lemma recompute_rows_pending:
  "recompute_rows cursor b db = take (nat b) (sort_key us_ID (pending_accounts cursor db))"
  by (simp add: recompute_rows_def pending_accounts_def unpinned_def conj_assoc)

lemma filter_after_last:
  fixes f :: "'a \<Rightarrow> 'b::linorder"
  assumes "sorted_wrt (<) (map f xs)" "0 < b" "b \<le> length xs"
  shows "filter (\<lambda>x. f (last (take b xs)) < f x) xs = drop b xs"
proof -
  let ?l = "last (take b xs)"
  have ne: "take b xs \<noteq> []" using assms by (cases xs) auto
  have split: "sorted_wrt (<) (map f (take b xs) @ map f (drop b xs))" using assms(1) by (simp flip: map_append)
  have "f x \<le> f ?l" if "x \<in> set (take b xs)" for x
  proof -
    have "sorted (map f (take b xs))" using split by (auto simp: sorted_wrt_append intro: sorted_wrt_mono_rel[rotated])
    then show ?thesis using that by (rule sorted_map_last)
  qed
  moreover have "f ?l < f x" if "x \<in> set (drop b xs)" for x
    using split ne that by (auto simp: sorted_wrt_append)
  ultimately have "filter (\<lambda>x. f ?l < f x) (take b xs) = []" "filter (\<lambda>x. f ?l < f x) (drop b xs) = drop b xs"
    by (auto simp: filter_empty_conv not_less)
  then show ?thesis by (metis append_Nil append_take_drop_id filter_append)
qed

lemma recalibrated_keys [simp]:
  "us_ID (recalibrated ext now u) = us_ID u" "us_StateManual (recalibrated ext now u) = us_StateManual u"
  by (simp_all add: recalibrated_def split: option.split)

lemma unpinned_recalibrated: "unpinned u \<Longrightarrow> unpinned (recalibrated ext now u)"
  using DeriveState_not_deleted[of ext "us_Role u" "us_StudentID u" now]
  by (auto simp: unpinned_def recalibrated_def split: option.split)

text \<open>One full batch: the cursor moves to the last account visited, which leaves the pending list shorter by
  the size of the batch.\<close>

definition recalibrate_between :: "(rune \<Rightarrow> bool) \<Rightarrow> instant \<Rightarrow> int \<Rightarrow> int \<Rightarrow> database \<Rightarrow> database" where
  "recalibrate_between ext now c c' db =
     db\<lparr>db_users := map (\<lambda>u. if unpinned u \<and> c < us_ID u \<and> us_ID u \<le> c' then recalibrated ext now u else u) (db_users db)\<rparr>"

definition recalibrate_after :: "(rune \<Rightarrow> bool) \<Rightarrow> instant \<Rightarrow> int \<Rightarrow> database \<Rightarrow> database" where
  "recalibrate_after ext now c db =
     db\<lparr>db_users := map (\<lambda>u. if unpinned u \<and> c < us_ID u then recalibrated ext now u else u) (db_users db)\<rparr>"

lemma set_sort_pending: "set (sort_key us_ID (pending_accounts c db)) = set (pending_accounts c db)" by simp

lemma strictly_sorted_pending:
  assumes "distinct (map us_ID (db_users db))"
  shows "sorted_wrt (<) (map us_ID (sort_key us_ID (pending_accounts c db)))"
proof -
  have "distinct (map us_ID (pending_accounts c db))"
    unfolding pending_accounts_def using assms by (rule distinct_map_filter)
  then have "distinct (map us_ID (sort_key us_ID (pending_accounts c db)))" by (metis distinct_map distinct_sort set_sort)
  then show ?thesis by (simp add: strict_sorted_iff)
qed

lemma full_batch:
  assumes ids: "distinct (map us_ID (db_users db))" and b: "0 < b" "nat b \<le> length (pending_accounts c db)"
  obtains c' where "c < c'" "RecomputeDerivedState no_fault ext c now b db = (Inr c', recalibrate_between ext now c c' db)"
    "length (pending_accounts c' db) = length (pending_accounts c db) - nat b"
proof -
  let ?xs = "sort_key us_ID (pending_accounts c db)"
  let ?rows = "recompute_rows c b db"
  let ?c' = "us_ID (last ?rows)"
  have rows: "?rows = take (nat b) ?xs" by (rule recompute_rows_pending)
  have len: "length ?rows = nat b" using b by (simp add: rows)
  have after: "filter (\<lambda>u. ?c' < us_ID u) ?xs = drop (nat b) ?xs"
    unfolding rows by (rule filter_after_last[OF strictly_sorted_pending[OF ids]]) (use b in simp_all)
  note batch = RecomputeDerivedState_batch[OF ids b(1), of c ext now, unfolded Let_def]
  have visited: "unpinned u \<and> c < us_ID u \<and> us_ID u \<le> ?c'" if "u \<in> set ?rows" for u using batch that by blast
  have "?rows \<noteq> []" using len b(1) by (cases "?rows = []") simp_all
  then have c: "c < ?c'" using visited last_in_set by blast
  have "u \<in> set ?rows \<longleftrightarrow> unpinned u \<and> c < us_ID u \<and> us_ID u \<le> ?c'" if "u \<in> set (db_users db)" for u
  proof
    assume "u \<in> set ?rows"
    then show "unpinned u \<and> c < us_ID u \<and> us_ID u \<le> ?c'" by (rule visited)
  next
    assume u: "unpinned u \<and> c < us_ID u \<and> us_ID u \<le> ?c'"
    then have "u \<in> set ?xs" using that by (simp add: pending_accounts_def)
    moreover have "u \<notin> set (drop (nat b) ?xs)" using u by (simp flip: after)
    ultimately show "u \<in> set ?rows" unfolding rows by (metis Un_iff append_take_drop_id set_append)
  qed
  then have "map (\<lambda>u. if u \<in> set ?rows then recalibrated ext now u else u) (db_users db)
      = map (\<lambda>u. if unpinned u \<and> c < us_ID u \<and> us_ID u \<le> ?c' then recalibrated ext now u else u) (db_users db)"
    by (intro map_cong) auto
  then have "RecomputeDerivedState no_fault ext c now b db = (Inr ?c', recalibrate_between ext now c ?c' db)"
    using conjunct1[OF batch] len b(1) by (simp add: recalibrate_between_def)
  moreover have "length (pending_accounts ?c' db) = length (filter (\<lambda>u. ?c' < us_ID u) ?xs)"
  proof -
    have "pending_accounts ?c' db = filter (\<lambda>u. ?c' < us_ID u) (pending_accounts c db)"
      using c by (auto simp: pending_accounts_def intro!: filter_cong)
    then show ?thesis by (simp add: filter_sort)
  qed
  ultimately show thesis using that c after by simp
qed

lemma short_batch:
  assumes ids: "distinct (map us_ID (db_users db))" and b: "0 < b" "length (pending_accounts c db) < nat b"
  shows "RecomputeDerivedState no_fault ext c now b db = (Inr 0, recalibrate_after ext now c db)"
proof -
  have rows: "recompute_rows c b db = sort_key us_ID (pending_accounts c db)" using b by (simp add: recompute_rows_pending)
  have "map (\<lambda>u. if u \<in> set (recompute_rows c b db) then recalibrated ext now u else u) (db_users db)
      = map (\<lambda>u. if unpinned u \<and> c < us_ID u then recalibrated ext now u else u) (db_users db)"
    by (intro map_cong) (auto simp: rows pending_accounts_def)
  moreover have "int (length (recompute_rows c b db)) < b" using b by (simp add: rows)
  ultimately show ?thesis
    using RecomputeDerivedState_batch[OF ids b(1), of c ext now] by (simp add: Let_def recalibrate_after_def)
qed

lemma recalibrate_between_frame:
  assumes "c \<le> c'" "c' \<le> d"
  shows "map us_ID (db_users (recalibrate_between ext now c c' db)) = map us_ID (db_users db)"
    "pending_accounts d (recalibrate_between ext now c c' db) = pending_accounts d db"
    "recalibrate_after ext now c' (recalibrate_between ext now c c' db) = recalibrate_after ext now c db"
    "recalibrate_between ext now c' d (recalibrate_between ext now c c' db) = recalibrate_between ext now c d db"
proof -
  show "map us_ID (db_users (recalibrate_between ext now c c' db)) = map us_ID (db_users db)"
    by (simp add: recalibrate_between_def)
  have "filter P (map g rows) = filter P rows" if "\<And>u. g u = u \<or> \<not> P u \<and> \<not> P (g u)" for P g and rows :: "user list"
  proof (induction rows)
    case (Cons u rows)
    then show ?case using that[of u] by auto
  qed simp
  from this[of "\<lambda>u. if unpinned u \<and> c < us_ID u \<and> us_ID u \<le> c' then recalibrated ext now u else u"
      "\<lambda>u. unpinned u \<and> d < us_ID u"]
  show "pending_accounts d (recalibrate_between ext now c c' db) = pending_accounts d db"
    unfolding pending_accounts_def recalibrate_between_def using assms by auto
  have f: "(if unpinned v \<and> c' < us_ID v then recalibrated ext now v else v) = (if unpinned u \<and> c < us_ID u then recalibrated ext now u else u)"
    if "v = (if unpinned u \<and> c < us_ID u \<and> us_ID u \<le> c' then recalibrated ext now u else u)" for u v
    using that assms by (cases "unpinned u \<and> c < us_ID u \<and> us_ID u \<le> c'") auto
  then show "recalibrate_after ext now c' (recalibrate_between ext now c c' db) = recalibrate_after ext now c db"
    unfolding recalibrate_after_def recalibrate_between_def by simp
  have "(if unpinned v \<and> c' < us_ID v \<and> us_ID v \<le> d then recalibrated ext now v else v)
      = (if unpinned u \<and> c < us_ID u \<and> us_ID u \<le> d then recalibrated ext now u else u)"
    if "v = (if unpinned u \<and> c < us_ID u \<and> us_ID u \<le> c' then recalibrated ext now u else u)" for u v
    using that assms by (cases "unpinned u \<and> c < us_ID u \<and> us_ID u \<le> c'") auto
  then show "recalibrate_between ext now c' d (recalibrate_between ext now c c' db) = recalibrate_between ext now c d db"
    unfolding recalibrate_between_def by simp
qed

section \<open>Quiet ticks\<close>

text \<open>A tick during which nothing else runs, fails or cancels.\<close>

definition calm :: "env \<Rightarrow> (site \<Rightarrow> bool) \<Rightarrow> bool" where
  "calm ev cancelled \<longleftrightarrow>
     (\<forall>site. ev_Between ev site = (\<lambda>w. w) \<and> ev_Fault ev site = no_fault \<and> \<not> cancelled site)"

lemma recompute_passes_run:
  assumes quiet: "calm ev cancelled" and ids: "distinct (map us_ID (db_users (wd_db w)))"
    and b: "0 < b" and c: "0 \<le> c"
  shows "\<exists>c' f'. (run_state (recompute_passes ev cancelled ext now b failures c left) w =
      ((c', f'), w\<lparr>wd_db := (if length (pending_accounts c (wd_db w)) < left * nat b then recalibrate_after ext now c (wd_db w)
          else recalibrate_between ext now c c' (wd_db w))\<rparr>)) \<and>
      (if length (pending_accounts c (wd_db w)) < left * nat b then c' = 0
       else c \<le> c' \<and> (0 < left \<longrightarrow> c < c') \<and>
         length (pending_accounts c' (wd_db w)) = length (pending_accounts c (wd_db w)) - left * nat b)"
  using ids c
proof (induction left arbitrary: failures c w)
  case 0
  have "recalibrate_between ext now c c (wd_db w) = wd_db w"
    unfolding recalibrate_between_def by (cases "wd_db w") (auto intro!: map_idI)
  then show ?case by simp
next
  case (Suc left)
  let ?db = "wd_db w" and ?p = "length (pending_accounts c (wd_db w))"
  have step: "run_state (recompute_passes ev cancelled ext now b failures c (Suc left)) w =
      (case RecomputeDerivedState no_fault ext c now b ?db of
         (Inl _, db') \<Rightarrow> (if maxDerivedStateFailures \<le> failures + 1 then (0, 0) else (c, failures + 1), w\<lparr>wd_db := db'\<rparr>)
       | (Inr position, db') \<Rightarrow>
           if position = 0 then ((0, 0), w\<lparr>wd_db := db'\<rparr>)
           else run_state (recompute_passes ev cancelled ext now b 0 position left) (w\<lparr>wd_db := db'\<rparr>))"
    using quiet by (auto simp: calm_def Let_def db_write_def split: prod.splits sum.splits)
  show ?case
  proof (cases "?p < nat b")
    case True
    then have "?p < Suc left * nat b" by simp
    then show ?thesis using True unfolding step short_batch[OF Suc.prems(1) b True] by auto
  next
    case False
    then have le: "nat b \<le> ?p" by simp
    obtain c1 where c1: "c < c1" "RecomputeDerivedState no_fault ext c now b ?db = (Inr c1, recalibrate_between ext now c c1 ?db)"
      "length (pending_accounts c1 ?db) = ?p - nat b"
      using full_batch[OF Suc.prems(1) b le, of ext now] by metis
    let ?w1 = "w\<lparr>wd_db := recalibrate_between ext now c c1 ?db\<rparr>"
    have frame: "map us_ID (db_users (wd_db ?w1)) = map us_ID (db_users ?db)" "pending_accounts c1 (wd_db ?w1) = pending_accounts c1 ?db"
      using recalibrate_between_frame(1,2)[of c c1 c1] c1(1) by simp_all
    have run: "run_state (recompute_passes ev cancelled ext now b failures c (Suc left)) w =
        run_state (recompute_passes ev cancelled ext now b 0 c1 left) ?w1"
      unfolding step c1(2) using c1(1) Suc.prems(2) by simp
    have "distinct (map us_ID (db_users (wd_db ?w1)))" "0 \<le> c1" using Suc.prems c1(1) frame(1) by auto
    from Suc.IH[OF this] obtain c' f' where ih:
      "run_state (recompute_passes ev cancelled ext now b 0 c1 left) ?w1 =
        ((c', f'), ?w1\<lparr>wd_db := (if length (pending_accounts c1 ?db) < left * nat b then recalibrate_after ext now c1 (wd_db ?w1)
          else recalibrate_between ext now c1 c' (wd_db ?w1))\<rparr>)"
      "if length (pending_accounts c1 ?db) < left * nat b then c' = 0
       else c1 \<le> c' \<and> (0 < left \<longrightarrow> c1 < c') \<and>
         length (pending_accounts c' (wd_db ?w1)) = length (pending_accounts c1 ?db) - left * nat b"
      unfolding frame(2) by blast
    have same: "length (pending_accounts c1 ?db) < left * nat b \<longleftrightarrow> ?p < Suc left * nat b" using le c1(3) by auto
    show ?thesis
    proof (cases "?p < Suc left * nat b")
      case True
      then have "recalibrate_after ext now c1 (wd_db ?w1) = recalibrate_after ext now c ?db"
        using recalibrate_between_frame(3)[of c c1 c1] c1(1) by simp
      then show ?thesis using ih True same unfolding run by simp
    next
      case f: False
      then have c': "c1 \<le> c'" using ih(2) same by simp
      have "recalibrate_between ext now c1 c' (wd_db ?w1) = recalibrate_between ext now c c' ?db"
        "pending_accounts c' (wd_db ?w1) = pending_accounts c' ?db"
        using recalibrate_between_frame(2,4)[of c c1 c'] c1(1) c' by simp_all
      then show ?thesis using ih f same c1 c' unfolding run by simp
    qed
  qed
qed

section \<open>Rounds over the table\<close>

text \<open>What the deletions of a tick leave alone: the accounts whose state is derived.\<close>

definition derived_rows :: "database \<Rightarrow> user list" where
  "derived_rows db = filter unpinned (db_users db)"

lemma pending_derived: "pending_accounts c db = filter (\<lambda>u. c < us_ID u) (derived_rows db)"
  by (simp add: pending_accounts_def derived_rows_def conj_commute)

lemma sweep_target_users:
  assumes "t \<in> set (sweep_targets pick worker now)"
  shows "db_users (snd (snd t site flt db)) = db_users db"
proof -
  have rows: "db_users (snd (commit_rows r (\<lambda>rows. put rows db) db)) = db_users db"
    if "\<And>rows. db_users (put rows db) = db_users db" for r and put :: "'r list \<Rightarrow> database \<Rightarrow> database"
    using that by (auto simp: commit_rows_def split: sum.split prod.split)
  show ?thesis using assms
    by (auto simp: sweep_targets_def Let_def DeleteExpiredAuthorizations_def DeleteExpiredAccessTokens_def DeleteRevokedRefreshTokens_def
        DeleteExpiredAuditLogs_def DeleteExpiredAlumniRequests_def rows commit_rows_def split: sum.split prod.split)
qed

lemma drain_users:
  assumes "calm ev cancelled" "\<And>site flt db. db_users (snd (remove site flt db)) = db_users db"
  shows "db_users (wd_db (snd (run_state (drain ev cancelled table batch remove left) w))) = db_users (wd_db w)"
  using assms by (induction left arbitrary: w) (auto simp: calm_def Let_def db_write_def split_beta split: sum.split)

lemma drain_targets_users:
  assumes "calm ev cancelled" "\<And>t site flt db. t \<in> set targets \<Longrightarrow> db_users (snd (snd t site flt db)) = db_users db"
  shows "fst (run_state (drain_targets ev cancelled batch targets) w)
    \<and> db_users (wd_db (snd (run_state (drain_targets ev cancelled batch targets) w))) = db_users (wd_db w)"
  using assms(2)
proof (induction targets arbitrary: w)
  case (Cons t ts)
  obtain table remove where t: "t = (table, remove)" by (cases t)
  have c: "\<not> cancelled table" using assms(1) by (simp add: calm_def)
  have "db_users (wd_db (snd (run_state (drain ev cancelled table batch remove maxRetentionPasses) w))) = db_users (wd_db w)" for w
    using Cons.prems[of t] t by (intro drain_users[OF assms(1)]) simp
  then show ?case using Cons c unfolding t by (simp add: split_beta)
qed simp

lemma purge_keeps_derived:
  assumes "distinct (map us_ID (db_users db))"
  shows "derived_rows (snd (PurgeDeletedUsers flt skip before now n db)) = derived_rows db
    \<and> distinct (map us_ID (db_users (snd (PurgeDeletedUsers flt skip before now n db))))"
proof -
  have "derived_rows db' = derived_rows db \<and> distinct (map us_ID (db_users db'))" if body: "purgeBody flt skip before now n db = Inr (x, db')" for x db'
  proof -
    consider "db' = db" | P where "db_users db' = delete_where (\<lambda>u. list_ex (\<lambda>v. us_ID v = us_ID u \<and> P v \<and> purge_due before v) (db_users db)) (db_users db)"
      using body by (auto simp: purgeBody_def stmt_Inr_iff Let_def delete_users_cascade_def split: if_splits)
    then show ?thesis
    proof cases
      case 2
      have "v = u" if "u \<in> set (db_users db)" "v \<in> set (db_users db)" "us_ID v = us_ID u" for u v
        using distinct_map_inj[OF assms that(2,1,3)] .
      then have "filter unpinned (db_users db') = filter unpinned (db_users db)"
        unfolding 2 delete_where_def filter_filter
        by (intro filter_cong refl) (auto simp: list_ex_iff purge_due_def unpinned_def)
      then show ?thesis using assms by (simp add: derived_rows_def 2 delete_where_def distinct_map_filter)
    qed (use assms in simp)
  qed
  then show ?thesis using assms
    by (cases rule: transaction_cases[of "purgeBody flt skip before now n" db flt]) (auto simp: PurgeDeletedUsers_def)
qed

lemma purge_pass_keeps:
  assumes "calm ev cancelled" "distinct (map us_ID (db_users (wd_db w)))"
  shows "derived_rows (wd_db (snd (run_state (purgeDeletedUsers ev cancelled skip worker now left) w))) = derived_rows (wd_db w)
    \<and> distinct (map us_ID (db_users (wd_db (snd (run_state (purgeDeletedUsers ev cancelled skip worker now left) w)))))"
  using assms(2)
proof (induction left arbitrary: w)
  case (Suc left)
  let ?site = "pass_site ''users'' (Suc left)"
  let ?p = "PurgeDeletedUsers no_fault (skip ?site) (now - rw_DeletedUserAge worker) now (worker_batchSize worker) (wd_db w)"
  note purged = purge_keeps_derived[OF Suc.prems, of no_fault "skip ?site" "now - rw_DeletedUserAge worker" now "worker_batchSize worker"]
  have "distinct (map us_ID (db_users (wd_db (w\<lparr>wd_db := snd ?p\<rparr>))))" using purged by simp
  from Suc.IH[OF this] show ?case using assms(1) purged Suc.prems
    by (auto simp: calm_def Let_def db_write_def split_beta split: sum.split)
qed simp

text \<open>One tick that holds the lock and that nothing disturbs, with a place to keep its position.\<close>

definition calm_tick :: "retention_tick \<Rightarrow> bool" where
  "calm_tick t \<longleftrightarrow> calm (tk_Env t) (tk_Cancelled t) \<and> tk_Acquired t = Inr True"

abbreviation tick_time :: "retention_tick \<Rightarrow> instant" where
  "tick_time t \<equiv> ev_Now (tk_Env t) ''sweep''"

lemma derived_rows_recalibrate:
  "derived_rows (recalibrate_after ext now c db) = map (\<lambda>u. if c < us_ID u then recalibrated ext now u else u) (derived_rows db)"
  "derived_rows (recalibrate_between ext now c c' db) =
     map (\<lambda>u. if c < us_ID u \<and> us_ID u \<le> c' then recalibrated ext now u else u) (derived_rows db)"
proof -
  have "filter unpinned (map (\<lambda>u. if unpinned u \<and> P u then recalibrated ext now u else u) us)
      = map (\<lambda>u. if P u then recalibrated ext now u else u) (filter unpinned us)" for P us
    by (induction us) (auto simp: unpinned_recalibrated)
  then show "derived_rows (recalibrate_after ext now c db) = map (\<lambda>u. if c < us_ID u then recalibrated ext now u else u) (derived_rows db)"
    "derived_rows (recalibrate_between ext now c c' db) =
      map (\<lambda>u. if c < us_ID u \<and> us_ID u \<le> c' then recalibrated ext now u else u) (derived_rows db)"
    by (simp_all add: derived_rows_def recalibrate_after_def recalibrate_between_def)
qed

lemma worker_batchSize_pos: "0 < worker_batchSize worker"
  by (simp add: worker_batchSize_def defaultRetentionBatchSize_def)

lemma calm_sweep_run:
  assumes t: "calm_tick t" and ids: "distinct (map us_ID (db_users (wd_db w)))" and c: "rw_DerivedStateCursor worker = Some c"
  obtains objects w1 r where "derived_rows (wd_db w1) = derived_rows (wd_db w)" "distinct (map us_ID (db_users (wd_db w1)))"
    "run_state (recompute_passes (tk_Env t) (tk_Cancelled t) ext (tick_time t) (worker_batchSize worker) (rw_derivedFailures worker) c
       maxRetentionPasses) w1 = r"
    "run_state (retention_sweep (tk_Env t) (tk_Cancelled t) (tk_Pick t) (tk_Skip t) ext (tk_Acquired t) worker) w
      = ((worker\<lparr>rw_derivedFailures := snd (fst r), rw_DerivedStateCursor := Some (fst (fst r))\<rparr>, objects), snd r)"
proof -
  let ?ev = "tk_Env t" and ?no = "tk_Cancelled t" and ?now = "tick_time t"
  have q: "calm ?ev ?no" and a: "tk_Acquired t = Inr True" using t by (simp_all add: calm_tick_def)
  define w0 where "w0 = snd (run_state (drain_targets ?ev ?no (worker_batchSize worker) (sweep_targets (tk_Pick t) worker ?now)) w)"
  have d: "fst (run_state (drain_targets ?ev ?no (worker_batchSize worker) (sweep_targets (tk_Pick t) worker ?now)) w)"
    "db_users (wd_db w0) = db_users (wd_db w)"
    using drain_targets_users[OF q, of "sweep_targets (tk_Pick t) worker ?now"] sweep_target_users unfolding w0_def by blast+
  define purge where "purge = (if 0 < rw_DeletedUserAge worker then purgeDeletedUsers ?ev ?no (tk_Skip t) worker ?now maxRetentionPasses
    else State_Monad.return [])"
  define w1 where "w1 = snd (run_state purge w0)"
  have ids0: "distinct (map us_ID (db_users (wd_db w0)))" using ids d(2) by simp
  have "derived_rows (wd_db w1) = derived_rows (wd_db w0) \<and> distinct (map us_ID (db_users (wd_db w1)))"
    unfolding w1_def purge_def using purge_pass_keeps[OF q ids0] ids0 by simp
  then have "derived_rows (wd_db w1) = derived_rows (wd_db w)" "distinct (map us_ID (db_users (wd_db w1)))"
    using d(2) by (simp_all add: derived_rows_def)
  moreover have "run_state (retention_sweep ?ev ?no (tk_Pick t) (tk_Skip t) ext (tk_Acquired t) worker) w =
      ((worker\<lparr>rw_derivedFailures := snd (fst r), rw_DerivedStateCursor := Some (fst (fst r))\<rparr>, fst (run_state purge w0)), snd r)"
    if "r = run_state (recompute_passes ?ev ?no ext ?now (worker_batchSize worker) (rw_derivedFailures worker) c maxRetentionPasses) w1" for r
    using d(1) that c unfolding a
    by (simp add: retention_sweep_def Let_def split_beta rememberDerivedStateCursor_def w0_def w1_def purge_def)
  ultimately show thesis using that by blast
qed

lemma calm_tick_effect:
  assumes t: "calm_tick t" and ids: "distinct (map us_ID (db_users (wd_db w)))" and c: "rw_DerivedStateCursor worker = Some c" "0 \<le> c"
  defines "pending \<equiv> length (pending_accounts c (wd_db w))" and "budget \<equiv> maxRetentionPasses * nat (worker_batchSize worker)"
  obtains c' f' objects w' where
    "run_state (retention_sweep (tk_Env t) (tk_Cancelled t) (tk_Pick t) (tk_Skip t) ext (tk_Acquired t) worker) w
      = ((worker\<lparr>rw_derivedFailures := f', rw_DerivedStateCursor := Some c'\<rparr>, objects), w')"
    "distinct (map us_ID (db_users (wd_db w')))"
    "pending < budget \<longrightarrow> c' = 0 \<and> derived_rows (wd_db w') =
       map (\<lambda>u. if c < us_ID u then recalibrated ext (tick_time t) u else u) (derived_rows (wd_db w))"
    "budget \<le> pending \<longrightarrow> c < c' \<and> length (pending_accounts c' (wd_db w')) = pending - budget \<and> derived_rows (wd_db w') =
       map (\<lambda>u. if c < us_ID u \<and> us_ID u \<le> c' then recalibrated ext (tick_time t) u else u) (derived_rows (wd_db w))"
proof -
  let ?b = "worker_batchSize worker" and ?now = "tick_time t"
  obtain objects w1 r where w1: "derived_rows (wd_db w1) = derived_rows (wd_db w)" "distinct (map us_ID (db_users (wd_db w1)))"
    and r: "run_state (recompute_passes (tk_Env t) (tk_Cancelled t) ext ?now ?b (rw_derivedFailures worker) c maxRetentionPasses) w1 = r"
    and run: "run_state (retention_sweep (tk_Env t) (tk_Cancelled t) (tk_Pick t) (tk_Skip t) ext (tk_Acquired t) worker) w
      = ((worker\<lparr>rw_derivedFailures := snd (fst r), rw_DerivedStateCursor := Some (fst (fst r))\<rparr>, objects), snd r)"
    by (rule calm_sweep_run[OF t ids c(1)])
  have p: "pending_accounts d (wd_db w1) = pending_accounts d (wd_db w)" for d by (simp add: pending_derived w1(1))
  have q: "calm (tk_Env t) (tk_Cancelled t)" using t by (simp add: calm_tick_def)
  obtain c' f' where r': "r = ((c', f'), w1\<lparr>wd_db := (if pending < budget then recalibrate_after ext ?now c (wd_db w1)
      else recalibrate_between ext ?now c c' (wd_db w1))\<rparr>)"
    and c': "if pending < budget then c' = 0 else c \<le> c' \<and> c < c' \<and> length (pending_accounts c' (wd_db w1)) = pending - budget"
    using recompute_passes_run[OF q w1(2) worker_batchSize_pos[of worker] c(2), of ext ?now "rw_derivedFailures worker" maxRetentionPasses]
    unfolding r p pending_def budget_def by (auto simp: maxRetentionPasses_def)
  have keys: "map us_ID (db_users (recalibrate_after ext ?now c db)) = map us_ID (db_users db)"
    "map us_ID (db_users (recalibrate_between ext ?now c c' db)) = map us_ID (db_users db)" for db
    by (simp_all add: recalibrate_after_def recalibrate_between_def comp_def if_distrib cong: if_cong)
  show thesis
  proof (rule that)
    show "run_state (retention_sweep (tk_Env t) (tk_Cancelled t) (tk_Pick t) (tk_Skip t) ext (tk_Acquired t) worker) w
      = ((worker\<lparr>rw_derivedFailures := f', rw_DerivedStateCursor := Some c'\<rparr>, objects), snd r)" using run r' by simp
    show "distinct (map us_ID (db_users (wd_db (snd r))))" using w1(2) r' keys by simp
    show "pending < budget \<longrightarrow> c' = 0 \<and> derived_rows (wd_db (snd r)) = map (\<lambda>u. if c < us_ID u then recalibrated ext ?now u else u) (derived_rows (wd_db w))"
      using c' r' by (simp add: derived_rows_recalibrate w1(1))
    show "budget \<le> pending \<longrightarrow> c < c' \<and> length (pending_accounts c' (wd_db (snd r))) = pending - budget \<and> derived_rows (wd_db (snd r)) =
        map (\<lambda>u. if c < us_ID u \<and> us_ID u \<le> c' then recalibrated ext ?now u else u) (derived_rows (wd_db w))"
      using c' r' recalibrate_between_frame(2)[of c c' c' ext ?now "wd_db w1"] by (simp add: derived_rows_recalibrate w1(1))
  qed
qed

text \<open>Ticks follow each other on the cursor the worker keeps.\<close>

lemma calm_ticks_run:
  assumes "\<And>t. t \<in> set ts \<Longrightarrow> calm_tick t" "distinct (map us_ID (db_users (wd_db w)))" "rw_DerivedStateCursor worker = Some c" "0 \<le> c"
    and "length ts = Suc (length (pending_accounts c (wd_db w)) div (maxRetentionPasses * nat (worker_batchSize worker)))"
  shows "rw_DerivedStateCursor (fst (run_state (retention_ticks ext ts worker) w)) = Some 0
    \<and> (\<forall>k. 0 < k \<longrightarrow> k < length ts \<longrightarrow> (\<exists>d>c. rw_DerivedStateCursor (fst (run_state (retention_ticks ext (take k ts) worker) w)) = Some d))
    \<and> (\<forall>u\<in>set (derived_rows (wd_db w)). if c < us_ID u
         then \<exists>t\<in>set ts. recalibrated ext (tick_time t) u \<in> set (derived_rows (wd_db (snd (run_state (retention_ticks ext ts worker) w))))
         else u \<in> set (derived_rows (wd_db (snd (run_state (retention_ticks ext ts worker) w)))))"
  using assms
proof (induction ts arbitrary: worker w c)
  case (Cons t ts)
  let ?pending = "length (pending_accounts c (wd_db w))" and ?budget = "maxRetentionPasses * nat (worker_batchSize worker)"
  have pos: "0 < ?budget" using worker_batchSize_pos[of worker] by (simp add: maxRetentionPasses_def)
  obtain c' f' objects w' where
    run: "run_state (retention_sweep (tk_Env t) (tk_Cancelled t) (tk_Pick t) (tk_Skip t) ext (tk_Acquired t) worker) w
      = ((worker\<lparr>rw_derivedFailures := f', rw_DerivedStateCursor := Some c'\<rparr>, objects), w')"
    and ids: "distinct (map us_ID (db_users (wd_db w')))"
    and last: "?pending < ?budget \<longrightarrow> c' = 0 \<and> derived_rows (wd_db w') =
       map (\<lambda>u. if c < us_ID u then recalibrated ext (tick_time t) u else u) (derived_rows (wd_db w))"
    and more: "?budget \<le> ?pending \<longrightarrow> c < c' \<and> length (pending_accounts c' (wd_db w')) = ?pending - ?budget \<and> derived_rows (wd_db w') =
       map (\<lambda>u. if c < us_ID u \<and> us_ID u \<le> c' then recalibrated ext (tick_time t) u else u) (derived_rows (wd_db w))"
    by (rule calm_tick_effect[OF Cons.prems(1)[OF list.set_intros(1)] Cons.prems(2-4), where ext = ext])
  let ?worker = "worker\<lparr>rw_derivedFailures := f', rw_DerivedStateCursor := Some c'\<rparr>"
  have ticks: "run_state (retention_ticks ext (t # xs) worker) w = run_state (retention_ticks ext xs ?worker) w'" for xs using run by simp
  show ?case
  proof (cases "?pending < ?budget")
    case True
    then have "ts = []" using Cons.prems(5) by simp
    then show ?thesis using last True unfolding ticks by auto
  next
    case False
    then have m: "c < c'" "length (pending_accounts c' (wd_db w')) = ?pending - ?budget" "derived_rows (wd_db w') =
       map (\<lambda>u. if c < us_ID u \<and> us_ID u \<le> c' then recalibrated ext (tick_time t) u else u) (derived_rows (wd_db w))" using more by simp_all
    have same: "worker_batchSize ?worker = worker_batchSize worker" by (simp add: worker_batchSize_def)
    have len: "length ts = Suc (length (pending_accounts c' (wd_db w')) div (maxRetentionPasses * nat (worker_batchSize ?worker)))"
      using Cons.prems(5) False pos unfolding m(2) same by (simp add: le_div_geq not_less)
    note ih = Cons.IH[of w' ?worker c', OF _ ids _ _ len]
    have calm: "\<And>x. x \<in> set ts \<Longrightarrow> calm_tick x" "rw_DerivedStateCursor ?worker = Some c'" "0 \<le> c'" using Cons.prems(1,4) m(1) by auto
    note ih = ih[OF calm]
    have early: "\<exists>d>c. rw_DerivedStateCursor (fst (run_state (retention_ticks ext (take k (t # ts)) worker) w)) = Some d"
      if k: "0 < k" "k < length (t # ts)" for k
    proof (cases k)
      case (Suc l)
      show ?thesis
      proof (cases l)
        case 0
        then show ?thesis using m(1) Suc by (simp add: run)
      next
        case (Suc l')
        then obtain d where "c' < d" "rw_DerivedStateCursor (fst (run_state (retention_ticks ext (take l ts) ?worker) w')) = Some d"
          using ih k \<open>k = Suc l\<close> by auto
        then show ?thesis using m(1) \<open>k = Suc l\<close> by (intro exI[of _ d]) (simp add: run)
      qed
    qed (use k in simp)
    have visited: "if c < us_ID u
         then \<exists>t\<in>set (t # ts). recalibrated ext (tick_time t) u \<in> set (derived_rows (wd_db (snd (run_state (retention_ticks ext ts ?worker) w'))))
         else u \<in> set (derived_rows (wd_db (snd (run_state (retention_ticks ext ts ?worker) w'))))"
      if u: "u \<in> set (derived_rows (wd_db w))" for u
    proof -
      let ?v = "if c < us_ID u \<and> us_ID u \<le> c' then recalibrated ext (tick_time t) u else u"
      have v: "?v \<in> set (derived_rows (wd_db w'))" "us_ID ?v = us_ID u" using u m(3) by auto
      have "if c' < us_ID ?v
         then \<exists>t\<in>set ts. recalibrated ext (tick_time t) ?v \<in> set (derived_rows (wd_db (snd (run_state (retention_ticks ext ts ?worker) w'))))
         else ?v \<in> set (derived_rows (wd_db (snd (run_state (retention_ticks ext ts ?worker) w'))))"
        by (rule bspec[OF conjunct2[OF conjunct2[OF ih]] v(1)])
      then have "if c' < us_ID u
         then \<exists>t\<in>set ts. recalibrated ext (tick_time t) ?v \<in> set (derived_rows (wd_db (snd (run_state (retention_ticks ext ts ?worker) w'))))
         else ?v \<in> set (derived_rows (wd_db (snd (run_state (retention_ticks ext ts ?worker) w'))))"
        unfolding v(2) .
      then show ?thesis using m(1) by (auto split: if_splits)
    qed
    show ?thesis unfolding ticks by (intro conjI allI impI ballI conjunct1[OF ih] early visited)
  qed
qed simp

text \<open>C35: The rounds of the derived-state sweep end, also over a table that one tick cannot visit. A valid worker with a
  place to keep its cursor, running while nothing else touches the store, fails or cancels, needs one tick more than
  the whole budgets (twenty batches each) that the unpinned accounts past its cursor fill: the cursor is past its
  start after every earlier tick and back at the head of the table after the last one, and by then each of those
  accounts has the state derived for it at the time of one of the ticks. From the head of the table these are all
  unpinned accounts, since account identifiers are positive.\<close>

theorem derived_state_sweep_ends:
  assumes "\<And>t. t \<in> set (first # ticks) \<Longrightarrow> calm_tick t" "distinct (map us_ID (db_users (wd_db w)))"
    and "validate_worker worker = None" "rw_DerivedStateCursor worker = Some c" "0 \<le> c"
    and "length ticks = length (pending_accounts c (wd_db w)) div (maxRetentionPasses * nat (worker_batchSize worker))"
  shows "\<exists>worker' w'. run_state (retention_Run ext first ticks worker) w = (Inr worker', w')
    \<and> rw_DerivedStateCursor worker' = Some 0
    \<and> (\<forall>k<length ticks. \<exists>early w2 d. run_state (retention_Run ext first (take k ticks) worker) w = (Inr early, w2)
         \<and> rw_DerivedStateCursor early = Some d \<and> c < d)
    \<and> (\<forall>u\<in>set (pending_accounts c (wd_db w)). \<exists>t\<in>set (first # ticks).
         recalibrated ext (ev_Now (tk_Env t) ''sweep'') u \<in> set (db_users (wd_db w')))"
proof -
  have run: "run_state (retention_Run ext first xs worker) w =
      (Inr (fst (run_state (retention_ticks ext (first # xs) worker) w)), snd (run_state (retention_ticks ext (first # xs) worker) w))" for xs
    using assms(3) by (simp add: retention_Run_def split_beta)
  have "length (first # ticks) = Suc (length (pending_accounts c (wd_db w)) div (maxRetentionPasses * nat (worker_batchSize worker)))"
    using assms(6) by simp
  note rounds = calm_ticks_run[OF assms(1,2,4,5) this, of ext]
  have early: "\<exists>d>c. rw_DerivedStateCursor (fst (run_state (retention_ticks ext (first # take k ticks) worker) w)) = Some d" if "k < length ticks" for k
    using conjunct1[OF conjunct2[OF rounds], rule_format, of "Suc k"] that by simp
  have visited: "\<exists>t\<in>set (first # ticks). recalibrated ext (tick_time t) u \<in> set (db_users (wd_db (snd (run_state (retention_ticks ext (first # ticks) worker) w))))"
    if "u \<in> set (pending_accounts c (wd_db w))" for u
    using conjunct2[OF conjunct2[OF rounds]] that unfolding pending_derived by (force simp: derived_rows_def)
  show ?thesis unfolding run using conjunct1[OF rounds] early visited by fastforce
qed

section \<open>Witnesses\<close>

definition sample_worker :: retention_worker where
  "sample_worker = \<lparr>rw_Interval = 0, rw_BatchSize = 0, rw_AuthorizationAge = Hour, rw_AccessTokenAge = Hour,
     rw_RefreshTokenAge = Hour, rw_AuditLogAge = Hour, rw_AlumniRequestAge = Hour, rw_DeletedUserAge = Hour,
     rw_AvatarStore = False, rw_derivedFailures = 0, rw_DerivedStateCursor = Some 0\<rparr>"

lemma staffed_invariants:
  "consent_inv staffed_store" "outbox_inv staffed_store" "administered staffed_store"
  using sample_consent_inv(1) sample_outbox_inv(1) staffed_account_inv
  by (simp_all add: consent_inv_def outbox_inv_def staffed_store_def administered_def has_admin_def active_admin_def
      sample_admin_def role_defs state_defs sample_user_def)

theorem retention_tick_keeps_invariants_witness:
  "account_inv (wd_db (snd (run_state (retention_sweep quiet (\<lambda>_. False) (\<lambda>_. take) (\<lambda>_ _. False) (\<lambda>_. False) (Inr True) sample_worker)
     (world_of staffed_store))))"
  using retention_tick_keeps_invariants[of quiet "(world_of staffed_store)" "\<lambda>_. False" "\<lambda>_. take"
      "\<lambda>_ _. False" "\<lambda>_. False" "Inr True" sample_worker] staffed_token_inv staffed_account_inv staffed_invariants
  by (simp add: Let_def)

text \<open>Twenty-five accounts and a worker that visits twenty of them in a tick: the second tick ends the round.\<close>

definition crowded_store :: database where
  "crowded_store = staffed_store\<lparr>db_users := map (\<lambda>i. sample_user\<lparr>us_ID := i\<rparr>) [1..25]\<rparr>"

definition quiet_tick :: retention_tick where
  "quiet_tick = \<lparr>tk_Env = quiet, tk_Cancelled = (\<lambda>_. False), tk_Pick = (\<lambda>_. take), tk_Skip = (\<lambda>_ _. False), tk_Acquired = Inr True\<rparr>"

theorem derived_state_sweep_ends_witness:
  "\<exists>worker' w' early w2 d. run_state (retention_Run (\<lambda>_. False) quiet_tick [quiet_tick] (sample_worker\<lparr>rw_BatchSize := 1\<rparr>)) (world_of crowded_store) = (Inr worker', w')
     \<and> rw_DerivedStateCursor worker' = Some 0
     \<and> run_state (retention_Run (\<lambda>_. False) quiet_tick [] (sample_worker\<lparr>rw_BatchSize := 1\<rparr>)) (world_of crowded_store) = (Inr early, w2)
     \<and> rw_DerivedStateCursor early = Some d \<and> 0 < d"
proof -
  let ?w = "world_of crowded_store" and ?worker = "sample_worker\<lparr>rw_BatchSize := 1\<rparr>"
  have "unpinned (sample_user\<lparr>us_ID := i\<rparr>)" for i by (simp add: unpinned_def sample_user_def state_defs)
  then have "filter (\<lambda>u. unpinned u \<and> 0 < us_ID u) (map (\<lambda>i. sample_user\<lparr>us_ID := i\<rparr>) [1..n]) = map (\<lambda>i. sample_user\<lparr>us_ID := i\<rparr>) [1..n]" for n
    by (intro filter_True) auto
  from this[of 25] have "length (pending_accounts 0 crowded_store) = 25"
    by (simp only: pending_accounts_def crowded_store_def database.simps length_map length_upto) simp
  then have "length (pending_accounts 0 (wd_db ?w)) div (maxRetentionPasses * nat (worker_batchSize ?worker)) = length [quiet_tick]"
    by (simp add: maxRetentionPasses_def worker_batchSize_def)
  moreover have "calm_tick t" if "t \<in> set (quiet_tick # [quiet_tick])" for t
    using that by (simp add: calm_tick_def calm_def quiet_tick_def fun_eq_iff)
  moreover have "distinct (map us_ID (db_users (wd_db ?w)))" by (simp only: crowded_store_def world.simps database.simps map_map) (simp add: comp_def)
  moreover have "validate_worker ?worker = None" "rw_DerivedStateCursor ?worker = Some 0"
    by (simp_all add: validate_worker_def sample_worker_def duration_defs)
  ultimately have "\<exists>worker' w'. run_state (retention_Run (\<lambda>_. False) quiet_tick [quiet_tick] ?worker) ?w = (Inr worker', w')
    \<and> rw_DerivedStateCursor worker' = Some 0
    \<and> (\<forall>k<length [quiet_tick]. \<exists>early w2 d. run_state (retention_Run (\<lambda>_. False) quiet_tick (take k [quiet_tick]) ?worker) ?w = (Inr early, w2)
         \<and> rw_DerivedStateCursor early = Some d \<and> 0 < d)"
    using derived_state_sweep_ends[of quiet_tick "[quiet_tick]" ?w ?worker 0 "\<lambda>_. False"] by (metis order_refl)
  then show ?thesis by (auto dest!: spec[of _ 0])
qed

end
