(* ===== verification/Session_Workers.thy ===== *)
theory Session_Workers
  imports Session_Account Retention_Worker
begin

text \<open>
  The background workers of the session service (\<open>service/session/worker\<close>): the mails of password resets,
  the delivery of revocations from the outbox to the cache, and the revocation of evicted devices. A worker
  repeats one pass; each pass is a state action over its own environment, so other requests and the workers
  of other replicas run between its calls.
\<close>

section \<open>Password-reset mails (forgot_password.go)\<close>

definition forgotPasswordCodeTTL :: duration where "forgotPasswordCodeTTL = 5 * Minute"

record ForgotPassword =
  fp_Prefix :: string
  fp_Lower :: "rune \<Rightarrow> rune"
  fp_Audit :: bool

definition forgot_audit ::
    "instant \<Rightarrow> ForgotPasswordJob \<Rightarrow> int option \<Rightarrow> bool \<Rightarrow> int option \<Rightarrow> (string \<times> json) list option \<Rightarrow> audit_log" where
  "forgot_audit now job userID success code detail =
    \<lparr>au_UserID = userID, au_Action = ''forgot_password_send_code'', au_Resource = ''verification_code'', au_ResourceID = None,
     au_Detail = detail, au_ClientIP = NullableString (fj_ClientIP job), au_UserAgent = NullableString (fj_UserAgent job),
     au_Success = success, au_ErrCode = code, au_ActorClientID = None, au_CreatedAt = now\<rparr>"

definition forgot_audit_write ::
    "env \<Rightarrow> ForgotPassword \<Rightarrow> ForgotPasswordJob \<Rightarrow> int option \<Rightarrow> bool \<Rightarrow> int option \<Rightarrow> (string \<times> json) list option \<Rightarrow> unit action" where
  "forgot_audit_write ev fp job userID success code detail =
    (if \<not> fp_Audit fp then State_Monad.return ()
     else do {
       _ \<leftarrow> db_write ev ''audit'' (\<lambda>flt db.
              CreateAuditLog flt (forgot_audit (ev_Now ev ''audit'') job userID success code detail) db);
       State_Monad.return () })"

text \<open>The stage that failed and the business code, never the text of the error.\<close>

definition auditDeliveryFailure ::
    "env \<Rightarrow> ForgotPassword \<Rightarrow> ForgotPasswordJob \<Rightarrow> int option \<Rightarrow> string \<Rightarrow> int \<Rightarrow> unit action" where
  "auditDeliveryFailure ev fp job userID stage code =
     forgot_audit_write ev fp job userID False (Some code)
       (Some [(''stage'', JString stage), (''email'', JString (fj_Email job))])"

definition forgot_process :: "env \<Rightarrow> ForgotPassword \<Rightarrow> ForgotPasswordJob \<Rightarrow> unit action" where
  "forgot_process ev fp job = do {
     found \<leftarrow> db_read ev ''find account'' (\<lambda>flt db. FindAuthUserByLoginIdentifier flt db (fj_Email job));
     case found of
       Inl e \<Rightarrow> if e = ErrNotFound then State_Monad.return ()
                else auditDeliveryFailure ev fp job None ''lookup'' CodeInternal
     | Inr user \<Rightarrow>
         (case GenerateVerificationCode ev ''generate code'' of
            None \<Rightarrow> auditDeliveryFailure ev fp job (Some (us_ID user)) ''generate_code'' CodeInternal
          | Some code \<Rightarrow> do {
              saved \<leftarrow> redis_write ev ''save code'' (\<lambda>n ms rd.
                SaveVerificationCode n ms (fp_Prefix fp) VerificationPurposeResetPassword
                  (StripSubaddress (fp_Lower fp) (fj_Email job)) code forgotPasswordCodeTTL rd);
              case saved of
                Inl _ \<Rightarrow> auditDeliveryFailure ev fp job (Some (us_ID user)) ''save_code'' CodeDependencyUnavailable
              | Inr _ \<Rightarrow> do {
                  sent \<leftarrow> SendVerificationCode ev (fj_Email job) code VerificationPurposeResetPassword;
                  if \<not> sent then auditDeliveryFailure ev fp job (Some (us_ID user)) ''smtp'' CodeEmailDeliveryFailed
                  else forgot_audit_write ev fp job (Some (us_ID user)) True None None } }) }"

text \<open>One turn of \<open>Run\<close>: the oldest job of the queue is taken and processed; with an empty queue the
  worker goes on waiting.\<close>

definition take_job :: "world \<Rightarrow> ForgotPasswordJob option \<times> world" where
  "take_job w = (case wd_jobs w of [] \<Rightarrow> (None, w) | job # jobs \<Rightarrow> (Some job, w\<lparr>wd_jobs := jobs\<rparr>))"

definition forgot_turn :: "env \<Rightarrow> ForgotPassword \<Rightarrow> unit action" where
  "forgot_turn ev fp = do {
     taken \<leftarrow> process_step ev ''take job'' take_job;
     case taken of None \<Rightarrow> State_Monad.return () | Some job \<Rightarrow> forgot_process ev fp job }"

section \<open>Delivery of revocations (token_blacklist.go)\<close>

definition defaultTokenBlacklistInterval :: duration where "defaultTokenBlacklistInterval = Second"
definition defaultTokenBlacklistLease :: duration where "defaultTokenBlacklistLease = 30 * Second"
definition defaultTokenBlacklistBatchSize :: int where "defaultTokenBlacklistBatchSize = 100"
definition defaultTokenBlacklistMaxBackoff :: duration where "defaultTokenBlacklistMaxBackoff = 30 * Second"
definition defaultTokenBlacklistCleanupRate :: duration where "defaultTokenBlacklistCleanupRate = Hour"

text \<open>An absent cache port is \<open>None\<close>; the text of a driver's error is a parameter.\<close>

record TokenBlacklist =
  tb_Outbox :: bool
  tb_AuthState :: "blacklist_port option"
  tb_Interval :: duration
  tb_Lease :: duration
  tb_BatchSize :: int
  tb_MaxBackoff :: duration
  tb_CleanupInterval :: duration
  tb_ErrorText :: "redis_error \<Rightarrow> string"

datatype blacklist_error = BlacklistPortsMissing | NegativeBlacklistSetting

definition validate_blacklist :: "TokenBlacklist \<Rightarrow> blacklist_error option" where
  "validate_blacklist tb =
    (if \<not> tb_Outbox tb \<or> tb_AuthState tb = None then Some BlacklistPortsMissing
     else if tb_Interval tb < 0 \<or> tb_Lease tb < 0 \<or> tb_BatchSize tb < 0 \<or> tb_MaxBackoff tb < 0
             \<or> tb_CleanupInterval tb < 0 then Some NegativeBlacklistSetting
     else None)"

definition blacklist_lease :: "TokenBlacklist \<Rightarrow> duration" where
  "blacklist_lease tb = DurationOrDefault (tb_Lease tb) defaultTokenBlacklistLease"

definition blacklist_batchSize :: "TokenBlacklist \<Rightarrow> int" where
  "blacklist_batchSize tb = (if 0 < tb_BatchSize tb then tb_BatchSize tb else defaultTokenBlacklistBatchSize)"

definition maxBackoff :: "TokenBlacklist \<Rightarrow> duration" where
  "maxBackoff tb = DurationOrDefault (tb_MaxBackoff tb) defaultTokenBlacklistMaxBackoff"

definition baseInterval :: "TokenBlacklist \<Rightarrow> duration" where
  "baseInterval tb = DurationOrDefault (tb_Interval tb) defaultTokenBlacklistInterval"

text \<open>A duration is a signed 64-bit number of nanoseconds; the shift and the product are computed there.\<close>

definition clampAttempts :: "int \<Rightarrow> nat" where
  "clampAttempts n = nat (if (if n < 0 then 0 else n) > 30 then 30 else if n < 0 then 0 else n)"

definition shifted_second :: "nat \<Rightarrow> duration" where
  "shifted_second n = sint (word_of_int Second * push_bit n (1 :: 64 word))"

definition retryBackoff :: "TokenBlacklist \<Rightarrow> int \<Rightarrow> duration" where
  "retryBackoff tb attemptCount =
    (let backoff = shifted_second (clampAttempts attemptCount) in
     if maxBackoff tb < backoff then maxBackoff tb else backoff)"

definition blacklist_ackMany :: "env \<Rightarrow> site \<Rightarrow> int list \<Rightarrow> string \<Rightarrow> unit action" where
  "blacklist_ackMany ev site ids claimToken = do {
     _ \<leftarrow> db_write ev site (\<lambda>flt db. AckMany flt ids claimToken db);
     State_Monad.return () }"

text \<open>The rows of a batch in the order of the loop: those with a claim token, then split by expiry. The
  token the acknowledgements use is the one of the last such row.\<close>

definition claimed :: "outbox_row \<Rightarrow> bool" where
  "claimed x \<longleftrightarrow> (case ob_ClaimToken x of None \<Rightarrow> False | Some t \<Rightarrow> TrimSpace t \<noteq> [])"

definition expired :: "instant \<Rightarrow> outbox_row \<Rightarrow> bool" where
  "expired now x \<longleftrightarrow> ob_ExpiresAt x - now \<le> 0"

definition batch_token :: "outbox_row list \<Rightarrow> string" where
  "batch_token xs = (case filter claimed xs of [] \<Rightarrow> [] | ys \<Rightarrow> (case ob_ClaimToken (last ys) of None \<Rightarrow> [] | Some t \<Rightarrow> t))"

text \<open>The failed rows are found again by their token identifier, which is unique in the outbox; each was
  claimed, so the case without a claim token does not occur.\<close>

fun failDeliveries :: "env \<Rightarrow> TokenBlacklist \<Rightarrow> instant \<Rightarrow> string \<Rightarrow> outbox_row list \<Rightarrow> unit action" where
  "failDeliveries ev tb now text [] = State_Monad.return ()"
| "failDeliveries ev tb now text (x # xs) = do {
     _ \<leftarrow> (case ob_ClaimToken x of
            None \<Rightarrow> State_Monad.return (Inr False)
          | Some tok \<Rightarrow> db_write ev (''fail '' @ decimal (ob_ID x)) (\<lambda>flt db.
              Fail flt (ob_ID x) tok now (now + retryBackoff tb (ob_AttemptCount x)) text db));
     failDeliveries ev tb now text xs }"

definition deliverBatch ::
    "env \<Rightarrow> TokenBlacklist \<Rightarrow> blacklist_port \<Rightarrow> instant \<Rightarrow> outbox_row list \<Rightarrow> unit action" where
  "deliverBatch ev tb bp now entries =
    (let live = filter (\<lambda>x. claimed x \<and> \<not> expired now x) entries in
     if live = [] then State_Monad.return ()
     else do {
       r \<leftarrow> redis_write ev ''delete auth states'' (\<lambda>_ ms rd.
              DeleteAuthStates (ev_Broken ev ''delete auth states'') ms (bp_Prefix bp) (bp_TombstoneTTL bp) (map ob_TokenID live) rd);
       case r of
         Inl e \<Rightarrow> failDeliveries ev tb now (tb_ErrorText tb e)
                    (filter (\<lambda>x. ob_TokenID x \<in> set (map ob_TokenID live)) entries)
       | Inr _ \<Rightarrow> blacklist_ackMany ev ''ack delivered'' (map ob_ID live) (batch_token entries) })"

text \<open>The result is the time until the next pass.\<close>

definition processDue ::
    "env \<Rightarrow> (outbox_row \<Rightarrow> bool) \<Rightarrow> TokenBlacklist \<Rightarrow> blacklist_port \<Rightarrow> duration action" where
  "processDue ev skip tb bp =
    (let now = ev_Now ev ''process due'' in do {
       r \<leftarrow> db_write ev ''claim due'' (\<lambda>flt db.
              ClaimDue flt (ev_UUID ev ''claim'') skip now (blacklist_lease tb) (blacklist_batchSize tb) db);
       case r of
         Inl _ \<Rightarrow> State_Monad.return (maxBackoff tb)
       | Inr entries \<Rightarrow>
           if entries = [] then State_Monad.return (maxBackoff tb)
           else do {
             _ \<leftarrow> (let gone = filter (\<lambda>x. claimed x \<and> expired now x) entries in
                   if gone = [] then State_Monad.return ()
                   else blacklist_ackMany ev ''ack expired'' (map ob_ID gone) (batch_token entries));
             _ \<leftarrow> deliverBatch ev tb bp now entries;
             State_Monad.return (baseInterval tb) } })"

text \<open>The sweep of expired rows: at most twenty statements, and early returns on an error, a short batch
  or the end of the five seconds (\<open>ev_Gone\<close> at the site of the batch).\<close>

fun cleanup_batches ::
    "env \<Rightarrow> (site \<Rightarrow> nat \<Rightarrow> int list \<Rightarrow> int list) \<Rightarrow> TokenBlacklist \<Rightarrow> nat \<Rightarrow> duration action" where
  "cleanup_batches ev pick tb 0 = State_Monad.return (baseInterval tb)"
| "cleanup_batches ev pick tb (Suc left) =
    (let site = pass_site ''cleanup'' (Suc left) in do {
       r \<leftarrow> db_write ev site (\<lambda>flt db. CleanupExpired flt (pick site) (ev_Now ev site) (blacklist_batchSize tb) db);
       case r of
         Inl _ \<Rightarrow> State_Monad.return (baseInterval tb)
       | Inr n \<Rightarrow>
           if int n < blacklist_batchSize tb
           then State_Monad.return (DurationOrDefault (tb_CleanupInterval tb) defaultTokenBlacklistCleanupRate)
           else if ev_Gone ev site then State_Monad.return (baseInterval tb)
           else cleanup_batches ev pick tb left })"

text \<open>The backlog gauge after a sweep: a failed count leaves the previous value.\<close>

definition refreshBacklog :: "env \<Rightarrow> nat \<Rightarrow> nat action" where
  "refreshBacklog ev gauge = do {
     r \<leftarrow> db_read ev ''count backlog'' (\<lambda>flt db. CountDue flt (ev_Now ev ''count backlog'') db);
     State_Monad.return (case r of Inl _ \<Rightarrow> gauge | Inr n \<Rightarrow> n) }"

definition cleanupExpired ::
    "env \<Rightarrow> (site \<Rightarrow> nat \<Rightarrow> int list \<Rightarrow> int list) \<Rightarrow> TokenBlacklist \<Rightarrow> nat \<Rightarrow> (duration \<times> nat) action" where
  "cleanupExpired ev pick tb gauge = do {
     delay \<leftarrow> cleanup_batches ev pick tb 20;
     gauge' \<leftarrow> refreshBacklog ev gauge;
     State_Monad.return (delay, gauge') }"

text \<open>\<open>Run\<close>: the passes at start-up, then one pass per timer that fires until the context ends. Each pass has
  its environment; the state is what the two timers were reset to and the gauge.\<close>

datatype blacklist_tick = DueTick env "outbox_row \<Rightarrow> bool" | CleanupTick env "site \<Rightarrow> nat \<Rightarrow> int list \<Rightarrow> int list"

record blacklist_timers =
  bt_Due :: duration
  bt_Cleanup :: duration
  bt_Gauge :: nat

primrec fire_tick ::
    "TokenBlacklist \<Rightarrow> blacklist_port \<Rightarrow> blacklist_tick \<Rightarrow> blacklist_timers \<Rightarrow> blacklist_timers action" where
  "fire_tick tb bp (DueTick ev skip) t = do {
     d \<leftarrow> processDue ev skip tb bp; State_Monad.return (t\<lparr>bt_Due := d\<rparr>) }"
| "fire_tick tb bp (CleanupTick ev pick) t = do {
     r \<leftarrow> cleanupExpired ev pick tb (bt_Gauge t);
     State_Monad.return (t\<lparr>bt_Cleanup := fst r, bt_Gauge := snd r\<rparr>) }"

fun blacklist_ticks ::
    "TokenBlacklist \<Rightarrow> blacklist_port \<Rightarrow> blacklist_tick list \<Rightarrow> blacklist_timers \<Rightarrow> blacklist_timers action" where
  "blacklist_ticks tb bp [] t = State_Monad.return t"
| "blacklist_ticks tb bp (x # xs) t = do { t' \<leftarrow> fire_tick tb bp x t; blacklist_ticks tb bp xs t' }"

definition blacklist_Run ::
    "env \<Rightarrow> (outbox_row \<Rightarrow> bool) \<Rightarrow> (site \<Rightarrow> nat \<Rightarrow> int list \<Rightarrow> int list) \<Rightarrow> TokenBlacklist \<Rightarrow> nat \<Rightarrow> blacklist_tick list
      \<Rightarrow> (blacklist_error + blacklist_timers) action" where
  "blacklist_Run ev skip pick tb gauge ticks =
    (case (validate_blacklist tb, tb_AuthState tb) of
       (Some e, _) \<Rightarrow> err e
     | (None, None) \<Rightarrow> err BlacklistPortsMissing
     | (None, Some bp) \<Rightarrow> do {
         _ \<leftarrow> processDue ev skip tb bp;
         r \<leftarrow> cleanupExpired ev pick tb gauge;
         t \<leftarrow> blacklist_ticks tb bp ticks \<lparr>bt_Due = baseInterval tb, bt_Cleanup = fst r, bt_Gauge = snd r\<rparr>;
         ok t })"

section \<open>Evicted devices (device_evictions.go)\<close>

record DeviceEvictions =
  dw_Codec :: codec
  dw_Prefix :: string

definition eviction_site :: "string \<Rightarrow> string \<Rightarrow> site" where
  "eviction_site what receipt = what @ '' '' @ receipt"

fun resolve_evictions :: "env \<Rightarrow> DeviceEvictions \<Rightarrow> (DeviceEviction \<times> string) list \<Rightarrow> unit action" where
  "resolve_evictions ev dw [] = State_Monad.return ()"
| "resolve_evictions ev dw ((item, receipt) # items) = do {
     r \<leftarrow> (let site = eviction_site ''resolve'' receipt in db_write ev site (\<lambda>flt db.
            ResolveDeviceEviction flt (de_UserID item) (de_TokenHash item) (de_SourceFamily item) (de_Evicted item)
              (de_ExpiresAt item * Second) (ev_Now ev site) db));
     _ \<leftarrow> (case r of
            (resolved, e) \<Rightarrow>
              if e \<noteq> None \<or> \<not> resolved then State_Monad.return (Inr ())
              else redis_write ev (eviction_site ''ack'' receipt) (\<lambda>n ms rd. AckDeviceEviction n ms (dw_Prefix dw) receipt rd));
     resolve_evictions ev dw items }"

definition evictions_process :: "env \<Rightarrow> DeviceEvictions \<Rightarrow> nat \<Rightarrow> nat action" where
  "evictions_process ev dw offset = do {
     r \<leftarrow> redis_read ev ''pending evictions'' (\<lambda>n ms rd. PendingDeviceEvictions (dw_Codec dw) n ms (dw_Prefix dw) offset 100 rd);
     case r of
       Inl _ \<Rightarrow> State_Monad.return offset
     | Inr items \<Rightarrow> do {
         _ \<leftarrow> resolve_evictions ev dw items;
         State_Monad.return (if length items < 100 then 0 else offset + 100) } }"

text \<open>The turns of \<open>Run\<close>, each with its environment.\<close>

fun evictions_Run :: "DeviceEvictions \<Rightarrow> env list \<Rightarrow> nat \<Rightarrow> nat action" where
  "evictions_Run dw [] offset = State_Monad.return offset"
| "evictions_Run dw (ev # evs) offset = do { offset' \<leftarrow> evictions_process ev dw offset; evictions_Run dw evs offset' }"

section \<open>Passes\<close>

text \<open>One pass of any background worker, the retention tick included.\<close>

datatype worker_pass =
    MailPass ForgotPassword
  | DeliveryPass "outbox_row \<Rightarrow> bool" TokenBlacklist blacklist_port
  | CleanupPass "site \<Rightarrow> nat \<Rightarrow> int list \<Rightarrow> int list" TokenBlacklist nat
  | EvictionPass DeviceEvictions nat
  | RetentionPass "site \<Rightarrow> bool" row_picker "site \<Rightarrow> user \<Rightarrow> bool" "rune \<Rightarrow> bool" "repo_error + bool" retention_worker

primrec work :: "env \<Rightarrow> worker_pass \<Rightarrow> unit action" where
  "work ev (MailPass fp) = forgot_turn ev fp"
| "work ev (DeliveryPass skip tb bp) = quietly (processDue ev skip tb bp)"
| "work ev (CleanupPass pick tb gauge) = quietly (cleanupExpired ev pick tb gauge)"
| "work ev (EvictionPass dw offset) = quietly (evictions_process ev dw offset)"
| "work ev (RetentionPass cancelled pick skip ext acquired rw) = quietly (retention_sweep ev cancelled pick skip ext acquired rw)"

end
