(* ===== verification/Session_Workers_Properties.thy ===== *)
theory Session_Workers_Properties
  imports Session_Workers Session_Properties Retention_Worker_Properties
begin

text \<open>
  The background workers: their passes refine the store, a revocation leaves the outbox only after the cached
  state of its token is gone, a failed delivery is retried within bounded time, and a password-reset job
  ends with a usable code in the mail or with its failed stage offered to the audit trail.
\<close>

section \<open>The time until a retry\<close>

lemma shifted_second_exact:
  assumes "n \<le> 30"
  shows "shifted_second n = Second * 2 ^ n"
proof -
  have "(2::int) ^ n \<le> 2 ^ 30" using assms by (intro power_increasing) auto
  then have "Second * 2 ^ n < 2 ^ 63" "0 \<le> Second * 2 ^ n" by (simp_all add: duration_defs)
  moreover have "sint (word_of_int k :: 64 word) = k" if "0 \<le> k" "k < 2 ^ 63" for k
    using that by (simp add: sint_sbintrunc' signed_take_bit_int_eq_self)
  ultimately have "sint (word_of_int (Second * 2 ^ n) :: 64 word) = Second * 2 ^ n" by blast
  then show ?thesis by (simp add: shifted_second_def push_bit_eq_mult)
qed

lemma maxBackoff_pos [simp]: "0 < maxBackoff tb"
  by (simp add: maxBackoff_def DurationOrDefault_def defaultTokenBlacklistMaxBackoff_def duration_defs)

lemma retryBackoff_eq: "retryBackoff tb n = min (maxBackoff tb) (Second * 2 ^ nat (max 0 (min n 30)))"
proof -
  have "clampAttempts n = nat (max 0 (min n 30))" by (auto simp: clampAttempts_def)
  moreover have "shifted_second (clampAttempts n) = Second * 2 ^ clampAttempts n"
    by (rule shifted_second_exact) (auto simp: clampAttempts_def)
  ultimately show ?thesis by (auto simp: retryBackoff_def Let_def min_def)
qed

lemma retryBackoff_pos: "0 < retryBackoff tb n"
  using maxBackoff_pos[of tb] by (simp add: retryBackoff_eq duration_defs)

text \<open>C39: The time until a failed delivery is retried doubles with each attempt from one second up to the configured
  limit; it is positive, never decreases with the attempts, and the 64-bit product behind it never wraps.\<close>

theorem retryBackoff_bounds:
  "retryBackoff tb n = min (maxBackoff tb) (Second * 2 ^ nat (max 0 (min n 30)))
   \<and> 0 < retryBackoff tb n \<and> retryBackoff tb n \<le> maxBackoff tb \<and> retryBackoff tb n \<le> retryBackoff tb (n + 1)"
proof -
  have "(2::int) ^ nat (max 0 (min n 30)) \<le> 2 ^ nat (max 0 (min (n + 1) 30))" by (intro power_increasing) auto
  then have "Second * 2 ^ nat (max 0 (min n 30)) \<le> Second * 2 ^ nat (max 0 (min (n + 1) 30))" by (simp add: duration_defs)
  then show ?thesis using retryBackoff_pos[of tb n] unfolding retryBackoff_eq by linarith
qed

section \<open>Refinement\<close>

lemma moves_calls:
  assumes "\<And>site w. moves w (ev_Between ev site w)"
  shows "state_io_rel moves (db_read ev site q)" "state_io_rel moves (redis_read ev site p)" "state_io_rel moves (redis_write ev site f)"
  using assms by (auto simp: state_io_rel_def moves_def redis_write_def Let_def split: prod.split)

lemma moves_process_step:
  assumes "\<And>site w. moves w (ev_Between ev site w)" "\<And>w. wd_db (snd (f w)) = wd_db w"
  shows "state_io_rel moves (process_step ev site f)"
proof (rule state_io_relI)
  fix x w w'
  assume "run_state (process_step ev site f) w = (x, w')"
  then have "wd_db w' = wd_db (ev_Between ev site w)" using assms(2)[of "ev_Between ev site w"] by (simp add: process_step_def)
  then show "moves w w'" using assms(1)[of w site] by (simp add: moves_def)
qed

lemma moves_branch:
  "state_io_rel moves m \<Longrightarrow> state_io_rel moves n \<Longrightarrow> state_io_rel moves (if b then m else n)"
  "(\<And>e. state_io_rel moves (f e)) \<Longrightarrow> (\<And>x. state_io_rel moves (g x)) \<Longrightarrow> state_io_rel moves (case r of Inl e \<Rightarrow> f e | Inr x \<Rightarrow> g x)"
  "state_io_rel moves n \<Longrightarrow> (\<And>y. state_io_rel moves (h y)) \<Longrightarrow> state_io_rel moves (case p of None \<Rightarrow> n | Some y \<Rightarrow> h y)"
  "(\<And>x y. state_io_rel moves (k x y)) \<Longrightarrow> state_io_rel moves (case q of (x, y) \<Rightarrow> k x y)"
  by (auto split: sum.split option.split prod.split)

lemma moves_worker_writes:
  assumes "\<And>site w. moves w (ev_Between ev site w)"
  shows "state_io_rel moves (db_write ev site (\<lambda>flt db. CreateAuditLog flt row db))"
    "state_io_rel moves (db_write ev site (\<lambda>flt db. ClaimDue flt tok skip now lease limit db))"
    "state_io_rel moves (db_write ev site (\<lambda>flt db. AckMany flt is tok db))"
    "state_io_rel moves (db_write ev site (\<lambda>flt db. Fail flt i tok t t' msg db))"
    "state_io_rel moves (db_write ev site (\<lambda>flt db. CleanupExpired flt pick now n db))"
    "state_io_rel moves (db_write ev site (\<lambda>flt db. ResolveDeviceEviction flt u h f g e t db))"
  by (intro moves_db_write assms r_into_rtranclp store_step.intros)+

lemmas moves_intros = moves_return moves_bind moves_branch moves_calls moves_worker_writes

lemma moves_forgot:
  assumes "\<And>site w. moves w (ev_Between ev site w)"
  shows "state_io_rel moves (forgot_turn ev fp)"
  unfolding forgot_turn_def forgot_process_def auditDeliveryFailure_def forgot_audit_write_def SendVerificationCode_def
  by (intro moves_intros moves_process_step assms) (simp_all add: take_job_def split: list.split)

lemma moves_processDue:
  assumes "\<And>site w. moves w (ev_Between ev site w)"
  shows "state_io_rel moves (processDue ev skip tb bp)"
proof -
  have fails: "state_io_rel moves (failDeliveries ev tb now msg xs)" for now msg xs
    by (induction xs) (auto intro!: moves_intros assms)
  show ?thesis unfolding processDue_def deliverBatch_def blacklist_ackMany_def Let_def by (intro moves_intros fails assms)
qed

lemma moves_cleanupExpired:
  assumes "\<And>site w. moves w (ev_Between ev site w)"
  shows "state_io_rel moves (cleanupExpired ev pick tb gauge)"
proof -
  have batches: "state_io_rel moves (cleanup_batches ev pick tb left)" for left
    by (induction left) (auto simp: Let_def intro!: moves_intros assms)
  show ?thesis unfolding cleanupExpired_def refreshBacklog_def by (intro moves_intros batches assms)
qed

lemma moves_evictions:
  assumes "\<And>site w. moves w (ev_Between ev site w)"
  shows "state_io_rel moves (evictions_process ev dw offset)"
proof -
  have items: "state_io_rel moves (resolve_evictions ev dw items)" for items
  proof (induction items)
    case (Cons x items)
    then show ?case by (cases x) (auto simp: Let_def intro!: moves_intros assms)
  qed (simp add: moves_return)
  show ?thesis unfolding evictions_process_def by (intro moves_intros items assms)
qed

text \<open>Whatever other requests and workers do between its calls, and whichever of its calls fail, a pass of a
  background worker (reset mails, delivery and clean-up of revocations, device evictions, retention) moves the store
  only by steps of its transition system, so every invariant of the store survives it.\<close>

lemma workers_refine_store:
  assumes "\<And>site w. store_step\<^sup>*\<^sup>* (wd_db w) (wd_db (ev_Between ev site w))"
    and "token_inv (wd_db w)" "consent_inv (wd_db w)" "outbox_inv (wd_db w)" "account_inv (wd_db w)" "administered (wd_db w)"
  shows "let db' = wd_db (snd (run_state (work ev pass) w)) in
    store_step\<^sup>*\<^sup>* (wd_db w) db' \<and> token_inv db' \<and> consent_inv db' \<and> outbox_inv db' \<and> account_inv db' \<and> administered db'"
proof -
  have m: "moves w (ev_Between ev site w)" for site w by (simp add: moves_def assms(1))
  have "state_io_rel moves (work ev pass)"
    by (cases pass) (auto simp: quietly_def intro!: moves_intros moves_forgot moves_processDue moves_cleanupExpired moves_evictions
        moves_sweep m)
  then have "store_step\<^sup>*\<^sup>* (wd_db w) (wd_db (snd (run_state (work ev pass) w)))"
    by (simp add: state_io_rel_def moves_def)
  then show ?thesis unfolding Let_def
    using assms(2-6) tokens_sys.reachable consents_sys.reachable outbox_sys.reachable accounts_sys.reachable
      admins_sys.reachable by blast
qed

section \<open>Delivery\<close>

text \<open>A claimed batch: its rows carry the token of the claim and have not expired.\<close>

lemma claimed_batch:
  assumes "outbox_inv db" "ClaimDue flt tok skip now lease limit db = (Inr es, db1)"
  shows "x \<in> set es \<Longrightarrow> \<exists>y\<in>set (db_outbox db). x = lease_row tok (now + lease) y \<and> due now skip y"
    and "map ob_ID (db_outbox db1) = map ob_ID (db_outbox db)" "distinct (map ob_ID (db_outbox db1))"
    and "set es \<subseteq> set (db_outbox db1)" "distinct (map ob_ID es)"
proof -
  note c = ClaimDue_InrD[OF assms(2)]
  let ?I = "set (due_ids now (nat limit) skip db)"
  show ids: "map ob_ID (db_outbox db1) = map ob_ID (db_outbox db)" by (simp add: c(3) map_update_where lease_row_def)
  then show d: "distinct (map ob_ID (db_outbox db1))" using assms(1) by (simp add: outbox_inv_def)
  show "set es \<subseteq> set (db_outbox db1)" using c(4) by auto
  show "distinct (map ob_ID es)" using d c(4) by (simp add: distinct_map_filter)
  assume "x \<in> set es"
  then obtain y where y: "y \<in> set (db_outbox db)" "ob_ID x \<in> ?I" "x = (if ob_ID y \<in> ?I then lease_row tok (now + lease) y else y)"
    using c(4) unfolding c(3) by (auto elim!: in_update_whereE)
  then have i: "ob_ID y \<in> ?I" "ob_ID x = ob_ID y" by (auto simp: lease_row_def split: if_splits)
  then obtain z where z: "z \<in> set (db_outbox db)" "ob_ID z = ob_ID y" "due now skip z" using due_ids_subset by blast
  then have "z = y" using distinct_map_inj[of ob_ID "db_outbox db" z y] assms(1) y(1) by (simp add: outbox_inv_def)
  then show "\<exists>y\<in>set (db_outbox db). x = lease_row tok (now + lease) y \<and> due now skip y" using y i z by auto
qed

lemma batch_split:
  assumes "\<And>x. x \<in> set es \<Longrightarrow> ob_ClaimToken x = Some tok \<and> now < ob_ExpiresAt x"
  shows "filter (\<lambda>x. claimed x \<and> expired now x) es = []"
    and "filter (\<lambda>x. claimed x \<and> \<not> expired now x) es = (if TrimSpace tok = [] then [] else es)"
    and "es \<noteq> [] \<Longrightarrow> TrimSpace tok \<noteq> [] \<Longrightarrow> batch_token es = tok"
proof -
  have c: "claimed x \<longleftrightarrow> TrimSpace tok \<noteq> []" "\<not> expired now x" if "x \<in> set es" for x
    using assms[OF that] by (simp_all add: claimed_def expired_def)
  then show "filter (\<lambda>x. claimed x \<and> expired now x) es = []" by (simp add: filter_empty_conv)
  show "filter (\<lambda>x. claimed x \<and> \<not> expired now x) es = (if TrimSpace tok = [] then [] else es)"
    using c by (auto simp: filter_empty_conv intro: filter_True)
  assume ne: "es \<noteq> []" and "TrimSpace tok \<noteq> []"
  then have "filter claimed es = es" using c by (intro filter_True) auto
  then show "batch_token es = tok" using assms[OF last_in_set[OF ne]] ne by (auto simp: batch_token_def split: list.split)
qed

text \<open>What an undisturbed pass does after a claim.\<close>

lemma run_processDue:
  assumes "undisturbed ev" "outbox_inv (wd_db w)" "es \<noteq> []" "TrimSpace (ev_UUID ev ''claim'') \<noteq> []"
    and "ClaimDue (ev_Fault ev ''claim due'') (ev_UUID ev ''claim'') skip (ev_Now ev ''process due'') (blacklist_lease tb)
      (blacklist_batchSize tb) (wd_db w) = (Inr es, db1)"
  shows "snd (run_state (processDue ev skip tb bp) w) =
    (let r = DeleteAuthStates (ev_Broken ev ''delete auth states'') (ev_Millis ev ''delete auth states'') (bp_Prefix bp)
           (bp_TombstoneTTL bp) (map ob_TokenID es) (wd_redis w);
         w1 = w\<lparr>wd_db := db1, wd_redis := snd r\<rparr> in
     case fst r of
       Inl e \<Rightarrow> snd (run_state (failDeliveries ev tb (ev_Now ev ''process due'') (tb_ErrorText tb e) es) w1)
     | Inr _ \<Rightarrow> w1\<lparr>wd_db := snd (AckMany (ev_Fault ev ''ack delivered'') (map ob_ID es) (ev_UUID ev ''claim'') db1)\<rparr>)"
proof -
  have b: "ob_ClaimToken x = Some (ev_UUID ev ''claim'') \<and> ev_Now ev ''process due'' < ob_ExpiresAt x" if "x \<in> set es" for x
    using claimed_batch(1)[OF assms(2,5) that] by (auto simp: lease_row_def due_def)
  have "filter (\<lambda>x. ob_TokenID x \<in> set (map ob_TokenID es)) es = es" by (intro filter_True) auto
  then show ?thesis using assms batch_split[OF b]
    by (simp add: processDue_def deliverBatch_def blacklist_ackMany_def run_writes Let_def split_beta split: sum.split)
qed

text \<open>Failing rows never removes one, and reschedules each row it still owns.\<close>

definition retried :: "TokenBlacklist \<Rightarrow> instant \<Rightarrow> string \<Rightarrow> outbox_row \<Rightarrow> outbox_row" where
  "retried tb now msg x = x\<lparr>ob_AttemptCount := ob_AttemptCount x + 1, ob_LastAttemptAt := Some now,
     ob_LastError := Some (truncateOutboxDeliveryError msg), ob_NextDeliveryAt := now + retryBackoff tb (ob_AttemptCount x),
     ob_ClaimToken := None, ob_ClaimedUntil := None\<rparr>"

lemma Fail_outbox:
  "map ob_ID (db_outbox (snd (Fail flt i tok t t' msg db))) = map ob_ID (db_outbox db)"
  "y \<in> set (db_outbox db) \<Longrightarrow> ob_ID y \<noteq> i \<or> ob_ClaimToken y = None \<Longrightarrow> y \<in> set (db_outbox (snd (Fail flt i tok t t' msg db)))"
  by (auto simp: Fail_def Let_def map_update_where set_update_where)

lemma Fail_retried:
  assumes "x \<in> set (db_outbox db)" "ob_ClaimToken x = Some tok" "0 < ob_ID x" "tok \<noteq> []" "\<not> IsZero now"
  shows "retried tb now msg x \<in> set (db_outbox (snd (Fail no_fault (ob_ID x) tok now (now + retryBackoff tb (ob_AttemptCount x)) msg db)))"
proof -
  have "0 < retryBackoff tb (ob_AttemptCount x)" using retryBackoff_pos by blast
  then show ?thesis using assms by (auto simp: Fail_def Let_def set_update_where retried_def)
qed

lemma run_failDeliveries:
  assumes "undisturbed ev"
  shows "map ob_ID (db_outbox (wd_db (snd (run_state (failDeliveries ev tb now msg xs) w)))) = map ob_ID (db_outbox (wd_db w))"
    and "wd_redis (snd (run_state (failDeliveries ev tb now msg xs) w)) = wd_redis w"
    and "y \<in> set (db_outbox (wd_db w)) \<Longrightarrow> ob_ClaimToken y = None \<Longrightarrow>
      y \<in> set (db_outbox (wd_db (snd (run_state (failDeliveries ev tb now msg xs) w))))"
  using assms
  by (induction xs arbitrary: w) (auto simp: run_writes split_beta Fail_outbox split: option.splits)

lemma failDeliveries_retries:
  assumes "undisturbed ev" "\<And>site. ev_Fault ev site = no_fault" "tok \<noteq> []" "\<not> IsZero now"
    and "x \<in> set xs" "x \<in> set (db_outbox (wd_db w))" "distinct (map ob_ID xs)" "0 < ob_ID x"
    and "\<And>y. y \<in> set xs \<Longrightarrow> ob_ClaimToken y = Some tok"
  shows "retried tb now msg x \<in> set (db_outbox (wd_db (snd (run_state (failDeliveries ev tb now msg xs) w))))"
  using assms(5-7,9)
proof (induction xs arbitrary: w)
  case (Cons y ys)
  let ?db1 = "snd (Fail no_fault (ob_ID y) tok now (now + retryBackoff tb (ob_AttemptCount y)) msg (wd_db w))"
  have run: "snd (run_state (failDeliveries ev tb now msg (y # ys)) w) = snd (run_state (failDeliveries ev tb now msg ys) (w\<lparr>wd_db := ?db1\<rparr>))"
    using Cons.prems(4)[of y] assms(1,2) by (simp add: run_writes split_beta)
  show ?case
  proof (cases "y = x")
    case True
    have "retried tb now msg x \<in> set (db_outbox ?db1)"
      using Fail_retried[of x "wd_db w" tok now tb msg] Cons.prems(2) Cons.prems(4)[of x] True assms(3,4,8) by simp
    then show ?thesis unfolding run using run_failDeliveries(3)[OF assms(1)] by (simp add: retried_def)
  next
    case False
    then have "ob_ID x \<noteq> ob_ID y" "x \<in> set ys" using Cons.prems(1,3) by (auto simp: image_iff)
    then show ?thesis unfolding run using Cons Fail_outbox(2) by (intro Cons.IH) auto
  qed
qed simp

text \<open>A pass that claims nothing, or claims under a blank token, acknowledges nothing.\<close>

lemma processDue_idle:
  assumes "undisturbed ev" "outbox_inv (wd_db w)"
    and "ClaimDue (ev_Fault ev ''claim due'') (ev_UUID ev ''claim'') skip (ev_Now ev ''process due'') (blacklist_lease tb)
      (blacklist_batchSize tb) (wd_db w) = (r, db1)"
    and "\<nexists>es. r = Inr es \<and> es \<noteq> [] \<and> TrimSpace (ev_UUID ev ''claim'') \<noteq> []"
  shows "snd (run_state (processDue ev skip tb bp) w) = w\<lparr>wd_db := db1\<rparr>"
    and "map ob_ID (db_outbox db1) = map ob_ID (db_outbox (wd_db w))"
proof -
  have split: "filter (\<lambda>x. claimed x \<and> P x) es = []" if "r = Inr es" "es \<noteq> []" for P es
  proof -
    have "ob_ClaimToken x = Some (ev_UUID ev ''claim'')" if "x \<in> set es" for x
      using claimed_batch(1)[OF assms(2) assms(3)[unfolded \<open>r = Inr es\<close>] that] by (auto simp: lease_row_def)
    then show ?thesis using assms(4) that by (auto simp: filter_empty_conv claimed_def)
  qed
  then show "snd (run_state (processDue ev skip tb bp) w) = w\<lparr>wd_db := db1\<rparr>"
    using assms(1,3) by (auto simp: processDue_def deliverBatch_def run_writes Let_def split: sum.split)
  show "map ob_ID (db_outbox db1) = map ob_ID (db_outbox (wd_db w))"
    using assms(3) by (auto simp: ClaimDue_def Let_def map_update_where lease_row_def split: if_splits)
qed

text \<open>C12: A revocation leaves the outbox in a delivery pass only when the cached state of its token has been replaced
  by a tombstone that lives for the configured time, so the middleware asks the database about that token.\<close>

theorem revocation_acked_once_delivered:
  assumes "undisturbed ev" "outbox_inv (wd_db w)" "x \<in> set (db_outbox (wd_db w))" "ob_TokenID x \<noteq> []"
    and "run_state (processDue ev skip tb bp) w = (d, w')" "ob_ID x \<notin> ob_ID ` set (db_outbox (wd_db w'))"
  shows "due (ev_Now ev ''process due'') skip x \<and> buried (bp_Prefix bp) (ob_TokenID x)
     (ev_Millis ev ''delete auth states'' + px (tombstoneTTL (bp_TombstoneTTL bp))) (wd_redis w')"
proof -
  let ?ms = "ev_Millis ev ''delete auth states''"
  obtain r db1 where claim: "ClaimDue (ev_Fault ev ''claim due'') (ev_UUID ev ''claim'') skip (ev_Now ev ''process due'')
      (blacklist_lease tb) (blacklist_batchSize tb) (wd_db w) = (r, db1)" by fastforce
  have ids: "ob_ID x \<in> ob_ID ` set (db_outbox (wd_db w))" using assms(3) by blast
  have w': "w' = snd (run_state (processDue ev skip tb bp) w)" using assms(5) by simp
  show ?thesis
  proof (cases "\<exists>es. r = Inr es \<and> es \<noteq> [] \<and> TrimSpace (ev_UUID ev ''claim'') \<noteq> []")
    case False
    note idle = processDue_idle[OF assms(1,2) claim False]
    have "map ob_ID (db_outbox (wd_db w')) = map ob_ID (db_outbox (wd_db w))" using idle w' by simp
    then show ?thesis using assms(6) ids by (metis list.set_map)
  next
    case True
    then obtain es where es: "r = Inr es" "es \<noteq> []" and blank: "TrimSpace (ev_UUID ev ''claim'') \<noteq> []" by blast
    note c = claim[unfolded es(1)] and run = run_processDue[OF assms(1,2) es(2) blank claim[unfolded es(1)], of bp]
    note batch = claimed_batch[OF assms(2) c]
    have broken: "ev_Broken ev ''delete auth states'' = None"
    proof (rule ccontr)
      assume "ev_Broken ev ''delete auth states'' \<noteq> None"
      then have "map ob_ID (db_outbox (wd_db w')) = map ob_ID (db_outbox (wd_db w))"
        using run batch(2) run_failDeliveries(1)[OF assms(1)] by (auto simp: w' DeleteAuthStates_def Let_def)
      then show False using assms(6) ids by (metis list.set_map)
    qed
    then have red: "wd_redis w' = tombstones ?ms (bp_Prefix bp) (bp_TombstoneTTL bp) (map ob_TokenID es) (wd_redis w)"
      and db: "wd_db w' = snd (AckMany (ev_Fault ev ''ack delivered'') (map ob_ID es) (ev_UUID ev ''claim'') db1)"
      using run by (simp_all add: w' DeleteAuthStates_def Let_def)
    have "ob_ID x \<in> ob_ID ` set (db_outbox db1)" using ids batch(2) by (metis list.set_map)
    then have "ob_ID x \<in> ob_ID ` set es"
      using assms(6) unfolding db by (auto simp: AckMany_def Let_def split: if_splits)
    then obtain y where y: "y \<in> set es" "ob_ID y = ob_ID x" by auto
    obtain z where z: "z \<in> set (db_outbox (wd_db w))" "ob_ID z = ob_ID y" "ob_TokenID z = ob_TokenID y" "due (ev_Now ev ''process due'') skip z"
      using batch(1)[OF y(1)] by (auto simp: lease_row_def)
    have "z = x" using distinct_map_inj[of ob_ID "db_outbox (wd_db w)" z x] assms(2,3) z y by (simp add: outbox_inv_def)
    then show ?thesis unfolding red using z y(1) assms(4) by (auto intro!: buried_tombstones)
  qed
qed

lemma claims_due:
  assumes "x \<in> set (db_outbox db)" "ob_ID x \<in> set (due_ids now (nat limit) skip db)" "0 < lease" "0 < limit" "\<not> IsZero now"
  obtains es db1 where "ClaimDue no_fault tok skip now lease limit db = (Inr es, db1)" "lease_row tok (now + lease) x \<in> set es"
proof -
  obtain es db1 where c: "ClaimDue no_fault tok skip now lease limit db = (Inr es, db1)"
    using assms(3-5) by (simp add: ClaimDue_def Let_def)
  then have "lease_row tok (now + lease) x \<in> set es"
    using ClaimDue_InrD(3,4)[OF c] assms(1,2) by (auto simp: set_update_where lease_row_def)
  then show thesis using c that by blast
qed

text \<open>The batch of a claim: as many due rows as fit, no other due row before them.\<close>

lemma sorted_prefix_least:
  assumes "x \<in> set (take n (sort_key f xs))" "y \<in> set xs" "y \<notin> set (take n (sort_key f xs))"
  shows "f x \<le> f y"
proof -
  have "y \<in> set (drop n (sort_key f xs))"
    using assms(2,3) by (metis UnE append_take_drop_id set_append set_sort)
  moreover have "sorted (map f (take n (sort_key f xs)) @ map f (drop n (sort_key f xs)))"
    by (metis append_take_drop_id map_append sorted_sort_key)
  ultimately show ?thesis using assms(1) by (auto simp: sorted_append)
qed

lemma due_batch:
  assumes "outbox_inv db" "x \<in> set (db_outbox db)" "ob_ID x \<in> set (due_ids now n skip db)"
  shows "length (due_ids now n skip db) = min n (length (filter (due now skip) (db_outbox db)))"
    and "y \<in> set (db_outbox db) \<Longrightarrow> ob_ID y \<notin> set (due_ids now n skip db) \<Longrightarrow> due now skip y \<Longrightarrow> ob_NextDeliveryAt x \<le> ob_NextDeliveryAt y"
proof -
  let ?key = "\<lambda>x. (ob_NextDeliveryAt x, ob_ExpiresAt x, ob_ID x)" and ?rows = "filter (due now skip) (db_outbox db)"
  show "length (due_ids now n skip db) = min n (length (filter (due now skip) (db_outbox db)))" by (simp add: due_ids_def min.commute)
  obtain z where z: "z \<in> set (take n (sort_key ?key ?rows))" "ob_ID z = ob_ID x" using assms(3) by (auto simp: due_ids_def)
  then have "z \<in> set (db_outbox db)" by (auto dest!: in_set_takeD)
  then have "z = x" using distinct_map_inj[of ob_ID "db_outbox db" z x] assms(1,2) z(2) by (simp add: outbox_inv_def)
  show "ob_NextDeliveryAt x \<le> ob_NextDeliveryAt y"
    if "y \<in> set (db_outbox db)" "ob_ID y \<notin> set (due_ids now n skip db)" "due now skip y"
  proof -
    have "y \<notin> set (take n (sort_key ?key ?rows))" using that(2) by (auto simp: due_ids_def)
    then have "?key z \<le> ?key y" using sorted_prefix_least[OF z(1), of y] that(1,3) by simp
    then show ?thesis using \<open>z = x\<close> by (auto simp: less_eq_prod_def)
  qed
qed

text \<open>Rows a pass did not claim stay as they were.\<close>

lemma failDeliveries_others:
  assumes "undisturbed ev" "y \<in> set (db_outbox (wd_db w))" "ob_ID y \<notin> ob_ID ` set xs"
  shows "y \<in> set (db_outbox (wd_db (snd (run_state (failDeliveries ev tb now msg xs) w))))"
  using assms(2,3)
  by (induction xs arbitrary: w) (auto simp: run_writes split_beta assms(1) Fail_outbox(2) split: option.splits)

lemma processDue_others:
  assumes "undisturbed ev" "outbox_inv (wd_db w)" "es \<noteq> []" "TrimSpace (ev_UUID ev ''claim'') \<noteq> []"
    and "ClaimDue (ev_Fault ev ''claim due'') (ev_UUID ev ''claim'') skip (ev_Now ev ''process due'') (blacklist_lease tb)
      (blacklist_batchSize tb) (wd_db w) = (Inr es, db1)"
    and "y \<in> set (db_outbox (wd_db w))" "ob_ID y \<notin> set (due_ids (ev_Now ev ''process due'') (nat (blacklist_batchSize tb)) skip (wd_db w))"
  shows "y \<in> set (db_outbox (wd_db (snd (run_state (processDue ev skip tb bp) w))))"
proof -
  note run = run_processDue[OF assms(1-5), of bp] and c = ClaimDue_InrD[OF assms(5)]
  have y: "y \<in> set (db_outbox db1)" "ob_ID y \<notin> ob_ID ` set es"
    using assms(6,7) unfolding c(3,4) by (auto simp: set_update_where lease_row_def)
  show ?thesis
  proof (cases "ev_Broken ev ''delete auth states''")
    case None
    then show ?thesis using y run by (auto simp: DeleteAuthStates_def Let_def AckMany_def)
  next
    case (Some n)
    then show ?thesis using y run failDeliveries_others[OF assms(1) _ y(2)] by (simp add: DeleteAuthStates_def Let_def)
  qed
qed

text \<open>What a pass does with a row it claimed.\<close>

lemma claimed_row_forward:
  assumes "undisturbed ev" "\<And>site. ev_Fault ev site = no_fault" "outbox_inv (wd_db w)" "0 < ob_ID x" "ob_TokenID x \<noteq> []"
    and "TrimSpace (ev_UUID ev ''claim'') \<noteq> []" "\<not> IsZero (ev_Now ev ''process due'')"
    and claim: "ClaimDue (ev_Fault ev ''claim due'') (ev_UUID ev ''claim'') skip (ev_Now ev ''process due'') (blacklist_lease tb)
      (blacklist_batchSize tb) (wd_db w) = (Inr es, db1)"
    and x: "lease_row (ev_UUID ev ''claim'') (ev_Now ev ''process due'' + blacklist_lease tb) x \<in> set es"
    and run': "run_state (processDue ev skip tb bp) w = (d, w')"
  shows "if ev_Broken ev ''delete auth states'' = None
    then ob_ID x \<notin> ob_ID ` set (db_outbox (wd_db w')) \<and> buried (bp_Prefix bp) (ob_TokenID x)
      (ev_Millis ev ''delete auth states'' + px (tombstoneTTL (bp_TombstoneTTL bp))) (wd_redis w')
    else \<exists>y\<in>set (db_outbox (wd_db w')). ob_ID y = ob_ID x \<and> ob_TokenID y = ob_TokenID x \<and> ob_ClaimToken y = None
      \<and> ob_AttemptCount y = ob_AttemptCount x + 1
      \<and> ob_NextDeliveryAt y = ev_Now ev ''process due'' + retryBackoff tb (ob_AttemptCount x)"
proof -
  let ?now = "ev_Now ev ''process due''" and ?tok = "ev_UUID ev ''claim''"
  let ?x = "lease_row ?tok (?now + blacklist_lease tb) x"
  have ne: "es \<noteq> []" and tok: "?tok \<noteq> []" using x assms(6) by auto
  note batch = claimed_batch[OF assms(3) claim] and run = run_processDue[OF assms(1,3) ne assms(6) claim, of bp]
  have k: "ob_ID ?x = ob_ID x" "ob_TokenID ?x = ob_TokenID x" "ob_AttemptCount ?x = ob_AttemptCount x" by (simp_all add: lease_row_def)
  have owned: "ob_ClaimToken y = Some ?tok" if "y \<in> set es" for y using batch(1)[OF that] by (auto simp: lease_row_def)
  show ?thesis
  proof (cases "ev_Broken ev ''delete auth states''")
    case None
    then have red: "wd_redis w' = tombstones (ev_Millis ev ''delete auth states'') (bp_Prefix bp) (bp_TombstoneTTL bp) (map ob_TokenID es) (wd_redis w)"
      and db: "wd_db w' = snd (AckMany no_fault (map ob_ID es) ?tok db1)"
      using run assms(2) run' by (simp_all add: DeleteAuthStates_def Let_def)
    have "y = ?x" if "y \<in> set (db_outbox db1)" "ob_ID y = ob_ID x" for y
      using distinct_map_inj[OF batch(3), of y ?x] that batch(4) x k by auto
    then have "ob_ID x \<notin> ob_ID ` set (db_outbox (wd_db w'))"
      using x owned[OF x] k tok ne unfolding db by (auto simp: AckMany_def Let_def image_iff)
    moreover have "ob_TokenID x \<in> set (map ob_TokenID es)" using imageI[OF x, of ob_TokenID] k(2) by simp
    ultimately show ?thesis unfolding red using None assms(5) by (auto intro!: buried_tombstones)
  next
    case (Some n)
    obtain msg r' where w': "w' = snd (run_state (failDeliveries ev tb ?now msg es) (w\<lparr>wd_db := db1, wd_redis := r'\<rparr>))"
      using run run' that[of "tb_ErrorText tb RedisUnavailable"] by (simp add: DeleteAuthStates_def Let_def Some)
    have "retried tb ?now msg ?x \<in> set (db_outbox (wd_db w'))" unfolding w'
      using x batch(4,5) owned k(1) assms(4) by (intro failDeliveries_retries[OF assms(1,2) tok assms(7)]) auto
    then show ?thesis using Some by (intro if_not_P[THEN iffD2] bexI) (simp_all add: retried_def lease_row_def)
  qed
qed

text \<open>C13: A delivery pass over a healthy database takes as many of the due revocations as its batch holds, the
  earliest first, and gets each of them forward: with Redis reachable it is delivered and leaves the outbox;
  otherwise it stays, unclaimed, with one attempt more and due again after the bounded backoff. Every other row,
  also the due ones beyond the batch, stays as it is for the next pass.\<close>

theorem revocation_delivery_progress:
  assumes "undisturbed ev" "\<And>site. ev_Fault ev site = no_fault" "outbox_inv (wd_db w)"
    and "batch = due_ids (ev_Now ev ''process due'') (nat (blacklist_batchSize tb)) skip (wd_db w)"
    and "x \<in> set (db_outbox (wd_db w))" "ob_ID x \<in> set batch" "0 < ob_ID x" "ob_TokenID x \<noteq> []"
    and "TrimSpace (ev_UUID ev ''claim'') \<noteq> []" "\<not> IsZero (ev_Now ev ''process due'')"
    and "run_state (processDue ev skip tb bp) w = (d, w')"
  shows "(if ev_Broken ev ''delete auth states'' = None
    then ob_ID x \<notin> ob_ID ` set (db_outbox (wd_db w')) \<and> buried (bp_Prefix bp) (ob_TokenID x)
      (ev_Millis ev ''delete auth states'' + px (tombstoneTTL (bp_TombstoneTTL bp))) (wd_redis w')
    else \<exists>y\<in>set (db_outbox (wd_db w')). ob_ID y = ob_ID x \<and> ob_TokenID y = ob_TokenID x \<and> ob_ClaimToken y = None
      \<and> ob_AttemptCount y = ob_AttemptCount x + 1
      \<and> ob_NextDeliveryAt y = ev_Now ev ''process due'' + retryBackoff tb (ob_AttemptCount x))
    \<and> length batch = min (nat (blacklist_batchSize tb)) (length (filter (due (ev_Now ev ''process due'') skip) (db_outbox (wd_db w))))
    \<and> (\<forall>y\<in>set (db_outbox (wd_db w)). ob_ID y \<notin> set batch \<longrightarrow> y \<in> set (db_outbox (wd_db w'))
         \<and> (due (ev_Now ev ''process due'') skip y \<longrightarrow> ob_NextDeliveryAt x \<le> ob_NextDeliveryAt y))"
proof -
  let ?now = "ev_Now ev ''process due''" and ?tok = "ev_UUID ev ''claim''"
  have pos: "0 < blacklist_lease tb" "0 < blacklist_batchSize tb"
    by (simp_all add: blacklist_lease_def blacklist_batchSize_def DurationOrDefault_def defaultTokenBlacklistLease_def
        defaultTokenBlacklistBatchSize_def duration_defs)
  let ?x = "lease_row ?tok (?now + blacklist_lease tb) x"
  obtain es db1 where claim: "ClaimDue (ev_Fault ev ''claim due'') ?tok skip ?now (blacklist_lease tb) (blacklist_batchSize tb) (wd_db w) = (Inr es, db1)"
    and x: "?x \<in> set es"
    using claims_due[OF assms(5,6)[unfolded assms(4)] pos assms(10)] assms(2) by metis
  then have ne: "es \<noteq> []" by auto
  note rest = processDue_others[OF assms(1,3) ne assms(9) claim] and counted = due_batch[OF assms(3,5,6)[unfolded assms(4)]]
  have "if ev_Broken ev ''delete auth states'' = None
    then ob_ID x \<notin> ob_ID ` set (db_outbox (wd_db w')) \<and> buried (bp_Prefix bp) (ob_TokenID x)
      (ev_Millis ev ''delete auth states'' + px (tombstoneTTL (bp_TombstoneTTL bp))) (wd_redis w')
    else \<exists>y\<in>set (db_outbox (wd_db w')). ob_ID y = ob_ID x \<and> ob_TokenID y = ob_TokenID x \<and> ob_ClaimToken y = None
      \<and> ob_AttemptCount y = ob_AttemptCount x + 1 \<and> ob_NextDeliveryAt y = ?now + retryBackoff tb (ob_AttemptCount x)"
    by (rule claimed_row_forward[OF assms(1-3,7,8,9,10) claim x assms(11)])
  then show ?thesis using rest[of _ bp, unfolded assms(11) snd_conv] counted assms(4) by blast
qed

section \<open>Password-reset mails\<close>

text \<open>The row a job leaves in the audit trail: none without a trail or when the write fails.\<close>

definition trail_row :: "env \<Rightarrow> ForgotPassword \<Rightarrow> audit_log \<Rightarrow> audit_log list" where
  "trail_row ev fp row = (if fp_Audit fp \<and> \<not> ev_Fault ev ''audit'' ''create audit log'' then [row] else [])"

lemma run_forgot_audit:
  assumes "undisturbed ev"
  shows "run_state (forgot_audit_write ev fp job u b c detail) w = ((), w\<lparr>wd_db := (wd_db w)\<lparr>db_audit :=
    db_audit (wd_db w) @ trail_row ev fp (forgot_audit (ev_Now ev ''audit'') job u b c detail)\<rparr>\<rparr>)"
  using assms by (simp add: forgot_audit_write_def run_writes CreateAuditLog_def trail_row_def)

text \<open>The stage at which the delivery of a job failed, with the account and the code its row names.\<close>

definition failed_stage :: "env \<Rightarrow> ForgotPassword \<Rightarrow> ForgotPasswordJob \<Rightarrow> world \<Rightarrow> int option \<Rightarrow> string \<Rightarrow> int \<Rightarrow> bool" where
  "failed_stage ev fp job w u stage code \<longleftrightarrow>
    (case FindAuthUserByLoginIdentifier (ev_Fault ev ''find account'') (wd_db w) (fj_Email job) of
       Inl e \<Rightarrow> e \<noteq> ErrNotFound \<and> u = None \<and> stage = ''lookup'' \<and> code = CodeInternal
     | Inr user \<Rightarrow> u = Some (us_ID user) \<and>
         (case GenerateVerificationCode ev ''generate code'' of
            None \<Rightarrow> stage = ''generate_code'' \<and> code = CodeInternal
          | Some c \<Rightarrow>
              (case fst (SaveVerificationCode (ev_Net ev ''save code'') (ev_Millis ev ''save code'') (fp_Prefix fp)
                      VerificationPurposeResetPassword (StripSubaddress (fp_Lower fp) (fj_Email job)) c forgotPasswordCodeTTL (wd_redis w)) of
                 Inl _ \<Rightarrow> stage = ''save_code'' \<and> code = CodeDependencyUnavailable
               | Inr _ \<Rightarrow> \<not> ev_Sent ev ''send mail'' \<and> stage = ''smtp'' \<and> code = CodeEmailDeliveryFailed)))"

lemma failed_stage_cong:
  assumes "wd_db w1 = wd_db w" "wd_redis w1 = wd_redis w"
  shows "failed_stage ev fp job w1 u stage code = failed_stage ev fp job w u stage code"
  unfolding failed_stage_def assms ..

lemma mailed_code_verifies:
  assumes "SaveVerificationCode n ms pre VerificationPurposeResetPassword (StripSubaddress lx email) code forgotPasswordCodeTTL r = (Inr (), wd_redis w)"
    and "ss_Prefix s = pre" "ss_Lower s = lx" "undisturbed ev'" "ev_Net ev' ''verify code'' = Delivered"
    and "ev_Millis ev' ''verify code'' < ms + 300000"
  shows "fst (run_state (verifyCode ev' s VerificationPurposeResetPassword email code) w) = Inr ()"
    and "wd_db (snd (run_state (verifyCode ev' s VerificationPurposeResetPassword email code) w)) = wd_db w"
    and "code \<noteq> []"
proof -
  note c = SaveVerificationCode_state[OF assms(1)]
  have ttl: "Milliseconds forgotPasswordCodeTTL = 300000" by (simp add: forgotPasswordCodeTTL_def Milliseconds_def duration_defs)
  have "run_state (verifyCode ev' s VerificationPurposeResetPassword email code) w = (Inr (), w\<lparr>wd_redis :=
      cmd_del (VerificationCodeAttempt (ss_Prefix s) VerificationPurposeResetPassword (StripSubaddress (ss_Lower s) email))
        (cmd_del (VerifyCode (ss_Prefix s) VerificationPurposeResetPassword (StripSubaddress (ss_Lower s) email)) (wd_redis w))\<rparr>)"
    using c ttl assms(2-6)
    by (intro verifyCode_match[where d = "ms + Milliseconds forgotPasswordCodeTTL"])
      (simp_all add: code_state_def VerificationPurposeResetPassword_def)
  then show "fst (run_state (verifyCode ev' s VerificationPurposeResetPassword email code) w) = Inr ()"
    and "wd_db (snd (run_state (verifyCode ev' s VerificationPurposeResetPassword email code) w)) = wd_db w" by simp_all
  show "code \<noteq> []" using assms(1) by (auto simp: SaveVerificationCode_def)
qed

text \<open>A request with a code that verifies, for an open account and a new password that can be hashed.\<close>

definition sound_reset :: "env \<Rightarrow> session_service \<Rightarrow> ResetPasswordInput \<Rightarrow> user \<Rightarrow> bool" where
  "sound_reset ev s input user \<longleftrightarrow> undisturbed ev \<and> (\<forall>site. ev_Fault ev site = no_fault) \<and> us_State user \<noteq> UserStateDeleted
     \<and> MinPasswordLength \<le> length (rs_Password input)
     \<and> verifyPassword ev s ''compare password'' (rs_Password input) (us_PasswordHash user) \<noteq> Inr ()
     \<and> \<not> callerGone ev ''compare password'' \<and> is_ok (hashPassword ev s ''hash password'' (rs_Password input))"

lemma revokeAllByUser_no_fault: "\<exists>es db'. revokeAllByUserInTransaction no_fault u t reason db = Inr (es, db')"
  by (simp add: revokeAllByUserInTransaction_def enqueueBlacklistInTransaction_def Let_def bindE_def)

lemma replacePassword_healthy:
  assumes "undisturbed ev" "\<And>site. ev_Fault ev site = no_fault" "is_ok (hashPassword ev s ''hash password'' password)"
    and "user \<in> set (db_users (wd_db w))"
  shows "\<exists>w'. run_state (replacePassword ev s user password reason email failure) w = (Inr (), w')"
proof -
  obtain h where h: "hashPassword ev s ''hash password'' password = Inr h" using assms(3) by (cases "hashPassword ev s ''hash password'' password") auto
  have "rows_affected (\<lambda>u. us_ID u = us_ID user) (db_users (wd_db w)) \<noteq> 0"
    using assms(4) by (auto simp: rows_affected_def filter_empty_conv)
  moreover obtain es db' where "revokeAllByUserInTransaction no_fault (us_ID user) (ev_Now ev ''update password'') reason
      (wd_db w\<lparr>db_users := update_where (\<lambda>u. us_ID u = us_ID user)
         (\<lambda>u. u\<lparr>us_PasswordHash := h, us_TokenVersion := us_TokenVersion u + 1\<rparr>) (db_users (wd_db w))\<rparr>) = Inr (es, db')"
    using revokeAllByUser_no_fault by blast
  ultimately have "UpdatePasswordAndRevokeSessions no_fault (us_ID user) h (ev_Now ev ''update password'') reason (wd_db w) = (Inr es, db')"
    by (simp add: UpdatePasswordAndRevokeSessions_def transaction_no_fault updatePasswordBody_def Let_def)
  then show ?thesis using assms(1,2) h by (simp add: replacePassword_def Let_def run_writes split_beta)
qed

lemma ResetPassword_accepts:
  assumes "sound_reset ev s input user" "normalizeIdentifier (ss_Lower s) (rs_Email input) = email" "EmailFormat email" "email \<noteq> []" "rs_Code input \<noteq> []"
    and v: "fst (run_state (verifyCode ev s VerificationPurposeResetPassword email (rs_Code input)) w) = Inr ()"
      "wd_db (snd (run_state (verifyCode ev s VerificationPurposeResetPassword email (rs_Code input)) w)) = wd_db w"
    and found: "FindAuthUserByLoginIdentifier no_fault (wd_db w) email = Inr user" "user \<in> set (db_users (wd_db w))"
  shows "fst (run_state (ResetPassword ev s input) w) = Inr email"
proof -
  let ?w1 = "snd (run_state (verifyCode ev s VerificationPurposeResetPassword email (rs_Code input)) w)"
  have s: "undisturbed ev" "\<And>site. ev_Fault ev site = no_fault" "us_State user \<noteq> UserStateDeleted"
    "rs_Password input \<noteq> []" "MinPasswordLength \<le> length (rs_Password input)"
    "verifyPassword ev s ''compare password'' (rs_Password input) (us_PasswordHash user) \<noteq> Inr ()" "\<not> callerGone ev ''compare password''"
    "is_ok (hashPassword ev s ''hash password'' (rs_Password input))"
    using assms(1) by (auto simp: sound_reset_def MinPasswordLength_def)
  obtain w' where "run_state (replacePassword ev s user (rs_Password input) RevokeReasonPasswordReset email ''reset password failed'') ?w1 = (Inr (), w')"
    using replacePassword_healthy[OF s(1,2,8), of user ?w1] found(2) unfolding v(2) by blast
  then show ?thesis using s assms(2-5) v found(1)
    by (simp add: ResetPassword_def run_bindM split_beta not_less)
qed

text \<open>How the processing of a job ends.\<close>

lemma forgot_process_cases:
  assumes "undisturbed ev" "w' = snd (run_state (forgot_process ev fp job) w)"
  obtains (gone) "FindAuthUserByLoginIdentifier (ev_Fault ev ''find account'') (wd_db w) (fj_Email job) = Inl ErrNotFound" "w' = w"
  | (failed) u stage c w1 where "w' = snd (run_state (auditDeliveryFailure ev fp job u stage c) w1)" "wd_jobs w1 = wd_jobs w" "wd_db w1 = wd_db w"
      "failed_stage ev fp job w u stage c"
  | (mailed) user code r where "FindAuthUserByLoginIdentifier (ev_Fault ev ''find account'') (wd_db w) (fj_Email job) = Inr user"
      "SaveVerificationCode (ev_Net ev ''save code'') (ev_Millis ev ''save code'') (fp_Prefix fp) VerificationPurposeResetPassword
        (StripSubaddress (fp_Lower fp) (fj_Email job)) code forgotPasswordCodeTTL (wd_redis w) = (Inr (), r)"
      "w' = snd (run_state (forgot_audit_write ev fp job (Some (us_ID user)) True None None) (w\<lparr>wd_redis := r,
        wd_mail := wd_mail w @ [\<lparr>ml_To = fj_Email job, ml_Code = code, ml_Purpose = VerificationPurposeResetPassword\<rparr>]\<rparr>))"
proof (cases "FindAuthUserByLoginIdentifier (ev_Fault ev ''find account'') (wd_db w) (fj_Email job)")
  case (Inl e)
  show thesis
  proof (cases "e = ErrNotFound")
    case True
    then show thesis using Inl assms gone by (simp add: forgot_process_def)
  next
    case False
    then show thesis using Inl assms by (intro failed[of None _ _ w]) (simp_all add: forgot_process_def failed_stage_def)
  qed
next
  case (Inr user)
  show thesis
  proof (cases "GenerateVerificationCode ev ''generate code''")
    case None
    then show thesis using Inr assms by (intro failed[of "Some (us_ID user)" _ _ w]) (simp_all add: forgot_process_def failed_stage_def)
  next
    case (Some code)
    obtain x r where save: "SaveVerificationCode (ev_Net ev ''save code'') (ev_Millis ev ''save code'') (fp_Prefix fp) VerificationPurposeResetPassword
        (StripSubaddress (fp_Lower fp) (fj_Email job)) code forgotPasswordCodeTTL (wd_redis w) = (x, r)" by (rule prod.exhaust)
    note run = forgot_process_def run_writes SendVerificationCode_def process_step_def Inr Some save assms
    let ?w1 = "w\<lparr>wd_redis := r, wd_mail := wd_mail w @ [\<lparr>ml_To = fj_Email job, ml_Code = code, ml_Purpose = VerificationPurposeResetPassword\<rparr>]\<rparr>"
    consider e where "x = Inl e" | "x = Inr ()" "\<not> ev_Sent ev ''send mail''" | "x = Inr ()" "ev_Sent ev ''send mail''"
      by (cases x) auto
    then show thesis
    proof cases
      case 1
      then show thesis by (intro failed[of "Some (us_ID user)" _ _ "w\<lparr>wd_redis := r\<rparr>"]) (simp_all add: run failed_stage_def)
    next
      case 2
      then show thesis by (intro failed[of "Some (us_ID user)" _ _ ?w1]) (simp_all add: run failed_stage_def)
    next
      case 3
      then show thesis using save Inr by (intro mailed[of user code r]) (simp_all add: run)
    qed
  qed
qed

lemma FindAuthUserByLoginIdentifier_found:
  assumes "FindAuthUserByLoginIdentifier flt db e = Inr user"
  shows "user \<in> set (db_users db)"
    and "db_users db' = db_users db \<Longrightarrow> db_identities db' = db_identities db \<Longrightarrow> FindAuthUserByLoginIdentifier no_fault db' e = Inr user"
  using assms
  by (auto simp: FindAuthUserByLoginIdentifier_def find_or_missing_def stmt_Inr_iff stmt_no_fault dest: find_SomeD split: option.splits)

text \<open>C38: A password-reset job the worker takes ends in one of three ways. Its account is gone, and nothing happens.
  Or a stage fails (look-up, code, code store or mail relay), and a row naming the stage is offered to the audit
  trail. Or a mail goes out with a code, a success row is offered to the trail, and for five minutes the reset
  endpoint accepts that code for that address, as long as the account is open, the new password is another one of
  sufficient length and can be hashed, and the endpoint's own calls succeed. A row offered to the trail is stored
  exactly when the worker has a trail and the write does not fail.\<close>

theorem forgot_job_accounted:
  assumes "undisturbed ev" "wd_jobs w = job # jobs" "run_state (forgot_turn ev fp) w = (u, w')"
  shows "wd_jobs w' = jobs \<and>
    (FindAuthUserByLoginIdentifier (ev_Fault ev ''find account'') (wd_db w) (fj_Email job) = Inl ErrNotFound \<and> w' = w\<lparr>wd_jobs := jobs\<rparr>
     \<or> (\<exists>user stage code. failed_stage ev fp job w user stage code
          \<and> db_audit (wd_db w') = db_audit (wd_db w) @ trail_row ev fp (forgot_audit (ev_Now ev ''audit'') job user False (Some code)
              (Some [(''stage'', JString stage), (''email'', JString (fj_Email job))])))
     \<or> (\<exists>user code. FindAuthUserByLoginIdentifier (ev_Fault ev ''find account'') (wd_db w) (fj_Email job) = Inr user
          \<and> wd_mail w' = wd_mail w @ [\<lparr>ml_To = fj_Email job, ml_Code = code, ml_Purpose = VerificationPurposeResetPassword\<rparr>]
          \<and> db_audit (wd_db w') = db_audit (wd_db w)
              @ trail_row ev fp (forgot_audit (ev_Now ev ''audit'') job (Some (us_ID user)) True None None)
          \<and> (\<forall>s ev' input. ss_Prefix s = fp_Prefix fp \<and> ss_Lower s = fp_Lower fp \<and> sound_reset ev' s input user
               \<and> ev_Net ev' ''verify code'' = Delivered \<and> ev_Millis ev' ''verify code'' < ev_Millis ev ''save code'' + 300000
               \<and> rs_Code input = code \<and> normalizeIdentifier (ss_Lower s) (rs_Email input) = fj_Email job
               \<and> EmailFormat (fj_Email job) \<and> fj_Email job \<noteq> []
               \<longrightarrow> fst (run_state (ResetPassword ev' s input) w') = Inr (fj_Email job))))"
proof -
  note audit = run_forgot_audit[OF assms(1)]
  have "w' = snd (run_state (forgot_process ev fp job) (w\<lparr>wd_jobs := jobs\<rparr>))"
    using assms by (simp add: forgot_turn_def process_step_def take_job_def)
  with assms(1) show ?thesis
  proof (cases rule: forgot_process_cases)
    case gone
    then show ?thesis by simp
  next
    case (failed user stage c w1)
    have "wd_jobs w' = jobs" "db_audit (wd_db w') = db_audit (wd_db w) @ trail_row ev fp (forgot_audit (ev_Now ev ''audit'') job user False (Some c)
        (Some [(''stage'', JString stage), (''email'', JString (fj_Email job))]))"
      using failed by (simp_all add: auditDeliveryFailure_def audit)
    moreover have "failed_stage ev fp job w user stage c" using failed(4) by (subst (asm) failed_stage_cong[of _ w]) simp_all
    ultimately show ?thesis by blast
  next
    case (mailed user code r)
    have facts: "wd_jobs w' = jobs" "wd_redis w' = r"
      "wd_mail w' = wd_mail w @ [\<lparr>ml_To = fj_Email job, ml_Code = code, ml_Purpose = VerificationPurposeResetPassword\<rparr>]"
      "db_audit (wd_db w') = db_audit (wd_db w) @ trail_row ev fp (forgot_audit (ev_Now ev ''audit'') job (Some (us_ID user)) True None None)"
      and rows: "db_users (wd_db w') = db_users (wd_db w)" "db_identities (wd_db w') = db_identities (wd_db w)"
      using mailed(3) by (simp_all add: audit)
    note found = FindAuthUserByLoginIdentifier_found[OF mailed(1)[simplified]]
    note code = mailed_code_verifies[OF mailed(2)[folded facts(2), simplified]]
    have reset: "fst (run_state (ResetPassword ev' s input) w') = Inr (fj_Email job)"
      if "ss_Prefix s = fp_Prefix fp" "ss_Lower s = fp_Lower fp" "sound_reset ev' s input user"
        "ev_Net ev' ''verify code'' = Delivered" "ev_Millis ev' ''verify code'' < ev_Millis ev ''save code'' + 300000"
        "rs_Code input = code" "normalizeIdentifier (ss_Lower s) (rs_Email input) = fj_Email job" "EmailFormat (fj_Email job)" "fj_Email job \<noteq> []"
      for s ev' input
    proof -
      have "undisturbed ev'" using that(3) by (simp add: sound_reset_def)
      note v = code[OF that(1,2) this that(4,5)]
      show ?thesis
        using v found(1) found(2)[OF rows] rows(1) by (intro ResetPassword_accepts[OF that(3,7-9)]) (simp_all add: that(6))
    qed
    show ?thesis by (intro conjI disjI2 exI[of _ user] exI[of _ code] allI impI facts mailed(1)[simplified])
        (elim conjE, rule reset)
  qed
qed

section \<open>Evicted devices\<close>

text \<open>An ended session stays ended, and the identity of the refresh rows is kept, under every revocation.\<close>

definition family_dead :: "string \<Rightarrow> database \<Rightarrow> bool" where
  "family_dead f db \<longleftrightarrow> (\<forall>r\<in>set (db_refresh db). rt_FamilyID r = f \<longrightarrow> rt_RevokedAt r \<noteq> None)
     \<and> (\<forall>a\<in>set (db_access db). at_FamilyID a = Some f \<longrightarrow> at_RevokedAt a \<noteq> None)"

definition refresh_ids :: "database \<Rightarrow> (string \<times> int \<times> string) set" where
  "refresh_ids db = (\<lambda>r. (rt_TokenHash r, rt_UserID r, rt_FamilyID r)) ` set (db_refresh db)"

interpretation ended: revocation_invariant "family_dead f" for f
proof
  fix PA PR t reason u c au and db :: database
  assume I: "family_dead f db"
  then show "family_dead f (cut_tokens PA PR t reason db)"
    by (auto simp: family_dead_def db_refresh_cut_tokens db_access_cut_tokens revoke_refresh_def revoke_access_def
        elim!: in_update_whereE split: if_splits)
  show "family_dead f (burn_codes u t db)" using I by (simp add: family_dead_def burn_codes_def)
  show "family_dead f (db\<lparr>db_grants := delete_where (\<lambda>g. gr_UserID g = u \<and> gr_ClientID g = c) (db_grants db),
        db_authorizations := delete_where (\<lambda>z. az_UserID z = u \<and> az_ClientID z = c) (db_authorizations db)\<rparr>)"
    using I by (simp add: family_dead_def)
  show "family_dead f (db\<lparr>db_audit := au\<rparr>)" using I by (simp add: family_dead_def)
qed

interpretation identities: revocation_invariant "\<lambda>db. refresh_ids db = K" for K
  by unfold_locales (simp_all add: refresh_ids_def db_refresh_cut_tokens revoke_refresh_def image_update_where burn_codes_def)

lemma eviction_resolved:
  assumes "ResolveDeviceEviction flt u h f g e now db = ((True, None), db')"
  shows "family_dead g db' \<or> (h, u, f) \<notin> refresh_ids db \<and> e \<le> now"
proof -
  let ?body = "resolveEvictionBody flt u h f g e now"
  have "?body db = Inr (True, db')"
    using assms by (cases rule: transaction_cases[of ?body db flt]) (auto simp: ResolveDeviceEviction_def Let_def split: if_splits)
  then show ?thesis using cut_family_dead[of _ g now db]
    by (auto simp: resolveEvictionBody_def stmt_Inr_iff bindE_eq_Inr_iff list_ex_iff family_dead_def refresh_ids_def not_less
        split: if_splits dest!: revokeFamily_cut)
qed

text \<open>The journal of evictions has no deadline.\<close>

definition lasting :: "string \<Rightarrow> redis \<Rightarrow> bool" where
  "lasting pre r \<longleftrightarrow> (\<forall>z d. rs_zset r (pending_key pre) = Some (z, d) \<longrightarrow> d = None)"

definition journal :: "string \<Rightarrow> redis \<Rightarrow> string set" where
  "journal pre r = (case rs_zset r (pending_key pre) of None \<Rightarrow> {} | Some (z, _) \<Rightarrow> snd ` set z)"

lemma zset_journal: "lasting pre r \<Longrightarrow> snd ` set (zset now (pending_key pre) r) = journal pre r"
  by (auto simp: lasting_def journal_def zset_def value_at_def entry_def alive_def split: option.splits)

lemma AckDeviceEviction_journal:
  assumes "lasting pre r"
  shows "lasting pre (snd (AckDeviceEviction n now pre m r))" "journal pre r \<subseteq> insert m (journal pre (snd (AckDeviceEviction n now pre m r)))"
proof -
  let ?r = "cmd_zrem now (pending_key pre) m r"
  have l: "lasting pre ?r" using assms
    by (auto simp: lasting_def cmd_zrem_def zset_write_def write_at_def entry_def split: option.splits if_splits)
  have "snd ` set (zset now (pending_key pre) ?r) = snd ` set (zset now (pending_key pre) r) - {m}"
    by (auto simp: cmd_zrem_def zset_write_def zset_def value_at_def write_at_def entry_def alive_def filter_empty_conv split: option.splits if_splits)
  then have "journal pre ?r = journal pre r - {m}" using zset_journal[OF l] zset_journal[OF assms] by simp
  then show "lasting pre (snd (AckDeviceEviction n now pre m r))" "journal pre r \<subseteq> insert m (journal pre (snd (AckDeviceEviction n now pre m r)))"
    using l assms by (cases n; auto simp: AckDeviceEviction_def call_def)+
qed

text \<open>One entry of a pass: the store after its resolution, and Redis after its acknowledgement.\<close>

definition resolution :: "env \<Rightarrow> DeviceEviction \<Rightarrow> string \<Rightarrow> database \<Rightarrow> (bool \<times> repo_error option) \<times> database" where
  "resolution ev item receipt = ResolveDeviceEviction (ev_Fault ev (eviction_site ''resolve'' receipt)) (de_UserID item) (de_TokenHash item)
     (de_SourceFamily item) (de_Evicted item) (de_ExpiresAt item * Second) (ev_Now ev (eviction_site ''resolve'' receipt))"

lemma run_resolve_Cons:
  assumes "undisturbed ev" "lasting (dw_Prefix dw) (wd_redis w)"
  obtains w1 where "run_state (resolve_evictions ev dw ((item, receipt) # items)) w = run_state (resolve_evictions ev dw items) w1"
    "wd_db w1 = snd (resolution ev item receipt (wd_db w))" "lasting (dw_Prefix dw) (wd_redis w1)"
    "journal (dw_Prefix dw) (wd_redis w) \<subseteq> insert receipt (journal (dw_Prefix dw) (wd_redis w1))"
    "fst (resolution ev item receipt (wd_db w)) \<noteq> (True, None) \<Longrightarrow> wd_redis w1 = wd_redis w"
proof (cases "fst (resolution ev item receipt (wd_db w)) = (True, None)")
  case True
  then show thesis using assms AckDeviceEviction_journal[OF assms(2)]
    by (intro that[of "w\<lparr>wd_db := snd (resolution ev item receipt (wd_db w)), wd_redis := snd (AckDeviceEviction
        (ev_Net ev (eviction_site ''ack'' receipt)) (ev_Millis ev (eviction_site ''ack'' receipt)) (dw_Prefix dw) receipt (wd_redis w))\<rparr>"])
      (simp_all add: run_writes resolution_def Let_def split_beta)
next
  case False
  then show thesis using assms
    by (intro that[of "w\<lparr>wd_db := snd (resolution ev item receipt (wd_db w))\<rparr>"])
      (auto simp: run_writes resolution_def Let_def split_beta prod_eq_iff)
qed

lemma resolve_evictions_dead:
  assumes "undisturbed ev" "lasting (dw_Prefix dw) (wd_redis w)" "family_dead f (wd_db w)"
  shows "family_dead f (wd_db (snd (run_state (resolve_evictions ev dw items) w)))"
  using assms(2,3)
proof (induction items arbitrary: w)
  case (Cons x items)
  obtain item receipt where x: "x = (item, receipt)" by (cases x)
  from run_resolve_Cons[OF assms(1) Cons.prems(1), of item receipt items]
  obtain w1 where w1: "run_state (resolve_evictions ev dw (x # items)) w = run_state (resolve_evictions ev dw items) w1"
    "wd_db w1 = snd (resolution ev item receipt (wd_db w))" "lasting (dw_Prefix dw) (wd_redis w1)" unfolding x by metis
  have "family_dead f (wd_db w1)" unfolding w1(2) resolution_def by (rule ended.ResolveDeviceEviction[OF Cons.prems(2)])
  then show ?case unfolding w1(1) by (rule Cons.IH[OF w1(3)])
qed simp

lemma resolve_evictions_settle:
  assumes "undisturbed ev" "lasting (dw_Prefix dw) (wd_redis w)" "m \<in> journal (dw_Prefix dw) (wd_redis w)"
    and "m \<notin> journal (dw_Prefix dw) (wd_redis (snd (run_state (resolve_evictions ev dw items) w)))"
  shows "\<exists>item. (item, m) \<in> set items \<and> (family_dead (de_Evicted item) (wd_db (snd (run_state (resolve_evictions ev dw items) w)))
    \<or> (de_TokenHash item, de_UserID item, de_SourceFamily item) \<notin> refresh_ids (wd_db w)
      \<and> de_ExpiresAt item * Second \<le> ev_Now ev (eviction_site ''resolve'' m))"
  using assms(2-4)
proof (induction items arbitrary: w)
  case (Cons x items)
  obtain item receipt where x: "x = (item, receipt)" by (cases x)
  from run_resolve_Cons[OF assms(1) Cons.prems(1), of item receipt items]
  obtain w1 where w1: "run_state (resolve_evictions ev dw (x # items)) w = run_state (resolve_evictions ev dw items) w1"
    "wd_db w1 = snd (resolution ev item receipt (wd_db w))" "lasting (dw_Prefix dw) (wd_redis w1)"
    "journal (dw_Prefix dw) (wd_redis w) \<subseteq> insert receipt (journal (dw_Prefix dw) (wd_redis w1))"
    "fst (resolution ev item receipt (wd_db w)) \<noteq> (True, None) \<longrightarrow> wd_redis w1 = wd_redis w" unfolding x by metis
  have ids: "refresh_ids (wd_db w1) = refresh_ids (wd_db w)"
    unfolding w1(2) resolution_def by (rule identities.ResolveDeviceEviction) simp
  show ?case
  proof (cases "m \<in> journal (dw_Prefix dw) (wd_redis w1)")
    case True
    then show ?thesis using Cons.IH[OF w1(3) True] Cons.prems(3) unfolding w1(1) ids by auto
  next
    case False
    then have m: "m = receipt" "resolution ev item receipt (wd_db w) = ((True, None), wd_db w1)"
      using w1(2,4,5) Cons.prems(2) by (auto simp: prod_eq_iff)
    have "(item, m) \<in> set (x # items)" using x m(1) by simp
    then show ?thesis
      using eviction_resolved[OF m(2)[unfolded resolution_def]] resolve_evictions_dead[OF assms(1) w1(3), of "de_Evicted item" items] m(1)
      unfolding w1(1) by blast
  qed
qed simp

lemma decode_all_set: "decode_all dec vs = Inr xs \<Longrightarrow> (x, v) \<in> set xs \<Longrightarrow> dec v = Some x"
  by (induction vs arbitrary: xs) (auto split: option.splits simp: bindE_eq_Inr_iff)

text \<open>C14: An eviction leaves the journal in a pass of the worker only when every token of the evicted family is
  revoked, or when no refresh row of the issuance that caused the eviction is stored at the pass and the expiry of
  that issuance has passed. The second case covers an issuance that never reached the database; it also holds of one
  whose row was rotated away and has been swept by retention, and then the evicted session may still be live.\<close>

theorem eviction_settled:
  assumes "undisturbed ev" "lasting (dw_Prefix dw) (wd_redis w)" "run_state (evictions_process ev dw offset) w = (offset', w')"
    and "m \<in> journal (dw_Prefix dw) (wd_redis w)" "m \<notin> journal (dw_Prefix dw) (wd_redis w')"
  shows "\<exists>item. cj_eviction_decode (dw_Codec dw) m = Some item \<and> (family_dead (de_Evicted item) (wd_db w')
    \<or> (de_TokenHash item, de_UserID item, de_SourceFamily item) \<notin> refresh_ids (wd_db w)
      \<and> de_ExpiresAt item * Second \<le> ev_Now ev (eviction_site ''resolve'' m))"
proof -
  obtain items where items: "PendingDeviceEvictions (dw_Codec dw) (ev_Net ev ''pending evictions'') (ev_Millis ev ''pending evictions'')
      (dw_Prefix dw) offset 100 (wd_redis w) = Inr items"
    using assms(1,3-5) by (auto simp: evictions_process_def split: sum.splits)
  then have w': "w' = snd (run_state (resolve_evictions ev dw items) w)"
    using assms(1,3) by (auto simp: evictions_process_def split_beta)
  have "cj_eviction_decode (dw_Codec dw) m = Some item" if "(item, m) \<in> set items" for item
    using items that by (auto simp: PendingDeviceEvictions_def bindE_eq_Inr_iff intro: decode_all_set)
  then show ?thesis using resolve_evictions_settle[OF assms(1,2,4), of items] assms(5) unfolding w' by blast
qed

end
