(* ===== verification/Session_Workers_Witnesses.thy ===== *)
theory Session_Workers_Witnesses
  imports Session_Workers_Properties Session_Witnesses
begin

text \<open>The background workers on concrete queues and journals.\<close>

section \<open>Deliveries\<close>

definition sample_blacklist :: TokenBlacklist where
  "sample_blacklist = \<lparr>tb_Outbox = True, tb_AuthState = Some \<lparr>bp_Prefix = ''p'', bp_TombstoneTTL = 0\<rparr>, tb_Interval = 0, tb_Lease = 0,
     tb_BatchSize = 0, tb_MaxBackoff = 0, tb_CleanupInterval = 0, tb_ErrorText = (\<lambda>_. ''down'')\<rparr>"

abbreviation sample_port :: blacklist_port where
  "sample_port \<equiv> \<lparr>bp_Prefix = ''p'', bp_TombstoneTTL = 0\<rparr>"

lemma sample_settings [simp]: "blacklist_batchSize sample_blacklist = 100" "blacklist_lease sample_blacklist = 30 * Second"
  by (simp_all add: blacklist_batchSize_def blacklist_lease_def DurationOrDefault_def sample_blacklist_def
      defaultTokenBlacklistBatchSize_def defaultTokenBlacklistLease_def)

lemma sample_queue_simps [simp]: "outbox_inv sample_queue" "db_outbox sample_queue = [sample_row]" "ob_ID sample_row = 1"
  "ob_TokenID sample_row = ''j''" "due 200 (\<lambda>_. False) sample_row"
  by (simp_all add: outbox_inv_def sample_queue_def sample_row_def due_def)

lemma sample_pass: "db_outbox (wd_db (snd (run_state (processDue quiet (\<lambda>_. False) sample_blacklist sample_port) (world_of sample_queue)))) = []"
proof -
  let ?x = "lease_row ''u'' (200 + 30 * Second) sample_row"
  have claim: "ClaimDue (ev_Fault quiet ''claim due'') (ev_UUID quiet ''claim'') (\<lambda>_. False) (ev_Now quiet ''process due'')
      (blacklist_lease sample_blacklist) (blacklist_batchSize sample_blacklist) (wd_db (world_of sample_queue))
      = (Inr [?x], sample_queue\<lparr>db_outbox := [?x]\<rparr>)"
    by (simp add: ClaimDue_def Let_def due_ids_def update_where_def IsZero_def zeroTime_def duration_defs lease_row_def)
  have "ob_ID ?x = 1" "ob_ClaimToken ?x = Some ''u''" by (simp_all add: lease_row_def)
  then show ?thesis using run_processDue[OF undisturbed_quiet _ _ _ claim, of sample_port]
    by (simp add: DeleteAuthStates_def Let_def AckMany_def delete_where_def)
qed

theorem revocation_acked_once_delivered_witness:
  "buried ''p'' ''j'' (px (tombstoneTTL 0))
     (wd_redis (snd (run_state (processDue quiet (\<lambda>_. False) sample_blacklist sample_port) (world_of sample_queue))))"
  using revocation_acked_once_delivered[OF undisturbed_quiet, of "world_of sample_queue" sample_row "\<lambda>_. False" sample_blacklist sample_port]
    sample_pass by (simp add: prod_eq_iff) (simp add: quiet_def)

text \<open>Two due rows and a batch of one: with Redis down the earlier row waits for one second after its first failure,
  the later one stays as it is.\<close>

definition cut_off :: env where "cut_off = quiet\<lparr>ev_Broken := (\<lambda>_. Some 0)\<rparr>"

definition later_row :: outbox_row where
  "later_row = sample_row\<lparr>ob_ID := 2, ob_TokenID := ''k'', ob_NextDeliveryAt := 6\<rparr>"

definition longer_queue :: database where
  "longer_queue = sample_queue\<lparr>db_outbox := [later_row, sample_row], db_seq := 2\<rparr>"

definition one_by_one :: TokenBlacklist where "one_by_one = sample_blacklist\<lparr>tb_BatchSize := 1\<rparr>"

theorem revocation_delivery_progress_witness:
  "let rows = set (db_outbox (wd_db (snd (run_state (processDue cut_off (\<lambda>_. False) one_by_one sample_port) (world_of longer_queue))))) in
     later_row \<in> rows \<and> (\<exists>y\<in>rows. ob_ID y = 1 \<and> ob_AttemptCount y = 1 \<and> ob_ClaimToken y = None \<and> ob_NextDeliveryAt y = 200 + Second)"
proof -
  have b: "retryBackoff one_by_one 0 = Second"
    by (simp add: retryBackoff_eq maxBackoff_def DurationOrDefault_def one_by_one_def sample_blacklist_def defaultTokenBlacklistMaxBackoff_def
        duration_defs)
  have d: "undisturbed cut_off" by (simp add: undisturbed_def cut_off_def)
  have c: "ev_Fault cut_off site = no_fault" "ev_Now cut_off site = 200" "ev_UUID cut_off site = ''u''" "ev_Broken cut_off site = Some 0" for site
    by (simp_all add: cut_off_def)
  have one: "blacklist_batchSize one_by_one = 1" by (simp add: blacklist_batchSize_def one_by_one_def)
  have queue: "outbox_inv longer_queue" "sample_row \<in> set (db_outbox longer_queue)" "later_row \<in> set (db_outbox longer_queue)"
    by (simp_all add: longer_queue_def outbox_inv_def later_row_def sample_queue_def sample_row_def)
  have ids: "due_ids 200 (Suc 0) (\<lambda>_. False) longer_queue = [1]"
    by (simp add: due_ids_def longer_queue_def later_row_def due_def sample_row_def)
  have later: "ob_ID later_row = 2" by (simp add: later_row_def)
  obtain x w' where run: "run_state (processDue cut_off (\<lambda>_. False) one_by_one sample_port) (world_of longer_queue) = (x, w')" by fastforce
  have "later_row \<in> set (db_outbox (wd_db w')) \<and> (\<exists>y\<in>set (db_outbox (wd_db w')). ob_ID y = 1 \<and> ob_AttemptCount y = 1
      \<and> ob_ClaimToken y = None \<and> ob_NextDeliveryAt y = 200 + Second)"
    using revocation_delivery_progress[OF d _ _ refl _ _ _ _ _ _ run, of sample_row] queue later
    by (auto simp: c one ids b IsZero_def zeroTime_def duration_defs sample_row_def[THEN arg_cong, of ob_AttemptCount])
  then show ?thesis by (simp add: run)
qed

section \<open>Reset mails\<close>

definition sample_job :: ForgotPasswordJob where
  "sample_job = \<lparr>fj_Email = ''b24040525@njupt.edu.cn'', fj_ClientIP = [], fj_UserAgent = []\<rparr>"

definition sample_mailer :: ForgotPassword where
  "sample_mailer = \<lparr>fp_Prefix = ''p'', fp_Lower = (\<lambda>r. r), fp_Audit = True\<rparr>"

definition sample_reset :: ResetPasswordInput where
  "sample_reset = \<lparr>rs_Email = ''b24040525@njupt.edu.cn'', rs_Code = ''000007'', rs_Password = ''hunter33'', rs_ClientIP = [], rs_UserAgent = []\<rparr>"

lemma sample_reset_sound: "sound_reset quiet sample_session sample_reset session_user"
proof -
  have "argon2_admissible 2 19456 1" by (simp add: argon2_admissible_def password_consts)
  then have "VerifyPassword sample_idkey (\<lambda>_ _ _ _. None) SlotFree sample_hasher ''hunter33'' sample_password_hash \<noteq> Inr ()"
    by (simp add: sample_password_hash_def VerifyPassword_encoded sample_idkey_def memoryHashKeyBytes_def passwordSaltBytes_def acquire_def)
  moreover obtain h where "hashPassword quiet sample_session ''hash password'' ''hunter33'' = Inr h"
    using HashPassword_Inr[of sample_idkey sample_random SlotFree sample_hasher "''hunter33''"]
    by (auto simp: hashPassword_def sample_session_def sample_crypto_def acquire_def sample_random_def)
  moreover have "us_State session_user \<noteq> UserStateDeleted" "us_PasswordHash session_user = sample_password_hash"
    by (simp_all add: session_user_def sample_user_def UserStateDeleted_def)
  ultimately show ?thesis
    by (simp add: sound_reset_def undisturbed_quiet sample_reset_def MinPasswordLength_def callerGone_def verifyPassword_def
        sample_session_def sample_crypto_def)
qed

theorem forgot_job_accounted_witness:
  "\<exists>w'. run_state (forgot_turn quiet sample_mailer) ((world_of session_store)\<lparr>wd_jobs := [sample_job]\<rparr>) = ((), w')
    \<and> wd_jobs w' = [] \<and> ml_Code (last (wd_mail w')) = ''000007''
    \<and> fst (run_state (ResetPassword quiet sample_session sample_reset) w') = Inr ''b24040525@njupt.edu.cn''"
proof -
  let ?w = "(world_of session_store)\<lparr>wd_jobs := [sample_job]\<rparr>"
  have user: "FindAuthUserByLoginIdentifier no_fault session_store ''b24040525@njupt.edu.cn'' = Inr session_user"
    by (simp add: FindAuthUserByLoginIdentifier_def session_store_def)
  have code: "pad6 7 = ''000007''" by code_simp
  obtain r where save: "SaveVerificationCode Delivered (ev_Millis quiet ''save code'') ''p'' VerificationPurposeResetPassword ''b24040525@njupt.edu.cn''
      ''000007'' forgotPasswordCodeTTL no_data = (Inr (), r)"
    by (simp add: SaveVerificationCode_def VerificationPurposeResetPassword_def forgotPasswordCodeTTL_def Milliseconds_def duration_defs Let_def
        max_int64_def)
  obtain w' where run: "run_state (forgot_turn quiet sample_mailer) ?w = ((), w')"
    and mail: "ml_Code (last (wd_mail w')) = ''000007''"
    and row: "map au_Success (db_audit (wd_db w')) = map au_Success (db_audit session_store) @ [True]"
    by (simp add: forgot_turn_def process_step_def take_job_def forgot_process_def sample_job_def user GenerateVerificationCode_def code
        run_writes sample_mailer_def sample_mailbox save SendVerificationCode_def forgot_audit_write_def CreateAuditLog_def forgot_audit_def)
  have email: "fj_Email sample_job = ''b24040525@njupt.edu.cn''" by (simp add: sample_job_def)
  have trail: "trail_row quiet sample_mailer x = [x]" for x by (simp add: trail_row_def sample_mailer_def no_fault_def)
  note account = forgot_job_accounted[OF undisturbed_quiet _ run, of sample_job "[]", unfolded email trail, simplified]
  have same: "ss_Prefix sample_session = fp_Prefix sample_mailer" "ss_Lower sample_session = fp_Lower sample_mailer" "ss_Lower sample_session = (\<lambda>r. r)"
    "rs_Code sample_reset = ''000007''" "rs_Email sample_reset = ''b24040525@njupt.edu.cn''"
    by (simp_all add: sample_session_def sample_mailer_def sample_reset_def)
  have clock: "ev_Millis quiet site = 0" for site by (simp add: quiet_def)
  have "wd_jobs w' = []" using account by blast
  moreover obtain c where "ml_Code (last (wd_mail w')) = c"
    and ok: "\<And>s ev' input. ss_Prefix s = fp_Prefix sample_mailer \<Longrightarrow> ss_Lower s = fp_Lower sample_mailer \<Longrightarrow> sound_reset ev' s input session_user
        \<Longrightarrow> ev_Net ev' ''verify code'' = Delivered \<Longrightarrow> ev_Millis ev' ''verify code'' < 300000 \<Longrightarrow> rs_Code input = c
        \<Longrightarrow> normalizeIdentifier (ss_Lower s) (rs_Email input) = ''b24040525@njupt.edu.cn''
        \<Longrightarrow> fst (run_state (ResetPassword ev' s input) w') = Inr ''b24040525@njupt.edu.cn''"
    using account row user sample_address_format by (auto simp: forgot_audit_def clock)
  ultimately show ?thesis
    using run mail ok[OF same(1,2) sample_reset_sound] by (auto simp: same sample_identifier clock)
qed

section \<open>Evictions\<close>

definition sample_eviction :: DeviceEviction where
  "sample_eviction = \<lparr>de_OperationID = ''op'', de_TokenHash = ''h1'', de_UserID = 7, de_ExpiresAt = 9, de_SourceFamily = ''f'', de_Evicted = ''f''\<rparr>"

definition sample_evictions :: DeviceEvictions where
  "sample_evictions = \<lparr>dw_Codec = \<lparr>cj_text = id, cj_text_decode = Some, cj_pair = snd, cj_pair_decode = (\<lambda>s. Some (0, s)),
     cj_eviction = de_Evicted, cj_eviction_decode = (\<lambda>_. Some sample_eviction)\<rparr>, dw_Prefix = ''p''\<rparr>"

definition sample_journal :: redis where
  "sample_journal = no_data\<lparr>rs_zset := [pending_key ''p'' \<mapsto> ([(9, ''m'')], None)]\<rparr>"

text \<open>The issuance that pushed the device out is stored, so the evicted session is ended.\<close>

theorem eviction_settled_witness:
  "\<exists>offset' w'. run_state (evictions_process quiet sample_evictions 0) ((world_of sample_store)\<lparr>wd_redis := sample_journal\<rparr>) = (offset', w')
     \<and> ''m'' \<notin> journal ''p'' (wd_redis w') \<and> family_dead ''f'' (wd_db w')"
proof -
  let ?w = "(world_of sample_store)\<lparr>wd_redis := sample_journal\<rparr>"
  have pre: "dw_Prefix sample_evictions = ''p''" and dec: "cj_eviction_decode (dw_Codec sample_evictions) ''m'' = Some sample_eviction"
    by (simp_all add: sample_evictions_def)
  have j: "lasting ''p'' sample_journal" "journal ''p'' sample_journal = {''m''}" "zset t (pending_key ''p'') sample_journal = [(9, ''m'')]" for t
    by (simp_all add: lasting_def journal_def sample_journal_def zset_def value_at_def entry_def alive_def)
  have "\<exists>db'. ResolveDeviceEviction no_fault 7 ''h1'' ''f'' ''f'' (9 * Second) 200 sample_store = ((True, None), db')"
    by (simp add: ResolveDeviceEviction_def Let_def transaction_no_fault resolveEvictionBody_def revokeFamily_no_fault)
      (simp add: sample_defs)
  then obtain w' where run: "run_state (evictions_process quiet sample_evictions 0) ?w = (0, w')"
    and acked: "wd_redis w' = cmd_zrem (ev_Millis quiet (eviction_site ''ack'' ''m'')) (pending_key ''p'') ''m'' sample_journal"
    by (auto simp: evictions_process_def PendingDeviceEvictions_def j pre dec run_writes Let_def sample_eviction_def AckDeviceEviction_def)
  then have gone: "''m'' \<notin> journal ''p'' (wd_redis w')" by (simp add: cmd_zrem_def j zset_write_def journal_def)
  have "(''h1'', 7, ''f'') \<in> refresh_ids sample_store" by (simp add: refresh_ids_def sample_store_def sample_refresh_def)
  then have "family_dead ''f'' (wd_db w')"
    using eviction_settled[OF undisturbed_quiet _ run, of "''m''"] gone dec by (auto simp: pre j sample_eviction_def)
  then show ?thesis using run gone by blast
qed

end
