(* ===== verification/Spec2Isabelle.thy ===== *)
theory Spec2Isabelle
  imports Token_Properties Revocation_Properties Admin_Properties Limiter Device_Properties Auth_Properties OAuth_Witnesses Alumni_Properties Retention_Worker_Properties Session_Witnesses Session_Workers_Witnesses
begin

text \<open>
  SAST Link is an OAuth 2.1 and OpenID Connect provider with its own first-party sessions. Its
  durable state lives in PostgreSQL behind the repositories of \<open>src/internal/repository\<close>, its
  short-lived state in Redis behind \<open>src/internal/redis\<close>; services combine the two, handlers and
  background workers call the services. This development models the core of that program as
  executable functions and proves what makes it correct.

  \<^bold>\<open>Foundations.\<close> \<open>Prelude\<close> holds the collections of rewrite rules, results of fallible functions and
  instants. Instants and durations are integers of nanoseconds, so that sums of the source never
  wrap. \<open>GoStrings\<close> models the parts of Go's \<open>strings\<close>, \<open>utf8\<close> and \<open>strconv\<close> the program uses on byte
  strings; \<open>Calendar\<close> the civil calendar of \<open>time\<close>; \<open>Rfc3339\<close> the timestamps of device records.

  \<^bold>\<open>Data and rules.\<close> \<open>Scope\<close> models \<open>scope/scope.go\<close>, \<open>Model\<close> the rows and the \<open>text[]\<close> codec of
  \<open>model/*.go\<close>, \<open>Validate\<close> the input rules of \<open>validate/*.go\<close>. Proved are the refinement of scope lists
  by sets, the round trips of the codecs, soundness of the accepted addresses and names, and the
  retirement rule at its calendar boundary. Tables of Unicode outside ASCII are parameters.

  \<^bold>\<open>Relational state.\<close> \<open>Database\<close> holds the tables as lists of rows and the shape of a transaction:
  a function from the state found under its locks to the committed state or an error, where a
  predicate \<open>fault\<close> decides which statements fail. \<open>Token_Store\<close> (\<open>repository/token.go\<close>),
  \<open>Consent_Store\<close> (\<open>oauth_authorization.go\<close>), \<open>Client_Store\<close> (\<open>oauth_client.go\<close>, the password writers of
  \<open>user.go\<close>, \<open>device_eviction.go\<close>), \<open>Outbox_Store\<close> (\<open>token_blacklist_outbox.go\<close>) and \<open>Retention\<close>
  (\<open>retention.go\<close>) model the operations statement by statement. \<open>Token_Invariant\<close> and \<open>Token_Rotation\<close>
  state the invariant of token families and prove that creation, rotation and revocation keep it.
  \<open>Store_Laws\<close> is the interface of an invariant of the store, interpreted for the token, consent
  and outbox invariants; \<open>Store_System\<close> is the transition system of all store operations, with the
  invariants transported to every reachable state. \<open>Token_Properties\<close> and \<open>Revocation_Properties\<close> state
  what follows: at most one live refresh token per family, replay detection with its grace window,
  finality and completeness of revocation, single use of authorization codes, silent authorization
  within the standing consent, durable delivery of revocations, errors without effects, progress.

  \<^bold>\<open>Redis state.\<close> \<open>Redis\<close> models keys with deadlines, the commands the program uses and the fate of an
  exchange (delivered, request lost, reply lost). \<open>Auth_Store\<close> models \<open>redis/auth_store.go\<close> with its Lua
  scripts as atomic functions, \<open>Limiter\<close> \<open>redis/limiter.go\<close>, \<open>Device_Store\<close> \<open>redis/device_store.go\<close> and
  \<open>redis/device_evictions.go\<close>. \<open>Auth_Store_Properties\<close> shows that keys never collide, that a
  verification code admits fewer than five wrong guesses, that a tombstone blocks cache refills,
  and that one-time values are used once; \<open>Limiter\<close> shows the admission counts of a window and
  recovery after it; \<open>Device_Properties\<close> shows the device cap in every reachable state and the
  durability of evictions.

  \<^bold>\<open>Accounts.\<close> \<open>Account_Store\<close> models \<open>repository/user.go\<close>, \<open>identity.go\<close>, \<open>identity_assignment.go\<close> and
  \<open>duplicate.go\<close>; \<open>Admin_Store\<close> and \<open>Admin_List\<close> model \<open>repository/admin_user.go\<close>; \<open>Alumni_Store\<close> models
  \<open>repository/alumni_request.go\<close> and \<open>Audit_Store\<close> models \<open>repository/audit_log.go\<close>. \<open>Account_Invariant\<close> states the
  uniqueness of identifiers, addresses and login identities and proves that every operation keeps
  it; \<open>Account_Properties\<close> and \<open>Alumni_Properties\<close> state what follows: an address or an external login
  names one account, an administrator is never locked out by the last edit, a listing pages without
  loss, the verdict of an alumni ticket is final and its account is created once. The transition
  system of \<open>Store_System\<close> has one rule for each of the 46 operations of these repositories, and its
  interface locales \<open>revocation_invariant\<close>, \<open>store_invariant\<close> and \<open>system_invariant\<close> are interpreted for
  every invariant of the store.

  \<^bold>\<open>Authentication.\<close> \<open>Base64\<close> models the URL-safe alphabet of \<open>encoding/base64\<close>, \<open>Auth_Primitives\<close> the
  package \<open>auth\<close>: PKCE, client secrets, password and refresh-token hashes, access tokens and ID tokens.
  \<open>Auth_Properties\<close> shows that issued tokens verify to the claims they were issued with, that a verifier
  accepts nothing unsigned, expired or of another kind, and that secrets verify.

  \<^bold>\<open>Services.\<close> \<open>Service_Base\<close> models a service call: a function of an environment (clock, randomness,
  faults, and the state other requests and sweeps leave between two of its own store calls) and of
  the world of store and Redis. \<open>OAuth_Service\<close> models \<open>service/oauth/*.go\<close>, \<open>tokenissue/issuer.go\<close> and
  \<open>adapter/redis/oauth/adapter.go\<close>: authorization, consent, silent consent, the token endpoint with
  both grants, revocation, grants, user info and discovery. \<open>Service_Evolution\<close> shows that each endpoint
  moves the store only by steps of \<open>Store_System\<close>, so that every invariant of the store holds around
  and during it; \<open>OAuth_Properties\<close> shows where a browser may be sent and what a redeemed code proves.
  \<open>Service_Samples\<close> and \<open>OAuth_Witnesses\<close> evaluate the endpoints on concrete worlds.
  \<open>Retention_Worker\<close> models the tick of \<open>worker/retention.go\<close> over the same base;
  \<open>Retention_Worker_Properties\<close> shows that a tick keeps every invariant and that the rounds over the
  derived states, which carry a cursor from tick to tick, end.

  \<^bold>\<open>Console.\<close> \<open>Admin_Service\<close> models the provisioning of accounts, \<open>CreateUser\<close> of
  \<open>service/adminuser/create.go\<close> with its input rules and audit rows; \<open>Admin_Properties\<close> shows the boundary
  of the manager role over provisioning and over the edits, closings and reopenings of \<open>Admin_Store\<close>.

  \<^bold>\<open>Sessions.\<close> \<open>Session_Base\<close>, \<open>Session_Service\<close> and \<open>Session_Account\<close> model \<open>service/session/*.go\<close> and
  \<open>adapter/redis/session\<close>: login with its lockout and throttling, renewal with the detection of replayed
  tokens, logout, devices, registration, verification codes and tickets, password reset and change,
  bound addresses and the profile edit. The world of a call carries, beside store and Redis, the cached
  built-in client, the mails sent and the queue of reset jobs. \<open>Session_Evolution\<close> shows that each use
  case moves the store by steps of \<open>Store_System\<close>; \<open>Session_Properties\<close> shows what a login proves, that a
  refresh token renews a session once, that a password change ends the sessions of the account and
  that a mailed code is good for one ticket. \<open>Auth_Middleware\<close> models \<open>web/middleware/auth.go\<close> and
  \<open>role.go\<close>; \<open>Middleware_Properties\<close> shows that an admitted principal stands for a live token of a live
  account, that tokens of other clients stay inside their scopes and that a logged-out token is
  dead in the store, queued for every cache and refused wherever no stale cache entry is left.
  \<open>Session_Workers\<close> models the passes of \<open>service/session/worker/*.go\<close>;
  \<open>Session_Workers_Properties\<close> shows that they refine the store, that a revocation is acknowledged only
  after its delivery and retried within a bounded time, that an eviction is settled only when its
  session is over or its expired issuance is not stored, and how every reset job ends. \<open>Session_Witnesses\<close> and
  \<open>Session_Workers_Witnesses\<close> evaluate all of this on concrete worlds.
  \<^bold>\<open>Bounds.\<close> No loop of the model uses fuel: recursion is structural or has a termination proof, and
  the transition systems quantify over all finite runs. Counters of Redis are kept in the range of
  64-bit integers, where the server reports an overflow; row identifiers and sequence numbers are
  unbounded integers, since the program never computes them near their width.

  \<^bold>\<open>Parameters.\<close> Code outside the repository is an argument of the definitions that use it: random
  identifiers, clock readings, hash functions, JSON codecs, the order in which PostgreSQL returns an
  unordered batch. What a theorem needs of such an argument is a hypothesis of the theorem.

  \<^bold>\<open>Not modelled.\<close> HTTP handlers and response rendering, configuration parsing, e-mail templates, image rendering,
  network clients of identity providers and object storage, metrics, migrations and process wiring
  are I/O or glue; the session-level advisory lock of the retention worker only selects which
  replica runs a sweep. The avatar upload rests on image codecs and an external content review, the
  third-party login on the answers of identity providers; the alumni service, the client
  console and the edit, close, reopen and list endpoints of the user console map requests to the
  modelled repositories and add mails and audit rows. The store calls of all of them are steps of
  \<open>Store_System\<close>, so the invariants hold around them; their own request logic is not modelled.
  \<open>RecomputeDerivedState\<close> is one call on the store, though the code reads its batch and then updates
  it in guarded statements; a listed row of the user console carries no creation and update times;
  a deletion inside the device scripts that fails under \<open>pcall\<close> is not a case of its own.
\<close>

end
